(* ===== verification/Prelude.thy ===== *)
theory Prelude
  imports Main "HOL-Library.List_Lexorder" "HOL-Library.Char_ord" "HOL-Library.Product_Lexorder"
begin

text \<open>
  Shared vocabulary of the development.  A Go string is a list of bytes (HOL's \<open>string\<close>), a fallible
  Go call returns a value of \<open>'e + 'a\<close> (\<open>Inl\<close> the error), an SQL table is the list of its rows, and
  an instant is an integer number of nanoseconds since the zero instant of Go's package time, so that
  \<open>t.IsZero()\<close> is \<open>t = 0\<close>.  The functions of the Go packages strings, strconv, unicode/utf8 and sort that the
  services call are defined here, with the lemmas every component uses.
\<close>

named_theorems step_simps \<open>equations of the operations of a component, unfolded when a step is computed\<close>
named_theorems row_simps \<open>rewrite rules of the table operations\<close>

type_synonym instant = int
type_synonym uuid = string

definition second :: int where
  "second = 1000000000"

definition minute :: int where
  "minute = 60 * second"

definition hour :: int where
  "hour = 60 * minute"

definition day :: int where
  "day = 24 * hour"

lemmas durations = second_def minute_def hour_def day_def

section \<open>Results\<close>

fun is_ok :: "'e + 'a \<Rightarrow> bool" where
  "is_ok (Inl e) = False"
| "is_ok (Inr x) = True"

lemma is_ok_iff: "is_ok r \<longleftrightarrow> (\<exists>x. r = Inr x)"
  by (cases r) auto

lemma not_ok_iff: "\<not> is_ok r \<longleftrightarrow> (\<exists>e. r = Inl e)"
  by (cases r) auto

text \<open>The first error of a list of checks, as a chain of early returns computes it.\<close>

fun check_all :: "('a \<Rightarrow> 'e + unit) \<Rightarrow> 'a list \<Rightarrow> 'e + unit" where
  "check_all f [] = Inr ()"
| "check_all f (x # xs) = (case f x of Inl e \<Rightarrow> Inl e | Inr u \<Rightarrow> check_all f xs)"

lemma check_all_ok [simp]: "is_ok (check_all f xs) \<longleftrightarrow> (\<forall>x \<in> set xs. is_ok (f x))"
  by (induction xs) (auto split: sum.splits)

lemma check_all_Inr: "check_all f xs = Inr u \<longleftrightarrow> (\<forall>x \<in> set xs. f x = Inr ())"
  by (induction xs) (auto split: sum.splits)

text \<open>A call whose success determines its result, followed by its continuation.\<close>

lemma bind_ok:
  assumes "\<And>x. r = Inr x \<longleftrightarrow> C \<and> x = t"
  shows "is_ok (case r of Inl e \<Rightarrow> Inl e | Inr x \<Rightarrow> f x) \<longleftrightarrow> C \<and> is_ok (f t)"
  using assms [of t] assms [of "projr r"] by (cases r) auto

section \<open>Bytes and UTF-8\<close>

definition byte :: "char \<Rightarrow> nat" where
  "byte c = of_char c"

definition chr :: "nat \<Rightarrow> char" where
  "chr n = char_of n"

definition cont_byte :: "char \<Rightarrow> bool" where
  "cont_byte c \<longleftrightarrow> 128 \<le> byte c \<and> byte c < 192"

text \<open>The width of the rune a string starts with, 0 when its first byte starts no valid encoding.\<close>

definition second_byte :: "nat \<Rightarrow> char \<Rightarrow> bool" where
  "second_byte x b \<longleftrightarrow> (if x = 224 then 160 else if x = 240 then 144 else 128) \<le> byte b
     \<and> byte b \<le> (if x = 237 then 159 else if x = 244 then 143 else 191)"

definition rune_width :: "string \<Rightarrow> nat" where
  "rune_width s = (case s of [] \<Rightarrow> 0 | a # r \<Rightarrow>
     (let x = byte a;
          second = (case r of b # _ \<Rightarrow> second_byte x b | [] \<Rightarrow> False);
          third = (case r of _ # c # _ \<Rightarrow> cont_byte c | _ \<Rightarrow> False);
          fourth = (case r of _ # _ # d # _ \<Rightarrow> cont_byte d | _ \<Rightarrow> False)
      in if x < 128 then 1
         else if 194 \<le> x \<and> x \<le> 223 then (if second then 2 else 0)
         else if 224 \<le> x \<and> x \<le> 239 then (if second \<and> third then 3 else 0)
         else if 240 \<le> x \<and> x \<le> 244 then (if second \<and> third \<and> fourth then 4 else 0)
         else 0))"

text \<open>Every invalid byte becomes U+FFFD, as package json writes a string.\<close>

function utf8_coerce :: "string \<Rightarrow> string" where
  "utf8_coerce [] = []"
| "utf8_coerce (a # s) =
     (let w = rune_width (a # s)
      in if w = 0 then chr 239 # chr 191 # chr 189 # utf8_coerce s
         else take w (a # s) @ utf8_coerce (drop (w - 1) s))"
  by pat_completeness auto
termination by (relation "measure length") auto

definition utf8_valid :: "string \<Rightarrow> bool" where
  "utf8_valid s \<longleftrightarrow> utf8_coerce s = s"

definition ascii :: "string \<Rightarrow> bool" where
  "ascii s \<longleftrightarrow> (\<forall>c \<in> set s. byte c < 128)"

lemma rune_width_ascii: "byte a < 128 \<Longrightarrow> rune_width (a # s) = 1"
  by (simp add: rune_width_def Let_def)

lemma utf8_coerce_ascii: "ascii s \<Longrightarrow> utf8_coerce s = s"
  by (induction s) (auto simp: ascii_def rune_width_ascii)

lemma utf8_valid_ascii: "ascii s \<Longrightarrow> utf8_valid s"
  by (simp add: utf8_valid_def utf8_coerce_ascii)

lemma utf8_coerce_ascii_append: "ascii s \<Longrightarrow> utf8_coerce (s @ t) = s @ utf8_coerce t"
  by (induction s) (auto simp: ascii_def rune_width_ascii)

lemma utf8_valid_ascii_append: "ascii s \<Longrightarrow> utf8_valid t \<Longrightarrow> utf8_valid (s @ t)"
  by (simp add: utf8_valid_def utf8_coerce_ascii_append)

lemma rune_width_le: "rune_width s \<le> length s"
  by (auto simp: rune_width_def Let_def split: list.splits)

lemma rune_width_append: "rune_width s \<noteq> 0 \<Longrightarrow> rune_width (s @ t) = rune_width s"
proof -
  assume n: "rune_width s \<noteq> 0"
  consider "s = []" | a where "s = [a]" | a b where "s = [a, b]" | a b c where "s = [a, b, c]" | a b c d r where "s = a # b # c # d # r"
    by (metis list.exhaust)
  then show "rune_width (s @ t) = rune_width s"
    by cases (use n in \<open>simp_all add: rune_width_def Let_def split: if_split_asm\<close>)
qed

lemma utf8_coerce_length: "length s \<le> length (utf8_coerce s)"
proof (induction s rule: utf8_coerce.induct)
  case (2 a s)
  show ?case
  proof (cases "rune_width (a # s) = 0")
    case False
    then show ?thesis using 2(2) [OF refl False] rune_width_le [of "a # s"] by (simp add: Let_def)
  qed (use 2 in simp)
qed simp

lemma utf8_valid_Cons:
  assumes "utf8_valid (a # s)"
  shows "rune_width (a # s) \<noteq> 0" and "utf8_valid (drop (rune_width (a # s) - 1) s)"
proof -
  show w: "rune_width (a # s) \<noteq> 0"
  proof
    assume "rune_width (a # s) = 0"
    then have "utf8_coerce (a # s) = chr 239 # chr 191 # chr 189 # utf8_coerce s" by simp
    then show False
      using assms utf8_coerce_length [of s] unfolding utf8_valid_def by (metis add_le_same_cancel1 impossible_Cons le_SucI length_Cons list.size(4) not_less_eq_eq)
  qed
  have "take (rune_width (a # s)) (a # s) @ utf8_coerce (drop (rune_width (a # s) - 1) s) = a # s"
    using assms w by (simp add: utf8_valid_def Let_def)
  moreover have "a # s = take (rune_width (a # s)) (a # s) @ drop (rune_width (a # s) - 1) s"
    using w by (cases "rune_width (a # s)") auto
  ultimately show "utf8_valid (drop (rune_width (a # s) - 1) s)"
    unfolding utf8_valid_def by (metis same_append_eq)
qed

lemma utf8_coerce_append: "utf8_valid s \<Longrightarrow> utf8_coerce (s @ t) = s @ utf8_coerce t"
proof (induction s rule: utf8_coerce.induct)
  case (2 a s)
  let ?w = "rune_width (a # s)"
  note v = utf8_valid_Cons [OF 2(3)]
  have w: "rune_width (a # s @ t) = ?w" using rune_width_append [of "a # s" t] v(1) by simp
  have l: "?w - 1 \<le> length s" using rune_width_le [of "a # s"] by simp
  have "utf8_coerce (drop (?w - 1) s @ t) = drop (?w - 1) s @ utf8_coerce t"
    using 2(2) [OF refl v(1)] v(2) by simp
  moreover have "take ?w (a # s) @ drop (?w - 1) s = a # s" using v(1) by (cases ?w) auto
  moreover have "take ?w (a # s @ t) = take ?w (a # s)" "drop (?w - 1) (s @ t) = drop (?w - 1) s @ t"
    using l v(1) by (cases ?w; simp)+
  ultimately show ?case using w v(1) by (simp add: Let_def)
qed simp

lemma utf8_valid_append: "utf8_valid s \<Longrightarrow> utf8_valid t \<Longrightarrow> utf8_valid (s @ t)"
  by (simp add: utf8_valid_def utf8_coerce_append [unfolded utf8_valid_def])

section \<open>Package strings\<close>

definition has_prefix :: "string \<Rightarrow> string \<Rightarrow> bool" where
  "has_prefix s p \<longleftrightarrow> take (length p) s = p"

definition has_suffix :: "string \<Rightarrow> string \<Rightarrow> bool" where
  "has_suffix s p \<longleftrightarrow> has_prefix (rev s) (rev p)"

definition trim_prefix :: "string \<Rightarrow> string \<Rightarrow> string" where
  "trim_prefix s p = (if has_prefix s p then drop (length p) s else s)"

definition trim_suffix :: "string \<Rightarrow> string \<Rightarrow> string" where
  "trim_suffix s p = (if has_suffix s p then take (length s - length p) s else s)"

text \<open>The encodings of the runes \<open>unicode.IsSpace\<close> accepts.\<close>

definition spaces :: "string list" where
  "spaces = map (map chr)
     ([[9], [10], [11], [12], [13], [32], [194, 133], [194, 160], [225, 154, 128]]
      @ map (\<lambda>n. [226, 128, n]) [128, 129, 130, 131, 132, 133, 134, 135, 136, 137, 138, 168, 169, 175]
      @ [[226, 129, 159], [227, 128, 128]])"

text \<open>The length of the space a string starts with, given the list of encodings; 0 for none.\<close>

definition space_len :: "string list \<Rightarrow> string \<Rightarrow> nat" where
  "space_len ps s = (case List.find (\<lambda>p. has_prefix s p) ps of Some p \<Rightarrow> length p | None \<Rightarrow> 0)"

function strip_left :: "string list \<Rightarrow> string \<Rightarrow> string" where
  "strip_left ps s = (let n = space_len ps s in if n = 0 \<or> s = [] then s else strip_left ps (drop n s))"
  by pat_completeness auto
termination by (relation "measure (\<lambda>(ps, s). length s)") auto

declare strip_left.simps [simp del]

definition TrimSpace :: "string \<Rightarrow> string" where
  "TrimSpace s = rev (strip_left (map rev spaces) (rev (strip_left spaces s)))"

fun to_lower_char :: "char \<Rightarrow> char" where
  "to_lower_char c = (if 65 \<le> byte c \<and> byte c \<le> 90 then chr (byte c + 32) else c)"

fun to_upper_char :: "char \<Rightarrow> char" where
  "to_upper_char c = (if 97 \<le> byte c \<and> byte c \<le> 122 then chr (byte c - 32) else c)"

fun split_on :: "char \<Rightarrow> string \<Rightarrow> string list" where
  "split_on d [] = [[]]"
| "split_on d (c # s) =
     (if c = d then [] # split_on d s
      else (case split_on d s of p # ps \<Rightarrow> (c # p) # ps | [] \<Rightarrow> [[c]]))"

fun join_with :: "string \<Rightarrow> string list \<Rightarrow> string" where
  "join_with d [] = []"
| "join_with d [s] = s"
| "join_with d (s # t # r) = s @ d @ join_with d (t # r)"

fun contains_sub :: "string \<Rightarrow> string \<Rightarrow> bool" where
  "contains_sub [] p = (p = [])"
| "contains_sub (c # s) p = (has_prefix (c # s) p \<or> contains_sub s p)"

lemma split_on_nonempty [simp]: "split_on d s \<noteq> []"
  by (induction s) (auto split: list.splits)

lemma split_on_no_sep: "d \<notin> set s \<Longrightarrow> split_on d s = [s]"
  by (induction s) auto

lemma split_on_append: "d \<notin> set s \<Longrightarrow> split_on d (s @ d # t) = s # split_on d t"
  by (induction s) (auto split: list.splits)

lemma has_prefix_append [simp]: "has_prefix (p @ s) p"
  by (simp add: has_prefix_def)

lemma trim_prefix_append [simp]: "trim_prefix (p @ s) p = s"
  by (simp add: trim_prefix_def)

subsection \<open>TrimSpace on strings without space at the ends\<close>

lemma spaces_first: "p \<in> set spaces \<Longrightarrow> p \<noteq> [] \<and> byte (hd p) \<in> {9, 10, 11, 12, 13, 32, 194, 225, 226, 227}"
  by (auto simp: spaces_def byte_def chr_def)

lemma spaces_last: "p \<in> set spaces \<Longrightarrow> p \<noteq> [] \<and> (byte (last p) < 33 \<or> 128 \<le> byte (last p))"
  by (auto simp: spaces_def byte_def chr_def)

lemma space_len_0: "(\<And>p. p \<in> set ps \<Longrightarrow> \<not> has_prefix s p) \<Longrightarrow> space_len ps s = 0"
  by (auto simp: space_len_def find_None_iff split: option.splits dest!: find_Some_iff [THEN iffD1])

lemma strip_left_id: "(\<And>p. p \<in> set ps \<Longrightarrow> \<not> has_prefix s p) \<Longrightarrow> strip_left ps s = s"
  by (subst strip_left.simps) (simp add: space_len_0)

lemma has_prefix_hd: "has_prefix s p \<Longrightarrow> p \<noteq> [] \<Longrightarrow> s \<noteq> [] \<and> hd s = hd p"
  by (cases s; cases p) (auto simp: has_prefix_def)

definition graphic :: "char \<Rightarrow> bool" where
  "graphic c \<longleftrightarrow> 32 < byte c \<and> byte c < 128"

lemma strip_left_graphic:
  assumes "s \<noteq> []" and "graphic (hd s)"
  shows "strip_left spaces s = s"
proof (rule strip_left_id)
  fix p assume p: "p \<in> set spaces"
  show "\<not> has_prefix s p"
    using has_prefix_hd [of s p] spaces_first [OF p] assms by (auto simp: graphic_def)
qed

lemma strip_right_graphic:
  assumes "s \<noteq> []" and "graphic (last s)"
  shows "strip_left (map rev spaces) (rev s) = rev s"
proof (rule strip_left_id)
  fix q assume "q \<in> set (map rev spaces)"
  then obtain p where p: "p \<in> set spaces" and q: "q = rev p" by auto
  show "\<not> has_prefix (rev s) q"
    using has_prefix_hd [of "rev s" q] spaces_last [OF p] assms q
    by (auto simp: graphic_def hd_rev)
qed

lemma TrimSpace_graphic:
  assumes "s \<noteq> []" and "graphic (hd s)" and "graphic (last s)"
  shows "TrimSpace s = s"
  using assms by (simp add: TrimSpace_def strip_left_graphic strip_right_graphic)

lemma strip_left_Nil [simp]: "strip_left ps [] = []"
  by (subst strip_left.simps) (simp add: Let_def)

lemma TrimSpace_Nil [simp]: "TrimSpace [] = []"
  by (simp add: TrimSpace_def)

lemma strip_left_suffix: "\<exists>u. s = u @ strip_left ps s"
proof (induction ps s rule: strip_left.induct)
  case (1 ps s)
  show ?case
  proof (cases "space_len ps s = 0 \<or> s = []")
    case True
    then show ?thesis by (subst strip_left.simps) (simp add: Let_def)
  next
    case False
    then obtain u where "drop (space_len ps s) s = u @ strip_left ps (drop (space_len ps s) s)"
      using 1 by auto
    then have "s = (take (space_len ps s) s @ u) @ strip_left ps (drop (space_len ps s) s)"
      by (metis append_assoc append_take_drop_id)
    moreover have "strip_left ps s = strip_left ps (drop (space_len ps s) s)"
      using False by (subst strip_left.simps) (simp add: Let_def)
    ultimately show ?thesis by metis
  qed
qed

text \<open>A string whose first or last byte is graphic does not trim to the empty string.\<close>

lemma strip_left_keeps:
  assumes "\<And>p. p \<in> set ps \<Longrightarrow> p = [] \<or> \<not> graphic (last p)"
  shows "t \<noteq> [] \<Longrightarrow> graphic (last t) \<Longrightarrow> strip_left ps t \<noteq> []"
proof (induction "length t" arbitrary: t rule: less_induct)
  case less
  let ?n = "space_len ps t"
  show ?case
  proof (cases "?n = 0")
    case True
    then show ?thesis using less.prems by (subst strip_left.simps) simp
  next
    case False
    then obtain q where q: "List.find (has_prefix t) ps = Some q" "?n = length q"
      by (auto simp: space_len_def split: option.splits)
    then have qp: "q \<in> set ps" "has_prefix t q" by (auto simp: find_Some_iff)
    have "length q < length t"
    proof (rule ccontr)
      assume "\<not> length q < length t"
      then have "t = q" using qp by (metis has_prefix_def linorder_not_less take_all take_all_iff nle_le length_take min.absorb1)
      then show False using assms [OF qp(1)] less.prems by simp
    qed
    then have "strip_left ps (drop ?n t) \<noteq> []" using less False q by (auto simp: last_drop)
    then show ?thesis using False less.prems by (subst strip_left.simps) (simp add: Let_def)
  qed
qed

lemma TrimSpace_nonblank:
  assumes "s \<noteq> []" and "graphic (hd s)"
  shows "TrimSpace s \<noteq> []"
proof -
  have l: "q = [] \<or> \<not> graphic (last q)" if "q \<in> set (map rev spaces)" for q
  proof -
    have "q \<in> rev ` set spaces" using that by simp
    then obtain p where "p \<in> set spaces" "q = rev p" by blast
    then show ?thesis using spaces_first [of p] by (auto simp: graphic_def last_rev)
  qed
  have "strip_left (map rev spaces) (rev s) \<noteq> []"
    by (rule strip_left_keeps [OF l]) (use assms in \<open>simp_all add: last_rev\<close>)
  then show ?thesis using assms by (simp add: TrimSpace_def strip_left_graphic)
qed

lemma TrimSpace_nonblank_last:
  assumes "s \<noteq> []" and "graphic (last s)"
  shows "TrimSpace s \<noteq> []"
proof -
  have n: "strip_left spaces s \<noteq> []"
  proof (rule strip_left_keeps)
    show "p = [] \<or> \<not> graphic (last p)" if "p \<in> set spaces" for p using spaces_last [OF that] by (auto simp: graphic_def)
  qed (use assms in simp_all)
  obtain u where "s = u @ strip_left spaces s" using strip_left_suffix by blast
  then have "last (strip_left spaces s) = last s" using n by (metis last_appendR)
  then show ?thesis using n assms by (simp add: TrimSpace_def strip_right_graphic)
qed

lemma byte_Char [simp]: "byte (Char a b c d e f g h) = of_char (Char a b c d e f g h)"
  by (simp add: byte_def)

lemma graphic_Char [simp]:
  "graphic (Char a b c d e f g h) \<longleftrightarrow> 32 < (of_char (Char a b c d e f g h) :: nat) \<and> (of_char (Char a b c d e f g h) :: nat) < 128"
  by (simp add: graphic_def byte_def)

lemma TrimSpace_Cons [simp]: "graphic c \<Longrightarrow> TrimSpace (c # s) \<noteq> []"
  by (rule TrimSpace_nonblank) simp_all

section \<open>Decimal text\<close>

fun nat_digits :: "nat \<Rightarrow> string" where
  "nat_digits n = (if n < 10 then [chr (48 + n)] else nat_digits (n div 10) @ [chr (48 + n mod 10)])"

declare nat_digits.simps [simp del]

definition itoa :: "int \<Rightarrow> string" where
  "itoa i = (if i < 0 then CHR ''-'' # nat_digits (nat (- i)) else nat_digits (nat i))"

lemma digit_byte: "d < 10 \<Longrightarrow> byte (chr (48 + d)) = 48 + d"
  by (simp add: byte_def chr_def)

lemma nat_digits_digits: "c \<in> set (nat_digits n) \<Longrightarrow> 48 \<le> byte c \<and> byte c \<le> 57"
proof (induction n rule: nat_digits.induct)
  case (1 n)
  show ?case
  proof (cases "n < 10")
    case True
    then show ?thesis using 1 by (simp add: nat_digits.simps [of n] digit_byte)
  next
    case False
    have "byte (chr (48 + n mod 10)) = 48 + n mod 10" by (rule digit_byte) simp
    then show ?thesis using 1 False by (auto simp: nat_digits.simps [of n])
  qed
qed

lemma nat_digits_nonempty [simp]: "nat_digits n \<noteq> []"
  by (subst nat_digits.simps) simp

definition digits_value :: "string \<Rightarrow> nat" where
  "digits_value s = foldl (\<lambda>v c. 10 * v + (byte c - 48)) 0 s"

lemma digits_value_nat_digits [simp]: "digits_value (nat_digits n) = n"
proof (induction n rule: nat_digits.induct)
  case (1 n)
  have d: "byte (chr (48 + n mod 10)) = 48 + n mod 10" by (rule digit_byte) simp
  show ?case
    using 1 d by (subst nat_digits.simps) (auto simp: digits_value_def digit_byte)
qed

lemma nat_digits_inj: "nat_digits m = nat_digits n \<longleftrightarrow> m = n"
  using digits_value_nat_digits by metis

lemma itoa_no_colon: "c \<in> set (itoa i) \<Longrightarrow> byte c = 45 \<or> (48 \<le> byte c \<and> byte c \<le> 57)"
  by (auto simp: itoa_def byte_def dest: nat_digits_digits split: if_splits)

lemma itoa_inj: "itoa i = itoa j \<longleftrightarrow> i = j"
proof
  assume e: "itoa i = itoa j"
  have m: "CHR ''-'' \<notin> set (nat_digits n)" for n
    using nat_digits_digits [of "CHR ''-''" n] by (auto simp: byte_def)
  show "i = j"
  proof (cases "i < 0")
    case True
    have "j < 0"
    proof (rule ccontr)
      assume "\<not> j < 0"
      then have "CHR ''-'' # nat_digits (nat (- i)) = nat_digits (nat j)" using e True by (simp add: itoa_def)
      then show False using m by (metis list.set_intros(1))
    qed
    then show ?thesis using e True by (simp add: itoa_def nat_digits_inj)
  next
    case False
    have "\<not> j < 0"
    proof
      assume "j < 0"
      then have "nat_digits (nat i) = CHR ''-'' # nat_digits (nat (- j))" using e False by (simp add: itoa_def)
      then show False using m by (metis list.set_intros(1))
    qed
    then show ?thesis using e False by (simp add: itoa_def nat_digits_inj)
  qed
qed simp

lemma ascii_append [simp]: "ascii (s @ t) \<longleftrightarrow> ascii s \<and> ascii t"
  by (auto simp: ascii_def)

lemma ascii_Nil [simp]: "ascii []"
  by (simp add: ascii_def)

lemma ascii_Cons [simp]: "ascii (c # s) \<longleftrightarrow> byte c < 128 \<and> ascii s"
  by (simp add: ascii_def)

lemma ascii_itoa [simp]: "ascii (itoa i)"
  by (auto simp: ascii_def dest!: itoa_no_colon)

section \<open>Bounded trails\<close>

text \<open>The last \<open>n\<close> elements, as the services cut an event trail with \<open>trail[len(trail)-n:]\<close>.\<close>

definition last_n :: "nat \<Rightarrow> 'a list \<Rightarrow> 'a list" where
  "last_n n xs = drop (length xs - n) xs"

lemma length_last_n [simp]: "length (last_n n xs) = min n (length xs)"
  by (simp add: last_n_def)

lemma last_n_short: "length xs \<le> n \<Longrightarrow> last_n n xs = xs"
  by (simp add: last_n_def)

lemma set_last_n: "x \<in> set (last_n n xs) \<Longrightarrow> x \<in> set xs"
  unfolding last_n_def by (rule in_set_dropD)

lemma last_last_n: "xs \<noteq> [] \<Longrightarrow> 0 < n \<Longrightarrow> last (last_n n xs) = last xs"
  by (simp add: last_n_def)

lemma last_n_idem: "last_n n (last_n n xs) = last_n n xs"
  by (simp add: last_n_short)

section \<open>Tables\<close>

definition upd_where :: "('r \<Rightarrow> bool) \<Rightarrow> ('r \<Rightarrow> 'r) \<Rightarrow> 'r list \<Rightarrow> 'r list" where
  "upd_where P f rows = map (\<lambda>r. if P r then f r else r) rows"

definition del_where :: "('r \<Rightarrow> bool) \<Rightarrow> 'r list \<Rightarrow> 'r list" where
  "del_where P rows = filter (\<lambda>r. \<not> P r) rows"

definition row_with :: "('r \<Rightarrow> 'k) \<Rightarrow> 'k \<Rightarrow> 'r list \<Rightarrow> 'r option" where
  "row_with key k rows = List.find (\<lambda>r. key r = k) rows"

lemma row_with_Nil [row_simps, simp]: "row_with key k [] = None"
  by (simp add: row_with_def)

lemma row_with_Cons [row_simps, simp]: "row_with key k (r # rows) = (if key r = k then Some r else row_with key k rows)"
  by (simp add: row_with_def)

lemma row_with_SomeD: "row_with key k rows = Some r \<Longrightarrow> r \<in> set rows \<and> key r = k"
  by (induction rows) (auto split: if_splits)

lemma row_with_None: "row_with key k rows = None \<longleftrightarrow> k \<notin> key ` set rows"
  by (induction rows) auto

lemma row_with_distinct:
  "distinct (map key rows) \<Longrightarrow> r \<in> set rows \<Longrightarrow> row_with key (key r) rows = Some r"
  by (induction rows) auto

lemma row_with_append [row_simps]:
  "row_with key k (xs @ ys) = (case row_with key k xs of Some r \<Rightarrow> Some r | None \<Rightarrow> row_with key k ys)"
  by (induction xs) auto

lemma upd_where_Nil [row_simps, simp]: "upd_where P f [] = []"
  by (simp add: upd_where_def)

lemma upd_where_Cons [row_simps, simp]:
  "upd_where P f (r # rows) = (if P r then f r else r) # upd_where P f rows"
  by (simp add: upd_where_def)

lemma length_upd_where [simp]: "length (upd_where P f rows) = length rows"
  by (simp add: upd_where_def)

lemma upd_where_none: "(\<And>r. r \<in> set rows \<Longrightarrow> \<not> P r) \<Longrightarrow> upd_where P f rows = rows"
  by (induction rows) auto

lemma map_key_upd_where:
  "(\<And>r. r \<in> set rows \<Longrightarrow> P r \<Longrightarrow> key (f r) = key r) \<Longrightarrow> map key (upd_where P f rows) = map key rows"
  by (induction rows) auto

lemma set_upd_where: "set (upd_where P f rows) = (\<lambda>r. if P r then f r else r) ` set rows"
  by (simp add: upd_where_def)

lemma row_with_upd_where:
  "(\<And>r. key (f r) = key r) \<Longrightarrow>
   row_with key k (upd_where P f rows) = map_option (\<lambda>r. if P r then f r else r) (row_with key k rows)"
  by (induction rows) auto

lemma row_with_upd_key:
  "(\<And>r. key (f r) = key r) \<Longrightarrow>
   row_with key k (upd_where (\<lambda>r. key r = j) f rows)
   = (if k = j then map_option f (row_with key k rows) else row_with key k rows)"
  by (induction rows) auto

lemma del_where_set [simp]: "set (del_where P rows) = {r \<in> set rows. \<not> P r}"
  by (auto simp: del_where_def)

lemma distinct_del_where: "distinct (map key rows) \<Longrightarrow> distinct (map key (del_where P rows))"
  by (simp add: del_where_def distinct_map_filter)

end
