(* ===== verification/Json.thy ===== *)
theory Json
  imports Prelude Complex_Main
begin

text \<open>
  The Go type \<open>any\<close> as the services use it in configuration payloads, the comma-ok type assertions on it, and the
  two directions of package encoding/json: \<open>json_text\<close> is \<open>json.Marshal\<close> and \<open>through_json\<close> is
  \<open>json.Marshal\<close> followed by \<open>json.Unmarshal\<close> into \<open>any\<close>, where every number comes back as a float64.
  A \<open>map[string]any\<close> is the association list of its entries with distinct keys; a float64 is the rational it stands
  for (a JSON text yields no infinity, no NaN; a negative zero is identified with zero).
\<close>

datatype any =
    ANil
  | ABool bool
  | AInt int
  | AInt64 int
  | AFloat rat
  | AStr string
  | AArr "any list"
  | AObj "(string \<times> any) list"

type_synonym obj = "(string \<times> any) list"

section \<open>Type assertions and map access\<close>

fun as_bool :: "any \<Rightarrow> bool option" where
  "as_bool (ABool b) = Some b"
| "as_bool _ = None"

fun as_str :: "any \<Rightarrow> string option" where
  "as_str (AStr s) = Some s"
| "as_str _ = None"

fun as_arr :: "any \<Rightarrow> any list option" where
  "as_arr (AArr xs) = Some xs"
| "as_arr _ = None"

fun as_obj :: "any \<Rightarrow> obj option" where
  "as_obj (AObj m) = Some m"
| "as_obj _ = None"

fun_cases as_boolE: "as_bool v = Some b"
fun_cases as_strE: "as_str v = Some s"
fun_cases as_arrE: "as_arr v = Some xs"
fun_cases as_objE: "as_obj v = Some m"

text \<open>\<open>m[k]\<close>: the zero value of \<open>any\<close> for a missing key.\<close>

definition idx :: "obj \<Rightarrow> string \<Rightarrow> any" where
  "idx m k = (case map_of m k of Some v \<Rightarrow> v | None \<Rightarrow> ANil)"

definition has_key :: "obj \<Rightarrow> string \<Rightarrow> bool" where
  "has_key m k \<longleftrightarrow> map_of m k \<noteq> None"

text \<open>\<open>m[k] = v\<close>.\<close>

fun set_key :: "string \<Rightarrow> any \<Rightarrow> obj \<Rightarrow> obj" where
  "set_key k v [] = [(k, v)]"
| "set_key k v ((k', v') # m) = (if k' = k then (k, v) # m else (k', v') # set_key k v m)"

lemma map_of_set_key: "map_of (set_key k v m) = (map_of m)(k \<mapsto> v)"
  by (induction k v m rule: set_key.induct) auto

lemma idx_set_key [simp]: "idx (set_key k v m) j = (if j = k then v else idx m j)"
  by (simp add: idx_def map_of_set_key)

lemma has_key_set_key [simp]: "has_key (set_key k v m) j \<longleftrightarrow> j = k \<or> has_key m j"
  by (simp add: has_key_def map_of_set_key)

lemma fst_set_set_key: "fst ` set (set_key k v m) = insert k (fst ` set m)"
  by (induction k v m rule: set_key.induct) auto

lemma distinct_set_key: "distinct (map fst m) \<Longrightarrow> distinct (map fst (set_key k v m))"
proof (induction k v m rule: set_key.induct)
  case (2 k v k' v' m)
  then show ?case using fst_set_set_key [of k v m] by auto
qed simp

lemma idx_Nil [simp]: "idx [] k = ANil"
  by (simp add: idx_def)

lemma idx_Cons [simp]: "idx ((j, v) # m) k = (if j = k then v else idx m k)"
  by (simp add: idx_def)

lemma has_key_Nil [simp]: "\<not> has_key [] k"
  by (simp add: has_key_def)

lemma has_key_Cons [simp]: "has_key ((j, v) # m) k \<longleftrightarrow> j = k \<or> has_key m k"
  by (simp add: has_key_def)

lemma idx_mapsnd: "f ANil = ANil \<Longrightarrow> idx (map (\<lambda>(k, v). (k, f v)) m) j = f (idx m j)"
  by (induction m) auto

lemma has_key_mapsnd: "has_key (map (\<lambda>(k, v). (k, f v)) m) j = has_key m j"
  by (induction m) auto

section \<open>float64\<close>

fun bit_length :: "nat \<Rightarrow> nat" where
  "bit_length n = (if n = 0 then 0 else Suc (bit_length (n div 2)))"

declare bit_length.simps [simp del]

definition pow_rat :: "rat \<Rightarrow> int \<Rightarrow> rat" where
  "pow_rat b e = (if 0 \<le> e then b ^ nat e else 1 / b ^ nat (- e))"

definition half_even :: "rat \<Rightarrow> int" where
  "half_even q = (let f = \<lfloor>q\<rfloor>; r = q - of_int f
     in if r < 1/2 then f else if 1/2 < r then f + 1 else if even f then f else f + 1)"

definition floor_log2 :: "rat \<Rightarrow> int" where
  "floor_log2 q = (let (a, b) = quotient_of q; l = int (bit_length (nat a)) - int (bit_length (nat b))
     in if pow_rat 2 l \<le> q then l else l - 1)"

definition floor_log10 :: "rat \<Rightarrow> int" where
  "floor_log10 q = (let (a, b) = quotient_of q;
        l = int (length (nat_digits (nat a))) - int (length (nat_digits (nat b)))
     in if pow_rat 10 l \<le> q then l else l - 1)"

text \<open>The float64 nearest to a positive rational, ties to even.\<close>

definition round64 :: "rat \<Rightarrow> rat" where
  "round64 q = (if q = 0 then 0 else let e = max (- 1074) (floor_log2 q - 52)
     in of_int (half_even (q / pow_rat 2 e)) * pow_rat 2 e)"

text \<open>The conversion of an integer: exact up to \<open>2 ^ 53\<close>, rounded above.\<close>

definition int_float :: "int \<Rightarrow> rat" where
  "int_float n = (if \<bar>n\<bar> \<le> 2 ^ 53 then of_int n
     else if n < 0 then - round64 (of_int (- n)) else round64 (of_int n))"

text \<open>The shortest decimal digits that read back as the same float64: the first of 1 to 17 digits that does.\<close>

definition shortest_dec :: "rat \<Rightarrow> nat \<times> int" where
  "shortest_dec q = (let cand = (\<lambda>n. let k = floor_log10 q - int n + 1 in (nat (half_even (q / pow_rat 10 k)), k));
        ok = (\<lambda>n. case cand n of (d, k) \<Rightarrow> round64 (of_nat d * pow_rat 10 k) = q)
     in case List.find ok [1..<18] of Some n \<Rightarrow> cand n | None \<Rightarrow> cand 17)"

definition strip_zeros :: "string \<Rightarrow> string" where
  "strip_zeros s = rev (dropWhile (\<lambda>c. c = CHR ''0'') (rev s))"

text \<open>How package json writes a positive float64: plain between 1e-6 and 1e21, with an exponent outside.\<close>

definition pos_float_text :: "rat \<Rightarrow> string" where
  "pos_float_text q = (let (d, k) = shortest_dec q; ds = nat_digits d; x = floor_log10 (of_nat d * pow_rat 10 k)
     in if 1 / 10 ^ 6 \<le> q \<and> q < 10 ^ 21
        then (if 0 \<le> k then ds @ replicate (nat k) CHR ''0''
              else if 0 \<le> x
              then take (nat (x + 1)) ds @
                   (case strip_zeros (drop (nat (x + 1)) ds) of [] \<Rightarrow> [] | f \<Rightarrow> CHR ''.'' # f)
              else ''0.'' @ replicate (nat (- x - 1)) CHR ''0'' @ strip_zeros ds)
        else hd ds # (case strip_zeros (tl ds) of [] \<Rightarrow> [] | f \<Rightarrow> CHR ''.'' # f)
             @ (if x < 0 then ''e-'' @ itoa (- x) else ''e+'' @ itoa x))"

definition float_text :: "rat \<Rightarrow> string" where
  "float_text q = (if q = of_int \<lfloor>q\<rfloor> \<and> \<bar>\<lfloor>q\<rfloor>\<bar> \<le> 2 ^ 53 then itoa \<lfloor>q\<rfloor>
     else if q < 0 then CHR ''-'' # pos_float_text (- q) else pos_float_text q)"

lemma int_float_small [simp]: "\<bar>n\<bar> \<le> 2 ^ 53 \<Longrightarrow> int_float n = of_int n"
  by (simp add: int_float_def)

lemma float_text_small: "\<bar>n\<bar> \<le> 2 ^ 53 \<Longrightarrow> float_text (of_int n) = itoa n"
  by (simp add: float_text_def)

section \<open>json.Marshal\<close>

definition hex_digit :: "nat \<Rightarrow> char" where
  "hex_digit n = (if n < 10 then chr (48 + n) else chr (87 + n))"

text \<open>One byte below 128 inside a JSON string, with the HTML-safe escapes Marshal uses.\<close>

definition escape_byte :: "char \<Rightarrow> string" where
  "escape_byte c = (let n = byte c in
     if n = 34 \<or> n = 92 then [chr 92, c]
     else if n = 8 then [chr 92, CHR ''b''] else if n = 12 then [chr 92, CHR ''f'']
     else if n = 10 then [chr 92, CHR ''n''] else if n = 13 then [chr 92, CHR ''r'']
     else if n = 9 then [chr 92, CHR ''t'']
     else if n < 32 \<or> n = 60 \<or> n = 62 \<or> n = 38
     then [chr 92, CHR ''u'', CHR ''0'', CHR ''0'', hex_digit (n div 16), hex_digit (n mod 16)]
     else [c])"

text \<open>A rune of several bytes is written as it is, but for the line separators U+2028 and U+2029.\<close>

definition escape_rune :: "string \<Rightarrow> string" where
  "escape_rune r = (case r of
     [c] \<Rightarrow> escape_byte c
   | _ \<Rightarrow> if take 2 r = [chr 226, chr 128] \<and> byte (last r) \<in> {168, 169}
         then [chr 92, CHR ''u'', CHR ''2'', CHR ''0'', CHR ''2'', hex_digit (byte (last r) - 160)] else r)"

text \<open>A byte that starts no valid encoding is written as the six characters of the escape of U+FFFD.\<close>

function escape_text :: "string \<Rightarrow> string" where
  "escape_text [] = []"
| "escape_text (a # s) =
     (let w = rune_width (a # s)
      in if w = 0 then chr 92 # ''ufffd'' @ escape_text s
         else escape_rune (take w (a # s)) @ escape_text (drop (w - 1) s))"
  by pat_completeness auto
termination by (relation "measure length") auto

definition json_string :: "string \<Rightarrow> string" where
  "json_string s = chr 34 # escape_text s @ [chr 34]"

fun json_text :: "any \<Rightarrow> string" where
  "json_text ANil = ''null''"
| "json_text (ABool b) = (if b then ''true'' else ''false'')"
| "json_text (AInt n) = itoa n"
| "json_text (AInt64 n) = itoa n"
| "json_text (AFloat q) = float_text q"
| "json_text (AStr s) = json_string s"
| "json_text (AArr xs) = ''['' @ join_with '','' (map json_text xs) @ '']''"
| "json_text (AObj m) = ''{'' @ join_with '',''
     (map (\<lambda>(k, t). json_string k @ '':'' @ t) (sort_key fst (map (\<lambda>(k, v). (k, json_text v)) m))) @ ''}''"

section \<open>json.Unmarshal after json.Marshal\<close>

fun through_json :: "any \<Rightarrow> any" where
  "through_json (AInt n) = AFloat (int_float n)"
| "through_json (AInt64 n) = AFloat (int_float n)"
| "through_json (AStr s) = AStr (utf8_coerce s)"
| "through_json (AArr xs) = AArr (map through_json xs)"
| "through_json (AObj m) = AObj (map (\<lambda>(k, v). (utf8_coerce k, through_json v)) m)"
| "through_json v = v"

definition through_json_obj :: "obj \<Rightarrow> obj" where
  "through_json_obj m = map (\<lambda>(k, v). (utf8_coerce k, through_json v)) m"

text \<open>The values JSON carries without loss: integers a float64 represents exactly, and valid UTF-8.\<close>

fun json_safe :: "any \<Rightarrow> bool" where
  "json_safe (AInt n) = (\<bar>n\<bar> \<le> 2 ^ 53)"
| "json_safe (AInt64 n) = (\<bar>n\<bar> \<le> 2 ^ 53)"
| "json_safe (AStr s) = utf8_valid s"
| "json_safe (AArr xs) = (\<forall>x \<in> set xs. json_safe x)"
| "json_safe (AObj m) = (\<forall>(k, v) \<in> set m. utf8_valid k \<and> json_safe v)"
| "json_safe _ = True"

lemma through_json_text: "json_safe v \<Longrightarrow> json_text (through_json v) = json_text v"
proof (induction v rule: through_json.induct)
  case (1 n)
  then show ?case by (simp add: float_text_small)
next
  case (2 n)
  then show ?case by (simp add: float_text_small)
next
  case (3 s)
  then show ?case by (simp add: utf8_valid_def)
next
  case (4 xs)
  then have "map json_text (map through_json xs) = map json_text xs" by simp
  then show ?case by (simp del: map_map)
next
  case (5 m)
  have "map (\<lambda>(k, v). (k, json_text v)) (map (\<lambda>(k, v). (utf8_coerce k, through_json v)) m)
      = map (\<lambda>(k, v). (k, json_text v)) m"
    using 5 by (auto simp: utf8_valid_def)
  then show ?case by (simp del: map_map)
qed simp_all

lemma through_json_safe: "json_safe v \<Longrightarrow> json_safe (through_json v)"
  by (induction v rule: through_json.induct) (auto simp: utf8_valid_def)

lemma through_json_idem: "json_safe v \<Longrightarrow> through_json (through_json v) = through_json v"
  by (induction v rule: through_json.induct) (auto simp: utf8_valid_def)

lemma through_json_obj_text:
  "json_safe (AObj m) \<Longrightarrow> json_text (AObj (through_json_obj m)) = json_text (AObj m)"
  using through_json_text [of "AObj m"] by (simp add: through_json_obj_def)

lemma through_json_obj_safe: "json_safe (AObj m) \<Longrightarrow> json_safe (AObj (through_json_obj m))"
  using through_json_safe [of "AObj m"] by (simp add: through_json_obj_def)

lemma through_json_obj_idem:
  "json_safe (AObj m) \<Longrightarrow> through_json_obj (through_json_obj m) = through_json_obj m"
  using through_json_idem [of "AObj m"] by (simp add: through_json_obj_def)

lemma idx_through_json:
  assumes "\<And>k. k \<in> fst ` set m \<Longrightarrow> utf8_valid k"
  shows "idx (through_json_obj m) j = through_json (idx m j)"
  using assms by (induction m) (auto simp: through_json_obj_def utf8_valid_def)

lemma has_key_through_json:
  assumes "\<And>k. k \<in> fst ` set m \<Longrightarrow> utf8_valid k"
  shows "has_key (through_json_obj m) j = has_key m j"
  using assms by (induction m) (auto simp: through_json_obj_def utf8_valid_def)

lemma as_obj_through_json: "as_obj (through_json v) = map_option through_json_obj (as_obj v)"
  by (cases v) (auto simp: through_json_obj_def)

lemma as_arr_through_json: "as_arr (through_json v) = map_option (map through_json) (as_arr v)"
  by (cases v) auto

lemma as_str_through_json: "as_str (through_json v) = map_option utf8_coerce (as_str v)"
  by (cases v) auto

lemma as_bool_through_json [simp]: "as_bool (through_json v) = as_bool v"
  by (cases v) auto

lemma json_safe_idx: "json_safe (AObj m) \<Longrightarrow> json_safe (idx m k)"
  by (induction m) auto

end
