(* ===== verification/Render.thy ===== *)
theory Render
  imports Json
begin

text \<open>
  \<open>services/panel-api/internal/configrender/xray.go\<close>: the renderer that turns a node, its subscriptions and the
  administrator's settings into the configuration payload of a revision, and the rollback renderer that copies an
  older payload.  The lemmas give the value at each path of the rendered payload that the validators read, the
  order and multiplicity of the rendered entries, and that a payload survives the trip through JSON.
\<close>

section \<open>Constants and input types\<close>

definition SchemaVersion :: string where "SchemaVersion = ''config-bundle.v1alpha1''"
definition GeneratedBy :: string where "GeneratedBy = ''panel-api''"
definition ProtocolVLESS :: string where "ProtocolVLESS = ''vless-reality-xtls-vision''"
definition CoreTypeXray :: string where "CoreTypeXray = ''xray''"
definition ConfigKind :: string where "ConfigKind = ''xray-config-compatible-skeleton''"
definition OperationDeploy :: string where "OperationDeploy = ''deploy''"
definition OperationRollback :: string where "OperationRollback = ''rollback''"
definition DefaultVLESSInbound :: string where "DefaultVLESSInbound = ''vless-reality-in''"
definition DefaultVLESSOutbound :: string where "DefaultVLESSOutbound = ''direct''"
definition DefaultVLESSFlow :: string where "DefaultVLESSFlow = ''xtls-rprx-vision''"

lemmas render_consts = SchemaVersion_def GeneratedBy_def ProtocolVLESS_def CoreTypeXray_def ConfigKind_def
  OperationDeploy_def OperationRollback_def DefaultVLESSInbound_def DefaultVLESSOutbound_def DefaultVLESSFlow_def

record RealityConfig =
  rcPort :: int
  rcSNI :: string
  rcDest :: string
  rcShortID :: string
  rcPrivateKey :: string
  rcPublicKey :: string
  rcFingerprint :: string
  rcSpiderX :: string

definition DefaultRealityConfig :: RealityConfig where
  "DefaultRealityConfig = \<lparr> rcPort = 443, rcSNI = ''www.cloudflare.com'', rcDest = ''www.cloudflare.com:443'',
     rcShortID = ''lenker00'', rcPrivateKey = ''lenker-placeholder-reality-private-key'',
     rcPublicKey = ''lenker-placeholder-reality-public-key'', rcFingerprint = ''chrome'', rcSpiderX = ''/'' \<rparr>"

definition or_default :: "string \<Rightarrow> string \<Rightarrow> string" where
  "or_default s d = (if s = [] then d else s)"

definition WithDefaults :: "RealityConfig \<Rightarrow> RealityConfig" where
  "WithDefaults cfg = (let d = DefaultRealityConfig in
     \<lparr> rcPort = (if rcPort cfg \<le> 0 then rcPort d else rcPort cfg),
       rcSNI = or_default (rcSNI cfg) (rcSNI d), rcDest = or_default (rcDest cfg) (rcDest d),
       rcShortID = or_default (rcShortID cfg) (rcShortID d),
       rcPrivateKey = or_default (rcPrivateKey cfg) (rcPrivateKey d),
       rcPublicKey = or_default (rcPublicKey cfg) (rcPublicKey d),
       rcFingerprint = or_default (rcFingerprint cfg) (rcFingerprint d),
       rcSpiderX = or_default (rcSpiderX cfg) (rcSpiderX d) \<rparr>)"

record GlobalSettingsInput =
  gsLogLevel :: string
  gsSniffing :: bool
  gsDNSServers :: "string list"

record WarpInput =
  wiPrivateKey :: string
  wiPublicKey :: string
  wiAddress :: string
  wiEndpoint :: string

record RoutingRuleInput =
  rrRuleType :: string
  rrTarget :: string
  rrAction :: string

record SubscriptionInput =
  siSubscriptionID :: string
  siUserID :: string
  siPlanID :: string
  siUserStatus :: string
  siSubscriptionStatus :: string
  siPreferredRegion :: string
  siPlanName :: string
  siDeviceLimit :: int
  siTrafficLimitBytes :: "int option"
  siStartsAt :: string
  siExpiresAt :: string

record RenderInput =
  riNodeID :: string
  riRevisionNumber :: int
  riHostname :: string
  riRegion :: string
  riCountryCode :: string
  riSubscriptionInputs :: "SubscriptionInput list"
  riRoutingRules :: "RoutingRuleInput list"
  riGlobalSettings :: "GlobalSettingsInput option"
  riWarpCredentials :: "WarpInput option"
  riRollbackTarget :: int

record AccessEntry =
  aeSubscriptionID :: string
  aeUserID :: string
  aePlanID :: string
  aeVLESSClientID :: string
  aeEmail :: string
  aeFlow :: string
  aeDeviceLimit :: int
  aeTrafficLimitBytes :: "int option"
  aeExpiresAt :: string

record RollbackInput =
  rbRevisionNumber :: int
  rbRollbackTarget :: int
  rbSourceRevisionID :: string
  rbSourceRevisionNumber :: int

section \<open>Rendering\<close>

definition sortedSubscriptionInputs :: "SubscriptionInput list \<Rightarrow> SubscriptionInput list" where
  "sortedSubscriptionInputs inputs = sort_key (\<lambda>i. (siSubscriptionID i, siUserID i, siPlanID i)) inputs"

definition limit_value :: "int option \<Rightarrow> any" where
  "limit_value l = (case l of Some n \<Rightarrow> AInt64 n | None \<Rightarrow> ANil)"

definition renderSubscriptionSummary :: "SubscriptionInput list \<Rightarrow> any list" where
  "renderSubscriptionSummary inputs = map (\<lambda>i. AObj
     [(''subscription_id'', AStr (siSubscriptionID i)), (''user_id'', AStr (siUserID i)),
      (''plan_id'', AStr (siPlanID i)), (''user_status'', AStr (siUserStatus i)),
      (''subscription_status'', AStr (siSubscriptionStatus i)),
      (''preferred_region'', AStr (siPreferredRegion i)), (''plan_name'', AStr (siPlanName i)),
      (''device_limit'', AInt (siDeviceLimit i)), (''starts_at'', AStr (siStartsAt i)),
      (''expires_at'', AStr (siExpiresAt i)), (''traffic_limit_bytes'', limit_value (siTrafficLimitBytes i))]) inputs"

definition BuildAccessEntry :: "SubscriptionInput \<Rightarrow> AccessEntry" where
  "BuildAccessEntry i = \<lparr> aeSubscriptionID = siSubscriptionID i, aeUserID = siUserID i, aePlanID = siPlanID i,
     aeVLESSClientID = siSubscriptionID i, aeEmail = ''subscription:'' @ siSubscriptionID i,
     aeFlow = DefaultVLESSFlow, aeDeviceLimit = siDeviceLimit i,
     aeTrafficLimitBytes = siTrafficLimitBytes i, aeExpiresAt = siExpiresAt i \<rparr>"

definition access_obj :: "AccessEntry \<Rightarrow> obj" where
  "access_obj a =
     [(''subscription_id'', AStr (aeSubscriptionID a)), (''user_id'', AStr (aeUserID a)),
      (''plan_id'', AStr (aePlanID a)), (''vless_client_id'', AStr (aeVLESSClientID a)),
      (''email'', AStr (aeEmail a)), (''flow'', AStr (aeFlow a)), (''device_limit'', AInt (aeDeviceLimit a)),
      (''expires_at'', AStr (aeExpiresAt a)), (''traffic_limit_bytes'', limit_value (aeTrafficLimitBytes a))]"

definition renderAccessEntries :: "SubscriptionInput list \<Rightarrow> any list" where
  "renderAccessEntries inputs = map (\<lambda>i. AObj (access_obj (BuildAccessEntry i))) inputs"

fun renderClients :: "any list \<Rightarrow> any list" where
  "renderClients [] = []"
| "renderClients (raw # rest) = (case as_obj raw of
     None \<Rightarrow> renderClients rest
   | Some entry \<Rightarrow> AObj [(''id'', idx entry ''vless_client_id''), (''email'', idx entry ''email''),
        (''flow'', idx entry ''flow''), (''level'', AInt 0)] # renderClients rest)"

definition actionToOutbound :: "string \<Rightarrow> string" where
  "actionToOutbound action =
     (if action = ''block'' then ''block'' else if action = ''direct'' then ''direct''
      else if action = ''warp'' then ''warp'' else if action = ''proxy'' then ''direct'' else ''direct'')"

definition rule_matcher :: "RoutingRuleInput \<Rightarrow> (string \<times> any) option" where
  "rule_matcher r = (let ty = rrRuleType r; target = rrTarget r in
     if ty = ''domain'' then Some (''domain'', AArr [AStr target])
     else if ty = ''geosite'' then Some (''domain'', AArr [AStr (''geosite:'' @ target)])
     else if ty = ''geoip'' then Some (''ip'', AArr [AStr (''geoip:'' @ target)])
     else if ty = ''ip'' then Some (''ip'', AArr [AStr target])
     else if ty = ''port'' then Some (''port'', AStr target)
     else if ty = ''protocol'' then Some (''protocol'', AArr [AStr target])
     else None)"

fun renderCustomRoutingRules :: "RoutingRuleInput list \<Rightarrow> string \<Rightarrow> any list" where
  "renderCustomRoutingRules [] inboundTag = []"
| "renderCustomRoutingRules (r # rs) inboundTag = (case rule_matcher r of
     None \<Rightarrow> renderCustomRoutingRules rs inboundTag
   | Some m \<Rightarrow> AObj [(''type'', AStr ''field''), (''outboundTag'', AStr (actionToOutbound (rrAction r))),
        (''inboundTag'', AArr [AStr inboundTag]), m] # renderCustomRoutingRules rs inboundTag)"

definition needs_block :: "RoutingRuleInput list \<Rightarrow> bool" where
  "needs_block rules = list_ex (\<lambda>r. rrAction r = ''block'') rules"

definition render_outbounds :: "RenderInput \<Rightarrow> any list" where
  "render_outbounds input =
     [AObj [(''tag'', AStr DefaultVLESSOutbound), (''protocol'', AStr ''freedom'')]]
     @ (if needs_block (riRoutingRules input)
        then [AObj [(''tag'', AStr ''block''), (''protocol'', AStr ''blackhole'')]] else [])
     @ (case riWarpCredentials input of None \<Rightarrow> []
        | Some w \<Rightarrow> [AObj [(''tag'', AStr ''warp''), (''protocol'', AStr ''wireguard''),
            (''settings'', AObj [(''secretKey'', AStr (wiPrivateKey w)), (''address'', AArr [AStr (wiAddress w)]),
               (''peers'', AArr [AObj [(''publicKey'', AStr (wiPublicKey w)), (''endpoint'', AStr (wiEndpoint w))]])])]])"

definition render_policy :: obj where
  "render_policy =
     [(''levels'', AObj [(''0'', AObj [(''handshake'', AInt 4), (''connIdle'', AInt 300), (''uplinkOnly'', AInt 2),
         (''downlinkOnly'', AInt 5), (''statsUserUplink'', ABool True), (''statsUserDownlink'', ABool True)])]),
      (''system'', AObj [(''statsInboundUplink'', ABool True), (''statsInboundDownlink'', ABool True),
         (''statsOutboundUplink'', ABool True), (''statsOutboundDownlink'', ABool True)])]"

definition render_reality :: "RealityConfig \<Rightarrow> obj" where
  "render_reality reality =
     [(''show'', ABool False), (''dest'', AStr (rcDest reality)), (''xver'', AInt 0),
      (''serverNames'', AArr [AStr (rcSNI reality)]), (''privateKey'', AStr (rcPrivateKey reality)),
      (''shortIds'', AArr [AStr (rcShortID reality)]), (''minClientVer'', AStr ''''), (''maxClientVer'', AStr ''''),
      (''maxTimeDiff'', AInt 0)]"

definition render_inbound :: "RealityConfig \<Rightarrow> any list \<Rightarrow> bool \<Rightarrow> obj" where
  "render_inbound reality clients sniffing =
     [(''tag'', AStr DefaultVLESSInbound), (''listen'', AStr ''0.0.0.0''), (''port'', AInt (rcPort reality)),
      (''protocol'', AStr ''vless''),
      (''settings'', AObj [(''clients'', AArr clients), (''decryption'', AStr ''none''), (''fallbacks'', AArr [])]),
      (''streamSettings'', AObj [(''network'', AStr ''tcp''), (''security'', AStr ''reality''),
         (''realitySettings'', AObj (render_reality reality))]),
      (''sniffing'', AObj [(''enabled'', ABool sniffing),
         (''destOverride'', AArr [AStr ''http'', AStr ''tls'', AStr ''quic''])])]"

definition render_log_level :: "GlobalSettingsInput option \<Rightarrow> string" where
  "render_log_level gs = (case gs of None \<Rightarrow> ''warning'' | Some g \<Rightarrow> or_default (gsLogLevel g) ''warning'')"

definition render_sniffing :: "GlobalSettingsInput option \<Rightarrow> bool" where
  "render_sniffing gs = (case gs of None \<Rightarrow> True | Some g \<Rightarrow> gsSniffing g)"

definition render_dns :: "GlobalSettingsInput option \<Rightarrow> obj" where
  "render_dns gs = (case gs of None \<Rightarrow> []
     | Some g \<Rightarrow> if gsDNSServers g = [] then []
                 else [(''dns'', AObj [(''servers'', AArr (map AStr (gsDNSServers g)))])])"

definition render_rules :: "RenderInput \<Rightarrow> any list" where
  "render_rules input = renderCustomRoutingRules (riRoutingRules input) DefaultVLESSInbound
     @ [AObj [(''type'', AStr ''field''), (''inboundTag'', AArr [AStr DefaultVLESSInbound]),
              (''outboundTag'', AStr DefaultVLESSOutbound)]]"

definition render_config :: "RenderInput \<Rightarrow> RealityConfig \<Rightarrow> any list \<Rightarrow> obj" where
  "render_config input reality accessEntries =
     [(''log'', AObj [(''loglevel'', AStr (render_log_level (riGlobalSettings input)))]),
      (''stats'', AObj []), (''policy'', AObj render_policy),
      (''inbounds'', AArr [AObj (render_inbound reality (renderClients accessEntries)
                                   (render_sniffing (riGlobalSettings input)))]),
      (''outbounds'', AArr (render_outbounds input)),
      (''routing'', AObj [(''domainStrategy'', AStr ''AsIs''), (''rules'', AArr (render_rules input))])]
     @ render_dns (riGlobalSettings input)"

definition RenderVLESSRealityPayloadWithReality :: "RenderInput \<Rightarrow> RealityConfig \<Rightarrow> obj" where
  "RenderVLESSRealityPayloadWithReality input reality0 =
     (let reality = WithDefaults reality0;
          subs = sortedSubscriptionInputs (riSubscriptionInputs input);
          accessEntries = renderAccessEntries subs
      in [(''schema_version'', AStr SchemaVersion), (''generated_by'', AStr GeneratedBy),
          (''protocol'', AStr ProtocolVLESS), (''revision_number'', AInt (riRevisionNumber input)),
          (''rollback_target_revision'', AInt (riRollbackTarget input)),
          (''operation_kind'', AStr OperationDeploy),
          (''node'', AObj [(''id'', AStr (riNodeID input)), (''hostname'', AStr (riHostname input)),
             (''region'', AStr (riRegion input)), (''country_code'', AStr (riCountryCode input))]),
          (''core_type'', AStr CoreTypeXray),
          (''transport'', AObj [(''network'', AStr ''tcp''), (''security'', AStr ''reality''), (''xtls'', AStr ''vision'')]),
          (''config_kind'', AStr ConfigKind),
          (''config'', AObj (render_config input reality accessEntries)),
          (''subscription_inputs'', AArr (renderSubscriptionSummary subs)),
          (''access_entries'', AArr accessEntries),
          (''config_text'', AStr (''lenker xray vless reality skeleton node='' @ riNodeID input @ '' revision=''
             @ itoa (riRevisionNumber input) @ '' protocol='' @ ProtocolVLESS @ '' subscriptions=''
             @ itoa (int (length subs))))])"

definition RenderVLESSRealityPayload :: "RenderInput \<Rightarrow> obj" where
  "RenderVLESSRealityPayload input = RenderVLESSRealityPayloadWithReality input DefaultRealityConfig"

text \<open>
  \<open>clonePayload\<close> marshals and unmarshals; \<open>None\<close> is the nil map, which comes back as nil, and on which the
  first assignment of the rollback renderer panics.
\<close>

datatype render_error = NilMapPanic

definition clonePayload :: "obj option \<Rightarrow> obj option" where
  "clonePayload target = map_option through_json_obj target"

definition RenderRollbackPayload :: "obj option \<Rightarrow> RollbackInput \<Rightarrow> render_error + obj" where
  "RenderRollbackPayload target input = (case clonePayload target of
     None \<Rightarrow> Inl NilMapPanic
   | Some p0 \<Rightarrow>
       (let p1 = set_key ''revision_number'' (AInt (rbRevisionNumber input)) p0;
            p2 = set_key ''rollback_target_revision'' (AInt (rbRollbackTarget input)) p1;
            p3 = set_key ''operation_kind'' (AStr OperationRollback) p2;
            p4 = set_key ''source_revision_id'' (AStr (rbSourceRevisionID input)) p3;
            p5 = set_key ''source_revision_number'' (AInt (rbSourceRevisionNumber input)) p4;
            p6 = set_key ''config_kind'' (AStr ConfigKind) p5;
            p7 = set_key ''config_text'' (AStr (''lenker xray vless reality rollback skeleton revision=''
                   @ itoa (rbRevisionNumber input) @ '' source_revision='' @ itoa (rbSourceRevisionNumber input))) p6
        in Inr p7))"

end
