(* ===== verification/Validate.thy ===== *)
theory Validate
  imports Render
begin

text \<open>
  \<open>services/panel-api/internal/configrender/validate.go\<close>: the panel's check of a rendered payload before it is
  stored.  Each function is the chain of early returns of its Go function; an error carries the reason, and the
  client errors the index the caller wraps around it.
\<close>

datatype xray_error = InvalidXray string | ClientError xray_error nat

fun xray_reason :: "xray_error \<Rightarrow> string" where
  "xray_reason (InvalidXray r) = r"
| "xray_reason (ClientError e n) = xray_reason e"

definition invalidXrayConfig :: "string \<Rightarrow> xray_error + 'a" where
  "invalidXrayConfig reason = Inl (InvalidXray reason)"

lemma invalidXrayConfig_not_ok [simp]: "\<not> is_ok (invalidXrayConfig r)"
  by (simp add: invalidXrayConfig_def)

text \<open>\<open>int(x)\<close> of a float64 outside the int64 range is the minimal int64 (amd64), so only the range converts back.\<close>

fun numberAsInt :: "any \<Rightarrow> int option" where
  "numberAsInt (AInt n) = Some n"
| "numberAsInt (AInt64 n) = Some n"
| "numberAsInt (AFloat q) =
     (if q = of_int \<lfloor>q\<rfloor> \<and> - (2 ^ 63) \<le> \<lfloor>q\<rfloor> \<and> \<lfloor>q\<rfloor> < 2 ^ 63 then Some \<lfloor>q\<rfloor> else None)"
| "numberAsInt _ = None"

definition stringField :: "obj \<Rightarrow> string \<Rightarrow> string \<times> bool" where
  "stringField values key = (case as_str (idx values key) of None \<Rightarrow> ([], False)
     | Some v \<Rightarrow> (v, TrimSpace v \<noteq> []))"

fun all_strings :: "any list \<Rightarrow> string list option" where
  "all_strings [] = Some []"
| "all_strings (x # xs) = (case as_str x of None \<Rightarrow> None | Some t \<Rightarrow> map_option (\<lambda>ts. t # ts) (all_strings xs))"

definition stringArray :: "any \<Rightarrow> string list option" where
  "stringArray value = (case as_arr value of None \<Rightarrow> None | Some items \<Rightarrow> all_strings items)"

definition validateClient :: "obj \<Rightarrow> xray_error + unit" where
  "validateClient client =
     (if \<not> snd (stringField client ''id'') \<or> fst (stringField client ''id'') = [] then invalidXrayConfig ''missing_vless_client_id''
      else if \<not> snd (stringField client ''email'') \<or> fst (stringField client ''email'') = [] then invalidXrayConfig ''missing_vless_client_email''
      else if \<not> snd (stringField client ''flow'') \<or> fst (stringField client ''flow'') \<noteq> ''xtls-rprx-vision'' then invalidXrayConfig ''invalid_vless_client_flow''
      else if numberAsInt (idx client ''level'') = None then invalidXrayConfig ''missing_vless_client_level''
      else Inr ())"

fun validate_clients :: "nat \<Rightarrow> any list \<Rightarrow> xray_error + unit" where
  "validate_clients index [] = Inr ()"
| "validate_clients index (raw # rest) = (case as_obj raw of
     None \<Rightarrow> invalidXrayConfig ''invalid_vless_client''
   | Some client \<Rightarrow> (case validateClient client of
       Inl e \<Rightarrow> Inl (ClientError e index)
     | Inr u \<Rightarrow> validate_clients (Suc index) rest))"

definition validateReality :: "obj \<Rightarrow> xray_error + unit" where
  "validateReality settings =
     (if as_bool (idx settings ''show'') = None then invalidXrayConfig ''missing_reality_show''
      else if \<not> snd (stringField settings ''dest'') then invalidXrayConfig ''missing_reality_dest''
      else if \<not> snd (stringField settings ''privateKey'') then invalidXrayConfig ''missing_reality_privateKey''
      else if as_str (idx settings ''minClientVer'') = None then invalidXrayConfig ''missing_reality_minClientVer''
      else if as_str (idx settings ''maxClientVer'') = None then invalidXrayConfig ''missing_reality_maxClientVer''
      else if stringArray (idx settings ''serverNames'') = None \<or> stringArray (idx settings ''serverNames'') = Some []
        then invalidXrayConfig ''missing_reality_server_names''
      else if stringArray (idx settings ''shortIds'') = None then invalidXrayConfig ''missing_reality_short_ids''
      else if numberAsInt (idx settings ''xver'') = None then invalidXrayConfig ''missing_reality_xver''
      else if numberAsInt (idx settings ''maxTimeDiff'') = None then invalidXrayConfig ''missing_reality_max_time_diff''
      else Inr ())"

definition positive_number :: "any \<Rightarrow> bool" where
  "positive_number v = (case numberAsInt v of Some p \<Rightarrow> 0 < p | None \<Rightarrow> False)"

definition validateInbound :: "obj \<Rightarrow> xray_error + string" where
  "validateInbound inbound =
     (if \<not> snd (stringField inbound ''tag'') then invalidXrayConfig ''missing_inbound_tag''
      else if \<not> snd (stringField inbound ''protocol'') \<or> fst (stringField inbound ''protocol'') \<noteq> ''vless''
        then invalidXrayConfig ''invalid_inbound_protocol''
      else if \<not> positive_number (idx inbound ''port'') then invalidXrayConfig ''invalid_inbound_port''
      else (case as_obj (idx inbound ''settings'') of
        None \<Rightarrow> invalidXrayConfig ''missing_inbound_settings''
      | Some settings \<Rightarrow>
        if \<not> snd (stringField settings ''decryption'') \<or> fst (stringField settings ''decryption'') \<noteq> ''none''
        then invalidXrayConfig ''invalid_vless_decryption''
        else (case as_arr (idx settings ''clients'') of
          None \<Rightarrow> invalidXrayConfig ''missing_vless_clients''
        | Some clients \<Rightarrow> (case validate_clients 0 clients of
            Inl e \<Rightarrow> Inl e
          | Inr u \<Rightarrow> (case as_obj (idx inbound ''streamSettings'') of
              None \<Rightarrow> invalidXrayConfig ''missing_stream_settings''
            | Some stream \<Rightarrow>
              if \<not> snd (stringField stream ''network'') \<or> fst (stringField stream ''network'') \<noteq> ''tcp''
              then invalidXrayConfig ''invalid_stream_network''
              else if \<not> snd (stringField stream ''security'') \<or> fst (stringField stream ''security'') \<noteq> ''reality''
              then invalidXrayConfig ''invalid_stream_security''
              else (case as_obj (idx stream ''realitySettings'') of
                None \<Rightarrow> invalidXrayConfig ''missing_reality_settings''
              | Some reality \<Rightarrow> (case validateReality reality of
                  Inl e \<Rightarrow> Inl e
                | Inr u \<Rightarrow> Inr (fst (stringField inbound ''tag'')))))))))"

fun outbound_loop :: "any list \<Rightarrow> string list \<Rightarrow> bool \<Rightarrow> xray_error + string list" where
  "outbound_loop [] tags hasDirect =
     (if \<not> hasDirect then invalidXrayConfig ''missing_direct_freedom_outbound'' else Inr tags)"
| "outbound_loop (raw # rest) tags hasDirect = (case as_obj raw of
     None \<Rightarrow> invalidXrayConfig ''invalid_outbound''
   | Some outbound \<Rightarrow>
     if \<not> snd (stringField outbound ''tag'') then invalidXrayConfig ''missing_outbound_tag''
     else if \<not> snd (stringField outbound ''protocol'') then invalidXrayConfig ''missing_outbound_protocol''
     else if fst (stringField outbound ''protocol'') \<noteq> ''freedom'' \<and> fst (stringField outbound ''protocol'') \<noteq> ''blackhole''
             \<and> fst (stringField outbound ''protocol'') \<noteq> ''wireguard''
       then invalidXrayConfig ''unsupported_outbound_protocol''
     else outbound_loop rest (fst (stringField outbound ''tag'') # tags)
            (hasDirect \<or> (fst (stringField outbound ''tag'') = ''direct''
                          \<and> fst (stringField outbound ''protocol'') = ''freedom'')))"

definition validateOutbounds :: "any list \<Rightarrow> xray_error + string list" where
  "validateOutbounds outbounds = outbound_loop outbounds [] False"

definition validate_rule :: "string list \<Rightarrow> string list \<Rightarrow> any \<Rightarrow> xray_error + unit" where
  "validate_rule inboundTags outboundTags raw = (case as_obj raw of
     None \<Rightarrow> invalidXrayConfig ''invalid_routing_rule''
   | Some rule \<Rightarrow>
     if \<not> snd (stringField rule ''type'') \<or> fst (stringField rule ''type'') \<noteq> ''field''
       then invalidXrayConfig ''invalid_routing_rule_type''
     else if \<not> snd (stringField rule ''outboundTag'') \<or> fst (stringField rule ''outboundTag'') \<notin> set outboundTags
       then invalidXrayConfig ''invalid_routing_outbound_reference''
     else if has_key rule ''inboundTag'' then (case stringArray (idx rule ''inboundTag'') of
         None \<Rightarrow> invalidXrayConfig ''invalid_routing_inbound_reference''
       | Some tags \<Rightarrow> if list_ex (\<lambda>t. t \<notin> set inboundTags) tags
           then invalidXrayConfig ''invalid_routing_inbound_reference'' else Inr ())
     else Inr ())"

definition validateRouting :: "obj \<Rightarrow> string list \<Rightarrow> string list \<Rightarrow> xray_error + unit" where
  "validateRouting routing inboundTags outboundTags = (case as_arr (idx routing ''rules'') of
     None \<Rightarrow> invalidXrayConfig ''missing_routing_rules''
   | Some rules \<Rightarrow> if rules = [] then invalidXrayConfig ''missing_routing_rules''
       else check_all (validate_rule inboundTags outboundTags) rules)"

definition validate_inbounds :: "any list \<Rightarrow> xray_error + string" where
  "validate_inbounds inbounds =
     (if length inbounds \<noteq> 1 then invalidXrayConfig ''invalid_inbound_count''
      else (case as_obj (hd inbounds) of
        None \<Rightarrow> invalidXrayConfig ''invalid_inbound''
      | Some inbound \<Rightarrow> validateInbound inbound))"

definition ValidateVLESSRealityConfig :: "obj option \<Rightarrow> xray_error + unit" where
  "ValidateVLESSRealityConfig cfg = (case cfg of
     None \<Rightarrow> invalidXrayConfig ''missing_config''
   | Some config \<Rightarrow>
     if as_obj (idx config ''log'') = None then invalidXrayConfig ''missing_log''
     else if as_obj (idx config ''policy'') = None then invalidXrayConfig ''missing_policy''
     else if as_obj (idx config ''stats'') = None then invalidXrayConfig ''missing_stats''
     else (case as_arr (idx config ''inbounds'') of
       None \<Rightarrow> invalidXrayConfig ''missing_inbounds''
     | Some inbounds \<Rightarrow> (case validate_inbounds inbounds of
         Inl e \<Rightarrow> Inl e
       | Inr inboundTag \<Rightarrow> (case as_arr (idx config ''outbounds'') of
           None \<Rightarrow> invalidXrayConfig ''missing_outbounds''
         | Some outbounds \<Rightarrow> if outbounds = [] then invalidXrayConfig ''missing_outbounds''
           else (case validateOutbounds outbounds of
             Inl e \<Rightarrow> Inl e
           | Inr outboundTags \<Rightarrow> (case as_obj (idx config ''routing'') of
               None \<Rightarrow> invalidXrayConfig ''missing_routing''
             | Some routing \<Rightarrow> validateRouting routing [inboundTag] outboundTags))))))"

definition str_is :: "obj \<Rightarrow> string \<Rightarrow> string \<Rightarrow> bool" where
  "str_is m key v \<longleftrightarrow> as_str (idx m key) = Some v"

definition ValidateVLESSRealityPayload :: "obj option \<Rightarrow> xray_error + unit" where
  "ValidateVLESSRealityPayload payload0 = (case payload0 of
     None \<Rightarrow> invalidXrayConfig ''missing_payload''
   | Some payload \<Rightarrow>
     if \<not> str_is payload ''schema_version'' SchemaVersion then invalidXrayConfig ''invalid_schema_version''
     else if \<not> str_is payload ''generated_by'' GeneratedBy then invalidXrayConfig ''invalid_generated_by''
     else if \<not> str_is payload ''protocol'' ProtocolVLESS then invalidXrayConfig ''invalid_protocol''
     else if \<not> str_is payload ''core_type'' CoreTypeXray then invalidXrayConfig ''invalid_core_type''
     else if \<not> str_is payload ''config_kind'' ConfigKind then invalidXrayConfig ''invalid_config_kind''
     else if \<not> (str_is payload ''operation_kind'' OperationDeploy \<or> str_is payload ''operation_kind'' OperationRollback)
       then invalidXrayConfig ''invalid_operation_kind''
     else (case as_obj (idx payload ''config'') of
       None \<Rightarrow> invalidXrayConfig ''missing_config''
     | Some config \<Rightarrow> ValidateVLESSRealityConfig (Some config)))"

end
