(* ===== verification/ConfigSchema.thy ===== *)
theory ConfigSchema
  imports Validate
begin

text \<open>
  The abstract specification of a configuration: a schema stated over the paths of the JSON value, independent of
  the order of the checks and of the reasons they report.  Its two parameters are the only points where the panel
  and the agent differ: which outbound protocols are known, and whether a routing rule may leave out its inbound
  tags.  The panel's validator accepts exactly the configurations that conform to the panel's instance of it.
\<close>

definition nonblank :: "any \<Rightarrow> bool" where
  "nonblank v = (case as_str v of None \<Rightarrow> False | Some s \<Rightarrow> TrimSpace s \<noteq> [])"

definition str_val :: "any \<Rightarrow> string" where
  "str_val v = (case as_str v of None \<Rightarrow> [] | Some s \<Rightarrow> s)"

definition is_number :: "any \<Rightarrow> bool" where
  "is_number v = (numberAsInt v \<noteq> None)"

definition obj_with :: "(obj \<Rightarrow> bool) \<Rightarrow> any \<Rightarrow> bool" where
  "obj_with P v = (case as_obj v of None \<Rightarrow> False | Some m \<Rightarrow> P m)"

definition arr_with :: "(any list \<Rightarrow> bool) \<Rightarrow> any \<Rightarrow> bool" where
  "arr_with P v = (case as_arr v of None \<Rightarrow> False | Some xs \<Rightarrow> P xs)"

definition strs_with :: "(string list \<Rightarrow> bool) \<Rightarrow> any \<Rightarrow> bool" where
  "strs_with P v = (case stringArray v of None \<Rightarrow> False | Some xs \<Rightarrow> P xs)"

lemma nonblank_AStr [simp]: "nonblank (AStr s) \<longleftrightarrow> TrimSpace s \<noteq> []"
  by (simp add: nonblank_def)

lemma str_val_AStr [simp]: "str_val (AStr s) = s"
  by (simp add: str_val_def)

lemma obj_with_AObj [simp]: "obj_with P (AObj m) = P m"
  by (simp add: obj_with_def)

lemma arr_with_AArr [simp]: "arr_with P (AArr xs) = P xs"
  by (simp add: arr_with_def)

lemma stringField_snd [simp]: "snd (stringField m k) = nonblank (idx m k)"
  by (simp add: stringField_def nonblank_def split: option.splits)

lemma stringField_fst [simp]: "fst (stringField m k) = str_val (idx m k)"
  by (simp add: stringField_def str_val_def split: option.splits)

lemma as_str_Some: "as_str v = Some s \<longleftrightarrow> v = AStr s"
  by (cases v) auto

lemma obj_with_iff: "obj_with P v \<longleftrightarrow> (\<exists>m. v = AObj m \<and> P m)"
  by (cases v) (auto simp: obj_with_def)

lemma arr_with_iff: "arr_with P v \<longleftrightarrow> (\<exists>m. v = AArr m \<and> P m)"
  by (cases v) (auto simp: arr_with_def)

lemma str_is_iff: "str_is m k v \<longleftrightarrow> idx m k = AStr v"
  by (simp add: str_is_def as_str_Some)

lemma nonblank_field:
  "TrimSpace s \<noteq> [] \<Longrightarrow> (nonblank v \<and> str_val v = s) \<longleftrightarrow> v = AStr s"
  by (cases v) (auto simp: nonblank_def str_val_def)

lemma nonblank_field_literal [simp]:
  "(nonblank v \<and> str_val v = ''vless'') \<longleftrightarrow> v = AStr ''vless''"
  "(nonblank v \<and> str_val v = ''none'') \<longleftrightarrow> v = AStr ''none''"
  "(nonblank v \<and> str_val v = ''tcp'') \<longleftrightarrow> v = AStr ''tcp''"
  "(nonblank v \<and> str_val v = ''reality'') \<longleftrightarrow> v = AStr ''reality''"
  "(nonblank v \<and> str_val v = ''field'') \<longleftrightarrow> v = AStr ''field''"
  "(nonblank v \<and> str_val v = ''xtls-rprx-vision'') \<longleftrightarrow> v = AStr ''xtls-rprx-vision''"
  by (rule nonblank_field, simp)+

lemmas literal_guard =
  nonblank_field_literal [THEN arg_cong [where f = Not], unfolded de_Morgan_conj]

definition client_conforms :: "obj \<Rightarrow> bool" where
  "client_conforms c \<longleftrightarrow> nonblank (idx c ''id'') \<and> nonblank (idx c ''email'')
     \<and> idx c ''flow'' = AStr ''xtls-rprx-vision'' \<and> is_number (idx c ''level'')"

definition reality_conforms :: "obj \<Rightarrow> bool" where
  "reality_conforms s \<longleftrightarrow> as_bool (idx s ''show'') \<noteq> None \<and> nonblank (idx s ''dest'') \<and> nonblank (idx s ''privateKey'')
     \<and> as_str (idx s ''minClientVer'') \<noteq> None \<and> as_str (idx s ''maxClientVer'') \<noteq> None
     \<and> strs_with (\<lambda>xs. xs \<noteq> []) (idx s ''serverNames'') \<and> strs_with (\<lambda>xs. True) (idx s ''shortIds'')
     \<and> is_number (idx s ''xver'') \<and> is_number (idx s ''maxTimeDiff'')"

definition inbound_conforms :: "obj \<Rightarrow> bool" where
  "inbound_conforms i \<longleftrightarrow> nonblank (idx i ''tag'') \<and> idx i ''protocol'' = AStr ''vless'' \<and> positive_number (idx i ''port'')
     \<and> obj_with (\<lambda>s. idx s ''decryption'' = AStr ''none''
          \<and> arr_with (list_all (obj_with client_conforms)) (idx s ''clients'')) (idx i ''settings'')
     \<and> obj_with (\<lambda>s. idx s ''network'' = AStr ''tcp'' \<and> idx s ''security'' = AStr ''reality''
          \<and> obj_with reality_conforms (idx s ''realitySettings'')) (idx i ''streamSettings'')"

definition outbound_conforms :: "(string \<Rightarrow> bool) \<Rightarrow> obj \<Rightarrow> bool" where
  "outbound_conforms known b \<longleftrightarrow> nonblank (idx b ''tag'') \<and> nonblank (idx b ''protocol'') \<and> known (str_val (idx b ''protocol''))"

definition direct_freedom :: "obj \<Rightarrow> bool" where
  "direct_freedom b \<longleftrightarrow> idx b ''tag'' = AStr ''direct'' \<and> idx b ''protocol'' = AStr ''freedom''"

fun tag_of :: "any \<Rightarrow> string" where
  "tag_of (AObj b) = str_val (idx b ''tag'')"
| "tag_of _ = []"

definition outbounds_conform :: "(string \<Rightarrow> bool) \<Rightarrow> any list \<Rightarrow> bool" where
  "outbounds_conform known bs \<longleftrightarrow> bs \<noteq> [] \<and> list_all (obj_with (outbound_conforms known)) bs \<and> list_ex (obj_with direct_freedom) bs"

definition rule_conforms :: "(obj \<Rightarrow> bool) \<Rightarrow> string \<Rightarrow> string list \<Rightarrow> obj \<Rightarrow> bool" where
  "rule_conforms optional inTag outTags r \<longleftrightarrow> idx r ''type'' = AStr ''field''
     \<and> nonblank (idx r ''outboundTag'') \<and> str_val (idx r ''outboundTag'') \<in> set outTags
     \<and> (optional r \<or> strs_with (list_all (\<lambda>t. t = inTag)) (idx r ''inboundTag''))"

definition config_conforms :: "(string \<Rightarrow> bool) \<Rightarrow> (obj \<Rightarrow> bool) \<Rightarrow> obj \<Rightarrow> bool" where
  "config_conforms known optional c \<longleftrightarrow>
     obj_with (\<lambda>_. True) (idx c ''log'') \<and> obj_with (\<lambda>_. True) (idx c ''policy'') \<and> obj_with (\<lambda>_. True) (idx c ''stats'')
     \<and> arr_with (\<lambda>ins. length ins = 1 \<and> obj_with inbound_conforms (hd ins)
         \<and> arr_with (\<lambda>bs. outbounds_conform known bs
             \<and> obj_with (\<lambda>r. arr_with (\<lambda>rules. rules \<noteq> []
                 \<and> list_all (obj_with (rule_conforms optional (tag_of (hd ins)) (map tag_of bs))) rules)
                 (idx r ''rules'')) (idx c ''routing'')) (idx c ''outbounds'')) (idx c ''inbounds'')"

definition panel_protocol :: "string \<Rightarrow> bool" where
  "panel_protocol p \<longleftrightarrow> p \<in> {''freedom'', ''blackhole'', ''wireguard''}"

definition panel_config :: "obj \<Rightarrow> bool" where
  "panel_config = config_conforms panel_protocol (\<lambda>r. \<not> has_key r ''inboundTag'')"

section \<open>The panel's validator implements the schema\<close>

lemma validateClient_ok [simp]: "is_ok (validateClient c) \<longleftrightarrow> client_conforms c"
proof -
  have n: "\<not> nonblank v \<or> str_val v = [] \<longleftrightarrow> \<not> nonblank v" for v
    by (auto simp: nonblank_def str_val_def split: option.splits)
  show ?thesis
    unfolding validateClient_def client_conforms_def is_number_def stringField_fst stringField_snd literal_guard n
    by auto
qed

lemma validate_clients_ok [simp]: "is_ok (validate_clients n cs) \<longleftrightarrow> list_all (obj_with client_conforms) cs"
proof (induction cs arbitrary: n)
  case (Cons c cs)
  show ?case
  proof (cases "as_obj c")
    case (Some m)
    show ?thesis using Cons validateClient_ok [of m] Some
      by (cases "validateClient m") (auto simp: obj_with_def simp del: validateClient_ok)
  qed (simp add: obj_with_def)
qed simp

lemma validateReality_ok [simp]: "is_ok (validateReality s) \<longleftrightarrow> reality_conforms s"
  by (auto simp: validateReality_def reality_conforms_def is_number_def strs_with_def split: option.splits)

lemma validateInbound_ok [simp]: "is_ok (validateInbound i) \<longleftrightarrow> inbound_conforms i"
proof -
  have c: "is_ok (case validate_clients 0 cs of Inl e \<Rightarrow> Inl e | Inr u \<Rightarrow> k) \<longleftrightarrow>
      list_all (obj_with client_conforms) cs \<and> is_ok k" for cs and k :: "xray_error + string"
    using validate_clients_ok [of 0 cs] by (cases "validate_clients 0 cs") auto
  have r: "is_ok (case validateReality s of Inl e \<Rightarrow> Inl e | Inr u \<Rightarrow> Inr t) \<longleftrightarrow> reality_conforms s"
    for s and t :: string
    using validateReality_ok [of s] by (cases "validateReality s") auto
  show ?thesis
    unfolding validateInbound_def inbound_conforms_def obj_with_def [of _ "idx i _"] arr_with_def
      stringField_fst stringField_snd literal_guard
    by (simp add: c r obj_with_def split: option.split)
qed

lemma validateInbound_tag: "validateInbound i = Inr t \<Longrightarrow> t = str_val (idx i ''tag'')"
  by (auto simp: validateInbound_def invalidXrayConfig_def split: if_splits option.splits sum.splits)

lemma outbound_loop_ok:
  "outbound_loop bs tags d = Inr ts \<longleftrightarrow>
     list_all (obj_with (outbound_conforms panel_protocol)) bs \<and> (d \<or> list_ex (obj_with direct_freedom) bs)
     \<and> ts = rev (map tag_of bs) @ tags"
proof (induction bs arbitrary: tags d)
  case Nil
  show ?case by (auto simp: invalidXrayConfig_def)
next
  case (Cons b bs)
  show ?case
  proof (cases b)
    case (AObj m)
    have f: "direct_freedom m \<longleftrightarrow> str_val (idx m ''tag'') = ''direct'' \<and> str_val (idx m ''protocol'') = ''freedom''"
      by (cases "idx m ''tag''"; cases "idx m ''protocol''") (auto simp: direct_freedom_def str_val_def)
    show ?thesis
      by (auto simp: AObj Cons f invalidXrayConfig_def outbound_conforms_def panel_protocol_def)
  qed (auto simp: invalidXrayConfig_def obj_with_def)
qed

lemma validateOutbounds_ok:
  "bs \<noteq> [] \<Longrightarrow> validateOutbounds bs = Inr ts \<longleftrightarrow> outbounds_conform panel_protocol bs \<and> ts = rev (map tag_of bs)"
  by (simp add: validateOutbounds_def outbound_loop_ok outbounds_conform_def)

lemma validate_rule_ok [simp]:
  "is_ok (validate_rule [i] ts r) \<longleftrightarrow> obj_with (rule_conforms (\<lambda>r. \<not> has_key r ''inboundTag'') i ts) r"
proof (cases "as_obj r")
  case (Some m)
  have e: "list_ex (\<lambda>t. t \<notin> set [i]) xs \<longleftrightarrow> \<not> list_all (\<lambda>t. t = i) xs" for xs
    by (induction xs) auto
  show ?thesis
    unfolding validate_rule_def Some obj_with_def strs_with_def rule_conforms_def option.case stringField_fst stringField_snd e literal_guard
    by (cases "stringArray (idx m ''inboundTag'')") auto
qed (simp add: validate_rule_def obj_with_def)

lemma validateRouting_ok [simp]:
  "is_ok (validateRouting r [i] ts) \<longleftrightarrow> arr_with (\<lambda>rules. rules \<noteq> []
     \<and> list_all (obj_with (rule_conforms (\<lambda>r. \<not> has_key r ''inboundTag'') i ts)) rules) (idx r ''rules'')"
  by (auto simp: validateRouting_def arr_with_def list_all_iff split: option.splits)

lemma rule_conforms_rev: "rule_conforms p i (rev ts) = rule_conforms p i ts"
  by (auto simp: rule_conforms_def fun_eq_iff)

lemma validate_inbounds_ok:
  "validate_inbounds ins = Inr t \<longleftrightarrow> (length ins = 1 \<and> obj_with inbound_conforms (hd ins)) \<and> t = tag_of (hd ins)"
proof (cases "hd ins")
  case (AObj m)
  show ?thesis
    using validateInbound_ok [of m] validateInbound_tag [of m]
    by (cases "validateInbound m") (auto simp: validate_inbounds_def AObj invalidXrayConfig_def)
qed (auto simp: validate_inbounds_def invalidXrayConfig_def obj_with_def)

lemmas inbounds_bind = bind_ok [OF validate_inbounds_ok]
lemmas outbounds_bind = bind_ok [OF validateOutbounds_ok]

lemma outbounds_conform_Nil [simp]: "\<not> outbounds_conform k []"
  by (simp add: outbounds_conform_def)

lemma ValidateVLESSRealityConfig_ok [simp]: "is_ok (ValidateVLESSRealityConfig (Some c)) \<longleftrightarrow> panel_config c"
proof -
  have r: "is_ok (validateRouting r [t] (rev ts)) = arr_with (\<lambda>rules. rules \<noteq> [] \<and>
      list_all (obj_with (rule_conforms (\<lambda>r. \<not> has_key r ''inboundTag'') t ts)) rules) (idx r ''rules'')" for r t ts
    by (simp add: rule_conforms_rev)
  note s = panel_config_def config_conforms_def ValidateVLESSRealityConfig_def obj_with_def [of _ "idx c _"]
    arr_with_def [of _ "idx c _"]
  show ?thesis
  proof (cases "as_arr (idx c ''inbounds'')")
    case None
    then show ?thesis by (simp add: s)
  next
    case ins: (Some ins)
    show ?thesis
    proof (cases "as_arr (idx c ''outbounds'')")
      case None
      then show ?thesis using ins by (simp add: s inbounds_bind)
    next
      case outs: (Some bs)
      show ?thesis
        by (cases "bs = []"; cases "as_obj (idx c ''routing'')")
          (simp_all add: s ins outs inbounds_bind outbounds_bind r del: validateRouting_ok split: option.split)
    qed
  qed
qed

definition payload_conforms :: "obj \<Rightarrow> bool" where
  "payload_conforms p \<longleftrightarrow> idx p ''schema_version'' = AStr SchemaVersion \<and> idx p ''generated_by'' = AStr GeneratedBy
     \<and> idx p ''protocol'' = AStr ProtocolVLESS \<and> idx p ''core_type'' = AStr CoreTypeXray
     \<and> idx p ''config_kind'' = AStr ConfigKind
     \<and> (idx p ''operation_kind'' = AStr OperationDeploy \<or> idx p ''operation_kind'' = AStr OperationRollback)
     \<and> obj_with panel_config (idx p ''config'')"

lemma ValidateVLESSRealityPayload_ok [simp]:
  "is_ok (ValidateVLESSRealityPayload (Some p)) \<longleftrightarrow> payload_conforms p"
  by (auto simp: ValidateVLESSRealityPayload_def payload_conforms_def str_is_iff obj_with_def split: option.splits)

end
