(* ===== verification/RenderProps.thy ===== *)
theory RenderProps
  imports ConfigSchema "HOL-Library.Multiset"
begin

text \<open>
  Facts about rendered payloads: which of them conform to the schema, that rendering does not depend on the order
  the database returns the subscriptions in, that the schema is stable under the trip through JSON, and what a
  rollback payload keeps of its source.
\<close>

section \<open>Paths of a rendered payload\<close>

definition client_of :: "SubscriptionInput \<Rightarrow> any" where
  "client_of i = AObj [(''id'', AStr (siSubscriptionID i)), (''email'', AStr (''subscription:'' @ siSubscriptionID i)),
     (''flow'', AStr DefaultVLESSFlow), (''level'', AInt 0)]"

lemma renderClients_entries: "renderClients (renderAccessEntries subs) = map client_of subs"
  by (induction subs) (simp_all add: renderAccessEntries_def client_of_def access_obj_def BuildAccessEntry_def)

lemma client_of_conforms:
  "obj_with client_conforms (client_of i) \<longleftrightarrow> TrimSpace (siSubscriptionID i) \<noteq> []"
  by (simp add: client_of_def client_conforms_def DefaultVLESSFlow_def is_number_def)

lemma strs_with_strings [simp]: "strs_with P (AArr (map AStr ss)) = P ss"
proof -
  have "all_strings (map AStr ss) = Some ss" by (induction ss) auto
  then show ?thesis by (simp add: strs_with_def stringArray_def)
qed

lemma strs_with_single [simp]: "strs_with P (AArr [AStr s]) = P [s]"
  using strs_with_strings [of P "[s]"] by simp

lemma render_reality_conforms:
  "reality_conforms (render_reality r) \<longleftrightarrow> TrimSpace (rcDest r) \<noteq> [] \<and> TrimSpace (rcPrivateKey r) \<noteq> []"
  by (simp add: reality_conforms_def render_reality_def is_number_def)

lemma WithDefaults_port: "0 < rcPort (WithDefaults r)"
  by (simp add: WithDefaults_def DefaultRealityConfig_def Let_def)

lemma render_inbound_conforms:
  "0 < rcPort r \<Longrightarrow> inbound_conforms (render_inbound r cs sn) \<longleftrightarrow>
     list_all (obj_with client_conforms) cs \<and> TrimSpace (rcDest r) \<noteq> [] \<and> TrimSpace (rcPrivateKey r) \<noteq> []"
  by (simp add: inbound_conforms_def render_inbound_def DefaultVLESSInbound_def positive_number_def
      render_reality_conforms)

definition outbound_tags :: "RenderInput \<Rightarrow> string list" where
  "outbound_tags input = [''direct''] @ (if needs_block (riRoutingRules input) then [''block''] else [])
     @ (case riWarpCredentials input of None \<Rightarrow> [] | Some w \<Rightarrow> [''warp''])"

lemma render_outbounds_tags: "map tag_of (render_outbounds input) = outbound_tags input"
  by (simp add: render_outbounds_def outbound_tags_def DefaultVLESSOutbound_def split: option.split)

lemma render_outbounds_conform: "outbounds_conform panel_protocol (render_outbounds input)"
  by (simp add: outbounds_conform_def render_outbounds_def outbound_conforms_def panel_protocol_def
      direct_freedom_def DefaultVLESSOutbound_def split: option.split)

section \<open>Routing rules\<close>

definition rule_dangling :: "RenderInput \<Rightarrow> RoutingRuleInput \<Rightarrow> bool" where
  "rule_dangling input r \<longleftrightarrow> rule_matcher r \<noteq> None \<and> actionToOutbound (rrAction r) \<notin> set (outbound_tags input)"

definition rendered_rule :: "string \<Rightarrow> string \<times> any \<Rightarrow> string \<Rightarrow> obj" where
  "rendered_rule action m inTag = [(''type'', AStr ''field''), (''outboundTag'', AStr (actionToOutbound action)),
        (''inboundTag'', AArr [AStr inTag]), m]"

lemma actionToOutbound_nonblank: "nonblank (AStr (actionToOutbound a))"
  by (simp add: actionToOutbound_def)

lemma rendered_rule_conforms:
  "rule_conforms opt t outTags (rendered_rule a m t) \<longleftrightarrow> actionToOutbound a \<in> set outTags"
proof -
  have i: "idx (rendered_rule a m t) ''type'' = AStr ''field''"
    "idx (rendered_rule a m t) ''outboundTag'' = AStr (actionToOutbound a)"
    "idx (rendered_rule a m t) ''inboundTag'' = AArr [AStr t]"
    by (cases m, simp add: rendered_rule_def)+
  show ?thesis
    using actionToOutbound_nonblank [of a] by (simp add: rule_conforms_def i)
qed

lemma renderCustomRoutingRules_conform:
  "list_all (obj_with (rule_conforms opt t outTags)) (renderCustomRoutingRules rs t)
   \<longleftrightarrow> list_all (\<lambda>r. rule_matcher r \<noteq> None \<longrightarrow> actionToOutbound (rrAction r) \<in> set outTags) rs"
proof (induction rs)
  case (Cons r rs)
  show ?case
  proof (cases "rule_matcher r")
    case (Some m)
    then show ?thesis
      using Cons rendered_rule_conforms [of opt t outTags "rrAction r" m] by (simp add: rendered_rule_def)
  qed (use Cons in simp)
qed simp

lemma render_rules_conform:
  "list_all (obj_with (rule_conforms opt DefaultVLESSInbound (outbound_tags input))) (render_rules input)
   \<longleftrightarrow> list_all (\<lambda>r. \<not> rule_dangling input r) (riRoutingRules input)"
proof -
  have d: "rule_conforms opt DefaultVLESSInbound (outbound_tags input)
      [(''type'', AStr ''field''), (''inboundTag'', AArr [AStr DefaultVLESSInbound]), (''outboundTag'', AStr DefaultVLESSOutbound)]"
    by (simp add: rule_conforms_def DefaultVLESSOutbound_def outbound_tags_def)
  show ?thesis
    unfolding render_rules_def list_all_append renderCustomRoutingRules_conform
    using d by (auto simp: rule_dangling_def list_all_iff)
qed

text \<open>Only a rendered rule that sends traffic to WARP without credentials dangles.\<close>

lemma rule_dangling_iff:
  assumes "r \<in> set (riRoutingRules input)"
  shows "rule_dangling input r \<longleftrightarrow> rule_matcher r \<noteq> None \<and> rrAction r = ''warp'' \<and> riWarpCredentials input = None"
proof -
  have "needs_block (riRoutingRules input)" if "rrAction r = ''block''"
    using assms that by (auto simp: needs_block_def list_ex_iff)
  then show ?thesis
    by (cases "riWarpCredentials input") (auto simp: rule_dangling_def outbound_tags_def actionToOutbound_def)
qed

section \<open>Rendered payloads conform\<close>

lemma render_config_paths:
  "idx (render_config input r es) ''log'' = AObj [(''loglevel'', AStr (render_log_level (riGlobalSettings input)))]"
  "idx (render_config input r es) ''stats'' = AObj []"
  "idx (render_config input r es) ''policy'' = AObj render_policy"
  "idx (render_config input r es) ''inbounds'' = AArr [AObj (render_inbound r (renderClients es) (render_sniffing (riGlobalSettings input)))]"
  "idx (render_config input r es) ''outbounds'' = AArr (render_outbounds input)"
  "idx (render_config input r es) ''routing'' = AObj [(''domainStrategy'', AStr ''AsIs''), (''rules'', AArr (render_rules input))]"
  by (simp_all add: render_config_def)

lemma render_rules_nonempty: "render_rules input \<noteq> []"
  by (simp add: render_rules_def)

lemma render_inbound_tag: "tag_of (AObj (render_inbound r cs sn)) = DefaultVLESSInbound"
  by (simp add: render_inbound_def)

definition renderable :: "RenderInput \<Rightarrow> RealityConfig \<Rightarrow> bool" where
  "renderable input reality \<longleftrightarrow>
     list_all (\<lambda>s. TrimSpace (siSubscriptionID s) \<noteq> []) (riSubscriptionInputs input)
     \<and> TrimSpace (rcDest (WithDefaults reality)) \<noteq> [] \<and> TrimSpace (rcPrivateKey (WithDefaults reality)) \<noteq> []
     \<and> list_all (\<lambda>r. rrAction r = ''warp'' \<and> rule_matcher r \<noteq> None \<longrightarrow> riWarpCredentials input \<noteq> None)
         (riRoutingRules input)"

lemma render_config_conforms:
  assumes "0 < rcPort r"
  shows "config_conforms panel_protocol opt (render_config input r (renderAccessEntries subs)) \<longleftrightarrow>
     list_all (\<lambda>s. TrimSpace (siSubscriptionID s) \<noteq> []) subs \<and> TrimSpace (rcDest r) \<noteq> [] \<and> TrimSpace (rcPrivateKey r) \<noteq> []
     \<and> list_all (\<lambda>r. \<not> rule_dangling input r) (riRoutingRules input)"
proof -
  have c: "list_all (obj_with client_conforms) (renderClients (renderAccessEntries subs))
      \<longleftrightarrow> list_all (\<lambda>s. TrimSpace (siSubscriptionID s) \<noteq> []) subs"
    by (simp add: renderClients_entries list_all_length client_of_conforms)
  show ?thesis
    by (simp add: config_conforms_def render_config_paths render_inbound_conforms assms c render_outbounds_conform
        render_outbounds_tags render_rules_nonempty render_inbound_tag render_rules_conform del: tag_of.simps)
qed

lemma sorted_inputs_list_all: "list_all P (sortedSubscriptionInputs xs) = list_all P xs"
  by (simp add: sortedSubscriptionInputs_def list_all_iff)

lemma render_payload_paths:
  "idx (RenderVLESSRealityPayloadWithReality input r) ''config'' =
     AObj (render_config input (WithDefaults r) (renderAccessEntries (sortedSubscriptionInputs (riSubscriptionInputs input))))"
  "idx (RenderVLESSRealityPayloadWithReality input r) ''schema_version'' = AStr SchemaVersion"
  "idx (RenderVLESSRealityPayloadWithReality input r) ''generated_by'' = AStr GeneratedBy"
  "idx (RenderVLESSRealityPayloadWithReality input r) ''protocol'' = AStr ProtocolVLESS"
  "idx (RenderVLESSRealityPayloadWithReality input r) ''core_type'' = AStr CoreTypeXray"
  "idx (RenderVLESSRealityPayloadWithReality input r) ''config_kind'' = AStr ConfigKind"
  "idx (RenderVLESSRealityPayloadWithReality input r) ''operation_kind'' = AStr OperationDeploy"
  "idx (RenderVLESSRealityPayloadWithReality input r) ''revision_number'' = AInt (riRevisionNumber input)"
  by (simp_all add: RenderVLESSRealityPayloadWithReality_def Let_def)

lemma renderable_iff:
  "renderable input reality \<longleftrightarrow> list_all (\<lambda>s. TrimSpace (siSubscriptionID s) \<noteq> []) (riSubscriptionInputs input)
     \<and> TrimSpace (rcDest (WithDefaults reality)) \<noteq> [] \<and> TrimSpace (rcPrivateKey (WithDefaults reality)) \<noteq> []
     \<and> list_all (\<lambda>r. \<not> rule_dangling input r) (riRoutingRules input)"
proof -
  have "list_all (\<lambda>r. rrAction r = ''warp'' \<and> rule_matcher r \<noteq> None \<longrightarrow> riWarpCredentials input \<noteq> None)
          (riRoutingRules input) \<longleftrightarrow> list_all (\<lambda>r. \<not> rule_dangling input r) (riRoutingRules input)"
    unfolding list_all_iff by (rule ball_cong) (auto simp: rule_dangling_iff)
  then show ?thesis unfolding renderable_def by blast
qed

lemma render_payload_conforms:
  "payload_conforms (RenderVLESSRealityPayloadWithReality input reality) \<longleftrightarrow> renderable input reality"
  by (simp add: payload_conforms_def render_payload_paths panel_config_def WithDefaults_port
      render_config_conforms sorted_inputs_list_all renderable_iff)

section \<open>Rendering is independent of the row order\<close>

definition input_key :: "SubscriptionInput \<Rightarrow> string \<times> string \<times> string" where
  "input_key i = (siSubscriptionID i, siUserID i, siPlanID i)"

lemma sortedSubscriptionInputs_perm:
  assumes "mset xs = mset ys" and "inj_on input_key (set xs)"
  shows "sortedSubscriptionInputs xs = sortedSubscriptionInputs ys"
  unfolding sortedSubscriptionInputs_def input_key_def [symmetric]
  using assms by (intro sort_key_inj_key_eq) auto

lemma sortedSubscriptionInputs_mset: "mset (sortedSubscriptionInputs xs) = mset xs"
  by (simp add: sortedSubscriptionInputs_def)

lemma sortedSubscriptionInputs_stable:
  "filter (\<lambda>i. input_key i = k) (sortedSubscriptionInputs xs) = filter (\<lambda>i. input_key i = k) xs"
  unfolding sortedSubscriptionInputs_def input_key_def [symmetric] by (rule sort_key_stable)

section \<open>The schema and JSON\<close>

lemma json_safe_keys: "json_safe (AObj m) \<Longrightarrow> k \<in> fst ` set m \<Longrightarrow> utf8_valid k"
  by auto

lemma idx_tj: "json_safe (AObj m) \<Longrightarrow> idx (through_json_obj m) k = through_json (idx m k)"
  by (rule idx_through_json) (rule json_safe_keys)

lemma has_key_tj: "json_safe (AObj m) \<Longrightarrow> has_key (through_json_obj m) k = has_key m k"
  by (rule has_key_through_json) (rule json_safe_keys)

lemma nonblank_tj: "json_safe v \<Longrightarrow> nonblank (through_json v) = nonblank v"
  by (cases v) (auto simp: nonblank_def utf8_valid_def)

lemma str_val_tj: "json_safe v \<Longrightarrow> str_val (through_json v) = str_val v"
  by (cases v) (auto simp: str_val_def utf8_valid_def)

lemma number_tj: "json_safe v \<Longrightarrow> numberAsInt (through_json v) = numberAsInt v"
  by (cases v) auto

lemma is_str_tj: "json_safe v \<Longrightarrow> utf8_valid s \<Longrightarrow> through_json v = AStr s \<longleftrightarrow> v = AStr s"
  by (cases v) (auto simp: utf8_valid_def)

lemma is_str_ascii_tj: "json_safe v \<Longrightarrow> ascii s \<Longrightarrow> through_json v = AStr s \<longleftrightarrow> v = AStr s"
  by (simp add: is_str_tj utf8_valid_ascii)

lemma as_str_tj: "json_safe v \<Longrightarrow> as_str (through_json v) = as_str v"
  by (cases v) (auto simp: utf8_valid_def)

lemma stringArray_tj: "json_safe v \<Longrightarrow> stringArray (through_json v) = stringArray v"
proof (cases v)
  case (AArr xs)
  assume "json_safe v"
  then have "\<forall>x \<in> set xs. json_safe x" using AArr by simp
  then have "all_strings (map through_json xs) = all_strings xs"
    by (induction xs) (auto simp: as_str_tj split: option.splits)
  then show ?thesis using AArr by (simp add: stringArray_def)
qed (auto simp: stringArray_def)

lemma tag_of_tj: "json_safe v \<Longrightarrow> tag_of (through_json v) = tag_of v"
  by (cases v) (simp_all add: idx_tj [unfolded through_json_obj_def] str_val_tj json_safe_idx [simplified])

lemma obj_with_tj:
  "json_safe v \<Longrightarrow> (\<And>m. json_safe (AObj m) \<Longrightarrow> P (through_json_obj m) = P m) \<Longrightarrow>
   obj_with P (through_json v) = obj_with P v"
  by (cases v) (auto simp: through_json_obj_def obj_with_def)

lemma arr_with_tj:
  "json_safe v \<Longrightarrow> (\<And>xs. json_safe (AArr xs) \<Longrightarrow> P (map through_json xs) = Q xs) \<Longrightarrow>
   arr_with P (through_json v) = arr_with Q v"
  by (cases v) (auto simp: arr_with_def)

lemma list_all_tj:
  "json_safe (AArr xs) \<Longrightarrow> (\<And>x. json_safe x \<Longrightarrow> P (through_json x) = P x) \<Longrightarrow>
   list_all P (map through_json xs) = list_all P xs"
  by (induction xs) auto

lemma list_ex_tj:
  "json_safe (AArr xs) \<Longrightarrow> (\<And>x. json_safe x \<Longrightarrow> P (through_json x) = P x) \<Longrightarrow>
   list_ex P (map through_json xs) = list_ex P xs"
  by (induction xs) auto

lemmas tj_fields = idx_tj has_key_tj json_safe_idx nonblank_tj str_val_tj number_tj is_str_ascii_tj as_str_tj stringArray_tj

lemma client_conforms_tj: "json_safe (AObj m) \<Longrightarrow> client_conforms (through_json_obj m) = client_conforms m"
  by (simp add: client_conforms_def tj_fields is_number_def del: json_safe.simps)

lemma reality_conforms_tj: "json_safe (AObj m) \<Longrightarrow> reality_conforms (through_json_obj m) = reality_conforms m"
  by (simp add: reality_conforms_def tj_fields is_number_def strs_with_def del: json_safe.simps)

lemma inbound_conforms_tj:
  assumes "json_safe (AObj m)"
  shows "inbound_conforms (through_json_obj m) = inbound_conforms m"
proof -
  have "obj_with (\<lambda>s. idx s ''decryption'' = AStr ''none'' \<and> arr_with (list_all (obj_with client_conforms)) (idx s ''clients''))
       (through_json (idx m ''settings'')) =
     obj_with (\<lambda>s. idx s ''decryption'' = AStr ''none'' \<and> arr_with (list_all (obj_with client_conforms)) (idx s ''clients''))
       (idx m ''settings'')"
    by (intro obj_with_tj json_safe_idx assms arg_cong2 [where f = "(\<and>)"])
      (simp_all add: tj_fields del: json_safe.simps, intro arr_with_tj list_all_tj obj_with_tj json_safe_idx client_conforms_tj)
  moreover have "obj_with (\<lambda>s. idx s ''network'' = AStr ''tcp'' \<and> idx s ''security'' = AStr ''reality''
          \<and> obj_with reality_conforms (idx s ''realitySettings'')) (through_json (idx m ''streamSettings'')) =
      obj_with (\<lambda>s. idx s ''network'' = AStr ''tcp'' \<and> idx s ''security'' = AStr ''reality''
          \<and> obj_with reality_conforms (idx s ''realitySettings'')) (idx m ''streamSettings'')"
    by (intro obj_with_tj json_safe_idx assms)
      (simp add: tj_fields obj_with_tj reality_conforms_tj del: json_safe.simps)
  ultimately show ?thesis
    using assms by (simp add: inbound_conforms_def tj_fields positive_number_def del: json_safe.simps)
qed

lemma outbounds_conform_tj:
  assumes "json_safe (AArr bs)"
  shows "outbounds_conform known (map through_json bs) = outbounds_conform known bs"
proof -
  have "list_all (obj_with (outbound_conforms known)) (map through_json bs) = list_all (obj_with (outbound_conforms known)) bs"
    by (intro list_all_tj obj_with_tj assms) (simp_all add: outbound_conforms_def tj_fields del: json_safe.simps)
  moreover have "list_ex (obj_with direct_freedom) (map through_json bs) = list_ex (obj_with direct_freedom) bs"
    by (intro list_ex_tj obj_with_tj assms) (simp_all add: direct_freedom_def tj_fields del: json_safe.simps)
  ultimately show ?thesis by (simp add: outbounds_conform_def)
qed

lemma rule_conforms_tj:
  assumes "json_safe (AObj m)" and "optional (through_json_obj m) = optional m"
  shows "rule_conforms optional i ts (through_json_obj m) = rule_conforms optional i ts m"
  using assms by (simp add: rule_conforms_def tj_fields strs_with_def del: json_safe.simps)

text \<open>The trip through JSON neither breaks nor repairs a configuration.\<close>

lemma config_conforms_tj:
  assumes "json_safe (AObj c)" and opt: "\<And>m. json_safe (AObj m) \<Longrightarrow> optional (through_json_obj m) = optional m"
  shows "config_conforms known optional (through_json_obj c) = config_conforms known optional c"
proof -
  have safe: "json_safe (idx c k)" for k using assms(1) by (rule json_safe_idx)
  have T: "obj_with (\<lambda>_. True) (through_json (idx c k)) = obj_with (\<lambda>_. True) (idx c k)" for k
    using safe by (rule obj_with_tj) simp
  have R: "obj_with (\<lambda>r. arr_with (\<lambda>rules. rules \<noteq> [] \<and> list_all (obj_with (rule_conforms optional t ts)) rules) (idx r ''rules''))
        (through_json v) =
      obj_with (\<lambda>r. arr_with (\<lambda>rules. rules \<noteq> [] \<and> list_all (obj_with (rule_conforms optional t ts)) rules) (idx r ''rules'')) v"
    if "json_safe v" for t ts v
  proof (rule obj_with_tj [OF that])
    fix m assume m: "json_safe (AObj m)"
    have "list_all (obj_with (rule_conforms optional t ts)) (map through_json rs) = list_all (obj_with (rule_conforms optional t ts)) rs"
      if "json_safe (AArr rs)" for rs
      using that by (rule list_all_tj) (intro obj_with_tj rule_conforms_tj opt)
    then show "arr_with (\<lambda>rules. rules \<noteq> [] \<and> list_all (obj_with (rule_conforms optional t ts)) rules) (idx (through_json_obj m) ''rules'') =
        arr_with (\<lambda>rules. rules \<noteq> [] \<and> list_all (obj_with (rule_conforms optional t ts)) rules) (idx m ''rules'')"
      using m by (simp add: idx_tj del: json_safe.simps) (intro arr_with_tj json_safe_idx, simp_all)
  qed
  have O: "map tag_of (map through_json bs) = map tag_of bs" if "json_safe (AArr bs)" for bs
    using that by (auto simp: tag_of_tj)
  have I: "obj_with inbound_conforms (through_json x) = obj_with inbound_conforms x" if "json_safe x" for x
    using that by (intro obj_with_tj inbound_conforms_tj)
  show ?thesis
    unfolding config_conforms_def idx_tj [OF assms(1)] T
  proof ((rule arg_cong2 [where f = "(\<and>)"], rule refl)+, rule arr_with_tj, rule safe)
    fix ins assume ins: "json_safe (AArr ins)"
    show "(length (map through_json ins) = 1 \<and> obj_with inbound_conforms (hd (map through_json ins)) \<and>
        arr_with (\<lambda>bs. outbounds_conform known bs \<and> obj_with (\<lambda>r. arr_with (\<lambda>rules. rules \<noteq> []
           \<and> list_all (obj_with (rule_conforms optional (tag_of (hd (map through_json ins))) (map tag_of bs))) rules) (idx r ''rules''))
           (through_json (idx c ''routing''))) (through_json (idx c ''outbounds''))) =
      (length ins = 1 \<and> obj_with inbound_conforms (hd ins) \<and>
        arr_with (\<lambda>bs. outbounds_conform known bs \<and> obj_with (\<lambda>r. arr_with (\<lambda>rules. rules \<noteq> []
           \<and> list_all (obj_with (rule_conforms optional (tag_of (hd ins)) (map tag_of bs))) rules) (idx r ''rules''))
           (idx c ''routing'')) (idx c ''outbounds''))"
    proof (cases ins)
      case (Cons x xs)
      then have x: "json_safe x" using ins by simp
      have "arr_with (\<lambda>bs. outbounds_conform known bs \<and> obj_with (\<lambda>r. arr_with (\<lambda>rules. rules \<noteq> []
           \<and> list_all (obj_with (rule_conforms optional (tag_of x) (map tag_of bs))) rules) (idx r ''rules''))
           (through_json (idx c ''routing''))) (through_json (idx c ''outbounds'')) =
         arr_with (\<lambda>bs. outbounds_conform known bs \<and> obj_with (\<lambda>r. arr_with (\<lambda>rules. rules \<noteq> []
           \<and> list_all (obj_with (rule_conforms optional (tag_of x) (map tag_of bs))) rules) (idx r ''rules''))
           (idx c ''routing'')) (idx c ''outbounds'')"
        by (intro arr_with_tj safe) (simp add: outbounds_conform_tj R safe O del: map_map json_safe.simps)
      then show ?thesis by (simp add: Cons tag_of_tj x I)
    qed simp
  qed
qed

lemma payload_conforms_tj:
  assumes "json_safe (AObj p)"
  shows "payload_conforms (through_json_obj p) = payload_conforms p"
proof -
  have "obj_with panel_config (through_json (idx p ''config'')) = obj_with panel_config (idx p ''config'')"
    unfolding panel_config_def
    by (intro obj_with_tj config_conforms_tj json_safe_idx assms) (simp_all add: has_key_tj del: json_safe.simps)
  then show ?thesis
    using assms by (simp add: payload_conforms_def tj_fields render_consts del: json_safe.simps)
qed

section \<open>Rollback payloads\<close>

lemma RenderRollbackPayload_Some: "\<exists>q. RenderRollbackPayload (Some p) input = Inr q"
  by (simp add: RenderRollbackPayload_def clonePayload_def Let_def)

definition rollback_keys :: "string set" where
  "rollback_keys = {''revision_number'', ''rollback_target_revision'', ''operation_kind'', ''source_revision_id'',
     ''source_revision_number'', ''config_kind'', ''config_text''}"

lemma RenderRollbackPayload_other:
  assumes "RenderRollbackPayload (Some p) input = Inr q" and "k \<notin> rollback_keys" and "json_safe (AObj p)"
  shows "idx q k = through_json (idx p k)"
  using assms idx_tj [of p k]
  by (simp add: RenderRollbackPayload_def clonePayload_def Let_def rollback_keys_def del: json_safe.simps) (drule sym, simp)

lemma RenderRollbackPayload_new:
  assumes "RenderRollbackPayload (Some p) input = Inr q"
  shows "idx q ''revision_number'' = AInt (rbRevisionNumber input)"
    and "idx q ''operation_kind'' = AStr OperationRollback"
    and "idx q ''source_revision_number'' = AInt (rbSourceRevisionNumber input)"
    and "idx q ''source_revision_id'' = AStr (rbSourceRevisionID input)"
    and "idx q ''rollback_target_revision'' = AInt (rbRollbackTarget input)"
    and "idx q ''config_kind'' = AStr ConfigKind"
  using assms by (auto simp: RenderRollbackPayload_def clonePayload_def Let_def)

lemma rollback_conforms:
  assumes "RenderRollbackPayload (Some p) input = Inr q" and "json_safe (AObj p)" and "payload_conforms p"
  shows "payload_conforms q"
proof -
  have k: "idx q k = through_json (idx p k)" if "k \<notin> rollback_keys" for k
    using RenderRollbackPayload_other [OF assms(1) that assms(2)] .
  have "payload_conforms (through_json_obj p)" using payload_conforms_tj assms by simp
  then show ?thesis
    using RenderRollbackPayload_new [OF assms(1)] assms(2)
    by (simp add: payload_conforms_def k idx_tj rollback_keys_def del: json_safe.simps)
qed

end
