(* ===== verification/AgentValidate.thy ===== *)
theory AgentValidate
  imports ConfigSchema
begin

text \<open>
  \<open>services/node-agent/internal/agent/xray_validator.go\<close>: the agent's own check of the configuration it received.
  The agent is a second program with its own copies of the helpers, so every function is translated again, under
  the name of its source with the prefix \<open>agent_\<close>.  The agent's validator accepts exactly the configurations that
  conform to its own instance of the schema; compared with the panel it takes any outbound protocol and insists
  on inbound tags in every routing rule.
\<close>

fun agent_numberAsInt :: "any \<Rightarrow> int option" where
  "agent_numberAsInt (AInt n) = Some n"
| "agent_numberAsInt (AInt64 n) = Some n"
| "agent_numberAsInt (AFloat q) =
     (if q = of_int \<lfloor>q\<rfloor> \<and> - (2 ^ 63) \<le> \<lfloor>q\<rfloor> \<and> \<lfloor>q\<rfloor> < 2 ^ 63 then Some \<lfloor>q\<rfloor> else None)"
| "agent_numberAsInt _ = None"

definition agent_stringField :: "obj \<Rightarrow> string \<Rightarrow> string \<times> bool" where
  "agent_stringField values key = (case as_str (idx values key) of None \<Rightarrow> ([], False)
     | Some v \<Rightarrow> (v, TrimSpace v \<noteq> []))"

fun agent_all_strings :: "any list \<Rightarrow> string list option" where
  "agent_all_strings [] = Some []"
| "agent_all_strings (x # xs) =
     (case as_str x of None \<Rightarrow> None | Some t \<Rightarrow> map_option (\<lambda>ts. t # ts) (agent_all_strings xs))"

definition agent_stringArray :: "any \<Rightarrow> string list option" where
  "agent_stringArray value = (case as_arr value of None \<Rightarrow> None | Some items \<Rightarrow> agent_all_strings items)"

definition agent_validateVLESSClient :: "obj \<Rightarrow> xray_error + unit" where
  "agent_validateVLESSClient client =
     (if \<not> snd (agent_stringField client ''id'') \<or> fst (agent_stringField client ''id'') = []
        then invalidXrayConfig ''missing_vless_client_id''
      else if \<not> snd (agent_stringField client ''email'') \<or> fst (agent_stringField client ''email'') = []
        then invalidXrayConfig ''missing_vless_client_email''
      else if \<not> snd (agent_stringField client ''flow'') \<or> fst (agent_stringField client ''flow'') \<noteq> ''xtls-rprx-vision''
        then invalidXrayConfig ''invalid_vless_client_flow''
      else if agent_numberAsInt (idx client ''level'') = None then invalidXrayConfig ''missing_vless_client_level''
      else Inr ())"

fun agent_validate_clients :: "nat \<Rightarrow> any list \<Rightarrow> xray_error + unit" where
  "agent_validate_clients index [] = Inr ()"
| "agent_validate_clients index (raw # rest) = (case as_obj raw of
     None \<Rightarrow> invalidXrayConfig ''invalid_vless_client''
   | Some client \<Rightarrow> (case agent_validateVLESSClient client of
       Inl e \<Rightarrow> Inl (ClientError e index)
     | Inr u \<Rightarrow> agent_validate_clients (Suc index) rest))"

definition agent_validateRealitySettings :: "obj \<Rightarrow> xray_error + unit" where
  "agent_validateRealitySettings settings =
     (if as_bool (idx settings ''show'') = None then invalidXrayConfig ''missing_reality_show''
      else if \<not> snd (agent_stringField settings ''dest'') then invalidXrayConfig ''missing_reality_dest''
      else if \<not> snd (agent_stringField settings ''privateKey'') then invalidXrayConfig ''missing_reality_privateKey''
      else if as_str (idx settings ''minClientVer'') = None then invalidXrayConfig ''missing_reality_minClientVer''
      else if as_str (idx settings ''maxClientVer'') = None then invalidXrayConfig ''missing_reality_maxClientVer''
      else if agent_stringArray (idx settings ''serverNames'') = None
              \<or> agent_stringArray (idx settings ''serverNames'') = Some []
        then invalidXrayConfig ''missing_reality_server_names''
      else if agent_stringArray (idx settings ''shortIds'') = None then invalidXrayConfig ''missing_reality_short_ids''
      else if agent_numberAsInt (idx settings ''xver'') = None then invalidXrayConfig ''missing_reality_xver''
      else if agent_numberAsInt (idx settings ''maxTimeDiff'') = None
        then invalidXrayConfig ''missing_reality_max_time_diff''
      else Inr ())"

definition agent_positive_number :: "any \<Rightarrow> bool" where
  "agent_positive_number v = (case agent_numberAsInt v of Some p \<Rightarrow> 0 < p | None \<Rightarrow> False)"

definition agent_validateVLESSRealityInbound :: "obj \<Rightarrow> xray_error + string" where
  "agent_validateVLESSRealityInbound inbound =
     (if \<not> snd (agent_stringField inbound ''tag'') then invalidXrayConfig ''missing_inbound_tag''
      else if \<not> snd (agent_stringField inbound ''protocol'') \<or> fst (agent_stringField inbound ''protocol'') \<noteq> ''vless''
        then invalidXrayConfig ''invalid_inbound_protocol''
      else if \<not> agent_positive_number (idx inbound ''port'') then invalidXrayConfig ''invalid_inbound_port''
      else (case as_obj (idx inbound ''settings'') of
        None \<Rightarrow> invalidXrayConfig ''missing_inbound_settings''
      | Some settings \<Rightarrow>
        if \<not> snd (agent_stringField settings ''decryption'') \<or> fst (agent_stringField settings ''decryption'') \<noteq> ''none''
        then invalidXrayConfig ''invalid_vless_decryption''
        else (case as_arr (idx settings ''clients'') of
          None \<Rightarrow> invalidXrayConfig ''missing_vless_clients''
        | Some clients \<Rightarrow> (case agent_validate_clients 0 clients of
            Inl e \<Rightarrow> Inl e
          | Inr u \<Rightarrow> (case as_obj (idx inbound ''streamSettings'') of
              None \<Rightarrow> invalidXrayConfig ''missing_stream_settings''
            | Some stream \<Rightarrow>
              if \<not> snd (agent_stringField stream ''network'') \<or> fst (agent_stringField stream ''network'') \<noteq> ''tcp''
              then invalidXrayConfig ''invalid_stream_network''
              else if \<not> snd (agent_stringField stream ''security'')
                      \<or> fst (agent_stringField stream ''security'') \<noteq> ''reality''
              then invalidXrayConfig ''invalid_stream_security''
              else (case as_obj (idx stream ''realitySettings'') of
                None \<Rightarrow> invalidXrayConfig ''missing_reality_settings''
              | Some reality \<Rightarrow> (case agent_validateRealitySettings reality of
                  Inl e \<Rightarrow> Inl e
                | Inr u \<Rightarrow> Inr (fst (agent_stringField inbound ''tag'')))))))))"

fun agent_outbound_loop :: "any list \<Rightarrow> string list \<Rightarrow> bool \<Rightarrow> xray_error + string list" where
  "agent_outbound_loop [] tags hasDirect =
     (if \<not> hasDirect then invalidXrayConfig ''missing_direct_freedom_outbound'' else Inr tags)"
| "agent_outbound_loop (raw # rest) tags hasDirect = (case as_obj raw of
     None \<Rightarrow> invalidXrayConfig ''invalid_outbound''
   | Some outbound \<Rightarrow>
     if \<not> snd (agent_stringField outbound ''tag'') then invalidXrayConfig ''missing_outbound_tag''
     else if \<not> snd (agent_stringField outbound ''protocol'') then invalidXrayConfig ''missing_outbound_protocol''
     else agent_outbound_loop rest (fst (agent_stringField outbound ''tag'') # tags)
            (hasDirect \<or> (fst (agent_stringField outbound ''tag'') = ''direct''
                          \<and> fst (agent_stringField outbound ''protocol'') = ''freedom'')))"

definition agent_validateOutbounds :: "any list \<Rightarrow> xray_error + string list" where
  "agent_validateOutbounds outbounds = agent_outbound_loop outbounds [] False"

definition agent_validate_rule :: "string list \<Rightarrow> string list \<Rightarrow> any \<Rightarrow> xray_error + unit" where
  "agent_validate_rule inboundTags outboundTags raw = (case as_obj raw of
     None \<Rightarrow> invalidXrayConfig ''invalid_routing_rule''
   | Some rule \<Rightarrow>
     if \<not> snd (agent_stringField rule ''type'') \<or> fst (agent_stringField rule ''type'') \<noteq> ''field''
       then invalidXrayConfig ''invalid_routing_rule_type''
     else if \<not> snd (agent_stringField rule ''outboundTag'') \<or> fst (agent_stringField rule ''outboundTag'') \<notin> set outboundTags
       then invalidXrayConfig ''invalid_routing_outbound_reference''
     else (case agent_stringArray (idx rule ''inboundTag'') of
         None \<Rightarrow> invalidXrayConfig ''invalid_routing_inbound_reference''
       | Some tags \<Rightarrow>
           if tags = [] then invalidXrayConfig ''invalid_routing_inbound_reference''
           else if list_ex (\<lambda>t. t \<notin> set inboundTags) tags
           then invalidXrayConfig ''invalid_routing_inbound_reference'' else Inr ()))"

definition agent_validateRouting :: "obj \<Rightarrow> string list \<Rightarrow> string list \<Rightarrow> xray_error + unit" where
  "agent_validateRouting routing inboundTags outboundTags = (case as_arr (idx routing ''rules'') of
     None \<Rightarrow> invalidXrayConfig ''missing_routing_rules''
   | Some rules \<Rightarrow> if rules = [] then invalidXrayConfig ''missing_routing_rules''
       else check_all (agent_validate_rule inboundTags outboundTags) rules)"

definition agent_validate_inbounds :: "any list \<Rightarrow> xray_error + string" where
  "agent_validate_inbounds inbounds =
     (if length inbounds \<noteq> 1 then invalidXrayConfig ''invalid_inbound_count''
      else (case as_obj (hd inbounds) of
        None \<Rightarrow> invalidXrayConfig ''invalid_inbound''
      | Some inbound \<Rightarrow> agent_validateVLESSRealityInbound inbound))"

definition ValidateXrayConfigArtifact :: "obj option \<Rightarrow> xray_error + unit" where
  "ValidateXrayConfigArtifact cfg = (case cfg of
     None \<Rightarrow> invalidXrayConfig ''missing_config''
   | Some config \<Rightarrow>
     if as_obj (idx config ''log'') = None then invalidXrayConfig ''missing_log''
     else if as_obj (idx config ''policy'') = None then invalidXrayConfig ''missing_policy''
     else if as_obj (idx config ''stats'') = None then invalidXrayConfig ''missing_stats''
     else (case as_arr (idx config ''inbounds'') of
       None \<Rightarrow> invalidXrayConfig ''missing_inbounds''
     | Some inbounds \<Rightarrow> (case agent_validate_inbounds inbounds of
         Inl e \<Rightarrow> Inl e
       | Inr inboundTag \<Rightarrow> (case as_arr (idx config ''outbounds'') of
           None \<Rightarrow> invalidXrayConfig ''missing_outbounds''
         | Some outbounds \<Rightarrow> if outbounds = [] then invalidXrayConfig ''missing_outbounds''
           else (case agent_validateOutbounds outbounds of
             Inl e \<Rightarrow> Inl e
           | Inr outboundTags \<Rightarrow> (case as_obj (idx config ''routing'') of
               None \<Rightarrow> invalidXrayConfig ''missing_routing''
             | Some routing \<Rightarrow> agent_validateRouting routing [inboundTag] outboundTags))))))"

section \<open>The agent's copies of the helpers\<close>

lemma agent_numberAsInt_eq [simp]: "agent_numberAsInt = numberAsInt"
proof
  show "agent_numberAsInt v = numberAsInt v" for v by (cases v) auto
qed

lemma agent_stringField_eq [simp]: "agent_stringField = stringField"
  by (intro ext) (simp add: agent_stringField_def stringField_def)

lemma agent_all_strings_eq [simp]: "agent_all_strings xs = all_strings xs"
  by (induction xs) (auto split: option.splits)

lemma agent_stringArray_eq [simp]: "agent_stringArray = stringArray"
  by (intro ext) (simp add: agent_stringArray_def stringArray_def split: option.split)

lemma agent_client_eq [simp]: "agent_validateVLESSClient = validateClient"
  by (intro ext) (simp add: agent_validateVLESSClient_def validateClient_def)

lemma agent_clients_eq [simp]: "agent_validate_clients n cs = validate_clients n cs"
  by (induction cs arbitrary: n) (auto split: option.splits sum.splits)

lemma agent_reality_eq [simp]: "agent_validateRealitySettings = validateReality"
  by (intro ext) (simp add: agent_validateRealitySettings_def validateReality_def)

lemma agent_positive_eq [simp]: "agent_positive_number = positive_number"
  by (intro ext) (simp add: agent_positive_number_def positive_number_def)

lemma agent_inbound_eq [simp]: "agent_validateVLESSRealityInbound = validateInbound"
  by (intro ext)
    (simp only: agent_validateVLESSRealityInbound_def validateInbound_def agent_stringField_eq agent_positive_eq
      agent_clients_eq agent_reality_eq)

lemma agent_inbounds_eq [simp]: "agent_validate_inbounds = validate_inbounds"
  by (intro ext) (simp add: agent_validate_inbounds_def validate_inbounds_def cong: option.case_cong)

section \<open>The agent's validator implements its schema\<close>

definition agent_config :: "obj \<Rightarrow> bool" where
  "agent_config c \<longleftrightarrow> config_conforms (\<lambda>p. True) (\<lambda>r. False) c
     \<and> obj_with (\<lambda>r. arr_with (list_all (obj_with (\<lambda>r. strs_with (\<lambda>ts. ts \<noteq> []) (idx r ''inboundTag'')))) (idx r ''rules''))
         (idx c ''routing'')"

lemma agent_outbound_loop_ok:
  "agent_outbound_loop bs tags d = Inr ts \<longleftrightarrow>
     list_all (obj_with (outbound_conforms (\<lambda>p. True))) bs \<and> (d \<or> list_ex (obj_with direct_freedom) bs)
     \<and> ts = rev (map tag_of bs) @ tags"
proof (induction bs arbitrary: tags d)
  case Nil
  show ?case by (auto simp: invalidXrayConfig_def)
next
  case (Cons b bs)
  show ?case
  proof (cases b)
    case (AObj m)
    have f: "direct_freedom m \<longleftrightarrow> str_val (idx m ''tag'') = ''direct'' \<and> str_val (idx m ''protocol'') = ''freedom''"
      by (cases "idx m ''tag''"; cases "idx m ''protocol''") (auto simp: direct_freedom_def str_val_def)
    show ?thesis by (auto simp: AObj Cons f invalidXrayConfig_def outbound_conforms_def)
  qed (auto simp: invalidXrayConfig_def obj_with_def)
qed

lemma agent_validateOutbounds_ok:
  "bs \<noteq> [] \<Longrightarrow> agent_validateOutbounds bs = Inr ts \<longleftrightarrow> outbounds_conform (\<lambda>p. True) bs \<and> ts = rev (map tag_of bs)"
  by (simp add: agent_validateOutbounds_def agent_outbound_loop_ok outbounds_conform_def)

lemma agent_validate_rule_ok:
  "is_ok (agent_validate_rule [i] ts r) \<longleftrightarrow> obj_with (rule_conforms (\<lambda>r. False) i ts) r
     \<and> obj_with (\<lambda>r. strs_with (\<lambda>ts. ts \<noteq> []) (idx r ''inboundTag'')) r"
proof (cases "as_obj r")
  case (Some m)
  have e: "list_ex (\<lambda>t. t \<notin> set [i]) xs \<longleftrightarrow> \<not> list_all (\<lambda>t. t = i) xs" for xs
    by (induction xs) auto
  show ?thesis
    unfolding agent_validate_rule_def Some obj_with_def strs_with_def rule_conforms_def option.case
      agent_stringField_eq agent_stringArray_eq stringField_fst stringField_snd e literal_guard
    by (cases "stringArray (idx m ''inboundTag'')") auto
qed (simp add: agent_validate_rule_def obj_with_def)

lemma agent_validateRouting_ok:
  "is_ok (agent_validateRouting r [i] (rev ts)) \<longleftrightarrow>
     arr_with (\<lambda>rules. rules \<noteq> [] \<and> list_all (obj_with (rule_conforms (\<lambda>r. False) i ts)) rules) (idx r ''rules'')
     \<and> arr_with (list_all (obj_with (\<lambda>r. strs_with (\<lambda>ts. ts \<noteq> []) (idx r ''inboundTag'')))) (idx r ''rules'')"
  by (auto simp: agent_validateRouting_def agent_validate_rule_ok arr_with_def list_all_iff rule_conforms_rev
      split: option.splits)

lemmas agent_outbounds_bind = bind_ok [OF agent_validateOutbounds_ok]

lemma ValidateXrayConfigArtifact_ok [simp]: "is_ok (ValidateXrayConfigArtifact (Some c)) \<longleftrightarrow> agent_config c"
proof -
  note s = agent_config_def config_conforms_def ValidateXrayConfigArtifact_def obj_with_def [of _ "idx c _"]
    arr_with_def [of _ "idx c _"]
  show ?thesis
  proof (cases "as_arr (idx c ''inbounds'')")
    case None
    then show ?thesis by (simp add: s)
  next
    case ins: (Some ins)
    show ?thesis
    proof (cases "as_arr (idx c ''outbounds'')")
      case None
      then show ?thesis using ins by (simp add: s inbounds_bind)
    next
      case outs: (Some bs)
      show ?thesis
        by (cases "bs = []"; cases "as_obj (idx c ''routing'')")
          (auto simp add: s ins outs inbounds_bind agent_outbounds_bind agent_validateRouting_ok split: option.split)
    qed
  qed
qed

end
