(* ===== verification/ConfigProps.thy ===== *)
theory ConfigProps
  imports RenderProps AgentValidate Bundle
begin

text \<open>
  The properties of configuration payloads: which inputs render to a valid payload, how the panel's and the agent's
  validators compare, rollback payloads, independence of the row order, and what a signature vouches for.
\<close>

section \<open>The two validators\<close>

definition protocols_known :: "obj \<Rightarrow> bool" where
  "protocols_known c \<longleftrightarrow> arr_with (list_all (obj_with (\<lambda>b. panel_protocol (str_val (idx b ''protocol''))))) (idx c ''outbounds'')"

definition rules_tagged :: "obj \<Rightarrow> bool" where
  "rules_tagged c \<longleftrightarrow>
     obj_with (\<lambda>r. arr_with (list_all (obj_with (\<lambda>r. strs_with (\<lambda>ts. ts \<noteq> []) (idx r ''inboundTag'')))) (idx r ''rules''))
       (idx c ''routing'')"

lemma outbounds_conform_split:
  "outbounds_conform known bs \<longleftrightarrow> outbounds_conform (\<lambda>p. True) bs
     \<and> list_all (obj_with (\<lambda>b. known (str_val (idx b ''protocol'')))) bs"
proof -
  have "obj_with (outbound_conforms known) b \<longleftrightarrow> obj_with (outbound_conforms (\<lambda>p. True)) b
      \<and> obj_with (\<lambda>b. known (str_val (idx b ''protocol''))) b" for b
    by (cases b) (auto simp: obj_with_def outbound_conforms_def)
  then show ?thesis by (auto simp: outbounds_conform_def list_all_iff)
qed

lemma rule_conforms_tagged:
  "strs_with (\<lambda>ts. ts \<noteq> []) (idx r ''inboundTag'') \<Longrightarrow>
   rule_conforms (\<lambda>r. \<not> has_key r ''inboundTag'') i ts r \<longleftrightarrow> rule_conforms (\<lambda>r. False) i ts r"
  by (auto simp: rule_conforms_def has_key_def idx_def strs_with_def stringArray_def split: option.splits)

lemma rules_conform_tagged:
  "list_all (obj_with (\<lambda>r. strs_with (\<lambda>ts. ts \<noteq> []) (idx r ''inboundTag''))) rules \<Longrightarrow>
   list_all (obj_with (rule_conforms (\<lambda>r. \<not> has_key r ''inboundTag'') i ts)) rules
   \<longleftrightarrow> list_all (obj_with (rule_conforms (\<lambda>r. False) i ts)) rules"
  by (induction rules) (auto simp: obj_with_iff rule_conforms_tagged)

lemma config_conforms_tagged:
  assumes "rules_tagged c"
  shows "config_conforms known (\<lambda>r. \<not> has_key r ''inboundTag'') c \<longleftrightarrow> config_conforms known (\<lambda>r. False) c"
proof (cases "idx c ''routing''")
  case (AObj r)
  show ?thesis
  proof (cases "idx r ''rules''")
    case (AArr rules)
    then have "list_all (obj_with (\<lambda>r. strs_with (\<lambda>ts. ts \<noteq> []) (idx r ''inboundTag''))) rules"
      using assms AObj by (simp add: rules_tagged_def)
    then show ?thesis by (simp add: config_conforms_def AObj AArr rules_conform_tagged)
  qed (use assms AObj in \<open>auto simp: rules_tagged_def arr_with_def\<close>)
qed (use assms in \<open>auto simp: rules_tagged_def obj_with_def\<close>)

lemma config_conforms_known:
  "config_conforms panel_protocol opt c \<longleftrightarrow> config_conforms (\<lambda>p. True) opt c \<and> protocols_known c"
proof (cases "idx c ''outbounds''")
  case (AArr bs)
  show ?thesis
    unfolding config_conforms_def protocols_known_def AArr arr_with_AArr
      outbounds_conform_split [of panel_protocol bs]
    by (auto simp: arr_with_iff)
qed (auto simp: config_conforms_def protocols_known_def arr_with_def split: option.splits)

text \<open>
  C2 The panel and the agent check the same configurations with two separate validators.  They agree except on two
  points: a configuration is accepted by the agent and uses only the outbound protocols the panel knows exactly when
  it is accepted by the panel and every routing rule lists at least one inbound tag.
\<close>

theorem panel_agent_validators_agree:
  "is_ok (ValidateXrayConfigArtifact (Some c)) \<and> protocols_known c
   \<longleftrightarrow> is_ok (ValidateVLESSRealityConfig (Some c)) \<and> rules_tagged c"
proof -
  have "is_ok (ValidateXrayConfigArtifact (Some c)) \<longleftrightarrow> config_conforms (\<lambda>p. True) (\<lambda>r. False) c \<and> rules_tagged c"
    by (simp add: agent_config_def rules_tagged_def)
  moreover have "is_ok (ValidateVLESSRealityConfig (Some c))
      \<longleftrightarrow> config_conforms (\<lambda>p. True) (\<lambda>r. \<not> has_key r ''inboundTag'') c \<and> protocols_known c"
    by (simp add: panel_config_def config_conforms_known)
  ultimately show ?thesis using config_conforms_tagged by blast
qed

section \<open>Rendered payloads\<close>

text \<open>
  C3 The panel validates what it renders.  The payload rendered for a node passes the panel's validator exactly when
  no subscription id is blank, the REALITY destination and private key (after the defaults) are not blank, and no
  rendered routing rule sends traffic to WARP while the node has no WARP credentials.
\<close>

theorem rendered_payload_valid_iff:
  "is_ok (ValidateVLESSRealityPayload (Some (RenderVLESSRealityPayloadWithReality input reality))) \<longleftrightarrow>
     list_all (\<lambda>s. TrimSpace (siSubscriptionID s) \<noteq> []) (riSubscriptionInputs input)
     \<and> TrimSpace (rcDest (WithDefaults reality)) \<noteq> [] \<and> TrimSpace (rcPrivateKey (WithDefaults reality)) \<noteq> []
     \<and> \<not> list_ex (\<lambda>r. rrAction r = ''warp'' \<and> rule_matcher r \<noteq> None \<and> riWarpCredentials input = None)
           (riRoutingRules input)"
proof -
  have "\<not> list_ex (\<lambda>r. rrAction r = ''warp'' \<and> rule_matcher r \<noteq> None \<and> riWarpCredentials input = None) rs
      \<longleftrightarrow> list_all (\<lambda>r. rrAction r = ''warp'' \<and> rule_matcher r \<noteq> None \<longrightarrow> riWarpCredentials input \<noteq> None) rs" for rs
    by (induction rs) auto
  then show ?thesis
    by (simp add: render_payload_conforms renderable_def)
qed

lemma render_protocols_tagged:
  "protocols_known (render_config input r es)" "rules_tagged (render_config input r es)"
proof -
  have "list_all (obj_with (\<lambda>r. strs_with (\<lambda>ts. ts \<noteq> []) (idx r ''inboundTag''))) (renderCustomRoutingRules rs t)" for rs t
  proof (induction rs)
    case (Cons r rs)
    then show ?case by (cases "rule_matcher r") auto
  qed simp
  then show "rules_tagged (render_config input r es)"
    by (simp add: rules_tagged_def render_config_paths render_rules_def)
  show "protocols_known (render_config input r es)"
    using render_outbounds_conform [of input]
    by (auto simp: protocols_known_def render_config_paths outbounds_conform_def outbound_conforms_def list_all_iff obj_with_iff)
qed

text \<open>
  The payload, and with it the bundle hash, does not depend on the order in which the database returns the
  subscriptions, as long as no two of them agree in subscription, user and plan.
\<close>

theorem render_order_independent:
  assumes "mset (riSubscriptionInputs input) = mset subs" and "inj_on input_key (set subs)"
  shows "RenderVLESSRealityPayloadWithReality (input\<lparr> riSubscriptionInputs := subs \<rparr>) reality
         = RenderVLESSRealityPayloadWithReality input reality"
proof -
  have "sortedSubscriptionInputs subs = sortedSubscriptionInputs (riSubscriptionInputs input)"
    using assms by (intro sortedSubscriptionInputs_perm) simp_all
  then show ?thesis
    by (simp add: RenderVLESSRealityPayloadWithReality_def render_config_def render_outbounds_def render_rules_def)
qed

section \<open>Witness inputs\<close>

definition sub_a :: SubscriptionInput where
  "sub_a = \<lparr> siSubscriptionID = ''s-a'', siUserID = ''u-a'', siPlanID = ''p'', siUserStatus = ''active'',
     siSubscriptionStatus = ''active'', siPreferredRegion = ''eu'', siPlanName = ''basic'', siDeviceLimit = 3,
     siTrafficLimitBytes = Some 1000, siStartsAt = ''2024-01-01T00:00:00Z'', siExpiresAt = ''2025-01-01T00:00:00Z'' \<rparr>"

definition sub_b :: SubscriptionInput where
  "sub_b = sub_a\<lparr> siSubscriptionID := ''s-b'', siUserID := ''u-b'', siTrafficLimitBytes := None \<rparr>"

definition input_ab :: RenderInput where
  "input_ab = \<lparr> riNodeID = ''node-1'', riRevisionNumber = 2, riHostname = ''n1'', riRegion = ''eu'', riCountryCode = ''DE'',
     riSubscriptionInputs = [sub_b, sub_a],
     riRoutingRules = [\<lparr> rrRuleType = ''geosite'', rrTarget = ''ads'', rrAction = ''block'' \<rparr>],
     riGlobalSettings = None, riWarpCredentials = None, riRollbackTarget = 1 \<rparr>"

lemma render_order_independent_witness:
  "RenderVLESSRealityPayloadWithReality (input_ab\<lparr> riSubscriptionInputs := [sub_a, sub_b] \<rparr>) DefaultRealityConfig
   = RenderVLESSRealityPayloadWithReality input_ab DefaultRealityConfig"
  by (rule render_order_independent) (simp_all add: input_ab_def sub_a_def sub_b_def input_key_def inj_on_def)

section \<open>Rollback\<close>

text \<open>
  A rollback of a valid payload that JSON carries without loss succeeds, yields a valid payload marked as a
  rollback to the new revision number, and carries the configuration of its source unchanged up to the float64
  reading of its numbers.
\<close>

theorem rollback_payload_valid:
  assumes "is_ok (ValidateVLESSRealityPayload (Some p))" and "json_safe (AObj p)"
  shows "\<exists>q. RenderRollbackPayload (Some p) input = Inr q \<and> is_ok (ValidateVLESSRealityPayload (Some q))
    \<and> idx q ''operation_kind'' = AStr OperationRollback \<and> idx q ''revision_number'' = AInt (rbRevisionNumber input)
    \<and> idx q ''config'' = through_json (idx p ''config'') \<and> idx q ''access_entries'' = through_json (idx p ''access_entries'')"
proof -
  obtain q where q: "RenderRollbackPayload (Some p) input = Inr q" using RenderRollbackPayload_Some by blast
  show ?thesis
    using q rollback_conforms [OF q assms(2)] RenderRollbackPayload_new [OF q] RenderRollbackPayload_other [OF q _ assms(2)]
      assms(1) by (auto simp: rollback_keys_def)
qed

definition tiny_payload :: obj where
  "tiny_payload = RenderVLESSRealityPayload (input_ab\<lparr> riSubscriptionInputs := [], riRoutingRules := [] \<rparr>)"

lemma rollback_payload_valid_witness:
  "\<exists>q. RenderRollbackPayload (Some tiny_payload) \<lparr> rbRevisionNumber = 3, rbRollbackTarget = 2, rbSourceRevisionID = ''r1'',
        rbSourceRevisionNumber = 1 \<rparr> = Inr q \<and> is_ok (ValidateVLESSRealityPayload (Some q))
    \<and> idx q ''operation_kind'' = AStr OperationRollback \<and> idx q ''revision_number'' = AInt 3
    \<and> idx q ''config'' = through_json (idx tiny_payload ''config'')
    \<and> idx q ''access_entries'' = through_json (idx tiny_payload ''access_entries'')"
proof -
  have s: "json_safe (AObj tiny_payload)"
    by (simp add: tiny_payload_def RenderVLESSRealityPayload_def RenderVLESSRealityPayloadWithReality_def Let_def input_ab_def
        render_config_def render_inbound_def render_reality_def render_policy_def render_outbounds_def needs_block_def
        render_rules_def render_dns_def render_log_level_def WithDefaults_def DefaultRealityConfig_def or_default_def
        renderAccessEntries_def renderSubscriptionSummary_def sortedSubscriptionInputs_def render_consts utf8_valid_ascii)
  have v: "is_ok (ValidateVLESSRealityPayload (Some tiny_payload))"
    by (simp add: tiny_payload_def RenderVLESSRealityPayload_def render_payload_conforms renderable_def input_ab_def
        WithDefaults_def DefaultRealityConfig_def or_default_def Let_def)
  show ?thesis
    using rollback_payload_valid [OF v s, of "\<lparr> rbRevisionNumber = 3, rbRollbackTarget = 2, rbSourceRevisionID = ''r1'',
        rbSourceRevisionNumber = 1 \<rparr>"] by simp
qed

section \<open>Signatures\<close>

text \<open>
  C4 A bundle that carries the hash of its payload and the signature the signer makes for it verifies; and it has the
  same signed text as another verified bundle only when node, revision number, payload hash and rollback target all
  agree, so that no field the agent acts on can change without changing the text under the HMAC (node ids contain no
  line break).
\<close>

theorem signed_bundle_binds_fields:
  assumes "bdBundleHash b = HashPayload (bdPayload b)" and "bdSignature b = Sign s b"
    and "newline \<notin> set (bdNodeID b)" and "newline \<notin> set (bdNodeID c)" and "is_ok (Verify s c)"
  shows "Verify s b = Inr () \<and>
    (signingPayload b = signingPayload c \<longleftrightarrow> bdNodeID b = bdNodeID c \<and> bdRevisionNumber b = bdRevisionNumber c
      \<and> HashPayload (bdPayload b) = HashPayload (bdPayload c) \<and> bdRollbackTarget b = bdRollbackTarget c)"
proof
  show "Verify s b = Inr ()" using assms by (simp add: Verify_iff Sign_def)
  have "Verify s c = Inr ()" using assms(5) by (cases "Verify s c") auto
  then have "bdBundleHash c = HashPayload (bdPayload c)" by (simp add: Verify_iff)
  then show "signingPayload b = signingPayload c \<longleftrightarrow> bdNodeID b = bdNodeID c \<and> bdRevisionNumber b = bdRevisionNumber c
      \<and> HashPayload (bdPayload b) = HashPayload (bdPayload c) \<and> bdRollbackTarget b = bdRollbackTarget c"
    using assms by (simp add: signingPayload_def signing_text_inj)
qed

definition dev_bundle :: "int \<Rightarrow> Bundle" where
  "dev_bundle n = (let b = \<lparr> bdNodeID = ''node-1'', bdRevisionNumber = n, bdStatus = ''pending'',
       bdBundleHash = HashPayload (Some [(''k'', AInt 1)]), bdSignature = [], bdSigner = DefaultSigner,
       bdRollbackTarget = 0, bdPayload = Some [(''k'', AInt 1)] \<rparr>
     in b\<lparr> bdSignature := Sign NewDevSigner b \<rparr>)"

lemma signed_bundle_binds_fields_witness:
  "Verify NewDevSigner (dev_bundle 1) = Inr () \<and> signingPayload (dev_bundle 1) \<noteq> signingPayload (dev_bundle 2)"
proof -
  have nl: "newline \<notin> set ''node-1''" by (simp add: newline_eq)
  have f: "bdBundleHash (dev_bundle n) = HashPayload (bdPayload (dev_bundle n))" "bdNodeID (dev_bundle n) = ''node-1''"
    "bdRevisionNumber (dev_bundle n) = n" "bdSignature (dev_bundle n) = Sign NewDevSigner (dev_bundle n)" for n
    by (simp_all add: dev_bundle_def Let_def Sign_def signingPayload_def)
  have "is_ok (Verify NewDevSigner (dev_bundle 2))"
    by (simp add: is_ok_iff Verify_iff f(1,4)) (simp add: Sign_def)
  then show ?thesis
    using signed_bundle_binds_fields [of "dev_bundle 1" NewDevSigner "dev_bundle 2"] by (simp add: f(2,3,4) f(1) [symmetric] newline_eq)
qed

end
