(* ===== verification/GoTime.thy ===== *)
theory GoTime
  imports Prelude
begin

text \<open>
  What the services use of package time on UTC instants: the calendar, \<open>t.Format(time.RFC3339Nano)\<close> (also how package
  json writes a \<open>time.Time\<close>), \<open>t.Format(time.RFC3339)\<close> and \<open>time.Parse(time.RFC3339Nano, s)\<close> for texts of the RFC 3339
  grammar.  The main fact is that parsing undoes formatting for every instant before the year 10000.
\<close>

section \<open>Calendar\<close>

definition leap :: "nat \<Rightarrow> bool" where
  "leap y \<longleftrightarrow> y mod 4 = 0 \<and> (y mod 100 \<noteq> 0 \<or> y mod 400 = 0)"

definition days_before_year :: "nat \<Rightarrow> nat" where
  "days_before_year y = (let p = y - 1 in 365 * p + p div 4 - p div 100 + p div 400)"

definition month_lengths :: "nat \<Rightarrow> nat list" where
  "month_lengths y = [31, (if leap y then 29 else 28), 31, 30, 31, 30, 31, 31, 30, 31, 30, 31]"

lemma days_before_year_ge: "y \<le> days_before_year (Suc y)"
  by (simp add: days_before_year_def)

function search_year :: "nat \<Rightarrow> nat \<Rightarrow> nat" where
  "search_year d y = (if days_before_year (Suc y) \<le> d then search_year d (Suc y) else y)"
  by pat_completeness auto
termination
proof (relation "measure (\<lambda>(d, y). Suc d - y)")
  fix d y assume "days_before_year (Suc y) \<le> d"
  then show "((d, Suc y), (d, y)) \<in> measure (\<lambda>(d, y). Suc d - y)"
    using days_before_year_ge [of y] by simp
qed simp

declare search_year.simps [simp del]

definition year_of_day :: "nat \<Rightarrow> nat" where
  "year_of_day d = search_year d (d div 366 + 1)"

fun month_split :: "nat list \<Rightarrow> nat \<Rightarrow> nat \<Rightarrow> nat \<times> nat" where
  "month_split [] m r = (m, r)"
| "month_split (l # ls) m r = (if r < l then (m, r) else month_split ls (Suc m) (r - l))"

text \<open>Year, month and day of the month of a day number; day 0 is 1 January of the year 1.\<close>

definition civil :: "nat \<Rightarrow> nat \<times> nat \<times> nat" where
  "civil d = (let y = year_of_day d; (m, r) = month_split (month_lengths y) 1 (d - days_before_year y)
     in (y, m, r + 1))"

definition day_number :: "nat \<Rightarrow> nat \<Rightarrow> nat \<Rightarrow> nat" where
  "day_number y m dd = days_before_year y + sum_list (take (m - 1) (month_lengths y)) + (dd - 1)"

section \<open>Decimal fields\<close>

fun pad :: "nat \<Rightarrow> nat \<Rightarrow> string" where
  "pad 0 n = []"
| "pad (Suc k) n = pad k (n div 10) @ [chr (48 + n mod 10)]"

definition is_digit :: "char \<Rightarrow> bool" where
  "is_digit c \<longleftrightarrow> 48 \<le> byte c \<and> byte c \<le> 57"

definition field :: "string \<Rightarrow> nat option" where
  "field s = (if s \<noteq> [] \<and> list_all is_digit s then Some (digits_value s) else None)"

lemma length_pad [simp]: "length (pad k n) = k"
  by (induction k arbitrary: n) auto

lemma pad_digits: "list_all is_digit (pad k n)"
proof (induction k arbitrary: n)
  case (Suc k)
  have "byte (chr (48 + n mod 10)) = 48 + n mod 10" by (rule digit_byte) simp
  then show ?case using Suc by (simp add: is_digit_def)
qed simp

lemma digits_value_snoc: "digits_value (s @ [c]) = 10 * digits_value s + (byte c - 48)"
  by (simp add: digits_value_def)

lemma digits_value_pad: "digits_value (pad k n) = n mod 10 ^ k"
proof (induction k arbitrary: n)
  case 0
  show ?case by (simp add: digits_value_def)
next
  case (Suc k)
  have d: "byte (chr (48 + n mod 10)) = 48 + n mod 10" by (rule digit_byte) simp
  have "10 * (n div 10 mod 10 ^ k) + n mod 10 = n mod (10 * 10 ^ k)"
    by (metis add.commute mod_mult2_eq)
  then show ?case using Suc by (simp add: digits_value_snoc d)
qed

lemma field_pad: "n < 10 ^ k \<Longrightarrow> 0 < k \<Longrightarrow> field (pad k n) = Some n"
  using length_pad [of k n] by (auto simp: field_def pad_digits digits_value_pad simp del: length_pad)

section \<open>Format and parse\<close>

definition frac_text :: "nat \<Rightarrow> string" where
  "frac_text n = (if n = 0 then [] else CHR ''.'' # rev (dropWhile (\<lambda>c. c = CHR ''0'') (rev (pad 9 n))))"

definition date_time_text :: "nat \<Rightarrow> nat \<Rightarrow> string" where
  "date_time_text d s = (case civil d of (y, m, dd) \<Rightarrow>
     pad 4 y @ ''-'' @ pad 2 m @ ''-'' @ pad 2 dd @ ''T''
       @ pad 2 (s div 3600) @ '':'' @ pad 2 (s div 60 mod 60) @ '':'' @ pad 2 (s mod 60))"

definition day_of :: "instant \<Rightarrow> nat" where
  "day_of t = nat (t div day)"

definition second_of_day :: "instant \<Rightarrow> nat" where
  "second_of_day t = nat (t mod day div second)"

definition RFC3339Nano :: "instant \<Rightarrow> string" where
  "RFC3339Nano t = date_time_text (day_of t) (second_of_day t) @ frac_text (nat (t mod second)) @ ''Z''"

definition RFC3339 :: "instant \<Rightarrow> string" where
  "RFC3339 t = date_time_text (day_of t) (second_of_day t) @ ''Z''"

text \<open>The offset at the end of the text, in seconds.\<close>

definition parse_zone :: "string \<Rightarrow> int option" where
  "parse_zone s = (if s = ''Z'' then Some 0
     else if length s = 6 \<and> (s ! 0 = CHR ''+'' \<or> s ! 0 = CHR ''-'') \<and> s ! 3 = CHR '':'' then
       (case (field (take 2 (drop 1 s)), field (drop 4 s)) of
          (Some h, Some m) \<Rightarrow> if h \<le> 24 \<and> m < 60
             then Some ((if s ! 0 = CHR ''-'' then - 1 else 1) * int (3600 * h + 60 * m)) else None
        | _ \<Rightarrow> None)
     else None)"

definition parse_frac :: "string \<Rightarrow> (nat \<times> string) option" where
  "parse_frac s = (case s of [] \<Rightarrow> Some (0, [])
     | c # r \<Rightarrow> if c \<noteq> CHR ''.'' then Some (0, s)
        else let f = takeWhile is_digit r in
          if f = [] then None
          else Some (digits_value (take 9 (f @ replicate 9 (CHR ''0''))), dropWhile is_digit r))"

definition ParseRFC3339 :: "string \<Rightarrow> instant option" where
  "ParseRFC3339 s =
     (if length s < 20 \<or> s ! 4 \<noteq> CHR ''-'' \<or> s ! 7 \<noteq> CHR ''-'' \<or> s ! 10 \<noteq> CHR ''T'' \<or> s ! 13 \<noteq> CHR '':'' \<or> s ! 16 \<noteq> CHR '':''
      then None
      else (case (field (take 4 s), field (take 2 (drop 5 s)), field (take 2 (drop 8 s)), field (take 2 (drop 11 s)),
                  field (take 2 (drop 14 s)), field (take 2 (drop 17 s)), parse_frac (drop 19 s)) of
        (Some y, Some m, Some d, Some h, Some mi, Some sec, Some (n, zone)) \<Rightarrow>
          if y = 0 \<or> m = 0 \<or> 12 < m \<or> d = 0 \<or> month_lengths y ! (m - 1) < d \<or> 24 \<le> h \<or> 60 \<le> mi \<or> 60 \<le> sec
          then None
          else map_option (\<lambda>off. int (day_number y m d) * day
                 + (int (3600 * h + 60 * mi + sec) - off) * second + int n) (parse_zone zone)
      | _ \<Rightarrow> None))"

section \<open>Round trip\<close>

lemma search_year_bounds:
  "days_before_year y \<le> d \<Longrightarrow> 0 < y \<Longrightarrow>
   days_before_year (search_year d y) \<le> d \<and> d < days_before_year (Suc (search_year d y)) \<and> 0 < search_year d y"
proof (induction d y rule: search_year.induct)
  case (1 d y)
  show ?case
  proof (cases "days_before_year (Suc y) \<le> d")
    case True
    then have "search_year d y = search_year d (Suc y)" by (subst search_year.simps) simp
    then show ?thesis using 1 True by simp
  next
    case False
    then have "search_year d y = y" by (subst search_year.simps) simp
    then show ?thesis using 1 False by simp
  qed
qed

lemma year_of_day_bounds:
  "days_before_year (year_of_day d) \<le> d \<and> d < days_before_year (Suc (year_of_day d)) \<and> 0 < year_of_day d"
proof -
  define p where "p = d div 366"
  have "p div 400 \<le> p div 4" by (rule div_le_mono2) simp_all
  moreover have "4 * (p div 4) \<le> p" by simp
  ultimately have "365 * p + p div 4 + p div 400 \<le> 366 * p" by linarith
  then have "days_before_year (p + 1) \<le> 366 * p" by (simp add: days_before_year_def)
  also have "\<dots> \<le> d" unfolding p_def by simp
  finally have "days_before_year (d div 366 + 1) \<le> d" unfolding p_def .
  then show ?thesis unfolding year_of_day_def by (rule search_year_bounds) simp
qed

lemma year_length: "0 < y \<Longrightarrow> days_before_year (Suc y) = days_before_year y + sum_list (month_lengths y)"
proof -
  assume "0 < y"
  then obtain p where y: "y = Suc p" by (cases y) auto
  have "p div 100 \<le> p div 4" "Suc p div 100 \<le> Suc p div 4" by (auto intro: div_le_mono2)
  then have a: "days_before_year (Suc (Suc p)) = 365 * Suc p + (Suc p div 4 - Suc p div 100) + Suc p div 400"
    and b: "days_before_year (Suc p) = 365 * p + (p div 4 - p div 100) + p div 400"
    by (simp_all add: days_before_year_def)
  have c: "sum_list (month_lengths (Suc p)) = (if leap (Suc p) then 366 else 365)"
    by (simp add: month_lengths_def)
  have q: "Suc p div 4 = p div 4 + (if Suc p mod 4 = 0 then 1 else 0)"
    "Suc p div 100 = p div 100 + (if Suc p mod 100 = 0 then 1 else 0)"
    "Suc p div 400 = p div 400 + (if Suc p mod 400 = 0 then 1 else 0)"
    by (simp_all add: div_Suc)
  have r: "Suc p mod 400 = 0 \<Longrightarrow> Suc p mod 100 = 0" "Suc p mod 100 = 0 \<Longrightarrow> Suc p mod 4 = 0" by presburger+
  show ?thesis
    unfolding y a b c leap_def q using r \<open>p div 100 \<le> p div 4\<close> by (auto simp: ac_simps)
qed

lemma month_split_bounds:
  "r < sum_list ls \<Longrightarrow> month_split ls m r = (m', r') \<Longrightarrow>
   m \<le> m' \<and> m' < m + length ls \<and> r' < ls ! (m' - m) \<and> r = sum_list (take (m' - m) ls) + r'"
proof (induction ls m r rule: month_split.induct)
  case (2 l ls m r)
  show ?case
  proof (cases "r < l")
    case True
    then show ?thesis using 2 by simp
  next
    case False
    then have "Suc m \<le> m' \<and> m' < Suc m + length ls \<and> r' < ls ! (m' - Suc m) \<and> r - l = sum_list (take (m' - Suc m) ls) + r'"
      using 2 by auto
    moreover from this have "m' - m = Suc (m' - Suc m)" by (metis Suc_diff_Suc Suc_le_lessD)
    moreover from calculation have "r = l + (sum_list (take (m' - Suc m) ls) + r')" using False by linarith
    ultimately show ?thesis by simp
  qed
qed simp

lemma civil_bounds:
  assumes "civil d = (y, m, dd)"
  shows "0 < y \<and> 1 \<le> m \<and> m \<le> 12 \<and> 1 \<le> dd \<and> dd \<le> month_lengths y ! (m - 1) \<and> day_number y m dd = d"
proof -
  let ?y = "year_of_day d" and ?r = "d - days_before_year (year_of_day d)"
  have b: "days_before_year ?y \<le> d" "?r < sum_list (month_lengths ?y)" "0 < ?y"
    using year_of_day_bounds [of d] year_length [of ?y] by auto
  obtain m' r' where s: "month_split (month_lengths ?y) 1 ?r = (m', r')" by fastforce
  have e: "y = ?y" "m = m'" "dd = r' + 1" using assms s by (auto simp: civil_def Let_def)
  show ?thesis
    using month_split_bounds [OF b(2) s] b e by (auto simp: day_number_def month_lengths_def)
qed

lemma month_length_bound: "i < 12 \<Longrightarrow> month_lengths y ! i \<le> 31"
proof -
  assume "i < 12"
  then have "month_lengths y ! i \<in> set (month_lengths y)" by (intro nth_mem) (simp add: month_lengths_def)
  then show ?thesis by (auto simp: month_lengths_def split: if_splits)
qed

lemma strip_pad: "take 9 (rev (dropWhile (\<lambda>c. c = z) (rev s)) @ replicate 9 z) = s" if "length s = 9"
proof -
  let ?t = "takeWhile (\<lambda>c. c = z) (rev s)" and ?u = "dropWhile (\<lambda>c. c = z) (rev s)"
  have t: "?t = replicate (length ?t) z"
    by (metis (mono_tags, lifting) replicate_eqI set_takeWhileD)
  have s: "s = rev ?u @ rev ?t" by (metis rev_append rev_rev_ident takeWhile_dropWhile_id)
  have l: "length ?u + length ?t = 9" using that by (metis add.commute length_append length_rev takeWhile_dropWhile_id)
  have "replicate 9 z = replicate (length ?t) z @ replicate (9 - length ?t) z"
    using l by (metis le_add2 le_add_diff_inverse replicate_add)
  then have "rev ?u @ replicate 9 z = s @ replicate (9 - length ?t) z"
    using s t by (metis append_assoc rev_replicate)
  then show ?thesis using that by simp
qed

lemma digits_value_zeros: "digits_value (replicate k (CHR ''0'')) = 0"
  by (induction k) (simp_all add: digits_value_def)

lemma parse_frac_text:
  assumes "n < 10 ^ 9"
  shows "parse_frac (frac_text n @ ''Z'') = Some (n, ''Z'')"
proof (cases "n = 0")
  case True
  then show ?thesis by (simp add: frac_text_def parse_frac_def)
next
  case False
  let ?f = "rev (dropWhile (\<lambda>c. c = CHR ''0'') (rev (pad 9 n)))"
  have dg: "\<forall>c \<in> set ?f. is_digit c"
    using pad_digits [of 9 n] by (auto simp: list_all_iff dest!: set_dropWhileD)
  have z: "\<not> is_digit (CHR ''Z'')" by (simp add: is_digit_def)
  have tw: "takeWhile is_digit (?f @ ''Z'') = ?f" "dropWhile is_digit (?f @ ''Z'') = ''Z''"
    using takeWhile_append2 [of ?f is_digit "''Z''"] dropWhile_append2 [of ?f is_digit "''Z''"] dg z by auto
  have v: "take 9 (?f @ replicate 9 (CHR ''0'')) = pad 9 n" by (rule strip_pad) simp
  have ne: "?f \<noteq> []"
  proof
    assume "?f = []"
    then have "pad 9 n = take 9 ([] @ replicate 9 (CHR ''0''))" using v by (simp only:)
    then have "pad 9 n = replicate 9 (CHR ''0'')" by simp
    then have "digits_value (pad 9 n) = 0" by (simp only: digits_value_zeros)
    then show False using False assms by (simp add: digits_value_pad)
  qed
  have "frac_text n @ ''Z'' = CHR ''.'' # (?f @ ''Z'')" using False by (simp add: frac_text_def)
  then show ?thesis
    using tw v ne assms by (simp add: parse_frac_def Let_def digits_value_pad)
qed

lemma nth_field: "length a = n \<Longrightarrow> (a @ c # s) ! n = c"
  by (metis nth_append_length)

lemma year_bound: "d < 3652059 \<Longrightarrow> civil d = (y, m, dd) \<Longrightarrow> y < 10000"
proof (rule ccontr)
  assume d: "d < 3652059" "civil d = (y, m, dd)" "\<not> y < 10000"
  have y: "y = year_of_day d" using d(2) by (auto simp: civil_def Let_def split: prod.splits)
  have mono: "days_before_year 10000 \<le> days_before_year (10000 + k)" for k
  proof (induction k)
    case (Suc k)
    then show ?case using year_length [of "10000 + k"] by simp
  qed simp
  obtain k where "y = 10000 + k" using d(3) by (metis le_add_diff_inverse not_less)
  then have "days_before_year 10000 \<le> d" using mono [of k] year_of_day_bounds [of d] y by simp
  then show False using d(1) by (simp add: days_before_year_def)
qed

lemma date_time_fields:
  fixes sec :: nat
  assumes "civil d = (y, m, dd)" and "length rest > 0"
  defines "s \<equiv> date_time_text d sec @ rest"
  shows "\<not> length s < 20" "s ! 4 = CHR ''-''" "s ! 7 = CHR ''-''" "s ! 10 = CHR ''T''" "s ! 13 = CHR '':''" "s ! 16 = CHR '':''"
    "take 4 s = pad 4 y" "take 2 (drop 5 s) = pad 2 m" "take 2 (drop 8 s) = pad 2 dd"
    "take 2 (drop 11 s) = pad 2 (sec div 3600)" "take 2 (drop 14 s) = pad 2 (sec div 60 mod 60)"
    "take 2 (drop 17 s) = pad 2 (sec mod 60)" "drop 19 s = rest"
proof -
  have l4: "length x = 4 \<Longrightarrow> \<exists>a b c d. x = [a, b, c, d]" for x :: string
    by (auto simp: numeral_eq_Suc length_Suc_conv)
  have l2: "length x = 2 \<Longrightarrow> \<exists>a b. x = [a, b]" for x :: string
    by (auto simp: numeral_eq_Suc length_Suc_conv)
  have p4: "\<exists>a b c d. pad 4 n = [a, b, c, d]" for n using l4 length_pad by blast
  have p2: "\<exists>a b. pad 2 n = [a, b]" for n using l2 length_pad by blast
  obtain y1 y2 y3 y4 where y: "pad 4 y = [y1, y2, y3, y4]" using p4 by blast
  obtain m1 m2 where m: "pad 2 m = [m1, m2]" using p2 by blast
  obtain d1 d2 where dd: "pad 2 dd = [d1, d2]" using p2 by blast
  obtain h1 h2 where h: "pad 2 (sec div 3600) = [h1, h2]" using p2 by blast
  obtain i1 i2 where i: "pad 2 (sec div 60 mod 60) = [i1, i2]" using p2 by blast
  obtain c1 c2 where c: "pad 2 (sec mod 60) = [c1, c2]" using p2 by blast
  have s: "s = [y1, y2, y3, y4, CHR ''-'', m1, m2, CHR ''-'', d1, d2, CHR ''T'', h1, h2, CHR '':'', i1, i2, CHR '':'', c1, c2] @ rest"
    unfolding s_def date_time_text_def assms(1) prod.case y m dd h i c by simp
  have "Suc 0 \<le> length rest" using assms(2) by (simp add: Suc_le_eq)
  then show "\<not> length s < 20" unfolding s length_append by (simp only: list.size not_less)
  show "s ! 4 = CHR ''-''" "s ! 7 = CHR ''-''" "s ! 10 = CHR ''T''" "s ! 13 = CHR '':''" "s ! 16 = CHR '':''"
    unfolding s by simp_all
  show "take 4 s = pad 4 y" "take 2 (drop 5 s) = pad 2 m" "take 2 (drop 8 s) = pad 2 dd"
    "take 2 (drop 11 s) = pad 2 (sec div 3600)" "take 2 (drop 14 s) = pad 2 (sec div 60 mod 60)"
    "take 2 (drop 17 s) = pad 2 (sec mod 60)" "drop 19 s = rest"
    unfolding s y m dd h i c by simp_all
qed

definition max_instant :: int where
  "max_instant = 3652059 * day"

lemma instant_split:
  assumes "0 \<le> t"
  shows "int (day_of t) * day + int (second_of_day t) * second + t mod second = t"
    and "second_of_day t < 86400"
proof -
  have "t mod day mod second = t mod second" unfolding durations by (rule mod_mod_cancel) simp
  then have "t mod day div second * second + t mod second = t mod day" by (metis div_mult_mod_eq)
  moreover have "t div day * day + t mod day = t" by (rule div_mult_mod_eq)
  moreover have "int (day_of t) = t div day" "int (second_of_day t) = t mod day div second"
    using assms by (simp_all add: durations pos_imp_zdiv_nonneg_iff day_of_def second_of_day_def)
  ultimately show "int (day_of t) * day + int (second_of_day t) * second + t mod second = t"
    by (simp only:)
  have "t mod day < day" by (simp add: durations)
  then have "t mod day div second < 86400" by (simp add: durations)
  then show "second_of_day t < 86400" by (simp add: second_of_day_def)
qed

theorem ParseRFC3339_format:
  assumes "0 \<le> t" and "t < max_instant"
  shows "ParseRFC3339 (RFC3339Nano t) = Some t"
proof -
  let ?s = "second_of_day t" and ?n = "nat (t mod second)"
  obtain y m dd where c: "civil (day_of t) = (y, m, dd)" by (metis prod_cases3)
  have n: "?n < 10 ^ 9" by (simp add: second_def nat_less_iff)
  have d: "day_of t < 3652059"
    using assms by (simp add: day_of_def max_instant_def durations nat_less_iff)
  have b: "0 < y" "1 \<le> m" "m \<le> 12" "1 \<le> dd" "dd \<le> month_lengths y ! (m - 1)" "day_number y m dd = day_of t"
    using civil_bounds [OF c] by auto
  have y4: "y < 10 ^ 4" using year_bound [OF d c] by simp
  have "m - 1 < 12" using b(2,3) by arith
  from month_length_bound [OF this, of y] have dd2: "dd < 10 ^ 2" using b(5) by simp
  have m2: "m < 10 ^ 2" using b by simp
  have s: "?s < 86400" using instant_split(2) [OF assms(1)] .
  have h2: "?s div 3600 < 24" "?s div 3600 < 10 ^ 2" "?s div 60 mod 60 < 10 ^ 2" "?s mod 60 < 10 ^ 2" using s by auto
  have "?s div 3600 = ?s div 60 div 60" by (simp add: div_mult2_eq [symmetric])
  moreover have "60 * (?s div 60 div 60) + ?s div 60 mod 60 = ?s div 60" by (rule mult_div_mod_eq)
  moreover have "60 * (?s div 60) + ?s mod 60 = ?s" by (rule mult_div_mod_eq)
  ultimately have hms: "3600 * (?s div 3600) + 60 * (?s div 60 mod 60) + ?s mod 60 = ?s" by linarith
  have f: "RFC3339Nano t = date_time_text (day_of t) ?s @ (frac_text ?n @ ''Z'')"
    by (simp add: RFC3339Nano_def)
  have r: "length (frac_text ?n @ ''Z'') > 0" by simp
  have dd3: "\<not> month_lengths y ! (m - 1) < dd" using b by simp
  have ns: "int ?n = t mod second" by (simp add: second_def)
  note F = date_time_fields [OF c r, of ?s, folded f]
  have e: "int (day_number y m dd) * day + (int (3600 * (?s div 3600) + 60 * (?s div 60 mod 60) + ?s mod 60) - 0) * second
        + int ?n = t"
    unfolding hms b ns using instant_split(1) [OF assms(1)] by simp
  show ?thesis
    unfolding ParseRFC3339_def F field_pad [OF y4 zero_less_numeral] field_pad [OF m2 zero_less_numeral]
      field_pad [OF dd2 zero_less_numeral] field_pad [OF h2(2) zero_less_numeral] field_pad [OF h2(3) zero_less_numeral]
      field_pad [OF h2(4) zero_less_numeral] parse_frac_text [OF n]
    using b h2(1) dd3 e F(1) by (simp add: parse_zone_def not_le)
qed

lemma ascii_pad [simp]: "ascii (pad k n)"
  using pad_digits [of k n] by (auto simp: ascii_def list_all_iff is_digit_def)

lemma ascii_date_time_text [simp]: "ascii (date_time_text d s)"
  by (simp add: date_time_text_def split: prod.split)

lemma ascii_RFC3339 [simp]: "ascii (RFC3339 t)"
  by (simp add: RFC3339_def)

lemma ascii_frac_text [simp]: "ascii (frac_text n)"
proof -
  have "ascii (rev (dropWhile P (rev s)))" if "ascii s" for P s
    using that by (auto simp: ascii_def dest!: set_dropWhileD)
  then show ?thesis by (simp add: frac_text_def)
qed

lemma ascii_RFC3339Nano [simp]: "ascii (RFC3339Nano t)"
  by (simp add: RFC3339Nano_def)

end
