(* ===== verification/AgentTypes.thy ===== *)
theory AgentTypes
  imports AgentValidate Bundle GoTime
begin

text \<open>
  The data of the node agent (\<open>services/node-agent/internal/agent/model.go\<close> and the types and constants of
  \<open>runtime.go\<close> and \<open>service.go\<close>), its errors, its disk and the outside world an operation runs in.  The disk maps
  paths to file bodies; a body is the JSON document some value marshals to, or other bytes.  The world of a call gives
  the clock, the cancellation of the context, the paths on which a file operation fails, and the outcomes of the
  external commands.
\<close>

section \<open>Constants\<close>

abbreviation StatusBootstrapping :: string where "StatusBootstrapping \<equiv> ''bootstrapping''"
abbreviation StatusPending :: string where "StatusPending \<equiv> ''pending''"
abbreviation StatusActive :: string where "StatusActive \<equiv> ''active''"
abbreviation RuntimeModeNoProcess :: string where "RuntimeModeNoProcess \<equiv> ''no-process''"
abbreviation RuntimeModeDryRunOnly :: string where "RuntimeModeDryRunOnly \<equiv> ''dry-run-only''"
abbreviation RuntimeModeFuture :: string where "RuntimeModeFuture \<equiv> ''future-process-managed''"
abbreviation ProcessModeDisabled :: string where "ProcessModeDisabled \<equiv> ''disabled''"
abbreviation ProcessModeLocal :: string where "ProcessModeLocal \<equiv> ''local''"
abbreviation ProcessStateDisabled :: string where "ProcessStateDisabled \<equiv> ''disabled''"
abbreviation ProcessStateReady :: string where "ProcessStateReady \<equiv> ''ready''"
abbreviation ProcessStateFailed :: string where "ProcessStateFailed \<equiv> ''failed''"
abbreviation ProcessStateRunning :: string where "ProcessStateRunning \<equiv> ''running''"
abbreviation ProcessStateStopped :: string where "ProcessStateStopped \<equiv> ''stopped''"
abbreviation ProcessStateRestarting :: string where "ProcessStateRestarting \<equiv> ''restarting''"
abbreviation DesiredStateConfigReady :: string where "DesiredStateConfigReady \<equiv> ''validated-config-ready''"
abbreviation StateNotPrepared :: string where "StateNotPrepared \<equiv> ''not_prepared''"
abbreviation StateActiveConfigReady :: string where "StateActiveConfigReady \<equiv> ''active_config_ready''"
abbreviation StateValidationFailed :: string where "StateValidationFailed \<equiv> ''validation_failed''"
abbreviation StatePrepareFailed :: string where "StatePrepareFailed \<equiv> ''prepare_failed''"
abbreviation AttemptSkipped :: string where "AttemptSkipped \<equiv> ''skipped''"
abbreviation AttemptReady :: string where "AttemptReady \<equiv> ''ready''"
abbreviation AttemptFailed :: string where "AttemptFailed \<equiv> ''failed''"
abbreviation DryRunNotConfigured :: string where "DryRunNotConfigured \<equiv> ''not_configured''"
abbreviation DryRunPassed :: string where "DryRunPassed \<equiv> ''passed''"
abbreviation DryRunFailed :: string where "DryRunFailed \<equiv> ''failed''"

abbreviation runtimeEventTrailLimit :: nat where "runtimeEventTrailLimit \<equiv> 20"

section \<open>Data\<close>

record Identity =
  idNodeID :: string
  idBootstrapToken :: string
  idNodeToken :: string
  idPanelURL :: string
  idStateDir :: string
  idXrayBin :: string
  idProcessMode :: string

record RuntimeEvent =
  reType :: string
  reStatus :: string
  reRevision :: int
  reMessage :: string
  reMode :: string
  reProcessMode :: string
  reProcessState :: string
  reAt :: instant

record Status =
  stNodeID :: string
  stStatus :: string
  stRegistered :: bool
  stPanelURL :: string
  stLastHeartbeatAt :: instant
  stDryRunEnabled :: bool
  stRuntimeMode :: string
  stProcessMode :: string
  stProcessState :: string
  stDesiredState :: string
  stRuntimeState :: string
  stLastDryRun :: string
  stLastAttempt :: string
  stLastPrepared :: int
  stLastTransitionAt :: instant
  stLastRuntimeError :: string
  stActiveRevision :: int
  stLastApplied :: int
  stLastRollback :: int
  stStaged :: int
  stRollbackCandidate :: int
  stLastValidation :: string
  stLastValidationError :: string
  stLastValidationAt :: instant
  stConfigPath :: string
  stMetadataPath :: string
  stEvents :: "RuntimeEvent list"

record ConfigRevision =
  crID :: string
  crNodeID :: string
  crRevisionNumber :: int
  crStatus :: string
  crBundleHash :: string
  crSignature :: string
  crSigner :: string
  crRollbackTarget :: int
  crBundle :: "obj option"
  crCreatedAt :: instant
  crAppliedAt :: instant

record RegistrationPayload =
  rpNodeID :: string
  rpBootstrapToken :: string
  rpAgentVersion :: string
  rpHostname :: string

record HeartbeatPayload =
  hpNodeID :: string
  hpAgentVersion :: string
  hpStatus :: string
  hpActiveRevision :: int
  hpRuntimeMode :: string
  hpProcessMode :: string
  hpProcessState :: string
  hpDesiredState :: string
  hpRuntimeState :: string
  hpXrayPID :: int
  hpLastDryRun :: string
  hpLastAttempt :: string
  hpLastPrepared :: int
  hpLastRuntimeAt :: instant
  hpLastRuntimeError :: string
  hpLastValidation :: string
  hpLastValidationError :: string
  hpLastValidationAt :: instant
  hpLastApplied :: int
  hpActiveConfigPath :: string
  hpEvents :: "RuntimeEvent list"
  hpSentAt :: instant

record ConfigRevisionReport =
  rrStatus :: string
  rrAppliedAt :: instant
  rrFailedAt :: instant
  rrErrorMessage :: string
  rrActiveRevision :: int
  rrRuntimeMode :: string
  rrProcessMode :: string
  rrProcessState :: string
  rrDesiredState :: string
  rrRuntimeState :: string
  rrLastDryRun :: string
  rrLastAttempt :: string
  rrLastPrepared :: int
  rrLastRuntimeAt :: instant
  rrLastRuntimeError :: string
  rrLastValidation :: string
  rrLastValidationError :: string
  rrLastValidationAt :: instant
  rrLastApplied :: int
  rrActiveConfigPath :: string
  rrEvents :: "RuntimeEvent list"
  rrSentAt :: instant

record ConfigArtifact =
  caConfigPath :: string
  caMetadataPath :: string
  caRevisionConfigPath :: string
  caRevisionMetadataPath :: string
  caStagedConfigPath :: string
  caStagedMetadataPath :: string
  caStatePath :: string

record RollbackPlan =
  plFrom :: int
  plTo :: int
  plReason :: string

datatype agent_error =
    AErrBootstrapTokenRequired
  | AErrNodeIDRequired
  | AErrInvalidConfigRevision
  | AErrInvalidConfigBundleHash
  | AErrInvalidConfigSignature
  | AErrInvalidConfigPayload
  | AErrStateDirRequired
  | AErrConfigArtifactWrite
  | AErrInvalidXrayConfig xray_error
  | AErrXrayDryRunFailed string
  | AErrNodeTokenRequired
  | AErrPanelURLRequired
  | AErrPendingRevisionAuth
  | AErrHeartbeatAuth
  | AErrUnexpectedPanelResponse
  | AErrOther string
  | AErrNilMapPanic

section \<open>Disk and world\<close>

datatype file_body = JsonDoc any | RawBytes string

type_synonym disk = "string \<rightharpoonup> file_body"

text \<open>How the command \<open>xray run -test\<close> ends; a failing command carries the reason made of its output.\<close>

datatype dry_run_outcome = DryRunOk | DryRunTimeout | DryRunBinaryMissing | DryRunNotExecutable | DryRunExit string

record agent_world =
  wNow :: instant
  wCtxErr :: "string option"
  wWriteFails :: "string \<Rightarrow> bool"
  wMkdirFails :: "string \<Rightarrow> bool"
  wReadFails :: "string \<Rightarrow> bool"
  wPID :: int
  wHostname :: string
  wStart :: "string + int"
  wDryRun :: dry_run_outcome

record RuntimePrepareRequest =
  pqRevision :: ConfigRevision
  pqArtifact :: ConfigArtifact
  pqDryRunStatus :: string
  pqProcessMode :: string
  pqAt :: instant

record RuntimeTransition =
  trProcessMode :: string
  trProcessState :: string
  trState :: string
  trAttempt :: string
  trErrorMessage :: string
  trAt :: instant

record RuntimeProcessRequest =
  xqRevision :: ConfigRevision
  xqArtifact :: ConfigArtifact
  xqAt :: instant

record RuntimeProcessResult =
  xrProcessState :: string
  xrAttempt :: string
  xrErrorMessage :: string
  xrAt :: instant

type_synonym process_runner = "agent_world \<Rightarrow> RuntimeProcessRequest \<Rightarrow> RuntimeProcessResult \<times> agent_error option"
type_synonym runtime_supervisor = "agent_world \<Rightarrow> RuntimePrepareRequest \<Rightarrow> RuntimeTransition \<times> agent_error option"
type_synonym dry_run_validator = "agent_world \<Rightarrow> any \<Rightarrow> agent_error option"

section \<open>Paths\<close>

text \<open>\<open>filepath.Join\<close> of a directory and constant names: the names of the cleaned path, joined again.\<close>

fun clean_names :: "bool \<Rightarrow> string list \<Rightarrow> string list \<Rightarrow> string list" where
  "clean_names rooted stack [] = rev stack"
| "clean_names rooted stack (n # ns) =
     (if n = [] \<or> n = ''.'' then clean_names rooted stack ns
      else if n = ''..'' then
        (case stack of [] \<Rightarrow> clean_names rooted (if rooted then [] else [n]) ns
         | t # r \<Rightarrow> if t = ''..'' then clean_names rooted (n # stack) ns else clean_names rooted r ns)
      else clean_names rooted (n # stack) ns)"

definition path_text :: "bool \<Rightarrow> string list \<Rightarrow> string" where
  "path_text rooted ns = (if rooted then ''/'' @ join_with ''/'' ns else if ns = [] then ''.'' else join_with ''/'' ns)"

definition filepath_Join :: "string \<Rightarrow> string list \<Rightarrow> string" where
  "filepath_Join dir names = (let rooted = has_prefix dir ''/''
     in path_text rooted (clean_names rooted [] (split_on (CHR ''/'') dir @ names)))"

definition plain_name :: "string \<Rightarrow> bool" where
  "plain_name n \<longleftrightarrow> n \<noteq> [] \<and> n \<noteq> ''.'' \<and> n \<noteq> ''..'' \<and> CHR ''/'' \<notin> set n"

lemma clean_names_append:
  "list_all plain_name ns \<Longrightarrow> clean_names r st (ms @ ns) = clean_names r st ms @ ns"
proof (induction r st ms rule: clean_names.induct)
  case (1 rooted stack)
  have "clean_names rooted stack ns = rev stack @ ns"
    using 1 by (induction ns arbitrary: stack) (auto simp: plain_name_def)
  then show ?case by simp
next
  case (2 rooted stack n ns)
  then show ?case by (auto split: list.splits)
qed

lemma split_on_no: "p \<in> set (split_on d s) \<Longrightarrow> d \<notin> set p"
  by (induction s arbitrary: p) (auto split: list.splits if_splits)

lemma clean_names_sub: "n \<in> set (clean_names r st ms) \<Longrightarrow> n \<in> set st \<or> n \<in> set ms"
proof (induction r st ms rule: clean_names.induct)
  case (2 rooted stack n' ns)
  then show ?case by (auto split: if_splits list.splits)
qed auto

lemma join_with_inj:
  assumes "\<forall>p \<in> set ps. d \<notin> set p" and "\<forall>q \<in> set qs. d \<notin> set q" and "ps \<noteq> []" and "qs \<noteq> []"
  shows "join_with [d] ps = join_with [d] qs \<longleftrightarrow> ps = qs"
proof -
  have s: "split_on d (join_with [d] ps) = ps" if "ps \<noteq> []" "\<forall>p \<in> set ps. d \<notin> set p" for ps
    using that by (induction "[d]" ps rule: join_with.induct) (auto simp: split_on_no_sep split_on_append)
  show ?thesis using s assms by metis
qed

lemma filepath_Join_inj:
  assumes "list_all plain_name ms" and "list_all plain_name ns" and "ms \<noteq> []" and "ns \<noteq> []"
  shows "filepath_Join dir ms = filepath_Join dir ns \<longleftrightarrow> ms = ns"
proof -
  let ?r = "has_prefix dir ''/''"
  let ?c = "clean_names ?r [] (split_on (CHR ''/'') dir)"
  have c: "\<forall>p \<in> set ?c. CHR ''/'' \<notin> set p" by (auto dest!: clean_names_sub split_on_no)
  have p: "\<forall>p \<in> set (?c @ ls). CHR ''/'' \<notin> set p" if "list_all plain_name ls" for ls
    using c that by (auto simp: list_all_iff plain_name_def)
  have j: "join_with ''/'' (?c @ ms) = join_with ''/'' (?c @ ns) \<longleftrightarrow> ?c @ ms = ?c @ ns"
    by (rule join_with_inj) (use p assms in simp_all)
  show ?thesis
    using j assms by (auto simp: filepath_Join_def Let_def clean_names_append path_text_def)
qed

lemmas Join_names = filepath_Join_inj plain_name_def

end
