(* ===== verification/AgentRuntime.thy ===== *)
theory AgentRuntime
  imports AgentTypes
begin

text \<open>
  \<open>services/node-agent/internal/agent/runtime.go\<close>: the modes of the runtime, the supervisor that prepares an activated
  configuration, and the process runner it delegates to in local mode.  The two Go interfaces are the locales
  \<open>process_runner\<close> and \<open>runtime_supervisor\<close>; every runner gives a supervisor.
\<close>

definition normalizeRuntimeProcessMode :: "string \<Rightarrow> string" where
  "normalizeRuntimeProcessMode value = (if TrimSpace value = ProcessModeLocal then ProcessModeLocal else ProcessModeDisabled)"

definition runtimeModeForIdentity :: "string \<Rightarrow> string \<Rightarrow> string" where
  "runtimeModeForIdentity xrayBin processMode =
     (if normalizeRuntimeProcessMode processMode = ProcessModeLocal then RuntimeModeFuture
      else if TrimSpace xrayBin \<noteq> [] then RuntimeModeDryRunOnly else RuntimeModeNoProcess)"

definition dryRunStatusForValidator :: "dry_run_validator option \<Rightarrow> string" where
  "dryRunStatusForValidator v = (if v = None then DryRunNotConfigured else DryRunPassed)"

definition empty_transition :: RuntimeTransition where
  "empty_transition = \<lparr> trProcessMode = [], trProcessState = [], trState = [], trAttempt = [], trErrorMessage = [], trAt = 0 \<rparr>"

definition empty_result :: RuntimeProcessResult where
  "empty_result = \<lparr> xrProcessState = [], xrAttempt = [], xrErrorMessage = [], xrAt = 0 \<rparr>"

definition LocalProcessRunnerSkeleton :: process_runner where
  "LocalProcessRunnerSkeleton w request = (case wCtxErr w of
     Some e \<Rightarrow> (empty_result, Some (AErrOther e))
   | None \<Rightarrow> (let t0 = (if xqAt request = 0 then wNow w else xqAt request)
       in (\<lparr> xrProcessState = ProcessStateReady, xrAttempt = AttemptReady, xrErrorMessage = [], xrAt = t0 \<rparr>, None)))"

text \<open>The text of a runner's error, as \<open>err.Error()\<close> gives it.\<close>

fun runner_message :: "agent_error \<Rightarrow> string" where
  "runner_message (AErrOther m) = m"
| "runner_message _ = ''error''"

definition NoProcessRuntimeSupervisor :: "string \<Rightarrow> process_runner option \<Rightarrow> runtime_supervisor" where
  "NoProcessRuntimeSupervisor processMode0 runner0 w request = (case wCtxErr w of
     Some e \<Rightarrow> (empty_transition, Some (AErrOther e))
   | None \<Rightarrow>
     (let t0 = (if pqAt request = 0 then wNow w else pqAt request);
          processMode = (if pqProcessMode request \<noteq> [] then normalizeRuntimeProcessMode (pqProcessMode request)
                         else normalizeRuntimeProcessMode processMode0)
      in if processMode = ProcessModeLocal then
           (let runner = (case runner0 of None \<Rightarrow> LocalProcessRunnerSkeleton | Some r \<Rightarrow> r)
            in case runner w \<lparr> xqRevision = pqRevision request, xqArtifact = pqArtifact request, xqAt = t0 \<rparr> of
              (result, Some err) \<Rightarrow>
                (\<lparr> trProcessMode = ProcessModeLocal, trProcessState = ProcessStateFailed, trState = StatePrepareFailed,
                   trAttempt = AttemptFailed, trErrorMessage = TrimSpace (runner_message err), trAt = t0 \<rparr>, Some err)
            | (result, None) \<Rightarrow>
                (\<lparr> trProcessMode = ProcessModeLocal,
                   trProcessState = (if xrProcessState result = [] then ProcessStateReady else xrProcessState result),
                   trState = StateActiveConfigReady,
                   trAttempt = (if xrAttempt result = [] then AttemptReady else xrAttempt result),
                   trErrorMessage = TrimSpace (xrErrorMessage result),
                   trAt = (if xrAt result = 0 then t0 else xrAt result) \<rparr>, None))
         else
           (\<lparr> trProcessMode = ProcessModeDisabled, trProcessState = ProcessStateDisabled, trState = StateActiveConfigReady,
              trAttempt = AttemptSkipped, trErrorMessage = [], trAt = t0 \<rparr>, None)))"

section \<open>The interfaces\<close>

text \<open>What a process runner promises: a start that succeeds leaves the process ready or running.\<close>

locale process_runner =
  fixes prepare_start :: process_runner
  assumes start_state: "prepare_start w q = (r, None) \<Longrightarrow> xrProcessState r \<in> {ProcessStateReady, ProcessStateRunning}"
    and start_attempt: "prepare_start w q = (r, None) \<Longrightarrow> xrAttempt r = AttemptReady"

text \<open>What a runtime supervisor promises the service: success means the active configuration is ready.\<close>

locale runtime_supervisor =
  fixes prepare :: runtime_supervisor
  assumes prepared_state: "prepare w q = (t, None) \<Longrightarrow> trState t = StateActiveConfigReady"
    and prepared_attempt: "prepare w q = (t, None) \<Longrightarrow> trAttempt t \<in> {AttemptSkipped, AttemptReady}"
    and prepared_process: "prepare w q = (t, None) \<Longrightarrow>
      trProcessState t \<in> {ProcessStateDisabled, ProcessStateReady, ProcessStateRunning}"
    and prepared_mode: "prepare w q = (t, None) \<Longrightarrow> trProcessMode t \<in> {ProcessModeDisabled, ProcessModeLocal}"
begin

lemma prepared_nonempty: "prepare w q = (t, None) \<Longrightarrow> trState t \<noteq> [] \<and> trAttempt t \<noteq> [] \<and> trProcessMode t \<noteq> [] \<and> trProcessState t \<noteq> []"
  using prepared_state prepared_attempt prepared_process prepared_mode by fastforce

end

text \<open>Every runner gives a supervisor.\<close>

sublocale process_runner \<subseteq> sup: runtime_supervisor "NoProcessRuntimeSupervisor mode (Some prepare_start)"
proof
  fix w q t assume a: "NoProcessRuntimeSupervisor mode (Some prepare_start) w q = (t, None)"
  have c: "wCtxErr w = None" using a by (cases "wCtxErr w") (auto simp: NoProcessRuntimeSupervisor_def)
  let ?q = "\<lparr> xqRevision = pqRevision q, xqArtifact = pqArtifact q, xqAt = (if pqAt q = 0 then wNow w else pqAt q) \<rparr>"
  obtain r e where r: "prepare_start w ?q = (r, e)" by fastforce
  have l: "e = None \<Longrightarrow> xrProcessState r \<in> {ProcessStateReady, ProcessStateRunning} \<and> xrAttempt r = AttemptReady"
    using start_state start_attempt r by blast
  show "trState t = StateActiveConfigReady"
    using a r c by (auto simp: NoProcessRuntimeSupervisor_def Let_def split: if_splits option.splits)
  show "trAttempt t \<in> {AttemptSkipped, AttemptReady}"
    using a r c l by (auto simp: NoProcessRuntimeSupervisor_def Let_def split: if_splits option.splits)
  show "trProcessState t \<in> {ProcessStateDisabled, ProcessStateReady, ProcessStateRunning}"
    using a r c l by (auto simp: NoProcessRuntimeSupervisor_def Let_def split: if_splits option.splits)
  show "trProcessMode t \<in> {ProcessModeDisabled, ProcessModeLocal}"
    using a r c by (auto simp: NoProcessRuntimeSupervisor_def Let_def split: if_splits option.splits)
qed

interpretation skeleton: process_runner LocalProcessRunnerSkeleton
  by unfold_locales (auto simp: LocalProcessRunnerSkeleton_def Let_def split: option.splits)

lemma supervisor_default_runner:
  "NoProcessRuntimeSupervisor mode None = NoProcessRuntimeSupervisor mode (Some LocalProcessRunnerSkeleton)"
  by (intro ext) (simp add: NoProcessRuntimeSupervisor_def Let_def cong: option.case_cong)

interpretation default_supervisor: runtime_supervisor "NoProcessRuntimeSupervisor mode None"
  unfolding supervisor_default_runner by (rule skeleton.sup.runtime_supervisor_axioms)

text \<open>Outside local mode no runner is called and the transition says so.\<close>

lemma supervisor_disabled:
  assumes "wCtxErr w = None" and "pqProcessMode q = ProcessModeDisabled"
  shows "NoProcessRuntimeSupervisor mode runner w q =
    (\<lparr> trProcessMode = ProcessModeDisabled, trProcessState = ProcessStateDisabled, trState = StateActiveConfigReady,
       trAttempt = AttemptSkipped, trErrorMessage = [], trAt = (if pqAt q = 0 then wNow w else pqAt q) \<rparr>, None)"
proof -
  have "TrimSpace ProcessModeDisabled = ProcessModeDisabled" by (rule TrimSpace_graphic) simp_all
  then show ?thesis using assms by (simp add: NoProcessRuntimeSupervisor_def normalizeRuntimeProcessMode_def)
qed

end
