(* ===== verification/AgentService.thy ===== *)
theory AgentService
  imports AgentRuntime
begin

text \<open>
  \<open>services/node-agent/internal/agent/service.go\<close>: the agent's state and every operation on it.  A service is its
  identity, its status, the accepted revisions, the dry-run validator and supervisor it was built with, and the
  disk under its state directory.  An operation takes the world of the call and the service and returns its result
  with the service afterwards, files included; a failing operation keeps what it had done before it failed.
\<close>

definition AgentVersion :: string where "AgentVersion = ''0.1.0-dev''"
definition DevConfigBundleSigner :: string where "DevConfigBundleSigner = ''lenker-dev-hmac-sha256''"
definition devConfigBundleKey :: string where "devConfigBundleKey = ''lenker-dev-config-bundle-signing-key''"

record Service =
  svIdentity :: Identity
  svStatus :: Status
  svRevisions :: "int \<rightharpoonup> ConfigRevision"
  svDryRun :: "dry_run_validator option"
  svRuntime :: runtime_supervisor
  svHasPID :: bool
  svDisk :: disk

definition on_status :: "(Status \<Rightarrow> Status) \<Rightarrow> Service \<Rightarrow> Service" where
  "on_status f sv = sv\<lparr> svStatus := f (svStatus sv) \<rparr>"

definition state_dir :: "Service \<Rightarrow> string" where
  "state_dir sv = TrimSpace (idStateDir (svIdentity sv))"

section \<open>Payloads and status\<close>

definition BuildRegistrationPayload :: "agent_world \<Rightarrow> Service \<Rightarrow> agent_error + RegistrationPayload" where
  "BuildRegistrationPayload w sv =
     (if idBootstrapToken (svIdentity sv) = [] then Inl AErrBootstrapTokenRequired
      else Inr \<lparr> rpNodeID = idNodeID (svIdentity sv), rpBootstrapToken = idBootstrapToken (svIdentity sv),
                 rpAgentVersion = AgentVersion, rpHostname = wHostname w \<rparr>)"

definition BuildHeartbeatPayload :: "agent_world \<Rightarrow> instant \<Rightarrow> Service \<Rightarrow> agent_error + HeartbeatPayload" where
  "BuildHeartbeatPayload w now sv =
     (if idNodeID (svIdentity sv) = [] then Inl AErrNodeIDRequired
      else (let st = svStatus sv; xrayPID = (if svHasPID sv then wPID w else 0) in Inr
        \<lparr> hpNodeID = idNodeID (svIdentity sv), hpAgentVersion = AgentVersion, hpStatus = stStatus st,
          hpActiveRevision = stActiveRevision st, hpRuntimeMode = stRuntimeMode st, hpProcessMode = stProcessMode st,
          hpProcessState = stProcessState st, hpDesiredState = stDesiredState st, hpRuntimeState = stRuntimeState st,
          hpXrayPID = xrayPID, hpLastDryRun = stLastDryRun st, hpLastAttempt = stLastAttempt st,
          hpLastPrepared = stLastPrepared st, hpLastRuntimeAt = stLastTransitionAt st,
          hpLastRuntimeError = stLastRuntimeError st, hpLastValidation = stLastValidation st,
          hpLastValidationError = stLastValidationError st, hpLastValidationAt = stLastValidationAt st,
          hpLastApplied = stLastApplied st, hpActiveConfigPath = stConfigPath st, hpEvents = stEvents st,
          hpSentAt = now \<rparr>))"

definition MarkHeartbeatSent :: "instant \<Rightarrow> Service \<Rightarrow> Service" where
  "MarkHeartbeatSent t0 = on_status (\<lambda>st. let st' = st\<lparr> stLastHeartbeatAt := t0 \<rparr>
     in if stStatus st' = StatusPending then st'\<lparr> stStatus := StatusActive \<rparr> else st')"

definition TrackAppliedRevision :: "ConfigRevision \<Rightarrow> Service \<Rightarrow> Service" where
  "TrackAppliedRevision rv = on_status (\<lambda>st. st\<lparr> stActiveRevision := crRevisionNumber rv, stLastApplied := crRevisionNumber rv \<rparr>)"

definition TrackValidationResult :: "agent_world \<Rightarrow> string \<Rightarrow> string \<Rightarrow> instant \<Rightarrow> Service \<Rightarrow> Service" where
  "TrackValidationResult w status message t0 = on_status (\<lambda>st. st\<lparr> stLastValidation := status,
     stLastValidationError := TrimSpace message, stLastValidationAt := (if t0 = 0 then wNow w else t0) \<rparr>)"

definition TrackRuntimePrepared ::
    "agent_world \<Rightarrow> ConfigRevision \<Rightarrow> ConfigArtifact \<Rightarrow> string \<Rightarrow> RuntimeTransition \<Rightarrow> Service \<Rightarrow> Service" where
  "TrackRuntimePrepared w rv artifact dryRunStatus tr = on_status (\<lambda>st.
     let t0 = (if trAt tr = 0 then wNow w else trAt tr);
         state = (if trState tr = [] then StateActiveConfigReady else trState tr);
         attempt = (if trAttempt tr = [] then AttemptSkipped else trAttempt tr);
         mode1 = (if trProcessMode tr = [] then stProcessMode st else trProcessMode tr);
         mode = (if mode1 = [] then ProcessModeDisabled else mode1);
         pstate = (if trProcessState tr = [] then ProcessStateDisabled else trProcessState tr)
     in st\<lparr> stRuntimeState := state, stProcessMode := normalizeRuntimeProcessMode mode, stProcessState := pstate,
            stLastDryRun := dryRunStatus, stLastAttempt := attempt, stLastPrepared := crRevisionNumber rv,
            stLastTransitionAt := t0, stLastRuntimeError := TrimSpace (trErrorMessage tr),
            stConfigPath := caConfigPath artifact, stMetadataPath := caMetadataPath artifact \<rparr>)"

definition TrackRuntimeFailure :: "agent_world \<Rightarrow> string \<Rightarrow> instant \<Rightarrow> string \<Rightarrow> Service \<Rightarrow> Service" where
  "TrackRuntimeFailure w message at0 dryRun0 = on_status (\<lambda>st.
     let t0 = (if at0 = 0 then wNow w else at0);
         d1 = (if dryRun0 = [] then stLastDryRun st else dryRun0);
         d = (if d1 = [] then DryRunNotConfigured else d1);
         mode = (if stProcessMode st = [] then ProcessModeDisabled else stProcessMode st)
     in st\<lparr> stRuntimeState := StateValidationFailed, stProcessMode := mode,
            stProcessState := (if mode = ProcessModeLocal then ProcessStateFailed else ProcessStateDisabled),
            stLastDryRun := d, stLastAttempt := AttemptFailed, stLastTransitionAt := t0,
            stLastRuntimeError := TrimSpace message \<rparr>)"

definition new_event :: "string \<Rightarrow> string \<Rightarrow> int \<Rightarrow> string \<Rightarrow> RuntimeEvent" where
  "new_event ty status n message = \<lparr> reType = ty, reStatus = status, reRevision = n, reMessage = message,
     reMode = [], reProcessMode = [], reProcessState = [], reAt = 0 \<rparr>"

definition cut_trail :: "RuntimeEvent list \<Rightarrow> RuntimeEvent list" where
  "cut_trail es = (if runtimeEventTrailLimit < length es then last_n runtimeEventTrailLimit es else es)"

definition AppendRuntimeEvent :: "agent_world \<Rightarrow> RuntimeEvent \<Rightarrow> Service \<Rightarrow> Service" where
  "AppendRuntimeEvent w ev = on_status (\<lambda>st.
     let ev' = ev\<lparr> reAt := (if reAt ev = 0 then wNow w else reAt ev), reMessage := TrimSpace (reMessage ev),
                  reMode := (if reMode ev = [] then stRuntimeMode st else reMode ev),
                  reProcessMode := (if reProcessMode ev = [] then stProcessMode st else reProcessMode ev),
                  reProcessState := (if reProcessState ev = [] then stProcessState st else reProcessState ev) \<rparr>
     in st\<lparr> stEvents := cut_trail (stEvents st @ [ev']) \<rparr>)"

section \<open>Acceptance of a revision\<close>

definition configSigningPayload :: "ConfigRevision \<Rightarrow> string" where
  "configSigningPayload rv = signing_text (crNodeID rv) (crRevisionNumber rv) (crBundleHash rv) (crRollbackTarget rv)"

definition verifyConfigBundleHash :: "ConfigRevision \<Rightarrow> agent_error + unit" where
  "verifyConfigBundleHash rv =
     (if crBundleHash rv \<noteq> hex_encode (sha256 (payload_text (crBundle rv))) then Inl AErrInvalidConfigBundleHash else Inr ())"

definition verifyConfigSignature :: "ConfigRevision \<Rightarrow> agent_error + unit" where
  "verifyConfigSignature rv = (let expected = hmac256 devConfigBundleKey (configSigningPayload rv) in
     case hex_decode (crSignature rv) of
       None \<Rightarrow> Inl AErrInvalidConfigSignature
     | Some actual \<Rightarrow> if actual \<noteq> expected then Inl AErrInvalidConfigSignature else Inr ())"

definition required_strings :: "(string \<times> string) list" where
  "required_strings = [(''schema_version'', ''config-bundle.v1alpha1''), (''generated_by'', ''panel-api''),
     (''protocol'', ''vless-reality-xtls-vision''), (''core_type'', ''xray''),
     (''config_kind'', ''xray-config-compatible-skeleton'')]"

definition validateRenderedConfigPayload :: "ConfigRevision \<Rightarrow> agent_error + unit" where
  "validateRenderedConfigPayload rv = (case crBundle rv of
     None \<Rightarrow> Inl AErrInvalidConfigPayload
   | Some b \<Rightarrow>
     if \<not> list_all (\<lambda>(k, v). as_str (idx b k) = Some v) required_strings then Inl AErrInvalidConfigPayload
     else if agent_numberAsInt (idx b ''revision_number'') \<noteq> Some (crRevisionNumber rv) then Inl AErrInvalidConfigPayload
     else if as_obj (idx b ''node'') = None then Inl AErrInvalidConfigPayload
     else if as_obj (idx b ''transport'') = None then Inl AErrInvalidConfigPayload
     else (case as_obj (idx b ''config'') of
       None \<Rightarrow> Inl AErrInvalidConfigPayload
     | Some config \<Rightarrow>
       if as_str (idx b ''operation_kind'') \<noteq> Some ''deploy'' \<and> as_str (idx b ''operation_kind'') \<noteq> Some ''rollback''
       then Inl AErrInvalidConfigPayload
       else if as_arr (idx b ''subscription_inputs'') = None then Inl AErrInvalidConfigPayload
       else if as_arr (idx b ''access_entries'') = None then Inl AErrInvalidConfigPayload
       else (case ValidateXrayConfigArtifact (Some config) of
         Inl e \<Rightarrow> Inl (AErrInvalidXrayConfig e)
       | Inr u \<Rightarrow> Inr ())))"

definition revision_checks :: "Identity \<Rightarrow> ConfigRevision \<Rightarrow> agent_error + unit" where
  "revision_checks ident rv =
     (if crNodeID rv = [] \<or> crRevisionNumber rv \<le> 0 \<or> crBundleHash rv = [] \<or> crSignature rv = [] \<or> crSigner rv = []
      then Inl AErrInvalidConfigRevision
      else if idNodeID ident \<noteq> [] \<and> crNodeID rv \<noteq> idNodeID ident then Inl AErrInvalidConfigRevision
      else if crSigner rv \<noteq> DevConfigBundleSigner then Inl AErrInvalidConfigSignature
      else (case verifyConfigBundleHash rv of
        Inl e \<Rightarrow> Inl e
      | Inr u \<Rightarrow> (case verifyConfigSignature rv of
          Inl e \<Rightarrow> Inl e
        | Inr u \<Rightarrow> validateRenderedConfigPayload rv)))"

definition ValidateAndStoreConfigRevision :: "ConfigRevision \<Rightarrow> Service \<Rightarrow> (agent_error + unit) \<times> Service" where
  "ValidateAndStoreConfigRevision rv sv = (case revision_checks (svIdentity sv) rv of
     Inl e \<Rightarrow> (Inl e, sv)
   | Inr u \<Rightarrow> (Inr (), on_status (\<lambda>st. st\<lparr> stLastRollback := crRollbackTarget rv \<rparr>)
                   (sv\<lparr> svRevisions := (svRevisions sv)(crRevisionNumber rv \<mapsto> rv) \<rparr>)))"

definition ApplyConfigRevisionMetadata :: "ConfigRevision \<Rightarrow> Service \<Rightarrow> (agent_error + unit) \<times> Service" where
  "ApplyConfigRevisionMetadata rv sv = (case ValidateAndStoreConfigRevision rv sv of
     (Inl e, sv1) \<Rightarrow> (Inl e, sv1)
   | (Inr u, sv1) \<Rightarrow> (Inr (), TrackAppliedRevision rv sv1))"

definition ConfigRevisionOf :: "int \<Rightarrow> Service \<Rightarrow> ConfigRevision option" where
  "ConfigRevisionOf n sv = svRevisions sv n"

definition PlanRollback :: "int \<Rightarrow> string \<Rightarrow> Service \<Rightarrow> RollbackPlan" where
  "PlanRollback n reason sv = \<lparr> plFrom = stActiveRevision (svStatus sv), plTo = n, plReason = reason \<rparr>"

definition configRevisionErrorMessage :: "agent_error \<Rightarrow> string" where
  "configRevisionErrorMessage e = (case e of
     AErrInvalidConfigBundleHash \<Rightarrow> ''invalid config bundle hash''
   | AErrInvalidConfigSignature \<Rightarrow> ''invalid config bundle signature''
   | AErrInvalidXrayConfig x \<Rightarrow>
       if xray_reason x \<noteq> [] then ''invalid_xray_config:'' @ xray_reason x else ''invalid_xray_config''
   | AErrXrayDryRunFailed r \<Rightarrow> if r \<noteq> [] then ''xray_dry_run_failed:'' @ r else ''xray_dry_run_failed''
   | AErrInvalidConfigPayload \<Rightarrow> ''invalid config payload''
   | AErrInvalidConfigRevision \<Rightarrow> ''invalid config revision''
   | AErrStateDirRequired \<Rightarrow> ''state dir is required''
   | AErrConfigArtifactWrite \<Rightarrow> ''config artifact write failed''
   | _ \<Rightarrow> ''config revision apply failed'')"

section \<open>Dry run\<close>

definition CommandXrayDryRunValidator :: "string \<Rightarrow> dry_run_validator" where
  "CommandXrayDryRunValidator binary w doc =
     (if TrimSpace binary = [] then None
      else (case wDryRun w of
        DryRunOk \<Rightarrow> None
      | DryRunTimeout \<Rightarrow> Some (AErrXrayDryRunFailed ''timeout'')
      | DryRunBinaryMissing \<Rightarrow> Some (AErrXrayDryRunFailed ''xray_binary_not_found'')
      | DryRunNotExecutable \<Rightarrow> Some (AErrXrayDryRunFailed ''xray_binary_not_executable'')
      | DryRunExit reason \<Rightarrow> Some (AErrXrayDryRunFailed reason)))"

definition bundle_config :: "ConfigRevision \<Rightarrow> obj option" where
  "bundle_config rv = (case crBundle rv of None \<Rightarrow> None | Some b \<Rightarrow> as_obj (idx b ''config''))"

text \<open>The candidate file exists only during the check, so the disk is unchanged.\<close>

definition ValidateXrayDryRun :: "agent_world \<Rightarrow> ConfigRevision \<Rightarrow> Service \<Rightarrow> agent_error + unit" where
  "ValidateXrayDryRun w rv sv = (case svDryRun sv of
     None \<Rightarrow> Inr ()
   | Some v \<Rightarrow>
     if state_dir sv = [] then Inl AErrStateDirRequired
     else (case bundle_config rv of
       None \<Rightarrow> Inl AErrInvalidConfigPayload
     | Some config \<Rightarrow>
       let dir = filepath_Join (state_dir sv) [''candidates''] in
       if wMkdirFails w dir \<or> wWriteFails w dir then Inl AErrConfigArtifactWrite
       else (case v w (AObj config) of None \<Rightarrow> Inr () | Some e \<Rightarrow> Inl e)))"

definition dryRunStatusForError :: "agent_error \<Rightarrow> dry_run_validator option \<Rightarrow> string" where
  "dryRunStatusForError e v = (case e of AErrXrayDryRunFailed r \<Rightarrow> DryRunFailed
     | _ \<Rightarrow> if v \<noteq> None then DryRunPassed else DryRunNotConfigured)"

section \<open>Files\<close>

definition writeFileAtomic :: "agent_world \<Rightarrow> string \<Rightarrow> file_body \<Rightarrow> disk \<Rightarrow> bool \<times> disk" where
  "writeFileAtomic w path body d = (if wWriteFails w path then (False, d) else (True, d(path \<mapsto> body)))"

fun write_all :: "agent_world \<Rightarrow> (string \<times> file_body) list \<Rightarrow> disk \<Rightarrow> bool \<times> disk" where
  "write_all w [] d = (True, d)"
| "write_all w ((path, body) # rest) d = (case writeFileAtomic w path body d of
     (False, d1) \<Rightarrow> (False, d1) | (True, d1) \<Rightarrow> write_all w rest d1)"

definition read_file :: "agent_world \<Rightarrow> disk \<Rightarrow> string \<Rightarrow> file_body option" where
  "read_file w d path = (if wReadFails w path then None else d path)"

definition stringFromBundle :: "obj option \<Rightarrow> string \<Rightarrow> string" where
  "stringFromBundle b key = (case b of None \<Rightarrow> [] | Some m \<Rightarrow> (case as_str (idx m key) of None \<Rightarrow> [] | Some s \<Rightarrow> s))"

definition numberFromBundle :: "obj option \<Rightarrow> string \<Rightarrow> int" where
  "numberFromBundle b key = (case b of None \<Rightarrow> 0 | Some m \<Rightarrow> (case agent_numberAsInt (idx m key) of None \<Rightarrow> 0 | Some n \<Rightarrow> n))"

definition artifact_paths :: "string \<Rightarrow> int \<Rightarrow> ConfigArtifact" where
  "artifact_paths dir n =
     \<lparr> caConfigPath = filepath_Join dir [''active'', ''config.json''],
       caMetadataPath = filepath_Join dir [''active'', ''metadata.json''],
       caRevisionConfigPath = filepath_Join dir [''revisions'', itoa n, ''config.json''],
       caRevisionMetadataPath = filepath_Join dir [''revisions'', itoa n, ''metadata.json''],
       caStagedConfigPath = filepath_Join dir [''staged'', ''config.json''],
       caStagedMetadataPath = filepath_Join dir [''staged'', ''metadata.json''],
       caStatePath = filepath_Join dir [''state.json''] \<rparr>"

definition revision_metadata :: "ConfigRevision \<Rightarrow> ConfigArtifact \<Rightarrow> obj" where
  "revision_metadata rv a =
     [(''revision_id'', AStr (crID rv)), (''node_id'', AStr (crNodeID rv)),
      (''revision_number'', AInt (crRevisionNumber rv)), (''bundle_hash'', AStr (crBundleHash rv)),
      (''signer'', AStr (crSigner rv)), (''rollback_target_revision'', AInt (crRollbackTarget rv)),
      (''operation_kind'', AStr (stringFromBundle (crBundle rv) ''operation_kind'')),
      (''source_revision_id'', AStr (stringFromBundle (crBundle rv) ''source_revision_id'')),
      (''source_revision_number'', AInt (numberFromBundle (crBundle rv) ''source_revision_number'')),
      (''config_path'', AStr (caRevisionConfigPath a)), (''staged_config_path'', AStr (caStagedConfigPath a)),
      (''active_config_path'', AStr (caConfigPath a)), (''apply_mode'', AStr ''staged-active-file-switch'')]"

definition StageConfigRevision :: "agent_world \<Rightarrow> ConfigRevision \<Rightarrow> Service \<Rightarrow> (agent_error + ConfigArtifact) \<times> Service" where
  "StageConfigRevision w rv sv = (let dir = state_dir sv in
     if dir = [] then (Inl AErrStateDirRequired, sv)
     else (case bundle_config rv of
       None \<Rightarrow> (Inl AErrInvalidConfigPayload, sv)
     | Some config \<Rightarrow>
       if wMkdirFails w (filepath_Join dir [''revisions'', itoa (crRevisionNumber rv)]) \<or> wMkdirFails w (filepath_Join dir [''staged''])
       then (Inl AErrConfigArtifactWrite, sv)
       else (let a = artifact_paths dir (crRevisionNumber rv);
                 configBody = JsonDoc (AObj config); metadataBody = JsonDoc (AObj (revision_metadata rv a))
         in case write_all w [(caRevisionConfigPath a, configBody), (caRevisionMetadataPath a, metadataBody),
                              (caStagedConfigPath a, configBody), (caStagedMetadataPath a, metadataBody)] (svDisk sv) of
           (False, d) \<Rightarrow> (Inl AErrConfigArtifactWrite, sv\<lparr> svDisk := d \<rparr>)
         | (True, d) \<Rightarrow> (Inr a, on_status (\<lambda>st. st\<lparr> stStaged := crRevisionNumber rv, stRollbackCandidate := crRollbackTarget rv \<rparr>)
                             (sv\<lparr> svDisk := d \<rparr>)))))"

definition activation_state :: "ConfigRevision \<Rightarrow> ConfigArtifact \<Rightarrow> Service \<Rightarrow> obj" where
  "activation_state rv a sv = (let st = svStatus sv; n = AInt (crRevisionNumber rv) in
     [(''active_revision'', n), (''staged_revision'', n), (''last_applied_revision'', n),
      (''rollback_candidate_revision'', AInt (crRollbackTarget rv)),
      (''runtime_mode'', AStr (stRuntimeMode st)), (''runtime_process_mode'', AStr (stProcessMode st)),
      (''runtime_process_state'', AStr (stProcessState st)), (''runtime_desired_state'', AStr (stDesiredState st)),
      (''runtime_state'', AStr StateActiveConfigReady), (''last_dry_run_status'', AStr (dryRunStatusForValidator (svDryRun sv))),
      (''last_runtime_attempt_status'', AStr AttemptSkipped), (''last_runtime_prepared_revision'', n),
      (''process_control'', AStr ''unavailable''), (''config_artifact_path'', AStr (caConfigPath a)),
      (''metadata_artifact_path'', AStr (caMetadataPath a)), (''revision_config_path'', AStr (caRevisionConfigPath a)),
      (''revision_metadata_path'', AStr (caRevisionMetadataPath a)),
      (''operation_kind'', AStr (stringFromBundle (crBundle rv) ''operation_kind'')),
      (''source_revision_id'', AStr (stringFromBundle (crBundle rv) ''source_revision_id'')),
      (''source_revision_number'', AInt (numberFromBundle (crBundle rv) ''source_revision_number''))])"

fun is_json :: "file_body \<Rightarrow> bool" where
  "is_json (JsonDoc v) = True"
| "is_json (RawBytes s) = False"

definition default_path :: "string \<Rightarrow> string \<Rightarrow> string list \<Rightarrow> string" where
  "default_path p dir names = (if p = [] then filepath_Join dir names else p)"

definition ActivateStagedConfigRevision ::
    "agent_world \<Rightarrow> ConfigRevision \<Rightarrow> ConfigArtifact \<Rightarrow> Service \<Rightarrow> (agent_error + ConfigArtifact) \<times> Service" where
  "ActivateStagedConfigRevision w rv a0 sv = (let dir = state_dir sv in
     if dir = [] then (Inl AErrStateDirRequired, sv)
     else if wMkdirFails w (filepath_Join dir [''active'']) then (Inl AErrConfigArtifactWrite, sv)
     else (case read_file w (svDisk sv) (caStagedConfigPath a0) of
       None \<Rightarrow> (Inl AErrConfigArtifactWrite, sv)
     | Some configBody \<Rightarrow>
       if \<not> is_json configBody then (Inl AErrInvalidConfigPayload, sv)
       else (case read_file w (svDisk sv) (caStagedMetadataPath a0) of
         None \<Rightarrow> (Inl AErrConfigArtifactWrite, sv)
       | Some metadataBody \<Rightarrow>
         if \<not> is_json metadataBody then (Inl AErrInvalidConfigPayload, sv)
         else (let a = a0\<lparr> caConfigPath := default_path (caConfigPath a0) dir [''active'', ''config.json''],
                          caMetadataPath := default_path (caMetadataPath a0) dir [''active'', ''metadata.json''],
                          caStatePath := default_path (caStatePath a0) dir [''state.json''] \<rparr>
           in case write_all w [(caMetadataPath a, metadataBody), (caConfigPath a, configBody),
                                (caStatePath a, JsonDoc (AObj (activation_state rv a sv)))] (svDisk sv) of
             (False, d) \<Rightarrow> (Inl AErrConfigArtifactWrite, sv\<lparr> svDisk := d \<rparr>)
           | (True, d) \<Rightarrow> (Inr a, sv\<lparr> svDisk := d \<rparr>)))))"

definition SerializeConfigRevision :: "agent_world \<Rightarrow> ConfigRevision \<Rightarrow> Service \<Rightarrow> (agent_error + ConfigArtifact) \<times> Service" where
  "SerializeConfigRevision w rv sv = (case StageConfigRevision w rv sv of
     (Inl e, sv1) \<Rightarrow> (Inl e, sv1)
   | (Inr staged, sv1) \<Rightarrow> ActivateStagedConfigRevision w rv staged sv1)"

section \<open>Persisted state\<close>

definition omit_empty :: "(string \<times> any) list \<Rightarrow> obj" where
  "omit_empty m = filter (\<lambda>(k, v). v \<noteq> AStr [] \<and> v \<noteq> AInt 0) m"

definition event_json :: "RuntimeEvent \<Rightarrow> any" where
  "event_json e = AObj ([(''type'', AStr (reType e)), (''status'', AStr (reStatus e))]
     @ omit_empty [(''revision_number'', AInt (reRevision e)), (''message'', AStr (reMessage e)),
         (''runtime_mode'', AStr (reMode e)), (''runtime_process_mode'', AStr (reProcessMode e)),
         (''runtime_process_state'', AStr (reProcessState e))]
     @ [(''at'', AStr (RFC3339Nano (reAt e)))])"

text \<open>A nil slice is written as null; the model does not tell it from an empty one.\<close>

definition events_json :: "RuntimeEvent list \<Rightarrow> any" where
  "events_json es = (if es = [] then ANil else AArr (map event_json es))"

definition persisted_fields :: "Status \<Rightarrow> (string \<times> any) list" where
  "persisted_fields st =
     [(''runtime_mode'', AStr (stRuntimeMode st)), (''runtime_process_mode'', AStr (stProcessMode st)),
      (''runtime_process_state'', AStr (stProcessState st)), (''runtime_desired_state'', AStr (stDesiredState st)),
      (''runtime_state'', AStr (stRuntimeState st)), (''last_dry_run_status'', AStr (stLastDryRun st)),
      (''last_runtime_attempt_status'', AStr (stLastAttempt st)), (''last_runtime_prepared_revision'', AInt (stLastPrepared st)),
      (''last_runtime_transition_at'', AStr (RFC3339Nano (stLastTransitionAt st))),
      (''last_runtime_error'', AStr (stLastRuntimeError st)), (''active_revision'', AInt (stActiveRevision st)),
      (''staged_revision'', AInt (stStaged st)), (''last_applied_revision'', AInt (stLastApplied st)),
      (''last_rollback_revision'', AInt (stLastRollback st)), (''rollback_candidate_revision'', AInt (stRollbackCandidate st)),
      (''last_validation_status'', AStr (stLastValidation st)), (''last_validation_error'', AStr (stLastValidationError st)),
      (''last_validation_at'', AStr (RFC3339Nano (stLastValidationAt st))),
      (''config_artifact_path'', AStr (stConfigPath st)), (''metadata_artifact_path'', AStr (stMetadataPath st)),
      (''runtime_events'', events_json (stEvents st)),
      (''process_control'', AStr (if stProcessMode st = ProcessModeLocal then ''local-skeleton'' else ''unavailable''))]"

fun set_keys :: "(string \<times> any) list \<Rightarrow> obj \<Rightarrow> obj" where
  "set_keys [] m = m"
| "set_keys ((k, v) # r) m = set_keys r (set_key k v m)"

definition PersistRuntimeState :: "agent_world \<Rightarrow> ConfigArtifact \<Rightarrow> Service \<Rightarrow> (agent_error + unit) \<times> Service" where
  "PersistRuntimeState w a sv = (let path = caStatePath a;
       save = (\<lambda>m. case writeFileAtomic w path (JsonDoc (AObj (set_keys (persisted_fields (svStatus sv)) m))) (svDisk sv) of
                 (False, d) \<Rightarrow> (Inl AErrConfigArtifactWrite, sv) | (True, d) \<Rightarrow> (Inr (), sv\<lparr> svDisk := d \<rparr>))
     in if TrimSpace path = [] then (Inr (), sv)
        else if wReadFails w path then (Inl AErrConfigArtifactWrite, sv)
        else (case svDisk sv path of
          None \<Rightarrow> save []
        | Some (RawBytes s) \<Rightarrow> if s = [] then save [] else (Inl AErrInvalidConfigPayload, sv)
        | Some (JsonDoc v) \<Rightarrow> (case v of
            AObj m \<Rightarrow> save (through_json_obj m)
          | ANil \<Rightarrow> (Inl AErrNilMapPanic, sv)
          | _ \<Rightarrow> (Inl AErrInvalidConfigPayload, sv))))"

definition intFromState :: "obj \<Rightarrow> string \<Rightarrow> int \<Rightarrow> int" where
  "intFromState m key fallback = (case agent_numberAsInt (idx m key) of Some n \<Rightarrow> n | None \<Rightarrow> fallback)"

definition stringFromState :: "obj \<Rightarrow> string \<Rightarrow> string" where
  "stringFromState m key = (case as_str (idx m key) of Some s \<Rightarrow> TrimSpace s | None \<Rightarrow> [])"

definition stringFromStateDefault :: "obj \<Rightarrow> string \<Rightarrow> string \<Rightarrow> string" where
  "stringFromStateDefault m key fallback = (if stringFromState m key \<noteq> [] then stringFromState m key else fallback)"

definition timeFromState :: "obj \<Rightarrow> string \<Rightarrow> instant" where
  "timeFromState m key = (case as_str (idx m key) of
     None \<Rightarrow> 0
   | Some s \<Rightarrow> if TrimSpace s = [] then 0 else (case ParseRFC3339 s of None \<Rightarrow> 0 | Some t \<Rightarrow> t))"

fun events_from_list :: "any list \<Rightarrow> RuntimeEvent list" where
  "events_from_list [] = []"
| "events_from_list (raw # rest) = (case as_obj raw of
     None \<Rightarrow> events_from_list rest
   | Some m \<Rightarrow>
     (let e = \<lparr> reType = stringFromState m ''type'', reStatus = stringFromState m ''status'',
                reRevision = intFromState m ''revision_number'' 0, reMessage = stringFromState m ''message'',
                reMode = stringFromState m ''runtime_mode'', reProcessMode = stringFromState m ''runtime_process_mode'',
                reProcessState = stringFromState m ''runtime_process_state'', reAt = timeFromState m ''at'' \<rparr>
      in if reType e = [] then events_from_list rest else e # events_from_list rest))"

definition runtimeEventsFromState :: "any \<Rightarrow> RuntimeEvent list" where
  "runtimeEventsFromState v = (case as_arr v of None \<Rightarrow> [] | Some raw \<Rightarrow> cut_trail (events_from_list raw))"

definition validJSONFile :: "agent_world \<Rightarrow> disk \<Rightarrow> string \<Rightarrow> bool" where
  "validJSONFile w d path = (case read_file w d path of None \<Rightarrow> False | Some b \<Rightarrow> is_json b)"

definition restored_revision :: "obj \<Rightarrow> int option" where
  "restored_revision m = (case agent_numberAsInt (idx m ''active_revision'') of
     Some n \<Rightarrow> Some n | None \<Rightarrow> agent_numberAsInt (idx m ''revision_number''))"

definition restored_config_path :: "obj \<Rightarrow> string \<Rightarrow> string" where
  "restored_config_path m dir =
     (if stringFromState m ''config_artifact_path'' \<noteq> [] then stringFromState m ''config_artifact_path''
      else if stringFromState m ''active_config_path'' \<noteq> [] then stringFromState m ''active_config_path''
      else filepath_Join dir [''active'', ''config.json''])"

definition restored_metadata_path :: "obj \<Rightarrow> string \<Rightarrow> string" where
  "restored_metadata_path m dir =
     (if stringFromState m ''metadata_artifact_path'' \<noteq> [] then stringFromState m ''metadata_artifact_path''
      else filepath_Join dir [''active'', ''metadata.json''])"

definition restored_status :: "obj \<Rightarrow> string \<Rightarrow> int \<Rightarrow> Status \<Rightarrow> Status" where
  "restored_status m dir n st = (let rollbackTarget = intFromState m ''rollback_target_revision'' 0 in
     st\<lparr> stActiveRevision := n, stLastApplied := intFromState m ''last_applied_revision'' n,
         stStaged := intFromState m ''staged_revision'' n,
         stLastRollback := intFromState m ''last_rollback_revision'' rollbackTarget,
         stRollbackCandidate := intFromState m ''rollback_candidate_revision'' rollbackTarget,
         stLastPrepared := intFromState m ''last_runtime_prepared_revision'' n,
         stRuntimeState := stringFromStateDefault m ''runtime_state'' StateActiveConfigReady,
         stRuntimeMode := stringFromStateDefault m ''runtime_mode'' (stRuntimeMode st),
         stProcessMode := normalizeRuntimeProcessMode (stringFromStateDefault m ''runtime_process_mode'' (stProcessMode st)),
         stProcessState := stringFromStateDefault m ''runtime_process_state'' (stProcessState st),
         stDesiredState := stringFromStateDefault m ''runtime_desired_state'' DesiredStateConfigReady,
         stLastDryRun := stringFromStateDefault m ''last_dry_run_status'' (stLastDryRun st),
         stLastAttempt := stringFromStateDefault m ''last_runtime_attempt_status'' AttemptSkipped,
         stLastRuntimeError := stringFromState m ''last_runtime_error'',
         stLastTransitionAt := timeFromState m ''last_runtime_transition_at'',
         stLastValidation := stringFromState m ''last_validation_status'',
         stLastValidationError := stringFromState m ''last_validation_error'',
         stLastValidationAt := timeFromState m ''last_validation_at'',
         stConfigPath := restored_config_path m dir, stMetadataPath := restored_metadata_path m dir,
         stEvents := runtimeEventsFromState (idx m ''runtime_events'') \<rparr>)"

definition applyRuntimeStateMap :: "agent_world \<Rightarrow> obj \<Rightarrow> string \<Rightarrow> Service \<Rightarrow> bool \<times> Service" where
  "applyRuntimeStateMap w m dir sv = (case restored_revision m of
     None \<Rightarrow> (False, sv)
   | Some n \<Rightarrow>
     if n \<le> 0 then (False, sv)
     else if \<not> validJSONFile w (svDisk sv) (restored_config_path m dir)
             \<or> \<not> validJSONFile w (svDisk sv) (restored_metadata_path m dir) then (False, sv)
     else (True, on_status (restored_status m dir n) sv))"

definition markRuntimeRestoreDegraded :: "agent_world \<Rightarrow> string \<Rightarrow> Service \<Rightarrow> Service" where
  "markRuntimeRestoreDegraded w message sv = AppendRuntimeEvent w (new_event ''runtime_state_restore_degraded'' ''degraded'' 0 message)
     (on_status (\<lambda>st. st\<lparr> stRuntimeState := StatePrepareFailed, stLastAttempt := AttemptFailed,
        stLastRuntimeError := message, stLastTransitionAt := wNow w \<rparr>) sv)"

definition restoreRuntimeStateFromActiveMetadata :: "agent_world \<Rightarrow> string \<Rightarrow> Service \<Rightarrow> Service" where
  "restoreRuntimeStateFromActiveMetadata w dir sv = (let existing = stEvents (svStatus sv);
       path = filepath_Join dir [''active'', ''metadata.json'']
     in if wReadFails w path then markRuntimeRestoreDegraded w ''runtime_state_restore_failed:active_metadata_unreadable'' sv
        else (case svDisk sv path of
          None \<Rightarrow> sv
        | Some (RawBytes s) \<Rightarrow> markRuntimeRestoreDegraded w ''runtime_state_restore_failed:active_metadata_malformed'' sv
        | Some (JsonDoc v) \<Rightarrow> (case v of
            AObj m \<Rightarrow> (case applyRuntimeStateMap w (through_json_obj m) dir sv of
              (False, sv1) \<Rightarrow> markRuntimeRestoreDegraded w ''runtime_state_restore_failed:active_metadata_incomplete'' sv1
            | (True, sv1) \<Rightarrow>
              (let sv2 = on_status (\<lambda>st. st\<lparr>
                    stEvents := (if existing \<noteq> [] then cut_trail (existing @ stEvents st) else stEvents st),
                    stRuntimeState := StateActiveConfigReady,
                    stLastAttempt := (if stLastAttempt st = [] then AttemptSkipped else stLastAttempt st),
                    stLastDryRun := (if stLastDryRun st = [] then dryRunStatusForValidator (svDryRun sv) else stLastDryRun st),
                    stLastValidation := (if stLastValidation st = [] then ''restored'' else stLastValidation st) \<rparr>) sv1
               in AppendRuntimeEvent w (new_event ''runtime_state_restore'' ''restored'' (stActiveRevision (svStatus sv2))
                    ''runtime state restored from active metadata'') sv2))
          | ANil \<Rightarrow> markRuntimeRestoreDegraded w ''runtime_state_restore_failed:active_metadata_incomplete'' sv
          | _ \<Rightarrow> markRuntimeRestoreDegraded w ''runtime_state_restore_failed:active_metadata_malformed'' sv)))"

definition RestoreRuntimeState :: "agent_world \<Rightarrow> Service \<Rightarrow> Service" where
  "RestoreRuntimeState w sv = (let dir = state_dir sv; path = filepath_Join dir [''state.json''];
       bad = (\<lambda>message. restoreRuntimeStateFromActiveMetadata w dir (markRuntimeRestoreDegraded w message sv))
     in if dir = [] then sv
        else if wReadFails w path then bad ''runtime_state_restore_failed:state_unreadable''
        else (case svDisk sv path of
          None \<Rightarrow> restoreRuntimeStateFromActiveMetadata w dir sv
        | Some (RawBytes s) \<Rightarrow>
            if TrimSpace s = [] then restoreRuntimeStateFromActiveMetadata w dir sv
            else bad ''runtime_state_restore_failed:malformed_state''
        | Some (JsonDoc v) \<Rightarrow> (case v of
            AObj m \<Rightarrow> (case applyRuntimeStateMap w (through_json_obj m) dir sv of
              (True, sv1) \<Rightarrow> AppendRuntimeEvent w (new_event ''runtime_state_restore'' ''restored''
                  (stActiveRevision (svStatus sv1)) ''runtime state restored from state.json'') sv1
            | (False, sv1) \<Rightarrow> bad ''runtime_state_restore_failed:incomplete_state'')
          | ANil \<Rightarrow> bad ''runtime_state_restore_failed:incomplete_state''
          | _ \<Rightarrow> bad ''runtime_state_restore_failed:malformed_state'')))"

end
