(* ===== verification/AgentApply.thy ===== *)
theory AgentApply
  imports AgentService
begin

text \<open>
  The composed operations of \<open>service.go\<close>: building a service, applying a revision (check, dry run, stage, activate,
  prepare, persist) and one poll of the panel.  The panel is the Go interface \<open>PendingConfigRevisionClient\<close>: the
  result of the fetch and the answer to a report are given, the report that was sent is part of the outcome.
\<close>

section \<open>Construction\<close>

datatype service_option =
    WithXrayDryRunValidator "dry_run_validator option"
  | WithRuntimeSupervisor "runtime_supervisor option"
  | WithRuntimeProcessRunner process_runner bool

fun apply_option :: "service_option \<Rightarrow> Service \<Rightarrow> Service" where
  "apply_option (WithXrayDryRunValidator v) sv =
     on_status (\<lambda>st. st\<lparr> stDryRunEnabled := (v \<noteq> None),
         stRuntimeMode := (if normalizeRuntimeProcessMode (idProcessMode (svIdentity sv)) = ProcessModeLocal then RuntimeModeFuture
                           else if v \<noteq> None then RuntimeModeDryRunOnly else RuntimeModeNoProcess) \<rparr>)
       (sv\<lparr> svDryRun := v \<rparr>)"
| "apply_option (WithRuntimeSupervisor s) sv = (case s of None \<Rightarrow> sv | Some r \<Rightarrow> sv\<lparr> svRuntime := r \<rparr>)"
| "apply_option (WithRuntimeProcessRunner r hasPID) sv =
     sv\<lparr> svRuntime := NoProcessRuntimeSupervisor (idProcessMode (svIdentity sv)) (Some r), svHasPID := (hasPID \<or> svHasPID sv) \<rparr>"

definition initial_status :: "Identity \<Rightarrow> Status" where
  "initial_status ident = (let registered = (idNodeID ident \<noteq> []); mode = normalizeRuntimeProcessMode (idProcessMode ident) in
     \<lparr> stNodeID = idNodeID ident, stStatus = (if registered then StatusActive else StatusBootstrapping),
       stRegistered = registered, stPanelURL = idPanelURL ident, stLastHeartbeatAt = 0,
       stDryRunEnabled = (TrimSpace (idXrayBin ident) \<noteq> []), stRuntimeMode = runtimeModeForIdentity (idXrayBin ident) mode,
       stProcessMode = mode, stProcessState = ProcessStateDisabled, stDesiredState = DesiredStateConfigReady,
       stRuntimeState = StateNotPrepared, stLastDryRun = DryRunNotConfigured, stLastAttempt = AttemptSkipped,
       stLastPrepared = 0, stLastTransitionAt = 0, stLastRuntimeError = [], stActiveRevision = 0, stLastApplied = 0,
       stLastRollback = 0, stStaged = 0, stRollbackCandidate = 0, stLastValidation = [], stLastValidationError = [],
       stLastValidationAt = 0, stConfigPath = [], stMetadataPath = [], stEvents = [] \<rparr>)"

definition NewService :: "agent_world \<Rightarrow> Identity \<Rightarrow> service_option list \<Rightarrow> disk \<Rightarrow> Service" where
  "NewService w ident options d = (let mode = normalizeRuntimeProcessMode (idProcessMode ident);
       sv0 = \<lparr> svIdentity = ident, svStatus = initial_status ident, svRevisions = Map.empty,
               svDryRun = (if TrimSpace (idXrayBin ident) \<noteq> [] then Some (CommandXrayDryRunValidator (idXrayBin ident)) else None),
               svRuntime = NoProcessRuntimeSupervisor mode None, svHasPID = False, svDisk = d \<rparr>
     in on_status (\<lambda>st. st\<lparr> stProcessMode := mode, stRuntimeMode := runtimeModeForIdentity (idXrayBin ident) mode \<rparr>)
          (RestoreRuntimeState w (foldl (\<lambda>sv opt. apply_option opt sv) sv0 options)))"

section \<open>Applying a revision\<close>

definition failure_event :: "string \<Rightarrow> ConfigRevision \<Rightarrow> agent_error \<Rightarrow> RuntimeEvent" where
  "failure_event ty rv e = new_event ty ''failed'' (crRevisionNumber rv) (configRevisionErrorMessage e)"

text \<open>What follows a successful prepare, up to the persisted state.\<close>

definition record_applied ::
    "agent_world \<Rightarrow> ConfigRevision \<Rightarrow> ConfigArtifact \<Rightarrow> string \<Rightarrow> RuntimeTransition \<Rightarrow> Service \<Rightarrow> Service" where
  "record_applied w rv a dryRunStatus tr sv = (let sv1 = TrackAppliedRevision rv sv;
       sv2 = TrackRuntimePrepared w rv a dryRunStatus tr sv1;
       sv3 = (if stProcessMode (svStatus sv2) = ProcessModeLocal
              then AppendRuntimeEvent w ((new_event ''process_prepare_start_intent'' ''ready'' (crRevisionNumber rv)
                     ''local process prepare/start intent recorded'')\<lparr> reAt := trAt tr \<rparr>) sv2
              else sv2);
       sv4 = AppendRuntimeEvent w ((new_event ''apply_success'' ''applied'' (crRevisionNumber rv) [])\<lparr> reAt := trAt tr \<rparr>) sv3
     in TrackValidationResult w ''applied'' [] (wNow w) sv4)"

definition prepare_and_record ::
    "agent_world \<Rightarrow> ConfigRevision \<Rightarrow> ConfigArtifact \<Rightarrow> string \<Rightarrow> Service \<Rightarrow> (agent_error + unit) \<times> Service" where
  "prepare_and_record w rv a dryRunStatus sv =
     (case svRuntime sv w \<lparr> pqRevision = rv, pqArtifact = a, pqDryRunStatus = dryRunStatus,
                            pqProcessMode = stProcessMode (svStatus sv), pqAt = wNow w \<rparr> of
        (tr, Some e) \<Rightarrow> (Inl e, AppendRuntimeEvent w ((failure_event ''apply_failure'' rv e)
            \<lparr> reProcessMode := trProcessMode tr, reProcessState := trProcessState tr \<rparr>) sv)
      | (tr, None) \<Rightarrow>
        (case PersistRuntimeState w a (record_applied w rv a dryRunStatus tr sv) of
          (Inl e, sv3) \<Rightarrow> (Inl e, AppendRuntimeEvent w (failure_event ''apply_failure'' rv e) sv3)
        | (Inr u, sv3) \<Rightarrow> (Inr (), sv3)))"

definition ApplyConfigRevisionWithContext :: "agent_world \<Rightarrow> ConfigRevision \<Rightarrow> Service \<Rightarrow> (agent_error + unit) \<times> Service" where
  "ApplyConfigRevisionWithContext w rv sv = (case ValidateAndStoreConfigRevision rv sv of
     (Inl e, sv1) \<Rightarrow> (Inl e, AppendRuntimeEvent w (failure_event ''validation_failure'' rv e) sv1)
   | (Inr u, sv1) \<Rightarrow> (case ValidateXrayDryRun w rv sv1 of
       Inl e \<Rightarrow> (Inl e, AppendRuntimeEvent w (failure_event ''dry_run_failure'' rv e) sv1)
     | Inr u \<Rightarrow> (case SerializeConfigRevision w rv sv1 of
         (Inl e, sv2) \<Rightarrow> (Inl e, AppendRuntimeEvent w (failure_event ''apply_failure'' rv e) sv2)
       | (Inr a, sv2) \<Rightarrow> prepare_and_record w rv a (dryRunStatusForValidator (svDryRun sv1)) sv2)))"

section \<open>Polling the panel\<close>

record panel_client =
  pcFetch :: "agent_error + ConfigRevision option"
  pcReport :: "string \<Rightarrow> ConfigRevisionReport \<Rightarrow> agent_error option"

definition FetchAndApplyPendingConfigRevision :: "panel_client option \<Rightarrow> Service \<Rightarrow> (agent_error + bool) \<times> Service" where
  "FetchAndApplyPendingConfigRevision client sv = (case client of
     None \<Rightarrow> (Inl AErrUnexpectedPanelResponse, sv)
   | Some c \<Rightarrow>
     if idNodeID (svIdentity sv) = [] then (Inl AErrNodeIDRequired, sv)
     else if idNodeToken (svIdentity sv) = [] then (Inl AErrNodeTokenRequired, sv)
     else (case pcFetch c of
       Inl e \<Rightarrow> (Inl e, sv)
     | Inr None \<Rightarrow> (Inr False, sv)
     | Inr (Some rv) \<Rightarrow> (case ApplyConfigRevisionMetadata rv sv of
         (Inl e, sv1) \<Rightarrow> (Inl e, sv1)
       | (Inr u, sv1) \<Rightarrow> (Inr True, sv1))))"

definition base_report :: "instant \<Rightarrow> Status \<Rightarrow> ConfigRevisionReport" where
  "base_report t0 st = \<lparr> rrStatus = [], rrAppliedAt = 0, rrFailedAt = 0, rrErrorMessage = [], rrActiveRevision = 0,
     rrRuntimeMode = stRuntimeMode st, rrProcessMode = stProcessMode st, rrProcessState = stProcessState st,
     rrDesiredState = stDesiredState st, rrRuntimeState = stRuntimeState st, rrLastDryRun = stLastDryRun st,
     rrLastAttempt = stLastAttempt st, rrLastPrepared = stLastPrepared st, rrLastRuntimeAt = stLastTransitionAt st,
     rrLastRuntimeError = stLastRuntimeError st, rrLastValidation = [], rrLastValidationError = [],
     rrLastValidationAt = t0, rrLastApplied = stLastApplied st, rrActiveConfigPath = stConfigPath st,
     rrEvents = stEvents st, rrSentAt = t0 \<rparr>"

definition failed_report :: "instant \<Rightarrow> string \<Rightarrow> Status \<Rightarrow> ConfigRevisionReport" where
  "failed_report t0 message st = (base_report t0 st)\<lparr> rrStatus := ''failed'', rrFailedAt := t0, rrErrorMessage := message,
     rrLastValidation := ''failed'', rrLastValidationError := message \<rparr>"

definition applied_report :: "instant \<Rightarrow> int \<Rightarrow> Status \<Rightarrow> ConfigRevisionReport" where
  "applied_report t0 n st = (base_report t0 st)\<lparr> rrStatus := ''applied'', rrAppliedAt := t0, rrActiveRevision := n,
     rrLastValidation := ''applied'' \<rparr>"

definition PollPendingConfigRevision ::
    "agent_world \<Rightarrow> panel_client option \<Rightarrow> instant \<Rightarrow> Service \<Rightarrow> (agent_error + bool) \<times> Service \<times> (string \<times> ConfigRevisionReport) option" where
  "PollPendingConfigRevision w client now sv = (case client of
     None \<Rightarrow> (Inl AErrUnexpectedPanelResponse, sv, None)
   | Some c \<Rightarrow>
     if idNodeID (svIdentity sv) = [] then (Inl AErrNodeIDRequired, sv, None)
     else if idNodeToken (svIdentity sv) = [] then (Inl AErrNodeTokenRequired, sv, None)
     else (case pcFetch c of
       Inl e \<Rightarrow> (Inl e, sv, None)
     | Inr None \<Rightarrow> (Inr False, sv, None)
     | Inr (Some rv) \<Rightarrow>
       (let t0 = (if now = 0 then wNow w else now) in
        case ApplyConfigRevisionWithContext w rv sv of
          (Inl e, sv1) \<Rightarrow>
            (let message = configRevisionErrorMessage e;
                 sv2 = TrackRuntimeFailure w message t0 (dryRunStatusForError e (svDryRun sv1))
                         (TrackValidationResult w ''failed'' message t0 sv1);
                 report = failed_report t0 message (svStatus sv2)
             in case pcReport c (crID rv) report of
                  Some re \<Rightarrow> (Inl re, sv2, Some (crID rv, report))
                | None \<Rightarrow> (Inl e, sv2, Some (crID rv, report)))
        | (Inr u, sv1) \<Rightarrow>
            (let sv2 = TrackValidationResult w ''applied'' [] t0 sv1;
                 report = applied_report t0 (crRevisionNumber rv) (svStatus sv2)
             in case pcReport c (crID rv) report of
                  Some re \<Rightarrow> (Inl re, sv2, Some (crID rv, report))
                | None \<Rightarrow> (Inr True, sv2, Some (crID rv, report))))))"

end
