(* ===== verification/PanelDb.thy ===== *)
theory PanelDb
  imports AgentTypes Crypto
begin

text \<open>
  The panel's PostgreSQL database as the storage packages use it: one list of rows per table, with the columns,
  defaults, CHECK, UNIQUE and foreign key constraints of \<open>migrations/*.up.sql\<close>, single statements that fail or
  succeed as a whole, and transactions that keep nothing of a failed run.  A statement fails when the server or the
  connection does (the fault oracle of the world, by the name of the statement), when a text is no UUID, or when a
  constraint is violated.
\<close>

section \<open>Errors and the world of a request\<close>

datatype pg_error = PgFault string | PgInvalidUUID | PgInvalidText | PgIntegerRange | PgTooLong | PgCheck | PgUnique | PgForeignKey

text \<open>The errors of the packages above the storage: each package has its own values, compared by identity.\<close>

datatype package_error =
    DeviceNotFound | DeviceLimitExceeded
  | TrafficNotFound | TrafficInvalidInput | TrafficUnauthorized
  | RuleNotFound | InvalidRule
  | UnknownKey | InvalidValue
  | WarpNotFound | WarpInvalidInput
  | ProfileNotFound | InvalidProfile | SystemProfile
  | TemplateNotFound | TemplateInvalidInput | SystemTemplate
  | AdminNotFound | InvalidCredentials | InactiveAdmin
  | AccountNotFound | EmailTaken | AccountCredentials | InactiveAccount

datatype storage_error =
    ErrNotFound
  | ErrInvalidBootstrapToken | ErrExpiredBootstrapToken | ErrBootstrapTokenUsed
  | ErrInvalidNodeStatus | ErrInvalidNodeTransition | ErrRenderedConfig string
  | ErrSubscriptionAccessUnavailable | ErrInvalidSubscriptionAccessToken | ErrInvalidSubscriptionHandoffToken
  | ErrNoRows | ErrRandom | ErrPanic | ErrScan | ErrPassword | ErrPackage package_error | ErrPg pg_error

text \<open>
  What a request finds outside the program: the clock of the process, the clock of the server (\<open>now()\<close>, fixed for a
  transaction), the identifiers \<open>gen_random_uuid()\<close> would give to the next row of each table, the 32 random bytes of
  \<open>rand.Read\<close> (or its failure), and the statements that fail.
\<close>

record panel_world =
  pwNow :: instant
  pwPgNow :: instant
  pwID :: "string \<Rightarrow> uuid"
  pwRand :: "string option"
  pwFault :: "string \<Rightarrow> bool"

section \<open>Text to UUID\<close>

definition hex_lower :: "char \<Rightarrow> char" where
  "hex_lower c = (if 65 \<le> byte c \<and> byte c \<le> 70 then chr (byte c + 32) else c)"

definition is_hex :: "char \<Rightarrow> bool" where
  "is_hex c \<longleftrightarrow> (48 \<le> byte c \<and> byte c \<le> 57) \<or> (65 \<le> byte c \<and> byte c \<le> 70) \<or> (97 \<le> byte c \<and> byte c \<le> 102)"

text \<open>The 16 bytes of a UUID text, two digits each, with an optional hyphen after every second one.\<close>

fun uuid_bytes :: "nat \<Rightarrow> string \<Rightarrow> (string list \<times> string) option" where
  "uuid_bytes 0 s = Some ([], s)"
| "uuid_bytes (Suc k) (a # b # s) =
    (if is_hex a \<and> is_hex b
     then (let rest = (if odd (15 - k) \<and> 15 - k < 15 \<and> s \<noteq> [] \<and> hd s = CHR ''-'' then tl s else s)
           in map_option (\<lambda>(bs, t). ([hex_lower a, hex_lower b] # bs, t)) (uuid_bytes k rest))
     else None)"
| "uuid_bytes (Suc k) s = None"

definition uuid_text :: "string list \<Rightarrow> uuid" where
  "uuid_text bs = join_with ''-'' [concat (take 4 bs), concat (take 2 (drop 4 bs)), concat (take 2 (drop 6 bs)),
     concat (take 2 (drop 8 bs)), concat (drop 10 bs)]"

definition uuid_cast :: "string \<Rightarrow> uuid option" where
  "uuid_cast s = (let braces = has_prefix s ''{'' in
     case uuid_bytes 16 (if braces then tl s else s) of
       None \<Rightarrow> None
     | Some (bs, rest) \<Rightarrow> if rest = (if braces then ''}'' else []) then Some (uuid_text bs) else None)"

section \<open>Column values\<close>

definition int4 :: "int \<Rightarrow> bool" where
  "int4 n \<longleftrightarrow> - (2 ^ 31) \<le> n \<and> n < 2 ^ 31"

definition int8 :: "int \<Rightarrow> bool" where
  "int8 n \<longleftrightarrow> - (2 ^ 63) \<le> n \<and> n < 2 ^ 63"

text \<open>A \<open>timestamptz\<close> counts microseconds; the driver drops the rest of a \<open>time.Time\<close>.\<close>

definition pg_time :: "instant \<Rightarrow> instant" where
  "pg_time t = t - t mod 1000"

lemma pg_time_le: "pg_time t \<le> t"
  by (simp add: pg_time_def)

lemma pg_time_idem [simp]: "pg_time (pg_time t) = pg_time t"
  by (simp add: pg_time_def mod_diff_left_eq [symmetric, of t "t mod 1000"])

section \<open>Rows\<close>

record admin_row =
  adID :: uuid
  adEmail :: string
  adPasswordHash :: string
  adStatus :: string
  adTwoFactor :: bool
  adCreatedAt :: instant
  adUpdatedAt :: instant
  adLastLoginAt :: "instant option"

record session_row =
  asID :: uuid
  asAdminID :: uuid
  asHash :: string
  asExpiresAt :: instant
  asCreatedAt :: instant
  asLastSeenAt :: instant

record user_row =
  urID :: uuid
  urEmail :: string
  urStatus :: string
  urDisplayName :: string
  urCreatedAt :: instant
  urUpdatedAt :: instant

record plan_row =
  plID :: uuid
  plName :: string
  plDurationDays :: int
  plTrafficLimit :: "int option"
  plDeviceLimit :: int
  plStatus :: string
  plCreatedAt :: instant
  plUpdatedAt :: instant

text \<open>\<open>storage.Node\<close>, and the columns of \<open>nodes\<close> that it leaves out.\<close>

record Node =
  ndID :: uuid
  ndName :: string
  ndRegion :: string
  ndCountryCode :: string
  ndHostname :: string
  ndStatus :: string
  ndDrainState :: string
  ndAgentVersion :: string
  ndXrayVersion :: string
  ndActiveRevision :: int
  ndRuntimeMode :: string
  ndProcessMode :: string
  ndProcessState :: string
  ndDesiredState :: string
  ndRuntimeState :: string
  ndXrayPID :: int
  ndLastDryRun :: string
  ndLastAttempt :: string
  ndLastPrepared :: int
  ndLastRuntimeAt :: "instant option"
  ndLastRuntimeError :: string
  ndLastValidation :: string
  ndLastValidationError :: string
  ndLastValidationAt :: "instant option"
  ndLastApplied :: int
  ndActiveConfigPath :: string
  ndEvents :: "RuntimeEvent list"
  ndLastHealthAt :: "instant option"
  ndLastSeenAt :: "instant option"
  ndRegisteredAt :: "instant option"
  ndUpdatedAt :: instant

record node_row = Node +
  nrAuthHash :: "string option"
  nrCreatedAt :: instant

record token_row =
  btID :: uuid
  btNodeID :: uuid
  btHash :: string
  btStatus :: string
  btExpiresAt :: instant
  btUsedAt :: "instant option"
  btCreatedBy :: "uuid option"
  btCreatedAt :: instant

record registration_row =
  rgNodeID :: uuid
  rgHash :: string
  rgStatus :: string
  rgAt :: instant

text \<open>A row of \<open>config_revisions\<close>; of the stored bundle, the payload (the other fields repeat columns of the row).\<close>

record revision_row =
  cvID :: uuid
  cvNodeID :: uuid
  cvNumber :: int
  cvHash :: string
  cvSignature :: string
  cvSigner :: string
  cvStatus :: string
  cvRollbackTarget :: "int option"
  cvPayload :: obj
  cvCreatedBy :: "uuid option"
  cvCreatedAt :: instant
  cvAppliedAt :: "instant option"
  cvFailedAt :: "instant option"
  cvRolledBackAt :: "instant option"
  cvErrorMessage :: "string option"

text \<open>\<open>storage.Subscription\<close>, and the column of \<open>subscriptions\<close> that orders the list.\<close>

record Subscription =
  suID :: uuid
  suUserID :: uuid
  suPlanID :: uuid
  suStatus :: string
  suStartsAt :: instant
  suExpiresAt :: instant
  suTrafficLimit :: "int option"
  suTrafficUsed :: int
  suDeviceLimit :: int
  suRegion :: "string option"

record subscription_row = Subscription +
  srCreatedAt :: instant
  srUpdatedAt :: instant

record access_row =
  atID :: uuid
  atSubscriptionID :: uuid
  atHash :: string
  atStatus :: string
  atExpiresAt :: instant
  atCreatedAt :: instant
  atUpdatedAt :: instant

record invite_row =
  hiID :: uuid
  hiSubscriptionID :: uuid
  hiHash :: string
  hiStatus :: string
  hiExpiresAt :: instant
  hiClaimedAt :: "instant option"
  hiCreatedAt :: instant
  hiUpdatedAt :: instant

record device_row =
  dvID :: uuid
  dvSubscriptionID :: uuid
  dvFingerprint :: string
  dvName :: "string option"
  dvPlatform :: "string option"
  dvAppVersion :: "string option"
  dvFirstSeenAt :: instant
  dvLastSeenAt :: instant
  dvLastIP :: "string option"
  dvActive :: bool
  dvCreatedAt :: instant
  dvUpdatedAt :: instant

record traffic_row =
  tlID :: uuid
  tlSubscriptionID :: uuid
  tlDeviceID :: "uuid option"
  tlNodeID :: uuid
  tlBytesUp :: int
  tlBytesDown :: int
  tlRecordedAt :: instant
  tlCreatedAt :: instant

record quota_row =
  tqID :: uuid
  tqSubscriptionID :: uuid
  tqBytesLimit :: "int option"
  tqBytesUsed :: int
  tqResetAt :: "instant option"
  tqCreatedAt :: instant
  tqUpdatedAt :: instant

record rule_row =
  ruID :: uuid
  ruNodeID :: "uuid option"
  ruRuleType :: string
  ruTarget :: string
  ruAction :: string
  ruOutboundTag :: "string option"
  ruPriority :: int
  ruEnabled :: bool
  ruDescription :: "string option"
  ruCreatedAt :: instant
  ruUpdatedAt :: instant

record setting_row =
  gsKey :: string
  gsValue :: any
  gsDescription :: "string option"
  gsUpdatedBy :: "uuid option"
  gsUpdatedAt :: instant

record warp_row =
  wcNodeID :: uuid
  wcPrivateKey :: string
  wcPublicKey :: string
  wcAddress :: string
  wcEndpoint :: string
  wcEnabled :: bool
  wcCreatedAt :: instant

record profile_row =
  npID :: uuid
  npName :: string
  npDescription :: "string option"
  npSystem :: bool
  npConfig :: any
  npCreatedAt :: instant
  npUpdatedAt :: instant

record template_row =
  ptID :: uuid
  ptName :: string
  ptDescription :: "string option"
  ptPlanID :: "uuid option"
  ptConfig :: any
  ptSystem :: bool
  ptCreatedAt :: instant

record account_row =
  coID :: uuid
  coEmail :: string
  coPasswordHash :: string
  coStatus :: string
  coCreatedAt :: instant
  coUpdatedAt :: instant

record account_session_row =
  ssID :: uuid
  ssAccountID :: uuid
  ssHash :: string
  ssExpiresAt :: instant
  ssCreatedAt :: instant
  ssLastSeenAt :: instant

record audit_row =
  auID :: uuid
  auActorType :: string
  auActorID :: string
  auAction :: string
  auResourceType :: string
  auResourceID :: "string option"
  auOutcome :: string
  auReason :: "string option"
  auChanges :: "obj option"
  auIP :: "string option"
  auUserAgent :: "string option"
  auCreatedAt :: instant

record db =
  dbAdmins :: "admin_row list"
  dbUsers :: "user_row list"
  dbPlans :: "plan_row list"
  dbNodes :: "node_row list"
  dbTokens :: "token_row list"
  dbRegistrations :: "registration_row list"
  dbRevisions :: "revision_row list"
  dbSubscriptions :: "subscription_row list"
  dbAccess :: "access_row list"
  dbInvites :: "invite_row list"
  dbDevices :: "device_row list"
  dbTraffic :: "traffic_row list"
  dbQuotas :: "quota_row list"
  dbSessions :: "session_row list"
  dbRules :: "rule_row list"
  dbSettings :: "setting_row list"
  dbWarp :: "warp_row list"
  dbProfiles :: "profile_row list"
  dbTemplates :: "template_row list"
  dbAccounts :: "account_row list"
  dbAccountSessions :: "account_session_row list"
  dbAudit :: "audit_row list"

definition empty_db :: db where
  "empty_db = \<lparr> dbAdmins = [], dbUsers = [], dbPlans = [], dbNodes = [], dbTokens = [], dbRegistrations = [],
     dbRevisions = [], dbSubscriptions = [], dbAccess = [], dbInvites = [], dbDevices = [], dbTraffic = [], dbQuotas = [],
     dbSessions = [], dbRules = [], dbSettings = [], dbWarp = [], dbProfiles = [], dbTemplates = [], dbAccounts = [],
     dbAccountSessions = [], dbAudit = [] \<rparr>"

section \<open>Constraints\<close>

definition node_row_ok :: "node_row \<Rightarrow> bool" where
  "node_row_ok n \<longleftrightarrow> ndStatus n \<in> {''pending'', ''active'', ''unhealthy'', ''drained'', ''disabled''}
     \<and> ndDrainState n \<in> {''active'', ''draining'', ''drained''}
     \<and> ndLastValidation n \<in> {[], ''applied'', ''failed''}
     \<and> ndRuntimeMode n \<in> {''no-process'', ''dry-run-only'', ''future-process-managed''}
     \<and> ndProcessMode n \<in> {''disabled'', ''local''}
     \<and> ndProcessState n \<in> {''disabled'', ''ready'', ''failed'', ''running'', ''stopped'', ''restarting''}
     \<and> ndRuntimeState n \<in> {''not_prepared'', ''active_config_ready'', ''validation_failed'', ''prepare_failed''}
     \<and> ndLastDryRun n \<in> {''not_configured'', ''passed'', ''failed''}
     \<and> ndLastAttempt n \<in> {''skipped'', ''ready'', ''failed''}
     \<and> 0 \<le> ndLastPrepared n \<and> 0 \<le> ndLastApplied n"

definition node_ints_ok :: "node_row \<Rightarrow> bool" where
  "node_ints_ok n \<longleftrightarrow> int4 (ndActiveRevision n) \<and> int4 (ndXrayPID n) \<and> int4 (ndLastPrepared n) \<and> int4 (ndLastApplied n)"

definition token_row_ok :: "token_row \<Rightarrow> bool" where
  "token_row_ok t \<longleftrightarrow> btStatus t \<in> {''active'', ''used'', ''revoked''} \<and> (btStatus t = ''used'' \<longleftrightarrow> btUsedAt t \<noteq> None)"

definition revision_row_ok :: "revision_row \<Rightarrow> bool" where
  "revision_row_ok v \<longleftrightarrow> cvStatus v \<in> {''pending'', ''applied'', ''failed'', ''rolled_back''} \<and> 0 < cvNumber v
     \<and> (case cvRollbackTarget v of None \<Rightarrow> True | Some n \<Rightarrow> 0 \<le> n)"

definition subscription_row_ok :: "subscription_row \<Rightarrow> bool" where
  "subscription_row_ok s \<longleftrightarrow> suStatus s \<in> {''active'', ''expired'', ''suspended''} \<and> suStartsAt s < suExpiresAt s
     \<and> 0 < suDeviceLimit s \<and> (case suTrafficLimit s of None \<Rightarrow> True | Some n \<Rightarrow> 0 < n) \<and> 0 \<le> suTrafficUsed s"

definition subscription_ints_ok :: "subscription_row \<Rightarrow> bool" where
  "subscription_ints_ok s \<longleftrightarrow> int4 (suDeviceLimit s) \<and> int8 (suTrafficUsed s)
     \<and> (case suTrafficLimit s of None \<Rightarrow> True | Some n \<Rightarrow> int8 n)"

definition plan_row_ok :: "plan_row \<Rightarrow> bool" where
  "plan_row_ok p \<longleftrightarrow> 0 < plDurationDays p \<and> 0 < plDeviceLimit p \<and> (case plTrafficLimit p of None \<Rightarrow> True | Some n \<Rightarrow> 0 < n)
     \<and> plStatus p \<in> {''active'', ''archived''}"

definition access_row_ok :: "access_row \<Rightarrow> bool" where
  "access_row_ok a \<longleftrightarrow> atStatus a \<in> {''active'', ''revoked''} \<and> atCreatedAt a < atExpiresAt a"

definition invite_row_ok :: "invite_row \<Rightarrow> bool" where
  "invite_row_ok h \<longleftrightarrow> hiStatus h \<in> {''active'', ''claimed'', ''revoked''} \<and> hiCreatedAt h < hiExpiresAt h"

definition device_row_ok :: "device_row \<Rightarrow> bool" where
  "device_row_ok v \<longleftrightarrow> (case dvPlatform v of None \<Rightarrow> True | Some p \<Rightarrow> p \<in> {''ios'', ''android'', ''windows'', ''macos'', ''linux''})"

definition traffic_row_ok :: "traffic_row \<Rightarrow> bool" where
  "traffic_row_ok t \<longleftrightarrow> 0 \<le> tlBytesUp t \<and> 0 \<le> tlBytesDown t"

definition quota_row_ok :: "quota_row \<Rightarrow> bool" where
  "quota_row_ok q \<longleftrightarrow> (case tqBytesLimit q of None \<Rightarrow> True | Some n \<Rightarrow> 0 < n) \<and> 0 \<le> tqBytesUsed q"

section \<open>Statements and transactions\<close>

text \<open>A call that fails ends the function it is in.\<close>

definition bindE :: "'e + 'a \<Rightarrow> ('a \<Rightarrow> 'e + 'b) \<Rightarrow> 'e + 'b" where
  "bindE r k = (case r of Inl e \<Rightarrow> Inl e | Inr x \<Rightarrow> k x)"

definition ensure :: "bool \<Rightarrow> 'e \<Rightarrow> 'e + unit" where
  "ensure b e = (if b then Inr () else Inl e)"

definition stmt :: "panel_world \<Rightarrow> string \<Rightarrow> storage_error + unit" where
  "stmt w label = ensure (\<not> pwFault w label) (ErrPg (PgFault label))"

text \<open>A text parameter compared with a UUID column.\<close>

definition uuid_param :: "string \<Rightarrow> storage_error + uuid" where
  "uuid_param s = (case uuid_cast s of None \<Rightarrow> Inl (ErrPg PgInvalidUUID) | Some u \<Rightarrow> Inr u)"

text \<open>A query that must give a row: \<open>sql.ErrNoRows\<close> becomes the error the caller maps it to.\<close>

definition one_row :: "storage_error \<Rightarrow> 'r option \<Rightarrow> storage_error + 'r" where
  "one_row e r = (case r of None \<Rightarrow> Inl e | Some x \<Rightarrow> Inr x)"

text \<open>A panic of the Go runtime, which ends the request.\<close>

definition or_panic :: "'e + 'a \<Rightarrow> storage_error + 'a" where
  "or_panic r = (case r of Inl e \<Rightarrow> Inl ErrPanic | Inr x \<Rightarrow> Inr x)"

text \<open>The row a single-row query scans.\<close>

definition first_row :: "'r list \<Rightarrow> 'r option" where
  "first_row rows = (case rows of [] \<Rightarrow> None | r # _ \<Rightarrow> Some r)"

text \<open>The checks of an INSERT or UPDATE: rows, integer ranges and the keys that must stay unique.\<close>

definition constraints :: "bool \<Rightarrow> bool \<Rightarrow> bool \<Rightarrow> bool \<Rightarrow> storage_error + unit" where
  "constraints ints checks keys refs =
     (if \<not> ints then Inl (ErrPg PgIntegerRange) else if \<not> checks then Inl (ErrPg PgCheck)
      else if \<not> keys then Inl (ErrPg PgUnique) else if \<not> refs then Inl (ErrPg PgForeignKey) else Inr ())"

text \<open>\<open>BeginTx\<close>, the body, \<open>Commit\<close>; on any error the deferred \<open>Rollback\<close> leaves the database as it was.\<close>

definition in_tx :: "panel_world \<Rightarrow> (db \<Rightarrow> storage_error + ('a \<times> db)) \<Rightarrow> db \<Rightarrow> (storage_error + 'a) \<times> db" where
  "in_tx w body d = (case bindE (stmt w ''begin'') (\<lambda>_. bindE (body d) (\<lambda>r. bindE (stmt w ''commit'') (\<lambda>_. Inr r))) of
     Inl e \<Rightarrow> (Inl e, d)
   | Inr (x, d') \<Rightarrow> (Inr x, d'))"

text \<open>A single statement outside a transaction.\<close>

definition alone :: "(db \<Rightarrow> storage_error + ('a \<times> db)) \<Rightarrow> db \<Rightarrow> (storage_error + 'a) \<times> db" where
  "alone body d = (case body d of Inl e \<Rightarrow> (Inl e, d) | Inr (x, d') \<Rightarrow> (Inr x, d'))"

text \<open>
  Statements that each commit on their own: what an earlier one wrote stays when a later one fails.  A query reads the
  database as it is then.
\<close>

definition seqE :: "(db \<Rightarrow> (storage_error + 'a) \<times> db) \<Rightarrow> ('a \<Rightarrow> db \<Rightarrow> (storage_error + 'b) \<times> db) \<Rightarrow> db \<Rightarrow> (storage_error + 'b) \<times> db" where
  "seqE m k d = (case m d of (Inl e, d') \<Rightarrow> (Inl e, d') | (Inr x, d') \<Rightarrow> k x d')"

definition readE :: "(db \<Rightarrow> storage_error + 'a) \<Rightarrow> db \<Rightarrow> (storage_error + 'a) \<times> db" where
  "readE q d = (q d, d)"

definition giveE :: "'a \<Rightarrow> db \<Rightarrow> (storage_error + 'a) \<times> db" where
  "giveE x d = (Inr x, d)"

definition guardE :: "bool \<Rightarrow> package_error \<Rightarrow> db \<Rightarrow> (storage_error + unit) \<times> db" where
  "guardE b e d = (if b then (Inr (), d) else (Inl (ErrPackage e), d))"

lemma distinct_key: "distinct (map key rows) \<Longrightarrow> r \<in> set rows \<Longrightarrow> s \<in> set rows \<Longrightarrow> key r = key s \<Longrightarrow> r = s"
  by (auto simp: distinct_map dest: inj_onD)

named_theorems stmt_simps

lemma bindE_simps [simp, stmt_simps]: "bindE (Inl e) k = Inl e" "bindE (Inr x) k = k x"
  by (simp_all add: bindE_def)

lemma bindE_Inr [stmt_simps]: "bindE r k = Inr y \<longleftrightarrow> (\<exists>x. r = Inr x \<and> k x = Inr y)"
  by (cases r) auto

lemma bindE_Inl [stmt_simps]: "bindE r k = Inl e \<longleftrightarrow> r = Inl e \<or> (\<exists>x. r = Inr x \<and> k x = Inl e)"
  by (cases r) auto

lemma ensure_iff [stmt_simps]: "ensure b e = Inr u \<longleftrightarrow> b" "ensure b e = Inl f \<longleftrightarrow> \<not> b \<and> f = e"
  by (auto simp: ensure_def)

lemma ensure_True [simp]: "ensure True e = Inr ()"
  by (simp add: ensure_def)

lemma stmt_iff [stmt_simps]: "stmt w l = Inr u \<longleftrightarrow> \<not> pwFault w l"
  by (simp add: stmt_def ensure_iff)

lemma stmt_ok [simp]: "\<not> pwFault w l \<Longrightarrow> stmt w l = Inr ()"
  by (simp add: stmt_iff)

lemma uuid_param_iff [stmt_simps]: "uuid_param s = Inr u \<longleftrightarrow> uuid_cast s = Some u"
  by (simp add: uuid_param_def split: option.splits)

lemma one_row_iff [stmt_simps]: "one_row e r = Inr x \<longleftrightarrow> r = Some x"
  by (simp add: one_row_def split: option.splits)

lemma first_row_iff [stmt_simps]: "first_row rows = Some r \<longleftrightarrow> rows \<noteq> [] \<and> r = hd rows"
  by (auto simp: first_row_def split: list.splits)

lemma or_panic_iff [stmt_simps]: "or_panic r = Inr x \<longleftrightarrow> r = Inr x"
  by (simp add: or_panic_def split: sum.splits)

lemma constraints_iff [stmt_simps]: "constraints a b c d = Inr u \<longleftrightarrow> a \<and> b \<and> c \<and> d"
  by (simp add: constraints_def)

lemma in_tx_Inr: "in_tx w body d = (Inr x, d') \<longleftrightarrow> \<not> pwFault w ''begin'' \<and> \<not> pwFault w ''commit'' \<and> body d = Inr (x, d')"
  by (auto simp: in_tx_def stmt_simps split: sum.splits)

lemma in_tx_Inl: "in_tx w body d = (Inl e, d') \<Longrightarrow> d' = d"
  by (auto simp: in_tx_def split: sum.splits)

lemma in_tx_cases:
  obtains (rolled_back) e where "in_tx w body d = (Inl e, d)"
  | (committed) x d' where "in_tx w body d = (Inr x, d')" "body d = Inr (x, d')"
  by (cases "in_tx w body d") (metis in_tx_Inl in_tx_Inr sumE)

lemma alone_Inr: "alone body d = (Inr x, d') \<longleftrightarrow> body d = Inr (x, d')"
  by (auto simp: alone_def split: sum.splits)

lemma alone_Inl: "alone body d = (Inl e, d') \<longleftrightarrow> body d = Inl e \<and> d' = d"
  by (auto simp: alone_def split: sum.splits)

lemma seqE_Inr: "seqE m k d = (Inr y, d2) \<longleftrightarrow> (\<exists>x d1. m d = (Inr x, d1) \<and> k x d1 = (Inr y, d2))"
  by (auto simp: seqE_def split: prod.splits sum.splits)

lemma seqE_Inl: "seqE m k d = (Inl e, d2) \<longleftrightarrow> m d = (Inl e, d2) \<or> (\<exists>x d1. m d = (Inr x, d1) \<and> k x d1 = (Inl e, d2))"
  by (auto simp: seqE_def split: prod.splits sum.splits)

lemma readE_iff: "readE q d = (r, d2) \<longleftrightarrow> d2 = d \<and> q d = r"
  by (auto simp: readE_def)

lemma giveE_iff: "giveE x d = (r, d2) \<longleftrightarrow> d2 = d \<and> r = Inr x"
  by (auto simp: giveE_def)

lemma guardE_Inr: "guardE b e d = (Inr u, d2) \<longleftrightarrow> b \<and> d2 = d"
  by (auto simp: guardE_def)

lemma guardE_Inl: "guardE b e d = (Inl f, d2) \<longleftrightarrow> \<not> b \<and> f = ErrPackage e \<and> d2 = d"
  by (auto simp: guardE_def)

lemmas seq_simps = seqE_Inr seqE_Inl readE_iff giveE_iff guardE_Inr guardE_Inl alone_Inr alone_Inl

end
