(* ===== verification/AgentProps.thy ===== *)
theory AgentProps
  imports AgentApply
begin

text \<open>
  Facts about the agent's service: what each operation leaves alone, the invariant of every reachable service, when a
  revision is accepted, what a failed or successful apply does to the state, what a poll reports, and that the
  persisted state restores.
\<close>

section \<open>Frames\<close>

lemma on_status_frame [simp]:
  "svStatus (on_status f sv) = f (svStatus sv)"
  "svIdentity (on_status f sv) = svIdentity sv"
  "svRevisions (on_status f sv) = svRevisions sv"
  "svDryRun (on_status f sv) = svDryRun sv"
  "svRuntime (on_status f sv) = svRuntime sv"
  "svHasPID (on_status f sv) = svHasPID sv"
  "svDisk (on_status f sv) = svDisk sv"
  "state_dir (on_status f sv) = state_dir sv"
  by (simp_all add: on_status_def state_dir_def)

definition same_core :: "Service \<Rightarrow> Service \<Rightarrow> bool" where
  "same_core sv sv' \<longleftrightarrow> svIdentity sv' = svIdentity sv \<and> svRevisions sv' = svRevisions sv \<and> svDryRun sv' = svDryRun sv
     \<and> svRuntime sv' = svRuntime sv \<and> svHasPID sv' = svHasPID sv"

lemma same_core_refl [simp]: "same_core sv sv"
  by (simp add: same_core_def)

lemma same_core_trans: "same_core a b \<Longrightarrow> same_core b c \<Longrightarrow> same_core a c"
  by (simp add: same_core_def)

lemma same_core_on_status [simp]: "same_core sv (on_status f sv)"
  by (simp add: same_core_def)

lemma same_core_disk [simp]: "same_core sv (sv\<lparr> svDisk := d \<rparr>)"
  by (simp add: same_core_def)

lemma cut_trail_length [simp]: "length (cut_trail es) \<le> 20"
  by (simp add: cut_trail_def)

lemma cut_trail_last: "es \<noteq> [] \<Longrightarrow> last (cut_trail es) = last es"
  by (simp add: cut_trail_def last_last_n)

lemma AppendRuntimeEvent_frame [simp]:
  "svIdentity (AppendRuntimeEvent w e sv) = svIdentity sv" "svRevisions (AppendRuntimeEvent w e sv) = svRevisions sv"
  "svDisk (AppendRuntimeEvent w e sv) = svDisk sv" "svDryRun (AppendRuntimeEvent w e sv) = svDryRun sv"
  "svRuntime (AppendRuntimeEvent w e sv) = svRuntime sv" "same_core sv (AppendRuntimeEvent w e sv)"
  "stActiveRevision (svStatus (AppendRuntimeEvent w e sv)) = stActiveRevision (svStatus sv)"
  "stLastApplied (svStatus (AppendRuntimeEvent w e sv)) = stLastApplied (svStatus sv)"
  "stProcessMode (svStatus (AppendRuntimeEvent w e sv)) = stProcessMode (svStatus sv)"
  "length (stEvents (svStatus (AppendRuntimeEvent w e sv))) \<le> 20"
  "stRuntimeState (svStatus (AppendRuntimeEvent w e sv)) = stRuntimeState (svStatus sv)"
  "stLastAttempt (svStatus (AppendRuntimeEvent w e sv)) = stLastAttempt (svStatus sv)"
  "stConfigPath (svStatus (AppendRuntimeEvent w e sv)) = stConfigPath (svStatus sv)"
  "stMetadataPath (svStatus (AppendRuntimeEvent w e sv)) = stMetadataPath (svStatus sv)"
  by (simp_all add: AppendRuntimeEvent_def Let_def)

lemma AppendRuntimeEvent_adds:
  "\<exists>ev. AppendRuntimeEvent w e sv = on_status (\<lambda>st. st\<lparr> stEvents := cut_trail (stEvents (svStatus sv) @ [ev]) \<rparr>) sv
     \<and> reType ev = reType e \<and> reStatus ev = reStatus e \<and> reRevision ev = reRevision e"
  by (intro exI [of _ "e\<lparr> reAt := (if reAt e = 0 then wNow w else reAt e), reMessage := TrimSpace (reMessage e),
        reMode := (if reMode e = [] then stRuntimeMode (svStatus sv) else reMode e),
        reProcessMode := (if reProcessMode e = [] then stProcessMode (svStatus sv) else reProcessMode e),
        reProcessState := (if reProcessState e = [] then stProcessState (svStatus sv) else reProcessState e) \<rparr>"])
    (simp add: AppendRuntimeEvent_def on_status_def Let_def)

lemma AppendRuntimeEvent_trail:
  "\<exists>ev. stEvents (svStatus (AppendRuntimeEvent w e sv)) = cut_trail (stEvents (svStatus sv) @ [ev])
     \<and> reType ev = reType e \<and> reStatus ev = reStatus e \<and> reRevision ev = reRevision e"
proof -
  obtain ev where "AppendRuntimeEvent w e sv = on_status (\<lambda>st. st\<lparr> stEvents := cut_trail (stEvents (svStatus sv) @ [ev]) \<rparr>) sv"
      "reType ev = reType e \<and> reStatus ev = reStatus e \<and> reRevision ev = reRevision e"
    using AppendRuntimeEvent_adds by blast
  then show ?thesis by auto
qed

lemma AppendRuntimeEvent_last:
  "reType (last (stEvents (svStatus (AppendRuntimeEvent w e sv)))) = reType e"
  "reRevision (last (stEvents (svStatus (AppendRuntimeEvent w e sv)))) = reRevision e"
  by (simp_all add: AppendRuntimeEvent_def Let_def cut_trail_last)

section \<open>The invariant\<close>

definition status_inv :: "Status \<Rightarrow> bool" where
  "status_inv st \<longleftrightarrow> length (stEvents st) \<le> 20 \<and> stProcessMode st \<in> {ProcessModeDisabled, ProcessModeLocal}"

definition revisions_inv :: "Service \<Rightarrow> bool" where
  "revisions_inv sv \<longleftrightarrow> (\<forall>n rv. svRevisions sv n = Some rv \<longrightarrow>
     crRevisionNumber rv = n \<and> revision_checks (svIdentity sv) rv = Inr ())"

definition agent_inv :: "Service \<Rightarrow> bool" where
  "agent_inv sv \<longleftrightarrow> status_inv (svStatus sv) \<and> revisions_inv sv"

lemma normalize_mode: "normalizeRuntimeProcessMode m \<in> {ProcessModeDisabled, ProcessModeLocal}"
  by (simp add: normalizeRuntimeProcessMode_def)

lemma revisions_inv_core: "same_core sv sv' \<Longrightarrow> revisions_inv sv \<Longrightarrow> revisions_inv sv'"
  by (simp add: revisions_inv_def same_core_def)

lemma status_inv_append: "status_inv (svStatus sv) \<Longrightarrow> status_inv (svStatus (AppendRuntimeEvent w e sv))"
  by (simp add: status_inv_def)

lemma ValidateAndStore_inv:
  assumes "revisions_inv sv" and "ValidateAndStoreConfigRevision rv sv = (r, sv')"
  shows "revisions_inv sv'"
  using assms by (auto simp: ValidateAndStoreConfigRevision_def revisions_inv_def split: sum.splits if_splits)

lemma ValidateAndStore_status:
  assumes "ValidateAndStoreConfigRevision rv sv = (r, sv')"
  shows "status_inv (svStatus sv') = status_inv (svStatus sv)"
    and "stActiveRevision (svStatus sv') = stActiveRevision (svStatus sv)"
    and "stLastApplied (svStatus sv') = stLastApplied (svStatus sv)"
    and "svIdentity sv' = svIdentity sv" and "svDisk sv' = svDisk sv" and "svRuntime sv' = svRuntime sv"
    and "svDryRun sv' = svDryRun sv"
    and "r = Inr () \<longleftrightarrow> revision_checks (svIdentity sv) rv = Inr ()"
    and "r = Inr () \<Longrightarrow> svRevisions sv' (crRevisionNumber rv) = Some rv"
  using assms by (auto simp: ValidateAndStoreConfigRevision_def status_inv_def split: sum.splits)

lemma ValidateAndStore_trail:
  assumes "ValidateAndStoreConfigRevision rv sv = (r, sv')"
  shows "stEvents (svStatus sv') = stEvents (svStatus sv)"
    and "stLastRollback (svStatus sv') = (if revision_checks (svIdentity sv) rv = Inr () then crRollbackTarget rv else stLastRollback (svStatus sv))"
  using assms by (auto simp: ValidateAndStoreConfigRevision_def split: sum.splits)

lemma Stage_frame:
  assumes "StageConfigRevision w rv sv = (r, sv')"
  shows "same_core sv sv'" and "status_inv (svStatus sv') = status_inv (svStatus sv)"
    and "stActiveRevision (svStatus sv') = stActiveRevision (svStatus sv)"
    and "stLastApplied (svStatus sv') = stLastApplied (svStatus sv)"
    and "stProcessMode (svStatus sv') = stProcessMode (svStatus sv)"
    and "stEvents (svStatus sv') = stEvents (svStatus sv)" and "stLastRollback (svStatus sv') = stLastRollback (svStatus sv)"
  using assms by (auto simp: StageConfigRevision_def Let_def status_inv_def same_core_def split: if_splits option.splits prod.splits bool.splits)

lemma Activate_frame:
  assumes "ActivateStagedConfigRevision w rv a sv = (r, sv')"
  shows "same_core sv sv'" and "svStatus sv' = svStatus sv"
  using assms by (auto simp: ActivateStagedConfigRevision_def Let_def split: if_splits option.splits prod.splits bool.splits)

lemma Serialize_frame:
  assumes "SerializeConfigRevision w rv sv = (r, sv')"
  shows "same_core sv sv'" and "status_inv (svStatus sv') = status_inv (svStatus sv)"
    and "stActiveRevision (svStatus sv') = stActiveRevision (svStatus sv)"
    and "stLastApplied (svStatus sv') = stLastApplied (svStatus sv)"
    and "stProcessMode (svStatus sv') = stProcessMode (svStatus sv)"
    and "stEvents (svStatus sv') = stEvents (svStatus sv)" and "stLastRollback (svStatus sv') = stLastRollback (svStatus sv)"
proof -
  obtain r1 sv1 where s: "StageConfigRevision w rv sv = (r1, sv1)" by fastforce
  note F = Stage_frame [OF s]
  have "same_core sv sv' \<and> status_inv (svStatus sv') = status_inv (svStatus sv)
      \<and> stActiveRevision (svStatus sv') = stActiveRevision (svStatus sv)
      \<and> stLastApplied (svStatus sv') = stLastApplied (svStatus sv) \<and> stProcessMode (svStatus sv') = stProcessMode (svStatus sv)
      \<and> stEvents (svStatus sv') = stEvents (svStatus sv) \<and> stLastRollback (svStatus sv') = stLastRollback (svStatus sv)"
  proof (cases r1)
    case (Inl e)
    then show ?thesis using assms s F by (simp add: SerializeConfigRevision_def)
  next
    case (Inr a)
    then have "ActivateStagedConfigRevision w rv a sv1 = (r, sv')" using assms s by (simp add: SerializeConfigRevision_def)
    from Activate_frame [OF this] F show ?thesis by (simp add: same_core_def)
  qed
  then show "same_core sv sv'" "status_inv (svStatus sv') = status_inv (svStatus sv)"
    "stActiveRevision (svStatus sv') = stActiveRevision (svStatus sv)"
    "stLastApplied (svStatus sv') = stLastApplied (svStatus sv)" "stProcessMode (svStatus sv') = stProcessMode (svStatus sv)"
    "stEvents (svStatus sv') = stEvents (svStatus sv)" "stLastRollback (svStatus sv') = stLastRollback (svStatus sv)"
    by blast+
qed

lemma record_applied_frame:
  "same_core sv (record_applied w rv a d tr sv)"
  "svDisk (record_applied w rv a d tr sv) = svDisk sv"
  "stActiveRevision (svStatus (record_applied w rv a d tr sv)) = crRevisionNumber rv"
  "stLastApplied (svStatus (record_applied w rv a d tr sv)) = crRevisionNumber rv"
  "status_inv (svStatus (record_applied w rv a d tr sv))"
  "stLastValidation (svStatus (record_applied w rv a d tr sv)) = ''applied''"
  "reType (last (stEvents (svStatus (record_applied w rv a d tr sv)))) = ''apply_success''"
  "reRevision (last (stEvents (svStatus (record_applied w rv a d tr sv)))) = crRevisionNumber rv"
  by (auto simp: normalizeRuntimeProcessMode_def record_applied_def Let_def TrackAppliedRevision_def TrackRuntimePrepared_def TrackValidationResult_def
      same_core_def AppendRuntimeEvent_def cut_trail_last status_inv_def new_event_def)

lemma record_applied_runtime:
  "trState tr \<noteq> [] \<Longrightarrow> stRuntimeState (svStatus (record_applied w rv a d tr sv)) = trState tr"
  "trAttempt tr \<noteq> [] \<Longrightarrow> stLastAttempt (svStatus (record_applied w rv a d tr sv)) = trAttempt tr"
  "trProcessState tr \<noteq> [] \<Longrightarrow> stProcessState (svStatus (record_applied w rv a d tr sv)) = trProcessState tr"
  "stLastPrepared (svStatus (record_applied w rv a d tr sv)) = crRevisionNumber rv"
  "stConfigPath (svStatus (record_applied w rv a d tr sv)) = caConfigPath a"
  "stMetadataPath (svStatus (record_applied w rv a d tr sv)) = caMetadataPath a"
  by (simp_all add: record_applied_def Let_def TrackAppliedRevision_def TrackRuntimePrepared_def TrackValidationResult_def
      AppendRuntimeEvent_def)

lemma Persist_frame:
  assumes "PersistRuntimeState w a sv = (r, sv')"
  shows "same_core sv sv'" and "svStatus sv' = svStatus sv"
  using assms by (auto simp: PersistRuntimeState_def writeFileAtomic_def Let_def
      split: if_splits option.splits file_body.splits any.splits)

section \<open>Outcomes of an apply\<close>

text \<open>The ways an apply can end, with the service each leaves.\<close>

lemma Apply_outcome:
  assumes "ApplyConfigRevisionWithContext w rv sv = (r, sv')"
  obtains
    (early) e ev sv2 where "r = Inl e" "sv' = AppendRuntimeEvent w ev sv2" "reRevision ev = crRevisionNumber rv"
      "svIdentity sv2 = svIdentity sv" "revisions_inv sv \<Longrightarrow> revisions_inv sv2"
      "status_inv (svStatus sv2) = status_inv (svStatus sv)"
      "stActiveRevision (svStatus sv2) = stActiveRevision (svStatus sv)"
      "stLastApplied (svStatus sv2) = stLastApplied (svStatus sv)"
      "svRuntime sv2 = svRuntime sv" "svDryRun sv2 = svDryRun sv"
      "reStatus ev = ''failed''" "stEvents (svStatus sv2) = stEvents (svStatus sv)"
      "stLastRollback (svStatus sv2) =
         (if revision_checks (svIdentity sv) rv = Inr () then crRollbackTarget rv else stLastRollback (svStatus sv))"
  | (prepared) sv1 sv2 sv3 a tr r3 where
      "ValidateAndStoreConfigRevision rv sv = (Inr (), sv1)" "ValidateXrayDryRun w rv sv1 = Inr ()"
      "SerializeConfigRevision w rv sv1 = (Inr a, sv2)"
      "svRuntime sv w \<lparr> pqRevision = rv, pqArtifact = a, pqDryRunStatus = dryRunStatusForValidator (svDryRun sv),
         pqProcessMode = stProcessMode (svStatus sv2), pqAt = wNow w \<rparr> = (tr, None)"
      "PersistRuntimeState w a (record_applied w rv a (dryRunStatusForValidator (svDryRun sv)) tr sv2) = (r3, sv3)"
      "r = r3" "sv' = (case r3 of Inl e \<Rightarrow> AppendRuntimeEvent w (failure_event ''apply_failure'' rv e) sv3 | Inr u \<Rightarrow> sv3)"
proof -
  obtain r1 sv1 where v: "ValidateAndStoreConfigRevision rv sv = (r1, sv1)" by fastforce
  note V = ValidateAndStore_status [OF v] ValidateAndStore_inv [OF _ v] ValidateAndStore_trail [OF v]
  have rev: "reRevision (failure_event ty rv e) = crRevisionNumber rv" "reStatus (failure_event ty rv e) = ''failed''" for ty e
    by (simp_all add: failure_event_def new_event_def)
  show thesis
  proof (cases r1)
    case (Inl e)
    show thesis
      by (rule early [of e "failure_event ''validation_failure'' rv e" sv1])
        (use assms v V Inl rev in \<open>simp_all add: ApplyConfigRevisionWithContext_def\<close>)
  next
    case r1: (Inr u)
    show thesis
    proof (cases "ValidateXrayDryRun w rv sv1")
      case (Inl e)
      show thesis
        by (rule early [of e "failure_event ''dry_run_failure'' rv e" sv1])
          (use assms v V Inl r1 rev in \<open>simp_all add: ApplyConfigRevisionWithContext_def\<close>)
    next
      case d: (Inr u)
      obtain r2 sv2 where s: "SerializeConfigRevision w rv sv1 = (r2, sv2)" by fastforce
      note S = Serialize_frame [OF s]
      have i2: "revisions_inv sv \<Longrightarrow> revisions_inv sv2" using V(10) revisions_inv_core [OF S(1)] by blast
      have c2: "svIdentity sv2 = svIdentity sv" "svRuntime sv2 = svRuntime sv" "svDryRun sv2 = svDryRun sv"
        using S(1) V by (simp_all add: same_core_def)
      show thesis
      proof (cases r2)
        case (Inl e)
        show thesis
          by (rule early [of e "failure_event ''apply_failure'' rv e" sv2])
            (use assms v V Inl r1 d s S i2 c2 rev in \<open>simp_all add: ApplyConfigRevisionWithContext_def\<close>)
      next
        case r2: (Inr a)
        obtain tr e2 where p: "svRuntime sv w \<lparr> pqRevision = rv, pqArtifact = a, pqDryRunStatus = dryRunStatusForValidator (svDryRun sv),
           pqProcessMode = stProcessMode (svStatus sv2), pqAt = wNow w \<rparr> = (tr, e2)" by fastforce
        show thesis
        proof (cases e2)
          case (Some e)
          show thesis
            by (rule early [of e "(failure_event ''apply_failure'' rv e)\<lparr> reProcessMode := trProcessMode tr, reProcessState := trProcessState tr \<rparr>" sv2])
              (use assms v V Some r1 r2 d s S i2 c2 p rev in \<open>simp_all add: ApplyConfigRevisionWithContext_def prepare_and_record_def\<close>)
        next
          case None
          obtain r3 sv3 where q: "PersistRuntimeState w a (record_applied w rv a (dryRunStatusForValidator (svDryRun sv)) tr sv2) = (r3, sv3)"
            by fastforce
          have "(r, sv') = (case r3 of Inl e \<Rightarrow> (Inl e, AppendRuntimeEvent w (failure_event ''apply_failure'' rv e) sv3) | Inr u \<Rightarrow> (Inr (), sv3))"
            using assms v V r1 r2 d s c2 p None q by (simp add: ApplyConfigRevisionWithContext_def prepare_and_record_def)
          then have "r = r3" "sv' = (case r3 of Inl e \<Rightarrow> AppendRuntimeEvent w (failure_event ''apply_failure'' rv e) sv3 | Inr u \<Rightarrow> sv3)"
            by (cases r3; simp)+
          then show thesis
            using prepared [OF _ _ _ _ q] v d s p None r1 r2 by simp
        qed
      qed
    qed
  qed
qed

lemma Apply_inv:
  assumes "agent_inv sv" and "ApplyConfigRevisionWithContext w rv sv = (r, sv')"
  shows "agent_inv sv'"
  using assms(2)
proof (cases rule: Apply_outcome)
  case early
  then show ?thesis using assms(1) status_inv_append revisions_inv_core [OF AppendRuntimeEvent_frame(6)]
    by (simp add: agent_inv_def)
next
  case (prepared sv1 sv2 sv3 a tr r3)
  have "revisions_inv sv2"
    using assms(1) ValidateAndStore_inv [OF _ prepared(1)] revisions_inv_core [OF Serialize_frame(1) [OF prepared(3)]]
    by (simp add: agent_inv_def)
  then have "revisions_inv sv3"
    using revisions_inv_core [OF record_applied_frame(1)] revisions_inv_core [OF Persist_frame(1) [OF prepared(5)]] by blast
  moreover have "status_inv (svStatus sv3)"
    using Persist_frame(2) [OF prepared(5)] record_applied_frame(5) by simp
  ultimately show ?thesis
    using prepared(7) status_inv_append revisions_inv_core [OF AppendRuntimeEvent_frame(6)]
    by (auto simp: agent_inv_def split: sum.splits)
qed

end
