(* ===== verification/AgentFiles.thy ===== *)
theory AgentFiles
  imports AgentProps
begin

text \<open>
  What the file operations of the agent leave on disk: a staged and activated revision has its configuration and
  metadata under \<open>active\<close> and the activation record in \<open>state.json\<close>, at pairwise different paths, and persisting
  the runtime state rewrites \<open>state.json\<close> only.
\<close>

section \<open>Files after an apply\<close>

fun put_all :: "(string \<times> file_body) list \<Rightarrow> disk \<Rightarrow> disk" where
  "put_all [] d = d"
| "put_all ((path, body) # rest) d = put_all rest (d(path \<mapsto> body))"

lemma write_all_ok:
  "write_all w ws d = (True, d') \<Longrightarrow> d' = put_all ws d \<and> (\<forall>p \<in> fst ` set ws. \<not> wWriteFails w p)"
proof (induction ws arbitrary: d)
  case (Cons x ws)
  obtain p b where x: "x = (p, b)" by fastforce
  have "\<not> wWriteFails w p" "write_all w ws (d(p \<mapsto> b)) = (True, d')"
    using Cons.prems by (auto simp: x writeFileAtomic_def simp del: fun_upd_apply split: if_splits)
  from Cons.IH [OF this(2)] this(1) show ?case by (simp add: x del: fun_upd_apply)
qed simp

lemma plain_itoa [simp]: "plain_name (itoa n)"
proof -
  have "CHR ''.'' \<notin> set (itoa n)" "CHR ''/'' \<notin> set (itoa n)"
    using itoa_no_colon [of "CHR ''.''" n] itoa_no_colon [of "CHR ''/''" n] by auto
  moreover have "itoa n \<noteq> []" by (simp add: itoa_def)
  ultimately show ?thesis by (auto simp: plain_name_def)
qed

lemma plain_literals [simp]:
  "plain_name ''active''" "plain_name ''staged''" "plain_name ''revisions''" "plain_name ''config.json''"
  "plain_name ''metadata.json''" "plain_name ''state.json''"
  by (simp_all add: plain_name_def)

lemma join_nonempty: "list_all plain_name ns \<Longrightarrow> ns \<noteq> [] \<Longrightarrow> filepath_Join dir ns \<noteq> []"
proof -
  assume a: "list_all plain_name ns" "ns \<noteq> []"
  have "join_with d (ps @ ns) \<noteq> []" for d ps
  proof -
    have "\<exists>q qs. ps @ ns = q @ qs \<and> True" by blast
    have l: "join_with d qs = [] \<Longrightarrow> \<forall>q \<in> set qs. q = []" for qs
      by (induction d qs rule: join_with.induct) auto
    show ?thesis using l [of "ps @ ns"] a by (cases ns) (auto simp: plain_name_def)
  qed
  then show ?thesis using a by (simp add: filepath_Join_def Let_def clean_names_append path_text_def)
qed

lemma Join_last:
  assumes "list_all plain_name ns" and "plain_name n"
  shows "filepath_Join dir (ns @ [n]) \<noteq> [] \<and> last (filepath_Join dir (ns @ [n])) = last n"
proof -
  have j: "join_with d (xs @ [n]) \<noteq> [] \<and> last (join_with d (xs @ [n])) = last n" for d xs
    using assms(2) by (induction d xs rule: join_with.induct) (auto simp: plain_name_def)
  show ?thesis using assms j [of "''/''"]
    by (simp add: filepath_Join_def Let_def clean_names_append path_text_def append_assoc [symmetric] del: append_assoc)
qed

text \<open>The path of the state file is never blank, whatever the state directory is.\<close>

lemma state_path_nonblank: "TrimSpace (filepath_Join dir [''state.json'']) \<noteq> []"
  by (rule TrimSpace_nonblank_last) (use Join_last [of "[]" "''state.json''" dir] in simp_all)

lemma Stage_result:
  assumes "StageConfigRevision w rv sv = (Inr a, sv')"
  shows "a = artifact_paths (state_dir sv) (crRevisionNumber rv)" and "state_dir sv \<noteq> []"
    and "\<exists>config. bundle_config rv = Some config
       \<and> svDisk sv' = (svDisk sv)(caRevisionConfigPath a \<mapsto> JsonDoc (AObj config),
           caRevisionMetadataPath a \<mapsto> JsonDoc (AObj (revision_metadata rv a)),
           caStagedConfigPath a \<mapsto> JsonDoc (AObj config), caStagedMetadataPath a \<mapsto> JsonDoc (AObj (revision_metadata rv a)))"
    and "svStatus sv' = (svStatus sv)\<lparr> stStaged := crRevisionNumber rv, stRollbackCandidate := crRollbackTarget rv \<rparr>"
    and "state_dir sv' = state_dir sv"
proof -
  obtain config where c: "bundle_config rv = Some config" "state_dir sv \<noteq> []"
    using assms by (auto simp: StageConfigRevision_def Let_def split: if_splits option.splits)
  let ?a = "artifact_paths (state_dir sv) (crRevisionNumber rv)"
  let ?ws = "[(caRevisionConfigPath ?a, JsonDoc (AObj config)), (caRevisionMetadataPath ?a, JsonDoc (AObj (revision_metadata rv ?a))),
      (caStagedConfigPath ?a, JsonDoc (AObj config)), (caStagedMetadataPath ?a, JsonDoc (AObj (revision_metadata rv ?a)))]"
  obtain b d where w: "write_all w ?ws (svDisk sv) = (b, d)" by fastforce
  then have b: "b" using assms c by (auto simp del: write_all.simps simp: StageConfigRevision_def Let_def split: if_splits bool.splits)
  have w': "write_all w ?ws (svDisk sv) = (True, d)" using w b by (simp del: write_all.simps)
  have d: "d = put_all ?ws (svDisk sv)" using write_all_ok [OF w'] by blast
  have r: "a = ?a" "sv' = on_status (\<lambda>st. st\<lparr> stStaged := crRevisionNumber rv, stRollbackCandidate := crRollbackTarget rv \<rparr>)
                             (sv\<lparr> svDisk := d \<rparr>)"
    using assms c w b by (auto simp del: write_all.simps simp: StageConfigRevision_def Let_def split: if_splits)
  show "a = artifact_paths (state_dir sv) (crRevisionNumber rv)" "state_dir sv \<noteq> []" by (rule r(1), rule c(2))
  show "\<exists>config. bundle_config rv = Some config
       \<and> svDisk sv' = (svDisk sv)(caRevisionConfigPath a \<mapsto> JsonDoc (AObj config),
           caRevisionMetadataPath a \<mapsto> JsonDoc (AObj (revision_metadata rv a)),
           caStagedConfigPath a \<mapsto> JsonDoc (AObj config), caStagedMetadataPath a \<mapsto> JsonDoc (AObj (revision_metadata rv a)))"
    using c r d by simp
  show "svStatus sv' = (svStatus sv)\<lparr> stStaged := crRevisionNumber rv, stRollbackCandidate := crRollbackTarget rv \<rparr>" "state_dir sv' = state_dir sv"
    using r by (simp_all add: state_dir_def)
qed

lemma Activate_result:
  assumes "ActivateStagedConfigRevision w rv a sv = (Inr a', sv')" and "a = artifact_paths (state_dir sv) n" and "state_dir sv \<noteq> []"
    and "svDisk sv (caStagedConfigPath a) = Some cb" and "svDisk sv (caStagedMetadataPath a) = Some mb"
  shows "a' = a" and "svDisk sv' = (svDisk sv)(caMetadataPath a \<mapsto> mb, caConfigPath a \<mapsto> cb,
       caStatePath a \<mapsto> JsonDoc (AObj (activation_state rv a sv)))"
    and "\<not> wWriteFails w (caStatePath a)" and "is_json cb" and "is_json mb"
proof -
  have ne: "caConfigPath a \<noteq> []" "caMetadataPath a \<noteq> []" "caStatePath a \<noteq> []"
    using assms(2) by (simp_all add: artifact_paths_def join_nonempty)
  let ?ws = "[(caMetadataPath a, mb), (caConfigPath a, cb), (caStatePath a, JsonDoc (AObj (activation_state rv a sv)))]"
  obtain b d where w: "write_all w ?ws (svDisk sv) = (b, d)" by fastforce
  have s: "a\<lparr> caConfigPath := caConfigPath a, caMetadataPath := caMetadataPath a, caStatePath := caStatePath a \<rparr> = a" by simp
  have j: "is_json cb \<and> is_json mb" and e: "ActivateStagedConfigRevision w rv a sv = (case write_all w ?ws (svDisk sv) of
             (False, d) \<Rightarrow> (Inl AErrConfigArtifactWrite, sv\<lparr> svDisk := d \<rparr>) | (True, d) \<Rightarrow> (Inr a, sv\<lparr> svDisk := d \<rparr>))"
    using assms(1,3,4,5) ne
    by (auto simp del: write_all.simps simp: ActivateStagedConfigRevision_def Let_def read_file_def default_path_def s split: if_splits option.splits)
  have b: b and r: "a' = a" "sv' = sv\<lparr> svDisk := d \<rparr>"
    using assms(1) e w by (auto simp del: write_all.simps split: bool.splits)
  have w': "write_all w ?ws (svDisk sv) = (True, d)" using w b by (simp del: write_all.simps)
  have d: "d = put_all ?ws (svDisk sv)" "\<forall>p \<in> fst ` set ?ws. \<not> wWriteFails w p"
    using write_all_ok [OF w'] by blast+
  show "a' = a" by (rule r(1))
  show "svDisk sv' = (svDisk sv)(caMetadataPath a \<mapsto> mb, caConfigPath a \<mapsto> cb,
       caStatePath a \<mapsto> JsonDoc (AObj (activation_state rv a sv)))" using r d by simp
  show "\<not> wWriteFails w (caStatePath a)" using d by simp
  show "is_json cb" "is_json mb" using j by simp_all
qed

definition staged_status :: "ConfigRevision \<Rightarrow> Status \<Rightarrow> Status" where
  "staged_status rv st = st\<lparr> stStaged := crRevisionNumber rv, stRollbackCandidate := crRollbackTarget rv \<rparr>"

lemma Serialize_result:
  assumes "SerializeConfigRevision w rv sv = (Inr a, sv')"
  defines "b \<equiv> artifact_paths (state_dir sv) (crRevisionNumber rv)"
  shows "a = b" and "\<not> wWriteFails w (caStatePath b)" and "svStatus sv' = staged_status rv (svStatus sv)"
    and "state_dir sv' = state_dir sv" and "state_dir sv \<noteq> []"
    and "\<exists>config. bundle_config rv = Some config \<and> svDisk sv' (caConfigPath b) = Some (JsonDoc (AObj config))"
    and "svDisk sv' (caMetadataPath b) = Some (JsonDoc (AObj (revision_metadata rv b)))"
    and "svDisk sv' (caStatePath b) = Some (JsonDoc (AObj (activation_state rv b (on_status (staged_status rv) sv))))"
proof -
  obtain r1 sv1 where s: "StageConfigRevision w rv sv = (r1, sv1)" by fastforce
  then obtain a1 where r1: "r1 = Inr a1" using assms(1) by (cases r1) (auto simp: SerializeConfigRevision_def)
  note S = Stage_result [OF s [unfolded r1]]
  have a: "ActivateStagedConfigRevision w rv a1 sv1 = (Inr a, sv')" using assms(1) s r1 by (simp add: SerializeConfigRevision_def)
  have a1: "a1 = b" using S(1) by (simp add: b_def)
  obtain config where c: "bundle_config rv = Some config" and d1: "svDisk sv1 = (svDisk sv)(caRevisionConfigPath b \<mapsto> JsonDoc (AObj config),
           caRevisionMetadataPath b \<mapsto> JsonDoc (AObj (revision_metadata rv b)),
           caStagedConfigPath b \<mapsto> JsonDoc (AObj config), caStagedMetadataPath b \<mapsto> JsonDoc (AObj (revision_metadata rv b)))"
    using S(3) a1 by blast
  have ne: "caStagedConfigPath b \<noteq> caStagedMetadataPath b" "caMetadataPath b \<noteq> caConfigPath b" "caMetadataPath b \<noteq> caStatePath b"
    "caConfigPath b \<noteq> caStatePath b"
    by (simp_all add: b_def artifact_paths_def filepath_Join_inj)
  have st: "svDisk sv1 (caStagedConfigPath a1) = Some (JsonDoc (AObj config))"
    "svDisk sv1 (caStagedMetadataPath a1) = Some (JsonDoc (AObj (revision_metadata rv b)))"
    using d1 ne a1 by simp_all
  have dir: "a1 = artifact_paths (state_dir sv1) (crRevisionNumber rv)" "state_dir sv1 \<noteq> []"
    using S(2,5) a1 by (simp_all add: b_def)
  note A = Activate_result [OF a dir st]
  have v: "svStatus sv' = svStatus sv1" "svIdentity sv' = svIdentity sv1" "svDryRun sv1 = svDryRun sv"
    using Activate_frame [OF a] Stage_frame(1) [OF s] by (simp_all add: same_core_def)
  have act: "activation_state rv b sv1 = activation_state rv b (on_status (staged_status rv) sv)"
    using S(4) v by (simp add: activation_state_def staged_status_def Let_def)
  show "a = b" "\<not> wWriteFails w (caStatePath b)" "state_dir sv \<noteq> []" using A S a1 by simp_all
  show "svStatus sv' = staged_status rv (svStatus sv)" "state_dir sv' = state_dir sv"
    using v S by (simp_all add: staged_status_def state_dir_def)
  show "\<exists>config. bundle_config rv = Some config \<and> svDisk sv' (caConfigPath b) = Some (JsonDoc (AObj config))"
    "svDisk sv' (caMetadataPath b) = Some (JsonDoc (AObj (revision_metadata rv b)))"
    "svDisk sv' (caStatePath b) = Some (JsonDoc (AObj (activation_state rv b (on_status (staged_status rv) sv))))"
    using A(2) a1 c ne act by simp_all
qed

lemma Persist_result:
  assumes "PersistRuntimeState w a sv = (r, sv')" and "svDisk sv (caStatePath a) = Some (JsonDoc (AObj m))"
    and "\<not> wWriteFails w (caStatePath a)" and "\<not> wReadFails w (caStatePath a)"
  shows "r = Inr ()" and "TrimSpace (caStatePath a) \<noteq> [] \<Longrightarrow> svDisk sv' = (svDisk sv)(caStatePath a \<mapsto>
      JsonDoc (AObj (set_keys (persisted_fields (svStatus sv)) (through_json_obj m))))"
  using assms by (auto simp: PersistRuntimeState_def Let_def writeFileAtomic_def split: if_splits)

lemma Persist_success:
  assumes "PersistRuntimeState w a sv = (Inr (), sv')" and "svDisk sv (caStatePath a) = Some (JsonDoc (AObj m))"
    and "TrimSpace (caStatePath a) \<noteq> []"
  shows "svDisk sv' = (svDisk sv)(caStatePath a \<mapsto> JsonDoc (AObj (set_keys (persisted_fields (svStatus sv)) (through_json_obj m))))"
  using assms by (auto simp: PersistRuntimeState_def Let_def writeFileAtomic_def split: if_splits)

lemma Persist_fails_unreadable:
  assumes "PersistRuntimeState w a sv = (Inl e, sv')" and "svDisk sv (caStatePath a) = Some (JsonDoc (AObj m))"
    and "\<not> wWriteFails w (caStatePath a)"
  shows "wReadFails w (caStatePath a)"
  using Persist_result(1) [OF assms] by blast

end
