(* ===== verification/AgentRestore.thy ===== *)
theory AgentRestore
  imports AgentFiles RenderProps
begin

text \<open>
  The round trip of the agent's status through \<open>state.json\<close>: what \<open>PersistRuntimeState\<close> writes is what
  \<open>RestoreRuntimeState\<close> of a restarted agent reads back, field by field and event by event.
\<close>

section \<open>Values that survive\<close>

definition clean_text :: "string \<Rightarrow> bool" where
  "clean_text s \<longleftrightarrow> TrimSpace s = s \<and> utf8_valid s"

definition small_int :: "int \<Rightarrow> bool" where
  "small_int n \<longleftrightarrow> \<bar>n\<bar> \<le> 2 ^ 53"

definition dated :: "instant \<Rightarrow> bool" where
  "dated t \<longleftrightarrow> 0 \<le> t \<and> t < max_instant"

definition event_storable :: "RuntimeEvent \<Rightarrow> bool" where
  "event_storable e \<longleftrightarrow> reType e \<noteq> [] \<and> list_all clean_text [reType e, reStatus e, reMessage e, reMode e, reProcessMode e, reProcessState e]
     \<and> small_int (reRevision e) \<and> dated (reAt e)"

definition status_storable :: "Status \<Rightarrow> bool" where
  "status_storable st \<longleftrightarrow>
     list_all clean_text [stRuntimeMode st, stProcessMode st, stProcessState st, stDesiredState st, stRuntimeState st,
       stLastDryRun st, stLastAttempt st, stLastRuntimeError st, stLastValidation st, stLastValidationError st,
       stConfigPath st, stMetadataPath st]
     \<and> list_all (\<lambda>s. s \<noteq> []) [stRuntimeMode st, stProcessState st, stDesiredState st, stRuntimeState st, stLastDryRun st,
         stLastAttempt st, stConfigPath st, stMetadataPath st]
     \<and> list_all small_int [stLastPrepared st, stActiveRevision st, stStaged st, stLastApplied st, stLastRollback st, stRollbackCandidate st]
     \<and> dated (stLastTransitionAt st) \<and> dated (stLastValidationAt st)
     \<and> status_inv st \<and> list_all event_storable (stEvents st)"

lemma clean_text_Nil [simp]: "clean_text []"
  by (simp add: clean_text_def utf8_valid_def)

lemma clean_text_graphic: "s \<noteq> [] \<Longrightarrow> graphic (hd s) \<Longrightarrow> graphic (last s) \<Longrightarrow> ascii s \<Longrightarrow> clean_text s"
  by (simp add: clean_text_def TrimSpace_graphic utf8_valid_ascii)

section \<open>Reading one field back\<close>

lemma small_number: "small_int n \<Longrightarrow> numberAsInt (through_json (AInt n)) = Some n"
  by (subst number_tj) (simp_all add: small_int_def)

lemma read_stored_string: "idx m k = through_json (AStr s) \<Longrightarrow> clean_text s \<Longrightarrow> stringFromState m k = s"
  by (simp add: stringFromState_def clean_text_def utf8_valid_def)

lemma read_stored_default: "idx m k = through_json (AStr s) \<Longrightarrow> clean_text s \<Longrightarrow> s \<noteq> [] \<Longrightarrow> stringFromStateDefault m k f = s"
  by (simp add: stringFromStateDefault_def read_stored_string)

lemma read_stored_int: "idx m k = through_json (AInt n) \<Longrightarrow> small_int n \<Longrightarrow> intFromState m k f = n"
  by (simp add: intFromState_def small_number del: through_json.simps)

lemma read_stored_number: "idx m k = through_json (AInt n) \<Longrightarrow> small_int n \<Longrightarrow> agent_numberAsInt (idx m k) = Some n"
  by (simp add: small_number del: through_json.simps)

lemma time_text_nonblank: "TrimSpace (RFC3339Nano t) \<noteq> []"
proof -
  have "pad 4 y \<noteq> [] \<and> graphic (hd (pad 4 y))" for y
  proof -
    have p: "pad 4 y \<noteq> []" using length_pad [of 4 y] by (auto simp del: length_pad)
    then have "is_digit (hd (pad 4 y))" using pad_digits [of 4 y] by (auto simp: list_all_iff)
    then show ?thesis using p by (simp add: is_digit_def graphic_def)
  qed
  then show ?thesis
    by (intro TrimSpace_nonblank) (auto simp: RFC3339Nano_def date_time_text_def hd_append split: prod.split)
qed

lemma read_stored_time: "idx m k = through_json (AStr (RFC3339Nano t)) \<Longrightarrow> dated t \<Longrightarrow> timeFromState m k = t"
  by (simp add: timeFromState_def utf8_coerce_ascii time_text_nonblank ParseRFC3339_format dated_def)

section \<open>Events\<close>

lemma idx_append: "idx (a @ b) k = (if has_key a k then idx a k else idx b k)"
  by (induction a) auto

lemma idx_omit_empty:
  "distinct (map fst m) \<Longrightarrow> idx (omit_empty m) k = (if idx m k = AStr [] \<or> idx m k = AInt 0 then ANil else idx m k)"
proof (induction m)
  case (Cons x m)
  have n: "k \<notin> fst ` set m \<Longrightarrow> idx (filter P m) k = ANil" for P
    by (induction m) auto
  show ?case using Cons n by (cases x) (auto simp: omit_empty_def)
qed (simp add: omit_empty_def)

lemma has_key_omit_empty: "k \<notin> fst ` set m \<Longrightarrow> \<not> has_key (omit_empty m) k"
  by (auto simp: has_key_def omit_empty_def map_of_eq_None_iff)

lemma has_key_omit_empty_idx:
  "distinct (map fst m) \<Longrightarrow> has_key (omit_empty m) k \<longleftrightarrow> has_key m k \<and> idx m k \<noteq> AStr [] \<and> idx m k \<noteq> AInt 0"
proof (induction m)
  case (Cons x m)
  have n: "k \<notin> fst ` set m \<Longrightarrow> \<not> has_key (filter P m) k" for P
    by (auto simp: has_key_def map_of_eq_None_iff)
  show ?case using Cons n by (cases x) (auto simp: omit_empty_def)
qed (simp add: omit_empty_def)

fun event_obj :: "RuntimeEvent \<Rightarrow> obj" where
  "event_obj e = (case event_json e of AObj m \<Rightarrow> m | _ \<Rightarrow> [])"

lemma event_json_obj: "event_json e = AObj (event_obj e)"
  by (simp add: event_json_def)

lemma event_obj_keys: "k \<in> fst ` set (event_obj e) \<Longrightarrow> utf8_valid k"
  by (auto simp: event_json_def omit_empty_def intro!: utf8_valid_ascii split: if_splits)

lemma event_obj_idx:
  "idx (event_obj e) ''type'' = AStr (reType e)" "idx (event_obj e) ''status'' = AStr (reStatus e)"
  "idx (event_obj e) ''at'' = AStr (RFC3339Nano (reAt e))"
  "idx (event_obj e) ''revision_number'' = (if reRevision e = 0 then ANil else AInt (reRevision e))"
  "idx (event_obj e) ''message'' = (if reMessage e = [] then ANil else AStr (reMessage e))"
  "idx (event_obj e) ''runtime_mode'' = (if reMode e = [] then ANil else AStr (reMode e))"
  "idx (event_obj e) ''runtime_process_mode'' = (if reProcessMode e = [] then ANil else AStr (reProcessMode e))"
  "idx (event_obj e) ''runtime_process_state'' = (if reProcessState e = [] then ANil else AStr (reProcessState e))"
  by (simp_all add: event_json_def idx_append idx_omit_empty has_key_omit_empty_idx)

lemma read_stored_optional:
  "idx m k = through_json (if s = [] then ANil else AStr s) \<Longrightarrow> clean_text s \<Longrightarrow> stringFromState m k = s"
  by (auto simp: stringFromState_def clean_text_def utf8_valid_def split: if_splits)

lemma read_stored_optional_int:
  "idx m k = through_json (if n = 0 then ANil else AInt n) \<Longrightarrow> small_int n \<Longrightarrow> intFromState m k 0 = n"
  by (cases "n = 0") (auto simp: intFromState_def small_number simp del: through_json.simps(1))

lemma events_restore:
  "list_all event_storable es \<Longrightarrow> events_from_list (map through_json (map event_json es)) = es"
proof (induction es)
  case (Cons e es)
  let ?m = "through_json_obj (event_obj e)"
  have i: "idx ?m k = through_json (idx (event_obj e) k)" for k
    by (rule idx_through_json) (rule event_obj_keys)
  note f = i event_obj_idx
  have s: "event_storable e" using Cons by simp
  note d = s [unfolded event_storable_def list.pred_inject]
  have "stringFromState ?m ''type'' = reType e" "stringFromState ?m ''status'' = reStatus e"
    by (rule read_stored_string; use d in \<open>simp only: f\<close>)+
  moreover have "stringFromState ?m ''message'' = reMessage e" "stringFromState ?m ''runtime_mode'' = reMode e"
    "stringFromState ?m ''runtime_process_mode'' = reProcessMode e" "stringFromState ?m ''runtime_process_state'' = reProcessState e"
    by (rule read_stored_optional; use d in \<open>simp only: f\<close>)+
  moreover have "intFromState ?m ''revision_number'' 0 = reRevision e"
    by (rule read_stored_optional_int; use d in \<open>simp only: f\<close>)
  moreover have "timeFromState ?m ''at'' = reAt e"
    by (rule read_stored_time; use d in \<open>simp only: f\<close>)
  moreover have "as_obj (through_json (event_json e)) = Some ?m"
    by (simp add: event_json_obj through_json_obj_def del: event_obj.simps)
  moreover have "reType e \<noteq> []" using s by (simp add: event_storable_def)
  ultimately show ?case using Cons by (simp add: Let_def del: event_obj.simps)
qed simp

lemma runtimeEvents_restore:
  assumes "list_all event_storable es" and "length es \<le> 20"
  shows "runtimeEventsFromState (through_json (events_json es)) = es"
proof (cases "es = []")
  case True
  then show ?thesis by (simp add: runtimeEventsFromState_def events_json_def)
next
  case False
  then show ?thesis
    using events_restore [OF assms(1)] assms(2)
    by (simp add: runtimeEventsFromState_def events_json_def cut_trail_def del: map_map)
qed

section \<open>The status\<close>

lemma persisted_idx:
  "idx (set_keys (persisted_fields st) m) ''runtime_mode'' = AStr (stRuntimeMode st)"
  "idx (set_keys (persisted_fields st) m) ''runtime_process_mode'' = AStr (stProcessMode st)"
  "idx (set_keys (persisted_fields st) m) ''runtime_process_state'' = AStr (stProcessState st)"
  "idx (set_keys (persisted_fields st) m) ''runtime_desired_state'' = AStr (stDesiredState st)"
  "idx (set_keys (persisted_fields st) m) ''runtime_state'' = AStr (stRuntimeState st)"
  "idx (set_keys (persisted_fields st) m) ''last_dry_run_status'' = AStr (stLastDryRun st)"
  "idx (set_keys (persisted_fields st) m) ''last_runtime_attempt_status'' = AStr (stLastAttempt st)"
  "idx (set_keys (persisted_fields st) m) ''last_runtime_prepared_revision'' = AInt (stLastPrepared st)"
  "idx (set_keys (persisted_fields st) m) ''last_runtime_transition_at'' = AStr (RFC3339Nano (stLastTransitionAt st))"
  "idx (set_keys (persisted_fields st) m) ''last_runtime_error'' = AStr (stLastRuntimeError st)"
  "idx (set_keys (persisted_fields st) m) ''active_revision'' = AInt (stActiveRevision st)"
  "idx (set_keys (persisted_fields st) m) ''staged_revision'' = AInt (stStaged st)"
  "idx (set_keys (persisted_fields st) m) ''last_applied_revision'' = AInt (stLastApplied st)"
  "idx (set_keys (persisted_fields st) m) ''last_rollback_revision'' = AInt (stLastRollback st)"
  "idx (set_keys (persisted_fields st) m) ''rollback_candidate_revision'' = AInt (stRollbackCandidate st)"
  "idx (set_keys (persisted_fields st) m) ''last_validation_status'' = AStr (stLastValidation st)"
  "idx (set_keys (persisted_fields st) m) ''last_validation_error'' = AStr (stLastValidationError st)"
  "idx (set_keys (persisted_fields st) m) ''last_validation_at'' = AStr (RFC3339Nano (stLastValidationAt st))"
  "idx (set_keys (persisted_fields st) m) ''config_artifact_path'' = AStr (stConfigPath st)"
  "idx (set_keys (persisted_fields st) m) ''metadata_artifact_path'' = AStr (stMetadataPath st)"
  "idx (set_keys (persisted_fields st) m) ''runtime_events'' = events_json (stEvents st)"
  by (simp_all add: persisted_fields_def)

lemma set_keys_keys: "fst ` set (set_keys kvs m) = fst ` set kvs \<union> fst ` set m"
  by (induction kvs m rule: set_keys.induct) (auto simp: fst_set_set_key)

lemma persisted_keys:
  assumes "\<forall>k \<in> fst ` set m. utf8_valid k" and "k \<in> fst ` set (set_keys (persisted_fields st) m)"
  shows "utf8_valid k"
proof -
  have k: "k \<in> fst ` set (persisted_fields st) \<or> k \<in> fst ` set m"
    using assms(2) unfolding set_keys_keys by (rule UnE) blast+
  have l: "list_all ascii (map fst (persisted_fields st))" by (simp add: persisted_fields_def)
  show ?thesis
    using k
  proof
    assume "k \<in> fst ` set (persisted_fields st)"
    then have "k \<in> set (map fst (persisted_fields st))" by (simp only: set_map)
    then show ?thesis using l utf8_valid_ascii unfolding list_all_iff by blast
  next
    assume "k \<in> fst ` set m"
    then show ?thesis using assms(1) by blast
  qed
qed

definition restart_of :: "Status \<Rightarrow> Status \<Rightarrow> Status" where
  "restart_of st0 st = st\<lparr> stNodeID := stNodeID st0, stStatus := stStatus st0, stRegistered := stRegistered st0,
     stPanelURL := stPanelURL st0, stLastHeartbeatAt := stLastHeartbeatAt st0, stDryRunEnabled := stDryRunEnabled st0 \<rparr>"

lemma normalize_fixed: "m \<in> {ProcessModeDisabled, ProcessModeLocal} \<Longrightarrow> normalizeRuntimeProcessMode m = m"
proof -
  have "TrimSpace ProcessModeLocal = ProcessModeLocal" "TrimSpace ProcessModeDisabled = ProcessModeDisabled"
    by (rule TrimSpace_graphic; simp)+
  then show "m \<in> {ProcessModeDisabled, ProcessModeLocal} \<Longrightarrow> normalizeRuntimeProcessMode m = m"
    by (auto simp: normalizeRuntimeProcessMode_def)
qed

lemma restored_status_persisted:
  assumes st: "status_storable st" and keys: "\<forall>k \<in> fst ` set m. utf8_valid k"
  defines "M \<equiv> through_json_obj (set_keys (persisted_fields st) m)"
  shows "restored_status M dir (stActiveRevision st) st0 = restart_of st0 st"
    and "restored_revision M = Some (stActiveRevision st)"
    and "restored_config_path M dir = stConfigPath st" and "restored_metadata_path M dir = stMetadataPath st"
proof -
  have i: "idx M k = through_json (idx (set_keys (persisted_fields st) m) k)" for k
    unfolding M_def by (rule idx_through_json) (rule persisted_keys [OF keys])
  note f = i persisted_idx
  note d = st [unfolded status_storable_def status_inv_def list.pred_inject]
  have mode: "stProcessMode st \<noteq> []" using d by auto
  have strs: "stringFromStateDefault M ''runtime_mode'' x = stRuntimeMode st"
    "stringFromStateDefault M ''runtime_process_mode'' x = stProcessMode st"
    "stringFromStateDefault M ''runtime_process_state'' x = stProcessState st"
    "stringFromStateDefault M ''runtime_desired_state'' x = stDesiredState st"
    "stringFromStateDefault M ''runtime_state'' x = stRuntimeState st"
    "stringFromStateDefault M ''last_dry_run_status'' x = stLastDryRun st"
    "stringFromStateDefault M ''last_runtime_attempt_status'' x = stLastAttempt st" for x
    by (rule read_stored_default; use d mode in \<open>simp only: f not_False_eq_True\<close>)+
  have strs2: "stringFromState M ''last_runtime_error'' = stLastRuntimeError st"
    "stringFromState M ''last_validation_status'' = stLastValidation st"
    "stringFromState M ''last_validation_error'' = stLastValidationError st"
    "stringFromState M ''config_artifact_path'' = stConfigPath st"
    "stringFromState M ''metadata_artifact_path'' = stMetadataPath st"
    by (rule read_stored_string; use d in \<open>simp only: f\<close>)+
  have ints: "intFromState M ''last_applied_revision'' x = stLastApplied st"
    "intFromState M ''staged_revision'' x = stStaged st" "intFromState M ''last_rollback_revision'' x = stLastRollback st"
    "intFromState M ''rollback_candidate_revision'' x = stRollbackCandidate st"
    "intFromState M ''last_runtime_prepared_revision'' x = stLastPrepared st" for x
    by (rule read_stored_int; use d in \<open>simp only: f\<close>)+
  have times: "timeFromState M ''last_runtime_transition_at'' = stLastTransitionAt st"
    "timeFromState M ''last_validation_at'' = stLastValidationAt st"
    by (rule read_stored_time; use d in \<open>simp only: f\<close>)+
  have ev: "runtimeEventsFromState (idx M ''runtime_events'') = stEvents st"
    using runtimeEvents_restore [of "stEvents st"] d by (simp only: f)
  show c: "restored_config_path M dir = stConfigPath st" "restored_metadata_path M dir = stMetadataPath st"
    using d by (auto simp: restored_config_path_def restored_metadata_path_def strs2)
  show "restored_revision M = Some (stActiveRevision st)"
    unfolding restored_revision_def using read_stored_number [of M "''active_revision''" "stActiveRevision st"] d by (simp add: f)
  have n: "normalizeRuntimeProcessMode (stProcessMode st) = stProcessMode st" using d by (intro normalize_fixed) auto
  show "restored_status M dir (stActiveRevision st) st0 = restart_of st0 st"
    by (simp add: restored_status_def restart_of_def Let_def strs strs2 ints times ev c n)
qed

end
