(* ===== verification/Delivery.thy ===== *)
theory Delivery
  imports ConfigProps AgentRestore
begin

text \<open>
  The way of a revision from the panel to the agent: the panel signs the hash of the payload it rendered, stores the
  payload as jsonb, reads it back and sends it as JSON; the agent decodes it and checks it.  The main lemma is that
  the agent accepts what the panel signed, when JSON carries the payload without loss.
\<close>

section \<open>Rendered payloads and JSON\<close>

definition small_opt :: "int option \<Rightarrow> bool" where
  "small_opt l = (case l of None \<Rightarrow> True | Some n \<Rightarrow> small_int n)"

definition sub_safe :: "SubscriptionInput \<Rightarrow> bool" where
  "sub_safe i \<longleftrightarrow> list_all utf8_valid [siSubscriptionID i, siUserID i, siPlanID i, siUserStatus i, siSubscriptionStatus i,
       siPreferredRegion i, siPlanName i, siStartsAt i, siExpiresAt i]
     \<and> small_int (siDeviceLimit i) \<and> small_opt (siTrafficLimitBytes i)"

definition settings_safe :: "GlobalSettingsInput option \<Rightarrow> bool" where
  "settings_safe gs = (case gs of None \<Rightarrow> True | Some g \<Rightarrow> utf8_valid (gsLogLevel g) \<and> list_all utf8_valid (gsDNSServers g))"

definition warp_safe :: "WarpInput option \<Rightarrow> bool" where
  "warp_safe wi = (case wi of None \<Rightarrow> True
     | Some w \<Rightarrow> list_all utf8_valid [wiPrivateKey w, wiPublicKey w, wiAddress w, wiEndpoint w])"

definition reality_safe :: "RealityConfig \<Rightarrow> bool" where
  "reality_safe r \<longleftrightarrow> small_int (rcPort r) \<and> list_all utf8_valid [rcSNI r, rcDest r, rcShortID r, rcPrivateKey r]"

text \<open>Texts are valid UTF-8, as PostgreSQL keeps them, and integers stay within the 53 bits of a float64.\<close>

definition input_safe :: "RenderInput \<Rightarrow> RealityConfig \<Rightarrow> bool" where
  "input_safe input reality \<longleftrightarrow>
     list_all utf8_valid [riNodeID input, riHostname input, riRegion input, riCountryCode input]
     \<and> small_int (riRevisionNumber input) \<and> small_int (riRollbackTarget input)
     \<and> list_all sub_safe (riSubscriptionInputs input)
     \<and> list_all (\<lambda>r. utf8_valid (rrTarget r)) (riRoutingRules input)
     \<and> settings_safe (riGlobalSettings input) \<and> warp_safe (riWarpCredentials input)
     \<and> reality_safe (WithDefaults reality)"

lemma utf8_literal: "ascii s \<Longrightarrow> utf8_valid s"
  by (rule utf8_valid_ascii)

lemma utf8_valid_Nil [simp]: "utf8_valid []"
  by (simp add: utf8_valid_ascii)

lemma limit_value_safe: "small_opt l \<Longrightarrow> json_safe (limit_value l)"
  by (simp add: limit_value_def small_opt_def small_int_def split: option.splits)

lemma summary_safe: "list_all sub_safe subs \<Longrightarrow> json_safe (AArr (renderSubscriptionSummary subs))"
  by (induction subs) (simp_all add: renderSubscriptionSummary_def sub_safe_def small_int_def utf8_literal limit_value_safe)

lemma access_safe: "sub_safe i \<Longrightarrow> json_safe (AObj (access_obj (BuildAccessEntry i)))"
  by (simp add: access_obj_def BuildAccessEntry_def sub_safe_def small_int_def utf8_literal limit_value_safe
      DefaultVLESSFlow_def utf8_valid_ascii_append [of "''subscription:''", simplified])

lemma entries_safe: "list_all sub_safe subs \<Longrightarrow> json_safe (AArr (renderAccessEntries subs))"
  by (induction subs) (auto simp: renderAccessEntries_def access_safe simp del: json_safe.simps(5))

lemma clients_safe: "list_all sub_safe subs \<Longrightarrow> json_safe (AArr (renderClients (renderAccessEntries subs)))"
  unfolding renderClients_entries
  by (induction subs) (simp_all add: client_of_def sub_safe_def utf8_literal DefaultVLESSFlow_def
      utf8_valid_ascii_append [of "''subscription:''", simplified])

lemma matcher_safe:
  assumes "rule_matcher r = Some (k, v)" and "utf8_valid (rrTarget r)"
  shows "utf8_valid k \<and> json_safe v"
proof -
  have "utf8_valid (''geosite:'' @ rrTarget r)" "utf8_valid (''geoip:'' @ rrTarget r)"
    by (rule utf8_valid_ascii_append; use assms in simp)+
  then have "json_safe v" using assms by (auto simp: rule_matcher_def Let_def utf8_literal split: if_splits)
  moreover have "k \<in> {''domain'', ''ip'', ''port'', ''protocol''}"
    using assms by (simp add: rule_matcher_def Let_def split: if_split_asm)
  ultimately show ?thesis by (auto simp: utf8_literal)
qed

lemma custom_rules_safe:
  "list_all (\<lambda>r. utf8_valid (rrTarget r)) rs \<Longrightarrow> json_safe (AArr (renderCustomRoutingRules rs DefaultVLESSInbound))"
proof (induction rs)
  case (Cons r rs)
  show ?case
  proof (cases "rule_matcher r")
    case (Some m)
    obtain k v where m: "m = (k, v)" by fastforce
    have "utf8_valid (actionToOutbound a)" for a by (simp add: actionToOutbound_def utf8_literal)
    moreover have "json_safe (AArr (renderCustomRoutingRules rs DefaultVLESSInbound))" using Cons by simp
    ultimately show ?thesis
      using Some m matcher_safe [of r k v] Cons.prems by (simp add: utf8_literal DefaultVLESSInbound_def)
  qed (use Cons in simp)
qed simp

lemma outbounds_safe: "warp_safe (riWarpCredentials input) \<Longrightarrow> json_safe (AArr (render_outbounds input))"
  by (cases "riWarpCredentials input")
    (auto simp: render_outbounds_def warp_safe_def utf8_literal DefaultVLESSOutbound_def)

lemma dns_safe: "settings_safe gs \<Longrightarrow> json_safe (AObj (render_dns gs))"
  by (auto simp: render_dns_def settings_safe_def utf8_literal list_all_iff split: option.split)

lemma log_safe: "settings_safe gs \<Longrightarrow> utf8_valid (render_log_level gs)"
  by (auto simp: render_log_level_def settings_safe_def utf8_literal or_default_def split: option.split)

lemma policy_safe: "json_safe (AObj render_policy)"
  by (simp add: render_policy_def utf8_literal)

lemma inbound_safe:
  "reality_safe r \<Longrightarrow> json_safe (AArr cs) \<Longrightarrow> json_safe (AObj (render_inbound r cs sn))"
  by (simp add: render_inbound_def render_reality_def reality_safe_def small_int_def utf8_literal DefaultVLESSInbound_def)

lemma config_safe:
  assumes "input_safe input reality" and "list_all sub_safe subs"
  shows "json_safe (AObj (render_config input (WithDefaults reality) (renderAccessEntries subs)))"
proof -
  note i = assms(1) [unfolded input_safe_def]
  have r: "json_safe (AArr (render_rules input))"
    using custom_rules_safe [of "riRoutingRules input"] i
    by (simp add: render_rules_def utf8_literal DefaultVLESSInbound_def DefaultVLESSOutbound_def ball_Un)
  have "json_safe (AObj (render_inbound (WithDefaults reality) (renderClients (renderAccessEntries subs)) (render_sniffing (riGlobalSettings input))))"
    using inbound_safe clients_safe [OF assms(2)] i by blast
  moreover have "json_safe (AObj (render_dns (riGlobalSettings input)))" using dns_safe i by blast
  ultimately show ?thesis
    using r outbounds_safe [of input] log_safe [of "riGlobalSettings input"] policy_safe i
    by (simp add: render_config_def utf8_literal ball_Un)
qed

lemma config_text_safe:
  "utf8_valid n \<Longrightarrow> ascii t \<Longrightarrow> utf8_valid (''lenker xray vless reality skeleton node='' @ n @ t)"
  by (intro utf8_valid_append) (simp_all only: utf8_literal, simp add: utf8_literal)

lemma render_payload_safe:
  assumes "input_safe input reality"
  shows "json_safe (AObj (RenderVLESSRealityPayloadWithReality input reality))"
proof -
  note i = assms [unfolded input_safe_def list.pred_inject]
  let ?subs = "sortedSubscriptionInputs (riSubscriptionInputs input)"
  have s: "list_all sub_safe ?subs" using i by (simp add: sorted_inputs_list_all)
  have t: "utf8_valid (''lenker xray vless reality skeleton node='' @ riNodeID input @ '' revision=''
             @ itoa (riRevisionNumber input) @ '' protocol='' @ ProtocolVLESS @ '' subscriptions='' @ itoa (int (length ?subs)))"
    by (rule config_text_safe) (use i in \<open>simp_all add: ProtocolVLESS_def\<close>)
  show ?thesis
    unfolding RenderVLESSRealityPayloadWithReality_def Let_def json_safe.simps(5) list.set ball_simps prod.case
    using i s t config_safe [OF assms s] summary_safe [OF s] entries_safe [OF s]
    by (simp add: utf8_literal render_consts small_int_def del: json_safe.simps(5) append.simps) (simp add: utf8_literal)
qed

section \<open>Acceptance\<close>

definition payload_shape :: "obj \<Rightarrow> bool" where
  "payload_shape p \<longleftrightarrow> as_obj (idx p ''node'') \<noteq> None \<and> as_obj (idx p ''transport'') \<noteq> None
     \<and> as_arr (idx p ''subscription_inputs'') \<noteq> None \<and> as_arr (idx p ''access_entries'') \<noteq> None"

definition agent_payload :: "obj \<Rightarrow> bool" where
  "agent_payload p \<longleftrightarrow> payload_conforms p \<and> payload_shape p \<and> obj_with agent_config (idx p ''config'')"

lemma validateRenderedConfigPayload_iff:
  assumes "crBundle rv = Some p"
  shows "validateRenderedConfigPayload rv = Inr () \<longleftrightarrow>
     list_all (\<lambda>(k, v). idx p k = AStr v) required_strings \<and> numberAsInt (idx p ''revision_number'') = Some (crRevisionNumber rv)
     \<and> payload_shape p \<and> obj_with agent_config (idx p ''config'')
     \<and> (idx p ''operation_kind'' = AStr ''deploy'' \<or> idx p ''operation_kind'' = AStr ''rollback'')"
proof -
  have x: "(case ValidateXrayConfigArtifact (Some c) of Inl e \<Rightarrow> Inl (AErrInvalidXrayConfig e) | Inr u \<Rightarrow> Inr ()) = Inr ()
      \<longleftrightarrow> agent_config c" for c
    using ValidateXrayConfigArtifact_ok [of c] by (cases "ValidateXrayConfigArtifact (Some c)") auto
  show ?thesis
    by (auto simp: x validateRenderedConfigPayload_def assms payload_shape_def obj_with_def as_str_Some list_all_iff
        required_strings_def split: option.splits)
qed

text \<open>The revision as the agent decodes it, for a payload the panel signed before storing it.\<close>

definition delivered :: "string \<Rightarrow> string \<Rightarrow> int \<Rightarrow> int \<Rightarrow> obj \<Rightarrow> ConfigRevision" where
  "delivered rid node n rollback p =
     (let b = \<lparr> bdNodeID = node, bdRevisionNumber = n, bdStatus = ''pending'', bdBundleHash = HashPayload (Some p), bdSignature = [],
                bdSigner = DefaultSigner, bdRollbackTarget = rollback, bdPayload = Some p \<rparr>
      in \<lparr> crID = rid, crNodeID = node, crRevisionNumber = n, crStatus = ''pending'', crBundleHash = HashPayload (Some p),
           crSignature = Sign NewDevSigner b, crSigner = DefaultSigner, crRollbackTarget = rollback,
           crBundle = Some (through_json_obj (through_json_obj p)), crCreatedAt = 0, crAppliedAt = 0 \<rparr>)"

lemma agent_config_tj:
  assumes "json_safe (AObj c)"
  shows "agent_config (through_json_obj c) = agent_config c"
proof -
  have f: "obj_with (\<lambda>r. strs_with (\<lambda>ts. ts \<noteq> []) (idx r ''inboundTag'')) (through_json x)
      = obj_with (\<lambda>r. strs_with (\<lambda>ts. ts \<noteq> []) (idx r ''inboundTag'')) x" if "json_safe x" for x
    using that by (intro obj_with_tj) (simp_all add: tj_fields strs_with_def del: json_safe.simps)
  have g: "arr_with (list_all (obj_with (\<lambda>r. strs_with (\<lambda>ts. ts \<noteq> []) (idx r ''inboundTag'')))) (through_json x)
      = arr_with (list_all (obj_with (\<lambda>r. strs_with (\<lambda>ts. ts \<noteq> []) (idx r ''inboundTag'')))) x" if "json_safe x" for x
    using that f by (intro arr_with_tj list_all_tj)
  have "obj_with (\<lambda>r. arr_with (list_all (obj_with (\<lambda>r. strs_with (\<lambda>ts. ts \<noteq> []) (idx r ''inboundTag'')))) (idx r ''rules''))
        (through_json (idx c ''routing'')) =
      obj_with (\<lambda>r. arr_with (list_all (obj_with (\<lambda>r. strs_with (\<lambda>ts. ts \<noteq> []) (idx r ''inboundTag'')))) (idx r ''rules''))
        (idx c ''routing'')"
    using assms g by (intro obj_with_tj json_safe_idx) (simp_all add: idx_tj json_safe_idx del: json_safe.simps)
  then show ?thesis
    using assms config_conforms_tj [OF assms, of "\<lambda>r. False"] by (simp add: agent_config_def idx_tj del: json_safe.simps)
qed

lemma as_obj_tj_none: "as_obj (through_json v) = None \<longleftrightarrow> as_obj v = None"
  by (cases v) auto

lemma as_arr_tj_none: "as_arr (through_json v) = None \<longleftrightarrow> as_arr v = None"
  by (cases v) auto

lemma obj_agent_config_tj: "json_safe v \<Longrightarrow> obj_with agent_config (through_json v) = obj_with agent_config v"
  by (rule obj_with_tj) (simp_all add: agent_config_tj)

lemma agent_accepts_delivered:
  assumes safe: "json_safe (AObj p)" and pay: "agent_payload p" and num: "idx p ''revision_number'' = AInt n"
    and ident: "idNodeID ident = node" and node: "node \<noteq> []" and n: "0 < n"
  shows "revision_checks ident (delivered rid node n rollback p) = Inr ()"
proof -
  let ?rv = "delivered rid node n rollback p" and ?q = "through_json_obj (through_json_obj p)"
  have q: "idx ?q k = through_json (idx p k)" for k
    using safe through_json_obj_safe [OF safe] through_json_idem [OF json_safe_idx [OF safe]]
    by (simp add: idx_tj json_safe_idx del: json_safe.simps)
  have qs: "json_safe (AObj ?q)" using safe by (intro through_json_obj_safe)
  have same_text: "payload_text (Some ?q) = payload_text (Some p)"
    unfolding payload_text_def option.case using safe through_json_obj_safe [OF safe]
    by (simp only: through_json_obj_text)
  have h: "verifyConfigBundleHash ?rv = Inr ()"
    using same_text by (simp add: verifyConfigBundleHash_def delivered_def Let_def HashPayload_def)
  have s: "verifyConfigSignature ?rv = Inr ()"
    by (simp add: verifyConfigSignature_def delivered_def Let_def Sign_def signingPayload_def configSigningPayload_def
        NewDevSigner_def defaultKey_def devConfigBundleKey_def)
  have i: "json_safe (idx p k)" for k using safe by (rule json_safe_idx)
  have small: "\<bar>n\<bar> \<le> 2 ^ 53" using i [of "''revision_number''"] num by simp
  have v: "validateRenderedConfigPayload ?rv = Inr ()"
  proof -
    have b: "crBundle ?rv = Some ?q" "crRevisionNumber ?rv = n" by (simp_all add: delivered_def Let_def)
    have c: "idx p ''schema_version'' = AStr SchemaVersion" "idx p ''generated_by'' = AStr GeneratedBy"
      "idx p ''protocol'' = AStr ProtocolVLESS" "idx p ''core_type'' = AStr CoreTypeXray" "idx p ''config_kind'' = AStr ConfigKind"
      "idx p ''operation_kind'' = AStr OperationDeploy \<or> idx p ''operation_kind'' = AStr OperationRollback"
      using pay by (auto simp: agent_payload_def payload_conforms_def)
    have "list_all (\<lambda>(k, v). idx ?q k = AStr v) required_strings"
      by (simp add: required_strings_def q c render_consts utf8_coerce_ascii del: utf8_coerce.simps)
    moreover have "numberAsInt (idx ?q ''revision_number'') = Some n"
      using q num small number_tj [OF i [of "''revision_number''"]] by simp
    moreover have "payload_shape ?q" using pay by (simp add: agent_payload_def payload_shape_def q as_obj_tj_none as_arr_tj_none)
    moreover have "obj_with agent_config (idx ?q ''config'')" using pay q obj_agent_config_tj [OF i] by (simp add: agent_payload_def)
    moreover have "idx ?q ''operation_kind'' = AStr ''deploy'' \<or> idx ?q ''operation_kind'' = AStr ''rollback''"
      using c(6) by (auto simp: q render_consts utf8_coerce_ascii simp del: utf8_coerce.simps)
    ultimately show ?thesis by (simp add: validateRenderedConfigPayload_iff [OF b(1)] b(2))
  qed
  have len: "crBundleHash ?rv \<noteq> []" "crSignature ?rv \<noteq> []"
  proof -
    have "length (crBundleHash ?rv) = 64" "length (crSignature ?rv) = 64"
      by (simp_all add: delivered_def Let_def HashPayload_length Sign_def hmac256_def)
    then show "crBundleHash ?rv \<noteq> []" "crSignature ?rv \<noteq> []" by fastforce+
  qed
  have f: "crNodeID ?rv = node" "crRevisionNumber ?rv = n" "crSigner ?rv = DevConfigBundleSigner"
    by (simp_all add: delivered_def Let_def DefaultSigner_def DevConfigBundleSigner_def)
  show ?thesis
    using len f node n ident h s v by (simp add: revision_checks_def DevConfigBundleSigner_def)
qed

lemma rendered_agent_payload:
  assumes "renderable input reality"
  shows "agent_payload (RenderVLESSRealityPayloadWithReality input reality)"
proof -
  let ?p = "RenderVLESSRealityPayloadWithReality input reality"
  let ?c = "render_config input (WithDefaults reality) (renderAccessEntries (sortedSubscriptionInputs (riSubscriptionInputs input)))"
  have pc: "payload_conforms ?p" using assms render_payload_conforms by blast
  moreover have "payload_shape ?p"
    by (simp add: payload_shape_def RenderVLESSRealityPayloadWithReality_def Let_def)
  moreover have "obj_with agent_config (idx ?p ''config'')"
  proof -
    have "is_ok (ValidateVLESSRealityConfig (Some ?c))" using pc by (simp add: payload_conforms_def render_payload_paths)
    moreover have "config_conforms (\<lambda>p. True) (\<lambda>r. \<not> has_key r ''inboundTag'') ?c"
      using calculation by (simp add: panel_config_def config_conforms_known)
    then have "config_conforms (\<lambda>p. True) (\<lambda>r. False) ?c" using config_conforms_tagged [OF render_protocols_tagged(2)] by simp
    then show ?thesis using render_protocols_tagged(2) [of input]
      by (simp add: agent_config_def rules_tagged_def render_payload_paths)
  qed
  ultimately show ?thesis by (simp add: agent_payload_def)
qed

end
