(* ===== verification/NodesStore.thy ===== *)
theory NodesStore
  imports PanelDb Delivery
begin

text \<open>
  \<open>services/panel-api/internal/storage/nodes.go\<close>: the node repository.  Normalisation of what agents report, node
  registration with one-time bootstrap tokens, heartbeats, the lifecycle transitions, and the revisions of a node's
  configuration: created, rolled back, fetched and reported.
\<close>

type_synonym PanelRuntimeEvent = RuntimeEvent

section \<open>Normalisation\<close>

definition runtimeEventsLimit :: nat where "runtimeEventsLimit = 20"

definition isValidNodeStatus :: "string \<Rightarrow> bool" where
  "isValidNodeStatus s \<longleftrightarrow> TrimSpace s \<in> {''pending'', ''active'', ''unhealthy'', ''drained'', ''disabled''}"

definition normalizeValidationStatus :: "string \<Rightarrow> string" where
  "normalizeValidationStatus s = (let v = TrimSpace s in if v = ''applied'' then ''applied'' else if v = ''failed'' then ''failed'' else [])"

definition normalizeRuntimeMode :: "string \<Rightarrow> string" where
  "normalizeRuntimeMode s = (let v = TrimSpace s in
     if v = ''dry-run-only'' then ''dry-run-only''
     else if v = ''future-process-managed'' then ''future-process-managed''
     else if v = ''local-process-managed'' then ''local-process-managed''
     else ''no-process'')"

definition panel_normalizeRuntimeProcessMode :: "string \<Rightarrow> string" where
  "panel_normalizeRuntimeProcessMode s = (if TrimSpace s = ''local'' then ''local'' else ''disabled'')"

definition normalizeRuntimeProcessState :: "string \<Rightarrow> string" where
  "normalizeRuntimeProcessState s = (let v = TrimSpace s in
     if v = ''ready'' then ''ready'' else if v = ''failed'' then ''failed'' else if v = ''running'' then ''running''
     else if v = ''stopped'' then ''stopped'' else if v = ''restarting'' then ''restarting'' else ''disabled'')"

definition normalizeRuntimeEventType :: "string \<Rightarrow> string" where
  "normalizeRuntimeEventType s = (let v = TrimSpace s in
     if v \<in> {''apply_success'', ''apply_failure'', ''validation_failure'', ''dry_run_failure'', ''process_prepare_start_intent'',
             ''runtime_state_restore'', ''runtime_state_restore_degraded''} then v else ''runtime_event'')"

definition normalizeRuntimeEventStatus :: "string \<Rightarrow> string" where
  "normalizeRuntimeEventStatus s = (let v = TrimSpace s in
     if v = ''applied'' then ''applied'' else if v = ''failed'' then ''failed'' else if v = ''ready'' then ''ready''
     else if v = ''restored'' then ''restored'' else [])"

definition compactRuntimeEventMessage :: "string \<Rightarrow> string" where
  "compactRuntimeEventMessage s = (let m = TrimSpace s in if length m > 240 then TrimSpace (take 240 m) else m)"

definition normalizeRuntimeDesiredState :: "string \<Rightarrow> string" where
  "normalizeRuntimeDesiredState s = (if TrimSpace s = [] then ''validated-config-ready'' else TrimSpace s)"

definition normalizeRuntimeState :: "string \<Rightarrow> string" where
  "normalizeRuntimeState s = (let v = TrimSpace s in
     if v = ''active_config_ready'' then ''active_config_ready'' else if v = ''validation_failed'' then ''validation_failed''
     else if v = ''prepare_failed'' then ''prepare_failed'' else ''not_prepared'')"

definition normalizeDryRunStatus :: "string \<Rightarrow> string" where
  "normalizeDryRunStatus s = (let v = TrimSpace s in
     if v = ''passed'' then ''passed'' else if v = ''failed'' then ''failed'' else ''not_configured'')"

definition normalizeRuntimeAttempt :: "string \<Rightarrow> string" where
  "normalizeRuntimeAttempt s = (let v = TrimSpace s in
     if v = ''ready'' then ''ready'' else if v = ''failed'' then ''failed'' else ''skipped'')"

definition nullableTime :: "instant \<Rightarrow> instant option" where
  "nullableTime t = (if t = 0 then None else Some (pg_time t))"

definition normalize_event :: "instant \<Rightarrow> PanelRuntimeEvent \<Rightarrow> PanelRuntimeEvent" where
  "normalize_event now e = \<lparr> reType = normalizeRuntimeEventType (reType e), reStatus = normalizeRuntimeEventStatus (reStatus e),
     reRevision = max 0 (reRevision e), reMessage = compactRuntimeEventMessage (reMessage e),
     reMode = normalizeRuntimeMode (reMode e), reProcessMode = panel_normalizeRuntimeProcessMode (reProcessMode e),
     reProcessState = normalizeRuntimeProcessState (reProcessState e), reAt = (if reAt e = 0 then now else reAt e) \<rparr>"

definition normalizeRuntimeEvents :: "instant \<Rightarrow> PanelRuntimeEvent list \<Rightarrow> PanelRuntimeEvent list" where
  "normalizeRuntimeEvents now events = map (normalize_event now) (last_n runtimeEventsLimit events)"

text \<open>
  The events as the \<open>jsonb\<close> column holds them: \<open>json.Marshal\<close> fails on a year outside 0 to 9999 (then \<open>[]\<close> is stored),
  and a message cut inside a character gets the replacement character.
\<close>

definition json_year :: "instant \<Rightarrow> bool" where
  "json_year t \<longleftrightarrow> - (366 * day) \<le> t \<and> t < max_instant"

definition runtimeEventsJSON :: "instant \<Rightarrow> PanelRuntimeEvent list \<Rightarrow> PanelRuntimeEvent list" where
  "runtimeEventsJSON now events = (let ns = normalizeRuntimeEvents now events in
     if list_all (\<lambda>e. json_year (reAt e)) ns then map (\<lambda>e. e\<lparr> reMessage := utf8_coerce (reMessage e) \<rparr>) ns else [])"

section \<open>Scanning rows\<close>

definition scanNode :: "panel_world \<Rightarrow> node_row \<Rightarrow> Node" where
  "scanNode w r = (Node.truncate r)\<lparr> ndEvents := normalizeRuntimeEvents (pwNow w) (ndEvents r) \<rparr>"

record StoredRevision =
  svrID :: uuid
  svrNodeID :: uuid
  svrNumber :: int
  svrHash :: string
  svrSignature :: string
  svrSigner :: string
  svrStatus :: string
  svrRollbackTarget :: int
  svrBundle :: "obj option"
  svrCreatedAt :: instant
  svrAppliedAt :: "instant option"
  svrFailedAt :: "instant option"
  svrRolledBackAt :: "instant option"
  svrErrorMessage :: string

definition scanConfigRevision :: "revision_row \<Rightarrow> StoredRevision" where
  "scanConfigRevision r = \<lparr> svrID = cvID r, svrNodeID = cvNodeID r, svrNumber = cvNumber r, svrHash = cvHash r,
     svrSignature = cvSignature r, svrSigner = cvSigner r, svrStatus = cvStatus r,
     svrRollbackTarget = (case cvRollbackTarget r of None \<Rightarrow> 0 | Some n \<Rightarrow> n),
     svrBundle = Some (through_json_obj (cvPayload r)), svrCreatedAt = cvCreatedAt r, svrAppliedAt = cvAppliedAt r,
     svrFailedAt = cvFailedAt r, svrRolledBackAt = cvRolledBackAt r,
     svrErrorMessage = (case cvErrorMessage r of None \<Rightarrow> [] | Some m \<Rightarrow> m) \<rparr>"

section \<open>Statements\<close>

definition node_by_id :: "uuid \<Rightarrow> db \<Rightarrow> node_row option" where
  "node_by_id u d = row_with ndID u (dbNodes d)"

definition put_nodes :: "node_row list \<Rightarrow> node_row list \<Rightarrow> db \<Rightarrow> storage_error + db" where
  "put_nodes changed rows d =
     bindE (constraints (list_all node_ints_ok changed) (list_all node_row_ok changed)
              (distinct (map ndID rows) \<and> distinct (List.map_filter nrAuthHash rows)) True)
       (\<lambda>_. Inr (d\<lparr> dbNodes := rows \<rparr>))"

text \<open>\<open>UPDATE nodes SET f WHERE P RETURNING \<dots>\<close>: the changed rows and the database after it.\<close>

definition update_nodes :: "(node_row \<Rightarrow> bool) \<Rightarrow> (node_row \<Rightarrow> node_row) \<Rightarrow> db \<Rightarrow> storage_error + (node_row list \<times> db)" where
  "update_nodes P f d = (let changed = map f (filter P (dbNodes d)) in
     bindE (put_nodes changed (upd_where P f (dbNodes d)) d) (\<lambda>d'. Inr (changed, d')))"

definition put_tokens :: "token_row list \<Rightarrow> db \<Rightarrow> storage_error + db" where
  "put_tokens rows d =
     bindE (constraints True (list_all token_row_ok rows) (distinct (map btID rows) \<and> distinct (map btHash rows))
              (list_all (\<lambda>t. btNodeID t \<in> ndID ` set (dbNodes d)
                  \<and> (case btCreatedBy t of None \<Rightarrow> True | Some a \<Rightarrow> a \<in> adID ` set (dbAdmins d))) rows))
       (\<lambda>_. Inr (d\<lparr> dbTokens := rows \<rparr>))"

definition put_revisions :: "revision_row list \<Rightarrow> db \<Rightarrow> storage_error + db" where
  "put_revisions rows d =
     bindE (constraints (list_all (\<lambda>v. int4 (cvNumber v)) rows) (list_all revision_row_ok rows)
              (distinct (map cvID rows) \<and> distinct (map (\<lambda>v. (cvNodeID v, cvNumber v)) rows))
              (list_all (\<lambda>v. cvNodeID v \<in> ndID ` set (dbNodes d)
                  \<and> (case cvCreatedBy v of None \<Rightarrow> True | Some a \<Rightarrow> a \<in> adID ` set (dbAdmins d))) rows))
       (\<lambda>_. Inr (d\<lparr> dbRevisions := rows \<rparr>))"

text \<open>The optional administrator of an insertion: an empty identifier is NULL.\<close>

definition admin_param :: "string \<Rightarrow> storage_error + uuid option" where
  "admin_param s = (if s = [] then Inr None else bindE (uuid_param s) (\<lambda>u. Inr (Some u)))"

section \<open>Reading nodes\<close>

definition List_nodes :: "panel_world \<Rightarrow> db \<Rightarrow> storage_error + Node list" where
  "List_nodes w d = bindE (stmt w ''select nodes'')
     (\<lambda>_. Inr (map (scanNode w) (sort_key (\<lambda>n. - nrCreatedAt n) (dbNodes d))))"

definition FindByID_node :: "panel_world \<Rightarrow> string \<Rightarrow> db \<Rightarrow> storage_error + Node" where
  "FindByID_node w i d = bindE (stmt w ''select node'') (\<lambda>_. bindE (uuid_param i) (\<lambda>u.
     bindE (one_row ErrNotFound (node_by_id u d)) (\<lambda>r. Inr (scanNode w r))))"

section \<open>Tokens\<close>

definition newBootstrapToken :: "panel_world \<Rightarrow> storage_error + string" where
  "newBootstrapToken w = bindE (one_row ErrRandom (pwRand w)) (\<lambda>raw. Inr (''lnkbt_'' @ hex_encode raw))"

definition newNodeToken :: "panel_world \<Rightarrow> storage_error + string" where
  "newNodeToken w = bindE (one_row ErrRandom (pwRand w)) (\<lambda>raw. Inr (hex_encode raw))"

definition hashString :: "string \<Rightarrow> string" where "hashString s = hex_encode (sha256 s)"
definition HashBootstrapToken :: "string \<Rightarrow> string" where "HashBootstrapToken s = hashString s"
definition HashNodeToken :: "string \<Rightarrow> string" where "HashNodeToken s = hashString s"

record CreateBootstrapTokenInput =
  cbName :: string
  cbRegion :: string
  cbCountryCode :: string
  cbHostname :: string
  cbExpiresAt :: instant
  cbCreatedBy :: string

record BootstrapToken =
  bkID :: uuid
  bkNodeID :: uuid
  bkToken :: string
  bkExpiresAt :: instant
  bkCreatedAt :: instant

definition fresh_node :: "panel_world \<Rightarrow> CreateBootstrapTokenInput \<Rightarrow> node_row" where
  "fresh_node w i = \<lparr> ndID = pwID w ''nodes'', ndName = cbName i, ndRegion = cbRegion i, ndCountryCode = cbCountryCode i,
     ndHostname = cbHostname i, ndStatus = ''pending'', ndDrainState = ''active'', ndAgentVersion = [], ndXrayVersion = [],
     ndActiveRevision = 0, ndRuntimeMode = ''no-process'', ndProcessMode = ''disabled'', ndProcessState = ''disabled'',
     ndDesiredState = ''validated-config-ready'', ndRuntimeState = ''not_prepared'', ndXrayPID = 0,
     ndLastDryRun = ''not_configured'', ndLastAttempt = ''skipped'', ndLastPrepared = 0, ndLastRuntimeAt = None,
     ndLastRuntimeError = [], ndLastValidation = [], ndLastValidationError = [], ndLastValidationAt = None, ndLastApplied = 0,
     ndActiveConfigPath = [], ndEvents = [], ndLastHealthAt = None, ndLastSeenAt = None, ndRegisteredAt = None,
     ndUpdatedAt = pwPgNow w, nrAuthHash = None, nrCreatedAt = pwPgNow w \<rparr>"

definition fresh_token :: "panel_world \<Rightarrow> CreateBootstrapTokenInput \<Rightarrow> uuid \<Rightarrow> string \<Rightarrow> uuid option \<Rightarrow> token_row" where
  "fresh_token w i u token admin = \<lparr> btID = pwID w ''node_bootstrap_tokens'', btNodeID = u, btHash = HashBootstrapToken token,
     btStatus = ''active'', btExpiresAt = pg_time (cbExpiresAt i), btUsedAt = None, btCreatedBy = admin, btCreatedAt = pwPgNow w \<rparr>"

definition CreateBootstrapToken ::
    "panel_world \<Rightarrow> CreateBootstrapTokenInput \<Rightarrow> db \<Rightarrow> (storage_error + BootstrapToken) \<times> db" where
  "CreateBootstrapToken w i d = (case newBootstrapToken w of
     Inl e \<Rightarrow> (Inl e, d)
   | Inr token \<Rightarrow> in_tx w (\<lambda>d0.
       bindE (stmt w ''insert nodes'') (\<lambda>_. let node = fresh_node w i in
       bindE (put_nodes [node] (dbNodes d0 @ [node]) d0) (\<lambda>d1.
       bindE (stmt w ''insert node_bootstrap_tokens'') (\<lambda>_.
       bindE (admin_param (cbCreatedBy i)) (\<lambda>admin.
       let row = fresh_token w i (ndID node) token admin in
       bindE (put_tokens (dbTokens d1 @ [row]) d1) (\<lambda>d2.
       Inr (\<lparr> bkID = btID row, bkNodeID = btNodeID row, bkToken = token, bkExpiresAt = btExpiresAt row,
              bkCreatedAt = btCreatedAt row \<rparr>, d2))))))) d)"

section \<open>Registration\<close>

record RegisterNodeInput =
  rnNodeID :: string
  rnBootstrapToken :: string
  rnAgentVersion :: string
  rnHostname :: string

text \<open>The guards on the token, in their order.\<close>

definition token_guard :: "panel_world \<Rightarrow> RegisterNodeInput \<Rightarrow> token_row \<Rightarrow> storage_error + unit" where
  "token_guard w i t =
     (if btStatus t = ''used'' \<or> btUsedAt t \<noteq> None then Inl ErrBootstrapTokenUsed
      else if btStatus t \<noteq> ''active'' then Inl ErrInvalidBootstrapToken
      else if \<not> pwNow w < btExpiresAt t then Inl ErrExpiredBootstrapToken
      else if rnNodeID i \<noteq> [] \<and> rnNodeID i \<noteq> btNodeID t then Inl ErrInvalidBootstrapToken
      else Inr ())"

definition register_node_row :: "panel_world \<Rightarrow> RegisterNodeInput \<Rightarrow> string \<Rightarrow> node_row \<Rightarrow> node_row" where
  "register_node_row w i token n = (let now = pg_time (pwNow w) in
     n\<lparr> ndHostname := (if rnHostname i = [] then ndHostname n else rnHostname i), ndAgentVersion := rnAgentVersion i,
        nrAuthHash := Some (HashNodeToken token), ndStatus := ''active'',
        ndRegisteredAt := (case ndRegisteredAt n of None \<Rightarrow> Some now | Some t \<Rightarrow> Some t),
        ndLastSeenAt := Some now, ndLastHealthAt := Some now, ndUpdatedAt := now \<rparr>)"

definition Register_body :: "panel_world \<Rightarrow> RegisterNodeInput \<Rightarrow> string \<Rightarrow> db \<Rightarrow> storage_error + ((Node \<times> string) \<times> db)" where
  "Register_body w i token d0 =
     bindE (stmt w ''select node_bootstrap_tokens'') (\<lambda>_.
     bindE (one_row ErrInvalidBootstrapToken (row_with btHash (HashBootstrapToken (rnBootstrapToken i)) (dbTokens d0))) (\<lambda>t.
     bindE (token_guard w i t) (\<lambda>_.
     bindE (stmt w ''update nodes'') (\<lambda>_.
     bindE (update_nodes (\<lambda>n. ndID n = btNodeID t \<and> ndStatus n \<in> {''pending'', ''active'', ''unhealthy'', ''drained''})
              (register_node_row w i token) d0) (\<lambda>(changed, d1).
     bindE (one_row ErrInvalidBootstrapToken (first_row changed)) (\<lambda>n.
     bindE (stmt w ''update node_bootstrap_tokens'') (\<lambda>_.
     bindE (put_tokens (upd_where (\<lambda>r. btID r = btID t)
              (\<lambda>r. r\<lparr> btStatus := ''used'', btUsedAt := Some (pg_time (pwNow w)) \<rparr>) (dbTokens d1)) d1) (\<lambda>d2.
     bindE (stmt w ''insert node_registrations'') (\<lambda>_.
     Inr ((scanNode w n, token),
          d2\<lparr> dbRegistrations := dbRegistrations d2 @ [\<lparr> rgNodeID = ndID n, rgHash = HashBootstrapToken (rnBootstrapToken i),
                rgStatus = ''completed'', rgAt = pwPgNow w \<rparr>] \<rparr>))))))))))"

definition Register :: "panel_world \<Rightarrow> RegisterNodeInput \<Rightarrow> db \<Rightarrow> (storage_error + (Node \<times> string)) \<times> db" where
  "Register w i d = (case newNodeToken w of
     Inl e \<Rightarrow> (Inl e, d)
   | Inr token \<Rightarrow> in_tx w (Register_body w i token) d)"

end
