(* ===== verification/NodesLifecycle.thy ===== *)
theory NodesLifecycle
  imports NodesStore
begin

text \<open>
  \<open>services/panel-api/internal/storage/nodes.go\<close>, continued: heartbeats and the lifecycle of a node, drained and
  undrained, disabled and enabled by an administrator.
\<close>

section \<open>Heartbeats\<close>

record HeartbeatInput =
  hbNodeID :: string
  hbNodeToken :: string
  hbAgentVersion :: string
  hbStatus :: string
  hbActiveRevision :: int
  hbMetadataPresent :: bool
  hbRuntimeMode :: string
  hbProcessMode :: string
  hbProcessState :: string
  hbDesiredState :: string
  hbRuntimeState :: string
  hbXrayPID :: int
  hbLastDryRun :: string
  hbLastAttempt :: string
  hbLastPrepared :: int
  hbLastRuntimeAt :: instant
  hbLastRuntimeError :: string
  hbLastValidation :: string
  hbLastValidationError :: string
  hbLastValidationAt :: instant
  hbLastApplied :: int
  hbActiveConfigPath :: string
  hbEvents :: "RuntimeEvent list"
  hbSentAt :: instant

text \<open>The columns set when the heartbeat carries runtime metadata.\<close>

definition heartbeat_metadata :: "panel_world \<Rightarrow> HeartbeatInput \<Rightarrow> node_row \<Rightarrow> node_row" where
  "heartbeat_metadata w i n = n\<lparr> ndRuntimeMode := normalizeRuntimeMode (hbRuntimeMode i),
     ndProcessMode := panel_normalizeRuntimeProcessMode (hbProcessMode i),
     ndProcessState := normalizeRuntimeProcessState (hbProcessState i),
     ndDesiredState := normalizeRuntimeDesiredState (hbDesiredState i),
     ndRuntimeState := normalizeRuntimeState (hbRuntimeState i), ndXrayPID := hbXrayPID i,
     ndLastDryRun := normalizeDryRunStatus (hbLastDryRun i), ndLastAttempt := normalizeRuntimeAttempt (hbLastAttempt i),
     ndLastPrepared := hbLastPrepared i, ndLastRuntimeAt := nullableTime (hbLastRuntimeAt i),
     ndLastRuntimeError := TrimSpace (hbLastRuntimeError i), ndLastValidation := normalizeValidationStatus (hbLastValidation i),
     ndLastValidationError := TrimSpace (hbLastValidationError i), ndLastValidationAt := nullableTime (hbLastValidationAt i),
     ndLastApplied := hbLastApplied i, ndActiveConfigPath := TrimSpace (hbActiveConfigPath i),
     ndEvents := runtimeEventsJSON (pwNow w) (hbEvents i) \<rparr>"

definition heartbeat_row :: "panel_world \<Rightarrow> HeartbeatInput \<Rightarrow> node_row \<Rightarrow> node_row" where
  "heartbeat_row w i n =
     (let n1 = (if hbMetadataPresent i then heartbeat_metadata w i n else n) in
      n1\<lparr> ndStatus := (if ndDrainState n = ''drained'' then ''drained'' else hbStatus i), ndAgentVersion := hbAgentVersion i,
          ndActiveRevision := hbActiveRevision i, ndLastHealthAt := Some (pg_time (hbSentAt i)),
          ndLastSeenAt := Some (pg_time (hbSentAt i)), ndUpdatedAt := pwPgNow w \<rparr>)"

text \<open>The condition under which a request of an agent reaches its node.\<close>

definition node_auth :: "uuid \<Rightarrow> string \<Rightarrow> node_row \<Rightarrow> bool" where
  "node_auth u token n \<longleftrightarrow> ndID n = u \<and> nrAuthHash n = Some (HashNodeToken token) \<and> ndRegisteredAt n \<noteq> None
     \<and> ndStatus n \<noteq> ''disabled''"

definition RecordHeartbeat :: "panel_world \<Rightarrow> HeartbeatInput \<Rightarrow> db \<Rightarrow> (storage_error + Node) \<times> db" where
  "RecordHeartbeat w i d = (if \<not> isValidNodeStatus (hbStatus i) then (Inl ErrInvalidNodeStatus, d) else
     alone (\<lambda>d0. bindE (stmt w ''update nodes'') (\<lambda>_. bindE (uuid_param (hbNodeID i)) (\<lambda>u.
       bindE (update_nodes (node_auth u (hbNodeToken i)) (heartbeat_row w i) d0) (\<lambda>(changed, d1).
       bindE (one_row ErrNotFound (first_row changed)) (\<lambda>n. Inr (scanNode w n, d1)))))) d)"

section \<open>Lifecycle transitions\<close>

record nodeTransition =
  ntStatus :: string
  ntDrainState :: string

text \<open>The update of the row: an empty field of the decision keeps the value that was read.\<close>

definition transition_row :: "panel_world \<Rightarrow> nodeTransition \<Rightarrow> Node \<Rightarrow> node_row \<Rightarrow> node_row" where
  "transition_row w next node n =
     n\<lparr> ndStatus := (if ntStatus next = [] then ndStatus node else ntStatus next),
        ndDrainState := (if ntDrainState next = [] then ndDrainState node else ntDrainState next), ndUpdatedAt := pwPgNow w \<rparr>"

definition transition ::
    "panel_world \<Rightarrow> string \<Rightarrow> (Node \<Rightarrow> storage_error + nodeTransition) \<Rightarrow> db \<Rightarrow> (storage_error + Node) \<times> db" where
  "transition w i decide d = in_tx w (\<lambda>d0.
     bindE (stmt w ''select node'') (\<lambda>_. bindE (uuid_param i) (\<lambda>u.
     bindE (one_row ErrNotFound (node_by_id u d0)) (\<lambda>r. let node = scanNode w r in
     bindE (decide node) (\<lambda>next.
     bindE (stmt w ''update nodes'') (\<lambda>_.
     bindE (update_nodes (\<lambda>n. ndID n = u) (transition_row w next node) d0) (\<lambda>(changed, d1).
     bindE (one_row ErrNoRows (first_row changed)) (\<lambda>n. Inr (scanNode w n, d1))))))))) d"

definition decide_drain :: "Node \<Rightarrow> storage_error + nodeTransition" where
  "decide_drain n = (if ndStatus n = ''disabled'' then Inl ErrInvalidNodeTransition
     else if ndDrainState n = ''draining'' then Inl ErrInvalidNodeTransition
     else Inr \<lparr> ntStatus = [], ntDrainState = ''draining'' \<rparr>)"

definition decide_undrain :: "Node \<Rightarrow> storage_error + nodeTransition" where
  "decide_undrain n = (if ndStatus n = ''disabled'' then Inl ErrInvalidNodeTransition
     else if ndDrainState n = ''active'' then Inl ErrInvalidNodeTransition
     else Inr \<lparr> ntStatus = [], ntDrainState = ''active'' \<rparr>)"

definition decide_disable :: "Node \<Rightarrow> storage_error + nodeTransition" where
  "decide_disable n = (if ndStatus n = ''disabled'' then Inl ErrInvalidNodeTransition
     else Inr \<lparr> ntStatus = ''disabled'', ntDrainState = [] \<rparr>)"

definition decide_enable :: "Node \<Rightarrow> storage_error + nodeTransition" where
  "decide_enable n = (if ndStatus n \<noteq> ''disabled'' then Inl ErrInvalidNodeTransition
     else Inr \<lparr> ntStatus = ''unhealthy'', ntDrainState = [] \<rparr>)"

definition Drain :: "panel_world \<Rightarrow> string \<Rightarrow> db \<Rightarrow> (storage_error + Node) \<times> db" where
  "Drain w i d = transition w i decide_drain d"

definition Undrain :: "panel_world \<Rightarrow> string \<Rightarrow> db \<Rightarrow> (storage_error + Node) \<times> db" where
  "Undrain w i d = transition w i decide_undrain d"

definition Disable :: "panel_world \<Rightarrow> string \<Rightarrow> db \<Rightarrow> (storage_error + Node) \<times> db" where
  "Disable w i d = transition w i decide_disable d"

definition Enable :: "panel_world \<Rightarrow> string \<Rightarrow> db \<Rightarrow> (storage_error + Node) \<times> db" where
  "Enable w i d = transition w i decide_enable d"

end
