(* ===== verification/NodesRevisions.thy ===== *)
theory NodesRevisions
  imports NodesLifecycle
begin

text \<open>
  \<open>services/panel-api/internal/storage/nodes.go\<close>, continued: the revisions of a node's configuration, numbered per
  node, rendered, checked, hashed and signed when they are created, and reported on once by the agent.
\<close>

record CreateDummyConfigRevisionInput =
  cdNodeID :: string
  cdCreatedBy :: string

record CreateRollbackConfigRevisionInput =
  crbNodeID :: string
  crbRevisionID :: string
  crbCreatedBy :: string

section \<open>The inputs of a configuration\<close>

definition subscription_input :: "subscription_row \<Rightarrow> user_row \<Rightarrow> plan_row \<Rightarrow> SubscriptionInput" where
  "subscription_input s u p = \<lparr> siSubscriptionID = suID s, siUserID = suUserID s, siPlanID = suPlanID s, siUserStatus = urStatus u,
     siSubscriptionStatus = suStatus s, siPreferredRegion = (case suRegion s of None \<Rightarrow> [] | Some r \<Rightarrow> r), siPlanName = plName p,
     siDeviceLimit = suDeviceLimit s, siTrafficLimitBytes = suTrafficLimit s, siStartsAt = RFC3339 (suStartsAt s),
     siExpiresAt = RFC3339 (suExpiresAt s) \<rparr>"

definition wants_region :: "string \<Rightarrow> subscription_row \<Rightarrow> bool" where
  "wants_region region s \<longleftrightarrow> (case suRegion s of None \<Rightarrow> True | Some r \<Rightarrow> r = [] \<or> r = region)"

definition listConfigSubscriptionInputs :: "panel_world \<Rightarrow> string \<Rightarrow> db \<Rightarrow> storage_error + SubscriptionInput list" where
  "listConfigSubscriptionInputs w region d = bindE (stmt w ''select subscriptions'') (\<lambda>_.
     Inr (sort_key siSubscriptionID (List.map_filter (\<lambda>s.
       case (row_with urID (suUserID s) (dbUsers d), row_with plID (suPlanID s) (dbPlans d)) of
         (Some u, Some p) \<Rightarrow> if suStatus s = ''active'' \<and> urStatus u = ''active'' \<and> pwPgNow w < suExpiresAt s \<and> wants_region region s
                             then Some (subscription_input s u p) else None
       | _ \<Rightarrow> None) (dbSubscriptions d))))"

section \<open>Creating a revision\<close>

definition node_open :: "node_row \<Rightarrow> bool" where
  "node_open n \<longleftrightarrow> \<not> (ndStatus n = ''disabled'' \<or> ndDrainState n \<noteq> ''active'')"

text \<open>\<open>SELECT COALESCE(MAX(revision_number), 0) + 1\<close> over the revisions of the node.\<close>

definition next_revision :: "panel_world \<Rightarrow> uuid \<Rightarrow> db \<Rightarrow> storage_error + int" where
  "next_revision w u d = bindE (stmt w ''select max revision_number'') (\<lambda>_.
     let n = foldr (\<lambda>v m. max (cvNumber v) m) (filter (\<lambda>v. cvNodeID v = u) (dbRevisions d)) 0 + 1
     in if int4 n then Inr n else Inl (ErrPg PgIntegerRange))"

text \<open>The lines both functions share: check, hash and sign the payload, insert the row, read it back.\<close>

definition store_revision ::
    "panel_world \<Rightarrow> string \<Rightarrow> uuid \<Rightarrow> int \<Rightarrow> int \<Rightarrow> obj \<Rightarrow> string \<Rightarrow> db \<Rightarrow> storage_error + (StoredRevision \<times> db)" where
  "store_revision w nodeText u number current payload admin d0 =
     (case ValidateVLESSRealityPayload (Some payload) of
        Inl e \<Rightarrow> Inl (ErrRenderedConfig (xray_reason e))
      | Inr _ \<Rightarrow>
       (let hash = HashPayload (Some payload);
            bundle = \<lparr> bdNodeID = nodeText, bdRevisionNumber = number, bdStatus = ''pending'', bdBundleHash = hash, bdSignature = [],
                       bdSigner = DefaultSigner, bdRollbackTarget = current, bdPayload = Some payload \<rparr>;
            signature = Sign NewDevSigner bundle in
        bindE (admin_param admin) (\<lambda>createdBy. bindE (stmt w ''insert config_revisions'') (\<lambda>_.
        let row = \<lparr> cvID = pwID w ''config_revisions'', cvNodeID = u, cvNumber = number, cvHash = hash, cvSignature = signature,
                    cvSigner = DefaultSigner, cvStatus = ''pending'', cvRollbackTarget = Some current, cvPayload = payload,
                    cvCreatedBy = createdBy, cvCreatedAt = pwPgNow w, cvAppliedAt = None, cvFailedAt = None,
                    cvRolledBackAt = None, cvErrorMessage = None \<rparr> in
        bindE (put_revisions (dbRevisions d0 @ [row]) d0) (\<lambda>d1. Inr (scanConfigRevision row, d1))))))"

definition deploy_input :: "string \<Rightarrow> int \<Rightarrow> node_row \<Rightarrow> SubscriptionInput list \<Rightarrow> RenderInput" where
  "deploy_input nodeText number n subs = \<lparr> riNodeID = nodeText, riRevisionNumber = number, riHostname = ndHostname n,
     riRegion = ndRegion n, riCountryCode = ndCountryCode n, riSubscriptionInputs = subs, riRoutingRules = [],
     riGlobalSettings = None, riWarpCredentials = None, riRollbackTarget = ndActiveRevision n \<rparr>"

definition CreateDummyConfigRevision ::
    "panel_world \<Rightarrow> RealityConfig \<Rightarrow> CreateDummyConfigRevisionInput \<Rightarrow> db \<Rightarrow> (storage_error + StoredRevision) \<times> db" where
  "CreateDummyConfigRevision w reality i d = in_tx w (\<lambda>d0.
     bindE (stmt w ''select node'') (\<lambda>_. bindE (uuid_param (cdNodeID i)) (\<lambda>u.
     bindE (one_row ErrNotFound (node_by_id u d0)) (\<lambda>n.
     bindE (ensure (node_open n) ErrInvalidNodeTransition) (\<lambda>_.
     bindE (next_revision w u d0) (\<lambda>number.
     bindE (stmt w ''select hostname'') (\<lambda>_.
     bindE (listConfigSubscriptionInputs w (ndRegion n) d0) (\<lambda>subs.
     store_revision w (cdNodeID i) u number (ndActiveRevision n)
       (RenderVLESSRealityPayloadWithReality (deploy_input (cdNodeID i) number n subs) reality) (cdCreatedBy i) d0)))))))) d"

definition CreateRollbackConfigRevision ::
    "panel_world \<Rightarrow> CreateRollbackConfigRevisionInput \<Rightarrow> db \<Rightarrow> (storage_error + StoredRevision) \<times> db" where
  "CreateRollbackConfigRevision w i d = in_tx w (\<lambda>d0.
     bindE (stmt w ''select node'') (\<lambda>_. bindE (uuid_param (crbNodeID i)) (\<lambda>u.
     bindE (one_row ErrNotFound (node_by_id u d0)) (\<lambda>n.
     bindE (ensure (node_open n) ErrInvalidNodeTransition) (\<lambda>_.
     bindE (stmt w ''select config_revision'') (\<lambda>_. bindE (uuid_param (crbRevisionID i)) (\<lambda>rid.
     bindE (one_row ErrNotFound (List.find (\<lambda>v. cvNodeID v = u \<and> cvID v = rid) (dbRevisions d0))) (\<lambda>row.
     let target = scanConfigRevision row in
     bindE (ensure (svrStatus target = ''applied'') ErrInvalidNodeTransition) (\<lambda>_.
     bindE (next_revision w u d0) (\<lambda>number.
     bindE (or_panic (RenderRollbackPayload (svrBundle target) \<lparr> rbRevisionNumber = number, rbRollbackTarget = ndActiveRevision n,
            rbSourceRevisionID = svrID target, rbSourceRevisionNumber = svrNumber target \<rparr>)) (\<lambda>payload.
     store_revision w (crbNodeID i) u number (ndActiveRevision n) payload (crbCreatedBy i) d0))))))))))) d"

section \<open>Reading revisions\<close>

definition ListConfigRevisions :: "panel_world \<Rightarrow> string \<Rightarrow> db \<Rightarrow> storage_error + StoredRevision list" where
  "ListConfigRevisions w i d = bindE (FindByID_node w i d) (\<lambda>_. bindE (stmt w ''select config_revisions'') (\<lambda>_.
     bindE (uuid_param i) (\<lambda>u.
     Inr (map scanConfigRevision (sort_key (\<lambda>v. - cvNumber v) (filter (\<lambda>v. cvNodeID v = u) (dbRevisions d)))))))"

definition FindConfigRevision :: "panel_world \<Rightarrow> string \<Rightarrow> string \<Rightarrow> db \<Rightarrow> storage_error + StoredRevision" where
  "FindConfigRevision w i rev_id d = bindE (stmt w ''select config_revision'') (\<lambda>_. bindE (uuid_param i) (\<lambda>u.
     bindE (uuid_param rev_id) (\<lambda>rid.
     bindE (one_row ErrNotFound (List.find (\<lambda>v. cvNodeID v = u \<and> cvID v = rid) (dbRevisions d))) (\<lambda>row. Inr (scanConfigRevision row)))))"

definition pending_for :: "uuid \<Rightarrow> string \<Rightarrow> db \<Rightarrow> revision_row list" where
  "pending_for u token d = filter (\<lambda>v. cvNodeID v = u \<and> list_ex (node_auth u token) (dbNodes d) \<and> cvStatus v = ''pending'') (dbRevisions d)"

definition FindLatestPendingConfigRevision :: "panel_world \<Rightarrow> string \<Rightarrow> string \<Rightarrow> db \<Rightarrow> storage_error + StoredRevision" where
  "FindLatestPendingConfigRevision w i token d = bindE (stmt w ''select config_revision'') (\<lambda>_. bindE (uuid_param i) (\<lambda>u.
     bindE (one_row ErrNotFound (first_row (sort_key (\<lambda>v. - cvNumber v) (pending_for u token d))))
       (\<lambda>row. Inr (scanConfigRevision row))))"

section \<open>Reporting on a revision\<close>

record ReportConfigRevisionInput =
  roNodeID :: string
  roNodeToken :: string
  roRevisionID :: string
  roStatus :: string
  roAppliedAt :: instant
  roFailedAt :: instant
  roErrorMessage :: string
  roMetadataPresent :: bool
  roRuntimeMode :: string
  roProcessMode :: string
  roProcessState :: string
  roDesiredState :: string
  roRuntimeState :: string
  roLastDryRun :: string
  roLastAttempt :: string
  roLastPrepared :: int
  roLastRuntimeAt :: instant
  roLastRuntimeError :: string
  roLastValidation :: string
  roLastValidationError :: string
  roLastValidationAt :: instant
  roLastApplied :: int
  roActiveConfigPath :: string
  roEvents :: "RuntimeEvent list"
  roSentAt :: instant

definition reportedAt :: "panel_world \<Rightarrow> ReportConfigRevisionInput \<Rightarrow> instant" where
  "reportedAt w i = (let t0 = (if roStatus i = ''applied'' then roAppliedAt i else roFailedAt i);
       t1 = (if t0 = 0 then roSentAt i else t0)
     in if t1 = 0 then pwNow w else t1)"

definition report_validation_status :: "ReportConfigRevisionInput \<Rightarrow> string" where
  "report_validation_status i = (let s = normalizeValidationStatus (roLastValidation i) in if s = [] then roStatus i else s)"

definition report_validation_error :: "ReportConfigRevisionInput \<Rightarrow> string" where
  "report_validation_error i = (let e = TrimSpace (roLastValidationError i) in
     if e = [] \<and> roStatus i = ''failed'' then TrimSpace (roErrorMessage i) else e)"

definition or_time :: "instant \<Rightarrow> instant \<Rightarrow> instant" where
  "or_time t fallback = (if t = 0 then fallback else t)"

text \<open>The revision row of a report, and the two updates of its node.\<close>

definition reported_revision :: "panel_world \<Rightarrow> ReportConfigRevisionInput \<Rightarrow> revision_row \<Rightarrow> revision_row" where
  "reported_revision w i v = (let at_time = pg_time (reportedAt w i) in
     if roStatus i = ''applied''
     then v\<lparr> cvStatus := ''applied'', cvAppliedAt := Some at_time, cvFailedAt := None, cvErrorMessage := None \<rparr>
     else v\<lparr> cvStatus := ''failed'', cvFailedAt := Some at_time,
             cvErrorMessage := (if roErrorMessage i = [] then None else Some (roErrorMessage i)) \<rparr>)"

definition report_runtime :: "panel_world \<Rightarrow> ReportConfigRevisionInput \<Rightarrow> node_row \<Rightarrow> node_row" where
  "report_runtime w i n = (let validated = pg_time (or_time (roLastValidationAt i) (reportedAt w i)) in
     n\<lparr> ndRuntimeMode := normalizeRuntimeMode (roRuntimeMode i), ndProcessMode := panel_normalizeRuntimeProcessMode (roProcessMode i),
        ndProcessState := normalizeRuntimeProcessState (roProcessState i),
        ndDesiredState := normalizeRuntimeDesiredState (roDesiredState i), ndRuntimeState := normalizeRuntimeState (roRuntimeState i),
        ndLastDryRun := normalizeDryRunStatus (roLastDryRun i), ndLastAttempt := normalizeRuntimeAttempt (roLastAttempt i),
        ndLastRuntimeAt := Some (pg_time (or_time (roLastRuntimeAt i) (reportedAt w i))),
        ndLastRuntimeError := TrimSpace (roLastRuntimeError i), ndLastValidation := report_validation_status i,
        ndLastValidationAt := Some validated, ndEvents := runtimeEventsJSON (pwNow w) (roEvents i), ndUpdatedAt := validated \<rparr>)"

definition report_applied :: "panel_world \<Rightarrow> ReportConfigRevisionInput \<Rightarrow> int \<Rightarrow> node_row \<Rightarrow> node_row" where
  "report_applied w i number n = (report_runtime w i n)\<lparr> ndActiveRevision := number, ndLastPrepared := roLastPrepared i,
     ndLastValidationError := [], ndLastApplied := (if roLastApplied i \<le> 0 then number else roLastApplied i),
     ndActiveConfigPath := TrimSpace (roActiveConfigPath i) \<rparr>"

definition report_failed :: "panel_world \<Rightarrow> ReportConfigRevisionInput \<Rightarrow> node_row \<Rightarrow> node_row" where
  "report_failed w i n = (let path = TrimSpace (roActiveConfigPath i) in
     (report_runtime w i n)\<lparr> ndLastPrepared := (if 0 < roLastPrepared i then roLastPrepared i else ndLastPrepared n),
       ndLastValidationError := report_validation_error i,
       ndLastApplied := (if 0 < roLastApplied i then roLastApplied i else ndLastApplied n),
       ndActiveConfigPath := (if path \<noteq> [] then path else ndActiveConfigPath n) \<rparr>)"

definition report_node :: "panel_world \<Rightarrow> ReportConfigRevisionInput \<Rightarrow> int \<Rightarrow> node_row \<Rightarrow> node_row" where
  "report_node w i number n = (if roStatus i = ''applied'' then report_applied w i number n else report_failed w i n)"

definition Report_body :: "panel_world \<Rightarrow> ReportConfigRevisionInput \<Rightarrow> db \<Rightarrow> storage_error + (StoredRevision \<times> db)" where
  "Report_body w i d0 =
     bindE (stmt w ''update config_revisions'') (\<lambda>_. bindE (uuid_param (roNodeID i)) (\<lambda>u. bindE (uuid_param (roRevisionID i)) (\<lambda>rid.
     let hit = (\<lambda>v. v \<in> set (pending_for u (roNodeToken i) d0) \<and> cvID v = rid) in
     bindE (put_revisions (upd_where hit (reported_revision w i) (dbRevisions d0)) d0) (\<lambda>d1.
     bindE (one_row ErrNotFound (map_option (reported_revision w i) (List.find hit (dbRevisions d0)))) (\<lambda>row.
     let revision = scanConfigRevision row in
     bindE (stmt w ''update nodes'') (\<lambda>_.
     bindE (update_nodes (node_auth u (roNodeToken i)) (report_node w i (svrNumber revision)) d1) (\<lambda>(changed, d2).
     Inr (revision, d2))))))))"

definition ReportConfigRevision ::
    "panel_world \<Rightarrow> ReportConfigRevisionInput \<Rightarrow> db \<Rightarrow> (storage_error + StoredRevision) \<times> db" where
  "ReportConfigRevision w i d = (if roStatus i \<noteq> ''applied'' \<and> roStatus i \<noteq> ''failed'' then (Inl ErrInvalidNodeTransition, d)
     else in_tx w (Report_body w i) d)"

end
