(* ===== verification/HttpApi.thy ===== *)
theory HttpApi
  imports NodesRevisions
begin

text \<open>
  What the handlers of the panel share: \<open>services/panel-api/internal/http/response.go\<close>, the decoding of request bodies
  (\<open>encoding/json\<close> into a struct), the bearer token, and the events given to \<open>audit.Recorder\<close>, whose failure the
  handlers ignore.
\<close>

section \<open>Responses\<close>

datatype response_body = BData any | BError string string

record response =
  rsStatus :: nat
  rsBody :: response_body

definition WriteJSON :: "nat \<Rightarrow> any \<Rightarrow> response" where
  "WriteJSON status v = \<lparr> rsStatus = status, rsBody = BData v \<rparr>"

definition WriteError :: "nat \<Rightarrow> string \<Rightarrow> string \<Rightarrow> response" where
  "WriteError status code message = \<lparr> rsStatus = status, rsBody = BError code message \<rparr>"

definition WriteBadRequest :: "string \<Rightarrow> response" where
  "WriteBadRequest message = WriteError 400 ''bad_request'' message"

definition WriteNotFound :: "string \<Rightarrow> response" where
  "WriteNotFound resource = WriteError 404 ''not_found'' (resource @ '' not found'')"

definition WriteStorageError :: response where
  "WriteStorageError = WriteError 500 ''storage_error'' ''storage operation failed''"

definition WriteUnauthorized :: response where
  "WriteUnauthorized = WriteError 401 ''unauthorized'' ''admin session is missing or invalid''"

section \<open>Requests\<close>

text \<open>
  The path values, the authorization header, the administrator that the session middleware put into the context (the
  empty identifier when there is none), the \<open>X-Forwarded-For\<close> header, the peer's address, the agent, and the body: a JSON value, or no value when the
  text is no JSON.  Integers of the text are \<open>AInt\<close>, other numbers \<open>AFloat\<close>.
\<close>

record http_request =
  hqPath :: "(string \<times> string) list"
  hqQuery :: "(string \<times> string) list"
  hqAuthorization :: string
  hqAdmin :: string
  hqForwarded :: string
  hqRemote :: string
  hqUserAgent :: string
  hqBody :: "any option"

definition path_value :: "string \<Rightarrow> http_request \<Rightarrow> string" where
  "path_value k r = (case map_of (hqPath r) k of None \<Rightarrow> [] | Some v \<Rightarrow> v)"

definition query_value :: "string \<Rightarrow> http_request \<Rightarrow> string" where
  "query_value k r = (case map_of (hqQuery r) k of None \<Rightarrow> [] | Some v \<Rightarrow> v)"

definition bearerToken :: "string \<Rightarrow> string option" where
  "bearerToken header = (if \<not> has_prefix header ''Bearer '' then None
     else let token = TrimSpace (trim_prefix header ''Bearer '') in if token = [] then None else Some token)"

section \<open>Decoding a body into a struct\<close>

text \<open>A struct field takes the members whose key matches its name without regard to case, the last one last.\<close>

definition members :: "obj \<Rightarrow> string \<Rightarrow> any list" where
  "members m k = map snd (filter (\<lambda>(k', v). map to_lower_char k' = map to_lower_char k) m)"

text \<open>A null leaves a field as it is; a value of another type fails the whole decoding.\<close>

definition dec :: "(any \<Rightarrow> 'a option) \<Rightarrow> 'a \<Rightarrow> obj \<Rightarrow> string \<Rightarrow> 'a option" where
  "dec f zero m k = foldl (\<lambda>acc v. if v = ANil then acc else (case acc of None \<Rightarrow> None | Some _ \<Rightarrow> f v)) (Some zero) (members m k)"

text \<open>A pointer field: null sets it to nil.\<close>

definition dec_ptr :: "(any \<Rightarrow> 'a option) \<Rightarrow> obj \<Rightarrow> string \<Rightarrow> 'a option option" where
  "dec_ptr f m k = foldl (\<lambda>acc v. case acc of None \<Rightarrow> None | Some _ \<Rightarrow> if v = ANil then Some None else map_option Some (f v))
     (Some None) (members m k)"

fun int_of_any :: "any \<Rightarrow> int option" where
  "int_of_any (AInt n) = (if int8 n then Some n else None)"
| "int_of_any _ = None"

fun time_of_any :: "any \<Rightarrow> instant option" where
  "time_of_any (AStr s) = ParseRFC3339 s"
| "time_of_any _ = None"

definition dec_str :: "obj \<Rightarrow> string \<Rightarrow> string option" where "dec_str = dec as_str []"
definition dec_int :: "obj \<Rightarrow> string \<Rightarrow> int option" where "dec_int = dec int_of_any 0"
definition dec_time :: "obj \<Rightarrow> string \<Rightarrow> instant option" where "dec_time = dec time_of_any 0"
definition dec_bool :: "obj \<Rightarrow> string \<Rightarrow> bool option" where "dec_bool = dec as_bool False"

fun all_some :: "'a option list \<Rightarrow> 'a list option" where
  "all_some [] = Some []"
| "all_some (x # xs) = (case x of None \<Rightarrow> None | Some v \<Rightarrow> map_option ((#) v) (all_some xs))"

lemma all_some_iff: "all_some xs = Some ys \<longleftrightarrow> xs = map Some ys"
  by (induction xs arbitrary: ys) (auto split: option.splits)

text \<open>The object of the body: null is an empty struct.\<close>

definition body_obj :: "http_request \<Rightarrow> obj option" where
  "body_obj r = (case hqBody r of None \<Rightarrow> None | Some ANil \<Rightarrow> Some [] | Some v \<Rightarrow> as_obj v)"

fun opt_time :: "instant option \<Rightarrow> any" where
  "opt_time None = ANil"
| "opt_time (Some t) = AStr (RFC3339Nano t)"

section \<open>Audit\<close>

record audit_event =
  avActorType :: string
  avActorID :: string
  avAction :: string
  avResourceType :: string
  avResourceID :: string
  avOutcome :: string
  avReason :: string
  avChanges :: "obj option"

definition OutcomeSuccess :: string where "OutcomeSuccess = ''success''"
definition OutcomeFailure :: string where "OutcomeFailure = ''failure''"

text \<open>A handler answers, leaves a database, and gives events to the recorder.\<close>

type_synonym reply = "response \<times> db \<times> audit_event list"

text \<open>
  \<open>writeNodeError\<close> and its kin compare with \<open>errors.Is\<close>: an error of the renderer wraps the invalid transition.  A
  panic ends the request without an answer (status 0).
\<close>

fun is_transition_error :: "storage_error \<Rightarrow> bool" where
  "is_transition_error ErrInvalidNodeTransition = True"
| "is_transition_error (ErrRenderedConfig r) = True"
| "is_transition_error _ = False"

definition aborted :: response where
  "aborted = \<lparr> rsStatus = 0, rsBody = BError [] [] \<rparr>"

section \<open>Lemmas\<close>

lemma dec_missing [simp]: "members m k = [] \<Longrightarrow> dec f z m k = Some z"
  by (simp add: dec_def)

lemma dec_single: "members m k = [v] \<Longrightarrow> dec f z m k = (if v = ANil then Some z else f v)"
  by (simp add: dec_def)

lemma bearerToken_some: "TrimSpace t = t \<Longrightarrow> t \<noteq> [] \<Longrightarrow> bearerToken (''Bearer '' @ t) = Some t"
  using has_prefix_append [of "''Bearer ''" t] trim_prefix_append [of "''Bearer ''" t] by (simp add: bearerToken_def Let_def)

end
