(* ===== verification/NodesHandler.thy ===== *)
theory NodesHandler
  imports HttpApi
begin

text \<open>
  \<open>services/panel-api/internal/nodes/handler.go\<close>: the HTTP handlers of nodes and their configuration revisions.  Each
  one checks the request, calls the repository, records the outcome and answers.
\<close>

section \<open>Answers\<close>

definition writeNodeError :: "storage_error \<Rightarrow> response" where
  "writeNodeError e = (if e = ErrPanic then aborted
     else if e = ErrNotFound then WriteNotFound ''node''
     else if is_transition_error e then WriteError 400 ''validation_error'' ''invalid node lifecycle transition''
     else WriteStorageError)"

definition errorReason :: "storage_error \<Rightarrow> string" where
  "errorReason e = (if e = ErrNotFound then ''not_found''
     else if is_transition_error e then ''validation_error'' else ''storage_error'')"

definition recordAdmin :: "http_request \<Rightarrow> string \<Rightarrow> string \<Rightarrow> string \<Rightarrow> string \<Rightarrow> audit_event" where
  "recordAdmin r action resource outcome reason = \<lparr> avActorType = ''admin'', avActorID = hqAdmin r, avAction = action,
     avResourceType = ''node'', avResourceID = resource, avOutcome = outcome, avReason = reason, avChanges = None \<rparr>"

definition recordNode :: "string \<Rightarrow> string \<Rightarrow> string \<Rightarrow> string \<Rightarrow> audit_event" where
  "recordNode action resource outcome reason = \<lparr> avActorType = ''node'', avActorID = resource, avAction = action,
     avResourceType = ''node'', avResourceID = resource, avOutcome = outcome, avReason = reason, avChanges = None \<rparr>"

definition nodeSummaryResponse :: "Node \<Rightarrow> obj" where
  "nodeSummaryResponse n = [(''id'', AStr (ndID n)), (''name'', AStr (ndName n)), (''region'', AStr (ndRegion n)),
     (''status'', AStr (ndStatus n)), (''drain_state'', AStr (ndDrainState n)), (''last_seen_at'', opt_time (ndLastSeenAt n)),
     (''registered_at'', opt_time (ndRegisteredAt n)), (''agent_version'', AStr (ndAgentVersion n)),
     (''active_revision_id'', AInt (ndActiveRevision n))]"

text \<open>The runtime columns, which the detail and the heartbeat answer share.\<close>

definition runtime_columns :: "Node \<Rightarrow> obj" where
  "runtime_columns n = [(''runtime_mode'', AStr (ndRuntimeMode n)), (''runtime_process_mode'', AStr (ndProcessMode n)),
     (''runtime_process_state'', AStr (ndProcessState n)), (''runtime_desired_state'', AStr (ndDesiredState n)),
     (''runtime_state'', AStr (ndRuntimeState n)), (''xray_pid'', AInt (ndXrayPID n)),
     (''last_dry_run_status'', AStr (ndLastDryRun n)), (''last_runtime_attempt_status'', AStr (ndLastAttempt n)),
     (''last_runtime_prepared_revision'', AInt (ndLastPrepared n)), (''last_runtime_transition_at'', opt_time (ndLastRuntimeAt n)),
     (''last_runtime_error'', AStr (ndLastRuntimeError n)), (''last_validation_status'', AStr (ndLastValidation n)),
     (''last_validation_error'', AStr (ndLastValidationError n)), (''last_validation_at'', opt_time (ndLastValidationAt n)),
     (''last_applied_revision'', AInt (ndLastApplied n)), (''active_config_path'', AStr (ndActiveConfigPath n)),
     (''runtime_events'', AArr (map event_json (ndEvents n)))]"

definition nodeDetailResponse :: "Node \<Rightarrow> obj" where
  "nodeDetailResponse n = [(''id'', AStr (ndID n)), (''name'', AStr (ndName n)), (''region'', AStr (ndRegion n)),
     (''country_code'', AStr (ndCountryCode n)), (''hostname'', AStr (ndHostname n)), (''status'', AStr (ndStatus n)),
     (''drain_state'', AStr (ndDrainState n)), (''agent_version'', AStr (ndAgentVersion n)),
     (''xray_version'', AStr (ndXrayVersion n)), (''active_revision_id'', AInt (ndActiveRevision n))]
     @ runtime_columns n
     @ [(''last_health_at'', opt_time (ndLastHealthAt n)), (''last_seen_at'', opt_time (ndLastSeenAt n)),
        (''registered_at'', opt_time (ndRegisteredAt n)), (''updated_at'', AStr (RFC3339Nano (ndUpdatedAt n)))]"

definition configRevisionResponse :: "StoredRevision \<Rightarrow> obj" where
  "configRevisionResponse v = [(''id'', AStr (svrID v)), (''node_id'', AStr (svrNodeID v)),
     (''revision_number'', AInt (svrNumber v)), (''status'', AStr (svrStatus v)), (''bundle_hash'', AStr (svrHash v)),
     (''signature'', AStr (svrSignature v)), (''signer'', AStr (svrSigner v)),
     (''rollback_target_revision'', AInt (svrRollbackTarget v)),
     (''bundle'', case svrBundle v of None \<Rightarrow> ANil | Some m \<Rightarrow> AObj m),
     (''created_at'', AStr (RFC3339Nano (svrCreatedAt v))), (''applied_at'', opt_time (svrAppliedAt v)),
     (''failed_at'', opt_time (svrFailedAt v)), (''rolled_back_at'', opt_time (svrRolledBackAt v)),
     (''error_message'', AStr (svrErrorMessage v))]"

definition data_of :: "nat \<Rightarrow> obj \<Rightarrow> response" where
  "data_of status m = WriteJSON status (AObj m)"

section \<open>Administrators\<close>

definition HandleList :: "panel_world \<Rightarrow> http_request \<Rightarrow> db \<Rightarrow> reply" where
  "HandleList w r d = (case List_nodes w d of
     Inl e \<Rightarrow> (WriteStorageError, d, [])
   | Inr ns \<Rightarrow> (WriteJSON 200 (AArr (map (\<lambda>n. AObj (nodeSummaryResponse n)) ns)), d, []))"

definition HandleGet :: "panel_world \<Rightarrow> http_request \<Rightarrow> db \<Rightarrow> reply" where
  "HandleGet w r d = (case FindByID_node w (TrimSpace (path_value ''id'' r)) d of
     Inl e \<Rightarrow> (writeNodeError e, d, [])
   | Inr n \<Rightarrow> (data_of 200 (nodeDetailResponse n), d, []))"

record BootstrapTokenRequest =
  brName :: string
  brRegion :: string
  brCountryCode :: string
  brHostname :: string
  brExpiresInMinutes :: int

definition decode_bootstrap :: "obj \<Rightarrow> BootstrapTokenRequest option" where
  "decode_bootstrap m = (case (dec_str m ''name'', dec_str m ''region'', dec_str m ''country_code'', dec_str m ''hostname'',
       dec_int m ''expires_in_minutes'') of
     (Some n, Some r, Some c, Some h, Some x) \<Rightarrow>
       Some \<lparr> brName = n, brRegion = r, brCountryCode = c, brHostname = h, brExpiresInMinutes = x \<rparr>
   | _ \<Rightarrow> None)"

definition HandleCreateBootstrapToken :: "panel_world \<Rightarrow> http_request \<Rightarrow> db \<Rightarrow> reply" where
  "HandleCreateBootstrapToken w r d = (case Option.bind (body_obj r) decode_bootstrap of
     None \<Rightarrow> (WriteBadRequest ''invalid JSON request body'', d, [])
   | Some q \<Rightarrow>
     (let expiresIn = (if brExpiresInMinutes q = 0 then 30 else brExpiresInMinutes q) in
      if expiresIn < 1 \<or> 10080 < expiresIn
      then (WriteError 400 ''validation_error'' ''expires_in_minutes must be between 1 and 10080'', d, [])
      else (case CreateBootstrapToken w \<lparr> cbName = TrimSpace (brName q), cbRegion = TrimSpace (brRegion q),
               cbCountryCode = map to_upper_char (TrimSpace (brCountryCode q)), cbHostname = TrimSpace (brHostname q),
               cbExpiresAt = pwNow w + expiresIn * minute, cbCreatedBy = hqAdmin r \<rparr> d of
         (Inl e, d') \<Rightarrow> (WriteStorageError, d', [recordAdmin r ''node.bootstrap_token.create'' [] OutcomeFailure ''storage_error''])
       | (Inr t, d') \<Rightarrow> (data_of 201 [(''id'', AStr (bkID t)), (''node_id'', AStr (bkNodeID t)),
             (''bootstrap_token'', AStr (bkToken t)), (''expires_at'', AStr (RFC3339Nano (bkExpiresAt t)))], d',
           [recordAdmin r ''node.bootstrap_token.create'' (bkNodeID t) OutcomeSuccess []]))))"

definition HandleTransition ::
    "string \<Rightarrow> (panel_world \<Rightarrow> string \<Rightarrow> db \<Rightarrow> (storage_error + Node) \<times> db) \<Rightarrow> panel_world \<Rightarrow> http_request \<Rightarrow> db \<Rightarrow> reply" where
  "HandleTransition action fn w r d = (let nodeID = TrimSpace (path_value ''id'' r) in
     if nodeID = [] then (WriteBadRequest ''node id is required'', d, [])
     else (case fn w nodeID d of
       (Inl e, d') \<Rightarrow> (writeNodeError e, d', [recordAdmin r action nodeID OutcomeFailure (errorReason e)])
     | (Inr n, d') \<Rightarrow> (data_of 200 (nodeDetailResponse n), d', [recordAdmin r action (ndID n) OutcomeSuccess []])))"

definition HandleDrain :: "panel_world \<Rightarrow> http_request \<Rightarrow> db \<Rightarrow> reply" where
  "HandleDrain = HandleTransition ''node.drain'' Drain"

definition HandleUndrain :: "panel_world \<Rightarrow> http_request \<Rightarrow> db \<Rightarrow> reply" where
  "HandleUndrain = HandleTransition ''node.undrain'' Undrain"

definition HandleDisable :: "panel_world \<Rightarrow> http_request \<Rightarrow> db \<Rightarrow> reply" where
  "HandleDisable = HandleTransition ''node.disable'' Disable"

definition HandleEnable :: "panel_world \<Rightarrow> http_request \<Rightarrow> db \<Rightarrow> reply" where
  "HandleEnable = HandleTransition ''node.enable'' Enable"

definition HandleCreateConfigRevision :: "RealityConfig \<Rightarrow> panel_world \<Rightarrow> http_request \<Rightarrow> db \<Rightarrow> reply" where
  "HandleCreateConfigRevision reality w r d = (let nodeID = TrimSpace (path_value ''id'' r) in
     if nodeID = [] then (WriteBadRequest ''node id is required'', d, [])
     else (case CreateDummyConfigRevision w reality \<lparr> cdNodeID = nodeID, cdCreatedBy = hqAdmin r \<rparr> d of
       (Inl e, d') \<Rightarrow> (writeNodeError e, d', [recordAdmin r ''node.config_revision.create'' nodeID OutcomeFailure (errorReason e)])
     | (Inr v, d') \<Rightarrow> (data_of 201 (configRevisionResponse v), d', [recordAdmin r ''node.config_revision.create'' nodeID OutcomeSuccess []])))"

definition HandleListConfigRevisions :: "panel_world \<Rightarrow> http_request \<Rightarrow> db \<Rightarrow> reply" where
  "HandleListConfigRevisions w r d = (let nodeID = TrimSpace (path_value ''id'' r) in
     if nodeID = [] then (WriteBadRequest ''node id is required'', d, [])
     else (case ListConfigRevisions w nodeID d of
       Inl e \<Rightarrow> (writeNodeError e, d, [])
     | Inr vs \<Rightarrow> (WriteJSON 200 (AArr (map (\<lambda>v. AObj (configRevisionResponse v)) vs)), d, [])))"

definition HandleGetConfigRevision :: "panel_world \<Rightarrow> http_request \<Rightarrow> db \<Rightarrow> reply" where
  "HandleGetConfigRevision w r d =
     (let nodeID = TrimSpace (path_value ''id'' r); revisionID = TrimSpace (path_value ''revisionId'' r) in
      if nodeID = [] then (WriteBadRequest ''node id is required'', d, [])
      else if revisionID = [] then (WriteBadRequest ''revision id is required'', d, [])
      else (case FindConfigRevision w nodeID revisionID d of
        Inl e \<Rightarrow> (writeNodeError e, d, [])
      | Inr v \<Rightarrow> (data_of 200 (configRevisionResponse v), d, [])))"

definition HandleRollbackConfigRevision :: "panel_world \<Rightarrow> http_request \<Rightarrow> db \<Rightarrow> reply" where
  "HandleRollbackConfigRevision w r d =
     (let nodeID = TrimSpace (path_value ''id'' r); revisionID = TrimSpace (path_value ''revisionId'' r) in
      if nodeID = [] then (WriteBadRequest ''node id is required'', d, [])
      else if revisionID = [] then (WriteBadRequest ''revision id is required'', d, [])
      else (case CreateRollbackConfigRevision w \<lparr> crbNodeID = nodeID, crbRevisionID = revisionID, crbCreatedBy = hqAdmin r \<rparr> d of
        (Inl e, d') \<Rightarrow> (writeNodeError e, d', [recordAdmin r ''node.config_revision.rollback'' nodeID OutcomeFailure (errorReason e)])
      | (Inr v, d') \<Rightarrow> (data_of 201 (configRevisionResponse v), d',
          [recordAdmin r ''node.config_revision.rollback'' nodeID OutcomeSuccess []])))"

end
