(* ===== verification/NodesAgentHandler.thy ===== *)
theory NodesAgentHandler
  imports NodesHandler
begin

text \<open>
  \<open>services/panel-api/internal/nodes/handler.go\<close>, continued: the requests that agents send.  Registration with a
  bootstrap token, heartbeats, the fetch of a pending revision and the report on it.
\<close>

section \<open>Registration\<close>

definition decode_register :: "obj \<Rightarrow> RegisterNodeInput option" where
  "decode_register m = (case (dec_str m ''node_id'', dec_str m ''bootstrap_token'', dec_str m ''agent_version'', dec_str m ''hostname'') of
     (Some n, Some b, Some a, Some h) \<Rightarrow> Some \<lparr> rnNodeID = TrimSpace n, rnBootstrapToken = TrimSpace b,
        rnAgentVersion = TrimSpace a, rnHostname = TrimSpace h \<rparr>
   | _ \<Rightarrow> None)"

text \<open>The answer to a failed registration: status, code, message, and the reason that is recorded.\<close>

definition register_failure :: "storage_error \<Rightarrow> response \<times> string" where
  "register_failure e =
     (if e = ErrInvalidBootstrapToken then (WriteError 401 ''invalid_bootstrap_token'' ''bootstrap token is invalid'', ''invalid_bootstrap_token'')
      else if e = ErrExpiredBootstrapToken then (WriteError 401 ''expired_bootstrap_token'' ''bootstrap token is expired'', ''expired_bootstrap_token'')
      else if e = ErrBootstrapTokenUsed then (WriteError 401 ''bootstrap_token_used'' ''bootstrap token was already used'', ''bootstrap_token_used'')
      else (WriteStorageError, ''internal_error''))"

definition HandleRegister :: "panel_world \<Rightarrow> http_request \<Rightarrow> db \<Rightarrow> reply" where
  "HandleRegister w r d = (case Option.bind (body_obj r) decode_register of
     None \<Rightarrow> (WriteBadRequest ''invalid JSON request body'', d, [])
   | Some i \<Rightarrow>
     if rnBootstrapToken i = [] then (WriteBadRequest ''bootstrap_token is required'', d, [])
     else if rnAgentVersion i = [] then (WriteBadRequest ''agent_version is required'', d, [])
     else (case Register w i d of
       (Inl e, d') \<Rightarrow> (fst (register_failure e), d', [recordNode ''node.register'' (rnNodeID i) OutcomeFailure (snd (register_failure e))])
     | (Inr (n, token), d') \<Rightarrow> (data_of 201 [(''node_id'', AStr (ndID n)), (''node_token'', AStr token), (''status'', AStr (ndStatus n)),
           (''drain_state'', AStr (ndDrainState n)), (''registered_at'', opt_time (ndRegisteredAt n))], d',
         [recordNode ''node.register'' (ndID n) OutcomeSuccess []])))"

section \<open>Decoding of events, heartbeats and reports\<close>

definition decode_event :: "obj \<Rightarrow> RuntimeEvent option" where
  "decode_event m = (case (dec_str m ''type'', dec_str m ''status'', dec_int m ''revision_number'', dec_str m ''message'',
       dec_str m ''runtime_mode'', dec_str m ''runtime_process_mode'', dec_str m ''runtime_process_state'', dec_time m ''at'') of
     (Some t, Some s, Some n, Some g, Some rm, Some pm, Some ps, Some a) \<Rightarrow>
       Some \<lparr> reType = t, reStatus = s, reRevision = n, reMessage = g, reMode = rm, reProcessMode = pm, reProcessState = ps, reAt = a \<rparr>
   | _ \<Rightarrow> None)"

fun event_of_any :: "any \<Rightarrow> RuntimeEvent option" where
  "event_of_any ANil = decode_event []"
| "event_of_any (AObj m) = decode_event m"
| "event_of_any _ = None"

fun events_of_any :: "any \<Rightarrow> RuntimeEvent list option" where
  "events_of_any (AArr vs) = all_some (map event_of_any vs)"
| "events_of_any _ = None"

text \<open>The struct of a heartbeat request has the fields of the agent's payload.\<close>

definition decode_heartbeat :: "obj \<Rightarrow> HeartbeatPayload option" where
  "decode_heartbeat m =
     (case (all_some [dec_str m ''node_id'', dec_str m ''agent_version'', dec_str m ''status'', dec_str m ''runtime_mode'',
              dec_str m ''runtime_process_mode'', dec_str m ''runtime_process_state'', dec_str m ''runtime_desired_state'',
              dec_str m ''runtime_state'', dec_str m ''last_dry_run_status'', dec_str m ''last_runtime_attempt_status'',
              dec_str m ''last_runtime_error'', dec_str m ''last_validation_status'', dec_str m ''last_validation_error'',
              dec_str m ''active_config_path''],
            all_some [dec_int m ''active_revision'', dec_int m ''xray_pid'', dec_int m ''last_runtime_prepared_revision'',
              dec_int m ''last_applied_revision''],
            all_some [dec_time m ''last_runtime_transition_at'', dec_time m ''last_validation_at'', dec_time m ''sent_at''],
            dec events_of_any [] m ''runtime_events'') of
       (Some [nid, av, st, rm, pm, ps, ds, rs, dr, ra, re, lv, lve, ap], Some [ar, pid, lp, la], Some [rt, lvt, sent], Some evs) \<Rightarrow>
         Some \<lparr> hpNodeID = nid, hpAgentVersion = av, hpStatus = st, hpActiveRevision = ar, hpRuntimeMode = rm, hpProcessMode = pm,
           hpProcessState = ps, hpDesiredState = ds, hpRuntimeState = rs, hpXrayPID = pid, hpLastDryRun = dr, hpLastAttempt = ra,
           hpLastPrepared = lp, hpLastRuntimeAt = rt, hpLastRuntimeError = re, hpLastValidation = lv, hpLastValidationError = lve,
           hpLastValidationAt = lvt, hpLastApplied = la, hpActiveConfigPath = ap, hpEvents = evs, hpSentAt = sent \<rparr>
     | _ \<Rightarrow> None)"

text \<open>And the struct of a report request those of the agent's report.\<close>

definition decode_report :: "obj \<Rightarrow> ConfigRevisionReport option" where
  "decode_report m =
     (case (all_some [dec_str m ''status'', dec_str m ''error_message'', dec_str m ''runtime_mode'',
              dec_str m ''runtime_process_mode'', dec_str m ''runtime_process_state'', dec_str m ''runtime_desired_state'',
              dec_str m ''runtime_state'', dec_str m ''last_dry_run_status'', dec_str m ''last_runtime_attempt_status'',
              dec_str m ''last_runtime_error'', dec_str m ''last_validation_status'', dec_str m ''last_validation_error'',
              dec_str m ''active_config_path''],
            all_some [dec_int m ''active_revision'', dec_int m ''last_runtime_prepared_revision'', dec_int m ''last_applied_revision''],
            all_some [dec_time m ''applied_at'', dec_time m ''failed_at'', dec_time m ''last_runtime_transition_at'',
              dec_time m ''last_validation_at'', dec_time m ''sent_at''],
            dec events_of_any [] m ''runtime_events'') of
       (Some [st, em, rm, pm, ps, ds, rs, dr, ra, re, lv, lve, ap], Some [ar, lp, la], Some [aa, fa, rt, lvt, sent], Some evs) \<Rightarrow>
         Some \<lparr> rrStatus = st, rrAppliedAt = aa, rrFailedAt = fa, rrErrorMessage = em, rrActiveRevision = ar, rrRuntimeMode = rm,
           rrProcessMode = pm, rrProcessState = ps, rrDesiredState = ds, rrRuntimeState = rs, rrLastDryRun = dr, rrLastAttempt = ra,
           rrLastPrepared = lp, rrLastRuntimeAt = rt, rrLastRuntimeError = re, rrLastValidation = lv, rrLastValidationError = lve,
           rrLastValidationAt = lvt, rrLastApplied = la, rrActiveConfigPath = ap, rrEvents = evs, rrSentAt = sent \<rparr>
     | _ \<Rightarrow> None)"

section \<open>Heartbeats\<close>

definition validNodeStatus :: "string \<Rightarrow> bool" where
  "validNodeStatus s \<longleftrightarrow> s \<in> {''pending'', ''active'', ''unhealthy'', ''drained'', ''disabled''}"

text \<open>The checks of the runtime fields, shared by heartbeats and reports.\<close>

definition runtime_field_error :: "string \<Rightarrow> string \<Rightarrow> string \<Rightarrow> response option" where
  "runtime_field_error runtimeMode processMode processState =
     (if runtimeMode \<noteq> [] \<and> runtimeMode \<notin> {''no-process'', ''dry-run-only'', ''future-process-managed'', ''local-process-managed''}
      then Some (WriteError 400 ''validation_error'' ''runtime_mode must be no-process, dry-run-only, future-process-managed, or local-process-managed'')
      else if processMode \<noteq> [] \<and> processMode \<notin> {''disabled'', ''local''}
      then Some (WriteError 400 ''validation_error'' ''runtime_process_mode must be disabled or local'')
      else if processState \<noteq> [] \<and> processState \<notin> {''disabled'', ''ready'', ''failed'', ''running'', ''stopped'', ''restarting''}
      then Some (WriteError 400 ''validation_error'' ''runtime_process_state must be disabled, ready, failed, running, stopped, or restarting'')
      else None)"

definition status_message :: string where
  "status_message = ''status must be pending, active, unhealthy, drained, or disabled''"

definition heartbeat_error :: "string \<Rightarrow> HeartbeatPayload \<Rightarrow> response option" where
  "heartbeat_error nodeID q =
     (if nodeID = [] then Some (WriteBadRequest ''node id is required'')
      else if TrimSpace (hpNodeID q) \<noteq> [] \<and> TrimSpace (hpNodeID q) \<noteq> nodeID then Some (WriteBadRequest ''node_id must match path id'')
      else if \<not> validNodeStatus (TrimSpace (hpStatus q)) then Some (WriteError 400 ''validation_error'' status_message)
      else if TrimSpace (hpAgentVersion q) = [] then Some (WriteBadRequest ''agent_version is required'')
      else if TrimSpace (hpLastValidation q) \<notin> {[], ''applied'', ''failed''}
      then Some (WriteError 400 ''validation_error'' ''last_validation_status must be applied or failed'')
      else runtime_field_error (TrimSpace (hpRuntimeMode q)) (TrimSpace (hpProcessMode q)) (TrimSpace (hpProcessState q)))"

definition when_empty :: "string \<Rightarrow> string \<Rightarrow> string" where
  "when_empty s dflt = (if s = [] then dflt else s)"

text \<open>The defaults that a validation status implies.\<close>

definition heartbeat_input :: "panel_world \<Rightarrow> string \<Rightarrow> string \<Rightarrow> HeartbeatPayload \<Rightarrow> HeartbeatInput" where
  "heartbeat_input w nodeID token q =
     (let lv = TrimSpace (hpLastValidation q);
          by_status = (\<lambda>applied failed. if lv = ''applied'' then applied else if lv = ''failed'' then failed else []);
          runtimeState = when_empty (TrimSpace (hpRuntimeState q)) (by_status ''active_config_ready'' ''validation_failed'');
          attempt = when_empty (TrimSpace (hpLastAttempt q)) (by_status ''skipped'' ''failed'');
          runtimeError = (let e = TrimSpace (hpLastRuntimeError q) in
            if e = [] \<and> lv = ''failed'' then TrimSpace (hpLastValidationError q) else e);
          prepared = (if hpLastPrepared q \<le> 0 \<and> lv = ''applied''
            then (if hpLastApplied q \<le> 0 then hpActiveRevision q else hpLastApplied q) else hpLastPrepared q);
          sent = (if hpSentAt q = 0 then pwNow w else hpSentAt q);
          present = (TrimSpace (hpRuntimeMode q) \<noteq> [] \<or> TrimSpace (hpProcessMode q) \<noteq> [] \<or> TrimSpace (hpProcessState q) \<noteq> []
            \<or> TrimSpace (hpDesiredState q) \<noteq> [] \<or> runtimeState \<noteq> [] \<or> 0 < hpXrayPID q \<or> TrimSpace (hpLastDryRun q) \<noteq> []
            \<or> attempt \<noteq> [] \<or> 0 < prepared \<or> hpLastRuntimeAt q \<noteq> 0 \<or> runtimeError \<noteq> [] \<or> lv \<noteq> []
            \<or> TrimSpace (hpLastValidationError q) \<noteq> [] \<or> hpLastValidationAt q \<noteq> 0 \<or> 0 < hpLastApplied q
            \<or> TrimSpace (hpActiveConfigPath q) \<noteq> [] \<or> hpEvents q \<noteq> [])
      in \<lparr> hbNodeID = nodeID, hbNodeToken = token, hbAgentVersion = TrimSpace (hpAgentVersion q), hbStatus = TrimSpace (hpStatus q),
           hbActiveRevision = hpActiveRevision q, hbMetadataPresent = present, hbRuntimeMode = TrimSpace (hpRuntimeMode q),
           hbProcessMode = TrimSpace (hpProcessMode q), hbProcessState = TrimSpace (hpProcessState q),
           hbDesiredState = TrimSpace (hpDesiredState q), hbRuntimeState = runtimeState, hbXrayPID = hpXrayPID q,
           hbLastDryRun = TrimSpace (hpLastDryRun q), hbLastAttempt = attempt, hbLastPrepared = prepared,
           hbLastRuntimeAt = hpLastRuntimeAt q, hbLastRuntimeError = runtimeError, hbLastValidation = lv,
           hbLastValidationError = TrimSpace (hpLastValidationError q), hbLastValidationAt = hpLastValidationAt q,
           hbLastApplied = hpLastApplied q, hbActiveConfigPath = TrimSpace (hpActiveConfigPath q), hbEvents = hpEvents q,
           hbSentAt = sent \<rparr>)"

definition heartbeat_failure :: "storage_error \<Rightarrow> response \<times> string" where
  "heartbeat_failure e = (if e = ErrNotFound then (WriteNotFound ''node'', ''not_found'')
     else if e = ErrInvalidNodeStatus then (WriteError 400 ''validation_error'' status_message, ''validation_error'')
     else (WriteStorageError, ''internal_error''))"

definition HandleHeartbeat :: "panel_world \<Rightarrow> http_request \<Rightarrow> db \<Rightarrow> reply" where
  "HandleHeartbeat w r d = (case bearerToken (hqAuthorization r) of
     None \<Rightarrow> (WriteUnauthorized, d, [])
   | Some token \<Rightarrow> (case Option.bind (body_obj r) decode_heartbeat of
       None \<Rightarrow> (WriteBadRequest ''invalid JSON request body'', d, [])
     | Some q \<Rightarrow> (let nodeID = TrimSpace (path_value ''id'' r) in case heartbeat_error nodeID q of
         Some resp \<Rightarrow> (resp, d, [])
       | None \<Rightarrow> (case RecordHeartbeat w (heartbeat_input w nodeID token q) d of
           (Inl e, d') \<Rightarrow> (fst (heartbeat_failure e), d', [recordNode ''node.heartbeat'' nodeID OutcomeFailure (snd (heartbeat_failure e))])
         | (Inr n, d') \<Rightarrow> (data_of 200 ([(''node_id'', AStr (ndID n)), (''status'', AStr (ndStatus n)),
               (''drain_state'', AStr (ndDrainState n)), (''active_revision'', AInt (ndActiveRevision n))]
               @ runtime_columns n @ [(''last_seen_at'', opt_time (ndLastSeenAt n))]), d',
             [recordNode ''node.heartbeat'' (ndID n) OutcomeSuccess []])))))"

section \<open>Pending revisions and reports\<close>

definition HandleGetPending :: "panel_world \<Rightarrow> http_request \<Rightarrow> db \<Rightarrow> reply" where
  "HandleGetPending w r d = (case bearerToken (hqAuthorization r) of
     None \<Rightarrow> (WriteUnauthorized, d, [])
   | Some token \<Rightarrow> (let nodeID = TrimSpace (path_value ''id'' r) in
     if nodeID = [] then (WriteBadRequest ''node id is required'', d, [])
     else (case FindLatestPendingConfigRevision w nodeID token d of
       Inl e \<Rightarrow> if e = ErrNotFound
         then (WriteNotFound ''config revision'', d, [recordNode ''node.config_revision.fetch'' nodeID OutcomeFailure ''not_found''])
         else (WriteStorageError, d, [recordNode ''node.config_revision.fetch'' nodeID OutcomeFailure ''storage_error''])
     | Inr v \<Rightarrow> (data_of 200 (configRevisionResponse v), d, [recordNode ''node.config_revision.fetch'' nodeID OutcomeSuccess []]))))"

definition report_error :: "ConfigRevisionReport \<Rightarrow> response option" where
  "report_error q =
     (if TrimSpace (rrStatus q) \<notin> {''applied'', ''failed''}
      then Some (WriteError 400 ''validation_error'' ''status must be applied or failed'')
      else if TrimSpace (rrLastValidation q) \<notin> {[], ''applied'', ''failed''}
      then Some (WriteError 400 ''validation_error'' ''last_validation_status must be applied or failed'')
      else runtime_field_error (TrimSpace (rrRuntimeMode q)) (TrimSpace (rrProcessMode q)) (TrimSpace (rrProcessState q)))"

definition report_input :: "string \<Rightarrow> string \<Rightarrow> string \<Rightarrow> ConfigRevisionReport \<Rightarrow> ReportConfigRevisionInput" where
  "report_input nodeID revisionID token q =
     (let status = TrimSpace (rrStatus q);
          by_status = (\<lambda>applied failed. if status = ''applied'' then applied else if status = ''failed'' then failed else []);
          error_or = (\<lambda>e. if e = [] \<and> status = ''failed'' then TrimSpace (rrErrorMessage q) else e)
      in \<lparr> roNodeID = nodeID, roNodeToken = token, roRevisionID = revisionID, roStatus = status, roAppliedAt = rrAppliedAt q,
           roFailedAt = rrFailedAt q, roErrorMessage = TrimSpace (rrErrorMessage q), roMetadataPresent = True,
           roRuntimeMode = TrimSpace (rrRuntimeMode q), roProcessMode = TrimSpace (rrProcessMode q),
           roProcessState = TrimSpace (rrProcessState q), roDesiredState = TrimSpace (rrDesiredState q),
           roRuntimeState = when_empty (TrimSpace (rrRuntimeState q)) (by_status ''active_config_ready'' ''validation_failed''),
           roLastDryRun = TrimSpace (rrLastDryRun q),
           roLastAttempt = when_empty (TrimSpace (rrLastAttempt q)) (by_status ''skipped'' ''failed''),
           roLastPrepared = (if rrLastPrepared q \<le> 0 \<and> status = ''applied'' then rrActiveRevision q else rrLastPrepared q),
           roLastRuntimeAt = rrLastRuntimeAt q, roLastRuntimeError = error_or (TrimSpace (rrLastRuntimeError q)),
           roLastValidation = when_empty (TrimSpace (rrLastValidation q)) status,
           roLastValidationError = error_or (TrimSpace (rrLastValidationError q)),
           roLastValidationAt = (if rrLastValidationAt q = 0 then (if status = ''applied'' then rrAppliedAt q else rrFailedAt q)
                                 else rrLastValidationAt q),
           roLastApplied = rrLastApplied q, roActiveConfigPath = TrimSpace (rrActiveConfigPath q), roEvents = rrEvents q,
           roSentAt = rrSentAt q \<rparr>)"

definition report_failure :: "storage_error \<Rightarrow> response \<times> string" where
  "report_failure e = (if e = ErrNotFound then (WriteNotFound ''config revision'', ''not_found'')
     else if is_transition_error e then (WriteError 400 ''validation_error'' ''invalid config revision status report'', ''validation_error'')
     else (WriteStorageError, ''storage_error''))"

definition HandleReport :: "panel_world \<Rightarrow> http_request \<Rightarrow> db \<Rightarrow> reply" where
  "HandleReport w r d = (case bearerToken (hqAuthorization r) of
     None \<Rightarrow> (WriteUnauthorized, d, [])
   | Some token \<Rightarrow> (let nodeID = TrimSpace (path_value ''id'' r); revisionID = TrimSpace (path_value ''revisionId'' r) in
     if nodeID = [] then (WriteBadRequest ''node id is required'', d, [])
     else if revisionID = [] then (WriteBadRequest ''revision id is required'', d, [])
     else (case Option.bind (body_obj r) decode_report of
       None \<Rightarrow> (WriteBadRequest ''invalid JSON request body'', d, [])
     | Some q \<Rightarrow> (case report_error q of
         Some resp \<Rightarrow> (resp, d, [])
       | None \<Rightarrow> (case ReportConfigRevision w (report_input nodeID revisionID token q) d of
           (Inl e, d') \<Rightarrow> (fst (report_failure e), d', [recordNode ''node.config_revision.report'' nodeID OutcomeFailure (snd (report_failure e))])
         | (Inr v, d') \<Rightarrow> (data_of 200 (configRevisionResponse v), d',
             [recordNode ''node.config_revision.report'' nodeID OutcomeSuccess (TrimSpace (rrStatus q))]))))))"

end
