(* ===== verification/Urls.thy ===== *)
theory Urls
  imports Crypto GoTime
begin

text \<open>
  \<open>net/url\<close> as the services use it: percent escapes of bytes with the bytes each part of a URL may hold as they are, form
  values, and their decoding.  Escaping is undone by decoding, and an escaped text holds no delimiter.
\<close>

section \<open>Escaping\<close>

definition upper_hex :: "nat \<Rightarrow> char" where
  "upper_hex n = (if n < 10 then chr (48 + n) else chr (55 + n))"

definition percent :: "char \<Rightarrow> string" where
  "percent c = [CHR ''%'', upper_hex (byte c div 16), upper_hex (byte c mod 16)]"

definition url_plain :: "char \<Rightarrow> bool" where
  "url_plain c \<longleftrightarrow> is_digit c \<or> (65 \<le> byte c \<and> byte c \<le> 90) \<or> (97 \<le> byte c \<and> byte c \<le> 122)
     \<or> c \<in> {CHR ''-'', CHR ''_'', CHR ''.'', CHR ''~''}"

text \<open>The bytes that a path segment, a user name, a host and a fragment may hold as they are.\<close>

definition path_byte :: "char \<Rightarrow> bool" where
  "path_byte c \<longleftrightarrow> url_plain c \<or> c \<in> {CHR ''$'', CHR ''&'', CHR ''+'', CHR '':'', CHR ''='', CHR ''@''}"

definition user_byte :: "char \<Rightarrow> bool" where
  "user_byte c \<longleftrightarrow> url_plain c \<or> c \<in> {CHR ''$'', CHR ''&'', CHR ''+'', CHR '','', CHR '';'', CHR ''=''}"

definition host_byte :: "char \<Rightarrow> bool" where
  "host_byte c \<longleftrightarrow> url_plain c \<or> c \<in> {CHR ''!'', CHR ''$'', CHR ''&'', CHR 0x27, CHR ''('', CHR '')'', CHR ''*'', CHR ''+'',
     CHR '','', CHR '';'', CHR ''='', CHR '':'', CHR ''['', CHR '']'', CHR ''<'', CHR ''>'', CHR 0x22}"

definition fragment_byte :: "char \<Rightarrow> bool" where
  "fragment_byte c \<longleftrightarrow> url_plain c \<or> c \<in> {CHR ''$'', CHR ''&'', CHR ''+'', CHR '','', CHR ''/'', CHR '':'', CHR '';'', CHR ''='',
     CHR ''?'', CHR ''@'', CHR ''!'', CHR ''('', CHR '')'', CHR ''*''}"

definition url_escape :: "(char \<Rightarrow> bool) \<Rightarrow> string \<Rightarrow> string" where
  "url_escape plain s = concat (map (\<lambda>c. if plain c then [c] else percent c) s)"

definition PathEscape :: "string \<Rightarrow> string" where "PathEscape = url_escape path_byte"

definition QueryEscape :: "string \<Rightarrow> string" where
  "QueryEscape s = concat (map (\<lambda>c. if c = CHR '' '' then ''+'' else if url_plain c then [c] else percent c) s)"

text \<open>\<open>url.Values.Encode\<close>: the keys in order, joined with ampersands.\<close>

definition encode_values :: "(string \<times> string) list \<Rightarrow> string" where
  "encode_values vs = join_with ''&'' (map (\<lambda>(k, v). QueryEscape k @ ''='' @ QueryEscape v) (sort_key fst vs))"

section \<open>Decoding\<close>

text \<open>A malformed escape has no value.\<close>

fun PathUnescape :: "string \<Rightarrow> string option" where
  "PathUnescape [] = Some []"
| "PathUnescape (c # s) =
    (if c = CHR ''%'' then (case s of
        a # b # t \<Rightarrow> (case (hex_value a, hex_value b) of
          (Some x, Some y) \<Rightarrow> map_option ((#) (chr (16 * x + y))) (PathUnescape t)
        | _ \<Rightarrow> None)
      | _ \<Rightarrow> None)
     else map_option ((#) c) (PathUnescape s))"

definition QueryUnescape :: "string \<Rightarrow> string option" where
  "QueryUnescape s = PathUnescape (map (\<lambda>c. if c = CHR ''+'' then CHR '' '' else c) s)"

section \<open>Lemmas\<close>

lemma hex_value_upper: "n < 16 \<Longrightarrow> hex_value (upper_hex n) = Some n"
  by (auto simp: hex_value_def upper_hex_def Let_def byte_def chr_def)

lemma nibbles: "byte c div 16 < 16" "byte c mod 16 < 16"
  using byte_less [of c] by auto

definition upper_digit :: "char \<Rightarrow> bool" where
  "upper_digit c \<longleftrightarrow> is_digit c \<or> (65 \<le> byte c \<and> byte c \<le> 70)"

lemma upper_hex_digit: "n < 16 \<Longrightarrow> upper_digit (upper_hex n)"
  by (auto simp: upper_digit_def upper_hex_def is_digit_def byte_def chr_def)

lemma PathUnescape_percent: "PathUnescape (percent c @ s) = map_option ((#) c) (PathUnescape s)"
  by (simp add: percent_def hex_value_upper nibbles)

lemma PathUnescape_char: "c \<noteq> CHR ''%'' \<Longrightarrow> PathUnescape (c # s) = map_option ((#) c) (PathUnescape s)"
  by simp

lemma url_unescape_escape:
  assumes "\<not> plain (CHR ''%'')"
  shows "PathUnescape (url_escape plain s) = Some s"
proof (induction s)
  case (Cons c s)
  have "plain c \<Longrightarrow> c \<noteq> CHR ''%''" using assms by auto
  then show ?case using Cons by (simp add: url_escape_def PathUnescape_percent PathUnescape_char del: PathUnescape.simps)
qed (simp add: url_escape_def)

lemma percent_chars: "x \<in> set (percent c) \<Longrightarrow> x = CHR ''%'' \<or> upper_digit x"
  by (auto simp: percent_def upper_hex_digit nibbles)

lemma url_escape_chars: "x \<in> set (url_escape plain s) \<Longrightarrow> plain x \<or> x = CHR ''%'' \<or> upper_digit x"
  by (auto simp: url_escape_def dest: percent_chars split: if_split_asm)

lemma QueryEscape_chars: "x \<in> set (QueryEscape s) \<Longrightarrow> url_plain x \<or> x = CHR ''+'' \<or> x = CHR ''%'' \<or> upper_digit x"
  by (auto simp: QueryEscape_def dest: percent_chars split: if_split_asm)

lemma upper_digit_special: "upper_digit c \<Longrightarrow> c \<notin> {CHR ''/'', CHR ''&'', CHR ''='', CHR ''#'', CHR ''?'', CHR ''@'', CHR ''%'', CHR ''+''}"
  by (auto simp: upper_digit_def is_digit_def byte_def)

lemma url_plain_special: "url_plain c \<Longrightarrow> c \<notin> {CHR ''/'', CHR ''&'', CHR ''='', CHR ''#'', CHR ''?'', CHR ''@'', CHR ''%'', CHR ''+''}"
  by (auto simp: url_plain_def is_digit_def byte_def)

lemma QueryUnescape_escape [simp]: "QueryUnescape (QueryEscape s) = Some s"
proof (induction s)
  case (Cons c s)
  have u: "url_plain c \<Longrightarrow> c \<noteq> CHR ''%'' \<and> c \<noteq> CHR ''+''" using url_plain_special by blast
  have d: "x \<noteq> CHR ''+''" if "x \<in> set (percent c)" for x using percent_chars [OF that] upper_digit_special by auto
  have m: "map (\<lambda>x. if x = CHR ''+'' then CHR '' '' else x) (percent c) = percent c" by (rule map_idI) (use d in simp)
  from Cons u show ?case
    by (simp add: QueryUnescape_def QueryEscape_def m PathUnescape_percent PathUnescape_char del: PathUnescape.simps)
qed (simp add: QueryUnescape_def QueryEscape_def)

lemma path_byte_plain: "path_byte c \<Longrightarrow> c \<noteq> CHR ''%'' \<and> c \<noteq> CHR ''/''"
  using url_plain_special by (auto simp: path_byte_def)

lemma PathUnescape_Escape [simp]: "PathUnescape (PathEscape s) = Some s"
  unfolding PathEscape_def by (rule url_unescape_escape) (use path_byte_plain in blast)

lemma PathEscape_no_slash: "CHR ''/'' \<notin> set (PathEscape s)"
  unfolding PathEscape_def using url_escape_chars path_byte_plain upper_digit_special by fastforce

lemma PathUnescape_plain: "CHR ''%'' \<notin> set s \<Longrightarrow> PathUnescape s = Some s"
  by (induction s) auto

end
