(* ===== verification/AgentClient.thy ===== *)
theory AgentClient
  imports AgentApply NodesAgentHandler Urls
begin

text \<open>
  \<open>services/node-agent/internal/agent/client.go\<close>: the agent's HTTP client of the panel, the JSON of what it sends and
  receives, and the routes of \<open>services/panel-api/internal/nodes/handler.go\<close> that its requests reach.  The network is
  a parameter: a function from a request to an answer or a failure, a request that cannot be built included.
\<close>

section \<open>Requests and answers on the wire\<close>

record wire_request =
  wqMethod :: string
  wqURL :: string
  wqAuthorization :: string
  wqBody :: "any option"

record wire_response =
  wrStatus :: nat
  wrBody :: "any option"

text \<open>
  The value of a JSON text that marshals a value: strings lose invalid UTF-8, the type of an integer is not kept.  What
  is decoded into \<open>any\<close> goes through \<open>through_json\<close> afterwards.
\<close>

fun wire :: "any \<Rightarrow> any" where
  "wire (AInt64 n) = AInt n"
| "wire (AStr s) = AStr (utf8_coerce s)"
| "wire (AArr xs) = AArr (map wire xs)"
| "wire (AObj m) = AObj (map (\<lambda>(k, v). (utf8_coerce k, wire v)) m)"
| "wire v = v"

record PanelClient =
  clBaseURL :: string
  clHTTP :: "wire_request \<Rightarrow> string + wire_response"

definition base_url :: "PanelClient \<Rightarrow> string" where
  "base_url c = rev (dropWhile (\<lambda>x. x = CHR ''/'') (rev (TrimSpace (clBaseURL c))))"

definition node_url :: "PanelClient \<Rightarrow> string \<Rightarrow> string \<Rightarrow> string" where
  "node_url c nodeID rest = base_url c @ ''/api/v1/nodes/'' @ PathEscape nodeID @ rest"

section \<open>The calls\<close>

definition decode_bundle :: "any \<Rightarrow> obj option" where
  "decode_bundle v = map_option through_json_obj (as_obj v)"

definition decode_revision :: "obj \<Rightarrow> ConfigRevision option" where
  "decode_revision m =
     (case (all_some [dec_str m ''id'', dec_str m ''node_id'', dec_str m ''status'', dec_str m ''bundle_hash'', dec_str m ''signature'',
              dec_str m ''signer''],
            all_some [dec_int m ''revision_number'', dec_int m ''rollback_target_revision''],
            all_some [dec_time m ''created_at'', dec_time m ''applied_at''], dec_ptr decode_bundle m ''bundle'') of
       (Some [i, n, s, h, sig, sgr], Some [num, rt], Some [ca, aa], Some b) \<Rightarrow>
         Some \<lparr> crID = i, crNodeID = n, crRevisionNumber = num, crStatus = s, crBundleHash = h, crSignature = sig, crSigner = sgr,
           crRollbackTarget = rt, crBundle = b, crCreatedAt = ca, crAppliedAt = aa \<rparr>
     | _ \<Rightarrow> None)"

text \<open>The envelope of an answer: \<open>{"data": \<dots>}\<close>.\<close>

definition decode_envelope :: "any option \<Rightarrow> ConfigRevision option option" where
  "decode_envelope body = (case body of
     None \<Rightarrow> None
   | Some ANil \<Rightarrow> Some None
   | Some (AObj m) \<Rightarrow> dec_ptr (\<lambda>v. Option.bind (as_obj v) decode_revision) m ''data''
   | Some _ \<Rightarrow> None)"

definition identity_error :: "string \<Rightarrow> string \<Rightarrow> agent_error option" where
  "identity_error nodeID nodeToken = (if TrimSpace nodeID = [] then Some AErrNodeIDRequired
     else if TrimSpace nodeToken = [] then Some AErrNodeTokenRequired else None)"

definition FetchPendingConfigRevision :: "PanelClient \<Rightarrow> string \<Rightarrow> string \<Rightarrow> agent_error + ConfigRevision option" where
  "FetchPendingConfigRevision c nodeID nodeToken = (case identity_error nodeID nodeToken of
     Some e \<Rightarrow> Inl e
   | None \<Rightarrow>
     if base_url c = [] then Inl AErrPanelURLRequired
     else (case clHTTP c \<lparr> wqMethod = ''GET'', wqURL = node_url c nodeID ''/config-revisions/pending'',
                  wqAuthorization = ''Bearer '' @ nodeToken, wqBody = None \<rparr> of
       Inl e \<Rightarrow> Inl (AErrOther e)
     | Inr a \<Rightarrow>
       if wrStatus a = 404 then Inr None
       else if wrStatus a = 401 then Inl AErrPendingRevisionAuth
       else if wrStatus a \<noteq> 200 then Inl AErrUnexpectedPanelResponse
       else (case decode_envelope (wrBody a) of
         Some (Some rv) \<Rightarrow> Inr (Some rv)
       | _ \<Rightarrow> Inl AErrUnexpectedPanelResponse)))"

text \<open>The JSON of the two payloads; \<open>json.Marshal\<close> fails when a time has a year outside 0 to 9999.\<close>

definition report_times :: "ConfigRevisionReport \<Rightarrow> instant list" where
  "report_times r = [rrAppliedAt r, rrFailedAt r, rrLastRuntimeAt r, rrLastValidationAt r, rrSentAt r] @ map reAt (rrEvents r)"

definition report_json :: "ConfigRevisionReport \<Rightarrow> obj" where
  "report_json r = [(''status'', AStr (rrStatus r)), (''applied_at'', AStr (RFC3339Nano (rrAppliedAt r))),
       (''failed_at'', AStr (RFC3339Nano (rrFailedAt r))), (''last_runtime_transition_at'', AStr (RFC3339Nano (rrLastRuntimeAt r))),
       (''last_validation_at'', AStr (RFC3339Nano (rrLastValidationAt r))), (''sent_at'', AStr (RFC3339Nano (rrSentAt r)))]
     @ omit_empty [(''error_message'', AStr (rrErrorMessage r)), (''active_revision'', AInt (rrActiveRevision r)),
       (''runtime_mode'', AStr (rrRuntimeMode r)), (''runtime_process_mode'', AStr (rrProcessMode r)),
       (''runtime_process_state'', AStr (rrProcessState r)), (''runtime_desired_state'', AStr (rrDesiredState r)),
       (''runtime_state'', AStr (rrRuntimeState r)), (''last_dry_run_status'', AStr (rrLastDryRun r)),
       (''last_runtime_attempt_status'', AStr (rrLastAttempt r)), (''last_runtime_prepared_revision'', AInt (rrLastPrepared r)),
       (''last_runtime_error'', AStr (rrLastRuntimeError r)), (''last_validation_status'', AStr (rrLastValidation r)),
       (''last_validation_error'', AStr (rrLastValidationError r)), (''last_applied_revision'', AInt (rrLastApplied r)),
       (''active_config_path'', AStr (rrActiveConfigPath r))]
     @ (if rrEvents r = [] then [] else [(''runtime_events'', AArr (map event_json (rrEvents r)))])"

definition report_request :: "PanelClient \<Rightarrow> string \<Rightarrow> string \<Rightarrow> string \<Rightarrow> ConfigRevisionReport \<Rightarrow> wire_request" where
  "report_request c nodeID nodeToken revisionID r =
     \<lparr> wqMethod = ''POST'', wqURL = node_url c nodeID (''/config-revisions/'' @ PathEscape revisionID @ ''/report''),
       wqAuthorization = ''Bearer '' @ nodeToken, wqBody = Some (wire (AObj (report_json r))) \<rparr>"

definition ReportRevision :: "PanelClient \<Rightarrow> string \<Rightarrow> string \<Rightarrow> string \<Rightarrow> ConfigRevisionReport \<Rightarrow> agent_error option" where
  "ReportRevision c nodeID nodeToken revisionID r = (case identity_error nodeID nodeToken of
     Some e \<Rightarrow> Some e
   | None \<Rightarrow>
     if TrimSpace revisionID = [] then Some AErrInvalidConfigRevision
     else if base_url c = [] then Some AErrPanelURLRequired
     else if \<not> list_all json_year (report_times r) then Some (AErrOther ''json: year outside of range'')
     else (case clHTTP c (report_request c nodeID nodeToken revisionID r) of
       Inl e \<Rightarrow> Some (AErrOther e)
     | Inr a \<Rightarrow>
       if wrStatus a = 200 then None
       else if wrStatus a = 401 then Some AErrPendingRevisionAuth
       else if wrStatus a = 404 then Some AErrInvalidConfigRevision
       else Some AErrUnexpectedPanelResponse))"

definition heartbeat_times :: "HeartbeatPayload \<Rightarrow> instant list" where
  "heartbeat_times p = [hpLastRuntimeAt p, hpLastValidationAt p, hpSentAt p] @ map reAt (hpEvents p)"

definition heartbeat_json :: "HeartbeatPayload \<Rightarrow> obj" where
  "heartbeat_json p = [(''node_id'', AStr (hpNodeID p)), (''agent_version'', AStr (hpAgentVersion p)), (''status'', AStr (hpStatus p)),
       (''active_revision'', AInt (hpActiveRevision p)), (''last_runtime_transition_at'', AStr (RFC3339Nano (hpLastRuntimeAt p))),
       (''last_validation_at'', AStr (RFC3339Nano (hpLastValidationAt p))), (''sent_at'', AStr (RFC3339Nano (hpSentAt p)))]
     @ omit_empty [(''runtime_mode'', AStr (hpRuntimeMode p)), (''runtime_process_mode'', AStr (hpProcessMode p)),
       (''runtime_process_state'', AStr (hpProcessState p)), (''runtime_desired_state'', AStr (hpDesiredState p)),
       (''runtime_state'', AStr (hpRuntimeState p)), (''xray_pid'', AInt (hpXrayPID p)), (''last_dry_run_status'', AStr (hpLastDryRun p)),
       (''last_runtime_attempt_status'', AStr (hpLastAttempt p)), (''last_runtime_prepared_revision'', AInt (hpLastPrepared p)),
       (''last_runtime_error'', AStr (hpLastRuntimeError p)), (''last_validation_status'', AStr (hpLastValidation p)),
       (''last_validation_error'', AStr (hpLastValidationError p)), (''last_applied_revision'', AInt (hpLastApplied p)),
       (''active_config_path'', AStr (hpActiveConfigPath p))]
     @ (if hpEvents p = [] then [] else [(''runtime_events'', AArr (map event_json (hpEvents p)))])"

definition SendHeartbeat :: "PanelClient \<Rightarrow> string \<Rightarrow> string \<Rightarrow> HeartbeatPayload \<Rightarrow> agent_error option" where
  "SendHeartbeat c nodeID nodeToken p = (case identity_error nodeID nodeToken of
     Some e \<Rightarrow> Some e
   | None \<Rightarrow>
     if base_url c = [] then Some AErrPanelURLRequired
     else if \<not> list_all json_year (heartbeat_times p) then Some (AErrOther ''json: year outside of range'')
     else (case clHTTP c \<lparr> wqMethod = ''POST'', wqURL = node_url c nodeID ''/heartbeat'',
                  wqAuthorization = ''Bearer '' @ nodeToken, wqBody = Some (wire (AObj (heartbeat_json p))) \<rparr> of
       Inl e \<Rightarrow> Some (AErrOther e)
     | Inr a \<Rightarrow>
       if wrStatus a = 200 then None
       else if wrStatus a = 401 then Some AErrHeartbeatAuth
       else if wrStatus a = 404 then Some AErrInvalidConfigRevision
       else Some AErrUnexpectedPanelResponse))"

section \<open>The panel's side\<close>

text \<open>The segments of a path, unescaped; a malformed escape matches no route.\<close>

definition url_segments :: "string \<Rightarrow> string \<Rightarrow> string list option" where
  "url_segments base url = (if has_prefix url (base @ ''/'')
     then all_some (map PathUnescape (split_on (CHR ''/'') (drop (length base + 1) url))) else None)"

definition wire_answer :: "reply \<Rightarrow> wire_response \<times> db" where
  "wire_answer a = (case a of (resp, d, events) \<Rightarrow>
     (\<lparr> wrStatus = rsStatus resp, wrBody = Some (wire (case rsBody resp of
          BData v \<Rightarrow> AObj [(''data'', v)]
        | BError code message \<Rightarrow> AObj [(''error'', AObj [(''code'', AStr code), (''message'', AStr message)])])) \<rparr>, d))"

definition node_request :: "(string \<times> string) list \<Rightarrow> wire_request \<Rightarrow> http_request" where
  "node_request path q = \<lparr> hqPath = path, hqQuery = [], hqAuthorization = wqAuthorization q, hqAdmin = [], hqForwarded = [], hqRemote = [],
     hqUserAgent = [], hqBody = wqBody q \<rparr>"

text \<open>The routes that need no administrator; anything else is not served here.\<close>

definition serve_node :: "string \<Rightarrow> panel_world \<Rightarrow> wire_request \<Rightarrow> db \<Rightarrow> wire_response \<times> db" where
  "serve_node base w q d = (let missing = (\<lparr> wrStatus = 404, wrBody = None \<rparr>, d) in
     case url_segments base (wqURL q) of
       Some [a, v, n, i, x] \<Rightarrow>
         if [a, v, n] = [''api'', ''v1'', ''nodes''] \<and> x = ''heartbeat'' \<and> wqMethod q = ''POST''
         then wire_answer (HandleHeartbeat w (node_request [(''id'', i)] q) d) else missing
     | Some [a, v, n, x] \<Rightarrow>
         if [a, v, n] = [''api'', ''v1'', ''nodes''] \<and> x = ''register'' \<and> wqMethod q = ''POST''
         then wire_answer (HandleRegister w (node_request [] q) d) else missing
     | Some [a, v, n, i, c, x] \<Rightarrow>
         if [a, v, n, c] = [''api'', ''v1'', ''nodes'', ''config-revisions''] \<and> x = ''pending'' \<and> wqMethod q = ''GET''
         then wire_answer (HandleGetPending w (node_request [(''id'', i)] q) d) else missing
     | Some [a, v, n, i, c, r, x] \<Rightarrow>
         if [a, v, n, c] = [''api'', ''v1'', ''nodes'', ''config-revisions''] \<and> x = ''report'' \<and> wqMethod q = ''POST''
         then wire_answer (HandleReport w (node_request [(''id'', i), (''revisionId'', r)] q) d) else missing
     | _ \<Rightarrow> missing)"

end
