(* ===== verification/NodesTheorems.thy ===== *)
theory NodesTheorems
  imports NodesProps
begin

text \<open>
  The node store as a system of events: administrators and agents send requests in any order, each in a world of its own
  (clocks, random bytes, failing statements).  The properties of the store over all such runs.
\<close>

section \<open>Events\<close>

datatype node_event =
    AskToken CreateBootstrapTokenInput
  | AskRegister RegisterNodeInput
  | AskHeartbeat HeartbeatInput
  | AskDrain string | AskUndrain string | AskDisable string | AskEnable string
  | AskRevision RealityConfig CreateDummyConfigRevisionInput
  | AskRollback CreateRollbackConfigRevisionInput
  | AskReport ReportConfigRevisionInput

fun node_step :: "panel_world \<times> node_event \<Rightarrow> db \<Rightarrow> db" where
  "node_step (w, AskToken i) d = snd (CreateBootstrapToken w i d)"
| "node_step (w, AskRegister i) d = snd (Register w i d)"
| "node_step (w, AskHeartbeat i) d = snd (RecordHeartbeat w i d)"
| "node_step (w, AskDrain i) d = snd (Drain w i d)"
| "node_step (w, AskUndrain i) d = snd (Undrain w i d)"
| "node_step (w, AskDisable i) d = snd (Disable w i d)"
| "node_step (w, AskEnable i) d = snd (Enable w i d)"
| "node_step (w, AskRevision r i) d = snd (CreateDummyConfigRevision w r i d)"
| "node_step (w, AskRollback i) d = snd (CreateRollbackConfigRevision w i d)"
| "node_step (w, AskReport i) d = snd (ReportConfigRevision w i d)"

lemmas lifecycle_defs = Drain_def Undrain_def Disable_def Enable_def
lemmas decide_defs = decide_drain_def decide_undrain_def decide_disable_def decide_enable_def

lemmas node_ops_ok = CreateBootstrapToken_inv [OF _ prod.collapse [symmetric]] Register_inv [OF _ prod.collapse [symmetric]]
  RecordHeartbeat_inv [OF _ prod.collapse [symmetric]] transition_inv [OF _ prod.collapse [symmetric]]
  CreateDummy_inv [OF _ prod.collapse [symmetric]] CreateRollback_inv [OF _ prod.collapse [symmetric]]
  Report_inv [OF _ prod.collapse [symmetric]]

lemma node_step_ok: "node_store_ok d \<Longrightarrow> node_store_ok (node_step e d)"
  by (cases "(e, d)" rule: node_step.cases) (simp_all add: lifecycle_defs node_ops_ok)

interpretation node_store: event_system node_step node_store_ok
  by unfold_locales (rule node_step_ok)

text \<open>
  C13 Whatever requests administrators and agents send, in whatever order, with whatever failing statements: the node
  store keeps unique identifiers, token hashes and revision numbers, every row within the schema, at most 20 events per
  node, at most one registration per bootstrap token, and only revisions whose bundle verifies under the panel's signer
  and whose payload passes the panel's validator.
\<close>

theorem node_store_invariant:
  assumes "node_store_ok d"
  shows "node_store_ok (fold node_step es d)"
  using assms by (rule node_store.run_inv)

section \<open>One event in detail\<close>

lemma node_ops_fail:
  "CreateBootstrapToken w i1 d = (Inl e, d') \<Longrightarrow> d' = d" "Register w i2 d = (Inl e, d') \<Longrightarrow> d' = d"
  "RecordHeartbeat w i3 d = (Inl e, d') \<Longrightarrow> d' = d" "transition w i4 decide d = (Inl e, d') \<Longrightarrow> d' = d"
  "CreateDummyConfigRevision w reality i5 d = (Inl e, d') \<Longrightarrow> d' = d" "CreateRollbackConfigRevision w i6 d = (Inl e, d') \<Longrightarrow> d' = d"
  "ReportConfigRevision w i7 d = (Inl e, d') \<Longrightarrow> d' = d"
  by (auto simp: CreateBootstrapToken_def Register_def RecordHeartbeat_def alone_Inl transition_def CreateDummyConfigRevision_def
      CreateRollbackConfigRevision_def ReportConfigRevision_def dest: in_tx_Inl split: sum.splits if_split_asm)

text \<open>The state after an operation is unchanged, or the operation succeeded.\<close>

lemma op_cases [case_names fails failed ok]:
  assumes "\<And>e d'. r = (Inl e, d') \<Longrightarrow> d' = d"
  obtains (failed) "snd r = d" | (ok) x where "r = (Inr x, snd r)"
  using assms by (cases r; cases "fst r") auto

text \<open>
  What an event did, in one of five ways: nothing (an error, rolled back), a node and its token were added, the rows of
  some nodes were updated, a node was registered with a token, a revision was added, a revision was reported.
\<close>

lemma node_event_cases [consumes 0, case_names nothing token nodes register revision report]:
  obtains "node_step (w, e) d = d"
  | i token admin where "e = AskToken i" "newBootstrapToken w = Inr token"
      "put_nodes [fresh_node w i] (dbNodes d @ [fresh_node w i]) d = Inr (d\<lparr> dbNodes := dbNodes d @ [fresh_node w i] \<rparr>)"
      "put_tokens (dbTokens d @ [fresh_token w i (ndID (fresh_node w i)) token admin])
         (d\<lparr> dbNodes := dbNodes d @ [fresh_node w i] \<rparr>) = Inr (node_step (w, e) d)"
  | P and f :: "node_row \<Rightarrow> node_row" and changed where "keeps_node f" "update_nodes P f d = Inr (changed, node_step (w, e) d)"
      "(\<exists>u token. P = node_auth u token) \<or> (\<exists>u r decide next. P = (\<lambda>n. ndID n = u) \<and> node_by_id u d = Some r
         \<and> decide (scanNode w r) = Inr next \<and> f = transition_row w next (scanNode w r)
         \<and> (\<exists>i. uuid_cast i = Some u \<and> (e, decide) \<in> {(AskDrain i, decide_drain), (AskUndrain i, decide_undrain),
              (AskDisable i, decide_disable), (AskEnable i, decide_enable)}))"
  | i n token where "e = AskRegister i" "Register w i d = (Inr (n, token), node_step (w, e) d)"
  | nodeText u number current payload admin sv where "uuid_cast nodeText = Some u" "next_revision w u d = Inr number"
      "store_revision w nodeText u number current payload admin d = Inr (sv, node_step (w, e) d)"
  | i sv where "e = AskReport i" "ReportConfigRevision w i d = (Inr sv, node_step (w, e) d)"
proof -
  note ways = that
  have trans: thesis
    if t: "node_step (w, e) d = snd (transition w i decide d)" and k: "(e, decide) \<in> {(AskDrain i, decide_drain),
        (AskUndrain i, decide_undrain), (AskDisable i, decide_disable), (AskEnable i, decide_enable)}" for i decide
  proof (cases "transition w i decide d" d rule: op_cases)
    case (ok n)
    obtain u r "next" changed where u: "uuid_cast i = Some u" "node_by_id u d = Some r" "decide (scanNode w r) = Inr next"
        "update_nodes (\<lambda>n. ndID n = u) (transition_row w next (scanNode w r)) d = Inr (changed, node_step (w, e) d)"
      using transition_done [OF ok] t by auto
    show thesis by (rule ways(3) [OF keeps_transition u(4)]) (use u k in blast)
  qed (use node_ops_fail t ways(1) in \<open>auto\<close>)
  show thesis
  proof (cases e)
    case (AskToken i)
    show thesis
    proof (cases "CreateBootstrapToken w i d" d rule: op_cases)
      case (ok k)
      show thesis using CreateBootstrapToken_done [OF ok] AskToken ways(2) [of i] by auto
    qed (use node_ops_fail AskToken ways(1) in auto)
  next
    case (AskRegister i)
    show thesis
    proof (cases "Register w i d" d rule: op_cases)
      case (ok x)
      then show thesis using AskRegister ways(4) [of i "fst x" "snd x"] by auto
    qed (use node_ops_fail AskRegister ways(1) in auto)
  next
    case (AskHeartbeat i)
    show thesis
    proof (cases "RecordHeartbeat w i d" d rule: op_cases)
      case (ok n)
      obtain u changed where "update_nodes (node_auth u (hbNodeToken i)) (heartbeat_row w i) d = Inr (changed, node_step (w, e) d)"
        using RecordHeartbeat_done [OF ok] AskHeartbeat by auto
      then show thesis by (rule ways(3) [OF keeps_heartbeat]) blast
    qed (use node_ops_fail AskHeartbeat ways(1) in auto)
  next
    case (AskRevision reality i)
    show thesis
    proof (cases "CreateDummyConfigRevision w reality i d" d rule: op_cases)
      case (ok n)
      then show thesis using CreateDummy_done [OF ok] AskRevision ways(5) by (metis node_step.simps(8))
    qed (use node_ops_fail AskRevision ways(1) in auto)
  next
    case (AskRollback i)
    show thesis
    proof (cases "CreateRollbackConfigRevision w i d" d rule: op_cases)
      case (ok n)
      then show thesis using CreateRollback_done [OF ok] AskRollback ways(5) by (metis node_step.simps(9))
    qed (use node_ops_fail AskRollback ways(1) in auto)
  next
    case (AskReport i)
    show thesis
    proof (cases "ReportConfigRevision w i d" d rule: op_cases)
      case (ok n)
      then show thesis using AskReport ways(6) by auto
    qed (use node_ops_fail AskReport ways(1) in auto)
  qed (use trans in \<open>auto simp: lifecycle_defs\<close>)
qed

lemma Register_frame:
  assumes "Register w i d = (Inr (n, token), d')"
  shows "\<exists>t changed d1. row_with btHash (HashBootstrapToken (rnBootstrapToken i)) (dbTokens d) = Some t \<and> token_guard w i t = Inr ()
    \<and> update_nodes (\<lambda>n. ndID n = btNodeID t \<and> ndStatus n \<in> {''pending'', ''active'', ''unhealthy'', ''drained''})
         (register_node_row w i token) d = Inr (changed, d1)
    \<and> changed \<noteq> [] \<and> n = scanNode w (hd changed) \<and> newNodeToken w = Inr token
    \<and> dbNodes d' = dbNodes d1 \<and> dbRevisions d' = dbRevisions d
    \<and> dbTokens d' = upd_where (\<lambda>r. btID r = btID t) (\<lambda>r. r\<lparr> btStatus := ''used'', btUsedAt := Some (pg_time (pwNow w)) \<rparr>) (dbTokens d)"
proof -
  obtain t :: token_row and changed d1 d2 where r: "row_with btHash (HashBootstrapToken (rnBootstrapToken i)) (dbTokens d) = Some t"
      "token_guard w i t = Inr ()" "changed \<noteq> []" "n = scanNode w (hd changed)" "newNodeToken w = Inr token"
      "update_nodes (\<lambda>n. ndID n = btNodeID t \<and> ndStatus n \<in> {''pending'', ''active'', ''unhealthy'', ''drained''})
         (register_node_row w i token) d = Inr (changed, d1)"
      "put_tokens (upd_where (\<lambda>r. btID r = btID t)
         (\<lambda>r. r\<lparr> btStatus := ''used'', btUsedAt := Some (pg_time (pwNow w)) \<rparr>) (dbTokens d1)) d1 = Inr d2"
      "d' = d2\<lparr> dbRegistrations := dbRegistrations d2 @ [\<lparr> rgNodeID = ndID (hd changed),
         rgHash = HashBootstrapToken (rnBootstrapToken i), rgStatus = ''completed'', rgAt = pwPgNow w \<rparr>] \<rparr>"
    using Register_done [OF assms] by blast
  have "dbTokens d1 = dbTokens d" "dbRevisions d1 = dbRevisions d" using r(6) by (auto simp: update_nodes_Inr)
  moreover have "d2 = d1\<lparr> dbTokens := upd_where (\<lambda>r. btID r = btID t)
         (\<lambda>r. r\<lparr> btStatus := ''used'', btUsedAt := Some (pg_time (pwNow w)) \<rparr>) (dbTokens d1) \<rparr>"
    using r(7) unfolding put_tokens_Inr by (rule conjunct1)
  ultimately show ?thesis using r(1-6,8) by (intro exI [of _ t] exI [of _ changed] exI [of _ d1]) simp
qed

section \<open>What no event undoes\<close>

lemma update_nodes_other:
  assumes "update_nodes P f d = Inr (changed, d')" and "keeps_node f" and "node_by_id u d = Some n" and "\<not> P n"
  shows "node_by_id u d' = Some n"
proof -
  have "row_with ndID u (upd_where P f (dbNodes d)) = map_option (\<lambda>r. if P r then f r else r) (row_with ndID u (dbNodes d))"
    using assms(2) by (intro row_with_upd_where) (simp add: keeps_node_def)
  then show ?thesis using assms by (simp add: update_nodes_Inr node_by_id_def)
qed

definition disabled_node :: "uuid \<Rightarrow> db \<Rightarrow> bool" where
  "disabled_node u d \<longleftrightarrow> (\<exists>n. node_by_id u d = Some n \<and> ndStatus n = ''disabled'')"

definition not_enable :: "uuid \<Rightarrow> panel_world \<times> node_event \<Rightarrow> bool" where
  "not_enable u e \<longleftrightarrow> (case snd e of AskEnable i \<Rightarrow> uuid_cast i \<noteq> Some u | _ \<Rightarrow> True)"

lemma store_revision_nodes: "store_revision w t u number current payload admin d = Inr (sv, d') \<Longrightarrow> dbNodes d' = dbNodes d \<and> dbTokens d' = dbTokens d"
  by (auto simp: put_revisions_Inr dest!: store_revision_done)

lemma disabled_step:
  assumes "not_enable u (w, e)" and "node_by_id u d = Some n" and "ndStatus n = ''disabled''"
  shows "node_by_id u (node_step (w, e) d) = Some n"
proof (cases w e d rule: node_event_cases)
  case (token i token admin)
  then show ?thesis using assms(2) by (auto simp: put_simps node_by_id_def row_with_append split: option.splits)
next
  case (nodes P f changed)
  show ?thesis
  proof (rule update_nodes_other [OF nodes(2,1) assms(2)])
    have id: "ndID n = u" using assms(2) by (auto simp: node_by_id_def dest: row_with_SomeD)
    show "\<not> P n" using nodes(3) assms id by (auto simp: node_auth_def decide_defs not_enable_def)
  qed
next
  case (register i m token)
  obtain t :: token_row and changed d1 where r: "update_nodes (\<lambda>n. ndID n = btNodeID t \<and> ndStatus n \<in> {''pending'', ''active'', ''unhealthy'', ''drained''})
         (register_node_row w i token) d = Inr (changed, d1)" "dbNodes (node_step (w, e) d) = dbNodes d1"
    using Register_frame [OF register(2)] by blast
  have "node_by_id u d1 = Some n" by (rule update_nodes_other [OF r(1) keeps_register assms(2)]) (simp add: assms(3))
  then show ?thesis using r by (simp add: node_by_id_def)
next
  case (revision nodeText u' number current payload admin sv)
  then show ?thesis using assms(2) store_revision_nodes [OF revision(3)] by (simp add: node_by_id_def)
next
  case (report i sv)
  obtain u' rid v d1 changed where r: "put_revisions (upd_where (report_hits u' rid (roNodeToken i) d) (reported_revision w i) (dbRevisions d)) d = Inr d1"
      and un: "update_nodes (node_auth u' (roNodeToken i)) (report_node w i (cvNumber (v :: revision_row))) d1 = Inr (changed, node_step (w, e) d)"
    using Report_done [OF report(2)] by blast
  show ?thesis
    by (rule update_nodes_other [OF un keeps_report]) (use assms r in \<open>auto simp: node_by_id_def put_revisions_Inr node_auth_def\<close>)
qed (use assms in simp)

interpretation disabled_view: stable_view node_step node_store_ok "not_enable u" "disabled_node u" "node_by_id u" for u
proof unfold_locales
  fix d :: db and e
  assume "not_enable u e" and "disabled_node u d"
  then show "disabled_node u (node_step e d) \<and> node_by_id u (node_step e d) = node_by_id u d"
    using disabled_step [of u "fst e" "snd e" d] by (auto simp: disabled_node_def)
qed

text \<open>
  C14 A disabled node is out of reach until an administrator enables it: no heartbeat, report, registration or lifecycle
  request, in any number and order, changes a single column of its row.
\<close>

theorem disabled_node_frozen:
  assumes "node_store_ok d" and "node_by_id u d = Some n" and "ndStatus n = ''disabled''"
    and "list_all (not_enable u) es"
  shows "node_by_id u (fold node_step es d) = Some n"
proof -
  have "disabled_node u d" using assms(2,3) by (simp add: disabled_node_def)
  then show ?thesis using disabled_view.run_stable [OF assms(1,4)] assms(2) by simp
qed

section \<open>One-time tokens\<close>

definition used_hash :: "string \<Rightarrow> db \<Rightarrow> bool" where
  "used_hash h d \<longleftrightarrow> (\<exists>t \<in> set (dbTokens d). btHash t = h \<and> btStatus t = ''used'')"

lemma used_step:
  assumes "used_hash h d"
  shows "used_hash h (node_step (w, e) d)"
proof (cases w e d rule: node_event_cases)
  case (token i token admin)
  then show ?thesis using assms by (auto simp: used_hash_def put_simps)
next
  case (nodes P f changed)
  then show ?thesis using assms by (auto simp: used_hash_def put_simps)
next
  case (register i m token)
  obtain t :: token_row where t: "dbTokens (node_step (w, e) d)
      = upd_where (\<lambda>r. btID r = btID t) (\<lambda>r. r\<lparr> btStatus := ''used'', btUsedAt := Some (pg_time (pwNow w)) \<rparr>) (dbTokens d)"
    using Register_frame [OF register(2)] by blast
  obtain r where r: "r \<in> set (dbTokens d)" "btHash r = h" "btStatus r = ''used''" using assms by (auto simp: used_hash_def)
  show ?thesis
    using use_token_rows [OF _ r(1), of "dbTokens (node_step (w, e) d)" "btID t"] r(2,3) by (auto simp: used_hash_def t set_upd_where)
next
  case (revision nodeText u' number current payload admin sv)
  then show ?thesis using assms store_revision_nodes [OF revision(3)] by (simp add: used_hash_def)
next
  case (report i sv)
  then show ?thesis using assms Report_done [OF report(2)] by (auto simp: used_hash_def put_revisions_Inr update_nodes_Inr)
qed (use assms in simp)

interpretation used_view: stable_view node_step node_store_ok "\<lambda>_. True" "used_hash h" "\<lambda>_. ()" for h
proof unfold_locales
  fix d :: db and e
  assume "used_hash h d"
  then show "used_hash h (node_step e d) \<and> () = ()" using used_step [of h d "fst e" "snd e"] by simp
qed

lemma Register_uses:
  assumes "Register w i d = (Inr x, d')"
  shows "used_hash (HashBootstrapToken (rnBootstrapToken i)) d'"
proof -
  obtain t :: token_row where "row_with btHash (HashBootstrapToken (rnBootstrapToken i)) (dbTokens d) = Some t"
      "dbTokens d' = upd_where (\<lambda>r. btID r = btID t) (\<lambda>r. r\<lparr> btStatus := ''used'', btUsedAt := Some (pg_time (pwNow w)) \<rparr>) (dbTokens d)"
    using Register_frame [of w i d "fst x" "snd x" d'] assms by auto
  then show ?thesis
    using use_token_rows [of "dbTokens d'" "btID t" "pg_time (pwNow w)" "dbTokens d" t] by (auto simp: used_hash_def set_upd_where dest!: row_with_SomeD)
qed

lemma used_token_rejected:
  assumes "node_store_ok d" and "used_hash (HashBootstrapToken (rnBootstrapToken i)) d" and "pwRand w \<noteq> None"
    and "\<not> pwFault w ''begin''" and "\<not> pwFault w ''select node_bootstrap_tokens''"
  shows "Register w i d = (Inl ErrBootstrapTokenUsed, d)"
proof -
  obtain t where t: "t \<in> set (dbTokens d)" "btHash t = HashBootstrapToken (rnBootstrapToken i)" "btStatus t = ''used''"
    using assms(2) by (auto simp: used_hash_def)
  have "row_with btHash (HashBootstrapToken (rnBootstrapToken i)) (dbTokens d) = Some t"
    using row_with_distinct [of btHash "dbTokens d" t] t assms(1) by (simp add: node_store_ok_def tokens_inv_def)
  then show ?thesis
    using assms t by (auto simp: Register_def Register_body_def newNodeToken_def in_tx_def one_row_def token_guard_def)
qed

text \<open>
  C15 A bootstrap token registers one node, once: after a registration that used it, and any further requests, a second
  registration with the same token is refused as used and changes nothing.
\<close>

theorem bootstrap_token_single_use:
  assumes "node_store_ok d" and "Register w i d = (Inr x, d')"
    and "rnBootstrapToken j = rnBootstrapToken i" and "pwRand w' \<noteq> None"
    and "\<not> pwFault w' ''begin''" and "\<not> pwFault w' ''select node_bootstrap_tokens''"
  shows "Register w' j (fold node_step es d') = (Inl ErrBootstrapTokenUsed, fold node_step es d')"
proof -
  have ok: "node_store_ok d'" by (rule Register_inv [OF assms(1,2)])
  have all: "list_all (\<lambda>_. True) es" by (simp add: list_all_iff)
  have "used_hash (HashBootstrapToken (rnBootstrapToken j)) (fold node_step es d')"
    using used_view.run_stable [OF ok all Register_uses [OF assms(2)]] assms(3) by simp
  then show ?thesis by (rule used_token_rejected [OF node_store.run_inv [OF ok]]) (use assms in auto)
qed

section \<open>Reports\<close>

definition final_row :: "revision_row \<Rightarrow> db \<Rightarrow> bool" where
  "final_row v d \<longleftrightarrow> v \<in> set (dbRevisions d) \<and> cvStatus v \<noteq> ''pending''"

lemma final_step:
  assumes "final_row v d"
  shows "final_row v (node_step (w, e) d)"
proof (cases w e d rule: node_event_cases)
  case (token i token admin)
  then show ?thesis using assms by (auto simp: final_row_def put_simps)
next
  case (nodes P f changed)
  then show ?thesis using assms by (auto simp: final_row_def put_simps)
next
  case (register i m token)
  then show ?thesis using assms Register_frame [OF register(2)] by (auto simp: final_row_def)
next
  case (revision nodeText u' number current payload admin sv)
  then show ?thesis using assms store_revision_done [OF revision(3)] by (auto simp: final_row_def put_revisions_Inr)
next
  case (report i sv)
  obtain u rid d1 and z :: revision_row and changed
    where r: "put_revisions (upd_where (report_hits u rid (roNodeToken i) d) (reported_revision w i) (dbRevisions d)) d = Inr d1"
      "update_nodes (node_auth u (roNodeToken i)) (report_node w i (cvNumber z)) d1 = Inr (changed, node_step (w, e) d)"
    using Report_done [OF report(2)] by blast
  have "\<not> report_hits u rid (roNodeToken i) d v" using assms by (auto simp: final_row_def report_hits_def pending_for_def)
  then show ?thesis using r assms by (force simp: final_row_def put_revisions_Inr update_nodes_Inr set_upd_where)
qed (use assms in simp)

interpretation final_view: stable_view node_step node_store_ok "\<lambda>_. True" "final_row v" "\<lambda>_. ()" for v
proof unfold_locales
  fix d :: db and e
  assume "final_row v d"
  then show "final_row v (node_step e d) \<and> () = ()" using final_step [of v d "fst e" "snd e"] by simp
qed

lemma find_Some_D: "List.find P xs = Some x \<Longrightarrow> x \<in> set xs \<and> P x"
  by (auto simp: find_Some_iff)

lemma Report_frame:
  assumes "ReportConfigRevision w i d = (Inr sv, d')"
  shows "\<exists>u rid v. uuid_cast (roNodeID i) = Some u \<and> uuid_cast (roRevisionID i) = Some rid \<and> roStatus i \<in> {''applied'', ''failed''}
    \<and> v \<in> set (dbRevisions d) \<and> cvID v = rid \<and> cvNodeID v = u \<and> cvStatus v = ''pending'' \<and> list_ex (node_auth u (roNodeToken i)) (dbNodes d)
    \<and> sv = scanConfigRevision (reported_revision w i v)
    \<and> dbRevisions d' = upd_where (report_hits u rid (roNodeToken i) d) (reported_revision w i) (dbRevisions d)
    \<and> dbNodes d' = upd_where (node_auth u (roNodeToken i)) (report_node w i (cvNumber v)) (dbNodes d)"
proof -
  obtain u rid d1 and v :: revision_row and changed
    where r: "put_revisions (upd_where (report_hits u rid (roNodeToken i) d) (reported_revision w i) (dbRevisions d)) d = Inr d1"
      "update_nodes (node_auth u (roNodeToken i)) (report_node w i (cvNumber v)) d1 = Inr (changed, d')"
      "uuid_cast (roNodeID i) = Some u" "uuid_cast (roRevisionID i) = Some rid" "roStatus i \<in> {''applied'', ''failed''}"
      "List.find (report_hits u rid (roNodeToken i) d) (dbRevisions d) = Some v" "sv = scanConfigRevision (reported_revision w i v)"
    using Report_done [OF assms] by blast
  show ?thesis
    using r find_Some_D [OF r(6)] by (auto simp: put_revisions_Inr update_nodes_Inr report_hits_def pending_for_def)
qed

text \<open>
  C16 A report is the last word on a revision: it moves one pending revision of the reporting node to the reported
  status, and whatever requests follow, that revision stays as it was reported and no further report on it succeeds.
\<close>

theorem report_is_final:
  assumes "node_store_ok d" and "ReportConfigRevision w i d = (Inr sv, d')"
  shows "\<exists>v \<in> set (dbRevisions d). cvStatus v = ''pending'' \<and> sv = scanConfigRevision (reported_revision w i v)
    \<and> svrStatus sv = roStatus i
    \<and> reported_revision w i v \<in> set (dbRevisions (fold node_step es d'))
    \<and> (\<forall>w' j. uuid_cast (roRevisionID j) = uuid_cast (roRevisionID i) \<longrightarrow>
         \<not> is_ok (fst (ReportConfigRevision w' j (fold node_step es d'))))"
proof -
  obtain u rid and v :: revision_row where f0: "roStatus i \<in> {''applied'', ''failed''}" and r: "uuid_cast (roRevisionID i) = Some rid"
      "v \<in> set (dbRevisions d)" "cvID v = rid" "cvStatus v = ''pending''" "cvNodeID v = u" "list_ex (node_auth u (roNodeToken i)) (dbNodes d)"
      "sv = scanConfigRevision (reported_revision w i v)"
      "dbRevisions d' = upd_where (report_hits u rid (roNodeToken i) d) (reported_revision w i) (dbRevisions d)"
    using Report_frame [OF assms(2)] by (elim exE conjE) (rule that)
  let ?v = "reported_revision w i v" and ?d = "fold node_step es d'"
  have "report_hits u rid (roNodeToken i) d v" using r by (simp add: report_hits_def pending_for_def)
  then have "?v \<in> set (dbRevisions d')" using r(2,8) by (force simp: set_upd_where)
  then have "final_row ?v d'" by (simp add: final_row_def)
  moreover have ok: "node_store_ok d'" by (rule Report_inv [OF assms])
  moreover have "list_all (\<lambda>_. True) es" by (simp add: list_all_iff)
  ultimately have f: "final_row ?v ?d" using final_view.run_stable by blast
  have "\<not> is_ok (fst (ReportConfigRevision w' j ?d))" if j: "uuid_cast (roRevisionID j) = uuid_cast (roRevisionID i)" for w' j
  proof
    assume "is_ok (fst (ReportConfigRevision w' j ?d))"
    then obtain sv' d2 where "ReportConfigRevision w' j ?d = (Inr sv', d2)" by (metis is_ok_iff prod.collapse)
    then obtain rid' and z :: revision_row where "uuid_cast (roRevisionID j) = Some rid'" "cvID z = rid'"
        and z: "z \<in> set (dbRevisions ?d)" "cvStatus z = ''pending''"
      using Report_frame [of w' j ?d sv' d2] by blast
    then have zr: "cvID z = rid" using j r(1) by simp
    have "z = ?v"
      using distinct_key [of cvID "dbRevisions ?d" z ?v] node_store.run_inv [OF ok, of es] f z(1) zr r(3)
      by (simp add: node_store_ok_def revisions_inv_def final_row_def)
    then show False using f z by (simp add: final_row_def)
  qed
  moreover have "svrStatus sv = roStatus i" using r(7) f0 by (auto simp: scanConfigRevision_def)
  ultimately show ?thesis using f r(2,4,7) by (auto simp: final_row_def)
qed

section \<open>The lifecycle of a node\<close>

datatype lifecycle_command = DrainCmd | UndrainCmd | DisableCmd | EnableCmd

text \<open>The abstract machine on the pair of status and drain state.\<close>

fun lifecycle_next :: "lifecycle_command \<Rightarrow> string \<times> string \<Rightarrow> (string \<times> string) option" where
  "lifecycle_next DrainCmd (s, r) = (if s = ''disabled'' \<or> r = ''draining'' then None else Some (s, ''draining''))"
| "lifecycle_next UndrainCmd (s, r) = (if s = ''disabled'' \<or> r = ''active'' then None else Some (s, ''active''))"
| "lifecycle_next DisableCmd (s, r) = (if s = ''disabled'' then None else Some (''disabled'', r))"
| "lifecycle_next EnableCmd (s, r) = (if s = ''disabled'' then Some (''unhealthy'', r) else None)"

fun lifecycle_decide :: "lifecycle_command \<Rightarrow> Node \<Rightarrow> storage_error + nodeTransition" where
  "lifecycle_decide DrainCmd = decide_drain"
| "lifecycle_decide UndrainCmd = decide_undrain"
| "lifecycle_decide DisableCmd = decide_disable"
| "lifecycle_decide EnableCmd = decide_enable"

fun lifecycle_call :: "lifecycle_command \<Rightarrow> panel_world \<Rightarrow> string \<Rightarrow> db \<Rightarrow> (storage_error + Node) \<times> db" where
  "lifecycle_call DrainCmd = Drain"
| "lifecycle_call UndrainCmd = Undrain"
| "lifecycle_call DisableCmd = Disable"
| "lifecycle_call EnableCmd = Enable"

lemma lifecycle_call_transition: "lifecycle_call c w i d = transition w i (lifecycle_decide c) d"
  by (cases c) (simp_all add: lifecycle_defs)

lemma lifecycle_decide_next:
  assumes "ndStatus n \<noteq> []" and "ndDrainState n \<noteq> []"
  shows "case lifecycle_next c (ndStatus n, ndDrainState n) of
      None \<Rightarrow> lifecycle_decide c (scanNode w n) = Inl ErrInvalidNodeTransition
    | Some (s, r) \<Rightarrow> \<exists>next. lifecycle_decide c (scanNode w n) = Inr next
        \<and> transition_row w next (scanNode w n) m = m\<lparr> ndStatus := s, ndDrainState := r, ndUpdatedAt := pwPgNow w \<rparr>"
  using assms by (cases c) (simp_all add: decide_defs transition_row_def)

lemma filter_key: "distinct (map key rows) \<Longrightarrow> row_with key k rows = Some r \<Longrightarrow> filter (\<lambda>x. key x = k) rows = [r]"
proof (induction rows)
  case (Cons x rows)
  then show ?case by (cases "key x = k") (simp_all add: filter_empty_conv image_iff, blast)
qed simp

lemma upd_where_hash:
  assumes "\<And>n. nrAuthHash (f n) = nrAuthHash n"
  shows "List.map_filter nrAuthHash (upd_where P f rows) = List.map_filter nrAuthHash rows"
  using assms by (induction rows) (auto simp: List.map_filter_simps split: option.split)

abbreviation "node_statuses \<equiv> {''pending'', ''active'', ''unhealthy'', ''drained'', ''disabled''}"
abbreviation "drain_states \<equiv> {''active'', ''draining'', ''drained''}"

lemma node_row_states: "node_row_ok n \<Longrightarrow> ndStatus n \<in> node_statuses \<and> ndDrainState n \<in> drain_states"
  by (simp only: node_row_ok_def)

lemma node_row_with_states:
  "node_row_ok n \<Longrightarrow> s \<in> node_statuses \<Longrightarrow> r \<in> drain_states \<Longrightarrow> node_row_ok (n\<lparr> ndStatus := s, ndDrainState := r, ndUpdatedAt := t \<rparr>)"
  unfolding node_row_ok_def by simp

lemma lifecycle_next_states:
  "lifecycle_next c (s, r) = Some (s', r') \<Longrightarrow> s \<in> node_statuses \<Longrightarrow> r \<in> drain_states \<Longrightarrow> s' \<in> node_statuses \<and> r' \<in> drain_states"
  by (cases c; simp only: lifecycle_next.simps split: if_split_asm; simp)

lemma transition_run:
  assumes "pwFault w = (\<lambda>_. False)" and "uuid_cast i = Some u" and "node_by_id u d = Some n" and "decide (scanNode w n) = Inr next"
    and "update_nodes (\<lambda>m. ndID m = u) (transition_row w next (scanNode w n)) d = Inr ([c], d')"
  shows "transition w i decide d = (Inr (scanNode w c), d')"
  using assms by (simp add: transition_def Let_def in_tx_def one_row_def uuid_param_def first_row_def)

text \<open>
  C17 The lifecycle requests refine a machine on status and drain state: on an existing node, with a database that
  answers, each request does exactly the machine's step on the node's row (only those two columns and the update time),
  and where the machine has no step it is refused as an invalid transition and changes nothing.
\<close>

theorem lifecycle_refines:
  assumes "node_store_ok d" and "uuid_cast i = Some u" and "node_by_id u d = Some n" and "pwFault w = (\<lambda>_. False)"
  shows "lifecycle_call c w i d = (case lifecycle_next c (ndStatus n, ndDrainState n) of
      None \<Rightarrow> (Inl ErrInvalidNodeTransition, d)
    | Some (s, r) \<Rightarrow>
        (let step = (\<lambda>m :: node_row. m\<lparr> ndStatus := s, ndDrainState := r, ndUpdatedAt := pwPgNow w \<rparr>)
         in (Inr (scanNode w (step n)), d\<lparr> dbNodes := upd_where (\<lambda>m. ndID m = u) step (dbNodes d) \<rparr>)))"
proof -
  have n: "n \<in> set (dbNodes d)" "ndID n = u" using row_with_SomeD [OF assms(3) [unfolded node_by_id_def]] by simp_all
  have ni: "node_inv n" using n(1) assms(1) by (simp add: node_store_ok_def nodes_inv_def)
  note st = node_row_states [of n]
  have ok0: "node_row_ok n" "node_ints_ok n" using ni by (simp_all only: node_inv_def)
  have ne: "ndStatus n \<noteq> []" "ndDrainState n \<noteq> []" using st [OF ok0(1)] by auto
  show ?thesis
  proof (cases "lifecycle_next c (ndStatus n, ndDrainState n)")
    case None
    then show ?thesis
      using lifecycle_decide_next [OF ne, of c w] assms
      by (simp add: lifecycle_call_transition transition_def Let_def in_tx_def one_row_def uuid_param_def)
  next
    case (Some sr)
    obtain s r where sr: "sr = (s, r)" by fastforce
    let ?f = "\<lambda>m :: node_row. m\<lparr> ndStatus := s, ndDrainState := r, ndUpdatedAt := pwPgNow w \<rparr>"
    obtain "next" where nx: "lifecycle_decide c (scanNode w n) = Inr next" "\<And>m. transition_row w next (scanNode w n) m = ?f m"
      using lifecycle_decide_next [OF ne, of c w] Some sr
      by (cases c) (auto simp: decide_defs transition_row_def split: if_split_asm)
    have tr: "transition_row w next (scanNode w n) = ?f" using nx(2) by (simp add: fun_eq_iff)
    note sets2 = lifecycle_next_states [OF Some [unfolded sr] conjunct1 [OF st [OF ok0(1)]] conjunct2 [OF st [OF ok0(1)]]]
    note sets = conjunct1 [OF sets2] conjunct2 [OF sets2]
    have ok: "node_row_ok (?f n)" "node_ints_ok (?f n)"
      by (rule node_row_with_states [OF ok0(1) sets], use ok0(2) in \<open>simp add: node_ints_ok_def\<close>)
    have ch: "filter (\<lambda>m. ndID m = u) (dbNodes d) = [n]"
      using filter_key [of ndID "dbNodes d" u n] assms(1,3) by (simp add: node_store_ok_def nodes_inv_def node_by_id_def)
    have un: "update_nodes (\<lambda>m. ndID m = u) ?f d = Inr ([?f n], d\<lparr> dbNodes := upd_where (\<lambda>m. ndID m = u) ?f (dbNodes d) \<rparr>)"
      unfolding update_nodes_Inr using ok ch assms(1)
      by (simp add: upd_where_hash map_key_upd_where node_store_ok_def nodes_inv_def)
    have "lifecycle_call c w i d = (Inr (scanNode w (?f n)), d\<lparr> dbNodes := upd_where (\<lambda>m. ndID m = u) ?f (dbNodes d) \<rparr>)"
      unfolding lifecycle_call_transition
      by (rule transition_run [where decide = "lifecycle_decide c", OF assms(4,2,3) nx(1)]) (use un tr in simp)
    then show ?thesis by (simp only: Some sr option.case prod.case Let_def)
  qed
qed

end
