(* ===== verification/RevisionTheorems.thy ===== *)
theory RevisionTheorems
  imports NodesTheorems
begin

text \<open>
  The revisions of a node over the requests of administrators and agents: how they are numbered and signed when they
  are created, what the agent fetches, and the abstract log that the table refines.
\<close>

section \<open>Numbering\<close>

definition last_number :: "uuid \<Rightarrow> db \<Rightarrow> int" where
  "last_number u d = Max (insert 0 (cvNumber ` {v \<in> set (dbRevisions d). cvNodeID v = u}))"

lemma foldr_max: "foldr (\<lambda>v m. max (f v) m) xs (a :: int) = Max (insert a (f ` set xs))"
proof (induction xs)
  case (Cons x xs)
  have "insert a (f ` set (x # xs)) = insert (f x) (insert a (f ` set xs))" by auto
  then have "Max (insert a (f ` set (x # xs))) = max (f x) (Max (insert a (f ` set xs)))" by (simp only: Max_insert finite_insert finite_imageI finite_set insert_not_empty not_False_eq_True)
  then show ?case using Cons by simp
qed simp

lemma next_revision_Inr:
  "next_revision w u d = Inr n \<longleftrightarrow> \<not> pwFault w ''select max revision_number'' \<and> n = last_number u d + 1 \<and> int4 n"
  by (auto simp: next_revision_def bindE_Inr stmt_iff Let_def foldr_max last_number_def)

lemma last_number_ge: "v \<in> set (dbRevisions d) \<Longrightarrow> cvNodeID v = u \<Longrightarrow> cvNumber v \<le> last_number u d"
  unfolding last_number_def by (rule Max_ge) auto

lemma last_number_nonneg: "0 \<le> last_number u d"
  unfolding last_number_def by (rule Max_ge) auto

section \<open>Creation\<close>

text \<open>
  C18 A revision is created only for a node that is neither disabled nor drained nor draining.  It gets the number after
  the highest one of the node, starts pending, names the node's active revision as its rollback target, carries a
  payload that passes the panel's validator and a bundle that verifies; it is appended to the table and nothing else in
  the database changes.
\<close>

theorem created_revision:
  assumes "CreateDummyConfigRevision w reality i d = (Inr sv, d')"
  shows "\<exists>u n row. uuid_cast (cdNodeID i) = Some u \<and> node_by_id u d = Some n
    \<and> ndStatus n \<noteq> ''disabled'' \<and> ndDrainState n = ''active''
    \<and> d' = d\<lparr> dbRevisions := dbRevisions d @ [row] \<rparr> \<and> sv = scanConfigRevision row
    \<and> cvNodeID row = u \<and> cvNumber row = last_number u d + 1 \<and> cvStatus row = ''pending''
    \<and> cvRollbackTarget row = Some (ndActiveRevision n)
    \<and> Verify NewDevSigner (row_bundle (cdNodeID i) row) = Inr ()
    \<and> ValidateVLESSRealityPayload (Some (cvPayload row)) = Inr ()
    \<and> idx (cvPayload row) ''revision_number'' = AInt (cvNumber row)"
proof -
  obtain u number subs and n :: node_row where c: "uuid_cast (cdNodeID i) = Some u" "node_by_id u d = Some n" "node_open n"
      "next_revision w u d = Inr number"
      "store_revision w (cdNodeID i) u number (ndActiveRevision n)
       (RenderVLESSRealityPayloadWithReality (deploy_input (cdNodeID i) number n subs) reality) (cdCreatedBy i) d = Inr (sv, d')"
    using CreateDummy_done [OF assms] by blast
  let ?p = "RenderVLESSRealityPayloadWithReality (deploy_input (cdNodeID i) number n subs) reality"
  have num: "idx ?p ''revision_number'' = AInt number"
    by (simp add: RenderVLESSRealityPayloadWithReality_def Let_def deploy_input_def)
  obtain row :: revision_row where r: "sv = scanConfigRevision row" "put_revisions (dbRevisions d @ [row]) d = Inr d'" "cvNodeID row = u"
      "cvNumber row = number" "cvStatus row = ''pending''" "cvRollbackTarget row = Some (ndActiveRevision n)" "cvPayload row = ?p"
      "Verify NewDevSigner (row_bundle (cdNodeID i) row) = Inr ()" "ValidateVLESSRealityPayload (Some ?p) = Inr ()"
    using store_revision_done [OF c(5)] by blast
  have o: "ndStatus n \<noteq> ''disabled''" "ndDrainState n = ''active''" using c(3) by (simp_all add: node_open_def)
  have e: "d' = d\<lparr> dbRevisions := dbRevisions d @ [row] \<rparr>" using r(2) unfolding put_revisions_Inr by (rule conjunct1)
  have m: "number = last_number u d + 1" using c(4) by (simp add: next_revision_Inr)
  show ?thesis
    by (intro exI [of _ u] exI [of _ n] exI [of _ row] conjI) (use c r o e m num in simp_all)
qed

section \<open>The log of revisions\<close>

text \<open>What the table says of each number of each node.\<close>

definition revision_log :: "db \<Rightarrow> uuid \<times> int \<Rightarrow> string option" where
  "revision_log d = map_of (map (\<lambda>v. ((cvNodeID v, cvNumber v), cvStatus v)) (dbRevisions d))"

inductive log_step :: "(uuid \<times> int \<Rightarrow> string option) \<Rightarrow> (uuid \<times> int \<Rightarrow> string option) \<Rightarrow> bool" where
  stutter: "log_step l l"
| create: "0 < k \<Longrightarrow> (\<And>m. l (u, m) \<noteq> None \<Longrightarrow> m < k) \<Longrightarrow> log_step l (l((u, k) \<mapsto> ''pending''))"
| finish: "l (u, k) = Some ''pending'' \<Longrightarrow> s \<in> {''applied'', ''failed''} \<Longrightarrow> log_step l (l((u, k) \<mapsto> s))"

inductive_cases log_stepE: "log_step l l'"

lemma revision_log_SomeD: "revision_log d (u, k) = Some s \<Longrightarrow> \<exists>v \<in> set (dbRevisions d). cvNodeID v = u \<and> cvNumber v = k \<and> cvStatus v = s"
  by (auto simp: revision_log_def dest!: map_of_SomeD)

lemma revision_log_row:
  assumes "revisions_inv d" and "v \<in> set (dbRevisions d)"
  shows "revision_log d (cvNodeID v, cvNumber v) = Some (cvStatus v)"
  unfolding revision_log_def
  by (rule map_of_is_SomeI) (use assms in \<open>auto simp: revisions_inv_def o_def\<close>)

lemma revision_log_same: "dbRevisions d' = dbRevisions d \<Longrightarrow> log_step (revision_log d) (revision_log d')"
  by (simp add: revision_log_def stutter)

lemma revision_log_append:
  assumes "revision_log d (cvNodeID row, cvNumber row) = None" and "dbRevisions d' = dbRevisions d @ [row]"
  shows "revision_log d' = (revision_log d)((cvNodeID row, cvNumber row) \<mapsto> cvStatus row)"
  using assms by (auto simp: revision_log_def map_add_def fun_eq_iff split: option.split)

lemma creation_log:
  assumes "next_revision w u d = Inr number" and "store_revision w nodeText u number current payload admin d = Inr (sv, d')"
  shows "log_step (revision_log d) (revision_log d')"
proof -
  obtain row :: revision_row where r: "put_revisions (dbRevisions d @ [row]) d = Inr d'" "cvNodeID row = u" "cvNumber row = number"
      "cvStatus row = ''pending''"
    using store_revision_done [OF assms(2)] by (elim exE conjE) (rule that)
  have n: "number = last_number u d + 1" using assms(1) by (simp add: next_revision_Inr)
  have above: "k < number" if "revision_log d (u, k) \<noteq> None" for k
    using that n last_number_ge [of _ d u] by (fastforce dest!: revision_log_SomeD)
  have "dbRevisions d' = dbRevisions d @ [row]" using r(1) by (simp add: put_revisions_Inr)
  moreover have "revision_log d (cvNodeID row, cvNumber row) = None" using above r(2,3) by fastforce
  ultimately have "revision_log d' = (revision_log d)((u, number) \<mapsto> ''pending'')"
    using revision_log_append r by metis
  then show ?thesis using create [of number "revision_log d" u] above n last_number_nonneg [of u d] by simp
qed

lemma report_log:
  assumes "node_store_ok d" and "ReportConfigRevision w i d = (Inr sv, d')"
  shows "log_step (revision_log d) (revision_log d')"
proof -
  obtain u rid and v :: revision_row where s: "roStatus i \<in> {''applied'', ''failed''}" and r: "v \<in> set (dbRevisions d)" "cvID v = rid" "cvNodeID v = u"
      "cvStatus v = ''pending''" "list_ex (node_auth u (roNodeToken i)) (dbNodes d)"
      "dbRevisions d' = upd_where (report_hits u rid (roNodeToken i) d) (reported_revision w i) (dbRevisions d)"
    using Report_frame [OF assms(2)] by (elim exE conjE) (rule that)
  note inv = assms(1) [unfolded node_store_ok_def revisions_inv_def]
  have hits: "report_hits u rid (roNodeToken i) d z \<longleftrightarrow> z = v" if "z \<in> set (dbRevisions d)" for z
    using that r inv distinct_key [of cvID "dbRevisions d" z v] by (auto simp: report_hits_def pending_for_def)
  have keys: "z = v" if "z \<in> set (dbRevisions d)" "(cvNodeID z, cvNumber z) = (cvNodeID v, cvNumber v)" for z
    using that r inv distinct_key [of "\<lambda>v. (cvNodeID v, cvNumber v)" "dbRevisions d" z v] by auto
  have "revision_log d' = (revision_log d)((u, cvNumber v) \<mapsto> roStatus i)"
  proof
    fix k :: "uuid \<times> int"
    have "map_of (map (\<lambda>v. ((cvNodeID v, cvNumber v), cvStatus v)) (upd_where (report_hits u rid (roNodeToken i) d) (reported_revision w i) vs)) k
        = (if k = (u, cvNumber v) \<and> v \<in> set vs then Some (roStatus i) else map_of (map (\<lambda>v. ((cvNodeID v, cvNumber v), cvStatus v)) vs) k)"
      if "set vs \<subseteq> set (dbRevisions d)" for vs
      using that
    proof (induction vs)
      case (Cons z vs)
      show ?case using Cons hits [of z] keys [of z] s r(3) by auto
    qed simp
    from this [of "dbRevisions d"]
    show "revision_log d' k = ((revision_log d)((u, cvNumber v) \<mapsto> roStatus i)) k"
      using r by (simp add: revision_log_def)
  qed
  moreover have "revision_log d (u, cvNumber v) = Some ''pending''"
    using revision_log_row [of d v] r assms(1) by (simp add: node_store_ok_def)
  ultimately show ?thesis using finish s by simp
qed

text \<open>
  C19 The revision table refines the log: every request leaves the log as it is, or adds one pending entry under a number
  higher than all of its node, or turns one pending entry into applied or failed.  No entry is removed, renumbered or
  reopened.
\<close>

theorem revisions_refine_log:
  assumes "node_store_ok d"
  shows "log_step (revision_log d) (revision_log (node_step (w, e) d))"
proof (cases w e d rule: node_event_cases)
  case nothing
  then show ?thesis by (simp add: stutter)
next
  case (token i token admin)
  then have "dbRevisions (node_step (w, e) d) = dbRevisions d" by (auto simp: put_simps)
  then show ?thesis by (rule revision_log_same)
next
  case (nodes P f changed)
  then have "dbRevisions (node_step (w, e) d) = dbRevisions d" by (auto simp: put_simps)
  then show ?thesis by (rule revision_log_same)
next
  case (register i m token)
  then have "dbRevisions (node_step (w, e) d) = dbRevisions d" using Register_frame [OF register(2)] by (elim exE conjE)
  then show ?thesis by (rule revision_log_same)
next
  case (revision nodeText u number current payload admin sv)
  show ?thesis by (rule creation_log [OF revision(2,3)])
next
  case (report i sv)
  show ?thesis by (rule report_log [OF assms report(2)])
qed

section \<open>Deployments that succeed\<close>

text \<open>
  When the panel creates a revision for sure, and that the agent of the node is given exactly that one; then a small
  concrete installation on which the theorems about the node store are applied.
\<close>

section \<open>Creation succeeds\<close>

lemma store_revision_succeeds:
  assumes "is_ok (ValidateVLESSRealityPayload (Some payload))" and "\<not> pwFault w ''insert config_revisions''"
    and "node_store_ok d" and "u \<in> ndID ` set (dbNodes d)" and "number = last_number u d + 1" and "int4 number"
    and "0 \<le> current" and "pwID w ''config_revisions'' \<notin> cvID ` set (dbRevisions d)"
  shows "\<exists>row. store_revision w t u number current payload [] d = Inr (scanConfigRevision row, d\<lparr> dbRevisions := dbRevisions d @ [row] \<rparr>)
    \<and> cvNodeID row = u \<and> cvNumber row = number \<and> cvStatus row = ''pending'' \<and> cvID row = pwID w ''config_revisions''"
proof -
  let ?b = "\<lparr> bdNodeID = t, bdRevisionNumber = number, bdStatus = ''pending'', bdBundleHash = HashPayload (Some payload), bdSignature = [],
      bdSigner = DefaultSigner, bdRollbackTarget = current, bdPayload = Some payload \<rparr>"
  let ?row = "\<lparr> cvID = pwID w ''config_revisions'', cvNodeID = u, cvNumber = number, cvHash = HashPayload (Some payload),
      cvSignature = Sign NewDevSigner ?b, cvSigner = DefaultSigner, cvStatus = ''pending'', cvRollbackTarget = Some current,
      cvPayload = payload, cvCreatedBy = None, cvCreatedAt = pwPgNow w, cvAppliedAt = None, cvFailedAt = None,
      cvRolledBackAt = None, cvErrorMessage = None \<rparr>"
  obtain v where v: "ValidateVLESSRealityPayload (Some payload) = Inr v" using assms(1) by (cases "ValidateVLESSRealityPayload (Some payload)") auto
  have inv: "revisions_inv d" using assms(3) by (simp add: node_store_ok_def)
  have new: "(u, number) \<notin> (\<lambda>v. (cvNodeID v, cvNumber v)) ` set (dbRevisions d)"
    using last_number_ge [of _ d u] assms(5) by force
  have pos: "0 < number" using last_number_nonneg [of u d] assms(5) by simp
  have "revision_row_ok ?row" using pos assms(7) by (simp add: revision_row_ok_def)
  moreover have "list_all revision_row_ok (dbRevisions d)" "list_all (\<lambda>v. int4 (cvNumber v)) (dbRevisions d)"
    using inv by (auto simp: revisions_inv_def revision_inv_def list_all_iff)
  moreover have "distinct (map cvID (dbRevisions d @ [?row]))"
    "distinct (map (\<lambda>v. (cvNodeID v, cvNumber v)) (dbRevisions d @ [?row]))"
    using inv new assms(8) by (auto simp: revisions_inv_def)
  moreover have "list_all (\<lambda>v. cvNodeID v \<in> ndID ` set (dbNodes d) \<and> known_admin d (cvCreatedBy v)) (dbRevisions d @ [?row])"
    using inv assms(4) by (auto simp: revisions_inv_def known_admin_def list_all_iff)
  ultimately have p: "put_revisions (dbRevisions d @ [?row]) d = Inr (d\<lparr> dbRevisions := dbRevisions d @ [?row] \<rparr>)"
    unfolding put_revisions_Inr using assms(6) by (simp add: list_all_iff known_admin_def)
  show ?thesis
    by (rule exI [of _ ?row]) (use v p assms(2) in \<open>simp add: store_revision_def Let_def admin_param_def\<close>)
qed

text \<open>What an installation needs for a revision of a node to be created.\<close>

definition can_render :: "RealityConfig \<Rightarrow> db \<Rightarrow> bool" where
  "can_render reality d \<longleftrightarrow> list_all (\<lambda>s. TrimSpace (suID s) \<noteq> []) (dbSubscriptions d)
     \<and> TrimSpace (rcDest (WithDefaults reality)) \<noteq> [] \<and> TrimSpace (rcPrivateKey (WithDefaults reality)) \<noteq> []"

lemma map_filter_inD: "y \<in> set (List.map_filter f xs) \<Longrightarrow> \<exists>x \<in> set xs. f x = Some y"
  by (auto simp: List.map_filter_def)

lemma inputs_nonblank:
  assumes "can_render reality d" and "listConfigSubscriptionInputs w region d = Inr subs"
  shows "list_all (\<lambda>s. TrimSpace (siSubscriptionID s) \<noteq> []) subs"
proof -
  have "\<exists>r \<in> set (dbSubscriptions d). siSubscriptionID s = suID r" if s: "s \<in> set subs" for s
  proof -
    obtain r :: subscription_row and u p where "r \<in> set (dbSubscriptions d)" "subscription_input r u p = s"
      using s assms(2)
      by (auto simp: listConfigSubscriptionInputs_def stmt_simps dest!: map_filter_inD split: option.splits if_split_asm)
    then show ?thesis by (auto simp: subscription_input_def)
  qed
  then show ?thesis using assms(1) by (fastforce simp: can_render_def list_all_iff)
qed

lemma creation_result:
  assumes "node_store_ok d" and "pwFault w = (\<lambda>_. False)" and "uuid_cast (cdNodeID i) = Some u" and "node_by_id u d = Some n"
    and "node_open n" and "0 \<le> ndActiveRevision n" and "cdCreatedBy i = []" and "last_number u d < 2 ^ 31 - 1"
    and "pwID w ''config_revisions'' \<notin> cvID ` set (dbRevisions d)" and "can_render reality d"
  shows "\<exists>row. CreateDummyConfigRevision w reality i d = (Inr (scanConfigRevision row), d\<lparr> dbRevisions := dbRevisions d @ [row] \<rparr>)
    \<and> cvNodeID row = u \<and> cvNumber row = last_number u d + 1 \<and> cvStatus row = ''pending'' \<and> cvID row = pwID w ''config_revisions''"
proof -
  have nx: "next_revision w u d = Inr (last_number u d + 1)" and i4: "int4 (last_number u d + 1)"
    using assms(2,8) last_number_nonneg [of u d] by (simp_all add: next_revision_Inr int4_def)
  obtain subs where subs: "listConfigSubscriptionInputs w (ndRegion n) d = Inr subs"
    using assms(2) by (simp add: listConfigSubscriptionInputs_def)
  let ?p = "RenderVLESSRealityPayloadWithReality (deploy_input (cdNodeID i) (last_number u d + 1) n subs) reality"
  have ok: "is_ok (ValidateVLESSRealityPayload (Some ?p))"
    using inputs_nonblank [OF assms(10) subs] assms(10)
    by (simp add: render_payload_conforms renderable_def deploy_input_def can_render_def)
  have u: "u \<in> ndID ` set (dbNodes d)" using row_with_SomeD [OF assms(4) [unfolded node_by_id_def]] by auto
  obtain row where "store_revision w (cdNodeID i) u (last_number u d + 1) (ndActiveRevision n) ?p [] d
      = Inr (scanConfigRevision row, d\<lparr> dbRevisions := dbRevisions d @ [row] \<rparr>)"
      "cvNodeID row = u" "cvNumber row = last_number u d + 1" "cvStatus row = ''pending''" "cvID row = pwID w ''config_revisions''"
    using store_revision_succeeds [OF ok _ assms(1) u refl i4 assms(6,9), of "cdNodeID i"] assms(2) by auto
  then show ?thesis
    using assms nx subs by (intro exI [of _ row]) (simp add: CreateDummyConfigRevision_def in_tx_def uuid_param_def one_row_def)
qed

lemma sort_key_max:
  assumes "v \<in> set xs" and "\<And>x. x \<in> set xs \<Longrightarrow> x \<noteq> v \<Longrightarrow> key x < (key v :: int)"
  shows "first_row (sort_key (\<lambda>x. - key x) xs) = Some v"
proof -
  let ?s = "sort_key (\<lambda>x. - key x) xs"
  have "?s \<noteq> []" using assms(1) by (metis empty_iff list.set(1) set_sort)
  then obtain h t where s: "?s = h # t" by (cases ?s) auto
  have "sorted (map (\<lambda>x. - key x) (h # t))" using sorted_sort_key [of "\<lambda>x. - key x" xs] s by simp
  moreover have "v \<in> set (h # t)" using assms(1) s by (metis set_sort)
  ultimately have "key v \<le> key h" by auto
  moreover have "h \<in> set xs" using s by (metis list.set_intros(1) set_sort)
  ultimately have "h = v" using assms(2) by force
  then show ?thesis using s by (simp add: first_row_def)
qed

lemma CreateDummy_row:
  assumes "CreateDummyConfigRevision w reality i d = (Inr sv, d')"
  obtains u n row where "uuid_cast (cdNodeID i) = Some u" "node_by_id u d = Some n" "node_open n" "sv = scanConfigRevision row"
    "d' = d\<lparr> dbRevisions := dbRevisions d @ [row] \<rparr>" "cvNodeID row = u" "cvNumber row = last_number u d + 1" "cvStatus row = ''pending''"
proof -
  obtain u n number subs where c: "uuid_cast (cdNodeID i) = Some u" "node_by_id u d = Some n" "node_open n" "next_revision w u d = Inr number"
      "store_revision w (cdNodeID i) u number (ndActiveRevision n)
       (RenderVLESSRealityPayloadWithReality (deploy_input (cdNodeID i) number n subs) reality) (cdCreatedBy i) d = Inr (sv, d')"
    using CreateDummy_done [OF assms] by blast
  obtain row where r: "sv = scanConfigRevision row" "put_revisions (dbRevisions d @ [row]) d = Inr d'" "cvNodeID row = u" "cvNumber row = number"
      "cvStatus row = ''pending''"
    using store_revision_done [OF c(5)] by blast
  show thesis by (rule that [OF c(1-3) r(1)]) (use r c(4) in \<open>simp_all add: put_revisions_Inr next_revision_Inr\<close>)
qed

lemma CreateDummy_id: "CreateDummyConfigRevision w reality i d = (Inr sv, d') \<Longrightarrow> svrID sv = pwID w ''config_revisions''"
  using CreateDummy_done [of w reality i d sv d'] store_revision_done [of w "cdNodeID i"] by (fastforce simp: scanConfigRevision_def)

lemma created_is_latest:
  assumes "node_store_ok d" and "node_by_id u d = Some n" and "node_open n" and "nrAuthHash n = Some (HashNodeToken token)"
    and "cvNodeID row = u" and "cvNumber row = last_number u d + 1" and "cvStatus row = ''pending''"
    and "uuid_cast nodeText = Some u" and "\<not> pwFault w ''select config_revision''"
  shows "FindLatestPendingConfigRevision w nodeText token (d\<lparr> dbRevisions := dbRevisions d @ [row] \<rparr>) = Inr (scanConfigRevision row)"
proof -
  let ?d = "d\<lparr> dbRevisions := dbRevisions d @ [row] \<rparr>"
  have n: "n \<in> set (dbNodes d)" "ndID n = u" using row_with_SomeD [OF assms(2) [unfolded node_by_id_def]] by simp_all
  have "ndRegisteredAt n \<noteq> None" using assms(1,4) n(1) by (auto simp: node_store_ok_def nodes_inv_def node_inv_def)
  then have auth: "list_ex (node_auth u token) (dbNodes ?d)"
    using n assms(3,4) by (auto simp: list_ex_iff node_auth_def node_open_def)
  have "first_row (sort_key (\<lambda>v. - cvNumber v) (pending_for u token ?d)) = Some row"
  proof (rule sort_key_max)
    show "row \<in> set (pending_for u token ?d)" using assms auth by (simp add: pending_for_def)
    show "cvNumber x < cvNumber row" if "x \<in> set (pending_for u token ?d)" "x \<noteq> row" for x
      using that assms last_number_ge [of x d u] by (auto simp: pending_for_def split: if_split_asm)
  qed
  then show ?thesis using assms(8,9) by (simp add: FindLatestPendingConfigRevision_def uuid_param_def one_row_def)
qed

text \<open>
  A deployment goes through: for a registered node that is neither disabled nor draining, with a database that
  answers, a free row identifier and inputs that can be rendered, the panel creates the revision, and the next poll of
  the node's agent is given that revision and no older pending one.
\<close>

theorem deployment_reaches_poll:
  assumes "node_store_ok d" and "pwFault w = (\<lambda>_. False)" and "uuid_cast (cdNodeID i) = Some u" and "node_by_id u d = Some n"
    and "node_open n" and "0 \<le> ndActiveRevision n" and "cdCreatedBy i = []" and "last_number u d < 2 ^ 31 - 1"
    and "pwID w ''config_revisions'' \<notin> cvID ` set (dbRevisions d)" and "can_render reality d"
    and "nrAuthHash n = Some (HashNodeToken token)" and "\<not> pwFault w' ''select config_revision''"
  shows "\<exists>sv d'. CreateDummyConfigRevision w reality i d = (Inr sv, d') \<and> svrNumber sv = last_number u d + 1
    \<and> FindLatestPendingConfigRevision w' (cdNodeID i) token d' = Inr sv"
proof -
  obtain row where r: "CreateDummyConfigRevision w reality i d = (Inr (scanConfigRevision row), d\<lparr> dbRevisions := dbRevisions d @ [row] \<rparr>)"
      "cvNodeID row = u" "cvNumber row = last_number u d + 1" "cvStatus row = ''pending''"
    using creation_result [OF assms(1-10)] by blast
  let ?d = "d\<lparr> dbRevisions := dbRevisions d @ [row] \<rparr>"
  have "FindLatestPendingConfigRevision w' (cdNodeID i) token ?d = Inr (scanConfigRevision row)"
    by (rule created_is_latest) (use assms r in simp_all)
  then show ?thesis using r by (intro exI [of _ "scanConfigRevision row"] exI [of _ ?d]) (simp add: scanConfigRevision_def)
qed

end
