(* ===== verification/WireProps.thy ===== *)
theory WireProps
  imports AgentClient Delivery RevisionTheorems
begin

text \<open>
  Sending and decoding: a struct that is marshalled, sent and decoded into a struct with the same keys comes back field
  by field, and the path of a request comes back segment by segment.
\<close>

section \<open>Structs\<close>

definition struct_keys :: "string list \<Rightarrow> bool" where
  "struct_keys ks \<longleftrightarrow> distinct ks \<and> list_all (\<lambda>k. map to_lower_char k = k \<and> ascii k) ks"

abbreviation wire_obj :: "obj \<Rightarrow> obj" where
  "wire_obj m \<equiv> map (\<lambda>(k, v). (utf8_coerce k, wire v)) m"

lemma struct_lower: "struct_keys ks \<Longrightarrow> k \<in> set ks \<Longrightarrow> map to_lower_char k = k"
  by (simp add: struct_keys_def list_all_iff)

lemma struct_append:
  "struct_keys (map fst (A @ B @ C)) \<Longrightarrow> struct_keys (map fst (A @ omit_empty B @ (if e then [] else C)))"
  by (auto simp: struct_keys_def omit_empty_def distinct_map_filter list_all_iff)

lemma members_struct:
  assumes "struct_keys (map fst m)" and "map to_lower_char k = k"
  shows "members m k = (case map_of m k of None \<Rightarrow> [] | Some v \<Rightarrow> [v])"
  using assms
proof (induction m)
  case (Cons x m)
  obtain j v where x: "x = (j, v)" by fastforce
  have j: "map to_lower_char j = j" "struct_keys (map fst m)" "j \<notin> fst ` set m" using Cons.prems by (auto simp: x struct_keys_def)
  show ?case
  proof (cases "j = k")
    case True
    then have "map_of m k = None" using j(3) by (simp add: map_of_eq_None_iff)
    then have "members m k = []" using Cons.IH j(2) Cons.prems(2) by simp
    then show ?thesis using True by (simp add: members_def x)
  next
    case False
    then have "map to_lower_char j \<noteq> map to_lower_char k" using j(1) Cons.prems(2) by (simp only: not_False_eq_True)
    then show ?thesis using False Cons.IH j(2) Cons.prems(2) by (simp add: members_def x del: to_lower_char.simps)
  qed
qed (simp add: members_def)

lemma wire_obj_keys: "struct_keys (map fst m) \<Longrightarrow> map fst (wire_obj m) = map fst m"
  by (auto simp: struct_keys_def list_all_iff utf8_coerce_ascii)

lemma idx_wire_obj: "struct_keys (map fst m) \<Longrightarrow> idx (wire_obj m) k = wire (idx m k)"
  by (induction m) (auto simp: struct_keys_def utf8_coerce_ascii)

lemma dec_struct:
  assumes "struct_keys (map fst m)" and "map to_lower_char k = k"
  shows "dec f z m k = (if idx m k = ANil then Some z else f (idx m k))"
  using assms by (auto simp: dec_def members_struct idx_def split: option.split)

lemma dec_ptr_struct:
  assumes "struct_keys (map fst m)" and "map to_lower_char k = k"
  shows "dec_ptr f m k = (if idx m k = ANil then Some None else map_option Some (f (idx m k)))"
  using assms by (auto simp: dec_ptr_def members_struct idx_def split: option.split)

lemma dec_wire:
  assumes "struct_keys (map fst m)" and "map to_lower_char k = k"
  shows "dec f z (wire_obj m) k = (if wire (idx m k) = ANil then Some z else f (wire (idx m k)))"
proof -
  have "struct_keys (map fst (wire_obj m))" using assms(1) wire_obj_keys [OF assms(1)] by (simp only:)
  from dec_struct [OF this assms(2)] show ?thesis by (simp only: idx_wire_obj [OF assms(1)])
qed

lemma wire_nil [simp]: "wire v = ANil \<longleftrightarrow> v = ANil"
  by (cases v) auto

text \<open>A field as \<open>omitempty\<close> writes it: left out when it is empty.\<close>

definition holds_field :: "obj \<Rightarrow> string \<Rightarrow> any \<Rightarrow> bool" where
  "holds_field m k v \<longleftrightarrow> idx m k = v \<or> (idx m k = ANil \<and> (v = AStr [] \<or> v = AInt 0))"

lemma holds_append:
  "holds_field (A @ X) k v \<longleftrightarrow> (if has_key A k then holds_field A k v else holds_field X k v)"
  by (auto simp: holds_field_def idx_def has_key_def map_add_def split: option.split)

lemma holds_omit:
  assumes "distinct (map fst (omit_empty B @ X))" and "distinct (map fst B)" and "(k, v) \<in> set B" and "k \<notin> fst ` set X"
  shows "holds_field (omit_empty B @ X) k v"
proof (cases "v = AStr [] \<or> v = AInt 0")
  case True
  then have "k \<notin> fst ` set (omit_empty B)" using assms(2,3) eq_key_imp_eq_value [OF assms(2)] by (fastforce simp: omit_empty_def)
  then have "k \<notin> fst ` set (omit_empty B @ X)" using assms(4) by auto
  then have "map_of (omit_empty B @ X) k = None" by (simp only: map_of_eq_None_iff not_False_eq_True)
  then have "idx (omit_empty B @ X) k = ANil" unfolding idx_def by (simp only: option.case)
  then show ?thesis using True by (simp add: holds_field_def)
next
  case False
  then have "(k, v) \<in> set (omit_empty B @ X)" using assms(3) by (simp add: omit_empty_def)
  then have "map_of (omit_empty B @ X) k = Some v" by (rule map_of_is_SomeI [OF assms(1)])
  then have "idx (omit_empty B @ X) k = v" unfolding idx_def by (simp only: option.case)
  then show ?thesis by (simp add: holds_field_def)
qed

lemma dec_str_wire:
  "struct_keys (map fst m) \<Longrightarrow> map to_lower_char k = k \<Longrightarrow> holds_field m k (AStr s) \<Longrightarrow> utf8_valid s \<Longrightarrow> dec_str (wire_obj m) k = Some s"
  by (auto simp: dec_str_def dec_wire holds_field_def utf8_valid_def)

lemma dec_int_wire:
  "struct_keys (map fst m) \<Longrightarrow> map to_lower_char k = k \<Longrightarrow> holds_field m k (AInt n) \<Longrightarrow> int8 n \<Longrightarrow> dec_int (wire_obj m) k = Some n"
  by (auto simp: dec_int_def dec_wire holds_field_def)

lemma dec_time_wire:
  "struct_keys (map fst m) \<Longrightarrow> map to_lower_char k = k \<Longrightarrow> idx m k = AStr (RFC3339Nano t) \<Longrightarrow> dated t \<Longrightarrow> dec_time (wire_obj m) k = Some t"
  by (simp add: dec_time_def dec_wire utf8_coerce_ascii ParseRFC3339_format dated_def)

section \<open>Paths\<close>

text \<open>A constant segment.\<close>

definition plain_segment :: "string \<Rightarrow> bool" where
  "plain_segment s \<longleftrightarrow> CHR ''/'' \<notin> set s \<and> CHR ''%'' \<notin> set s"

lemma segments_node_url:
  assumes "plain_segment x"
  shows "url_segments (base_url c) (node_url c i (CHR ''/'' # x)) = Some [''api'', ''v1'', ''nodes'', i, x]"
    and "plain_segment y \<Longrightarrow> url_segments (base_url c) (node_url c i (CHR ''/'' # x @ CHR ''/'' # y)) = Some [''api'', ''v1'', ''nodes'', i, x, y]"
    and "plain_segment y \<Longrightarrow> url_segments (base_url c) (node_url c i (CHR ''/'' # x @ CHR ''/'' # PathEscape r @ CHR ''/'' # y))
       = Some [''api'', ''v1'', ''nodes'', i, x, r, y]"
proof -
  have u: "url_segments (base_url c) (node_url c i (CHR ''/'' # t))
      = all_some (map PathUnescape (''api'' # ''v1'' # ''nodes'' # PathEscape i # split_on (CHR ''/'') t))" for t
  proof -
    have e: "node_url c i (CHR ''/'' # t) = (base_url c @ ''/'') @ ''api'' @ CHR ''/'' # ''v1'' @ CHR ''/'' # ''nodes'' @ CHR ''/'' # PathEscape i @ CHR ''/'' # t"
      by (simp add: node_url_def)
    have "split_on (CHR ''/'') (''api'' @ CHR ''/'' # ''v1'' @ CHR ''/'' # ''nodes'' @ CHR ''/'' # PathEscape i @ CHR ''/'' # t)
        = ''api'' # ''v1'' # ''nodes'' # PathEscape i # split_on (CHR ''/'') t"
      by (simp only: split_on_append [OF PathEscape_no_slash] split_on_append [of "CHR ''/''" "''api''", simplified]
          split_on_append [of "CHR ''/''" "''v1''", simplified] split_on_append [of "CHR ''/''" "''nodes''", simplified] append.simps)
        (simp add: split_on_append [OF PathEscape_no_slash])
    moreover have "drop (length (base_url c) + 1) (node_url c i (CHR ''/'' # t))
        = ''api'' @ CHR ''/'' # ''v1'' @ CHR ''/'' # ''nodes'' @ CHR ''/'' # PathEscape i @ CHR ''/'' # t"
      by (simp add: e)
    ultimately show ?thesis unfolding url_segments_def using e has_prefix_append [of "base_url c @ ''/''"] by (simp only: if_True)
  qed
  have p: "split_on (CHR ''/'') x = [x]" "PathUnescape x = Some x" using assms by (simp_all add: plain_segment_def split_on_no_sep PathUnescape_plain)
  have lit: "PathUnescape ''api'' = Some ''api''" "PathUnescape ''v1'' = Some ''v1''" "PathUnescape ''nodes'' = Some ''nodes''"
    by (simp_all add: PathUnescape_plain)
  show "url_segments (base_url c) (node_url c i (CHR ''/'' # x)) = Some [''api'', ''v1'', ''nodes'', i, x]"
    by (simp only: u p) (simp add: p lit del: PathUnescape.simps)
  have xs: "CHR ''/'' \<notin> set x" using assms by (simp add: plain_segment_def)
  assume y: "plain_segment y"
  then have q: "split_on (CHR ''/'') y = [y]" "PathUnescape y = Some y" by (simp_all add: plain_segment_def split_on_no_sep PathUnescape_plain)
  show "url_segments (base_url c) (node_url c i (CHR ''/'' # x @ CHR ''/'' # y)) = Some [''api'', ''v1'', ''nodes'', i, x, y]"
    by (simp only: u split_on_append [OF xs] q) (simp add: p q lit del: PathUnescape.simps)
  show "url_segments (base_url c) (node_url c i (CHR ''/'' # x @ CHR ''/'' # PathEscape r @ CHR ''/'' # y))
       = Some [''api'', ''v1'', ''nodes'', i, x, r, y]"
    by (simp only: u split_on_append [OF xs] split_on_append [OF PathEscape_no_slash] q) (simp add: p q lit del: PathUnescape.simps)
qed

end
