(* ===== verification/AgentSupervisor.thy ===== *)
theory AgentSupervisor
  imports AgentService
begin

text \<open>
  \<open>services/node-agent/internal/agent/xray_supervisor.go\<close>: the supervisor of the Xray child process.  Its goroutines
  run concurrently, so it is a machine of atomic steps: each step is what one goroutine does between two lock or
  channel operations.  \<open>PrepareStart\<close> makes a new pair of channels (\<open>stopCh\<close>, \<open>done\<close>); the pair is called a
  generation and numbered, \<open>0\<close> before the first call.  A channel is closed when its generation is in the list of
  closed ones.  The operating system's part is in the steps: whether a start succeeds and with which process id, when a
  child exits, and which timer fires.  The machine is executable: \<open>sup_next\<close> gives the state after a step, or
  nothing when the step is not possible (a goroutine blocked on a channel has no step).
\<close>

section \<open>State\<close>

abbreviation xraySupervisorBackoffInit :: nat where "xraySupervisorBackoffInit \<equiv> 1"
abbreviation xraySupervisorBackoffMax :: nat where "xraySupervisorBackoffMax \<equiv> 30"

text \<open>Where a supervising goroutine is: before its first lock, before the head of the loop, in the select on the
  child, in \<open>gracefulStop\<close>, in the select on the back-off timer.\<close>

datatype loop_pc = LEnter | LHead | LWait | LGrace | LBackoff

record sup_loop =
  lpPc :: loop_pc
  lpGen :: nat
  lpCmd :: int
  lpBackoff :: nat

text \<open>Where the caller of \<open>PrepareStart\<close> and the caller of \<open>Stop\<close> are.\<close>

datatype prepare_pc = PIdle | PWaits nat string | PStarts
datatype stop_pc = SIdle | SWaits nat

record XraySupervisor =
  spCmd :: int
  spPid :: int
  spConfig :: string
  spState :: string
  spGen :: nat
  spStopped :: bool
  spEvents :: "RuntimeEvent list"
  spStopClosed :: "nat list"
  spDoneClosed :: "nat list"
  spPanicked :: bool
  spAlive :: "int list"
  spLoops :: "sup_loop list"
  spPrep :: prepare_pc
  spStop :: stop_pc

definition NewXraySupervisor :: XraySupervisor where
  "NewXraySupervisor = \<lparr> spCmd = 0, spPid = 0, spConfig = [], spState = ProcessStateStopped, spGen = 0, spStopped = False,
     spEvents = [], spStopClosed = [], spDoneClosed = [], spPanicked = False, spAlive = [], spLoops = [], spPrep = PIdle,
     spStop = SIdle \<rparr>"

section \<open>Operations under the lock\<close>

definition append_sup_event :: "instant \<Rightarrow> string \<Rightarrow> string \<Rightarrow> string \<Rightarrow> XraySupervisor \<Rightarrow> XraySupervisor" where
  "append_sup_event now ty status message s =
     s\<lparr> spEvents := cut_trail (spEvents s @ [(new_event ty status 0 message)\<lparr> reAt := now \<rparr>]) \<rparr>"

text \<open>\<open>startProcess\<close>: the outcome is the error text or the process id of the child.\<close>

definition startProcess :: "instant \<Rightarrow> string + int \<Rightarrow> XraySupervisor \<Rightarrow> XraySupervisor" where
  "startProcess now outcome s = (case outcome of
     Inl e \<Rightarrow> s\<lparr> spState := ProcessStateFailed, spPid := 0 \<rparr>
   | Inr pid \<Rightarrow> append_sup_event now ''process_started'' ''started'' ''xray process started''
       (s\<lparr> spCmd := pid, spPid := pid, spState := ProcessStateRunning, spAlive := pid # spAlive s \<rparr>))"

text \<open>The operating system gives a child an id no other child has.\<close>

fun start_possible :: "string + int \<Rightarrow> XraySupervisor \<Rightarrow> bool" where
  "start_possible (Inl e) s = True"
| "start_possible (Inr pid) s = (0 < pid \<and> pid \<notin> set (spAlive s))"

definition prepare_result :: "instant \<Rightarrow> string + int \<Rightarrow> RuntimeProcessResult \<times> agent_error option" where
  "prepare_result now outcome = (case outcome of
     Inl e \<Rightarrow> (\<lparr> xrProcessState = ProcessStateFailed, xrAttempt = AttemptFailed, xrErrorMessage = e, xrAt = now \<rparr>,
               Some (AErrOther e))
   | Inr pid \<Rightarrow> (\<lparr> xrProcessState = ProcessStateRunning, xrAttempt = AttemptReady, xrErrorMessage = [], xrAt = now \<rparr>, None))"

definition close_stop :: "XraySupervisor \<Rightarrow> XraySupervisor" where
  "close_stop s = s\<lparr> spStopped := True, spStopClosed := spGen s # spStopClosed s \<rparr>"

definition open_generation :: "string \<Rightarrow> XraySupervisor \<Rightarrow> XraySupervisor" where
  "open_generation path s = s\<lparr> spConfig := path, spGen := Suc (spGen s), spStopped := False, spPrep := PStarts \<rparr>"

definition set_loop :: "nat \<Rightarrow> sup_loop \<Rightarrow> XraySupervisor \<Rightarrow> XraySupervisor" where
  "set_loop i l s = s\<lparr> spLoops := (spLoops s)[i := l] \<rparr>"

text \<open>The deferred \<open>close(done)\<close> of a supervising goroutine; closing a closed channel panics.\<close>

definition end_loop :: "nat \<Rightarrow> nat \<Rightarrow> XraySupervisor \<Rightarrow> XraySupervisor" where
  "end_loop i g s = (if g \<in> set (spDoneClosed s) then s\<lparr> spPanicked := True \<rparr>
     else s\<lparr> spDoneClosed := g # spDoneClosed s, spLoops := take i (spLoops s) @ drop (Suc i) (spLoops s) \<rparr>)"

definition note_stopped :: "instant \<Rightarrow> string \<Rightarrow> XraySupervisor \<Rightarrow> XraySupervisor" where
  "note_stopped now message s =
     append_sup_event now ''process_stopped'' ''stopped'' message (s\<lparr> spState := ProcessStateStopped, spPid := 0 \<rparr>)"

section \<open>Steps\<close>

text \<open>
  \<open>CallPrepare\<close> and \<open>CallStop\<close> are the calls, up to their first block; \<open>PrepareSeesDone\<close> and \<open>StopSeesDone\<close> the
  receive from \<open>done\<close>; \<open>StartRuns\<close> the start of the child and, when it succeeds, of the supervising goroutine.
  \<open>ChildExits\<close> is the operating system; the other steps are those of the \<open>i\<close>-th supervising goroutine.
\<close>

datatype sup_event =
    CallPrepare string
  | PrepareSeesDone
  | StartRuns "string + int"
  | CallStop
  | StopSeesDone
  | ChildExits int
  | LoopEnters nat
  | LoopHead nat
  | SeesStop nat
  | SeesExit nat "string option"
  | TimerFires nat "string + int"
  | KillsChild nat
  | GraceEnds nat

fun is_call :: "sup_event \<Rightarrow> bool" where
  "is_call (CallPrepare p) = True"
| "is_call CallStop = True"
| "is_call _ = False"

definition sees_stop :: "instant \<Rightarrow> nat \<Rightarrow> sup_loop \<Rightarrow> XraySupervisor \<Rightarrow> XraySupervisor option" where
  "sees_stop now i l s =
     (if lpGen l \<notin> set (spStopClosed s) then None
      else if lpPc l = LWait then Some (set_loop i (l\<lparr> lpPc := LGrace \<rparr>) s)
      else if lpPc l = LBackoff then
        Some (end_loop i (lpGen l) (append_sup_event now ''process_stopped'' ''stopped'' ''xray process stopped during backoff''
          (s\<lparr> spState := ProcessStateStopped \<rparr>)))
      else None)"

definition crash_message :: "string option \<Rightarrow> string" where
  "crash_message err = (case err of None \<Rightarrow> ''xray process crashed'' | Some e \<Rightarrow> ''xray process crashed: '' @ e)"

definition sees_exit :: "instant \<Rightarrow> nat \<Rightarrow> string option \<Rightarrow> sup_loop \<Rightarrow> XraySupervisor \<Rightarrow> XraySupervisor option" where
  "sees_exit now i err l s =
     (if lpPc l \<noteq> LWait \<or> lpCmd l \<in> set (spAlive s) then None
      else if lpGen l \<in> set (spStopClosed s) then Some (end_loop i (lpGen l) (note_stopped now ''xray process stopped'' s))
      else Some (set_loop i (l\<lparr> lpPc := LBackoff \<rparr>)
        (append_sup_event now ''process_crashed'' ''crashed'' (crash_message err)
          (s\<lparr> spState := ProcessStateRestarting, spPid := 0 \<rparr>))))"

definition next_backoff :: "nat \<Rightarrow> nat" where
  "next_backoff b = (if xraySupervisorBackoffMax < 2 * b then xraySupervisorBackoffMax else 2 * b)"

definition timer_fires :: "instant \<Rightarrow> nat \<Rightarrow> string + int \<Rightarrow> sup_loop \<Rightarrow> XraySupervisor \<Rightarrow> XraySupervisor option" where
  "timer_fires now i outcome l s =
     (if lpPc l \<noteq> LBackoff \<or> \<not> start_possible outcome s then None
      else (case outcome of
        Inl e \<Rightarrow> Some (end_loop i (lpGen l) ((startProcess now outcome s)\<lparr> spState := ProcessStateFailed \<rparr>))
      | Inr pid \<Rightarrow> Some (set_loop i (l\<lparr> lpPc := LHead, lpBackoff := next_backoff (lpBackoff l) \<rparr>)
          (append_sup_event now ''process_restarted'' ''restarted'' ''xray process restarted'' (startProcess now outcome s)))))"

text \<open>\<open>gracefulStop\<close>: after SIGTERM it waits for the child, and kills it when the stop timeout passes first.\<close>

definition kills_child :: "sup_loop \<Rightarrow> XraySupervisor \<Rightarrow> XraySupervisor option" where
  "kills_child l s = (if lpPc l = LGrace \<and> lpCmd l \<in> set (spAlive s)
     then Some (s\<lparr> spAlive := removeAll (lpCmd l) (spAlive s) \<rparr>) else None)"

definition grace_ends :: "instant \<Rightarrow> nat \<Rightarrow> sup_loop \<Rightarrow> XraySupervisor \<Rightarrow> XraySupervisor option" where
  "grace_ends now i l s = (if lpPc l = LGrace \<and> lpCmd l \<notin> set (spAlive s)
     then Some (end_loop i (lpGen l) (note_stopped now ''xray process stopped'' s)) else None)"

fun loop_step :: "instant \<Rightarrow> sup_event \<Rightarrow> nat \<Rightarrow> sup_loop \<Rightarrow> XraySupervisor \<Rightarrow> XraySupervisor option" where
  "loop_step now (LoopEnters i) j l s = (if lpPc l = LEnter
     then Some (set_loop j (l\<lparr> lpPc := LHead, lpGen := spGen s, lpBackoff := xraySupervisorBackoffInit \<rparr>) s) else None)"
| "loop_step now (LoopHead i) j l s = (if lpPc l = LHead then Some (set_loop j (l\<lparr> lpPc := LWait, lpCmd := spCmd s \<rparr>) s) else None)"
| "loop_step now (SeesStop i) j l s = sees_stop now j l s"
| "loop_step now (SeesExit i err) j l s = sees_exit now j err l s"
| "loop_step now (TimerFires i outcome) j l s = timer_fires now j outcome l s"
| "loop_step now (KillsChild i) j l s = kills_child l s"
| "loop_step now (GraceEnds i) j l s = grace_ends now j l s"
| "loop_step now _ j l s = None"

fun loop_index :: "sup_event \<Rightarrow> nat option" where
  "loop_index (LoopEnters i) = Some i"
| "loop_index (LoopHead i) = Some i"
| "loop_index (SeesStop i) = Some i"
| "loop_index (SeesExit i err) = Some i"
| "loop_index (TimerFires i outcome) = Some i"
| "loop_index (KillsChild i) = Some i"
| "loop_index (GraceEnds i) = Some i"
| "loop_index _ = None"

definition new_loop :: sup_loop where
  "new_loop = \<lparr> lpPc = LEnter, lpGen = 0, lpCmd = 0, lpBackoff = 0 \<rparr>"

definition PrepareStart :: "string \<Rightarrow> XraySupervisor \<Rightarrow> XraySupervisor" where
  "PrepareStart path s = (if spGen s \<noteq> 0 \<and> \<not> spStopped s
     then (close_stop s)\<lparr> spPrep := PWaits (spGen s) path \<rparr> else open_generation path s)"

definition prepare_starts :: "instant \<Rightarrow> string + int \<Rightarrow> XraySupervisor \<Rightarrow> XraySupervisor" where
  "prepare_starts now outcome s = (case outcome of
     Inl e \<Rightarrow> (startProcess now outcome s)\<lparr> spPrep := PIdle \<rparr>
   | Inr pid \<Rightarrow> (startProcess now outcome s)\<lparr> spLoops := spLoops s @ [new_loop], spPrep := PIdle \<rparr>)"

definition Stop :: "XraySupervisor \<Rightarrow> XraySupervisor" where
  "Stop s = (let s' = (if spGen s \<noteq> 0 \<and> \<not> spStopped s then close_stop s else s)
     in if spGen s = 0 then s' else s'\<lparr> spStop := SWaits (spGen s) \<rparr>)"

fun call_step :: "instant \<Rightarrow> sup_event \<Rightarrow> XraySupervisor \<Rightarrow> XraySupervisor option" where
  "call_step now (CallPrepare path) s = (if spPrep s = PIdle then Some (PrepareStart path s) else None)"
| "call_step now PrepareSeesDone s = (case spPrep s of
     PWaits g path \<Rightarrow> if g \<in> set (spDoneClosed s) then Some (open_generation path s) else None
   | _ \<Rightarrow> None)"
| "call_step now (StartRuns outcome) s =
     (if spPrep s = PStarts \<and> start_possible outcome s then Some (prepare_starts now outcome s) else None)"
| "call_step now CallStop s = (if spStop s = SIdle then Some (Stop s) else None)"
| "call_step now StopSeesDone s = (case spStop s of
     SWaits g \<Rightarrow> if g \<in> set (spDoneClosed s) then Some (s\<lparr> spStop := SIdle \<rparr>) else None
   | SIdle \<Rightarrow> None)"
| "call_step now (ChildExits pid) s =
     (if pid \<in> set (spAlive s) then Some (s\<lparr> spAlive := removeAll pid (spAlive s) \<rparr>) else None)"
| "call_step now _ s = None"

definition sup_next :: "instant \<Rightarrow> sup_event \<Rightarrow> XraySupervisor \<Rightarrow> XraySupervisor option" where
  "sup_next now ev s = (if spPanicked s then None else case loop_index ev of
     Some i \<Rightarrow> if i < length (spLoops s) then loop_step now ev i (spLoops s ! i) s else None
   | None \<Rightarrow> call_step now ev s)"

fun sup_run :: "(instant \<times> sup_event) list \<Rightarrow> XraySupervisor \<Rightarrow> XraySupervisor option" where
  "sup_run [] s = Some s"
| "sup_run ((now, ev) # evs) s = (case sup_next now ev s of None \<Rightarrow> None | Some s' \<Rightarrow> sup_run evs s')"

text \<open>Calls one at a time: a call comes only when no other call has yet to return.\<close>

definition calling :: "XraySupervisor \<Rightarrow> bool" where
  "calling s = (spPrep s \<noteq> PIdle \<or> spStop s \<noteq> SIdle)"

fun serial_run :: "(instant \<times> sup_event) list \<Rightarrow> XraySupervisor \<Rightarrow> XraySupervisor option" where
  "serial_run [] s = Some s"
| "serial_run ((now, ev) # evs) s = (if is_call ev \<and> calling s then None
     else case sup_next now ev s of None \<Rightarrow> None | Some s' \<Rightarrow> serial_run evs s')"

text \<open>A call is blocked on \<open>done\<close>.\<close>

definition blocked :: "XraySupervisor \<Rightarrow> bool" where
  "blocked s = ((\<exists>g p. spPrep s = PWaits g p) \<or> (\<exists>g. spStop s = SWaits g))"

section \<open>The supervisor as a process runner\<close>

text \<open>What \<open>PrepareStart\<close> returns once it is not blocked: the world's outcome of the start decides.\<close>

definition XraySupervisorRunner :: process_runner where
  "XraySupervisorRunner w request = prepare_result (wNow w) (wStart w)"

interpretation xray: process_runner XraySupervisorRunner
  by unfold_locales (auto simp: XraySupervisorRunner_def prepare_result_def split: sum.splits)

end
