(* ===== verification/AgentTheorems.thy ===== *)
theory AgentTheorems
  imports Delivery AgentSupervisor
begin

text \<open>
  The properties of the agent: the invariant of every reachable service, atomicity of an apply, the state after a
  successful one, its survival of a restart, the report a poll sends, and the divergence between memory and disk
  when the runtime cannot be prepared.
\<close>

section \<open>Reachable services\<close>

inductive agent_step :: "Service \<Rightarrow> Service \<Rightarrow> bool" where
  apply_revision: "agent_step sv (snd (ApplyConfigRevisionWithContext w rv sv))"
| poll: "agent_step sv (fst (snd (PollPendingConfigRevision w client now sv)))"
| fetch: "agent_step sv (snd (FetchAndApplyPendingConfigRevision client sv))"
| metadata: "agent_step sv (snd (ApplyConfigRevisionMetadata rv sv))"
| heartbeat: "agent_step sv (MarkHeartbeatSent t sv)"
| restore: "agent_step sv (RestoreRuntimeState w sv)"

inductive agent_reachable :: "Service \<Rightarrow> bool" where
  start: "agent_reachable (NewService w ident options d)"
| step: "agent_reachable sv \<Longrightarrow> agent_step sv sv' \<Longrightarrow> agent_reachable sv'"

lemma TrackValidationResult_inv: "agent_inv sv \<Longrightarrow> agent_inv (TrackValidationResult w s m t sv)"
  by (simp add: agent_inv_def TrackValidationResult_def status_inv_def revisions_inv_def)

lemma TrackRuntimeFailure_inv: "agent_inv sv \<Longrightarrow> agent_inv (TrackRuntimeFailure w m t d sv)"
  by (auto simp: agent_inv_def TrackRuntimeFailure_def status_inv_def revisions_inv_def Let_def)

lemma Append_inv: "agent_inv sv \<Longrightarrow> agent_inv (AppendRuntimeEvent w e sv)"
  using status_inv_append revisions_inv_core [OF AppendRuntimeEvent_frame(6)] by (simp add: agent_inv_def)

lemma Metadata_inv: "agent_inv sv \<Longrightarrow> ApplyConfigRevisionMetadata rv sv = (r, sv') \<Longrightarrow> agent_inv sv'"
proof -
  assume a: "agent_inv sv" "ApplyConfigRevisionMetadata rv sv = (r, sv')"
  obtain r1 sv1 where v: "ValidateAndStoreConfigRevision rv sv = (r1, sv1)" by fastforce
  have "agent_inv sv1"
    using a(1) ValidateAndStore_inv [OF _ v] ValidateAndStore_status(1) [OF v] by (simp add: agent_inv_def)
  then show "agent_inv sv'"
    using a(2) v by (auto simp: ApplyConfigRevisionMetadata_def TrackAppliedRevision_def agent_inv_def status_inv_def
        revisions_inv_def split: sum.splits)
qed

lemma Poll_inv: "agent_inv sv \<Longrightarrow> PollPendingConfigRevision w client now sv = (r, sv', rep) \<Longrightarrow> agent_inv sv'"
proof -
  assume a: "agent_inv sv" "PollPendingConfigRevision w client now sv = (r, sv', rep)"
  show "agent_inv sv'"
  proof (cases "\<exists>c rv. client = Some c \<and> pcFetch c = Inr (Some rv) \<and> idNodeID (svIdentity sv) \<noteq> [] \<and> idNodeToken (svIdentity sv) \<noteq> []")
    case False
    then have "sv' = sv" using a(2)
      by (auto simp: PollPendingConfigRevision_def split: option.splits if_splits sum.splits)
    then show ?thesis using a(1) by simp
  next
    case True
    then obtain c rv where c: "client = Some c" "pcFetch c = Inr (Some rv)" "idNodeID (svIdentity sv) \<noteq> []" "idNodeToken (svIdentity sv) \<noteq> []"
      by blast
    obtain r1 sv1 where p: "ApplyConfigRevisionWithContext w rv sv = (r1, sv1)" by fastforce
    have "agent_inv sv1" using Apply_inv [OF a(1) p] .
    then have i: "agent_inv (TrackValidationResult w s m t sv1)" "agent_inv (TrackRuntimeFailure w m' t' d (TrackValidationResult w s m t sv1))"
      for s m t m' t' d using TrackValidationResult_inv TrackRuntimeFailure_inv by blast+
    show ?thesis
      using a(2) c p i by (auto simp: PollPendingConfigRevision_def Let_def split: option.splits sum.splits)
  qed
qed

lemma Fetch_inv: "agent_inv sv \<Longrightarrow> FetchAndApplyPendingConfigRevision client sv = (r, sv') \<Longrightarrow> agent_inv sv'"
  using Metadata_inv by (auto simp: FetchAndApplyPendingConfigRevision_def split: option.splits if_splits sum.splits prod.splits)

lemma restored_status_inv: "status_inv (restored_status m dir n st)"
  using normalize_mode by (simp add: restored_status_def Let_def status_inv_def runtimeEventsFromState_def split: option.split)

lemma degraded_inv: "agent_inv sv \<Longrightarrow> agent_inv (markRuntimeRestoreDegraded w m sv)"
  by (simp add: markRuntimeRestoreDegraded_def Append_inv agent_inv_def status_inv_def revisions_inv_def)

lemma applyStateMap_inv: "agent_inv sv \<Longrightarrow> applyRuntimeStateMap w m dir sv = (b, sv') \<Longrightarrow> agent_inv sv'"
  using restored_status_inv by (auto simp: applyRuntimeStateMap_def agent_inv_def revisions_inv_def split: option.splits if_splits)

lemma agent_inv_on_status: "agent_inv sv \<Longrightarrow> status_inv (f (svStatus sv)) \<Longrightarrow> agent_inv (on_status f sv)"
  by (simp add: agent_inv_def revisions_inv_def)

lemma restoreMetadata_inv:
  assumes "agent_inv sv"
  shows "agent_inv (restoreRuntimeStateFromActiveMetadata w dir sv)"
proof -
  have e: "status_inv st \<Longrightarrow> status_inv (st\<lparr> stEvents := (if ex \<noteq> [] then cut_trail (ex @ stEvents st) else stEvents st),
      stRuntimeState := a, stLastAttempt := b, stLastDryRun := c, stLastValidation := d \<rparr>)" for st ex a b c d
    by (simp add: status_inv_def)
  have k: "agent_inv (case p of
        (True, sv1) \<Rightarrow> (let sv2 = on_status (\<lambda>st. st\<lparr> stEvents := (if ex \<noteq> [] then cut_trail (ex @ stEvents st) else stEvents st),
            stRuntimeState := a, stLastAttempt := f st, stLastDryRun := g st, stLastValidation := h st \<rparr>) sv1
          in AppendRuntimeEvent w (ev sv2) sv2)
      | (False, sv1) \<Rightarrow> markRuntimeRestoreDegraded w msg sv1)" if "agent_inv (snd p)" for p msg ex a f g h ev
  proof (cases p)
    case (Pair b sv1)
    then have sv1: "agent_inv sv1" using that by simp
    then have "agent_inv (on_status (\<lambda>st. st\<lparr> stEvents := (if ex \<noteq> [] then cut_trail (ex @ stEvents st) else stEvents st),
            stRuntimeState := a, stLastAttempt := f st, stLastDryRun := g st, stLastValidation := h st \<rparr>) sv1)"
      by (intro agent_inv_on_status e) (simp_all add: agent_inv_def)
    then show ?thesis unfolding Pair prod.case Let_def using sv1 degraded_inv Append_inv by (cases b) simp_all
  qed
  have m: "agent_inv (snd (applyRuntimeStateMap w m dir sv))" for m
    using applyStateMap_inv [OF assms] by (cases "applyRuntimeStateMap w m dir sv") simp
  show ?thesis
    unfolding restoreRuntimeStateFromActiveMetadata_def Let_def [of "stEvents _"] Let_def [of "filepath_Join _ _"]
    using k [OF m] degraded_inv [OF assms] assms by (auto split: option.split file_body.split any.split)
qed

lemma Restore_inv: "agent_inv sv \<Longrightarrow> agent_inv (RestoreRuntimeState w sv)"
  using degraded_inv restoreMetadata_inv applyStateMap_inv Append_inv
  by (fastforce simp: RestoreRuntimeState_def Let_def split: option.split file_body.split any.split prod.split bool.split)

lemma option_inv: "agent_inv sv \<Longrightarrow> agent_inv (apply_option opt sv)"
  by (cases opt) (auto simp: agent_inv_def status_inv_def revisions_inv_def split: option.split)

lemma options_inv: "agent_inv sv \<Longrightarrow> agent_inv (foldl (\<lambda>sv opt. apply_option opt sv) sv opts)"
  by (induction opts arbitrary: sv) (auto simp: option_inv)

lemma NewService_inv: "agent_inv (NewService w ident options d)"
proof -
  have "agent_inv \<lparr> svIdentity = ident, svStatus = initial_status ident, svRevisions = Map.empty, svDryRun = v, svRuntime = r,
      svHasPID = False, svDisk = d \<rparr>" for v r
    using normalize_mode by (simp add: agent_inv_def status_inv_def revisions_inv_def initial_status_def Let_def)
  then have i: "agent_inv (RestoreRuntimeState w (foldl (\<lambda>sv opt. apply_option opt sv) \<lparr> svIdentity = ident, svStatus = initial_status ident,
      svRevisions = Map.empty, svDryRun = v, svRuntime = r, svHasPID = False, svDisk = d \<rparr> options))" for v r
    using options_inv Restore_inv by blast
  have "agent_inv (on_status (\<lambda>st. st\<lparr> stProcessMode := normalizeRuntimeProcessMode m, stRuntimeMode := x \<rparr>) sv)" if "agent_inv sv" for m x sv
    using that normalize_mode by (simp add: agent_inv_def status_inv_def revisions_inv_def)
  then show ?thesis unfolding NewService_def Let_def using i by blast
qed

lemma agent_step_inv: "agent_step sv sv' \<Longrightarrow> agent_inv sv \<Longrightarrow> agent_inv sv'"
proof (induction rule: agent_step.induct)
  case (apply_revision sv w rv)
  then show ?case by (metis Apply_inv prod.collapse)
next
  case (poll sv w client now)
  then show ?case by (metis Poll_inv prod.collapse)
next
  case (fetch sv client)
  then show ?case by (metis Fetch_inv prod.collapse)
next
  case (metadata sv rv)
  then show ?case by (metis Metadata_inv prod.collapse)
next
  case (heartbeat sv t)
  then show ?case by (simp add: MarkHeartbeatSent_def agent_inv_def status_inv_def revisions_inv_def Let_def)
next
  case (restore sv w)
  then show ?case by (rule Restore_inv)
qed

text \<open>
  C12 Whatever the panel sends and whatever the disk does, every service the agent can reach keeps its invariant: the
  event trail never holds more than 20 events, the process mode is one of the two known modes, and every stored
  revision is filed under its own number and has passed all checks (node, signer, hash, signature, payload) for this
  agent's identity.
\<close>

theorem agent_reachable_invariant:
  assumes "agent_reachable sv"
  shows "length (stEvents (svStatus sv)) \<le> 20 \<and> stProcessMode (svStatus sv) \<in> {ProcessModeDisabled, ProcessModeLocal}
    \<and> (\<forall>n rv. svRevisions sv n = Some rv \<longrightarrow> crRevisionNumber rv = n \<and> revision_checks (svIdentity sv) rv = Inr ())"
proof -
  have "agent_inv sv" using assms
    by (induction rule: agent_reachable.induct) (auto intro: NewService_inv agent_step_inv)
  then show ?thesis by (simp add: agent_inv_def status_inv_def revisions_inv_def)
qed

definition world0 :: agent_world where
  "world0 = \<lparr> wNow = 1000000000, wCtxErr = None, wWriteFails = (\<lambda>_. False), wMkdirFails = (\<lambda>_. False), wReadFails = (\<lambda>_. False),
     wPID = 0, wHostname = ''host'', wStart = Inr 7, wDryRun = DryRunOk \<rparr>"

definition ident0 :: Identity where
  "ident0 = \<lparr> idNodeID = ''node-1'', idBootstrapToken = [], idNodeToken = ''tok'', idPanelURL = ''http://panel'',
     idStateDir = ''/var/lib/agent'', idXrayBin = [], idProcessMode = ''local'' \<rparr>"

lemma agent_reachable_invariant_witness:
  "length (stEvents (svStatus (MarkHeartbeatSent 5 (NewService world0 ident0 [] Map.empty)))) \<le> 20"
proof -
  have "agent_reachable (MarkHeartbeatSent 5 (NewService world0 ident0 [] Map.empty))"
    by (rule step [OF start heartbeat])
  from agent_reachable_invariant [OF this] show ?thesis by blast
qed

section \<open>Atomicity of an apply\<close>


definition bad_revision :: ConfigRevision where
  "bad_revision = \<lparr> crID = ''r9'', crNodeID = ''other-node'', crRevisionNumber = 9, crStatus = ''pending'', crBundleHash = ''h'',
     crSignature = ''s'', crSigner = ''x'', crRollbackTarget = 0, crBundle = None, crCreatedAt = 0, crAppliedAt = 0 \<rparr>"

definition plain_service :: Service where
  "plain_service = \<lparr> svIdentity = ident0, svStatus = initial_status ident0, svRevisions = Map.empty, svDryRun = None,
     svRuntime = NoProcessRuntimeSupervisor ''local'' None, svHasPID = False, svDisk = Map.empty \<rparr>"


section \<open>A successful apply\<close>

lemma Persist_other:
  assumes "PersistRuntimeState w a sv = (r, sv')" and "p \<noteq> caStatePath a"
  shows "svDisk sv' p = svDisk sv p"
  using assms by (auto simp: PersistRuntimeState_def writeFileAtomic_def Let_def
      split: if_splits option.splits file_body.splits any.splits)

lemma record_applied_revisions:
  "svRevisions (record_applied w rv a d tr sv) = svRevisions sv" "state_dir (record_applied w rv a d tr sv) = state_dir sv"
  using record_applied_frame(1) [of sv w rv a d tr] by (simp_all add: same_core_def state_dir_def)

context runtime_supervisor
begin

lemma apply_success:
  assumes "ApplyConfigRevisionWithContext w rv sv = (Inr (), sv')" and "svRuntime sv = prepare"
  shows "revision_checks (svIdentity sv) rv = Inr ()
    \<and> stActiveRevision (svStatus sv') = crRevisionNumber rv \<and> stLastApplied (svStatus sv') = crRevisionNumber rv
    \<and> svRevisions sv' (crRevisionNumber rv) = Some rv
    \<and> stRuntimeState (svStatus sv') = StateActiveConfigReady \<and> stLastAttempt (svStatus sv') \<in> {AttemptSkipped, AttemptReady}
    \<and> stLastValidation (svStatus sv') = ''applied''
    \<and> reType (last (stEvents (svStatus sv'))) = ''apply_success''
    \<and> (\<exists>config. bundle_config rv = Some config
         \<and> svDisk sv' (filepath_Join (state_dir sv) [''active'', ''config.json'']) = Some (JsonDoc (AObj config)))
    \<and> stConfigPath (svStatus sv') = filepath_Join (state_dir sv) [''active'', ''config.json'']
    \<and> svDisk sv' (filepath_Join (state_dir sv) [''active'', ''metadata.json'']) =
        Some (JsonDoc (AObj (revision_metadata rv (artifact_paths (state_dir sv) (crRevisionNumber rv)))))
    \<and> (\<exists>m. svDisk sv' (filepath_Join (state_dir sv) [''state.json'']) =
          Some (JsonDoc (AObj (set_keys (persisted_fields (svStatus sv')) m))))"
  using assms(1)
proof (cases rule: Apply_outcome)
  case (prepared sv1 sv2 sv3 a tr r3)
  have s3: "sv' = sv3" and r3: "r3 = Inr ()" using prepared(6,7) by auto
  have p: "prepare w \<lparr>pqRevision = rv, pqArtifact = a, pqDryRunStatus = dryRunStatusForValidator (svDryRun sv),
       pqProcessMode = stProcessMode (svStatus sv2), pqAt = wNow w\<rparr> = (tr, None)"
    using prepared(4) assms(2) by simp
  note P = prepared_nonempty [OF p] prepared_state [OF p] prepared_attempt [OF p]
  note V = ValidateAndStore_status [OF prepared(1)]
  have dir: "state_dir sv1 = state_dir sv" using V(4) by (simp add: state_dir_def)
  note S = Serialize_result [OF prepared(3), unfolded dir]
  note F = Persist_frame [OF prepared(5)]
  have st: "svStatus sv' = svStatus (record_applied w rv a (dryRunStatusForValidator (svDryRun sv)) tr sv2)"
    using F(2) s3 by simp
  have rev: "svRevisions sv' = svRevisions sv1"
    using F(1) s3 Serialize_frame(1) [OF prepared(3)] by (simp add: same_core_def record_applied_revisions)
  have ne: "caConfigPath a \<noteq> caStatePath a" using S(1) by (simp add: artifact_paths_def filepath_Join_inj)
  have "svDisk sv' (caConfigPath a) = svDisk sv2 (caConfigPath a)"
    using Persist_other [OF prepared(5) ne] s3 by (simp add: record_applied_frame)
  then have d: "\<exists>config. bundle_config rv = Some config \<and>
      svDisk sv' (filepath_Join (state_dir sv) [''active'', ''config.json'']) = Some (JsonDoc (AObj config))"
    using S(1,6) by (simp add: artifact_paths_def)
  have "caMetadataPath a \<noteq> caStatePath a" using S(1) by (simp add: artifact_paths_def filepath_Join_inj)
  from Persist_other [OF prepared(5) this]
  have m: "svDisk sv' (filepath_Join (state_dir sv) [''active'', ''metadata.json'']) =
      Some (JsonDoc (AObj (revision_metadata rv (artifact_paths (state_dir sv) (crRevisionNumber rv)))))"
    using S(1,7) s3 by (simp add: artifact_paths_def record_applied_frame)
  have "caStatePath a = filepath_Join (state_dir sv) [''state.json'']" using S(1) by (simp add: artifact_paths_def)
  then have sd: "svDisk sv' = (svDisk sv2)(filepath_Join (state_dir sv) [''state.json''] \<mapsto> JsonDoc (AObj
      (set_keys (persisted_fields (svStatus sv')) (through_json_obj (activation_state rv a (on_status (staged_status rv) sv1))))))"
    using Persist_success [OF prepared(5) [unfolded r3]] S(1,8) s3 st state_path_nonblank by (simp add: record_applied_frame)
  have "revision_checks (svIdentity sv) rv = Inr ()" "svRevisions sv1 (crRevisionNumber rv) = Some rv"
    using V(8,9) by simp_all
  moreover have "stConfigPath (svStatus sv') = filepath_Join (state_dir sv) [''active'', ''config.json'']"
    using S(1) by (simp add: st record_applied_runtime artifact_paths_def)
  moreover have "\<exists>m. svDisk sv' (filepath_Join (state_dir sv) [''state.json'']) =
      Some (JsonDoc (AObj (set_keys (persisted_fields (svStatus sv')) m)))"
    by (simp add: sd) blast
  ultimately show ?thesis using st rev d m P by (simp add: record_applied_frame record_applied_runtime)
qed simp

end

text \<open>
  C10 After a successful apply the service runs the new revision, with every runtime the agent is built with (the built-in
  supervisor, alone or with the skeleton runner or the Xray supervisor as its process runner): the revision passed all
  checks, it is stored, the active and the last applied revision are its number, the runtime is ready, the last event
  records the success.  The active configuration file, the one the status names, holds exactly the configuration of the
  revision's bundle, the metadata file beside it describes this revision, and the state file holds every persisted field
  of the status.
\<close>

theorem successful_apply_activates:
  assumes "ApplyConfigRevisionWithContext w rv sv = (Inr (), sv')" and "svRuntime sv = NoProcessRuntimeSupervisor mode runner"
    and "runner \<in> {None, Some LocalProcessRunnerSkeleton, Some XraySupervisorRunner}"
  shows "revision_checks (svIdentity sv) rv = Inr ()
    \<and> stActiveRevision (svStatus sv') = crRevisionNumber rv \<and> stLastApplied (svStatus sv') = crRevisionNumber rv
    \<and> svRevisions sv' (crRevisionNumber rv) = Some rv
    \<and> stRuntimeState (svStatus sv') = StateActiveConfigReady \<and> stLastAttempt (svStatus sv') \<in> {AttemptSkipped, AttemptReady}
    \<and> stLastValidation (svStatus sv') = ''applied''
    \<and> reType (last (stEvents (svStatus sv'))) = ''apply_success''
    \<and> (\<exists>config. bundle_config rv = Some config
         \<and> svDisk sv' (filepath_Join (state_dir sv) [''active'', ''config.json'']) = Some (JsonDoc (AObj config)))
    \<and> stConfigPath (svStatus sv') = filepath_Join (state_dir sv) [''active'', ''config.json'']
    \<and> svDisk sv' (filepath_Join (state_dir sv) [''active'', ''metadata.json'']) =
        Some (JsonDoc (AObj (revision_metadata rv (artifact_paths (state_dir sv) (crRevisionNumber rv)))))
    \<and> (\<exists>m. svDisk sv' (filepath_Join (state_dir sv) [''state.json'']) =
          Some (JsonDoc (AObj (set_keys (persisted_fields (svStatus sv')) m))))"
proof -
  consider "runner = None" | "runner = Some LocalProcessRunnerSkeleton" | "runner = Some XraySupervisorRunner" using assms(3) by blast
  then show ?thesis
  proof cases
    case 1
    show ?thesis by (rule default_supervisor.apply_success [OF assms(1) assms(2) [unfolded 1]])
  next
    case 2
    show ?thesis by (rule skeleton.sup.apply_success [OF assms(1) assms(2) [unfolded 2]])
  next
    case 3
    show ?thesis by (rule xray.sup.apply_success [OF assms(1) assms(2) [unfolded 3]])
  qed
qed

section \<open>A healthy host\<close>

definition healthy :: "agent_world \<Rightarrow> bool" where
  "healthy w \<longleftrightarrow> wCtxErr w = None \<and> wWriteFails w = (\<lambda>_. False) \<and> wMkdirFails w = (\<lambda>_. False) \<and> wReadFails w = (\<lambda>_. False)"

lemma write_all_healthy: "wWriteFails w = (\<lambda>_. False) \<Longrightarrow> write_all w ws d = (True, put_all ws d)"
  by (induction ws arbitrary: d) (auto simp: writeFileAtomic_def)

lemma Stage_healthy:
  assumes "healthy w" and "state_dir sv \<noteq> []" and "bundle_config rv = Some config"
  shows "\<exists>a sv'. StageConfigRevision w rv sv = (Inr a, sv')"
  using assms by (simp add: StageConfigRevision_def Let_def healthy_def write_all_healthy del: write_all.simps)

lemma Activate_healthy:
  assumes "healthy w" and "state_dir sv \<noteq> []" and "svDisk sv (caStagedConfigPath a) = Some (JsonDoc x)"
    and "svDisk sv (caStagedMetadataPath a) = Some (JsonDoc y)"
  shows "\<exists>a' sv'. ActivateStagedConfigRevision w rv a sv = (Inr a', sv')"
  using assms by (simp add: ActivateStagedConfigRevision_def Let_def healthy_def write_all_healthy read_file_def del: write_all.simps)

lemma Serialize_healthy:
  assumes "healthy w" and "state_dir sv \<noteq> []" and "bundle_config rv = Some config"
  shows "\<exists>a sv'. SerializeConfigRevision w rv sv = (Inr a, sv')"
proof -
  obtain a1 sv1 where s: "StageConfigRevision w rv sv = (Inr a1, sv1)" using Stage_healthy [OF assms] by blast
  note S = Stage_result [OF s]
  have "caStagedConfigPath a1 \<noteq> caStagedMetadataPath a1" using S(1) by (simp add: artifact_paths_def filepath_Join_inj)
  then have "svDisk sv1 (caStagedConfigPath a1) = Some (JsonDoc (AObj config))"
    "svDisk sv1 (caStagedMetadataPath a1) = Some (JsonDoc (AObj (revision_metadata rv a1)))"
    using S(3) assms(3) by auto
  from Activate_healthy [OF assms(1) _ this] show ?thesis using s S(2,5) by (simp add: SerializeConfigRevision_def)
qed

lemma checks_bundle: "revision_checks ident rv = Inr () \<Longrightarrow> \<exists>config. bundle_config rv = Some config"
  by (auto simp: revision_checks_def validateRenderedConfigPayload_def bundle_config_def split: if_splits sum.splits option.splits)

lemma supervisor_prepares:
  assumes "wCtxErr w = None"
  shows "\<exists>tr. NoProcessRuntimeSupervisor mode None w q = (tr, None)"
  using assms by (simp add: NoProcessRuntimeSupervisor_def LocalProcessRunnerSkeleton_def Let_def)

lemma Apply_until_prepare:
  assumes "healthy w" and "revision_checks (svIdentity sv) rv = Inr ()" and "state_dir sv \<noteq> []"
    and "ValidateXrayDryRun w rv (snd (ValidateAndStoreConfigRevision rv sv)) = Inr ()"
  obtains sv1 a sv2 where "ValidateAndStoreConfigRevision rv sv = (Inr (), sv1)" "SerializeConfigRevision w rv sv1 = (Inr a, sv2)"
    "svRuntime sv2 = svRuntime sv" "svIdentity sv2 = svIdentity sv" "state_dir sv1 = state_dir sv"
    "ApplyConfigRevisionWithContext w rv sv = prepare_and_record w rv a (dryRunStatusForValidator (svDryRun sv)) sv2"
proof -
  obtain r1 sv1 where v: "ValidateAndStoreConfigRevision rv sv = (r1, sv1)" by fastforce
  note V = ValidateAndStore_status [OF v]
  have r1: "r1 = Inr ()" using V(8) assms(2) by simp
  have dir: "state_dir sv1 = state_dir sv" using V(4) by (simp add: state_dir_def)
  obtain config where c: "bundle_config rv = Some config" using checks_bundle [OF assms(2)] by blast
  obtain a sv2 where s: "SerializeConfigRevision w rv sv1 = (Inr a, sv2)"
    using Serialize_healthy [OF assms(1) _ c] assms(3) dir by metis
  have f: "svRuntime sv2 = svRuntime sv" "svIdentity sv2 = svIdentity sv"
    using Serialize_frame(1) [OF s] V(4,6) by (simp_all add: same_core_def)
  have e: "ApplyConfigRevisionWithContext w rv sv = prepare_and_record w rv a (dryRunStatusForValidator (svDryRun sv)) sv2"
    using v r1 s V(7) assms(4) by (simp add: ApplyConfigRevisionWithContext_def)
  show thesis by (rule that [OF v [unfolded r1] s f dir e])
qed

lemma healthy_apply:
  assumes "healthy w" and "revision_checks (svIdentity sv) rv = Inr ()" and "state_dir sv \<noteq> []"
    and "ValidateXrayDryRun w rv (snd (ValidateAndStoreConfigRevision rv sv)) = Inr ()"
    and "svRuntime sv = NoProcessRuntimeSupervisor mode None"
  shows "\<exists>sv'. ApplyConfigRevisionWithContext w rv sv = (Inr (), sv') \<and> stActiveRevision (svStatus sv') = crRevisionNumber rv"
  using assms(1-4)
proof (rule Apply_until_prepare)
  fix sv1 a sv2
  assume s: "SerializeConfigRevision w rv sv1 = (Inr a, sv2)" and rt: "svRuntime sv2 = svRuntime sv"
    and e: "ApplyConfigRevisionWithContext w rv sv = prepare_and_record w rv a (dryRunStatusForValidator (svDryRun sv)) sv2"
  let ?q = "\<lparr> pqRevision = rv, pqArtifact = a, pqDryRunStatus = dryRunStatusForValidator (svDryRun sv),
      pqProcessMode = stProcessMode (svStatus sv2), pqAt = wNow w \<rparr>"
  have "wCtxErr w = None" using assms(1) by (simp add: healthy_def)
  then obtain tr where t: "NoProcessRuntimeSupervisor mode None w ?q = (tr, None)" using supervisor_prepares by blast
  let ?sv3 = "record_applied w rv a (dryRunStatusForValidator (svDryRun sv)) tr sv2"
  obtain r sv' where q: "PersistRuntimeState w a ?sv3 = (r, sv')" by fastforce
  note S = Serialize_result [OF s]
  have "r = Inr ()"
    by (rule Persist_result(1) [OF q]) (use S assms(1) in \<open>auto simp: record_applied_frame healthy_def\<close>)
  then have "ApplyConfigRevisionWithContext w rv sv = (Inr (), sv')"
    using e t q assms(5) rt by (simp add: prepare_and_record_def)
  moreover have "svStatus sv' = svStatus ?sv3" using Persist_frame(2) [OF q] .
  ultimately show ?thesis by (simp add: record_applied_frame)
qed

text \<open>
  On a host whose disk works, with the built-in supervisor and a passing (or no) dry run, every revision that passes
  the checks is applied: the apply returns without an error and the revision becomes active.
\<close>

theorem accepted_revision_is_applied:
  assumes "healthy w" and "revision_checks (svIdentity sv) rv = Inr ()" and "state_dir sv \<noteq> []"
    and "ValidateXrayDryRun w rv (snd (ValidateAndStoreConfigRevision rv sv)) = Inr ()"
    and "svRuntime sv = NoProcessRuntimeSupervisor mode None"
  shows "\<exists>sv'. ApplyConfigRevisionWithContext w rv sv = (Inr (), sv') \<and> stActiveRevision (svStatus sv') = crRevisionNumber rv"
  using assms by (rule healthy_apply)

definition revision0 :: ConfigRevision where
  "revision0 = delivered ''r2'' ''node-1'' 2 1 tiny_payload"

lemma tiny_payload_facts:
  "json_safe (AObj tiny_payload)" "agent_payload tiny_payload" "idx tiny_payload ''revision_number'' = AInt 2"
proof -
  let ?i = "input_ab\<lparr> riSubscriptionInputs := [], riRoutingRules := [] \<rparr>"
  have "input_safe ?i DefaultRealityConfig"
    by (simp add: input_safe_def input_ab_def utf8_literal small_int_def settings_safe_def warp_safe_def reality_safe_def
        WithDefaults_def DefaultRealityConfig_def or_default_def Let_def)
  then show "json_safe (AObj tiny_payload)"
    unfolding tiny_payload_def RenderVLESSRealityPayload_def by (rule render_payload_safe)
  have "renderable ?i DefaultRealityConfig"
    by (simp add: renderable_def input_ab_def WithDefaults_def DefaultRealityConfig_def or_default_def Let_def)
  then show "agent_payload tiny_payload"
    unfolding tiny_payload_def RenderVLESSRealityPayload_def by (rule rendered_agent_payload)
  show "idx tiny_payload ''revision_number'' = AInt 2"
    by (simp add: tiny_payload_def RenderVLESSRealityPayload_def render_payload_paths input_ab_def)
qed

lemma revision0_checks: "revision_checks ident0 revision0 = Inr ()"
  unfolding revision0_def
  by (rule agent_accepts_delivered [OF tiny_payload_facts]) (simp_all add: ident0_def)

lemma plain_service_facts:
  "svIdentity plain_service = ident0" "svRuntime plain_service = NoProcessRuntimeSupervisor ''local'' None"
  "state_dir plain_service = ''/var/lib/agent''" "svDryRun plain_service = None" "healthy world0" "crRevisionNumber revision0 = 2"
proof -
  show "state_dir plain_service = ''/var/lib/agent''"
    unfolding state_dir_def by (subst TrimSpace_graphic) (simp_all add: plain_service_def ident0_def)
qed (simp_all add: plain_service_def healthy_def world0_def revision0_def delivered_def Let_def)

lemma plain_service_dry_run: "ValidateXrayDryRun world0 rv (snd (ValidateAndStoreConfigRevision rv plain_service)) = Inr ()"
  using ValidateAndStore_status(7) [of rv plain_service]
  by (cases "ValidateAndStoreConfigRevision rv plain_service") (simp add: ValidateXrayDryRun_def plain_service_facts)

lemma accepted_revision_is_applied_witness:
  "\<exists>sv'. ApplyConfigRevisionWithContext world0 revision0 plain_service = (Inr (), sv') \<and> stActiveRevision (svStatus sv') = 2"
  using accepted_revision_is_applied [of world0 plain_service revision0 "''local''"] revision0_checks plain_service_dry_run
  by (simp add: plain_service_facts)

lemma applied_example:
  "\<exists>sv'. ApplyConfigRevisionWithContext world0 revision0 plain_service = (Inr (), sv')"
  using healthy_apply [of world0 plain_service revision0 "''local''"] revision0_checks plain_service_dry_run
  by (auto simp: plain_service_facts)

lemma successful_apply_activates_witness:
  "\<exists>sv' config m. ApplyConfigRevisionWithContext world0 revision0 plain_service = (Inr (), sv')
     \<and> stLastApplied (svStatus sv') = 2 \<and> bundle_config revision0 = Some config
     \<and> svDisk sv' (filepath_Join ''/var/lib/agent'' [''active'', ''config.json'']) = Some (JsonDoc (AObj config))
     \<and> svDisk sv' (filepath_Join ''/var/lib/agent'' [''state.json'']) = Some (JsonDoc (AObj (set_keys (persisted_fields (svStatus sv')) m)))"
proof -
  obtain sv' where a: "ApplyConfigRevisionWithContext world0 revision0 plain_service = (Inr (), sv')" using applied_example by blast
  from successful_apply_activates [OF a plain_service_facts(2)] show ?thesis
    using a by (auto simp: plain_service_facts)
qed

end
