(* ===== verification/AgentRestart.thy ===== *)
theory AgentRestart
  imports AgentTheorems
begin

text \<open>
  What a restarted agent knows: after a successful apply it comes back with the same status; after an apply whose
  runtime could not be prepared it comes back with the revision the running agent had refused to activate.
  And what a poll tells the panel.
\<close>

section \<open>Keys and paths\<close>

lemma ascii_keys_tj: "list_all ascii (map fst m) \<Longrightarrow> map fst (through_json_obj m) = map fst m"
  by (induction m) (auto simp: through_json_obj_def utf8_coerce_ascii)

lemma activation_keys: "list_all ascii (map fst (activation_state rv a sv))"
  by (simp add: activation_state_def Let_def)

lemma metadata_keys: "list_all ascii (map fst (revision_metadata rv a))"
  by (simp add: revision_metadata_def)

lemma ascii_keys_valid: "list_all ascii (map fst m) \<Longrightarrow> \<forall>k \<in> fst ` set m. utf8_valid k"
  by (auto simp: list_all_iff intro: utf8_valid_ascii)

lemma join_with_last: "y \<noteq> [] \<Longrightarrow> last (join_with d (xs @ [y])) = last y \<and> join_with d (xs @ [y]) \<noteq> []"
  by (induction d xs rule: join_with.induct) auto

lemma join_with_chars: "c \<in> set (join_with d xs) \<Longrightarrow> c \<in> set d \<or> (\<exists>x \<in> set xs. c \<in> set x)"
  by (induction d xs rule: join_with.induct) auto

lemma split_on_chars: "p \<in> set (split_on d s) \<Longrightarrow> c \<in> set p \<Longrightarrow> c \<in> set s"
proof (induction s arbitrary: p)
  case (Cons a s)
  obtain q qs where q: "split_on d s = q # qs" by (cases "split_on d s") auto
  show ?case using Cons.prems Cons.IH [of q] Cons.IH [of p] q by (auto split: if_splits)
qed simp

text \<open>A path below an absolute ASCII directory survives trimming and JSON.\<close>

lemma Join_clean:
  assumes "has_prefix dir ''/''" and "ascii dir" and "list_all plain_name ns" and "list_all ascii ns"
    and "plain_name n" and "ascii n" and "graphic (last n)"
  shows "clean_text (filepath_Join dir (ns @ [n]))" and "TrimSpace (filepath_Join dir (ns @ [n])) \<noteq> []"
proof -
  let ?c = "clean_names True [] (split_on (CHR ''/'') dir)"
  have p: "filepath_Join dir (ns @ [n]) = CHR ''/'' # join_with ''/'' ((?c @ ns) @ [n])"
    using assms by (simp add: filepath_Join_def Let_def clean_names_append path_text_def)
  have n: "n \<noteq> []" using assms(5) by (simp add: plain_name_def)
  have asc: "ascii x" if "x \<in> set ((?c @ ns) @ [n])" for x
  proof -
    consider "x \<in> set ?c" | "x \<in> set ns" | "x = n" using \<open>x \<in> set ((?c @ ns) @ [n])\<close> by auto
    then show ?thesis
    proof cases
      case 1
      then have "x \<in> set (split_on (CHR ''/'') dir)" using clean_names_sub by fastforce
      then have "set x \<subseteq> set dir" using split_on_chars by blast
      then show ?thesis using assms(2) by (auto simp: ascii_def)
    next
      case 2
      then show ?thesis using assms(4) by (simp add: list_all_iff)
    next
      case 3
      then show ?thesis using assms(6) by simp
    qed
  qed
  have "byte c < 128" if "c \<in> set (join_with ''/'' ((?c @ ns) @ [n]))" for c
    using join_with_chars [OF that]
  proof
    assume "c \<in> set ''/''"
    then show ?thesis by simp
  next
    assume "\<exists>x \<in> set ((?c @ ns) @ [n]). c \<in> set x"
    then obtain x where "x \<in> set ((?c @ ns) @ [n])" "c \<in> set x" by blast
    then show ?thesis using asc [of x] unfolding ascii_def by blast
  qed
  then have "ascii (join_with ''/'' ((?c @ ns) @ [n]))" unfolding ascii_def by blast
  then have a: "ascii (filepath_Join dir (ns @ [n]))" unfolding p ascii_Cons by simp
  show "clean_text (filepath_Join dir (ns @ [n]))"
    using a join_with_last [OF n, of "''/''" "?c @ ns"] assms(7) unfolding p by (intro clean_text_graphic) simp_all
  show "TrimSpace (filepath_Join dir (ns @ [n])) \<noteq> []" unfolding p by simp
qed

lemma state_paths:
  assumes "has_prefix dir ''/''" and "ascii dir"
  shows "clean_text (filepath_Join dir [''active'', ''config.json''])" "clean_text (filepath_Join dir [''active'', ''metadata.json''])"
    "TrimSpace (filepath_Join dir [''state.json'']) \<noteq> []"
  using Join_clean [OF assms, of "[''active'']" "''config.json''"] Join_clean [OF assms, of "[''active'']" "''metadata.json''"]
    Join_clean [OF assms, of "[]" "''state.json''"] by simp_all

section \<open>Restoring from the state file\<close>

lemma NewService_restores:
  assumes "state_dir sv = dir" and "dir \<noteq> []" and "wReadFails w = (\<lambda>_. False)"
    and "svDisk sv (filepath_Join dir [''state.json'']) = Some (JsonDoc (AObj m))"
    and "restored_revision (through_json_obj m) = Some n" and "0 < n"
    and "svDisk sv (restored_config_path (through_json_obj m) dir) = Some (JsonDoc x)"
    and "svDisk sv (restored_metadata_path (through_json_obj m) dir) = Some (JsonDoc y)"
  shows "RestoreRuntimeState w sv = AppendRuntimeEvent w (new_event ''runtime_state_restore'' ''restored'' n
      ''runtime state restored from state.json'') (on_status (restored_status (through_json_obj m) dir n) sv)"
proof -
  have "applyRuntimeStateMap w (through_json_obj m) dir sv = (True, on_status (restored_status (through_json_obj m) dir n) sv)"
    using assms by (simp add: applyRuntimeStateMap_def validJSONFile_def read_file_def)
  then show ?thesis using assms by (simp add: RestoreRuntimeState_def Let_def restored_status_def)
qed

definition fresh_service :: "Identity \<Rightarrow> disk \<Rightarrow> Service" where
  "fresh_service ident d = \<lparr> svIdentity = ident, svStatus = initial_status ident, svRevisions = Map.empty,
     svDryRun = (if TrimSpace (idXrayBin ident) \<noteq> [] then Some (CommandXrayDryRunValidator (idXrayBin ident)) else None),
     svRuntime = NoProcessRuntimeSupervisor (normalizeRuntimeProcessMode (idProcessMode ident)) None, svHasPID = False, svDisk = d \<rparr>"

lemma NewService_fresh:
  "NewService w ident [] d = on_status (\<lambda>st. st\<lparr> stProcessMode := normalizeRuntimeProcessMode (idProcessMode ident),
      stRuntimeMode := runtimeModeForIdentity (idXrayBin ident) (normalizeRuntimeProcessMode (idProcessMode ident)) \<rparr>)
     (RestoreRuntimeState w (fresh_service ident d))"
  by (simp add: NewService_def fresh_service_def Let_def)

lemma append_events: "stEvents (svStatus (AppendRuntimeEvent w e sv)) \<noteq> []"
  by (simp add: AppendRuntimeEvent_def Let_def cut_trail_def last_n_def)

lemma restored_status_core:
  "stActiveRevision (restored_status m dir n st) = n"
  "stConfigPath (restored_status m dir n st) = restored_config_path m dir"
  by (simp_all add: restored_status_def Let_def)

lemma fresh_frame: "state_dir (fresh_service ident d) = TrimSpace (idStateDir ident)" "svDisk (fresh_service ident d) = d"
  by (simp_all add: fresh_service_def state_dir_def)

lemma applied_on_disk:
  assumes ap: "ApplyConfigRevisionWithContext w rv sv = (Inr (), sv')"
  obtains m config a where "state_dir sv \<noteq> []" and "\<forall>k \<in> fst ` set m. utf8_valid k"
    and "svDisk sv' (filepath_Join (state_dir sv) [''state.json'']) = Some (JsonDoc (AObj (set_keys (persisted_fields (svStatus sv')) m)))"
    and "a = artifact_paths (state_dir sv) (crRevisionNumber rv)"
    and "stConfigPath (svStatus sv') = caConfigPath a" and "stMetadataPath (svStatus sv') = caMetadataPath a"
    and "svDisk sv' (caConfigPath a) = Some (JsonDoc (AObj config))" and "svDisk sv' (caMetadataPath a) = Some (JsonDoc (AObj (revision_metadata rv a)))"
    and "stActiveRevision (svStatus sv') = crRevisionNumber rv" and "stLastApplied (svStatus sv') = crRevisionNumber rv"
    and "stLastValidation (svStatus sv') = ''applied''"
  using ap
proof (cases rule: Apply_outcome)
  case (prepared sv1 sv2 sv3 a tr r3)
  have s3: "sv' = sv3" and r3: "r3 = Inr ()" using prepared(6,7) by auto
  let ?dir = "state_dir sv" and ?st = "svStatus (record_applied w rv a (dryRunStatusForValidator (svDryRun sv)) tr sv2)"
  let ?m = "through_json_obj (activation_state rv a (on_status (staged_status rv) sv1))"
  have dir1: "state_dir sv1 = ?dir" using ValidateAndStore_status(4) [OF prepared(1)] by (simp add: state_dir_def)
  note S = Serialize_result [OF prepared(3), unfolded dir1]
  have st: "svStatus sv' = ?st" using Persist_frame(2) [OF prepared(5)] s3 by simp
  have pathne: "TrimSpace (caStatePath a) \<noteq> []" using S(1) state_path_nonblank by (simp add: artifact_paths_def)
  have disk: "svDisk sv' = (svDisk sv2)(caStatePath a \<mapsto> JsonDoc (AObj (set_keys (persisted_fields ?st) ?m)))"
    using Persist_success [OF prepared(5) [unfolded r3] _ pathne] S s3 by (simp add: record_applied_frame)
  have "map fst ?m = map fst (activation_state rv a (on_status (staged_status rv) sv1))" by (rule ascii_keys_tj [OF activation_keys])
  then have keys: "\<forall>k \<in> fst ` set ?m. utf8_valid k" using ascii_keys_valid [OF activation_keys] by (metis list.set_map)
  have ne: "caConfigPath a \<noteq> caStatePath a" "caMetadataPath a \<noteq> caStatePath a"
    using S(1) by (simp_all add: artifact_paths_def filepath_Join_inj)
  obtain config where c: "svDisk sv2 (caConfigPath a) = Some (JsonDoc (AObj config))" using S(1,6) by blast
  show thesis
    by (rule that [of ?m a config])
      (use S(1,5,7) disk c ne keys in \<open>simp_all add: st artifact_paths_def record_applied_runtime record_applied_frame\<close>)
qed simp

text \<open>
  C11 A successfully applied revision survives a restart.  An agent started again on the same disk, with the same identity and
  no further options, comes back with the whole status of the running agent but for what \<open>restart_of\<close> and \<open>NewService\<close> take from the configuration and the start (node,
  panel address, registration, status text, last heartbeat, dry-run flag, runtime and process mode), and for the event
  trail, which it restores and then extends by exactly one event, the restoration of this revision.  In particular the
  active, applied, staged and rollback-candidate revisions, the runtime state, the validation result and the paths are
  those of the running agent.  (For a status whose texts are trimmed and whose numbers and times JSON carries.)
\<close>

theorem apply_survives_restart:
  assumes ap: "ApplyConfigRevisionWithContext w rv sv = (Inr (), sv')" and ok: "status_storable (svStatus sv')"
    and read: "wReadFails w2 = (\<lambda>_. False)" and pos: "0 < crRevisionNumber rv"
  shows "\<exists>st ev. svStatus (NewService w2 (svIdentity sv) [] (svDisk sv')) = st
    \<and> st = (restart_of (initial_status (svIdentity sv)) (svStatus sv'))
        \<lparr> stProcessMode := normalizeRuntimeProcessMode (idProcessMode (svIdentity sv)),
          stRuntimeMode := runtimeModeForIdentity (idXrayBin (svIdentity sv)) (normalizeRuntimeProcessMode (idProcessMode (svIdentity sv))),
          stEvents := cut_trail (stEvents (svStatus sv') @ [ev]) \<rparr>
    \<and> reType ev = ''runtime_state_restore'' \<and> reStatus ev = ''restored'' \<and> reRevision ev = crRevisionNumber rv
    \<and> stActiveRevision st = crRevisionNumber rv \<and> stLastApplied st = crRevisionNumber rv
    \<and> stStaged st = stStaged (svStatus sv') \<and> stRollbackCandidate st = stRollbackCandidate (svStatus sv')
    \<and> stRuntimeState st = stRuntimeState (svStatus sv') \<and> stLastValidation st = ''applied''
    \<and> stConfigPath st = stConfigPath (svStatus sv') \<and> stMetadataPath st = stMetadataPath (svStatus sv')"
proof -
  let ?dir = "state_dir sv" and ?st = "svStatus sv'" and ?fresh = "fresh_service (svIdentity sv) (svDisk sv')"
  let ?ev = "new_event ''runtime_state_restore'' ''restored'' (crRevisionNumber rv) ''runtime state restored from state.json''"
  obtain m config a where d: "?dir \<noteq> []" "\<forall>k \<in> fst ` set m. utf8_valid k"
      "svDisk sv' (filepath_Join ?dir [''state.json'']) = Some (JsonDoc (AObj (set_keys (persisted_fields ?st) m)))"
      "a = artifact_paths ?dir (crRevisionNumber rv)" "stConfigPath ?st = caConfigPath a" "stMetadataPath ?st = caMetadataPath a"
      "svDisk sv' (caConfigPath a) = Some (JsonDoc (AObj config))" "svDisk sv' (caMetadataPath a) = Some (JsonDoc (AObj (revision_metadata rv a)))"
    and f: "stActiveRevision ?st = crRevisionNumber rv" "stLastApplied ?st = crRevisionNumber rv" "stLastValidation ?st = ''applied''"
    by (rule applied_on_disk [OF ap])
  let ?m = "through_json_obj (set_keys (persisted_fields ?st) m)"
  note R = restored_status_persisted [OF ok d(2)]
  have fd: "state_dir ?fresh = ?dir" by (simp add: fresh_service_def state_dir_def)
  have "RestoreRuntimeState w2 ?fresh = AppendRuntimeEvent w2 ?ev (on_status (restored_status ?m ?dir (crRevisionNumber rv)) ?fresh)"
    by (rule NewService_restores [OF fd d(1) read]) (use d(3,5,7,8) d(6) R f pos in \<open>simp_all add: fresh_frame\<close>)
  then have r: "RestoreRuntimeState w2 ?fresh = AppendRuntimeEvent w2 ?ev (on_status (\<lambda>st0. restart_of st0 ?st) ?fresh)"
    using R(1) f(1) by (simp add: on_status_def)
  obtain ev where e: "AppendRuntimeEvent w2 ?ev (on_status (\<lambda>st0. restart_of st0 ?st) ?fresh) =
        on_status (\<lambda>st. st\<lparr> stEvents := cut_trail (stEvents (svStatus (on_status (\<lambda>st0. restart_of st0 ?st) ?fresh)) @ [ev]) \<rparr>)
          (on_status (\<lambda>st0. restart_of st0 ?st) ?fresh)"
      "reType ev = ''runtime_state_restore''" "reStatus ev = ''restored''" "reRevision ev = crRevisionNumber rv"
    using AppendRuntimeEvent_adds [of w2 ?ev "on_status (\<lambda>st0. restart_of st0 ?st) ?fresh"] by (auto simp: new_event_def)
  have fresh: "svStatus ?fresh = initial_status (svIdentity sv)" by (simp add: fresh_service_def)
  show ?thesis
    unfolding NewService_fresh r e(1)
    by (intro exI [of _ ev] exI conjI, rule refl) (simp_all add: e(2-) f restart_of_def fresh)
qed

section \<open>Memory and disk after a failed preparation\<close>

lemma activation_restores:
  fixes a sv rv dir
  defines "m \<equiv> through_json_obj (activation_state rv a sv)"
  assumes "small_int (crRevisionNumber rv)" and "clean_text (caConfigPath a)" and "clean_text (caMetadataPath a)"
    and "caConfigPath a \<noteq> []" and "caMetadataPath a \<noteq> []"
  shows "restored_revision m = Some (crRevisionNumber rv)"
    and "restored_config_path m dir = caConfigPath a" and "restored_metadata_path m dir = caMetadataPath a"
proof -
  have i: "idx m k = through_json (idx (activation_state rv a sv) k)" for k
    unfolding m_def by (rule idx_through_json) (use ascii_keys_valid [OF activation_keys] in blast)
  have f: "idx (activation_state rv a sv) ''active_revision'' = AInt (crRevisionNumber rv)"
    "idx (activation_state rv a sv) ''config_artifact_path'' = AStr (caConfigPath a)"
    "idx (activation_state rv a sv) ''metadata_artifact_path'' = AStr (caMetadataPath a)"
    by (simp_all add: activation_state_def Let_def)
  have "agent_numberAsInt (idx m ''active_revision'') = Some (crRevisionNumber rv)"
    by (rule read_stored_number) (simp_all only: i f assms(2-))
  then show "restored_revision m = Some (crRevisionNumber rv)" by (simp add: restored_revision_def)
  have "stringFromState m ''config_artifact_path'' = caConfigPath a" "stringFromState m ''metadata_artifact_path'' = caMetadataPath a"
    by (rule read_stored_string; simp only: i f assms(2-))+
  then show "restored_config_path m dir = caConfigPath a" "restored_metadata_path m dir = caMetadataPath a"
    using assms by (simp_all add: restored_config_path_def restored_metadata_path_def)
qed

text \<open>
  When the runtime of an accepted revision cannot be prepared, the running agent reports an error and keeps its
  active revision, but the files are already switched: an agent restarted on that disk comes up with the refused
  revision as its active one.
\<close>

theorem failed_prepare_activates_on_restart:
  assumes "healthy w" and chk: "revision_checks (svIdentity sv) rv = Inr ()"
    and "ValidateXrayDryRun w rv (snd (ValidateAndStoreConfigRevision rv sv)) = Inr ()"
    and dir: "has_prefix (state_dir sv) ''/''" "ascii (state_dir sv)"
    and fails: "\<And>q. pqProcessMode q = stProcessMode (svStatus sv) \<Longrightarrow> snd (svRuntime sv w q) = Some e"
    and small: "small_int (crRevisionNumber rv)" and read: "wReadFails w2 = (\<lambda>_. False)"
  shows "\<exists>sv'. ApplyConfigRevisionWithContext w rv sv = (Inl e, sv')
    \<and> stActiveRevision (svStatus sv') = stActiveRevision (svStatus sv)
    \<and> stActiveRevision (svStatus (NewService w2 (svIdentity sv) [] (svDisk sv'))) = crRevisionNumber rv"
proof -
  have ne: "state_dir sv \<noteq> []" using dir by (auto simp: has_prefix_def)
  from assms(1) chk ne assms(3) show ?thesis
  proof (rule Apply_until_prepare)
    fix sv1 a sv2
    assume v: "ValidateAndStoreConfigRevision rv sv = (Inr (), sv1)" and s: "SerializeConfigRevision w rv sv1 = (Inr a, sv2)"
      and rt: "svRuntime sv2 = svRuntime sv" and d1: "state_dir sv1 = state_dir sv"
      and ap: "ApplyConfigRevisionWithContext w rv sv = prepare_and_record w rv a (dryRunStatusForValidator (svDryRun sv)) sv2"
    note S = Serialize_result [OF s, unfolded d1] and V = ValidateAndStore_status [OF v]
    let ?q = "\<lparr>pqRevision = rv, pqArtifact = a, pqDryRunStatus = dryRunStatusForValidator (svDryRun sv),
        pqProcessMode = stProcessMode (svStatus sv2), pqAt = wNow w\<rparr>"
    have "stProcessMode (svStatus sv2) = stProcessMode (svStatus sv)"
      using Serialize_frame(5) [OF s] v by (auto simp: ValidateAndStoreConfigRevision_def split: sum.splits)
    then obtain tr where tr: "svRuntime sv w ?q = (tr, Some e)" using fails [of ?q] by (metis RuntimePrepareRequest.select_convs(4) prod.collapse)
    let ?sv' = "AppendRuntimeEvent w ((failure_event ''apply_failure'' rv e)
        \<lparr> reProcessMode := trProcessMode tr, reProcessState := trProcessState tr \<rparr>) sv2"
    have e: "ApplyConfigRevisionWithContext w rv sv = (Inl e, ?sv')"
      using ap tr rt by (simp add: prepare_and_record_def)
    have act: "stActiveRevision (svStatus ?sv') = stActiveRevision (svStatus sv)"
      using Serialize_frame(3) [OF s] V(2) by simp
    let ?m = "activation_state rv a (on_status (staged_status rv) sv1)"
    obtain config where c: "svDisk sv2 (caConfigPath a) = Some (JsonDoc (AObj config))" using S(1,6) by blast
    have cl: "clean_text (caConfigPath a)" "clean_text (caMetadataPath a)" "caConfigPath a \<noteq> []" "caMetadataPath a \<noteq> []"
      using S(1) state_paths [OF dir] by (simp_all add: artifact_paths_def join_nonempty)
    note R = activation_restores [OF small cl, of "on_status (staged_status rv) sv1"]
    let ?fresh = "fresh_service (svIdentity sv) (svDisk ?sv')"
    have fd: "state_dir ?fresh = state_dir sv" by (simp add: fresh_service_def state_dir_def)
    have p: "caStatePath a = filepath_Join (state_dir sv) [''state.json'']" using S(1) by (simp add: artifact_paths_def)
    have pos: "0 < crRevisionNumber rv" using chk by (auto simp: revision_checks_def split: if_splits)
    have r: "RestoreRuntimeState w2 ?fresh = AppendRuntimeEvent w2 (new_event ''runtime_state_restore'' ''restored'' (crRevisionNumber rv)
      ''runtime state restored from state.json'') (on_status (restored_status (through_json_obj ?m) (state_dir sv) (crRevisionNumber rv)) ?fresh)"
      by (rule NewService_restores [OF fd ne read])
        (use S(1,7,8) R c p pos in \<open>simp_all add: fresh_frame\<close>)
    have "stActiveRevision (svStatus (NewService w2 (svIdentity sv) [] (svDisk ?sv'))) = crRevisionNumber rv"
      unfolding NewService_fresh r by (simp add: restored_status_core)
    then show ?thesis using e act by blast
  qed
qed

definition failing_service :: Service where
  "failing_service = plain_service\<lparr> svRuntime :=
     NoProcessRuntimeSupervisor ''local'' (Some (\<lambda>w q. (empty_result, Some (AErrOther ''no xray'')))) \<rparr>"

lemma failed_prepare_activates_on_restart_witness:
  "\<exists>sv'. ApplyConfigRevisionWithContext world0 revision0 failing_service = (Inl (AErrOther ''no xray''), sv')
    \<and> stActiveRevision (svStatus sv') = 0
    \<and> stActiveRevision (svStatus (NewService world0 ident0 [] (svDisk sv'))) = 2"
proof -
  have f: "svIdentity failing_service = ident0" "state_dir failing_service = ''/var/lib/agent''" "svDryRun failing_service = None"
    "stActiveRevision (svStatus failing_service) = 0" "wReadFails world0 = (\<lambda>_. False)"
    using plain_service_facts(3) by (simp_all add: failing_service_def plain_service_def state_dir_def initial_status_def Let_def world0_def)
  have d: "ValidateXrayDryRun world0 revision0 (snd (ValidateAndStoreConfigRevision revision0 failing_service)) = Inr ()"
    using ValidateAndStore_status(7) [of revision0 failing_service]
    by (cases "ValidateAndStoreConfigRevision revision0 failing_service") (simp add: ValidateXrayDryRun_def f)
  have m: "stProcessMode (svStatus failing_service) = ProcessModeLocal" "normalizeRuntimeProcessMode ProcessModeLocal = ProcessModeLocal"
    using normalize_fixed [of ProcessModeLocal] by (simp_all add: failing_service_def plain_service_def initial_status_def Let_def ident0_def)
  have r: "snd (svRuntime failing_service world0 q) = Some (AErrOther ''no xray'')"
    if "pqProcessMode q = stProcessMode (svStatus failing_service)" for q
    using that m by (simp add: failing_service_def NoProcessRuntimeSupervisor_def world0_def Let_def)
  have p: "has_prefix (state_dir failing_service) ''/''" "ascii (state_dir failing_service)" by (simp_all add: f has_prefix_def)
  show ?thesis
    using failed_prepare_activates_on_restart [OF plain_service_facts(5) _ d p r _ f(5)] revision0_checks plain_service_facts(6)
    by (simp add: f small_int_def)
qed

section \<open>The restart, on an example\<close>

lemma plain_mode: "stProcessMode (svStatus plain_service) = ProcessModeLocal"
  using normalize_fixed [of ProcessModeLocal] by (simp add: plain_service_def initial_status_def Let_def ident0_def)

lemma applied_status_storable:
  assumes "ApplyConfigRevisionWithContext world0 revision0 plain_service = (Inr (), sv')"
  shows "status_storable (svStatus sv')"
  using assms
proof (cases rule: Apply_outcome)
  case (prepared sv1 sv2 sv3 a tr r3)
  have st: "svStatus sv' = svStatus (record_applied world0 revision0 a (dryRunStatusForValidator (svDryRun plain_service)) tr sv2)"
    using Persist_frame(2) [OF prepared(5)] prepared(6,7) by auto
  have v: "svStatus sv1 = (svStatus plain_service)\<lparr> stLastRollback := 1 \<rparr>" "state_dir sv1 = ''/var/lib/agent''"
    using prepared(1) plain_service_facts(3) ValidateAndStore_status(4) [OF prepared(1)]
    by (auto simp: ValidateAndStoreConfigRevision_def revision0_def delivered_def Let_def state_dir_def split: sum.splits)
  note S = Serialize_result [OF prepared(3), unfolded v]
  have a: "caConfigPath a = filepath_Join ''/var/lib/agent'' [''active'', ''config.json'']"
    "caMetadataPath a = filepath_Join ''/var/lib/agent'' [''active'', ''metadata.json'']"
    using S(1) by (simp_all add: artifact_paths_def)
  have pc: "clean_text (caConfigPath a)" "clean_text (caMetadataPath a)" "caConfigPath a \<noteq> []" "caMetadataPath a \<noteq> []"
    unfolding a using state_paths [of "''/var/lib/agent''"] by (simp_all add: has_prefix_def join_nonempty)
  have tr: "tr = \<lparr> trProcessMode = ProcessModeLocal, trProcessState = ProcessStateReady, trState = StateActiveConfigReady,
      trAttempt = AttemptReady, trErrorMessage = [], trAt = 1000000000 \<rparr>"
    using prepared(4) plain_mode S(3) normalize_fixed [of ProcessModeLocal]
    by (simp add: plain_service_facts NoProcessRuntimeSupervisor_def LocalProcessRunnerSkeleton_def Let_def world0_def staged_status_def)
  have n: "crRevisionNumber revision0 = 2" "crRollbackTarget revision0 = 1" by (simp_all add: revision0_def delivered_def Let_def)
  have st2: "svStatus sv2 = staged_status revision0 ((svStatus plain_service)\<lparr> stLastRollback := 1 \<rparr>)" using S(3) .
  have lit: "clean_text s" if "s \<noteq> [] \<and> graphic (hd s) \<and> graphic (last s) \<and> ascii s" for s
    using that by (intro clean_text_graphic) auto
  have trim: "TrimSpace ''local process prepare/start intent recorded'' = ''local process prepare/start intent recorded''"
    by (rule TrimSpace_graphic) simp_all
  have now: "wNow world0 = 1000000000" by (simp add: world0_def)
  have init: "svStatus plain_service = initial_status ident0" by (simp add: plain_service_def)
  have nm: "normalizeRuntimeProcessMode ProcessModeLocal = ProcessModeLocal"
    using normalize_fixed [of ProcessModeLocal] by simp
  have idm: "idXrayBin ident0 = []" "idProcessMode ident0 = ProcessModeLocal" by (simp_all add: ident0_def)
  have rm: "runtimeModeForIdentity (idXrayBin ident0) (normalizeRuntimeProcessMode (idProcessMode ident0)) = RuntimeModeFuture"
    "normalizeRuntimeProcessMode (idProcessMode ident0) = ProcessModeLocal" "normalizeRuntimeProcessMode ProcessModeLocal = ProcessModeLocal"
    "runtimeModeForIdentity (idXrayBin ident0) ProcessModeLocal = RuntimeModeFuture" "runtimeModeForIdentity [] ProcessModeLocal = RuntimeModeFuture"
    by (simp_all add: idm nm runtimeModeForIdentity_def)
  have ml: "max_instant > 1000000000" by (simp add: max_instant_def durations)
  have dr: "dryRunStatusForValidator (svDryRun plain_service) = DryRunNotConfigured"
    by (simp add: plain_service_facts dryRunStatusForValidator_def)
  have status: "svStatus sv' = (staged_status revision0 ((svStatus plain_service)\<lparr> stLastRollback := 1 \<rparr>))
    \<lparr> stActiveRevision := 2, stLastApplied := 2, stRuntimeState := StateActiveConfigReady, stProcessMode := ProcessModeLocal,
      stProcessState := ProcessStateReady, stLastDryRun := DryRunNotConfigured, stLastAttempt := AttemptReady, stLastPrepared := 2,
      stLastTransitionAt := 1000000000, stLastRuntimeError := [], stConfigPath := caConfigPath a, stMetadataPath := caMetadataPath a,
      stEvents := [\<lparr> reType = ''process_prepare_start_intent'', reStatus = ''ready'', reRevision = 2,
          reMessage = ''local process prepare/start intent recorded'', reMode = RuntimeModeFuture, reProcessMode = ProcessModeLocal,
          reProcessState = ProcessStateReady, reAt = 1000000000 \<rparr>,
        \<lparr> reType = ''apply_success'', reStatus = ''applied'', reRevision = 2, reMessage = [], reMode = RuntimeModeFuture,
          reProcessMode = ProcessModeLocal, reProcessState = ProcessStateReady, reAt = 1000000000 \<rparr>],
      stLastValidation := ''applied'', stLastValidationError := [], stLastValidationAt := 1000000000 \<rparr>"
    unfolding st dr tr
    by (simp add: record_applied_def Let_def TrackAppliedRevision_def TrackRuntimePrepared_def TrackValidationResult_def
        AppendRuntimeEvent_def cut_trail_def new_event_def st2 init initial_status_def staged_status_def n rm trim now)
  show ?thesis
    unfolding status
    by (simp add: status_storable_def event_storable_def staged_status_def init initial_status_def Let_def pc lit n rm
        small_int_def dated_def status_inv_def ml [simplified])
qed simp

lemma apply_survives_restart_witness:
  "\<exists>sv'. ApplyConfigRevisionWithContext world0 revision0 plain_service = (Inr (), sv')
    \<and> stActiveRevision (svStatus (NewService world0 ident0 [] (svDisk sv'))) = 2"
proof -
  obtain sv' where a: "ApplyConfigRevisionWithContext world0 revision0 plain_service = (Inr (), sv')" using applied_example by blast
  have r: "wReadFails world0 = (\<lambda>_. False)" by (simp add: world0_def)
  show ?thesis
    using apply_survives_restart [OF a applied_status_storable [OF a] r] a unfolding plain_service_facts by auto
qed

section \<open>Polling\<close>

lemma error_message_nonempty: "configRevisionErrorMessage e \<noteq> []"
  by (cases e) (auto simp: configRevisionErrorMessage_def)

text \<open>
  A poll that fetched a revision sends exactly one report, for that revision.  It says applied, with the number of
  the revision the agent now runs, when the apply succeeded; otherwise it says failed with the message of the error,
  and the agent's active revision is the one it had before the report was made.
\<close>

theorem poll_reports_outcome:
  assumes "pcFetch c = Inr (Some rv)" and "idNodeID (svIdentity sv) \<noteq> []" and "idNodeToken (svIdentity sv) \<noteq> []"
    and "PollPendingConfigRevision w (Some c) now sv = (r, sv', rep)"
  shows "\<exists>report. rep = Some (crID rv, report) \<and> rrEvents report = stEvents (svStatus sv') \<and>
    (case ApplyConfigRevisionWithContext w rv sv of
       (Inr u, sv1) \<Rightarrow> rrStatus report = ''applied'' \<and> rrActiveRevision report = crRevisionNumber rv \<and> rrErrorMessage report = []
         \<and> stActiveRevision (svStatus sv') = crRevisionNumber rv \<and> (r = Inr True \<longleftrightarrow> pcReport c (crID rv) report = None)
     | (Inl e, sv1) \<Rightarrow> rrStatus report = ''failed'' \<and> rrErrorMessage report = configRevisionErrorMessage e \<and> rrErrorMessage report \<noteq> []
         \<and> rrActiveRevision report = 0 \<and> stActiveRevision (svStatus sv') = stActiveRevision (svStatus sv1)
         \<and> stLastAttempt (svStatus sv') = AttemptFailed \<and> \<not> is_ok r)"
proof -
  obtain r1 sv1 where p: "ApplyConfigRevisionWithContext w rv sv = (r1, sv1)" by fastforce
  show ?thesis
  proof (cases r1)
    case (Inl e)
    show ?thesis
      using assms p Inl error_message_nonempty [of e]
      by (auto simp: PollPendingConfigRevision_def Let_def failed_report_def base_report_def TrackRuntimeFailure_def
          TrackValidationResult_def split: option.splits)
  next
    case (Inr u)
    have "stActiveRevision (svStatus sv1) = crRevisionNumber rv"
      using p Inr
    proof (cases rule: Apply_outcome)
      case (prepared s1 s2 s3 a tr r3)
      have "sv1 = s3" using prepared(6,7) Inr by auto
      then show ?thesis using Persist_frame(2) [OF prepared(5)] by (simp add: record_applied_frame)
    qed simp
    then show ?thesis
      using assms p Inr
      by (auto simp: PollPendingConfigRevision_def Let_def applied_report_def base_report_def TrackValidationResult_def split: option.splits)
  qed
qed

lemma poll_reports_outcome_witness:
  "\<exists>sv' report. PollPendingConfigRevision world0 (Some \<lparr> pcFetch = Inr (Some revision0), pcReport = (\<lambda>_ _. None) \<rparr>) 5 plain_service
     = (Inr True, sv', Some (''r2'', report)) \<and> rrStatus report = ''applied'' \<and> rrActiveRevision report = 2"
proof -
  let ?c = "\<lparr> pcFetch = Inr (Some revision0), pcReport = (\<lambda>_ _. None) \<rparr>"
  obtain sv1 where a: "ApplyConfigRevisionWithContext world0 revision0 plain_service = (Inr (), sv1)" using applied_example by blast
  obtain r sv' rep where p: "PollPendingConfigRevision world0 (Some ?c) 5 plain_service = (r, sv', rep)" by (metis prod_cases3)
  have i: "idNodeID (svIdentity plain_service) \<noteq> []" "idNodeToken (svIdentity plain_service) \<noteq> []"
    by (simp_all add: plain_service_facts ident0_def)
  have "crID revision0 = ''r2''" by (simp add: revision0_def delivered_def Let_def)
  then show ?thesis
    using poll_reports_outcome [OF _ i p, of revision0] p a by (auto simp: plain_service_facts)
qed

end
