(* ===== verification/EndToEnd.thy ===== *)
theory EndToEnd
  imports WireProps AgentRestart
begin

text \<open>
  The panel and the agent together: a revision that the panel created, stored, served and sent is fetched by the agent's
  client and passes every check of the agent; and the agent's report on it reaches the panel's tables.
\<close>

section \<open>What the database holds\<close>

text \<open>
  Stored text is valid UTF-8 and stored integers are within their columns; the traffic limits are within the 53 bits that
  JSON carries as a float64.
\<close>

definition text_safe :: "db \<Rightarrow> bool" where
  "text_safe d \<longleftrightarrow> list_all (\<lambda>n. list_all utf8_valid [ndHostname n, ndRegion n, ndCountryCode n]) (dbNodes d)
     \<and> list_all (\<lambda>s. list_all utf8_valid [suID s, suUserID s, suPlanID s, suStatus s, (case suRegion s of None \<Rightarrow> [] | Some r \<Rightarrow> r)]
          \<and> int4 (suDeviceLimit s) \<and> small_opt (suTrafficLimit s)) (dbSubscriptions d)
     \<and> list_all (\<lambda>u. utf8_valid (urStatus u)) (dbUsers d) \<and> list_all (\<lambda>p. utf8_valid (plName p)) (dbPlans d)"

lemma int4_small: "int4 n \<Longrightarrow> small_int n"
  by (auto simp: int4_def small_int_def abs_le_iff)

lemma text_safe_inputs:
  assumes "text_safe d" and "listConfigSubscriptionInputs w region d = Inr subs"
  shows "list_all sub_safe subs"
proof -
  have "sub_safe s" if s: "s \<in> set subs" for s
  proof -
    obtain r :: subscription_row and u p where r: "r \<in> set (dbSubscriptions d)" "subscription_input r u p = s"
        "row_with urID (suUserID r) (dbUsers d) = Some u" "row_with plID (suPlanID r) (dbPlans d) = Some p"
      using s assms(2)
      by (auto simp: listConfigSubscriptionInputs_def stmt_simps dest!: map_filter_inD split: option.splits if_split_asm)
    have "u \<in> set (dbUsers d)" "p \<in> set (dbPlans d)" using r(3,4) by (auto dest: row_with_SomeD)
    then show ?thesis
      using r(1,2) assms(1) int4_small by (auto simp: text_safe_def list_all_iff sub_safe_def subscription_input_def utf8_valid_ascii)
  qed
  then show ?thesis by (simp add: list_all_iff)
qed

section \<open>Identifiers\<close>

lemma byte_chr_97: "65 \<le> byte c \<Longrightarrow> byte c \<le> 70 \<Longrightarrow> byte (chr (byte c + 32)) = byte c + 32"
  by (simp add: byte_def chr_def)

lemma hex_lower_graphic: "is_hex c \<Longrightarrow> graphic (hex_lower c)"
  using byte_chr_97 [of c] by (auto simp: is_hex_def hex_lower_def graphic_def)

lemma uuid_bytes_graphic:
  "uuid_bytes k s = Some (bs, t) \<Longrightarrow> length bs = k \<and> (\<forall>b \<in> set bs. b \<noteq> [] \<and> (\<forall>c \<in> set b. graphic c))"
proof (induction k s arbitrary: bs t rule: uuid_bytes.induct)
  case (2 k a b s)
  define rest where "rest = (if odd (15 - k) \<and> 15 - k < 15 \<and> s \<noteq> [] \<and> hd s = CHR ''-'' then tl s else s)"
  have h: "is_hex a" "is_hex b" using "2.prems" by (simp_all split: if_split_asm)
  have "map_option (\<lambda>(bs, t). ([hex_lower a, hex_lower b] # bs, t)) (uuid_bytes k rest) = Some (bs, t)"
    using "2.prems" h by (simp only: uuid_bytes.simps Let_def rest_def if_True simp_thms)
  then obtain cs where c: "uuid_bytes k rest = Some (cs, t)" "bs = [hex_lower a, hex_lower b] # cs" by auto
  have "length cs = k \<and> (\<forall>b \<in> set cs. b \<noteq> [] \<and> (\<forall>c \<in> set b. graphic c))"
    using "2.IH" [OF _ rest_def c(1)] h by simp
  then show ?case using h by (simp add: c(2) hex_lower_graphic)
qed simp_all

lemma uuid_cast_graphic:
  assumes "uuid_cast s = Some u"
  shows "u \<noteq> [] \<and> (\<forall>c \<in> set u. graphic c)"
proof -
  obtain bs t where b: "uuid_bytes 16 (if has_prefix s ''{'' then tl s else s) = Some (bs, t)" "u = uuid_text bs"
    using assms by (auto simp: uuid_cast_def Let_def split: option.splits if_split_asm)
  note g = uuid_bytes_graphic [OF b(1)]
  have h: "graphic (CHR ''-'')" by (simp add: graphic_def byte_def)
  obtain x xs where bs: "bs = x # xs" using g by (cases bs) auto
  then have "x \<noteq> []" using g by simp
  then have "u \<noteq> []" by (simp add: b(2) uuid_text_def bs)
  moreover have "graphic c" if "c \<in> set u" for c
  proof -
    have "c \<in> set ''-'' \<or> (\<exists>b \<in> set bs. c \<in> set b)"
      using that by (auto simp: b(2) uuid_text_def dest!: join_with_chars in_set_takeD in_set_dropD)
    then show ?thesis using g h by auto
  qed
  ultimately show ?thesis by blast
qed

lemma graphic_ascii: "\<forall>c \<in> set s. graphic c \<Longrightarrow> ascii s"
  by (auto simp: ascii_def graphic_def list_all_iff)

lemma uuid_clean:
  assumes "uuid_cast s = Some u"
  shows "TrimSpace u = u" "u \<noteq> []" "utf8_valid u" "ascii u"
proof -
  note g = uuid_cast_graphic [OF assms]
  show "u \<noteq> []" using g by blast
  then show "TrimSpace u = u" using g by (intro TrimSpace_graphic) auto
  show "ascii u" using g graphic_ascii by blast
  then show "utf8_valid u" by (rule utf8_valid_ascii)
qed

section \<open>Fetching what was created\<close>

lemma wire_tj: "json_safe v \<Longrightarrow> wire (through_json v) = through_json v"
  by (induction v rule: through_json.induct) (auto simp: utf8_valid_def)

lemma wire_tj_obj:
  assumes "json_safe (AObj p)"
  shows "wire_obj (through_json_obj p) = through_json_obj p"
  using wire_tj [OF assms] by (simp add: through_json_obj_def del: json_safe.simps)

definition response_keys :: "string list" where
  "response_keys = [''id'', ''node_id'', ''revision_number'', ''status'', ''bundle_hash'', ''signature'', ''signer'',
     ''rollback_target_revision'', ''bundle'', ''created_at'', ''applied_at'', ''failed_at'', ''rolled_back_at'', ''error_message'']"

lemma response_keys_ok: "struct_keys response_keys"
  by (simp add: struct_keys_def response_keys_def byte_def)

lemma response_struct: "struct_keys (map fst (configRevisionResponse v))"
proof -
  have "map fst (configRevisionResponse v) = response_keys" by (simp add: configRevisionResponse_def response_keys_def)
  moreover have "struct_keys response_keys" by (rule response_keys_ok)
  ultimately show ?thesis by simp
qed

lemma store_revision_time: "store_revision w t u number current payload admin d = Inr (sv, d') \<Longrightarrow> svrCreatedAt sv = pwPgNow w"
  by (auto simp: store_revision_def Let_def stmt_simps scanConfigRevision_def split: sum.splits)

lemma members_data: "members [(''data'', v)] ''data'' = [v]"
  by (simp add: members_def)

text \<open>The answer of the panel to a fetch, decoded by the agent.\<close>

lemma decode_response:
  assumes "list_all utf8_valid [svrID v, svrNodeID v, svrStatus v, svrHash v, svrSignature v, svrSigner v]"
    and "int8 (svrNumber v)" and "int8 (svrRollbackTarget v)" and "dated (svrCreatedAt v)" and "svrAppliedAt v = None"
    and "svrBundle v = Some (through_json_obj p)" and "json_safe (AObj p)"
  shows "decode_envelope (Some (wire (AObj [(''data'', AObj (configRevisionResponse v))]))) = Some (Some
    \<lparr> crID = svrID v, crNodeID = svrNodeID v, crRevisionNumber = svrNumber v, crStatus = svrStatus v, crBundleHash = svrHash v,
      crSignature = svrSignature v, crSigner = svrSigner v, crRollbackTarget = svrRollbackTarget v,
      crBundle = Some (through_json_obj (through_json_obj p)), crCreatedAt = svrCreatedAt v, crAppliedAt = 0 \<rparr>)"
proof -
  let ?m = "configRevisionResponse v"
  note st = response_struct [of v]
  have i: "idx ?m ''id'' = AStr (svrID v)" "idx ?m ''node_id'' = AStr (svrNodeID v)" "idx ?m ''status'' = AStr (svrStatus v)"
    "idx ?m ''bundle_hash'' = AStr (svrHash v)" "idx ?m ''signature'' = AStr (svrSignature v)" "idx ?m ''signer'' = AStr (svrSigner v)"
    "idx ?m ''revision_number'' = AInt (svrNumber v)" "idx ?m ''rollback_target_revision'' = AInt (svrRollbackTarget v)"
    "idx ?m ''created_at'' = AStr (RFC3339Nano (svrCreatedAt v))" "idx ?m ''applied_at'' = ANil"
    "idx ?m ''bundle'' = AObj (through_json_obj p)"
    by (simp_all add: configRevisionResponse_def assms(5,6))
  note low = struct_lower [OF response_keys_ok]
  have s: "dec_str (wire_obj ?m) k = Some s" if "idx ?m k = AStr s" "k \<in> set response_keys" "utf8_valid s" for k s
    using dec_str_wire [OF st low [OF that(2)] _ that(3)] that(1) by (simp add: holds_field_def)
  have n: "dec_int (wire_obj ?m) k = Some n" if "idx ?m k = AInt n" "k \<in> set response_keys" "int8 n" for k n
    using dec_int_wire [OF st low [OF that(2)] _ that(3)] that(1) by (simp add: holds_field_def)
  have t: "dec_time (wire_obj ?m) ''created_at'' = Some (svrCreatedAt v)"
    by (rule dec_time_wire [OF st low i(9) assms(4)]) (simp add: response_keys_def)
  have a: "dec_time (wire_obj ?m) ''applied_at'' = Some 0"
    unfolding dec_time_def by (subst dec_wire [OF st low]) (simp_all add: response_keys_def i(10))
  have b: "dec_ptr decode_bundle (wire_obj ?m) ''bundle'' = Some (Some (through_json_obj (through_json_obj p)))"
  proof -
    have "struct_keys (map fst (wire_obj ?m))" using st wire_obj_keys [OF st] by (simp only:)
    moreover have "map to_lower_char ''bundle'' = ''bundle''" by (rule low) (simp add: response_keys_def)
    moreover have "idx (wire_obj ?m) ''bundle'' = AObj (wire_obj (through_json_obj p))"
      by (simp only: idx_wire_obj [OF st] i(11) wire.simps)
    ultimately show ?thesis using wire_tj_obj [OF assms(7)] by (simp add: dec_ptr_struct decode_bundle_def)
  qed
  have d: "decode_revision (wire_obj ?m) = Some
    \<lparr> crID = svrID v, crNodeID = svrNodeID v, crRevisionNumber = svrNumber v, crStatus = svrStatus v, crBundleHash = svrHash v,
      crSignature = svrSignature v, crSigner = svrSigner v, crRollbackTarget = svrRollbackTarget v,
      crBundle = Some (through_json_obj (through_json_obj p)), crCreatedAt = svrCreatedAt v, crAppliedAt = 0 \<rparr>"
    using s [OF i(1)] s [OF i(2)] s [OF i(3)] s [OF i(4)] s [OF i(5)] s [OF i(6)] n [OF i(7)] n [OF i(8)] t a b assms(1-3)
    by (simp add: decode_revision_def response_keys_def del: list.map)
  have w: "wire (AObj [(''data'', AObj ?m)]) = AObj [(''data'', AObj (wire_obj ?m))]"
    by (simp add: utf8_coerce_ascii del: utf8_coerce.simps)
  show ?thesis
    unfolding w decode_envelope_def option.case any.case dec_ptr_def members_data by (simp add: d del: list.map)
qed

lemma created_at_fields: "crID (rv\<lparr> crCreatedAt := x \<rparr>) = crID rv" "crNodeID (rv\<lparr> crCreatedAt := x \<rparr>) = crNodeID rv"
  "crRevisionNumber (rv\<lparr> crCreatedAt := x \<rparr>) = crRevisionNumber rv" "crBundleHash (rv\<lparr> crCreatedAt := x \<rparr>) = crBundleHash rv"
  "crSignature (rv\<lparr> crCreatedAt := x \<rparr>) = crSignature rv" "crSigner (rv\<lparr> crCreatedAt := x \<rparr>) = crSigner rv"
  "crRollbackTarget (rv\<lparr> crCreatedAt := x \<rparr>) = crRollbackTarget rv" "crBundle (rv\<lparr> crCreatedAt := x \<rparr>) = crBundle rv"
  by simp_all

lemma payload_check_ignores_times: "validateRenderedConfigPayload (rv\<lparr> crCreatedAt := x \<rparr>) = validateRenderedConfigPayload rv"
  unfolding validateRenderedConfigPayload_def created_at_fields ..

lemma checks_ignore_times: "revision_checks ident (rv\<lparr> crCreatedAt := x \<rparr>) = revision_checks ident rv"
  unfolding revision_checks_def verifyConfigBundleHash_def verifyConfigSignature_def configSigningPayload_def
    payload_check_ignores_times created_at_fields ..

lemma deploy_input_safe:
  assumes "text_safe d" and "n \<in> set (dbNodes d)" and "node_ints_ok n" and "listConfigSubscriptionInputs w region d = Inr subs"
    and "utf8_valid nodeText" and "int4 number" and "reality_safe (WithDefaults reality)"
  shows "input_safe (deploy_input nodeText number n subs) reality"
  using assms text_safe_inputs [OF assms(1,4)]
  by (auto simp: input_safe_def deploy_input_def text_safe_def list_all_iff node_ints_ok_def settings_safe_def warp_safe_def int4_small)

lemma ascii_Sign: "ascii (Sign s b)"
  by (simp add: Sign_def)

lemma ascii_HashPayload: "ascii (HashPayload p)"
  by (simp add: HashPayload_def)

lemma Sign_cong: "bdNodeID b = bdNodeID c \<Longrightarrow> bdRevisionNumber b = bdRevisionNumber c \<Longrightarrow> bdBundleHash b = bdBundleHash c
    \<Longrightarrow> bdRollbackTarget b = bdRollbackTarget c \<Longrightarrow> Sign s b = Sign s c"
  by (simp add: Sign_def signingPayload_def)

lemma delivered_signature: "crSignature (delivered rid node n rollback p) = Sign NewDevSigner \<lparr> bdNodeID = node, bdRevisionNumber = n,
    bdStatus = ''pending'', bdBundleHash = HashPayload (Some p), bdSignature = [], bdSigner = DefaultSigner,
    bdRollbackTarget = rollback, bdPayload = Some p \<rparr>"
  by (simp add: delivered_def Let_def)

text \<open>What a created revision looks like after its way to the agent.\<close>

lemma created_response:
  assumes ok: "node_store_ok d" and created: "CreateDummyConfigRevision w reality i d = (Inr sv, d')"
    and canon: "uuid_cast (cdNodeID i) = Some (cdNodeID i)" and rid: "uuid_cast (pwID w ''config_revisions'') = Some (pwID w ''config_revisions'')"
    and safe: "text_safe d" "reality_safe (WithDefaults reality)" and time: "dated (pwPgNow w)"
  shows "\<exists>rv. decode_envelope (Some (wire (AObj [(''data'', AObj (configRevisionResponse sv))]))) = Some (Some rv)
    \<and> crRevisionNumber rv = svrNumber sv \<and> crID rv = svrID sv \<and> crNodeID rv = cdNodeID i
    \<and> (\<forall>ident. idNodeID ident = cdNodeID i \<longrightarrow> revision_checks ident rv = Inr ())"
proof -
  let ?u = "cdNodeID i"
  obtain n number subs where c: "node_by_id ?u d = Some n" "next_revision w ?u d = Inr number"
      "listConfigSubscriptionInputs w (ndRegion n) d = Inr subs"
      "store_revision w ?u ?u number (ndActiveRevision n)
       (RenderVLESSRealityPayloadWithReality (deploy_input ?u number n subs) reality) (cdCreatedBy i) d = Inr (sv, d')"
    using CreateDummy_done [OF created] canon by auto
  let ?in = "deploy_input ?u number n subs"
  let ?p = "RenderVLESSRealityPayloadWithReality ?in reality"
  have n: "n \<in> set (dbNodes d)" "node_ints_ok n" using row_with_SomeD [OF c(1) [unfolded node_by_id_def]] ok
    by (auto simp: node_store_ok_def nodes_inv_def node_inv_def)
  have number: "int4 number" "0 < number" using c(2) last_number_nonneg [of ?u d] by (auto simp: next_revision_Inr)
  have js: "json_safe (AObj ?p)"
    by (rule render_payload_safe) (rule deploy_input_safe [OF safe(1) n c(3) uuid_clean(3) [OF canon] number(1) safe(2)])
  obtain row where r: "sv = scanConfigRevision row" "cvNodeID row = ?u" "cvNumber row = number" "cvStatus row = ''pending''"
      "cvRollbackTarget row = Some (ndActiveRevision n)" "cvPayload row = ?p" "cvAppliedAt row = None"
      "cvID row = pwID w ''config_revisions''" "cvSigner row = DefaultSigner" "cvHash row = HashPayload (Some ?p)"
      "cvSignature row = Sign NewDevSigner (row_bundle ?u row)" "ValidateVLESSRealityPayload (Some ?p) = Inr ()"
    using store_revision_done [OF c(4)] by blast
  have ren: "renderable ?in reality" using r(12) render_payload_conforms [of ?in reality] ValidateVLESSRealityPayload_ok [of ?p] by simp
  have num: "idx ?p ''revision_number'' = AInt number"
    by (simp add: RenderVLESSRealityPayloadWithReality_def Let_def deploy_input_def)
  have i8: "int8 k" if "int4 k" for k using that by (auto simp: int4_def int8_def)
  let ?rv = "delivered (pwID w ''config_revisions'') ?u number (ndActiveRevision n) ?p"
  have sg: "cvSignature row = crSignature ?rv"
    unfolding r(11) delivered_signature by (rule Sign_cong) (simp_all add: row_bundle_def r(1-10))
  have asc: "ascii (crSignature ?rv)" "ascii (HashPayload (Some ?p))"
    by (simp_all only: delivered_signature ascii_Sign ascii_HashPayload)
  have "decode_envelope (Some (wire (AObj [(''data'', AObj (configRevisionResponse sv))]))) = Some (Some (?rv\<lparr> crCreatedAt := svrCreatedAt sv \<rparr>))"
  proof (subst decode_response [of sv ?p])
    show "list_all utf8_valid [svrID sv, svrNodeID sv, svrStatus sv, svrHash sv, svrSignature sv, svrSigner sv]"
      using asc sg uuid_clean(3) [OF canon] uuid_clean(3) [OF rid] by (simp add: r(1-10) scanConfigRevision_def utf8_valid_ascii DefaultSigner_def)
    show "int8 (svrNumber sv)" "int8 (svrRollbackTarget sv)"
      using i8 number n(2) by (simp_all add: r(1-10) scanConfigRevision_def node_ints_ok_def)
    show "dated (svrCreatedAt sv)" using time store_revision_time [OF c(4)] by simp
    show "svrAppliedAt sv = None" "svrBundle sv = Some (through_json_obj ?p)" by (simp_all add: r(1-10) scanConfigRevision_def)
    show "json_safe (AObj ?p)" by (rule js)
  qed (use sg in \<open>simp add: r(1-10) scanConfigRevision_def delivered_def Let_def\<close>)
  moreover have "revision_checks ident (?rv\<lparr> crCreatedAt := svrCreatedAt sv \<rparr>) = Inr ()" if "idNodeID ident = ?u" for ident
    unfolding checks_ignore_times
    by (rule agent_accepts_delivered [OF js rendered_agent_payload [OF ren] num that uuid_clean(2) [OF canon] number(2)])
  ultimately show ?thesis
    by (intro exI [of _ "?rv\<lparr> crCreatedAt := svrCreatedAt sv \<rparr>"]) (simp add: delivered_def Let_def r(1-10) scanConfigRevision_def)
qed

text \<open>A client whose requests reach a panel that serves them from a database.\<close>

definition connected :: "PanelClient \<Rightarrow> panel_world \<Rightarrow> db \<Rightarrow> bool" where
  "connected c w d \<longleftrightarrow> base_url c \<noteq> [] \<and> clHTTP c = (\<lambda>q. Inr (fst (serve_node (base_url c) w q d)))"

lemma identity_error_none:
  "TrimSpace n = n \<Longrightarrow> n \<noteq> [] \<Longrightarrow> TrimSpace t = t \<Longrightarrow> t \<noteq> [] \<Longrightarrow> identity_error n t = None"
  by (simp add: identity_error_def)

lemma serve_pending:
  assumes "TrimSpace nodeID = nodeID" and "nodeID \<noteq> []" and "TrimSpace token = token" and "token \<noteq> []"
    and "FindLatestPendingConfigRevision w nodeID token d = Inr v"
  shows "serve_node (base_url c) w \<lparr> wqMethod = ''GET'', wqURL = node_url c nodeID ''/config-revisions/pending'',
        wqAuthorization = ''Bearer '' @ token, wqBody = None \<rparr> d
     = (\<lparr> wrStatus = 200, wrBody = Some (wire (AObj [(''data'', AObj (configRevisionResponse v))])) \<rparr>, d)"
proof -
  have u: "url_segments (base_url c) (node_url c nodeID ''/config-revisions/pending'') = Some [''api'', ''v1'', ''nodes'', nodeID, ''config-revisions'', ''pending'']"
    using segments_node_url(2) [of "''config-revisions''" "''pending''" c nodeID] by (simp add: plain_segment_def)
  have b: "bearerToken (''Bearer '' @ token) = Some token" using bearerToken_some assms(3,4) by blast
  let ?q = "\<lparr> wqMethod = ''GET'', wqURL = node_url c nodeID ''/config-revisions/pending'', wqAuthorization = ''Bearer '' @ token, wqBody = None \<rparr>"
  have "HandleGetPending w (node_request [(''id'', nodeID)] ?q) d
      = (data_of 200 (configRevisionResponse v), d, [recordNode ''node.config_revision.fetch'' nodeID OutcomeSuccess []])"
    unfolding HandleGetPending_def node_request_def http_request.simps wire_request.simps b
    using assms(1,2,5) by (simp add: path_value_def)
  then show ?thesis
    by (simp add: serve_node_def u wire_answer_def data_of_def WriteJSON_def del: wire.simps)
qed

lemma deployed_accepted:
  assumes "node_store_ok d" and "CreateDummyConfigRevision w reality i d = (Inr sv, d')"
    and "uuid_cast (cdNodeID i) = Some (cdNodeID i)" and "uuid_cast (pwID w ''config_revisions'') = Some (pwID w ''config_revisions'')"
    and "text_safe d" and "reality_safe (WithDefaults reality)" and "dated (pwPgNow w)"
    and "node_by_id (cdNodeID i) d = Some n" and "nrAuthHash n = Some (HashNodeToken token)" and "TrimSpace token = token" and "token \<noteq> []"
    and "connected c w' d'" and "\<not> pwFault w' ''select config_revision''"
  shows "\<exists>rv. FetchPendingConfigRevision c (cdNodeID i) token = Inr (Some rv) \<and> crID rv = svrID sv
    \<and> crRevisionNumber rv = svrNumber sv
    \<and> (\<forall>ident. idNodeID ident = cdNodeID i \<longrightarrow> revision_checks ident rv = Inr ())"
proof -
  obtain rv where rv: "decode_envelope (Some (wire (AObj [(''data'', AObj (configRevisionResponse sv))]))) = Some (Some rv)"
    "crRevisionNumber rv = svrNumber sv" "crID rv = svrID sv" "\<forall>ident. idNodeID ident = cdNodeID i \<longrightarrow> revision_checks ident rv = Inr ()"
    using created_response [OF assms(1-7)] by blast
  obtain u m row where r: "uuid_cast (cdNodeID i) = Some u" "node_by_id u d = Some m" "node_open m" "sv = scanConfigRevision row"
      "d' = d\<lparr> dbRevisions := dbRevisions d @ [row] \<rparr>" "cvNodeID row = u" "cvNumber row = last_number u d + 1" "cvStatus row = ''pending''"
    using CreateDummy_row [OF assms(2)] by blast
  have u: "u = cdNodeID i" "m = n" using r(1,2) assms(3,8) by simp_all
  note id = uuid_clean(1,2) [OF assms(3)]
  have latest: "FindLatestPendingConfigRevision w' (cdNodeID i) token d' = Inr sv"
    unfolding r(4,5) by (rule created_is_latest [where n = n]) (use assms r u in simp_all)
  have "clHTTP c \<lparr> wqMethod = ''GET'', wqURL = node_url c (cdNodeID i) ''/config-revisions/pending'',
        wqAuthorization = ''Bearer '' @ token, wqBody = None \<rparr>
      = Inr \<lparr> wrStatus = 200, wrBody = Some (wire (AObj [(''data'', AObj (configRevisionResponse sv))])) \<rparr>"
    using serve_pending [OF id assms(10,11) latest, of c] assms(12) by (simp add: connected_def del: wire.simps)
  then have "FetchPendingConfigRevision c (cdNodeID i) token = Inr (Some rv)"
    using identity_error_none [OF id assms(10,11)] assms(12) rv(1) by (simp add: FetchPendingConfigRevision_def connected_def del: wire.simps)
  then show ?thesis using rv by blast
qed

section \<open>Reports on the wire\<close>

definition event_clean :: "RuntimeEvent \<Rightarrow> bool" where
  "event_clean e \<longleftrightarrow> list_all utf8_valid [reType e, reStatus e, reMessage e, reMode e, reProcessMode e, reProcessState e]
     \<and> int8 (reRevision e) \<and> dated (reAt e)"

definition report_clean :: "ConfigRevisionReport \<Rightarrow> bool" where
  "report_clean r \<longleftrightarrow> list_all utf8_valid [rrStatus r, rrErrorMessage r, rrRuntimeMode r, rrProcessMode r, rrProcessState r, rrDesiredState r,
       rrRuntimeState r, rrLastDryRun r, rrLastAttempt r, rrLastRuntimeError r, rrLastValidation r, rrLastValidationError r, rrActiveConfigPath r]
     \<and> list_all int8 [rrActiveRevision r, rrLastPrepared r, rrLastApplied r]
     \<and> list_all dated [rrAppliedAt r, rrFailedAt r, rrLastRuntimeAt r, rrLastValidationAt r, rrSentAt r]
     \<and> list_all event_clean (rrEvents r)"

definition event_keys :: "string list" where
  "event_keys = [''type'', ''status'', ''revision_number'', ''message'', ''runtime_mode'', ''runtime_process_mode'', ''runtime_process_state'', ''at'']"

definition report_keys :: "string list" where
  "report_keys = [''status'', ''applied_at'', ''failed_at'', ''last_runtime_transition_at'', ''last_validation_at'', ''sent_at'',
     ''error_message'', ''active_revision'', ''runtime_mode'', ''runtime_process_mode'', ''runtime_process_state'',
     ''runtime_desired_state'', ''runtime_state'', ''last_dry_run_status'', ''last_runtime_attempt_status'',
     ''last_runtime_prepared_revision'', ''last_runtime_error'', ''last_validation_status'', ''last_validation_error'',
     ''last_applied_revision'', ''active_config_path'', ''runtime_events'']"

lemma key_lists: "struct_keys event_keys" "struct_keys report_keys"
  by (simp_all add: struct_keys_def event_keys_def report_keys_def byte_def)

text \<open>The fields of a struct with a fixed part, a part without empty fields, and a last part.\<close>

lemma holds_parts:
  assumes "struct_keys (map fst (A @ omit_empty B @ C))" and "distinct (map fst B)"
  shows "(k, v) \<in> set A \<union> set C \<Longrightarrow> idx (A @ omit_empty B @ C) k = v"
    and "(k, v) \<in> set B \<Longrightarrow> k \<notin> fst ` set A \<union> fst ` set C \<Longrightarrow> holds_field (A @ omit_empty B @ C) k v"
proof -
  have d: "distinct (map fst (A @ omit_empty B @ C))" using assms(1) by (simp only: struct_keys_def)
  show "idx (A @ omit_empty B @ C) k = v" if kv: "(k, v) \<in> set A \<union> set C"
  proof -
    have "(k, v) \<in> set (A @ omit_empty B @ C)" using kv by auto
    then show ?thesis unfolding idx_def by (simp only: map_of_is_SomeI [OF d] option.case)
  qed
  assume kv: "(k, v) \<in> set B" "k \<notin> fst ` set A \<union> fst ` set C"
  have "\<not> has_key A k" using kv(2) by (simp add: has_key_def map_of_eq_None_iff)
  moreover have "holds_field (omit_empty B @ C) k v"
    by (rule holds_omit [OF _ assms(2) kv(1)]) (use d kv(2) in simp_all)
  ultimately show "holds_field (A @ omit_empty B @ C) k v" by (simp only: holds_append if_False)
qed

lemma idx_absent:
  assumes "k \<notin> fst ` set A" and "k \<notin> fst ` set B" and "k \<notin> fst ` set C"
  shows "idx (A @ omit_empty B @ C) k = ANil"
proof -
  have "k \<notin> fst ` set (A @ omit_empty B @ C)" using assms by (auto simp: omit_empty_def)
  then have "map_of (A @ omit_empty B @ C) k = None" by (simp only: map_of_eq_None_iff not_False_eq_True)
  then show ?thesis unfolding idx_def by (simp only: option.case)
qed

lemma decode_event_wire:
  assumes "event_clean e"
  shows "event_of_any (wire (event_json e)) = Some e"
proof -
  let ?A = "[(''type'', AStr (reType e)), (''status'', AStr (reStatus e))]"
  let ?B = "[(''revision_number'', AInt (reRevision e)), (''message'', AStr (reMessage e)),
         (''runtime_mode'', AStr (reMode e)), (''runtime_process_mode'', AStr (reProcessMode e)), (''runtime_process_state'', AStr (reProcessState e))]"
  let ?C = "[(''at'', AStr (RFC3339Nano (reAt e)))]"
  let ?m = "?A @ omit_empty ?B @ ?C"
  have "map fst (?A @ ?B @ ?C) = event_keys" by (simp add: event_keys_def)
  then have st: "struct_keys (map fst ?m)" using struct_append [of ?A ?B ?C False] key_lists(1) by (simp only: if_False)
  have dB: "distinct (map fst ?B)" by simp
  note h = holds_parts [OF st dB]
  note l = struct_lower [OF key_lists(1)]
  note c = assms [unfolded event_clean_def list.pred_inject]
  have f: "dec_str (wire_obj ?m) ''type'' = Some (reType e)" "dec_str (wire_obj ?m) ''status'' = Some (reStatus e)"
    by (rule dec_str_wire [OF st l]; use c h(1) in \<open>simp add: event_keys_def holds_field_def\<close>)+
  have g: "dec_str (wire_obj ?m) ''message'' = Some (reMessage e)" "dec_str (wire_obj ?m) ''runtime_mode'' = Some (reMode e)"
    "dec_str (wire_obj ?m) ''runtime_process_mode'' = Some (reProcessMode e)" "dec_str (wire_obj ?m) ''runtime_process_state'' = Some (reProcessState e)"
    by (rule dec_str_wire [OF st l h(2)]; use c in \<open>simp add: event_keys_def\<close>)+
  have n: "dec_int (wire_obj ?m) ''revision_number'' = Some (reRevision e)"
    by (rule dec_int_wire [OF st l h(2)]; use c in \<open>simp add: event_keys_def\<close>)
  have t: "dec_time (wire_obj ?m) ''at'' = Some (reAt e)"
    by (rule dec_time_wire [OF st l h(1)]; use c in \<open>simp add: event_keys_def\<close>)
  have "wire (event_json e) = AObj (wire_obj ?m)" by (simp only: event_json_def wire.simps)
  then show ?thesis by (simp only: event_of_any.simps decode_event_def f g n t option.case prod.case) simp
qed

lemma decode_events_wire: "list_all event_clean es \<Longrightarrow> events_of_any (wire (AArr (map event_json es))) = Some es"
  by (induction es) (simp_all add: decode_event_wire)

lemma decode_report_wire:
  assumes "report_clean r"
  shows "decode_report (wire_obj (report_json r)) = Some r"
proof -
  let ?A = "[(''status'', AStr (rrStatus r)), (''applied_at'', AStr (RFC3339Nano (rrAppliedAt r))),
       (''failed_at'', AStr (RFC3339Nano (rrFailedAt r))), (''last_runtime_transition_at'', AStr (RFC3339Nano (rrLastRuntimeAt r))),
       (''last_validation_at'', AStr (RFC3339Nano (rrLastValidationAt r))), (''sent_at'', AStr (RFC3339Nano (rrSentAt r)))]"
  let ?B = "[(''error_message'', AStr (rrErrorMessage r)), (''active_revision'', AInt (rrActiveRevision r)),
       (''runtime_mode'', AStr (rrRuntimeMode r)), (''runtime_process_mode'', AStr (rrProcessMode r)),
       (''runtime_process_state'', AStr (rrProcessState r)), (''runtime_desired_state'', AStr (rrDesiredState r)),
       (''runtime_state'', AStr (rrRuntimeState r)), (''last_dry_run_status'', AStr (rrLastDryRun r)),
       (''last_runtime_attempt_status'', AStr (rrLastAttempt r)), (''last_runtime_prepared_revision'', AInt (rrLastPrepared r)),
       (''last_runtime_error'', AStr (rrLastRuntimeError r)), (''last_validation_status'', AStr (rrLastValidation r)),
       (''last_validation_error'', AStr (rrLastValidationError r)), (''last_applied_revision'', AInt (rrLastApplied r)),
       (''active_config_path'', AStr (rrActiveConfigPath r))]"
  let ?E = "[(''runtime_events'', AArr (map event_json (rrEvents r)))]"
  let ?C = "if rrEvents r = [] then [] else ?E"
  let ?m = "?A @ omit_empty ?B @ ?C"
  have m: "report_json r = ?m" by (simp only: report_json_def)
  have "map fst (?A @ ?B @ ?E) = report_keys" by (simp add: report_keys_def)
  then have st: "struct_keys (map fst ?m)" using struct_append [of ?A ?B ?E "rrEvents r = []"] key_lists(2) by (simp only: )
  have dB: "distinct (map fst ?B)" by simp
  note h = holds_parts [OF st dB]
  note l = struct_lower [OF key_lists(2)]
  note c = assms [unfolded report_clean_def list.pred_inject]
  have s0: "dec_str (wire_obj ?m) ''status'' = Some (rrStatus r)"
    by (rule dec_str_wire [OF st l]; use c h(1) in \<open>simp add: report_keys_def holds_field_def\<close>)
  have s: "dec_str (wire_obj ?m) ''error_message'' = Some (rrErrorMessage r)" "dec_str (wire_obj ?m) ''runtime_mode'' = Some (rrRuntimeMode r)"
    "dec_str (wire_obj ?m) ''runtime_process_mode'' = Some (rrProcessMode r)" "dec_str (wire_obj ?m) ''runtime_process_state'' = Some (rrProcessState r)"
    "dec_str (wire_obj ?m) ''runtime_desired_state'' = Some (rrDesiredState r)" "dec_str (wire_obj ?m) ''runtime_state'' = Some (rrRuntimeState r)"
    "dec_str (wire_obj ?m) ''last_dry_run_status'' = Some (rrLastDryRun r)" "dec_str (wire_obj ?m) ''last_runtime_attempt_status'' = Some (rrLastAttempt r)"
    "dec_str (wire_obj ?m) ''last_runtime_error'' = Some (rrLastRuntimeError r)" "dec_str (wire_obj ?m) ''last_validation_status'' = Some (rrLastValidation r)"
    "dec_str (wire_obj ?m) ''last_validation_error'' = Some (rrLastValidationError r)" "dec_str (wire_obj ?m) ''active_config_path'' = Some (rrActiveConfigPath r)"
    by (rule dec_str_wire [OF st l h(2)]; use c in \<open>simp add: report_keys_def\<close>)+
  have n: "dec_int (wire_obj ?m) ''active_revision'' = Some (rrActiveRevision r)"
    "dec_int (wire_obj ?m) ''last_runtime_prepared_revision'' = Some (rrLastPrepared r)" "dec_int (wire_obj ?m) ''last_applied_revision'' = Some (rrLastApplied r)"
    by (rule dec_int_wire [OF st l h(2)]; use c in \<open>simp add: report_keys_def\<close>)+
  have t: "dec_time (wire_obj ?m) ''applied_at'' = Some (rrAppliedAt r)" "dec_time (wire_obj ?m) ''failed_at'' = Some (rrFailedAt r)"
    "dec_time (wire_obj ?m) ''last_runtime_transition_at'' = Some (rrLastRuntimeAt r)"
    "dec_time (wire_obj ?m) ''last_validation_at'' = Some (rrLastValidationAt r)" "dec_time (wire_obj ?m) ''sent_at'' = Some (rrSentAt r)"
    by (rule dec_time_wire [OF st l h(1)]; use c in \<open>simp add: report_keys_def\<close>)+
  have lk: "map to_lower_char ''runtime_events'' = ''runtime_events''" by (rule l) (simp add: report_keys_def)
  have e: "dec events_of_any [] (wire_obj ?m) ''runtime_events'' = Some (rrEvents r)"
  proof (cases "rrEvents r = []")
    case True
    have "''runtime_events'' \<notin> fst ` set ?A" "''runtime_events'' \<notin> fst ` set ?B" "''runtime_events'' \<notin> fst ` set ?C"
      using True by simp_all
    then have "idx ?m ''runtime_events'' = ANil" by (rule idx_absent)
    then show ?thesis unfolding dec_wire [OF st lk] by (simp only: wire.simps True refl if_True)
  next
    case False
    have "idx ?m ''runtime_events'' = AArr (map event_json (rrEvents r))" by (rule h(1)) (simp add: False)
    moreover have "events_of_any (wire (AArr (map event_json (rrEvents r)))) = Some (rrEvents r)"
      by (rule decode_events_wire) (use c in blast)
    ultimately show ?thesis by (simp only: dec_wire [OF st lk] wire_nil any.distinct if_False)
  qed
  show ?thesis unfolding m decode_report_def by (simp only: s0 s n t e all_some.simps option.case option.map prod.case list.case) simp
qed

end
