(* ===== verification/RoundTrip.thy ===== *)
theory RoundTrip
  imports EndToEnd
begin

text \<open>
  A deployment from the panel to the agent and back: what the agent's status says after a successful apply, what its
  report looks like to the panel, and the state of the panel's tables after the report.
\<close>

section \<open>The agent after an apply\<close>

definition agent_clean :: "Service \<Rightarrow> bool" where
  "agent_clean sv \<longleftrightarrow> stRuntimeMode (svStatus sv) \<in> {RuntimeModeNoProcess, RuntimeModeDryRunOnly, RuntimeModeFuture}
     \<and> utf8_valid (stDesiredState (svStatus sv)) \<and> list_all event_clean (stEvents (svStatus sv)) \<and> ascii (state_dir sv)"

lemma cut_trail_clean: "list_all P es \<Longrightarrow> list_all P (cut_trail es)"
  by (auto simp: cut_trail_def last_n_def list_all_iff dest: in_set_dropD)

lemma append_clean:
  assumes "list_all event_clean (stEvents (svStatus sv))" and "utf8_valid (stRuntimeMode (svStatus sv))" and "utf8_valid (stProcessMode (svStatus sv))"
    and "utf8_valid (stProcessState (svStatus sv))" and "utf8_valid (TrimSpace (reMessage e))" and "utf8_valid (reType e)" and "utf8_valid (reStatus e)"
    and "int8 (reRevision e)" and "dated (reAt e)" and "dated (wNow w)" and "reMode e = []" and "reProcessMode e = []" and "reProcessState e = []"
  shows "list_all event_clean (stEvents (svStatus (AppendRuntimeEvent w e sv)))"
  using assms by (auto simp: AppendRuntimeEvent_def Let_def event_clean_def intro!: cut_trail_clean)

definition local_transition :: "agent_world \<Rightarrow> RuntimeTransition \<Rightarrow> bool" where
  "local_transition w tr \<longleftrightarrow> (trProcessMode tr, trProcessState tr, trAttempt tr)
       \<in> {(ProcessModeLocal, ProcessStateReady, AttemptReady), (ProcessModeDisabled, ProcessStateDisabled, AttemptSkipped)}
     \<and> trState tr = StateActiveConfigReady \<and> trErrorMessage tr = [] \<and> trAt tr = wNow w"

lemma local_transition_cases:
  "local_transition w tr \<Longrightarrow>
     tr = \<lparr> trProcessMode = ProcessModeLocal, trProcessState = ProcessStateReady, trState = StateActiveConfigReady,
            trAttempt = AttemptReady, trErrorMessage = [], trAt = wNow w \<rparr>
   \<or> tr = \<lparr> trProcessMode = ProcessModeDisabled, trProcessState = ProcessStateDisabled, trState = StateActiveConfigReady,
            trAttempt = AttemptSkipped, trErrorMessage = [], trAt = wNow w \<rparr>"
  by (cases tr) (auto simp: local_transition_def)

lemma fixed_modes: "normalizeRuntimeProcessMode ProcessModeLocal = ProcessModeLocal"
  "normalizeRuntimeProcessMode ProcessModeDisabled = ProcessModeDisabled"
  using normalize_fixed [of ProcessModeLocal] normalize_fixed [of ProcessModeDisabled] by simp_all

lemma supervisor_transition:
  "NoProcessRuntimeSupervisor mode None w q = (tr, None) \<Longrightarrow> pqAt q = wNow w \<Longrightarrow> local_transition w tr"
  by (auto simp: NoProcessRuntimeSupervisor_def LocalProcessRunnerSkeleton_def Let_def local_transition_def
      split: option.splits if_split_asm)

lemma record_applied_fields:
  assumes "local_transition w tr" and "st = svStatus (record_applied w rv a d tr sv)"
  shows "stRuntimeMode st = stRuntimeMode (svStatus sv)" "stDesiredState st = stDesiredState (svStatus sv)"
    "(stProcessMode st, stProcessState st, stLastAttempt st)
       \<in> {(ProcessModeLocal, ProcessStateReady, AttemptReady), (ProcessModeDisabled, ProcessStateDisabled, AttemptSkipped)}"
    "stRuntimeState st = StateActiveConfigReady" "stLastDryRun st = d" "stLastPrepared st = crRevisionNumber rv"
    "stLastApplied st = crRevisionNumber rv" "stActiveRevision st = crRevisionNumber rv" "stLastTransitionAt st = wNow w"
    "stLastRuntimeError st = []" "stConfigPath st = caConfigPath a"
  unfolding assms(2)
  by (insert local_transition_cases [OF assms(1)], elim disjE;
      simp add: record_applied_def Let_def TrackAppliedRevision_def TrackRuntimePrepared_def TrackValidationResult_def
      AppendRuntimeEvent_def fixed_modes)+

lemma record_applied_events:
  assumes "local_transition w tr" and "list_all event_clean (stEvents (svStatus sv))" and "utf8_valid (stRuntimeMode (svStatus sv))"
    and "int8 (crRevisionNumber rv)" and "dated (wNow w)"
  shows "list_all event_clean (stEvents (svStatus (record_applied w rv a d tr sv)))"
proof -
  let ?s2 = "TrackRuntimePrepared w rv a d tr (TrackAppliedRevision rv sv)"
  have u: "utf8_valid (stProcessMode (svStatus ?s2))" "utf8_valid (stProcessState (svStatus ?s2))"
    "stEvents (svStatus ?s2) = stEvents (svStatus sv)" "stRuntimeMode (svStatus ?s2) = stRuntimeMode (svStatus sv)"
    by (insert local_transition_cases [OF assms(1)], elim disjE;
        simp add: TrackRuntimePrepared_def TrackAppliedRevision_def Let_def fixed_modes utf8_valid_ascii)+
  have k: "stRuntimeMode (svStatus (AppendRuntimeEvent w e s)) = stRuntimeMode (svStatus s)"
    "stProcessMode (svStatus (AppendRuntimeEvent w e s)) = stProcessMode (svStatus s)"
    "stProcessState (svStatus (AppendRuntimeEvent w e s)) = stProcessState (svStatus s)" for e s
    by (simp_all add: AppendRuntimeEvent_def)
  have trim: "TrimSpace ''local process prepare/start intent recorded'' = ''local process prepare/start intent recorded''"
    by (rule TrimSpace_graphic) simp_all
  have t: "trAt tr = wNow w" using assms(1) by (simp add: local_transition_def)
  have v: "stEvents (svStatus (TrackValidationResult w a b c s)) = stEvents (svStatus s)" for a b c s
    by (simp add: TrackValidationResult_def)
  let ?e1 = "(new_event ''process_prepare_start_intent'' ''ready'' (crRevisionNumber rv) ''local process prepare/start intent recorded'')\<lparr> reAt := trAt tr \<rparr>"
  have c1: "list_all event_clean (stEvents (svStatus (AppendRuntimeEvent w ?e1 ?s2)))"
    by (rule append_clean) (use assms u trim t in \<open>simp_all add: new_event_def utf8_valid_ascii\<close>)
  have c2: "list_all event_clean (stEvents (svStatus (AppendRuntimeEvent w
      ((new_event ''apply_success'' ''applied'' (crRevisionNumber rv) [])\<lparr> reAt := trAt tr \<rparr>) s)))"
    if "s = ?s2 \<or> s = AppendRuntimeEvent w ?e1 ?s2" for s
    by (rule append_clean) (use that assms u c1 k t in \<open>auto simp: new_event_def utf8_valid_ascii\<close>)
  show ?thesis unfolding record_applied_def Let_def v by (rule c2) simp
qed

lemma validated_status:
  assumes "ValidateAndStoreConfigRevision rv sv = (Inr (), sv')"
  shows "stRuntimeMode (svStatus sv') = stRuntimeMode (svStatus sv)" "stDesiredState (svStatus sv') = stDesiredState (svStatus sv)"
    "stEvents (svStatus sv') = stEvents (svStatus sv)" "state_dir sv' = state_dir sv"
  using assms by (auto simp: ValidateAndStoreConfigRevision_def state_dir_def split: sum.splits)

lemma state_path_ascii: "ascii dir \<Longrightarrow> list_all ascii ns \<Longrightarrow> ascii (filepath_Join dir ns)"
proof -
  assume a: "ascii dir" "list_all ascii ns"
  have slash: "byte (CHR ''/'') < 128" "byte (CHR ''.'') < 128" by (simp_all add: byte_def)
  have n: "byte c < 128" if "n \<in> set (clean_names r [] (split_on (CHR ''/'') dir @ ns))" "c \<in> set n" for n c r
    using clean_names_sub [OF that(1)] that(2) a split_on_chars [of n "CHR ''/''" dir c] by (auto simp: ascii_def list_all_iff)
  show ?thesis
    using n slash by (auto simp: filepath_Join_def Let_def path_text_def ascii_def list_all_iff dest!: join_with_chars)
qed

text \<open>The status that the report of a successful apply is made of.\<close>

definition reported_status :: "Service \<Rightarrow> Service \<Rightarrow> int \<Rightarrow> instant \<Rightarrow> Status \<Rightarrow> bool" where
  "reported_status sv0 sv n now st \<longleftrightarrow> stRuntimeMode st = stRuntimeMode (svStatus sv0) \<and> stDesiredState st = stDesiredState (svStatus sv0)
     \<and> (stProcessMode st, stProcessState st, stLastAttempt st)
       \<in> {(ProcessModeLocal, ProcessStateReady, AttemptReady), (ProcessModeDisabled, ProcessStateDisabled, AttemptSkipped)}
     \<and> stRuntimeState st = StateActiveConfigReady \<and> stLastDryRun st \<in> {DryRunNotConfigured, DryRunPassed}
     \<and> stLastPrepared st = n \<and> stLastApplied st = n \<and> stActiveRevision st = n \<and> stLastTransitionAt st = now
     \<and> stLastRuntimeError st = [] \<and> ascii (stConfigPath st) \<and> list_all event_clean (stEvents st)"

lemma applied_status:
  assumes ap: "ApplyConfigRevisionWithContext w rv sv = (Inr (), sv')" and rt: "svRuntime sv = NoProcessRuntimeSupervisor mode None"
    and cl: "agent_clean sv" and now: "dated (wNow w)" and n: "int8 (crRevisionNumber rv)"
  shows "reported_status sv sv' (crRevisionNumber rv) (wNow w) (svStatus sv')"
  using ap
proof (cases rule: Apply_outcome)
  case (prepared sv1 sv2 sv3 a tr r3)
  note V = validated_status [OF prepared(1)] and S = Serialize_result [OF prepared(3)]
  let ?d = "dryRunStatusForValidator (svDryRun sv)"
  have st: "svStatus sv' = svStatus (record_applied w rv a ?d tr sv2)"
    using Persist_frame(2) [OF prepared(5)] prepared(6,7) by auto
  have lt: "local_transition w tr" using supervisor_transition [of mode w _ tr] prepared(4) rt by auto
  have s2: "stRuntimeMode (svStatus sv2) = stRuntimeMode (svStatus sv)" "stDesiredState (svStatus sv2) = stDesiredState (svStatus sv)"
    "stEvents (svStatus sv2) = stEvents (svStatus sv)"
    using V S(3) by (simp_all add: staged_status_def)
  have "utf8_valid (stRuntimeMode (svStatus sv2))" using s2(1) cl by (auto simp: agent_clean_def utf8_valid_ascii)
  then have e: "list_all event_clean (stEvents (svStatus sv'))"
    unfolding st by (intro record_applied_events [OF lt]) (use s2 cl n now in \<open>simp_all add: agent_clean_def\<close>)
  have "caConfigPath a = filepath_Join (state_dir sv) [''active'', ''config.json'']" using S(1) V(4) by (simp add: artifact_paths_def)
  then have p: "ascii (caConfigPath a)" using cl by (simp add: state_path_ascii agent_clean_def)
  have d: "?d \<in> {DryRunNotConfigured, DryRunPassed}" by (simp add: dryRunStatusForValidator_def)
  note f = record_applied_fields [OF lt st]
  show ?thesis unfolding reported_status_def using f s2 e p d by (simp only: simp_thms)
qed simp

section \<open>The report, as the panel sees it\<close>

lemma applied_report_clean:
  assumes "reported_status sv sv' n t1 st" and "agent_clean sv" and "dated t0" and "dated t1" and "int8 n"
  shows "report_clean (applied_report t0 n st)"
proof -
  have z: "dated 0" by (simp add: dated_def max_instant_def durations)
  have m: "utf8_valid (stRuntimeMode st)" "utf8_valid (stProcessMode st)" "utf8_valid (stProcessState st)" "utf8_valid (stLastAttempt st)"
    "utf8_valid (stLastDryRun st)" "utf8_valid (stDesiredState st)" "utf8_valid (stRuntimeState st)"
    using assms(1,2) by (auto simp: reported_status_def agent_clean_def utf8_valid_ascii)
  have i: "stLastPrepared st = n" "stLastApplied st = n" "stLastTransitionAt st = t1" "stLastRuntimeError st = []" "ascii (stConfigPath st)"
    "list_all event_clean (stEvents st)"
    using assms(1) by (simp_all add: reported_status_def)
  show ?thesis using m i assms(3-5) z by (simp add: report_clean_def applied_report_def base_report_def utf8_valid_ascii)
qed

lemma literal_trims: "TrimSpace ''no-process'' = ''no-process''" "TrimSpace ''dry-run-only'' = ''dry-run-only''"
  "TrimSpace ''future-process-managed'' = ''future-process-managed''" "TrimSpace ''disabled'' = ''disabled''" "TrimSpace ''local'' = ''local''"
  "TrimSpace ''ready'' = ''ready''" "TrimSpace ''skipped'' = ''skipped''" "TrimSpace ''applied'' = ''applied''"
  "TrimSpace ''active_config_ready'' = ''active_config_ready''"
  by (rule TrimSpace_graphic; simp)+

lemma literal_trim_modes:
  "s = ''no-process'' \<or> s = ''dry-run-only'' \<or> s = ''future-process-managed'' \<Longrightarrow> TrimSpace s = s"
  "s = ''local'' \<or> s = ''disabled'' \<Longrightarrow> TrimSpace s = s" "s = ''ready'' \<or> s = ''disabled'' \<Longrightarrow> TrimSpace s = s"
  using literal_trims by (elim disjE; simp only:)+

lemma runtime_fields_accepted:
  assumes "rm = ''no-process'' \<or> rm = ''dry-run-only'' \<or> rm = ''future-process-managed''" and "pm = ''local'' \<or> pm = ''disabled''"
    and "ps = ''ready'' \<or> ps = ''disabled''"
  shows "runtime_field_error rm pm ps = None"
proof -
  have "rm \<in> {''no-process'', ''dry-run-only'', ''future-process-managed'', ''local-process-managed''}" using assms(1) by (elim disjE) simp_all
  moreover have "pm \<in> {''disabled'', ''local''}" using assms(2) by (elim disjE) simp_all
  moreover have "ps \<in> {''disabled'', ''ready'', ''failed'', ''running'', ''stopped'', ''restarting''}" using assms(3) by (elim disjE) simp_all
  ultimately show ?thesis by (simp only: runtime_field_error_def not_True_eq_False simp_thms if_False)
qed

lemma reported_modes:
  assumes "reported_status sv sv' n t1 st" and "agent_clean sv"
  shows "stRuntimeMode st = ''no-process'' \<or> stRuntimeMode st = ''dry-run-only'' \<or> stRuntimeMode st = ''future-process-managed''"
    "stProcessMode st = ''local'' \<or> stProcessMode st = ''disabled''" "stProcessState st = ''ready'' \<or> stProcessState st = ''disabled''"
proof -
  show "stRuntimeMode st = ''no-process'' \<or> stRuntimeMode st = ''dry-run-only'' \<or> stRuntimeMode st = ''future-process-managed''"
    using assms by (simp add: reported_status_def agent_clean_def)
  have "(stProcessMode st, stProcessState st, stLastAttempt st)
       \<in> {(ProcessModeLocal, ProcessStateReady, AttemptReady), (ProcessModeDisabled, ProcessStateDisabled, AttemptSkipped)}"
    using assms(1) by (simp only: reported_status_def)
  then have "stProcessMode st = ''local'' \<and> stProcessState st = ''ready'' \<or> stProcessMode st = ''disabled'' \<and> stProcessState st = ''disabled''"
    by (simp only: insert_iff empty_iff prod.inject simp_thms) (elim disjE conjE; simp)
  then show "stProcessMode st = ''local'' \<or> stProcessMode st = ''disabled''" "stProcessState st = ''ready'' \<or> stProcessState st = ''disabled''"
    by (elim disjE conjE; simp)+
qed

lemma applied_report_accepted:
  assumes "reported_status sv sv' n t1 st" and "agent_clean sv"
  shows "report_error (applied_report t0 n st) = None"
proof -
  note m = reported_modes [OF assms]
  have "runtime_field_error (TrimSpace (stRuntimeMode st)) (TrimSpace (stProcessMode st)) (TrimSpace (stProcessState st)) = None"
    unfolding literal_trim_modes(1) [OF m(1)] literal_trim_modes(2) [OF m(2)] literal_trim_modes(3) [OF m(3)] by (rule runtime_fields_accepted [OF m])
  then show ?thesis by (simp add: report_error_def applied_report_def base_report_def literal_trims)
qed

section \<open>The panel after the report\<close>

lemma normal_forms:
  "panel_normalizeRuntimeProcessMode s \<in> {''disabled'', ''local''}"
  "normalizeRuntimeProcessState s \<in> {''disabled'', ''ready'', ''failed'', ''running'', ''stopped'', ''restarting''}"
  "normalizeRuntimeState s \<in> {''not_prepared'', ''active_config_ready'', ''validation_failed'', ''prepare_failed''}"
  "normalizeDryRunStatus s \<in> {''not_configured'', ''passed'', ''failed''}" "normalizeRuntimeAttempt s \<in> {''skipped'', ''ready'', ''failed''}"
  by (simp_all add: panel_normalizeRuntimeProcessMode_def normalizeRuntimeProcessState_def normalizeRuntimeState_def
      normalizeDryRunStatus_def normalizeRuntimeAttempt_def Let_def)

lemma report_applied_row_ok:
  assumes "node_row_ok n" and "node_ints_ok n" and "roLastValidation i = ''applied''"
    and "normalizeRuntimeMode (roRuntimeMode i) \<in> {''no-process'', ''dry-run-only'', ''future-process-managed''}"
    and "0 < number" and "int4 number" and "roLastPrepared i = number" and "roLastApplied i = number"
  shows "node_row_ok (report_applied w i number n) \<and> node_ints_ok (report_applied w i number n)"
proof
  have v: "report_validation_status i \<in> {[], ''applied'', ''failed''}"
    using assms(3) by (simp add: report_validation_status_def normalizeValidationStatus_def literal_trims)
  have "ndStatus n \<in> {''pending'', ''active'', ''unhealthy'', ''drained'', ''disabled''}" "ndDrainState n \<in> {''active'', ''draining'', ''drained''}"
    using assms(1) by (simp_all only: node_row_ok_def)
  then show "node_row_ok (report_applied w i number n)"
    using assms(4-8) v normal_forms unfolding node_row_ok_def report_applied_def report_runtime_def Let_def
    by (simp only: Node.simps node_row.simps simp_thms less_imp_le if_cancel) simp
  show "node_ints_ok (report_applied w i number n)"
    using assms by (simp add: node_ints_ok_def report_applied_def report_runtime_def Let_def)
qed

lemma report_succeeds:
  assumes ok: "node_store_ok d" and v: "v \<in> set (dbRevisions d)" "cvStatus v = ''pending''" "cvNodeID v = u" "cvID v = rid"
    and n: "node_by_id u d = Some n" "node_auth u token n"
    and i: "roNodeToken i = token" "roStatus i = ''applied''" "uuid_cast (roNodeID i) = Some u" "uuid_cast (roRevisionID i) = Some rid"
    and w: "pwFault w = (\<lambda>_. False)"
    and row: "node_row_ok (report_applied w i (cvNumber v) n)" "node_ints_ok (report_applied w i (cvNumber v) n)"
  shows "\<exists>d'. ReportConfigRevision w i d = (Inr (scanConfigRevision (reported_revision w i v)), d')
    \<and> node_by_id u d' = Some (report_applied w i (cvNumber v) n) \<and> reported_revision w i v \<in> set (dbRevisions d')"
proof -
  let ?hit = "\<lambda>z. z \<in> set (pending_for u token d) \<and> cvID z = rid"
  have inv: "revisions_inv d" "nodes_inv d" using ok by (simp_all add: node_store_ok_def)
  have nn: "n \<in> set (dbNodes d)" "ndID n = u" using row_with_SomeD [OF n(1) [unfolded node_by_id_def]] by simp_all
  have auth: "list_ex (node_auth u token) (dbNodes d)" using nn n(2) by (auto simp: list_ex_iff)
  have hit: "?hit z \<longleftrightarrow> z = v" if "z \<in> set (dbRevisions d)" for z
    using that v auth inv(1) distinct_key [of cvID "dbRevisions d" z v] by (auto simp: pending_for_def revisions_inv_def)
  have hits: "?hit = (\<lambda>z. z = v)" using hit v(1) by (auto simp: pending_for_def fun_eq_iff)
  let ?rows = "upd_where ?hit (reported_revision w i) (dbRevisions d)"
  have f: "cvID (reported_revision w i z) = cvID z" "cvNodeID (reported_revision w i z) = cvNodeID z" "cvNumber (reported_revision w i z) = cvNumber z"
    "cvCreatedBy (reported_revision w i z) = cvCreatedBy z" "cvStatus (reported_revision w i z) = ''applied''"
    "cvRollbackTarget (reported_revision w i z) = cvRollbackTarget z" for z
    using i(2) by (simp_all add: reported_revision_def Let_def)
  have keys: "map cvID ?rows = map cvID (dbRevisions d)" "map (\<lambda>v. (cvNodeID v, cvNumber v)) ?rows = map (\<lambda>v. (cvNodeID v, cvNumber v)) (dbRevisions d)"
    by (rule map_key_upd_where; simp add: f)+
  have rows: "\<forall>z \<in> set ?rows. revision_row_ok z \<and> int4 (cvNumber z) \<and> cvNodeID z \<in> ndID ` set (dbNodes d) \<and> known_admin d (cvCreatedBy z)"
    using inv(1) by (auto simp: set_upd_where revisions_inv_def revision_inv_def f revision_row_ok_def)
  let ?d1 = "d\<lparr> dbRevisions := ?rows \<rparr>"
  have put: "put_revisions ?rows d = Inr ?d1"
    unfolding put_revisions_Inr keys using rows inv(1) by (simp add: list_all_iff revisions_inv_def)
  have found: "List.find ?hit (dbRevisions d) = Some v"
  proof -
    have "\<exists>z. List.find (\<lambda>z. z = v) (dbRevisions d) = Some z" using v(1) by (auto simp: find_None_iff simp flip: not_None_eq)
    then show ?thesis unfolding hits by (auto dest: find_Some_D)
  qed
  let ?f = "report_node w i (cvNumber v)"
  have fn: "?f = report_applied w i (cvNumber v)" using i(2) by (simp add: report_node_def fun_eq_iff)
  have an: "node_auth u token m \<longleftrightarrow> m = n" if "m \<in> set (dbNodes d)" for m
    using that nn n(2) inv(2) distinct_key [of ndID "dbNodes d" m n] by (auto simp: nodes_inv_def node_auth_def)
  have fl: "filter (node_auth u token) (dbNodes d) = [n]"
  proof -
    have "filter (node_auth u token) (dbNodes d) = filter (\<lambda>m. ndID m = u) (dbNodes d)"
    proof (rule filter_cong [OF refl])
      fix m assume m: "m \<in> set (dbNodes d)"
      have "m = n" if "ndID m = u" using that m nn inv(2) distinct_key [of ndID "dbNodes d" m n] by (simp add: nodes_inv_def)
      then show "node_auth u token m \<longleftrightarrow> ndID m = u" using an [OF m] nn(2) by blast
    qed
    then show ?thesis using filter_key [of ndID "dbNodes d" u n] n(1) inv(2) by (simp add: nodes_inv_def node_by_id_def)
  qed
  have id: "ndID (?f m) = ndID m" "nrAuthHash (?f m) = nrAuthHash m" for m
    unfolding fn by (simp_all add: report_applied_def report_runtime_def Let_def)
  let ?d2 = "?d1\<lparr> dbNodes := upd_where (node_auth u token) ?f (dbNodes d) \<rparr>"
  have upd: "update_nodes (node_auth u token) ?f ?d1 = Inr ([?f n], ?d2)"
    unfolding update_nodes_Inr using row fl fn inv(2) id
    by (simp add: upd_where_hash map_key_upd_where nodes_inv_def)
  have num: "svrNumber (scanConfigRevision (reported_revision w i v)) = cvNumber v" by (simp add: scanConfigRevision_def f)
  have "ReportConfigRevision w i d = (Inr (scanConfigRevision (reported_revision w i v)), ?d2)"
    using i w put found upd num
    by (simp add: ReportConfigRevision_def in_tx_def Report_body_def uuid_param_def one_row_def Let_def)
  moreover have "node_by_id u ?d2 = Some (report_applied w i (cvNumber v) n)"
    using row_with_upd_where [of ndID ?f u "node_auth u token" "dbNodes d"] id n by (simp add: node_by_id_def fn)
  moreover have "reported_revision w i v \<in> set (dbRevisions ?d2)" using v(1) hit [OF v(1)] by (force simp: set_upd_where)
  ultimately show ?thesis by blast
qed

lemma serve_report:
  assumes "TrimSpace nodeID = nodeID" "nodeID \<noteq> []" "TrimSpace token = token" "token \<noteq> []" "TrimSpace rid = rid" "rid \<noteq> []"
    and "report_clean r" "report_error r = None" and "ReportConfigRevision w (report_input nodeID rid token r) d = (Inr v, d')"
  shows "serve_node (base_url c) w (report_request c nodeID token rid r) d
     = (\<lparr> wrStatus = 200, wrBody = Some (wire (AObj [(''data'', AObj (configRevisionResponse v))])) \<rparr>, d')"
proof -
  let ?q = "report_request c nodeID token rid r"
  have u: "url_segments (base_url c) (node_url c nodeID (''/config-revisions/'' @ PathEscape rid @ ''/report''))
      = Some [''api'', ''v1'', ''nodes'', nodeID, ''config-revisions'', rid, ''report'']"
    using segments_node_url(3) [of "''config-revisions''" "''report''" c nodeID rid] by (simp add: plain_segment_def)
  have b: "bearerToken (''Bearer '' @ token) = Some token" using bearerToken_some assms(3,4) by blast
  have body: "Option.bind (body_obj (node_request p ?q)) decode_report = Some r" for p
    using decode_report_wire [OF assms(7)] by (simp add: body_obj_def node_request_def report_request_def)
  have auth: "hqAuthorization (node_request p ?q) = ''Bearer '' @ token" for p by (simp add: node_request_def report_request_def)
  have path: "path_value ''id'' (node_request [(''id'', nodeID), (''revisionId'', rid)] ?q) = nodeID"
    "path_value ''revisionId'' (node_request [(''id'', nodeID), (''revisionId'', rid)] ?q) = rid"
    by (simp_all add: path_value_def node_request_def)
  have "\<exists>ev. HandleReport w (node_request [(''id'', nodeID), (''revisionId'', rid)] ?q) d = (data_of 200 (configRevisionResponse v), d', ev)"
    unfolding HandleReport_def auth b body path Let_def option.case using assms by simp
  then obtain ev where h: "HandleReport w (node_request [(''id'', nodeID), (''revisionId'', rid)] ?q) d = (data_of 200 (configRevisionResponse v), d', ev)" ..
  have url: "wqURL ?q = node_url c nodeID (''/config-revisions/'' @ PathEscape rid @ ''/report'')" "wqMethod ?q = ''POST''"
    by (simp_all add: report_request_def)
  show ?thesis
    unfolding serve_node_def url u Let_def option.case list.case using h
    by (simp add: wire_answer_def data_of_def WriteJSON_def url(2) del: wire.simps)
qed

lemma poll_applied:
  assumes "pcFetch cl = Inr (Some rv)" and "idNodeID (svIdentity sv) \<noteq> []" and "idNodeToken (svIdentity sv) \<noteq> []"
    and "ApplyConfigRevisionWithContext w rv sv = (Inr (), sv1)" and "t0 = (if now = 0 then wNow w else now)"
  shows "PollPendingConfigRevision w (Some cl) now sv =
    (let sv2 = TrackValidationResult w ''applied'' [] t0 sv1; report = applied_report t0 (crRevisionNumber rv) (svStatus sv2)
     in (case pcReport cl (crID rv) report of Some re \<Rightarrow> Inl re | None \<Rightarrow> Inr True, sv2, Some (crID rv, report)))"
  using assms by (simp add: PollPendingConfigRevision_def Let_def split: option.split)

lemma tracked_reported_status:
  "reported_status sv sv' n t1 (svStatus sv1) \<Longrightarrow> reported_status sv sv'' n t1 (svStatus (TrackValidationResult w a b t sv1))"
  unfolding reported_status_def by (simp add: TrackValidationResult_def)

lemma dated_json: "dated t \<Longrightarrow> json_year t"
  by (simp add: dated_def json_year_def durations)

lemma clean_times: "report_clean r \<Longrightarrow> list_all json_year (report_times r)"
  by (auto simp: report_clean_def report_times_def list_all_iff event_clean_def intro: dated_json)

lemma applied_input:
  assumes "reported_status sv sv' n t1 st" and "agent_clean sv" and "0 < n" and "i = report_input u rid token (applied_report t0 n st)"
  shows "roStatus i = ''applied''" "roNodeToken i = token" "roNodeID i = u" "roRevisionID i = rid" "roLastValidation i = ''applied''"
    "roLastPrepared i = n" "roLastApplied i = n" "normalizeRuntimeMode (roRuntimeMode i) \<in> {''no-process'', ''dry-run-only'', ''future-process-managed''}"
proof -
  have p: "stLastPrepared st = n" "stLastApplied st = n" using assms(1) by (simp_all add: reported_status_def)
  have d: "roStatus i = ''applied'' \<and> roNodeToken i = token \<and> roNodeID i = u \<and> roRevisionID i = rid \<and> roLastValidation i = ''applied''
     \<and> roLastPrepared i = n \<and> roLastApplied i = n \<and> roRuntimeMode i = TrimSpace (stRuntimeMode st)"
    unfolding assms(4) using p assms(3)
    by (simp add: report_input_def Let_def applied_report_def base_report_def literal_trims when_empty_def)
  then show "roStatus i = ''applied''" "roNodeToken i = token" "roNodeID i = u" "roRevisionID i = rid" "roLastValidation i = ''applied''"
    "roLastPrepared i = n" "roLastApplied i = n" by simp_all
  note m = reported_modes(1) [OF assms(1,2)]
  have r: "roRuntimeMode i = stRuntimeMode st" using d literal_trim_modes(1) [OF m] by simp
  show "normalizeRuntimeMode (roRuntimeMode i) \<in> {''no-process'', ''dry-run-only'', ''future-process-managed''}"
    unfolding r normalizeRuntimeMode_def Let_def literal_trim_modes(1) [OF m] using m by (elim disjE) simp_all
qed

lemma agent_applies:
  assumes "revision_checks (svIdentity s) rv = Inr ()" and "int8 (crRevisionNumber rv)" and "healthy aw" and "state_dir s \<noteq> []"
    and "svDryRun s = None" and "svRuntime s = NoProcessRuntimeSupervisor mode None" and "agent_clean s" and "dated (wNow aw)"
  obtains s1 where "ApplyConfigRevisionWithContext aw rv s = (Inr (), s1)"
    "reported_status s s1 (crRevisionNumber rv) (wNow aw) (svStatus s1)"
proof -
  have "ValidateXrayDryRun aw rv (snd (ValidateAndStoreConfigRevision rv s)) = Inr ()"
    using ValidateAndStore_status(7) [of rv s] assms(5) by (metis ValidateXrayDryRun_def option.case(1) prod.collapse)
  then obtain s1 where ap: "ApplyConfigRevisionWithContext aw rv s = (Inr (), s1)"
    using healthy_apply [OF assms(3,1,4) _ assms(6)] by blast
  show thesis using that [OF ap] applied_status [OF ap assms(6,7,8)] assms(2) by simp
qed

lemma panel_takes_report:
  assumes "node_store_ok d" and "row \<in> set (dbRevisions d)" and "cvStatus row = ''pending''" and "cvNodeID row = u"
    and "node_by_id u d = Some n" and "node_row_ok n \<and> node_ints_ok n \<and> node_auth u token n" and "TrimSpace token = token" and "token \<noteq> []"
    and "uuid_cast u = Some u" and "uuid_cast (cvID row) = Some (cvID row)" and "pwFault w = (\<lambda>_. False)"
    and "reported_status s s1 (cvNumber row) t1 st" and "agent_clean s" and "dated t0" and "dated t1"
    and "0 < cvNumber row" and "int4 (cvNumber row)" and "rep = applied_report t0 (cvNumber row) st"
  shows "report_clean rep \<and> (\<exists>d' m body.
    serve_node (base_url c) w (report_request c u token (cvID row) rep) d = (\<lparr> wrStatus = 200, wrBody = Some (wire body) \<rparr>, d')
    \<and> node_by_id u d' = Some m \<and> ndActiveRevision m = cvNumber row \<and> ndLastApplied m = cvNumber row
    \<and> (\<exists>v \<in> set (dbRevisions d'). cvID v = cvID row \<and> cvStatus v = ''applied''))"
proof (intro conjI)
  let ?in = "report_input u (cvID row) token rep"
  note ok = assms(6) [THEN conjunct1] assms(6) [THEN conjunct2, THEN conjunct1] assms(6) [THEN conjunct2, THEN conjunct2]
  note inp = applied_input [OF assms(12,13,16) refl, of u "cvID row" token t0, folded assms(18)]
  have n8: "int8 (cvNumber row)" using assms(17) by (auto simp: int4_def int8_def)
  show clean: "report_clean rep" unfolding assms(18) by (rule applied_report_clean [OF assms(12-15) n8])
  have rows: "node_row_ok (report_applied w ?in (cvNumber row) n) \<and> node_ints_ok (report_applied w ?in (cvNumber row) n)"
    by (rule report_applied_row_ok [OF ok(1,2) inp(5,8) assms(16,17) inp(6,7)])
  obtain d' where d': "ReportConfigRevision w ?in d = (Inr (scanConfigRevision (reported_revision w ?in row)), d')"
      "node_by_id u d' = Some (report_applied w ?in (cvNumber row) n)" "reported_revision w ?in row \<in> set (dbRevisions d')"
    using report_succeeds [OF assms(1-4) refl assms(5) ok(3) inp(2,1) _ _ assms(11) conjunct1 [OF rows] conjunct2 [OF rows]] assms(9,10) inp(3,4)
    by auto
  have served: "serve_node (base_url c) w (report_request c u token (cvID row) rep) d
      = (\<lparr> wrStatus = 200, wrBody = Some (wire (AObj [(''data'', AObj (configRevisionResponse (scanConfigRevision (reported_revision w ?in row))))])) \<rparr>, d')"
    by (rule serve_report [OF uuid_clean(1,2) [OF assms(9)] assms(7,8) uuid_clean(1,2) [OF assms(10)] clean
          applied_report_accepted [OF assms(12,13), of t0, folded assms(18)] d'(1)])
  have node: "ndActiveRevision (report_applied w ?in (cvNumber row) n) = cvNumber row" "ndLastApplied (report_applied w ?in (cvNumber row) n) = cvNumber row"
    using inp(7) assms(16) by (simp_all add: report_applied_def)
  have "cvID (reported_revision w ?in row) = cvID row \<and> cvStatus (reported_revision w ?in row) = ''applied''"
    using inp(1) by (simp add: reported_revision_def Let_def)
  then have final: "\<exists>v \<in> set (dbRevisions d'). cvID v = cvID row \<and> cvStatus v = ''applied''" using d'(3) by (rule bexI)
  show "\<exists>d' m body. serve_node (base_url c) w (report_request c u token (cvID row) rep) d = (\<lparr> wrStatus = 200, wrBody = Some (wire body) \<rparr>, d')
      \<and> node_by_id u d' = Some m \<and> ndActiveRevision m = cvNumber row \<and> ndLastApplied m = cvNumber row
      \<and> (\<exists>v \<in> set (dbRevisions d'). cvID v = cvID row \<and> cvStatus v = ''applied'')"
    by (intro exI conjI, rule served, rule d'(2), rule node(1), rule node(2), rule final)
qed


end
