(* ===== verification/NodesWitness.thy ===== *)
theory NodesWitness
  imports RevisionTheorems
begin

text \<open>
  A small installation: one node, invited with a bootstrap token, registered, deployed to and reported on.  The theorems
  about the node store are applied to it.
\<close>

section \<open>The installation\<close>

definition node_a :: uuid where "node_a = ''11111111-1111-4111-8111-111111111111''"
definition rev_a :: uuid where "rev_a = ''22222222-2222-4222-8222-222222222222''"

lemma casts [simp]: "uuid_cast node_a = Some node_a" "uuid_cast rev_a = Some rev_a"
  by code_simp+

text \<open>A server without faults, in 2024; every identifier it would give is one of the two above.\<close>

definition calm :: panel_world where
  "calm = \<lparr> pwNow = 1704067200000000000, pwPgNow = 1704067200000000000,
     pwID = (\<lambda>t. if t = ''config_revisions'' then rev_a else node_a), pwRand = Some (replicate 32 (chr 7)), pwFault = (\<lambda>_. False) \<rparr>"

definition invite_in :: CreateBootstrapTokenInput where
  "invite_in = \<lparr> cbName = ''n1'', cbRegion = ''eu'', cbCountryCode = ''DE'', cbHostname = ''n1.example'',
     cbExpiresAt = 1704153600000000000, cbCreatedBy = [] \<rparr>"

definition invited_db :: db where
  "invited_db = empty_db\<lparr> dbNodes := [fresh_node calm invite_in], dbTokens := [fresh_token calm invite_in node_a ''lnkbt_1'' None] \<rparr>"

definition register_in :: RegisterNodeInput where
  "register_in = \<lparr> rnNodeID = node_a, rnBootstrapToken = ''lnkbt_1'', rnAgentVersion = ''0.1.0'', rnHostname = ''n1'' \<rparr>"

definition node_token :: string where "node_token = hex_encode (replicate 32 (chr 7))"

definition registered_node :: node_row where
  "registered_node = register_node_row calm register_in node_token (fresh_node calm invite_in)"

definition used_token :: token_row where
  "used_token = (fresh_token calm invite_in node_a ''lnkbt_1'' None)\<lparr> btStatus := ''used'', btUsedAt := Some (pg_time (pwNow calm)) \<rparr>"

definition registered_db :: db where
  "registered_db = invited_db\<lparr> dbNodes := [registered_node], dbTokens := [used_token],
     dbRegistrations := [\<lparr> rgNodeID = node_a, rgHash = HashBootstrapToken ''lnkbt_1'', rgStatus = ''completed'', rgAt = pwPgNow calm \<rparr>] \<rparr>"

lemma calm_fields [simp]: "pwFault calm = (\<lambda>_. False)" "pwRand calm = Some (replicate 32 (chr 7))"
  "pwID calm ''config_revisions'' = rev_a" "pwNow calm = 1704067200000000000" "pwPgNow calm = 1704067200000000000"
  by (simp_all add: calm_def)

lemma fresh_fields: "ndID (fresh_node calm invite_in) = node_a" "nrAuthHash (fresh_node calm invite_in) = None"
  "btHash (fresh_token calm invite_in node_a t a) = HashBootstrapToken t" "btStatus (fresh_token calm invite_in node_a t a) = ''active''"
  "btUsedAt (fresh_token calm invite_in node_a t a) = None" "btNodeID (fresh_token calm invite_in node_a t a) = node_a"
  "btExpiresAt (fresh_token calm invite_in node_a t a) = 1704153600000000000" "btCreatedBy (fresh_token calm invite_in node_a t a) = a"
  by (simp_all add: fresh_node_def fresh_token_def calm_def invite_in_def pg_time_def)

lemma invited_ok: "node_store_ok invited_db"
  by (simp add: node_store_ok_def nodes_inv_def tokens_inv_def registrations_inv_def revisions_inv_def invited_db_def empty_db_def
      List.map_filter_simps fresh_fields fresh_node_ok token_row_ok_def known_admin_def)

lemma register_run: "Register calm register_in invited_db = (Inr (scanNode calm registered_node, node_token), registered_db)"
proof -
  have st: "ndStatus (fresh_node calm invite_in) = ''pending''" by (simp add: fresh_node_def)
  have ok: "node_row_ok registered_node" "node_ints_ok registered_node" "ndID registered_node = node_a"
      "nrAuthHash registered_node = Some (HashNodeToken node_token)"
    by (simp_all add: registered_node_def register_node_row_def fresh_node_def node_row_ok_def node_ints_ok_def int4_def calm_def Let_def)
  have tg: "token_guard calm register_in (fresh_token calm invite_in node_a ''lnkbt_1'' None) = Inr ()"
    by (simp add: token_guard_def fresh_fields register_in_def)
  have un: "update_nodes (\<lambda>n. ndID n = node_a \<and> ndStatus n \<in> {''pending'', ''active'', ''unhealthy'', ''drained''})
      (register_node_row calm register_in node_token) invited_db = Inr ([registered_node], invited_db\<lparr> dbNodes := [registered_node] \<rparr>)"
    using ok st fresh_fields by (simp add: update_nodes_Inr invited_db_def List.map_filter_simps flip: registered_node_def)
  have tok: "token_row_ok used_token" "btNodeID used_token = node_a" "btCreatedBy used_token = None"
    by (simp_all add: used_token_def token_row_ok_def fresh_fields)
  have upd: "upd_where (\<lambda>r. btID r = btID (fresh_token calm invite_in node_a ''lnkbt_1'' None))
      (\<lambda>r. r\<lparr> btStatus := ''used'', btUsedAt := Some (pg_time (pwNow calm)) \<rparr>) [fresh_token calm invite_in node_a ''lnkbt_1'' None] = [used_token]"
    by (simp add: used_token_def)
  have put: "put_tokens [used_token] (invited_db\<lparr> dbNodes := [registered_node] \<rparr>)
      = Inr (invited_db\<lparr> dbNodes := [registered_node], dbTokens := [used_token] \<rparr>)"
    using ok tok by (simp add: put_tokens_Inr known_admin_def)
  have body: "Register_body calm register_in node_token invited_db = Inr ((scanNode calm registered_node, node_token), registered_db)"
    unfolding Register_body_def
    using tg un put upd ok
    by (simp add: one_row_def row_with_def fresh_fields register_in_def first_row_def registered_db_def)
      (simp add: invited_db_def empty_db_def one_row_def row_with_def fresh_fields)
  then show ?thesis
    by (simp add: Register_def newNodeToken_def one_row_def in_tx_def node_token_def)
qed

lemma registered_ok: "node_store_ok registered_db"
  by (rule Register_inv [OF invited_ok register_run])

section \<open>A deployment\<close>

definition deploy_in :: CreateDummyConfigRevisionInput where
  "deploy_in = \<lparr> cdNodeID = node_a, cdCreatedBy = [] \<rparr>"

definition deployed_db :: db where
  "deployed_db = snd (CreateDummyConfigRevision calm DefaultRealityConfig deploy_in registered_db)"

lemma registered_fields: "ndID registered_node = node_a" "nrAuthHash registered_node = Some (HashNodeToken node_token)"
  "ndStatus registered_node = ''active''" "ndDrainState registered_node = ''active''" "ndActiveRevision registered_node = 0"
  "ndRegisteredAt registered_node = Some 1704067200000000000"
  by (simp_all add: registered_node_def register_node_row_def fresh_node_def calm_def Let_def pg_time_def)

lemma registered_rows [simp]: "dbNodes registered_db = [registered_node]" "dbRevisions registered_db = []" "dbSubscriptions registered_db = []"
  by (simp_all add: registered_db_def invited_db_def empty_db_def)

lemma registered_by_id: "node_by_id node_a registered_db = Some registered_node"
  by (simp add: node_by_id_def registered_fields)

lemma default_renders: "can_render DefaultRealityConfig registered_db"
  by (simp add: can_render_def WithDefaults_def DefaultRealityConfig_def or_default_def)

lemma deploy_facts: "node_store_ok registered_db" "pwFault calm = (\<lambda>_. False)" "uuid_cast (cdNodeID deploy_in) = Some node_a"
  "node_by_id node_a registered_db = Some registered_node" "node_open registered_node" "0 \<le> ndActiveRevision registered_node"
  "cdCreatedBy deploy_in = []" "last_number node_a registered_db < 2 ^ 31 - 1"
  "pwID calm ''config_revisions'' \<notin> cvID ` set (dbRevisions registered_db)" "can_render DefaultRealityConfig registered_db"
  by (simp_all add: registered_ok registered_by_id node_open_def registered_fields last_number_def deploy_in_def default_renders)

lemma deploy_run: "\<exists>row. CreateDummyConfigRevision calm DefaultRealityConfig deploy_in registered_db = (Inr (scanConfigRevision row), deployed_db)
    \<and> dbRevisions deployed_db = [row] \<and> dbNodes deployed_db = [registered_node] \<and> dbAdmins deployed_db = []
    \<and> cvNodeID row = node_a \<and> cvNumber row = 1 \<and> cvStatus row = ''pending'' \<and> cvID row = rev_a"
  using creation_result [OF deploy_facts]
  by (auto simp: deployed_db_def last_number_def registered_db_def invited_db_def empty_db_def)

lemma deployed_ok: "node_store_ok deployed_db"
  using deploy_run CreateDummy_inv [OF registered_ok] by blast

lemma created_revision_witness:
  "\<exists>u n row. uuid_cast node_a = Some u \<and> node_by_id u registered_db = Some n
    \<and> ndStatus n \<noteq> ''disabled'' \<and> ndDrainState n = ''active''
    \<and> deployed_db = registered_db\<lparr> dbRevisions := dbRevisions registered_db @ [row] \<rparr>
    \<and> cvNumber row = last_number u registered_db + 1 \<and> Verify NewDevSigner (row_bundle node_a row) = Inr ()"
proof -
  obtain sv where "CreateDummyConfigRevision calm DefaultRealityConfig deploy_in registered_db = (Inr sv, deployed_db)"
    using deploy_run by blast
  from created_revision [OF this] show ?thesis by (auto simp: deploy_in_def)
qed

lemma deployment_reaches_poll_witness:
  "\<exists>sv d'. CreateDummyConfigRevision calm DefaultRealityConfig deploy_in registered_db = (Inr sv, d')
    \<and> FindLatestPendingConfigRevision calm node_a node_token d' = Inr sv"
  using deployment_reaches_poll [OF deploy_facts registered_fields(2), of calm] by (auto simp: deploy_in_def)

section \<open>A report\<close>

definition report_in :: ReportConfigRevisionInput where
  "report_in = \<lparr> roNodeID = node_a, roNodeToken = node_token, roRevisionID = rev_a, roStatus = ''applied'', roAppliedAt = 0,
     roFailedAt = 0, roErrorMessage = [], roMetadataPresent = True, roRuntimeMode = ''no-process'', roProcessMode = ''disabled'',
     roProcessState = ''disabled'', roDesiredState = [], roRuntimeState = ''active_config_ready'', roLastDryRun = [], roLastAttempt = ''skipped'',
     roLastPrepared = 1, roLastRuntimeAt = 0, roLastRuntimeError = [], roLastValidation = ''applied'', roLastValidationError = [],
     roLastValidationAt = 0, roLastApplied = 1, roActiveConfigPath = [], roEvents = [], roSentAt = 1704067260000000000 \<rparr>"

lemma registered_auth: "node_auth node_a node_token registered_node"
  by (simp add: node_auth_def registered_fields)

lemma report_fields [simp]: "roNodeID report_in = node_a" "roRevisionID report_in = rev_a" "roStatus report_in = ''applied''"
  "roNodeToken report_in = node_token"
  by (simp_all add: report_in_def)

lemma report_trims: "TrimSpace ''no-process'' = ''no-process''" "TrimSpace ''disabled'' = ''disabled''" "TrimSpace ''skipped'' = ''skipped''"
  "TrimSpace ''active_config_ready'' = ''active_config_ready''" "TrimSpace ''applied'' = ''applied''"
  by (rule TrimSpace_graphic; simp)+

lemma reported_node_ok:
  "node_row_ok (report_node calm report_in 1 registered_node) \<and> node_ints_ok (report_node calm report_in 1 registered_node)"
proof -
  have "ndStatus registered_node = ''active''" "ndDrainState registered_node = ''active''" "ndXrayPID registered_node = 0"
    by (simp_all add: registered_node_def register_node_row_def fresh_node_def Let_def)
  then show ?thesis
    by (simp add: node_row_ok_def node_ints_ok_def report_node_def report_applied_def report_runtime_def report_in_def report_trims
        report_validation_status_def normalizeValidationStatus_def normalizeRuntimeMode_def panel_normalizeRuntimeProcessMode_def
        normalizeRuntimeProcessState_def normalizeRuntimeState_def normalizeDryRunStatus_def normalizeRuntimeAttempt_def int4_def Let_def)
qed

definition reported_db :: db where "reported_db = snd (ReportConfigRevision calm report_in deployed_db)"

lemma report_run: "\<exists>sv. ReportConfigRevision calm report_in deployed_db = (Inr sv, reported_db)"
proof -
  obtain row where row: "dbRevisions deployed_db = [row]" "cvNodeID row = node_a" "cvNumber row = 1" "cvStatus row = ''pending''" "cvID row = rev_a"
    and nodes: "dbNodes deployed_db = [registered_node]"
    using deploy_run by blast
  let ?row = "reported_revision calm report_in row"
  let ?d1 = "deployed_db\<lparr> dbRevisions := [?row] \<rparr>"
  let ?n = "report_node calm report_in 1 registered_node"
  have inv: "revision_row_ok row" "known_admin deployed_db (cvCreatedBy row)" using deployed_ok row(1)
    by (simp_all add: node_store_ok_def revisions_inv_def revision_inv_def)
  have pend: "pending_for node_a node_token deployed_db = [row]" using row nodes registered_auth by (simp add: pending_for_def)
  have p: "put_revisions [?row] deployed_db = Inr ?d1"
    using inv row nodes registered_fields(1) by (simp add: put_revisions_Inr revision_row_ok_def int4_def reported_revision_def Let_def)
  have key: "ndID ?n = node_a" "nrAuthHash ?n = Some (HashNodeToken node_token)"
    by (simp_all add: report_node_def report_applied_def report_runtime_def Let_def registered_fields)
  have u: "update_nodes (node_auth node_a node_token) (report_node calm report_in 1) ?d1 = Inr ([?n], ?d1\<lparr> dbNodes := [?n] \<rparr>)"
    using nodes registered_auth reported_node_ok key by (simp add: update_nodes_Inr List.map_filter_simps)
  have "svrNumber (scanConfigRevision ?row) = 1" by (simp add: scanConfigRevision_def row(3))
  then have "ReportConfigRevision calm report_in deployed_db = (Inr (scanConfigRevision ?row), ?d1\<lparr> dbNodes := [?n] \<rparr>)"
    using row pend p u by (simp add: ReportConfigRevision_def in_tx_def Report_body_def uuid_param_def one_row_def Let_def)
  then show ?thesis by (auto simp: reported_db_def)
qed

lemma report_is_final_witness:
  "\<exists>v \<in> set (dbRevisions deployed_db). cvStatus v = ''pending''
    \<and> reported_revision calm report_in v \<in> set (dbRevisions (fold node_step [(calm, AskReport report_in)] reported_db))
    \<and> \<not> is_ok (fst (ReportConfigRevision calm report_in (fold node_step [(calm, AskReport report_in)] reported_db)))"
proof -
  obtain sv where "ReportConfigRevision calm report_in deployed_db = (Inr sv, reported_db)" using report_run by blast
  from report_is_final [OF deployed_ok this, of "[(calm, AskReport report_in)]"] show ?thesis by blast
qed

lemma node_store_invariant_witness:
  "node_store_ok (fold node_step [(calm, AskRevision DefaultRealityConfig deploy_in), (calm, AskReport report_in), (calm, AskDrain node_a)] registered_db)"
  by (rule node_store_invariant [OF registered_ok])

lemma bootstrap_token_single_use_witness:
  "Register calm register_in (fold node_step [(calm, AskDisable node_a)] registered_db)
   = (Inl ErrBootstrapTokenUsed, fold node_step [(calm, AskDisable node_a)] registered_db)"
  by (rule bootstrap_token_single_use [OF invited_ok register_run]) simp_all

section \<open>A disabled node\<close>

lemma lifecycle_refines_witness:
  "lifecycle_call DisableCmd calm node_a registered_db =
    (let step = (\<lambda>m :: node_row. m\<lparr> ndStatus := ''disabled'', ndDrainState := ''active'', ndUpdatedAt := pwPgNow calm \<rparr>)
     in (Inr (scanNode calm (step registered_node)),
         registered_db\<lparr> dbNodes := upd_where (\<lambda>m. ndID m = node_a) step (dbNodes registered_db) \<rparr>))"
  using lifecycle_refines [OF registered_ok casts(1) registered_by_id, of calm DisableCmd] by (simp add: registered_fields)

definition disabled_node_row :: node_row where
  "disabled_node_row = registered_node\<lparr> ndStatus := ''disabled'' \<rparr>"

definition disabled_db :: db where "disabled_db = registered_db\<lparr> dbNodes := [disabled_node_row] \<rparr>"

lemma disabled_ok: "node_store_ok disabled_db"
proof -
  have "node_inv registered_node" using registered_ok by (simp add: node_store_ok_def nodes_inv_def)
  then have "node_inv disabled_node_row"
    by (simp add: node_inv_def node_row_ok_def node_ints_ok_def disabled_node_row_def)
  then show ?thesis
    using registered_ok
    by (simp add: node_store_ok_def disabled_db_def nodes_inv_def tokens_inv_def registrations_inv_def revisions_inv_def
        disabled_node_row_def List.map_filter_simps registered_fields)
qed

lemma disabled_node_frozen_witness:
  "node_by_id node_a (fold node_step [(calm, AskRegister register_in), (calm, AskDrain node_a), (calm, AskReport report_in)] disabled_db)
   = Some disabled_node_row"
  by (rule disabled_node_frozen [OF disabled_ok])
    (simp_all add: disabled_db_def node_by_id_def disabled_node_row_def registered_fields not_enable_def)

lemma revisions_refine_log_witness:
  "log_step (revision_log deployed_db) (revision_log (node_step (calm, AskReport report_in) deployed_db))"
  by (rule revisions_refine_log [OF deployed_ok])

end
