(* ===== verification/RoundTripWitness.thy ===== *)
theory RoundTripWitness
  imports RoundTrip NodesWitness
begin

text \<open>
  The small installation with an agent: its node's agent, freshly registered, talks to a panel that has one pending revision.
  The theorems about a deployment from end to end are applied to it.
\<close>

definition client_a :: PanelClient where
  "client_a = \<lparr> clBaseURL = ''http://panel'', clHTTP = (\<lambda>q. Inr (fst (serve_node ''http://panel'' calm q deployed_db))) \<rparr>"

definition ident_a :: Identity where
  "ident_a = ident0\<lparr> idNodeID := node_a, idNodeToken := node_token \<rparr>"

definition agent_a :: Service where
  "agent_a = plain_service\<lparr> svIdentity := ident_a \<rparr>"

lemma base_url_a: "base_url client_a = ''http://panel''"
proof -
  have "TrimSpace ''http://panel'' = ''http://panel''" by (rule TrimSpace_graphic) simp_all
  then show ?thesis by (simp add: base_url_def client_a_def)
qed

lemma connected_a: "connected client_a calm deployed_db"
  unfolding connected_def base_url_a by (simp add: client_a_def)

lemma node_token_clean: "node_token \<noteq> []" "TrimSpace node_token = node_token"
proof -
  have "length node_token = 64" by (simp add: node_token_def)
  then show n: "node_token \<noteq> []" by auto
  have "graphic c" if "c \<in> set node_token" for c
    using hex_encode_chars [of c "replicate 32 (chr 7)"] that by (simp add: node_token_def graphic_def)
  with n show "TrimSpace node_token = node_token" by (intro TrimSpace_graphic) auto
qed

lemma registered_safe: "text_safe registered_db"
proof -
  have "dbUsers registered_db = []" "dbPlans registered_db = []"
    by (simp_all add: registered_db_def invited_db_def empty_db_def)
  moreover have "ndHostname registered_node = ''n1''" "ndRegion registered_node = ''eu''" "ndCountryCode registered_node = ''DE''"
    by (simp_all add: registered_node_def register_node_row_def fresh_node_def invite_in_def register_in_def Let_def)
  ultimately show ?thesis by (simp add: text_safe_def utf8_literal)
qed

lemma default_reality_safe: "reality_safe (WithDefaults DefaultRealityConfig)"
  by (simp add: reality_safe_def WithDefaults_def DefaultRealityConfig_def or_default_def utf8_literal small_int_def)

lemma calm_dated: "dated (pwPgNow calm)" "dated 1000000000"
  by (simp_all add: dated_def max_instant_def durations)

lemma deploy_fields: "cdNodeID deploy_in = node_a" by (simp add: deploy_in_def)

lemma deploy_call: "\<exists>sv. CreateDummyConfigRevision calm DefaultRealityConfig deploy_in registered_db = (Inr sv, deployed_db)"
  using deploy_run by blast

lemma agent_a_facts: "state_dir agent_a = ''/var/lib/agent''" "svDryRun agent_a = None" "agent_clean agent_a"
  "svRuntime agent_a = NoProcessRuntimeSupervisor ''local'' None"
proof -
  show d: "state_dir agent_a = ''/var/lib/agent''"
    using plain_service_facts(3) by (simp add: state_dir_def agent_a_def ident_a_def plain_service_facts(1))
  show "svDryRun agent_a = None" "svRuntime agent_a = NoProcessRuntimeSupervisor ''local'' None"
    by (simp_all add: agent_a_def plain_service_facts)
  have s: "svStatus agent_a = initial_status ident0" by (simp add: agent_a_def plain_service_def)
  show "agent_clean agent_a"
    unfolding agent_clean_def d s by (simp add: initial_status_def Let_def runtimeModeForIdentity_def utf8_literal ascii_def)
qed


end
