(* ===== verification/PgSteps.thy ===== *)
theory PgSteps
  imports PanelDb
begin

text \<open>
  Text parameters of PostgreSQL columns: the server refuses text that is no UTF-8 or holds a NUL, and a \<open>varchar(n)\<close>
  column refuses more than \<open>n\<close> characters unless the rest are spaces, which it drops.
\<close>

text \<open>The runes of a text, an invalid byte as U+FFFD.\<close>

function runes :: "string \<Rightarrow> string list" where
  "runes [] = []"
| "runes (a # s) = (let w = rune_width (a # s)
     in if w = 0 then [chr 239, chr 191, chr 189] # runes s else take w (a # s) # runes (drop (w - 1) s))"
  by pat_completeness auto
termination by (relation "measure length") auto

text \<open>\<open>strings.ToLower\<close>: ASCII as written here; the mapping of other runes is the parameter \<open>lower\<close>.\<close>

definition lower_rune :: "(string \<Rightarrow> string) \<Rightarrow> string \<Rightarrow> string" where
  "lower_rune lower r = (case r of [c] \<Rightarrow> [to_lower_char c] | _ \<Rightarrow> lower r)"

definition ToLower :: "(string \<Rightarrow> string) \<Rightarrow> string \<Rightarrow> string" where
  "ToLower lower s = concat (map (lower_rune lower) (runes s))"

definition pg_text :: "string \<Rightarrow> storage_error + string" where
  "pg_text s = (if utf8_valid s \<and> chr 0 \<notin> set s then Inr s else Inl (ErrPg PgInvalidText))"

definition varchar :: "nat \<Rightarrow> string \<Rightarrow> storage_error + string" where
  "varchar n s = bindE (pg_text s) (\<lambda>_. let rs = runes s in
     if length rs \<le> n then Inr s else if list_all (\<lambda>r. r = '' '') (drop n rs) then Inr (concat (take n rs)) else Inl (ErrPg PgTooLong))"

text \<open>A nullable column.\<close>

definition nullable :: "('a \<Rightarrow> storage_error + 'a) \<Rightarrow> 'a option \<Rightarrow> storage_error + 'a option" where
  "nullable f v = (case v of None \<Rightarrow> Inr None | Some x \<Rightarrow> bindE (f x) (\<lambda>y. Inr (Some y)))"

lemma runes_ascii: "ascii s \<Longrightarrow> runes s = map (\<lambda>c. [c]) s"
  by (induction s) (auto simp: ascii_def rune_width_ascii)

lemma pg_text_ascii: "ascii s \<Longrightarrow> chr 0 \<notin> set s \<Longrightarrow> pg_text s = Inr s"
  by (simp add: pg_text_def utf8_valid_ascii)

lemma pg_text_printable: "list_all (\<lambda>c. 0 < byte c \<and> byte c < 128) s \<Longrightarrow> pg_text s = Inr s"
proof (rule pg_text_ascii)
  assume a: "list_all (\<lambda>c. 0 < byte c \<and> byte c < 128) s"
  then show "ascii s" by (simp add: ascii_def list_all_iff)
  have "byte (chr 0) = 0" by (simp add: byte_def chr_def)
  then show "chr 0 \<notin> set s" using a unfolding list_all_iff by fastforce
qed

lemma varchar_ascii: "ascii s \<Longrightarrow> chr 0 \<notin> set s \<Longrightarrow> length s \<le> n \<Longrightarrow> varchar n s = Inr s"
  by (simp add: varchar_def pg_text_ascii runes_ascii Let_def)

section \<open>Steps that keep an invariant\<close>

text \<open>
  Invariants of operations that commit statement by statement: an operation keeps a property when every state it leaves,
  after a success or after a failure in the middle, has it.
\<close>

definition keeps :: "(db \<Rightarrow> bool) \<Rightarrow> (db \<Rightarrow> (storage_error + 'a) \<times> db) \<Rightarrow> bool" where
  "keeps P m \<longleftrightarrow> (\<forall>d. P d \<longrightarrow> P (snd (m d)))"

named_theorems keeps_rules

lemma keepsD: "keeps P m \<Longrightarrow> P d \<Longrightarrow> m d = (r, d') \<Longrightarrow> P d'"
  unfolding keeps_def by (metis snd_conv)

lemma keeps_seqE [keeps_rules]: "keeps P m \<Longrightarrow> (\<And>x. keeps P (k x)) \<Longrightarrow> keeps P (seqE m k)"
  unfolding keeps_def seqE_def by (auto split: prod.splits sum.splits)

lemma keeps_alone [keeps_rules]: "(\<And>d x d'. P d \<Longrightarrow> body d = Inr (x, d') \<Longrightarrow> P d') \<Longrightarrow> keeps P (alone body)"
  unfolding keeps_def alone_def by (auto split: prod.splits sum.splits)

lemma keepsI:
  "(\<And>d x d'. P d \<Longrightarrow> m d = (Inr x, d') \<Longrightarrow> P d') \<Longrightarrow> (\<And>d e d'. m d = (Inl e, d') \<Longrightarrow> d' = d) \<Longrightarrow> keeps P m"
  unfolding keeps_def by (metis prod.collapse sumE)

lemma keeps_in_tx [keeps_rules]: "(\<And>d x d'. P d \<Longrightarrow> body d = Inr (x, d') \<Longrightarrow> P d') \<Longrightarrow> keeps P (in_tx w body)"
  unfolding keeps_def by (metis in_tx_Inl in_tx_Inr prod.collapse sumE)

lemma keeps_readE [keeps_rules]: "keeps P (readE q)"
  by (simp add: keeps_def readE_def)

lemma keeps_giveE [keeps_rules]: "keeps P (giveE x)"
  by (simp add: keeps_def giveE_def)

lemma keeps_guardE [keeps_rules]: "keeps P (guardE b e)"
  by (simp add: keeps_def guardE_def)

lemma keeps_fail [keeps_rules]: "keeps P (\<lambda>d. (Inl e, d))"
  by (simp add: keeps_def)

end
