(* ===== verification/SubsStore.thy ===== *)
theory SubsStore
  imports NodesRevisions Urls PgSteps
begin

text \<open>
  \<open>services/panel-api/internal/storage/subscriptions.go\<close>: subscriptions (listed, created from a plan, updated, renewed), the
  access entry a client is given, and its VLESS URI.  Intervals of days are 24 hours each: the session's time zone is UTC.
  The order of texts in \<open>ORDER BY\<close> is the collation of the database, a parameter that maps a text to its sort key.
\<close>

section \<open>Values\<close>

record SubscriptionAccessNode =
  anID :: string
  anName :: string
  anRegion :: string
  anCountryCode :: string
  anHostname :: string
  anStatus :: string
  anDrainState :: string
  anActiveRevision :: int

record SubscriptionAccessEndpoint =
  aeAddress :: string
  aePort :: int
  aeNetwork :: string
  aeSecurity :: string
  aeSNI :: string
  aePublicKey :: string
  aeShortID :: string
  aeFingerprint :: string
  aeSpiderX :: string

record SubscriptionAccessClient =
  acID :: string
  acEmail :: string
  acFlow :: string
  acLevel :: int
  acPlanID :: string

record SubscriptionAccess =
  saExportKind :: string
  saSubscriptionID :: string
  saUserID :: string
  saUserLabel :: string
  saPlanID :: string
  saPlanName :: string
  saStatus :: string
  saProtocol :: string
  saProtocolPath :: string
  saNode :: SubscriptionAccessNode
  saEndpoint :: SubscriptionAccessEndpoint
  saClient :: SubscriptionAccessClient
  saDisplayName :: string
  saURI :: string

record CreateSubscriptionInput =
  csUserID :: string
  csPlanID :: string
  csRegion :: "string option"

record UpdateSubscriptionInput =
  usStatus :: "string option"
  usTrafficLimit :: "int option"
  usClearTrafficLimit :: bool
  usDeviceLimit :: "int option"
  usRegion :: "string option"
  usClearRegion :: bool

definition buildVLESSRealityURI :: "SubscriptionAccessEndpoint \<Rightarrow> SubscriptionAccessClient \<Rightarrow> string \<Rightarrow> string" where
  "buildVLESSRealityURI endpoint client displayName =
     ''vless://'' @ url_escape user_byte (acID client) @ ''@'' @ url_escape host_byte (aeAddress endpoint @ '':'' @ itoa (aePort endpoint))
     @ ''?'' @ encode_values [(''encryption'', ''none''), (''flow'', acFlow client), (''fp'', aeFingerprint endpoint),
          (''pbk'', aePublicKey endpoint), (''security'', aeSecurity endpoint), (''sid'', aeShortID endpoint), (''sni'', aeSNI endpoint),
          (''spx'', aeSpiderX endpoint), (''type'', aeNetwork endpoint)]
     @ (if displayName = [] then [] else ''#'' @ url_escape fragment_byte displayName)"

section \<open>Statements\<close>

text \<open>The end of the range of \<open>timestamptz\<close>, and the addition of days to one.\<close>

definition pg_end :: instant where
  "pg_end = int (days_before_year 294277) * day"

definition add_days :: "instant \<Rightarrow> int \<Rightarrow> storage_error + instant" where
  "add_days t n = (if int4 n \<and> t + n * day < pg_end then Inr (t + n * day) else Inl (ErrPg PgIntegerRange))"

definition subscription_by_id :: "uuid \<Rightarrow> db \<Rightarrow> subscription_row option" where
  "subscription_by_id u d = row_with suID u (dbSubscriptions d)"

text \<open>The table of subscriptions after an INSERT or UPDATE, with the rows it wrote.\<close>

definition put_subscriptions :: "subscription_row list \<Rightarrow> subscription_row list \<Rightarrow> db \<Rightarrow> storage_error + db" where
  "put_subscriptions changed rows d =
     bindE (constraints (list_all subscription_ints_ok changed) (list_all subscription_row_ok changed) (distinct (map suID rows))
              (list_all (\<lambda>s. suUserID s \<in> urID ` set (dbUsers d) \<and> suPlanID s \<in> plID ` set (dbPlans d)) changed))
       (\<lambda>_. Inr (d\<lparr> dbSubscriptions := rows \<rparr>))"

text \<open>\<open>UPDATE subscriptions SET f WHERE id = u RETURNING \<dots>\<close>.\<close>

definition update_subscription :: "uuid \<Rightarrow> (subscription_row \<Rightarrow> storage_error + subscription_row) \<Rightarrow> db \<Rightarrow> storage_error + (Subscription \<times> db)" where
  "update_subscription u f d = bindE (one_row ErrNotFound (subscription_by_id u d)) (\<lambda>s. bindE (f s) (\<lambda>s'.
     bindE (put_subscriptions [s'] (upd_where (\<lambda>r. suID r = u) (\<lambda>_. s') (dbSubscriptions d)) d)
       (\<lambda>d'. Inr (Subscription.truncate s', d'))))"

section \<open>Operations\<close>

definition NewSubscriptionsRepositoryWithReality :: "RealityConfig \<Rightarrow> RealityConfig" where
  "NewSubscriptionsRepositoryWithReality reality = WithDefaults reality"

definition ListSubscriptions :: "panel_world \<Rightarrow> db \<Rightarrow> storage_error + Subscription list" where
  "ListSubscriptions w d = bindE (stmt w ''list subscriptions'')
     (\<lambda>_. Inr (map Subscription.truncate (take 100 (sort_key (\<lambda>s. - srCreatedAt s) (dbSubscriptions d)))))"

definition created_subscription :: "panel_world \<Rightarrow> CreateSubscriptionInput \<Rightarrow> user_row \<Rightarrow> plan_row \<Rightarrow> instant \<Rightarrow> subscription_row" where
  "created_subscription w i u p ends = \<lparr> suID = pwID w ''subscriptions'', suUserID = urID u, suPlanID = plID p, suStatus = ''active'',
     suStartsAt = pg_time (pwNow w), suExpiresAt = ends, suTrafficLimit = plTrafficLimit p, suTrafficUsed = 0,
     suDeviceLimit = plDeviceLimit p, suRegion = csRegion i, srCreatedAt = pwPgNow w, srUpdatedAt = pwPgNow w \<rparr>"

definition CreateSubscription :: "panel_world \<Rightarrow> CreateSubscriptionInput \<Rightarrow> db \<Rightarrow> (storage_error + Subscription) \<times> db" where
  "CreateSubscription w i = alone (\<lambda>d. bindE (stmt w ''insert subscription'') (\<lambda>_.
     bindE (uuid_param (csUserID i)) (\<lambda>uid. bindE (uuid_param (csPlanID i)) (\<lambda>pid.
     bindE (nullable pg_text (csRegion i)) (\<lambda>_.
     bindE (one_row ErrNotFound (row_with urID uid (dbUsers d))) (\<lambda>u.
     bindE (one_row ErrNotFound (first_row (filter (\<lambda>p. plID p = pid \<and> plStatus p = ''active'') (dbPlans d)))) (\<lambda>p.
     bindE (add_days (pg_time (pwNow w)) (plDurationDays p)) (\<lambda>ends.
     let row = created_subscription w i u p ends in
     bindE (put_subscriptions [row] (dbSubscriptions d @ [row]) d) (\<lambda>d'. Inr (Subscription.truncate row, d'))))))))))"

definition FindSubscription :: "panel_world \<Rightarrow> string \<Rightarrow> db \<Rightarrow> storage_error + Subscription" where
  "FindSubscription w i d = bindE (stmt w ''select subscription'') (\<lambda>_. bindE (uuid_param i) (\<lambda>u.
     bindE (one_row ErrNotFound (subscription_by_id u d)) (\<lambda>s. Inr (Subscription.truncate s))))"

text \<open>The two statements of an update: the current row, and the new values of four columns.\<close>

definition updated_subscription :: "panel_world \<Rightarrow> UpdateSubscriptionInput \<Rightarrow> Subscription \<Rightarrow> subscription_row \<Rightarrow> subscription_row" where
  "updated_subscription w i current s = s\<lparr>
     suStatus := (case usStatus i of Some v \<Rightarrow> v | None \<Rightarrow> suStatus current),
     suTrafficLimit := (if usClearTrafficLimit i then None
        else case usTrafficLimit i of Some v \<Rightarrow> Some v | None \<Rightarrow> suTrafficLimit current),
     suDeviceLimit := (case usDeviceLimit i of Some v \<Rightarrow> v | None \<Rightarrow> suDeviceLimit current),
     suRegion := (if usClearRegion i then None else case usRegion i of Some v \<Rightarrow> Some v | None \<Rightarrow> suRegion current),
     srUpdatedAt := pwPgNow w \<rparr>"

definition UpdateSubscription :: "panel_world \<Rightarrow> string \<Rightarrow> UpdateSubscriptionInput \<Rightarrow> db \<Rightarrow> (storage_error + Subscription) \<times> db" where
  "UpdateSubscription w i input = alone (\<lambda>d. bindE (FindSubscription w i d) (\<lambda>current.
     bindE (stmt w ''update subscription'') (\<lambda>_. bindE (uuid_param i) (\<lambda>u.
     bindE (nullable pg_text (if usClearRegion input then None else usRegion input)) (\<lambda>_.
       update_subscription u (\<lambda>s. Inr (updated_subscription w input current s)) d)))))"

definition renewed_subscription :: "panel_world \<Rightarrow> instant \<Rightarrow> subscription_row \<Rightarrow> subscription_row" where
  "renewed_subscription w ends s = s\<lparr> suStatus := ''active'', suExpiresAt := ends, srUpdatedAt := pwPgNow w \<rparr>"

definition RenewSubscription :: "panel_world \<Rightarrow> string \<Rightarrow> int \<Rightarrow> db \<Rightarrow> (storage_error + Subscription) \<times> db" where
  "RenewSubscription w i extendDays = alone (\<lambda>d. bindE (stmt w ''renew subscription'') (\<lambda>_. bindE (uuid_param i) (\<lambda>u.
     update_subscription u (\<lambda>s. bindE (add_days (max (suExpiresAt s) (pwPgNow w)) extendDays)
       (\<lambda>ends. Inr (renewed_subscription w ends s))) d)))"

section \<open>The access entry\<close>

text \<open>The node of an access entry: active, open, with a host name, in the preferred region; the first by region, name and id.\<close>

definition serves :: "subscription_row \<Rightarrow> node_row \<Rightarrow> bool" where
  "serves s n \<longleftrightarrow> ndStatus n = ''active'' \<and> ndDrainState n = ''active'' \<and> ndHostname n \<noteq> []
     \<and> (case suRegion s of None \<Rightarrow> True | Some r \<Rightarrow> r = [] \<or> ndRegion n = r)"

definition prefers :: "subscription_row \<Rightarrow> node_row \<Rightarrow> bool" where
  "prefers s n \<longleftrightarrow> (case suRegion s of None \<Rightarrow> False | Some r \<Rightarrow> r \<noteq> [] \<and> ndRegion n = r)"

definition access_node :: "(string \<Rightarrow> string) \<Rightarrow> subscription_row \<Rightarrow> db \<Rightarrow> node_row option" where
  "access_node collate s d = first_row (sort_key (\<lambda>n. if prefers s n then 0 else 1 :: nat)
     (sort_key (\<lambda>n. collate (ndRegion n)) (sort_key (\<lambda>n. collate (ndName n)) (sort_key (\<lambda>n. collate (ndID n))
       (filter (serves s) (dbNodes d))))))"

definition access_export :: "RealityConfig \<Rightarrow> subscription_row \<Rightarrow> user_row \<Rightarrow> plan_row \<Rightarrow> node_row \<Rightarrow> SubscriptionAccess" where
  "access_export cfg s u p n = (let
     entry = BuildAccessEntry (subscription_input s u p);
     node = \<lparr> anID = ndID n, anName = ndName n, anRegion = ndRegion n, anCountryCode = ndCountryCode n, anHostname = ndHostname n,
        anStatus = ndStatus n, anDrainState = ndDrainState n, anActiveRevision = ndActiveRevision n \<rparr>;
     reality = WithDefaults cfg;
     endpoint = \<lparr> aeAddress = ndHostname n, aePort = rcPort reality, aeNetwork = ''tcp'', aeSecurity = ''reality'',
        aeSNI = rcSNI reality, aePublicKey = rcPublicKey reality, aeShortID = rcShortID reality,
        aeFingerprint = rcFingerprint reality, aeSpiderX = rcSpiderX reality \<rparr>;
     userLabel = (if TrimSpace (urDisplayName u) \<noteq> [] then urDisplayName u else urEmail u);
     displayName = ''Lenker '' @ ndRegion n @ '' '' @ plName p;
     client = \<lparr> acID = aeVLESSClientID entry, acEmail = aeEmail entry, acFlow = aeFlow entry, acLevel = 0, acPlanID = aePlanID entry \<rparr>
     in \<lparr> saExportKind = ''subscription_access.v1alpha1'', saSubscriptionID = suID s, saUserID = suUserID s, saUserLabel = userLabel,
          saPlanID = suPlanID s, saPlanName = plName p, saStatus = suStatus s, saProtocol = ProtocolVLESS,
          saProtocolPath = ProtocolVLESS, saNode = node, saEndpoint = endpoint, saClient = client, saDisplayName = displayName,
          saURI = buildVLESSRealityURI endpoint client displayName \<rparr>)"

text \<open>\<open>Access\<close>; the expiry is compared with the clock of the process.\<close>

definition Access :: "(string \<Rightarrow> string) \<Rightarrow> RealityConfig \<Rightarrow> panel_world \<Rightarrow> string \<Rightarrow> db \<Rightarrow> storage_error + SubscriptionAccess" where
  "Access collate reality w i d = bindE (stmt w ''select access'') (\<lambda>_. bindE (uuid_param i) (\<lambda>u.
     bindE (one_row ErrNotFound (subscription_by_id u d)) (\<lambda>s.
     bindE (one_row ErrNotFound (row_with urID (suUserID s) (dbUsers d))) (\<lambda>user.
     bindE (one_row ErrNotFound (row_with plID (suPlanID s) (dbPlans d))) (\<lambda>plan.
     if suStatus s \<noteq> ''active'' \<or> urStatus user \<noteq> ''active'' \<or> suExpiresAt s \<le> pwNow w then Inl ErrSubscriptionAccessUnavailable
     else (case access_node collate s d of
       None \<Rightarrow> Inl ErrSubscriptionAccessUnavailable
     | Some n \<Rightarrow> Inr (access_export reality s user plan n)))))))"

end
