(* ===== verification/TrafficStore.thy ===== *)
theory TrafficStore
  imports SubsStore "HOL-Library.Word"
begin

text \<open>
  \<open>services/panel-api/internal/traffic\<close>: the rows of traffic logs, the quota of a subscription and their repository
  (\<open>repository.go\<close>), and the service above it (\<open>service.go\<close>).  Every statement commits on its own, so a call that fails
  in the middle keeps what it has written.  Byte counts are Go's \<open>int64\<close>, whose sums wrap; PostgreSQL refuses instead.
  The statements of one call read one clock.
\<close>

section \<open>Values\<close>

definition wrap64 :: "int \<Rightarrow> int" where
  "wrap64 n = sint (word_of_int n :: 64 word)"

record TrafficLog =
  lgID :: string
  lgSubscriptionID :: string
  lgDeviceID :: "string option"
  lgNodeID :: string
  lgBytesUp :: int
  lgBytesDown :: int
  lgBytesTotal :: int
  lgRecordedAt :: instant
  lgCreatedAt :: instant

record TrafficQuota =
  quID :: string
  quSubscriptionID :: string
  quBytesLimit :: "int option"
  quBytesUsed :: int
  quBytesRemaining :: "int option"
  quExceeded :: bool
  quResetAt :: "instant option"
  quCreatedAt :: instant
  quUpdatedAt :: instant

record TrafficUsage =
  ugResourceType :: string
  ugResourceID :: string
  ugBytesUp :: int
  ugBytesDown :: int
  ugBytesTotal :: int
  ugFrom :: "instant option"
  ugTo :: "instant option"

record TrafficReportItem =
  tiSubscriptionID :: string
  tiDeviceID :: "string option"
  tiBytesUp :: int
  tiBytesDown :: int

record TrafficReportResult =
  trNodeID :: string
  trAccepted :: nat
  trBytesUp :: int
  trBytesDown :: int
  trBytesTotal :: int
  trReportedAt :: instant

record SetQuotaInput =
  sqSubscriptionID :: string
  sqBytesLimit :: "int option"
  sqBytesUsed :: "int option"
  sqResetAt :: "instant option"

text \<open>\<open>WithDerivedFields\<close> of the three types.\<close>

definition quota_derived :: "TrafficQuota \<Rightarrow> TrafficQuota" where
  "quota_derived q = (case quBytesLimit q of
     None \<Rightarrow> q\<lparr> quExceeded := False, quBytesRemaining := None \<rparr>
   | Some limit \<Rightarrow> let remaining = wrap64 (limit - quBytesUsed q) in
       q\<lparr> quBytesRemaining := Some (if remaining < 0 then 0 else remaining), quExceeded := (limit \<le> quBytesUsed q) \<rparr>)"

definition usage_derived :: "TrafficUsage \<Rightarrow> TrafficUsage" where
  "usage_derived u = u\<lparr> ugBytesTotal := wrap64 (ugBytesUp u + ugBytesDown u) \<rparr>"

definition log_derived :: "TrafficLog \<Rightarrow> TrafficLog" where
  "log_derived l = l\<lparr> lgBytesTotal := wrap64 (lgBytesUp l + lgBytesDown l) \<rparr>"

text \<open>A nil or empty text is NULL; a zero time is NULL, and no bound in a usage.\<close>

definition optionalString :: "string option \<Rightarrow> string option" where
  "optionalString v = (case v of None \<Rightarrow> None | Some s \<Rightarrow> if s = [] then None else Some s)"

definition optionalTime :: "instant \<Rightarrow> instant option" where
  "optionalTime t = (if t = 0 then None else Some t)"

definition optionalTimePtr :: "instant option \<Rightarrow> instant option" where
  "optionalTimePtr v = (case v of None \<Rightarrow> None | Some t \<Rightarrow> optionalTime t)"

definition uuid_param_opt :: "string option \<Rightarrow> storage_error + uuid option" where
  "uuid_param_opt v = (case v of None \<Rightarrow> Inr None | Some s \<Rightarrow> bindE (uuid_param s) (\<lambda>u. Inr (Some u)))"

section \<open>Statements\<close>

definition scanTrafficLog :: "traffic_row \<Rightarrow> TrafficLog" where
  "scanTrafficLog t = log_derived \<lparr> lgID = tlID t, lgSubscriptionID = tlSubscriptionID t, lgDeviceID = tlDeviceID t, lgNodeID = tlNodeID t,
     lgBytesUp = tlBytesUp t, lgBytesDown = tlBytesDown t, lgBytesTotal = 0, lgRecordedAt = tlRecordedAt t, lgCreatedAt = tlCreatedAt t \<rparr>"

definition scanTrafficQuota :: "quota_row \<Rightarrow> TrafficQuota" where
  "scanTrafficQuota q = quota_derived \<lparr> quID = tqID q, quSubscriptionID = tqSubscriptionID q, quBytesLimit = tqBytesLimit q,
     quBytesUsed = tqBytesUsed q, quBytesRemaining = None, quExceeded = False, quResetAt = tqResetAt q,
     quCreatedAt = tqCreatedAt q, quUpdatedAt = tqUpdatedAt q \<rparr>"

definition put_traffic :: "traffic_row \<Rightarrow> db \<Rightarrow> storage_error + db" where
  "put_traffic t d =
     bindE (constraints (int8 (tlBytesUp t) \<and> int8 (tlBytesDown t)) (traffic_row_ok t) (tlID t \<notin> tlID ` set (dbTraffic d))
              (tlSubscriptionID t \<in> suID ` set (dbSubscriptions d) \<and> tlNodeID t \<in> ndID ` set (dbNodes d)
               \<and> (case tlDeviceID t of None \<Rightarrow> True | Some v \<Rightarrow> v \<in> dvID ` set (dbDevices d))))
       (\<lambda>_. Inr (d\<lparr> dbTraffic := dbTraffic d @ [t] \<rparr>))"

definition quota_ints_ok :: "quota_row \<Rightarrow> bool" where
  "quota_ints_ok q \<longleftrightarrow> int8 (tqBytesUsed q) \<and> (case tqBytesLimit q of None \<Rightarrow> True | Some n \<Rightarrow> int8 n)"

definition quota_by_sub :: "uuid \<Rightarrow> db \<Rightarrow> quota_row option" where
  "quota_by_sub u d = row_with tqSubscriptionID u (dbQuotas d)"

text \<open>
  \<open>INSERT INTO traffic_quotas \<dots> SELECT \<dots> FROM subscriptions s WHERE s.id = u ON CONFLICT (subscription_id) DO UPDATE\<close>: the
  proposed row passes the CHECK constraints before the conflict is looked for; no subscription, no row.
\<close>

definition upsert_quota :: "uuid \<Rightarrow> (subscription_row \<Rightarrow> quota_row) \<Rightarrow> (quota_row \<Rightarrow> quota_row \<Rightarrow> quota_row) \<Rightarrow> db \<Rightarrow> storage_error + (TrafficQuota \<times> db)" where
  "upsert_quota u propose merge d = bindE (one_row (ErrPackage TrafficNotFound) (subscription_by_id u d)) (\<lambda>s. let new = propose s in
     bindE (constraints (quota_ints_ok new) (quota_row_ok new) True True) (\<lambda>_. case quota_by_sub u d of
       None \<Rightarrow> bindE (constraints True True (tqID new \<notin> tqID ` set (dbQuotas d)) True)
                 (\<lambda>_. Inr (scanTrafficQuota new, d\<lparr> dbQuotas := dbQuotas d @ [new] \<rparr>))
     | Some old \<Rightarrow> let q = merge new old in
                 bindE (constraints (quota_ints_ok q) (quota_row_ok q) True True)
                   (\<lambda>_. Inr (scanTrafficQuota q, d\<lparr> dbQuotas := upd_where (\<lambda>r. tqSubscriptionID r = u) (\<lambda>_. q) (dbQuotas d) \<rparr>))))"

text \<open>\<open>UPDATE subscriptions SET f WHERE id = u\<close>, with the number of rows.\<close>

definition exec_subscription :: "uuid \<Rightarrow> (subscription_row \<Rightarrow> subscription_row) \<Rightarrow> db \<Rightarrow> storage_error + (nat \<times> db)" where
  "exec_subscription u f d = (case subscription_by_id u d of
     None \<Rightarrow> Inr (0, d)
   | Some s \<Rightarrow> bindE (put_subscriptions [f s] (upd_where (\<lambda>r. suID r = u) (\<lambda>_. f s) (dbSubscriptions d)) d) (\<lambda>d'. Inr (1, d')))"

definition new_quota :: "panel_world \<Rightarrow> int option \<Rightarrow> int \<Rightarrow> instant option \<Rightarrow> subscription_row \<Rightarrow> quota_row" where
  "new_quota w limit used resetAt s = \<lparr> tqID = pwID w ''traffic_quotas'', tqSubscriptionID = suID s, tqBytesLimit = limit, tqBytesUsed = used,
     tqResetAt = resetAt, tqCreatedAt = pwPgNow w, tqUpdatedAt = pwPgNow w \<rparr>"

section \<open>Repository\<close>

definition NodeIDByToken :: "panel_world \<Rightarrow> string \<Rightarrow> db \<Rightarrow> storage_error + string" where
  "NodeIDByToken w nodeToken d = bindE (stmt w ''select node by token'') (\<lambda>_.
     bindE (one_row (ErrPackage TrafficNotFound) (first_row (filter (\<lambda>n. nrAuthHash n = Some (HashNodeToken nodeToken)
        \<and> ndRegisteredAt n \<noteq> None \<and> ndStatus n \<noteq> ''disabled'') (dbNodes d)))) (\<lambda>n. Inr (ndID n)))"

definition log_row :: "panel_world \<Rightarrow> TrafficLog \<Rightarrow> uuid \<Rightarrow> uuid option \<Rightarrow> uuid \<Rightarrow> traffic_row" where
  "log_row w l sub dev node = \<lparr> tlID = pwID w ''traffic_logs'', tlSubscriptionID = sub, tlDeviceID = dev, tlNodeID = node, tlBytesUp = lgBytesUp l,
     tlBytesDown = lgBytesDown l, tlRecordedAt = (case optionalTime (lgRecordedAt l) of None \<Rightarrow> pwPgNow w | Some t \<Rightarrow> pg_time t),
     tlCreatedAt = pwPgNow w \<rparr>"

definition CreateLog :: "panel_world \<Rightarrow> TrafficLog \<Rightarrow> db \<Rightarrow> (storage_error + TrafficLog) \<times> db" where
  "CreateLog w l = alone (\<lambda>d. bindE (stmt w ''insert traffic log'') (\<lambda>_.
     bindE (uuid_param (lgSubscriptionID l)) (\<lambda>sub. bindE (uuid_param_opt (optionalString (lgDeviceID l))) (\<lambda>dev.
     bindE (uuid_param (lgNodeID l)) (\<lambda>node.
     bindE (put_traffic (log_row w l sub dev node) d) (\<lambda>d'. Inr (scanTrafficLog (log_row w l sub dev node), d')))))))"

definition repo_GetQuota :: "panel_world \<Rightarrow> string \<Rightarrow> db \<Rightarrow> storage_error + TrafficQuota" where
  "repo_GetQuota w i d = bindE (stmt w ''select quota'') (\<lambda>_. bindE (uuid_param i) (\<lambda>u.
     bindE (one_row (ErrPackage TrafficNotFound) (subscription_by_id u d)) (\<lambda>s. Inr (case quota_by_sub u d of
       None \<Rightarrow> quota_derived \<lparr> quID = [], quSubscriptionID = suID s, quBytesLimit = suTrafficLimit s, quBytesUsed = suTrafficUsed s,
         quBytesRemaining = None, quExceeded = False, quResetAt = None, quCreatedAt = srCreatedAt s, quUpdatedAt = srUpdatedAt s \<rparr>
     | Some q \<Rightarrow> quota_derived \<lparr> quID = tqID q, quSubscriptionID = suID s,
         quBytesLimit = (case tqBytesLimit q of None \<Rightarrow> suTrafficLimit s | Some n \<Rightarrow> Some n), quBytesUsed = tqBytesUsed q,
         quBytesRemaining = None, quExceeded = False, quResetAt = tqResetAt q, quCreatedAt = tqCreatedAt q, quUpdatedAt = tqUpdatedAt q \<rparr>))))"

definition syncSubscriptionQuota :: "panel_world \<Rightarrow> string \<Rightarrow> int option \<Rightarrow> int \<Rightarrow> db \<Rightarrow> (storage_error + unit) \<times> db" where
  "syncSubscriptionQuota w i limit used = alone (\<lambda>d. bindE (stmt w ''sync subscription quota'') (\<lambda>_. bindE (uuid_param i) (\<lambda>u.
     bindE (exec_subscription u (\<lambda>s. s\<lparr> suTrafficLimit := limit, suTrafficUsed := used, srUpdatedAt := pwPgNow w \<rparr>) d)
       (\<lambda>(n, d'). if n = 0 then Inl (ErrPackage TrafficNotFound) else Inr ((), d')))))"

definition repo_SetQuota :: "panel_world \<Rightarrow> SetQuotaInput \<Rightarrow> int \<Rightarrow> db \<Rightarrow> (storage_error + TrafficQuota) \<times> db" where
  "repo_SetQuota w input used = seqE (alone (\<lambda>d. bindE (stmt w ''set quota'') (\<lambda>_. bindE (uuid_param (sqSubscriptionID input)) (\<lambda>u.
       upsert_quota u (new_quota w (sqBytesLimit input) used (map_option pg_time (optionalTimePtr (sqResetAt input))))
         (\<lambda>new old. old\<lparr> tqBytesLimit := tqBytesLimit new, tqBytesUsed := tqBytesUsed new, tqResetAt := tqResetAt new,
            tqUpdatedAt := pwPgNow w \<rparr>) d))))
     (\<lambda>quota. seqE (syncSubscriptionQuota w (sqSubscriptionID input) (sqBytesLimit input) used) (\<lambda>_. giveE quota))"

definition UpdateQuota :: "panel_world \<Rightarrow> string \<Rightarrow> int \<Rightarrow> db \<Rightarrow> (storage_error + unit) \<times> db" where
  "UpdateQuota w i used = seqE (alone (\<lambda>d. bindE (stmt w ''update quota'') (\<lambda>_. bindE (uuid_param i) (\<lambda>u.
       bindE (one_row (ErrPackage TrafficNotFound) (quota_by_sub u d)) (\<lambda>old. let q = old\<lparr> tqBytesUsed := used, tqUpdatedAt := pwPgNow w \<rparr> in
       bindE (constraints (quota_ints_ok q) (quota_row_ok q) True True)
         (\<lambda>_. Inr (scanTrafficQuota q, d\<lparr> dbQuotas := upd_where (\<lambda>r. tqSubscriptionID r = u) (\<lambda>_. q) (dbQuotas d) \<rparr>)))))))
     (\<lambda>quota. syncSubscriptionQuota w i (quBytesLimit quota) (quBytesUsed quota))"

definition IncrementQuota :: "panel_world \<Rightarrow> string \<Rightarrow> int \<Rightarrow> db \<Rightarrow> (storage_error + TrafficQuota) \<times> db" where
  "IncrementQuota w i delta = seqE (alone (\<lambda>d. bindE (stmt w ''increment quota'') (\<lambda>_. bindE (uuid_param i) (\<lambda>u.
       upsert_quota u (\<lambda>s. new_quota w (suTrafficLimit s) delta None s)
         (\<lambda>new old. old\<lparr> tqBytesUsed := tqBytesUsed old + tqBytesUsed new, tqUpdatedAt := pwPgNow w \<rparr>) d))))
     (\<lambda>quota. seqE (alone (\<lambda>d. bindE (stmt w ''increment subscription'') (\<lambda>_. bindE (uuid_param i) (\<lambda>u.
       exec_subscription u (\<lambda>s. s\<lparr> suTrafficUsed := suTrafficUsed s + delta, srUpdatedAt := pwPgNow w \<rparr>) d))))
     (\<lambda>_. giveE quota))"

definition repo_ResetQuota :: "panel_world \<Rightarrow> string \<Rightarrow> db \<Rightarrow> (storage_error + TrafficQuota) \<times> db" where
  "repo_ResetQuota w i = seqE (alone (\<lambda>d. bindE (stmt w ''reset quota'') (\<lambda>_. bindE (uuid_param i) (\<lambda>u.
       upsert_quota u (\<lambda>s. new_quota w (suTrafficLimit s) 0 None s)
         (\<lambda>new old. old\<lparr> tqBytesUsed := 0, tqResetAt := None, tqUpdatedAt := pwPgNow w \<rparr>) d))))
     (\<lambda>quota. seqE (syncSubscriptionQuota w i (quBytesLimit quota) 0) (\<lambda>_. giveE quota))"

text \<open>\<open>SUM\<close> of a \<open>bigint\<close> column is a \<open>numeric\<close>, which the driver scans into an \<open>int64\<close> or fails.\<close>

definition getUsage :: "panel_world \<Rightarrow> string \<Rightarrow> string \<Rightarrow> (traffic_row \<Rightarrow> uuid \<Rightarrow> bool) \<Rightarrow> instant \<Rightarrow> instant \<Rightarrow> db \<Rightarrow> storage_error + TrafficUsage" where
  "getUsage w kind i matches start stop d = bindE (stmt w ''select usage'') (\<lambda>_. bindE (uuid_param i) (\<lambda>u.
     let rows = filter (\<lambda>t. matches t u
           \<and> (case optionalTime start of None \<Rightarrow> True | Some x \<Rightarrow> pg_time x \<le> tlRecordedAt t)
           \<and> (case optionalTime stop of None \<Rightarrow> True | Some x \<Rightarrow> tlRecordedAt t \<le> pg_time x)) (dbTraffic d);
         up = sum_list (map tlBytesUp rows); down = sum_list (map tlBytesDown rows) in
     bindE (ensure (int8 up \<and> int8 down) ErrScan) (\<lambda>_.
       Inr (usage_derived \<lparr> ugResourceType = kind, ugResourceID = i, ugBytesUp = up, ugBytesDown = down, ugBytesTotal = 0,
         ugFrom = optionalTime start, ugTo = optionalTime stop \<rparr>))))"

definition repo_GetUsageBySubscription :: "panel_world \<Rightarrow> string \<Rightarrow> instant \<Rightarrow> instant \<Rightarrow> db \<Rightarrow> storage_error + TrafficUsage" where
  "repo_GetUsageBySubscription w i = getUsage w ''subscription'' i (\<lambda>t u. tlSubscriptionID t = u)"

definition repo_GetUsageByDevice :: "panel_world \<Rightarrow> string \<Rightarrow> instant \<Rightarrow> instant \<Rightarrow> db \<Rightarrow> storage_error + TrafficUsage" where
  "repo_GetUsageByDevice w i = getUsage w ''device'' i (\<lambda>t u. tlDeviceID t = Some u)"

definition repo_GetUsageByNode :: "panel_world \<Rightarrow> string \<Rightarrow> instant \<Rightarrow> instant \<Rightarrow> db \<Rightarrow> storage_error + TrafficUsage" where
  "repo_GetUsageByNode w i = getUsage w ''node'' i (\<lambda>t u. tlNodeID t = u)"

end
