(* ===== verification/AgentTraffic.thy ===== *)
theory AgentTraffic
  imports AgentClient TrafficStore
begin

text \<open>
  \<open>services/node-agent/internal/traffic\<close>: the counters of Xray as records (\<open>xray_collector.go\<close>: the command that prints and
  resets them, its lines, the sums by subscription and device) and the report to the panel (\<open>reporter.go\<close>).  The command
  and the network are parameters; so is the order in which Go walks a map, a function that permutes.
\<close>

record Record =
  rcSubscriptionID :: string
  rcDeviceID :: string
  rcBytesUp :: int
  rcBytesDown :: int

section \<open>Searching a line\<close>

text \<open>\<open>strings.Index\<close> and \<open>strings.LastIndex\<close>.\<close>

fun find_sub :: "string \<Rightarrow> string \<Rightarrow> nat option" where
  "find_sub p [] = (if p = [] then Some 0 else None)"
| "find_sub p (c # s) = (if has_prefix (c # s) p then Some 0 else map_option Suc (find_sub p s))"

fun find_last_sub :: "string \<Rightarrow> string \<Rightarrow> nat option" where
  "find_last_sub p [] = (if p = [] then Some 0 else None)"
| "find_last_sub p (c # s) = (case find_last_sub p s of
     Some k \<Rightarrow> Some (Suc k)
   | None \<Rightarrow> if has_prefix (c # s) p then Some 0 else None)"

text \<open>\<open>strings.Split(s, ">>>")\<close>.\<close>

function split_arrows :: "string \<Rightarrow> string list" where
  "split_arrows s = (if has_prefix s ''>>>'' then [] # split_arrows (drop 3 s)
     else case s of [] \<Rightarrow> [[]] | c # t \<Rightarrow> (case split_arrows t of [] \<Rightarrow> [[c]] | p # ps \<Rightarrow> (c # p) # ps))"
  by auto

lemma has_prefix_length: "has_prefix s p \<Longrightarrow> length p \<le> length s"
  by (metis has_prefix_def length_take min.cobounded2 min.commute)

termination split_arrows
  by (relation "measure length") (auto dest!: has_prefix_length)

declare split_arrows.simps [simp del]

text \<open>
  The lines of \<open>bufio.Scanner\<close>: a carriage return before the newline is dropped, an empty rest is no line, and a line that
  does not fit the buffer ends the scan (the error is not looked at).
\<close>

definition drop_cr :: "string \<Rightarrow> string" where
  "drop_cr s = (if s \<noteq> [] \<and> byte (last s) = 13 then butlast s else s)"

definition scan_lines :: "string \<Rightarrow> string list" where
  "scan_lines s = (let ls = split_on (chr 10) s in
     map drop_cr (takeWhile (\<lambda>l. length l \<le> 65535) (if last ls = [] then butlast ls else ls)))"

text \<open>\<open>fmt.Sscanf(s, "%d", &v)\<close> of a trimmed text: a sign and digits; anything else, or a value out of range, leaves 0.\<close>

definition scan_int :: "string \<Rightarrow> int" where
  "scan_int s = (let sign = s \<noteq> [] \<and> (hd s = CHR ''-'' \<or> hd s = CHR ''+'');
       digits = takeWhile (\<lambda>c. 48 \<le> byte c \<and> byte c \<le> 57) (if sign then tl s else s);
       v = (if sign \<and> hd s = CHR ''-'' then - int (digits_value digits) else int (digits_value digits)) in
     if digits \<noteq> [] \<and> int8 v then v else 0)"

definition trim_right :: "char list \<Rightarrow> string \<Rightarrow> string" where
  "trim_right chars s = rev (dropWhile (\<lambda>c. c \<in> set chars) (rev s))"

section \<open>Collector\<close>

definition parseIdentity :: "string \<Rightarrow> string \<times> string" where
  "parseIdentity identity = (let sub = takeWhile (\<lambda>c. c \<noteq> CHR ''@'') identity in
     if sub = identity then (identity, []) else (sub, drop (length sub + 1) identity))"

definition name_mark :: string where
  "name_mark = ''name: '' @ [chr 34]"

definition parseStatLine :: "string \<Rightarrow> string \<times> int" where
  "parseStatLine line = (case find_sub name_mark line of
     Some k \<Rightarrow> (let rest = drop (k + length name_mark) line in case find_sub [chr 34] rest of
         None \<Rightarrow> ([], 0)
       | Some n \<Rightarrow> (case find_sub ''value: '' line of
           None \<Rightarrow> (take n rest, 0)
         | Some v \<Rightarrow> (take n rest, scan_int (trim_right '' }'' (TrimSpace (drop (v + 7) line))))))
   | None \<Rightarrow> (case find_last_sub ''value:'' line of
       None \<Rightarrow> ([], 0)
     | Some v \<Rightarrow> (TrimSpace (take v line), scan_int (TrimSpace (drop (v + 6) line)))))"

text \<open>What a line counts: subscription, device, direction and value.\<close>

definition stat_of_line :: "string \<Rightarrow> ((string \<times> string) \<times> string \<times> int) option" where
  "stat_of_line raw = (let line = TrimSpace raw in
     if line = [] \<or> \<not> contains_sub line ''user>>>'' then None
     else let (name, value) = parseStatLine line; parts = split_arrows name in
       if name = [] \<or> length parts < 4 \<or> parts ! 0 \<noteq> ''user'' \<or> parts ! 2 \<noteq> ''traffic'' then None
       else let (sub, device) = parseIdentity (parts ! 1) in
         if sub = [] then None else Some ((sub, device), parts ! 3, value))"

text \<open>The map of records, in the order the keys came.\<close>

definition add_stat :: "Record list \<Rightarrow> (string \<times> string) \<times> string \<times> int \<Rightarrow> Record list" where
  "add_stat accum s = (case s of ((sub, device), direction, value) \<Rightarrow>
     let known = list_ex (\<lambda>r. rcSubscriptionID r = sub \<and> rcDeviceID r = device) accum;
         all = (if known then accum else accum @ [\<lparr> rcSubscriptionID = sub, rcDeviceID = device, rcBytesUp = 0, rcBytesDown = 0 \<rparr>]) in
     upd_where (\<lambda>r. rcSubscriptionID r = sub \<and> rcDeviceID r = device)
       (\<lambda>r. if direction = ''uplink'' then r\<lparr> rcBytesUp := wrap64 (rcBytesUp r + value) \<rparr>
            else if direction = ''downlink'' then r\<lparr> rcBytesDown := wrap64 (rcBytesDown r + value) \<rparr> else r) all)"

definition parseXrayStats :: "(Record list \<Rightarrow> Record list) \<Rightarrow> string \<Rightarrow> Record list" where
  "parseXrayStats order output = filter (\<lambda>r. 0 < rcBytesUp r \<or> 0 < rcBytesDown r)
     (order (foldl add_stat [] (List.map_filter stat_of_line (scan_lines output))))"

record XrayCollector =
  xcXrayBin :: string
  xcAPIAddress :: string

definition Collect :: "(Record list \<Rightarrow> Record list) \<Rightarrow> (string \<Rightarrow> string list \<Rightarrow> string + string) \<Rightarrow> XrayCollector \<Rightarrow> string + Record list" where
  "Collect order run c = (if xcXrayBin c = [] \<or> xcAPIAddress c = [] then Inr []
     else case run (xcXrayBin c) [''api'', ''statsquery'', ''-s'', xcAPIAddress c, ''-pattern'', ''user>>>'', ''-reset''] of
       Inl e \<Rightarrow> Inl (''xray statsquery: '' @ e)
     | Inr out \<Rightarrow> Inr (parseXrayStats order out))"

section \<open>Reporter\<close>

datatype traffic_report_error = PanelURLRequired | ErrReportAuth | ErrReportRejected nat | ReportFailed string

record ReportResult =
  rpNodeID :: string
  rpAccepted :: int
  rpBytesUp :: int
  rpBytesDown :: int
  rpBytesTotal :: int

definition record_json :: "Record \<Rightarrow> any" where
  "record_json r = AObj ([(''subscription_id'', AStr (rcSubscriptionID r))] @ omit_empty [(''device_id'', AStr (rcDeviceID r))]
     @ [(''bytes_up'', AInt64 (rcBytesUp r)), (''bytes_down'', AInt64 (rcBytesDown r))])"

definition decode_report_result :: "any \<Rightarrow> ReportResult option" where
  "decode_report_result v = Option.bind (as_obj v) (\<lambda>m.
     case (dec_str m ''node_id'', dec_int m ''accepted'', dec_int m ''bytes_up'', dec_int m ''bytes_down'', dec_int m ''bytes_total'') of
       (Some n, Some a, Some u, Some w, Some t) \<Rightarrow>
         Some \<lparr> rpNodeID = n, rpAccepted = a, rpBytesUp = u, rpBytesDown = w, rpBytesTotal = t \<rparr>
     | _ \<Rightarrow> None)"

definition decode_report_envelope :: "any \<Rightarrow> ReportResult option option" where
  "decode_report_envelope v = Option.bind (if v = ANil then Some [] else as_obj v) (\<lambda>m. dec_ptr decode_report_result m ''data'')"

text \<open>\<open>Report\<close>: no records, no request; a result may be missing from an answer of 200.\<close>

definition report_traffic_request :: "PanelClient \<Rightarrow> string \<Rightarrow> Record list \<Rightarrow> wire_request" where
  "report_traffic_request c nodeToken records = \<lparr> wqMethod = ''POST'', wqURL = base_url c @ ''/api/v1/traffic/report'',
     wqAuthorization = ''Bearer '' @ nodeToken, wqBody = Some (wire (AArr (map record_json records))) \<rparr>"

definition Report_traffic :: "PanelClient \<Rightarrow> string \<Rightarrow> Record list \<Rightarrow> traffic_report_error + ReportResult option" where
  "Report_traffic c nodeToken records =
     (if records = [] then Inr None
      else if base_url c = [] then Inl PanelURLRequired
      else if TrimSpace nodeToken = [] then Inl ErrReportAuth
      else case clHTTP c (report_traffic_request c nodeToken records) of
        Inl e \<Rightarrow> Inl (ReportFailed e)
      | Inr a \<Rightarrow>
        if wrStatus a = 200 then (case Option.bind (wrBody a) decode_report_envelope of
            None \<Rightarrow> Inl (ReportFailed ''decode traffic report response'')
          | Some result \<Rightarrow> Inr result)
        else if wrStatus a = 401 then Inl ErrReportAuth
        else Inl (ErrReportRejected (wrStatus a)))"

end
