(* ===== verification/GoText.thy ===== *)
theory GoText
  imports AgentTraffic
begin

text \<open>
  The texts Go's standard library reads from the environment and from request paths: \<open>strconv.Atoi\<close> (64 bits),
  \<open>strconv.ParseBool\<close> and \<open>time.ParseDuration\<close>, whose fractions are float64 arithmetic and whose values are kept within
  \<open>2^63\<close> nanoseconds.
\<close>

definition Atoi :: "string \<Rightarrow> int option" where
  "Atoi s = (let sign = s \<noteq> [] \<and> (hd s = CHR ''-'' \<or> hd s = CHR ''+'');
       digits = (if sign then tl s else s);
       v = (if sign \<and> hd s = CHR ''-'' then - int (digits_value digits) else int (digits_value digits)) in
     if digits \<noteq> [] \<and> list_all is_digit digits \<and> int8 v then Some v else None)"

definition ParseBool :: "string \<Rightarrow> bool option" where
  "ParseBool s = (if s \<in> set [''1'', ''t'', ''T'', ''TRUE'', ''true'', ''True''] then Some True
     else if s \<in> set [''0'', ''f'', ''F'', ''FALSE'', ''false'', ''False''] then Some False else None)"

text \<open>Both spellings of the micro sign, in UTF-8.\<close>

definition duration_units :: "(string \<times> nat) list" where
  "duration_units = [(''ns'', 1), (''us'', 1000), ([chr 194, chr 181, CHR ''s''], 1000), ([chr 206, chr 188, CHR ''s''], 1000),
     (''ms'', 1000000), (''s'', 1000000000), (''m'', 60000000000), (''h'', 3600000000000)]"

text \<open>\<open>leadingFraction\<close>: digits after one that overflows are skipped.\<close>

fun fraction_digits :: "string \<Rightarrow> nat \<Rightarrow> nat \<Rightarrow> nat \<times> nat" where
  "fraction_digits [] f k = (f, k)"
| "fraction_digits (c # cs) f k = (if (2 ^ 63 - 1) div 10 < f \<or> 2 ^ 63 < 10 * f + (byte c - 48) then (f, k)
     else fraction_digits cs (10 * f + (byte c - 48)) (Suc k))"

definition fraction_part :: "nat \<Rightarrow> nat \<Rightarrow> nat \<Rightarrow> nat" where
  "fraction_part f k unit = (if f = 0 then 0
     else nat \<lfloor>round64 (int_float (int f) * round64 (rat_of_nat unit / 10 ^ k))\<rfloor>)"

text \<open>One number with its unit, and the rest of the text.\<close>

definition duration_split :: "string \<Rightarrow> string \<times> string \<times> string \<times> string" where
  "duration_split s = (let r1 = dropWhile is_digit s; point = r1 \<noteq> [] \<and> hd r1 = CHR ''.'';
       r2 = (if point then dropWhile is_digit (tl r1) else r1) in
     (takeWhile is_digit s, if point then takeWhile is_digit (tl r1) else [],
      takeWhile (\<lambda>c. c \<noteq> CHR ''.'' \<and> \<not> is_digit c) r2, dropWhile (\<lambda>c. c \<noteq> CHR ''.'' \<and> \<not> is_digit c) r2))"

definition duration_step :: "string \<Rightarrow> (nat \<times> string) option" where
  "duration_step s = (case duration_split s of (whole, fraction, unit, rest) \<Rightarrow>
     if unit = [] \<or> whole = [] \<and> fraction = [] \<or> 2 ^ 63 < digits_value whole then None
     else case map_of duration_units unit of
       None \<Rightarrow> None
     | Some u \<Rightarrow> (case fraction_digits fraction 0 0 of (f, k) \<Rightarrow> (let total = digits_value whole * u + fraction_part f k u in
         if 2 ^ 63 div u < digits_value whole \<or> 2 ^ 63 < total then None else Some (total, rest))))"

lemma duration_split_length: "duration_split s = (whole, fraction, unit, rest) \<Longrightarrow> length unit + length rest \<le> length s"
proof -
  have d: "length (takeWhile P xs) + length (dropWhile P xs) = length xs" for P and xs :: string
    by (metis takeWhile_dropWhile_id length_append)
  let ?r1 = "dropWhile is_digit s"
  have l: "length ?r1 \<le> length s" "length (dropWhile is_digit (tl ?r1)) \<le> length s"
    using length_dropWhile_le[of is_digit s] length_dropWhile_le[of is_digit "tl ?r1"] by auto
  assume "duration_split s = (whole, fraction, unit, rest)"
  then show ?thesis unfolding duration_split_def Let_def using l d by (auto split: if_splits)
qed

lemma duration_step_shorter: "duration_step s = Some (n, r) \<Longrightarrow> length r < length s"
proof -
  assume a: "duration_step s = Some (n, r)"
  obtain whole fraction unit rest where d: "duration_split s = (whole, fraction, unit, rest)" by (metis prod_cases4)
  then have "unit \<noteq> []" "r = rest" using a by (simp_all add: duration_step_def Let_def split: if_splits option.splits prod.splits)
  then show ?thesis using duration_split_length[OF d] by (cases unit) auto
qed

function duration_sum :: "nat \<Rightarrow> string \<Rightarrow> nat option" where
  "duration_sum d s = (if s = [] then Some d else case duration_step s of
     None \<Rightarrow> None
   | Some (n, r) \<Rightarrow> if 2 ^ 63 < d + n then None else duration_sum (d + n) r)"
  by pat_completeness auto
termination by (relation "measure (length \<circ> snd)") (auto simp: duration_step_shorter)

declare duration_sum.simps [simp del]

definition ParseDuration :: "string \<Rightarrow> int option" where
  "ParseDuration s = (let sign = s \<noteq> [] \<and> (hd s = CHR ''-'' \<or> hd s = CHR ''+''); neg = sign \<and> hd s = CHR ''-'';
       r = (if sign then tl s else s) in
     if r = ''0'' then Some 0 else if r = [] then None
     else case duration_sum 0 r of
       None \<Rightarrow> None
     | Some d \<Rightarrow> if neg then Some (- int d) else if 2 ^ 63 \<le> d then None else Some (int d))"

lemma duration_sum_bound: "duration_sum k t = Some n \<Longrightarrow> k \<le> 2 ^ 63 \<Longrightarrow> n \<le> 2 ^ 63"
proof (induction k t rule: duration_sum.induct)
  case (1 k t)
  then show ?case by (auto simp: duration_sum.simps[of k] split: if_splits option.splits prod.splits)
qed

lemma ParseDuration_range:
  assumes "ParseDuration s = Some d"
  shows "int8 d"
proof -
  have b: "n \<le> 2 ^ 63" if c: "duration_sum 0 t = Some n" for t n using duration_sum_bound[OF c] by simp
  show ?thesis using assms
    by (auto simp: ParseDuration_def Let_def int8_def split: if_splits option.splits dest!: b)
qed

text \<open>The product of a duration and a count, within 64 bits.\<close>

definition durationFromEnv :: "(string \<Rightarrow> string) \<Rightarrow> string \<Rightarrow> int \<Rightarrow> int option" where
  "durationFromEnv env key fallback = (let v = TrimSpace (env key) in
     if v = [] then Some fallback else case ParseDuration v of
       Some d \<Rightarrow> Some d
     | None \<Rightarrow> map_option (\<lambda>n. wrap64 (n * second)) (Atoi v))"

definition boolFromEnv :: "(string \<Rightarrow> string) \<Rightarrow> string \<Rightarrow> bool \<Rightarrow> bool option" where
  "boolFromEnv env key fallback = (let v = TrimSpace (env key) in if v = [] then Some fallback else ParseBool v)"

definition stringFromEnv :: "(string \<Rightarrow> string) \<Rightarrow> string \<Rightarrow> string \<Rightarrow> string" where
  "stringFromEnv env key fallback = (let v = TrimSpace (env key) in if v = [] then fallback else v)"

end
