(* ===== verification/SubsTokens.thy ===== *)
theory SubsTokens
  imports SubsStore
begin

text \<open>
  \<open>services/panel-api/internal/storage/subscriptions.go\<close>: the access tokens of a subscription (issued, rotated, revoked, used) and
  the handoff invites that are claimed once for an access token.  Only hashes of tokens are stored.
\<close>

section \<open>Values\<close>

record SubscriptionAccessToken =
  satSubscriptionID :: uuid
  satToken :: string
  satExpiresAt :: instant
  satCreatedAt :: instant

record SubscriptionAccessTokenStatus =
  tsSubscriptionID :: string
  tsStatus :: string
  tsIssued :: bool
  tsIssuedAt :: "instant option"
  tsRevokedAt :: "instant option"
  tsGeneration :: nat

record SubscriptionHandoffInvite =
  shSubscriptionID :: uuid
  shToken :: string
  shExpiresAt :: instant
  shCreatedAt :: instant

record SubscriptionHandoffInviteStatus =
  hsSubscriptionID :: string
  hsStatus :: string
  hsIssued :: bool
  hsIssuedAt :: "instant option"
  hsExpiresAt :: "instant option"
  hsClaimedAt :: "instant option"
  hsRevokedAt :: "instant option"
  hsGeneration :: nat

record SubscriptionHandoffClaim =
  hcSubscriptionID :: uuid
  hcAccessToken :: string
  hcExpiresAt :: instant
  hcClaimedAt :: instant
  hcAccess :: SubscriptionAccess

definition newSubscriptionAccessToken :: "panel_world \<Rightarrow> storage_error + string" where
  "newSubscriptionAccessToken w = bindE (one_row ErrRandom (pwRand w)) (\<lambda>raw. Inr (''lnksa_'' @ hex_encode raw))"

definition newSubscriptionHandoffToken :: "panel_world \<Rightarrow> storage_error + string" where
  "newSubscriptionHandoffToken w = bindE (one_row ErrRandom (pwRand w)) (\<lambda>raw. Inr (''lnkhi_'' @ hex_encode raw))"

definition HashSubscriptionAccessToken :: "string \<Rightarrow> string" where
  "HashSubscriptionAccessToken token = hex_encode (sha256 token)"

definition HashSubscriptionHandoffToken :: "string \<Rightarrow> string" where
  "HashSubscriptionHandoffToken token = hex_encode (sha256 token)"

section \<open>Statements\<close>

definition put_access :: "access_row list \<Rightarrow> access_row list \<Rightarrow> db \<Rightarrow> storage_error + db" where
  "put_access changed rows d =
     bindE (constraints True (list_all access_row_ok changed) (distinct (map atID rows) \<and> distinct (map atHash rows))
              (list_all (\<lambda>a. atSubscriptionID a \<in> suID ` set (dbSubscriptions d)) changed))
       (\<lambda>_. Inr (d\<lparr> dbAccess := rows \<rparr>))"

definition put_invites :: "invite_row list \<Rightarrow> invite_row list \<Rightarrow> db \<Rightarrow> storage_error + db" where
  "put_invites changed rows d =
     bindE (constraints True (list_all invite_row_ok changed) (distinct (map hiID rows) \<and> distinct (map hiHash rows))
              (list_all (\<lambda>h. hiSubscriptionID h \<in> suID ` set (dbSubscriptions d)) changed))
       (\<lambda>_. Inr (d\<lparr> dbInvites := rows \<rparr>))"

text \<open>The two statements that revoke what is active for a subscription.\<close>

definition revoke_access_row :: "panel_world \<Rightarrow> access_row \<Rightarrow> access_row" where
  "revoke_access_row w a = a\<lparr> atStatus := ''revoked'', atUpdatedAt := pwPgNow w \<rparr>"

definition active_access :: "uuid \<Rightarrow> access_row \<Rightarrow> bool" where
  "active_access u a \<longleftrightarrow> atSubscriptionID a = u \<and> atStatus a = ''active''"

definition revoke_access :: "panel_world \<Rightarrow> uuid \<Rightarrow> db \<Rightarrow> storage_error + db" where
  "revoke_access w u d = bindE (stmt w ''revoke access tokens'') (\<lambda>_.
     put_access (map (revoke_access_row w) (filter (active_access u) (dbAccess d)))
       (upd_where (active_access u) (revoke_access_row w) (dbAccess d)) d)"

definition revoke_invite_row :: "panel_world \<Rightarrow> invite_row \<Rightarrow> invite_row" where
  "revoke_invite_row w h = h\<lparr> hiStatus := ''revoked'', hiUpdatedAt := pwPgNow w \<rparr>"

definition active_invite :: "uuid \<Rightarrow> invite_row \<Rightarrow> bool" where
  "active_invite u h \<longleftrightarrow> hiSubscriptionID h = u \<and> hiStatus h = ''active''"

definition revoke_invites :: "panel_world \<Rightarrow> uuid \<Rightarrow> db \<Rightarrow> storage_error + db" where
  "revoke_invites w u d = bindE (stmt w ''revoke handoff invites'') (\<lambda>_.
     put_invites (map (revoke_invite_row w) (filter (active_invite u) (dbInvites d)))
       (upd_where (active_invite u) (revoke_invite_row w) (dbInvites d)) d)"

section \<open>Eligibility\<close>

definition eligible :: "panel_world \<Rightarrow> db \<Rightarrow> subscription_row \<Rightarrow> bool" where
  "eligible w d s \<longleftrightarrow> suStatus s = ''active'' \<and> pwPgNow w < suExpiresAt s
     \<and> list_ex (\<lambda>u. urID u = suUserID s \<and> urStatus u = ''active'') (dbUsers d)"

definition ensureSubscriptionEligibleForAccessToken :: "panel_world \<Rightarrow> string \<Rightarrow> db \<Rightarrow> storage_error + uuid" where
  "ensureSubscriptionEligibleForAccessToken w i d = bindE (stmt w ''select eligible'') (\<lambda>_. bindE (uuid_param i) (\<lambda>u.
     if list_ex (\<lambda>s. suID s = u \<and> eligible w d s) (dbSubscriptions d) then Inr u
     else bindE (stmt w ''select exists'') (\<lambda>_.
       Inl (if list_ex (\<lambda>s. suID s = u) (dbSubscriptions d) then ErrSubscriptionAccessUnavailable else ErrNotFound))))"

section \<open>Access tokens\<close>

definition fresh_access :: "panel_world \<Rightarrow> string \<Rightarrow> subscription_row \<Rightarrow> access_row" where
  "fresh_access w token s = \<lparr> atID = pwID w ''subscription_access_tokens'', atSubscriptionID = suID s,
     atHash = HashSubscriptionAccessToken token, atStatus = ''active'', atExpiresAt = suExpiresAt s,
     atCreatedAt = pwPgNow w, atUpdatedAt = pwPgNow w \<rparr>"

definition replaceAccessTokenInTx :: "panel_world \<Rightarrow> uuid \<Rightarrow> string \<Rightarrow> db \<Rightarrow> storage_error + (access_row \<times> db)" where
  "replaceAccessTokenInTx w u token d = bindE (revoke_access w u d) (\<lambda>d1.
     bindE (stmt w ''insert access token'') (\<lambda>_. bindE (one_row ErrNoRows (subscription_by_id u d1)) (\<lambda>s.
     let row = fresh_access w token s in
     bindE (put_access [row] (dbAccess d1 @ [row]) d1) (\<lambda>d2. Inr (row, d2)))))"

definition issued_token :: "string \<Rightarrow> access_row \<Rightarrow> SubscriptionAccessToken" where
  "issued_token token r = \<lparr> satSubscriptionID = atSubscriptionID r, satToken = token, satExpiresAt = atExpiresAt r, satCreatedAt = atCreatedAt r \<rparr>"

definition replaceAccessToken :: "panel_world \<Rightarrow> string \<Rightarrow> db \<Rightarrow> (storage_error + SubscriptionAccessToken) \<times> db" where
  "replaceAccessToken w i d = (case newSubscriptionAccessToken w of
     Inl e \<Rightarrow> (Inl e, d)
   | Inr token \<Rightarrow> in_tx w (\<lambda>d. bindE (ensureSubscriptionEligibleForAccessToken w i d) (\<lambda>u.
       bindE (replaceAccessTokenInTx w u token d) (\<lambda>(r, d'). Inr (issued_token token r, d')))) d)"

definition CreateAccessToken :: "panel_world \<Rightarrow> string \<Rightarrow> db \<Rightarrow> (storage_error + SubscriptionAccessToken) \<times> db" where
  "CreateAccessToken = replaceAccessToken"

definition RotateAccessToken :: "panel_world \<Rightarrow> string \<Rightarrow> db \<Rightarrow> (storage_error + SubscriptionAccessToken) \<times> db" where
  "RotateAccessToken = replaceAccessToken"

text \<open>The token whose status is shown: an active one before the others, the latest first.\<close>

definition current_access :: "uuid \<Rightarrow> db \<Rightarrow> access_row option" where
  "current_access u d = first_row (sort_key (\<lambda>a. if atStatus a = ''active'' then 0 else 1 :: nat)
     (sort_key (\<lambda>a. - atCreatedAt a) (filter (\<lambda>a. atSubscriptionID a = u) (dbAccess d))))"

definition AccessTokenStatus :: "panel_world \<Rightarrow> string \<Rightarrow> db \<Rightarrow> storage_error + SubscriptionAccessTokenStatus" where
  "AccessTokenStatus w i d = bindE (FindSubscription w i d) (\<lambda>_. bindE (stmt w ''select token status'') (\<lambda>_. bindE (uuid_param i) (\<lambda>u.
     let generation = length (filter (\<lambda>a. atSubscriptionID a = u) (dbAccess d)) in
     Inr (case current_access u d of
       None \<Rightarrow> \<lparr> tsSubscriptionID = i, tsStatus = ''never_issued'', tsIssued = False, tsIssuedAt = None, tsRevokedAt = None,
                 tsGeneration = generation \<rparr>
     | Some a \<Rightarrow> \<lparr> tsSubscriptionID = i, tsStatus = atStatus a, tsIssued = True, tsIssuedAt = Some (atCreatedAt a),
                 tsRevokedAt = (if atStatus a = ''revoked'' then Some (atUpdatedAt a) else None), tsGeneration = generation \<rparr>))))"

text \<open>The revocation stands when the status cannot be read after it.\<close>

definition RevokeAccessToken :: "panel_world \<Rightarrow> string \<Rightarrow> db \<Rightarrow> (storage_error + SubscriptionAccessTokenStatus) \<times> db" where
  "RevokeAccessToken w i d = (case bindE (FindSubscription w i d) (\<lambda>_. bindE (uuid_param i) (\<lambda>u. revoke_access w u d)) of
     Inl e \<Rightarrow> (Inl e, d)
   | Inr d' \<Rightarrow> (AccessTokenStatus w i d', d'))"

definition usable_access :: "panel_world \<Rightarrow> string \<Rightarrow> access_row \<Rightarrow> bool" where
  "usable_access w token a \<longleftrightarrow> atHash a = HashSubscriptionAccessToken token \<and> atStatus a = ''active'' \<and> pwPgNow w < atExpiresAt a"

definition AccessByToken ::
  "(string \<Rightarrow> string) \<Rightarrow> RealityConfig \<Rightarrow> panel_world \<Rightarrow> string \<Rightarrow> db \<Rightarrow> storage_error + SubscriptionAccess" where
  "AccessByToken collate reality w token d = (let t = TrimSpace token in
     if t = [] then Inl ErrInvalidSubscriptionAccessToken
     else bindE (stmt w ''select access token'') (\<lambda>_.
       bindE (one_row ErrInvalidSubscriptionAccessToken
                (first_row (sort_key (\<lambda>a. - atCreatedAt a) (filter (usable_access w t) (dbAccess d))))) (\<lambda>a.
       Access collate reality w (atSubscriptionID a) d)))"

definition SubscriptionIDByToken :: "panel_world \<Rightarrow> string \<Rightarrow> db \<Rightarrow> storage_error + uuid" where
  "SubscriptionIDByToken w token d = (let t = TrimSpace token in
     if t = [] then Inl ErrInvalidSubscriptionAccessToken
     else bindE (stmt w ''select token subscription'') (\<lambda>_.
       bindE (one_row ErrInvalidSubscriptionAccessToken (first_row (filter (usable_access w t) (dbAccess d)))) (\<lambda>a.
       Inr (atSubscriptionID a))))"

section \<open>Handoff invites\<close>

definition fresh_invite :: "panel_world \<Rightarrow> string \<Rightarrow> subscription_row \<Rightarrow> invite_row" where
  "fresh_invite w token s = \<lparr> hiID = pwID w ''subscription_handoff_invites'', hiSubscriptionID = suID s,
     hiHash = HashSubscriptionHandoffToken token, hiStatus = ''active'', hiExpiresAt = min (suExpiresAt s) (pwPgNow w + 24 * hour),
     hiClaimedAt = None, hiCreatedAt = pwPgNow w, hiUpdatedAt = pwPgNow w \<rparr>"

definition CreateHandoffInvite :: "panel_world \<Rightarrow> string \<Rightarrow> db \<Rightarrow> (storage_error + SubscriptionHandoffInvite) \<times> db" where
  "CreateHandoffInvite w i d = (case newSubscriptionHandoffToken w of
     Inl e \<Rightarrow> (Inl e, d)
   | Inr token \<Rightarrow> in_tx w (\<lambda>d. bindE (ensureSubscriptionEligibleForAccessToken w i d) (\<lambda>u. bindE (revoke_invites w u d) (\<lambda>d1.
       bindE (stmt w ''insert handoff invite'') (\<lambda>_. bindE (one_row ErrNoRows (subscription_by_id u d1)) (\<lambda>s.
       let row = fresh_invite w token s in
       bindE (put_invites [row] (dbInvites d1 @ [row]) d1) (\<lambda>d2.
         Inr (\<lparr> shSubscriptionID = suID s, shToken = token, shExpiresAt = hiExpiresAt row, shCreatedAt = hiCreatedAt row \<rparr>, d2))))))) d)"

definition current_invite :: "panel_world \<Rightarrow> uuid \<Rightarrow> db \<Rightarrow> invite_row option" where
  "current_invite w u d = first_row (sort_key (\<lambda>h. if hiStatus h = ''active'' \<and> pwPgNow w < hiExpiresAt h then 0 else 1 :: nat)
     (sort_key (\<lambda>h. - hiCreatedAt h) (filter (\<lambda>h. hiSubscriptionID h = u) (dbInvites d))))"

definition HandoffInviteStatus :: "panel_world \<Rightarrow> string \<Rightarrow> db \<Rightarrow> storage_error + SubscriptionHandoffInviteStatus" where
  "HandoffInviteStatus w i d = bindE (FindSubscription w i d) (\<lambda>_. bindE (stmt w ''select invite status'') (\<lambda>_. bindE (uuid_param i) (\<lambda>u.
     let generation = length (filter (\<lambda>h. hiSubscriptionID h = u) (dbInvites d)) in
     Inr (case current_invite w u d of
       None \<Rightarrow> \<lparr> hsSubscriptionID = i, hsStatus = ''never_issued'', hsIssued = False, hsIssuedAt = None, hsExpiresAt = None,
                 hsClaimedAt = None, hsRevokedAt = None, hsGeneration = generation \<rparr>
     | Some h \<Rightarrow> \<lparr> hsSubscriptionID = i,
                 hsStatus = (if hiStatus h = ''active'' \<and> hiExpiresAt h \<le> pwNow w then ''expired'' else hiStatus h),
                 hsIssued = True, hsIssuedAt = Some (hiCreatedAt h), hsExpiresAt = Some (hiExpiresAt h), hsClaimedAt = hiClaimedAt h,
                 hsRevokedAt = (if hiStatus h = ''revoked'' then Some (hiUpdatedAt h) else None), hsGeneration = generation \<rparr>))))"

definition RevokeHandoffInvite :: "panel_world \<Rightarrow> string \<Rightarrow> db \<Rightarrow> (storage_error + SubscriptionHandoffInviteStatus) \<times> db" where
  "RevokeHandoffInvite w i d = (case bindE (FindSubscription w i d) (\<lambda>_. bindE (uuid_param i) (\<lambda>u. revoke_invites w u d)) of
     Inl e \<Rightarrow> (Inl e, d)
   | Inr d' \<Rightarrow> (HandoffInviteStatus w i d', d'))"

definition claim_invite_row :: "panel_world \<Rightarrow> invite_row \<Rightarrow> invite_row" where
  "claim_invite_row w h = h\<lparr> hiStatus := ''claimed'', hiClaimedAt := Some (pwPgNow w), hiUpdatedAt := pwPgNow w \<rparr>"

definition usable_invite :: "panel_world \<Rightarrow> string \<Rightarrow> invite_row \<Rightarrow> bool" where
  "usable_invite w token h \<longleftrightarrow> hiHash h = HashSubscriptionHandoffToken token \<and> hiStatus h = ''active'' \<and> pwPgNow w < hiExpiresAt h"

text \<open>The access entry is read outside the transaction, which has written nothing at that point.\<close>

definition Claim_body ::
  "(string \<Rightarrow> string) \<Rightarrow> RealityConfig \<Rightarrow> panel_world \<Rightarrow> string \<Rightarrow> string \<Rightarrow> db \<Rightarrow> storage_error + (SubscriptionHandoffClaim \<times> db)" where
  "Claim_body collate reality w token accessToken d = bindE (stmt w ''select handoff invite'') (\<lambda>_.
     bindE (one_row ErrInvalidSubscriptionHandoffToken
              (first_row (sort_key (\<lambda>h. - hiCreatedAt h) (filter (usable_invite w token) (dbInvites d))))) (\<lambda>h.
     bindE (ensureSubscriptionEligibleForAccessToken w (hiSubscriptionID h) d) (\<lambda>u.
     bindE (Access collate reality w (hiSubscriptionID h) d) (\<lambda>access.
     bindE (stmt w ''claim handoff invite'') (\<lambda>_.
     bindE (put_invites [claim_invite_row w h] (upd_where (\<lambda>r. hiID r = hiID h) (claim_invite_row w) (dbInvites d)) d) (\<lambda>d1.
     bindE (replaceAccessTokenInTx w u accessToken d1) (\<lambda>(r, d2).
       Inr (\<lparr> hcSubscriptionID = hiSubscriptionID h, hcAccessToken = accessToken, hcExpiresAt = atExpiresAt r,
              hcClaimedAt = pwPgNow w, hcAccess = access \<rparr>, d2))))))))"

definition ClaimHandoffInvite ::
  "(string \<Rightarrow> string) \<Rightarrow> RealityConfig \<Rightarrow> panel_world \<Rightarrow> string \<Rightarrow> db \<Rightarrow> (storage_error + SubscriptionHandoffClaim) \<times> db" where
  "ClaimHandoffInvite collate reality w token d = (let t = TrimSpace token in
     if t = [] then (Inl ErrInvalidSubscriptionHandoffToken, d)
     else (case newSubscriptionAccessToken w of
       Inl e \<Rightarrow> (Inl e, d)
     | Inr accessToken \<Rightarrow> in_tx w (Claim_body collate reality w t accessToken) d))"

end
