(* ===== verification/SubsHandler.thy ===== *)
theory SubsHandler
  imports SubsTokens HttpApi
begin

text \<open>
  \<open>services/panel-api/internal/subscriptions/handler.go\<close>: the HTTP handlers of subscriptions, for administrators and for the
  clients that hold an access token or a handoff invite.  The resolver of templates is a parameter, which may be absent.
\<close>

section \<open>JSON\<close>

definition opt_int :: "int option \<Rightarrow> any" where
  "opt_int n = (case n of None \<Rightarrow> ANil | Some k \<Rightarrow> AInt k)"

definition opt_str :: "string option \<Rightarrow> any" where
  "opt_str s = (case s of None \<Rightarrow> ANil | Some t \<Rightarrow> AStr t)"

definition omit_time :: "string \<Rightarrow> instant option \<Rightarrow> obj" where
  "omit_time k t = (case t of None \<Rightarrow> [] | Some x \<Rightarrow> [(k, AStr (RFC3339Nano x))])"

text \<open>The encoder fails on a time whose year is not in 0 to 9999; the status is sent by then, and no body follows.\<close>

definition WriteTimed :: "nat \<Rightarrow> instant list \<Rightarrow> any \<Rightarrow> response" where
  "WriteTimed status ts v = (if list_all json_year ts then WriteJSON status v else \<lparr> rsStatus = status, rsBody = BError [] [] \<rparr>)"

definition subscription_json :: "Subscription \<Rightarrow> any" where
  "subscription_json s = AObj [(''id'', AStr (suID s)), (''user_id'', AStr (suUserID s)), (''plan_id'', AStr (suPlanID s)),
     (''status'', AStr (suStatus s)), (''starts_at'', AStr (RFC3339Nano (suStartsAt s))), (''expires_at'', AStr (RFC3339Nano (suExpiresAt s))),
     (''traffic_limit_bytes'', opt_int (suTrafficLimit s)), (''traffic_used_bytes'', AInt (suTrafficUsed s)),
     (''device_limit'', AInt (suDeviceLimit s)), (''preferred_region'', opt_str (suRegion s))]"

definition subscription_times :: "Subscription \<Rightarrow> instant list" where
  "subscription_times s = [suStartsAt s, suExpiresAt s]"

definition access_node_json :: "SubscriptionAccessNode \<Rightarrow> any" where
  "access_node_json n = AObj [(''id'', AStr (anID n)), (''name'', AStr (anName n)), (''region'', AStr (anRegion n)),
     (''country_code'', AStr (anCountryCode n)), (''hostname'', AStr (anHostname n)), (''status'', AStr (anStatus n)),
     (''drain_state'', AStr (anDrainState n)), (''active_revision'', AInt (anActiveRevision n))]"

definition access_endpoint_json :: "SubscriptionAccessEndpoint \<Rightarrow> any" where
  "access_endpoint_json e = AObj [(''address'', AStr (aeAddress e)), (''port'', AInt (aePort e)), (''network'', AStr (aeNetwork e)),
     (''security'', AStr (aeSecurity e)), (''sni'', AStr (aeSNI e)), (''public_key'', AStr (aePublicKey e)),
     (''short_id'', AStr (aeShortID e)), (''fingerprint'', AStr (aeFingerprint e)), (''spider_x'', AStr (aeSpiderX e))]"

definition client_members :: "SubscriptionAccessClient \<Rightarrow> obj" where
  "client_members c = [(''id'', AStr (acID c)), (''email'', AStr (acEmail c)), (''flow'', AStr (acFlow c)), (''level'', AInt (acLevel c))]"

definition access_json :: "SubscriptionAccess \<Rightarrow> any" where
  "access_json a = AObj [(''export_kind'', AStr (saExportKind a)), (''subscription_id'', AStr (saSubscriptionID a)),
     (''user_id'', AStr (saUserID a)), (''user_label'', AStr (saUserLabel a)), (''plan_id'', AStr (saPlanID a)),
     (''plan_name'', AStr (saPlanName a)), (''status'', AStr (saStatus a)), (''protocol'', AStr (saProtocol a)),
     (''protocol_path'', AStr (saProtocolPath a)), (''node'', access_node_json (saNode a)), (''endpoint'', access_endpoint_json (saEndpoint a)),
     (''client'', AObj (client_members (saClient a) @ [(''plan_id'', AStr (acPlanID (saClient a)))])),
     (''display_name'', AStr (saDisplayName a)), (''uri'', AStr (saURI a))]"

definition access_token_json :: "SubscriptionAccessToken \<Rightarrow> any" where
  "access_token_json t = AObj ([(''subscription_id'', AStr (satSubscriptionID t))] @ omit_empty [(''access_token'', AStr (satToken t))]
     @ [(''expires_at'', AStr (RFC3339Nano (satExpiresAt t))), (''created_at'', AStr (RFC3339Nano (satCreatedAt t)))])"

definition token_status_json :: "SubscriptionAccessTokenStatus \<Rightarrow> any" where
  "token_status_json s = AObj ([(''subscription_id'', AStr (tsSubscriptionID s)), (''status'', AStr (tsStatus s)), (''issued'', ABool (tsIssued s))]
     @ omit_time ''issued_at'' (tsIssuedAt s) @ omit_time ''revoked_at'' (tsRevokedAt s) @ [(''generation'', AInt (int (tsGeneration s)))])"

definition invite_json :: "SubscriptionHandoffInvite \<Rightarrow> any" where
  "invite_json t = AObj ([(''subscription_id'', AStr (shSubscriptionID t))] @ omit_empty [(''handoff_token'', AStr (shToken t))]
     @ [(''expires_at'', AStr (RFC3339Nano (shExpiresAt t))), (''created_at'', AStr (RFC3339Nano (shCreatedAt t)))])"

definition invite_status_json :: "SubscriptionHandoffInviteStatus \<Rightarrow> any" where
  "invite_status_json s = AObj ([(''subscription_id'', AStr (hsSubscriptionID s)), (''status'', AStr (hsStatus s)), (''issued'', ABool (hsIssued s))]
     @ omit_time ''issued_at'' (hsIssuedAt s) @ omit_time ''expires_at'' (hsExpiresAt s) @ omit_time ''claimed_at'' (hsClaimedAt s)
     @ omit_time ''revoked_at'' (hsRevokedAt s) @ [(''generation'', AInt (int (hsGeneration s)))])"

definition clientAccessResponse :: "SubscriptionAccess \<Rightarrow> any" where
  "clientAccessResponse a = AObj [(''export_kind'', AStr (saExportKind a)), (''subscription_id'', AStr (saSubscriptionID a)),
     (''status'', AStr (saStatus a)), (''protocol'', AStr (saProtocol a)), (''protocol_path'', AStr (saProtocolPath a)),
     (''plan_name'', AStr (saPlanName a)), (''node'', access_node_json (saNode a)), (''endpoint'', access_endpoint_json (saEndpoint a)),
     (''client'', AObj (client_members (saClient a))), (''display_name'', AStr (saDisplayName a)), (''uri'', AStr (saURI a))]"

definition clientHandoffClaimResponse :: "SubscriptionHandoffClaim \<Rightarrow> any" where
  "clientHandoffClaimResponse c = AObj [(''claim_kind'', AStr ''subscription_handoff_claim.v1alpha1''),
     (''subscription_id'', AStr (hcSubscriptionID c)), (''access_token'', AStr (hcAccessToken c)),
     (''access_token_expires_at'', AStr (RFC3339Nano (hcExpiresAt c))), (''claimed_at'', AStr (RFC3339Nano (hcClaimedAt c))),
     (''access'', clientAccessResponse (hcAccess c))]"

section \<open>Errors and events\<close>

definition writeResourceError :: "storage_error \<Rightarrow> string \<Rightarrow> response" where
  "writeResourceError e resource = (if e = ErrNotFound then WriteNotFound resource else WriteStorageError)"

definition writeSubscriptionAccessError :: "storage_error \<Rightarrow> response" where
  "writeSubscriptionAccessError e = (if e = ErrNotFound then WriteNotFound ''subscription''
     else if e = ErrSubscriptionAccessUnavailable then WriteError 409 ''access_unavailable'' ''subscription access export is unavailable''
     else WriteStorageError)"

definition resource_reason :: "storage_error \<Rightarrow> string" where
  "resource_reason e = (if e = ErrNotFound then ''not_found'' else ''storage_error'')"

definition record_event :: "string \<Rightarrow> http_request \<Rightarrow> string \<Rightarrow> string \<Rightarrow> string \<Rightarrow> string \<Rightarrow> audit_event" where
  "record_event kind r action resource outcome reason = \<lparr> avActorType = ''admin'', avActorID = hqAdmin r, avAction = action,
     avResourceType = kind, avResourceID = resource, avOutcome = outcome, avReason = reason, avChanges = None \<rparr>"

definition record_subscription :: "http_request \<Rightarrow> string \<Rightarrow> string \<Rightarrow> string \<Rightarrow> string \<Rightarrow> audit_event" where
  "record_subscription = record_event ''subscription''"

section \<open>Administrators\<close>

definition subs_List :: "panel_world \<Rightarrow> http_request \<Rightarrow> db \<Rightarrow> reply" where
  "subs_List w r d = (case ListSubscriptions w d of
     Inl e \<Rightarrow> (WriteStorageError, d, [])
   | Inr ss \<Rightarrow> (WriteTimed 200 (concat (map subscription_times ss)) (if ss = [] then ANil else AArr (map subscription_json ss)), d, []))"

record CreateSubscriptionRequest =
  crUserID :: string
  crPlanID :: string
  crTemplateID :: string
  crPreferredRegion :: "string option"

definition decode_create_subscription :: "obj \<Rightarrow> CreateSubscriptionRequest option" where
  "decode_create_subscription m = (case (dec_str m ''user_id'', dec_str m ''plan_id'', dec_str m ''template_id'', dec_ptr as_str m ''preferred_region'') of
     (Some u, Some p, Some t, Some g) \<Rightarrow> Some \<lparr> crUserID = u, crPlanID = p, crTemplateID = t, crPreferredRegion = g \<rparr>
   | _ \<Rightarrow> None)"

text \<open>The plan: the one of the request, or the one its template names; the failure of the resolver is its own answer.\<close>

definition requested_plan :: "(string \<Rightarrow> storage_error + string) option \<Rightarrow> CreateSubscriptionRequest \<Rightarrow> string option" where
  "requested_plan templates q = (let planID = TrimSpace (crPlanID q) in
     if planID = [] \<and> TrimSpace (crTemplateID q) \<noteq> [] then (case templates of
         None \<Rightarrow> Some planID
       | Some resolve \<Rightarrow> (case resolve (TrimSpace (crTemplateID q)) of Inl e \<Rightarrow> None | Inr p \<Rightarrow> Some p))
     else Some planID)"

definition subs_Create :: "(string \<Rightarrow> storage_error + string) option \<Rightarrow> panel_world \<Rightarrow> http_request \<Rightarrow> db \<Rightarrow> reply" where
  "subs_Create templates w r d = (case Option.bind (body_obj r) decode_create_subscription of
     None \<Rightarrow> (WriteBadRequest ''invalid JSON request body'', d, [])
   | Some q \<Rightarrow>
     if TrimSpace (crUserID q) = [] then (WriteBadRequest ''user_id is required'', d, [])
     else (case requested_plan templates q of
       None \<Rightarrow> (WriteBadRequest ''template not found or has no plan_id'', d, [])
     | Some planID \<Rightarrow>
       if planID = [] then (WriteBadRequest ''plan_id is required'', d, [])
       else (case CreateSubscription w \<lparr> csUserID = TrimSpace (crUserID q), csPlanID = planID,
                csRegion = (case crPreferredRegion q of None \<Rightarrow> None | Some g \<Rightarrow> if TrimSpace g = [] then None else Some (TrimSpace g)) \<rparr> d of
         (Inl e, d') \<Rightarrow> (writeResourceError e ''subscription'', d',
            [record_subscription r ''subscription.create'' [] OutcomeFailure (resource_reason e)])
       | (Inr s, d') \<Rightarrow> (WriteTimed 201 (subscription_times s) (subscription_json s), d',
            [record_subscription r ''subscription.create'' (suID s) OutcomeSuccess []]))))"

definition subs_Get :: "panel_world \<Rightarrow> http_request \<Rightarrow> db \<Rightarrow> reply" where
  "subs_Get w r d = (case FindSubscription w (path_value ''id'' r) d of
     Inl e \<Rightarrow> (writeResourceError e ''subscription'', d, [])
   | Inr s \<Rightarrow> (WriteTimed 200 (subscription_times s) (subscription_json s), d, []))"

definition subs_Access :: "(string \<Rightarrow> string) \<Rightarrow> RealityConfig \<Rightarrow> panel_world \<Rightarrow> http_request \<Rightarrow> db \<Rightarrow> reply" where
  "subs_Access collate reality w r d = (case Access collate reality w (path_value ''id'' r) d of
     Inl e \<Rightarrow> (writeSubscriptionAccessError e, d, [])
   | Inr a \<Rightarrow> (WriteJSON 200 (access_json a), d, []))"

definition token_answer :: "(storage_error + SubscriptionAccessToken) \<times> db \<Rightarrow> reply" where
  "token_answer x = (case x of
     (Inl e, d') \<Rightarrow> (writeSubscriptionAccessError e, d', [])
   | (Inr t, d') \<Rightarrow> (WriteTimed 201 [satExpiresAt t, satCreatedAt t] (access_token_json t), d', []))"

definition subs_CreateAccessToken :: "panel_world \<Rightarrow> http_request \<Rightarrow> db \<Rightarrow> reply" where
  "subs_CreateAccessToken w r d = token_answer (CreateAccessToken w (path_value ''id'' r) d)"

definition subs_RotateAccessToken :: "panel_world \<Rightarrow> http_request \<Rightarrow> db \<Rightarrow> reply" where
  "subs_RotateAccessToken w r d = token_answer (RotateAccessToken w (path_value ''id'' r) d)"

definition some_times :: "instant option list \<Rightarrow> instant list" where
  "some_times ts = List.map_filter id ts"

definition subs_AccessTokenStatus :: "panel_world \<Rightarrow> http_request \<Rightarrow> db \<Rightarrow> reply" where
  "subs_AccessTokenStatus w r d = (case AccessTokenStatus w (path_value ''id'' r) d of
     Inl e \<Rightarrow> (writeSubscriptionAccessError e, d, [])
   | Inr s \<Rightarrow> (WriteTimed 200 (some_times [tsIssuedAt s, tsRevokedAt s]) (token_status_json s), d, []))"

definition subs_RevokeAccessToken :: "panel_world \<Rightarrow> http_request \<Rightarrow> db \<Rightarrow> reply" where
  "subs_RevokeAccessToken w r d = (case RevokeAccessToken w (path_value ''id'' r) d of
     (Inl e, d') \<Rightarrow> (writeSubscriptionAccessError e, d', [])
   | (Inr s, d') \<Rightarrow> (WriteTimed 200 (some_times [tsIssuedAt s, tsRevokedAt s]) (token_status_json s), d', []))"

definition subs_CreateHandoffInvite :: "panel_world \<Rightarrow> http_request \<Rightarrow> db \<Rightarrow> reply" where
  "subs_CreateHandoffInvite w r d = (case CreateHandoffInvite w (path_value ''id'' r) d of
     (Inl e, d') \<Rightarrow> (writeSubscriptionAccessError e, d', [])
   | (Inr t, d') \<Rightarrow> (WriteTimed 201 [shExpiresAt t, shCreatedAt t] (invite_json t), d', []))"

definition invite_times :: "SubscriptionHandoffInviteStatus \<Rightarrow> instant list" where
  "invite_times s = some_times [hsIssuedAt s, hsExpiresAt s, hsClaimedAt s, hsRevokedAt s]"

definition subs_HandoffInviteStatus :: "panel_world \<Rightarrow> http_request \<Rightarrow> db \<Rightarrow> reply" where
  "subs_HandoffInviteStatus w r d = (case HandoffInviteStatus w (path_value ''id'' r) d of
     Inl e \<Rightarrow> (writeSubscriptionAccessError e, d, [])
   | Inr s \<Rightarrow> (WriteTimed 200 (invite_times s) (invite_status_json s), d, []))"

definition subs_RevokeHandoffInvite :: "panel_world \<Rightarrow> http_request \<Rightarrow> db \<Rightarrow> reply" where
  "subs_RevokeHandoffInvite w r d = (case RevokeHandoffInvite w (path_value ''id'' r) d of
     (Inl e, d') \<Rightarrow> (writeSubscriptionAccessError e, d', [])
   | (Inr s, d') \<Rightarrow> (WriteTimed 200 (invite_times s) (invite_status_json s), d', []))"

section \<open>Clients\<close>

definition subs_ClientAccess :: "(string \<Rightarrow> string) \<Rightarrow> RealityConfig \<Rightarrow> panel_world \<Rightarrow> http_request \<Rightarrow> db \<Rightarrow> reply" where
  "subs_ClientAccess collate reality w r d = (let missing = WriteError 401 ''unauthorized'' ''subscription access token is missing or invalid'' in
     case bearerToken (hqAuthorization r) of
       None \<Rightarrow> (missing, d, [])
     | Some token \<Rightarrow> (case AccessByToken collate reality w token d of
         Inl e \<Rightarrow> (if e = ErrInvalidSubscriptionAccessToken then missing else writeSubscriptionAccessError e, d, [])
       | Inr a \<Rightarrow> (WriteJSON 200 (clientAccessResponse a), d, [])))"

definition subs_ClaimHandoff :: "(string \<Rightarrow> string) \<Rightarrow> RealityConfig \<Rightarrow> panel_world \<Rightarrow> http_request \<Rightarrow> db \<Rightarrow> reply" where
  "subs_ClaimHandoff collate reality w r d = (case Option.bind (body_obj r) (\<lambda>m. dec_str m ''handoff_token'') of
     None \<Rightarrow> (WriteBadRequest ''invalid JSON request body'', d, [])
   | Some token \<Rightarrow>
     if TrimSpace token = [] then (WriteBadRequest ''handoff_token is required'', d, [])
     else (case ClaimHandoffInvite collate reality w token d of
       (Inl e, d') \<Rightarrow> (if e = ErrInvalidSubscriptionHandoffToken
            then WriteError 401 ''unauthorized'' ''subscription handoff token is missing, invalid, expired, revoked, or already claimed''
            else writeSubscriptionAccessError e, d', [])
     | (Inr c, d') \<Rightarrow> (WriteTimed 200 [hcExpiresAt c, hcClaimedAt c] (clientHandoffClaimResponse c), d', [])))"

section \<open>Updates\<close>

definition decode_update_subscription :: "obj \<Rightarrow> UpdateSubscriptionInput option" where
  "decode_update_subscription m = (case (dec_ptr as_str m ''status'', dec_ptr int_of_any m ''traffic_limit_bytes'', dec_bool m ''clear_traffic_limit'',
       dec_ptr int_of_any m ''device_limit'', dec_ptr as_str m ''preferred_region'', dec_bool m ''clear_preferred_region'') of
     (Some s, Some t, Some ct, Some v, Some g, Some cg) \<Rightarrow>
       Some \<lparr> usStatus = map_option TrimSpace s, usTrafficLimit = t, usClearTrafficLimit = ct, usDeviceLimit = v,
              usRegion = map_option TrimSpace g, usClearRegion = cg \<rparr>
   | _ \<Rightarrow> None)"

definition update_subscription_error :: "UpdateSubscriptionInput \<Rightarrow> string option" where
  "update_subscription_error q =
     (if (case usStatus q of None \<Rightarrow> False | Some s \<Rightarrow> s \<notin> {''active'', ''expired'', ''suspended''})
        then Some ''status must be active, expired, or suspended''
      else if (case usTrafficLimit q of None \<Rightarrow> False | Some n \<Rightarrow> n \<le> 0)
        then Some ''traffic_limit_bytes must be greater than zero when provided''
      else if (case usDeviceLimit q of None \<Rightarrow> False | Some n \<Rightarrow> n \<le> 0) then Some ''device_limit must be greater than zero''
      else None)"

definition subs_Update :: "panel_world \<Rightarrow> http_request \<Rightarrow> db \<Rightarrow> reply" where
  "subs_Update w r d = (case Option.bind (body_obj r) decode_update_subscription of
     None \<Rightarrow> (WriteBadRequest ''invalid JSON request body'', d, [])
   | Some q \<Rightarrow> (case update_subscription_error q of
       Some message \<Rightarrow> (WriteBadRequest message, d, [])
     | None \<Rightarrow> (case UpdateSubscription w (path_value ''id'' r) q d of
         (Inl e, d') \<Rightarrow> (writeResourceError e ''subscription'', d',
            [record_subscription r ''subscription.update'' (path_value ''id'' r) OutcomeFailure (resource_reason e)])
       | (Inr s, d') \<Rightarrow> (WriteTimed 200 (subscription_times s) (subscription_json s), d',
            [record_subscription r ''subscription.update'' (suID s) OutcomeSuccess []]))))"

definition subs_Renew :: "panel_world \<Rightarrow> http_request \<Rightarrow> db \<Rightarrow> reply" where
  "subs_Renew w r d = (case Option.bind (body_obj r) (\<lambda>m. dec_int m ''extend_days'') of
     None \<Rightarrow> (WriteBadRequest ''invalid JSON request body'', d, [])
   | Some n \<Rightarrow>
     if n \<le> 0 then (WriteBadRequest ''extend_days must be greater than zero'', d, [])
     else (case RenewSubscription w (path_value ''id'' r) n d of
       (Inl e, d') \<Rightarrow> (writeResourceError e ''subscription'', d',
          [record_subscription r ''subscription.renew'' (path_value ''id'' r) OutcomeFailure (resource_reason e)])
     | (Inr s, d') \<Rightarrow> (WriteTimed 200 (subscription_times s) (subscription_json s), d',
          [record_subscription r ''subscription.renew'' (suID s) OutcomeSuccess []])))"

end
