(* ===== verification/AgentApp.thy ===== *)
theory AgentApp
  imports GoText PgSteps AgentSupervisor SubsHandler AgentTheorems
begin

text \<open>
  The node agent as a process: its configuration (\<open>services/node-agent/internal/config/config.go\<close>), its HTTP endpoints
  (\<open>internal/http\<close>), the loops of \<open>internal/app/app.go\<close> and what starts them, and the text of a failed dry run
  (\<open>agent/xray_dryrun.go\<close>).  The environment is a function from names to values, \<open>[]\<close> when a variable is unset.  Each
  round of a loop runs in its own world and against the answer the panel gives then; a loop is the list of its rounds
  until the context is done.
\<close>

section \<open>Configuration\<close>

record AgentConfig =
  acHTTPAddr :: string
  acNodeID :: string
  acBootstrapToken :: string
  acNodeToken :: string
  acPanelURL :: string
  acStateDir :: string
  acXrayBin :: string
  acProcessMode :: string
  acLogLevel :: string
  acHeartbeatInterval :: int
  acConfigPollInterval :: int
  acTrafficReportInterval :: int
  acXrayAPIAddress :: string
  acTLSEnabled :: bool

datatype agent_config_error = BadVariable string | NotPositive string | BadProcessMode

definition variable :: "string \<Rightarrow> 'a option \<Rightarrow> agent_config_error + 'a" where
  "variable key v = (case v of None \<Rightarrow> Inl (BadVariable key) | Some x \<Rightarrow> Inr x)"

definition agent_Load :: "(string \<Rightarrow> string) \<Rightarrow> agent_config_error + AgentConfig" where
  "agent_Load env =
     bindE (variable ''LENKER_AGENT_HEARTBEAT_INTERVAL'' (durationFromEnv env ''LENKER_AGENT_HEARTBEAT_INTERVAL'' (30 * second))) (\<lambda>heartbeat.
     bindE (variable ''LENKER_AGENT_CONFIG_POLL_INTERVAL'' (durationFromEnv env ''LENKER_AGENT_CONFIG_POLL_INTERVAL'' (30 * second))) (\<lambda>poll.
     bindE (variable ''LENKER_AGENT_TRAFFIC_REPORT_INTERVAL'' (durationFromEnv env ''LENKER_AGENT_TRAFFIC_REPORT_INTERVAL'' (60 * second))) (\<lambda>traffic.
     bindE (variable ''LENKER_AGENT_TLS_ENABLED'' (boolFromEnv env ''LENKER_AGENT_TLS_ENABLED'' False)) (\<lambda>tls.
     let cfg = \<lparr> acHTTPAddr = stringFromEnv env ''LENKER_AGENT_HTTP_ADDR'' '':8090'',
           acNodeID = TrimSpace (env ''LENKER_AGENT_NODE_ID''), acBootstrapToken = TrimSpace (env ''LENKER_AGENT_BOOTSTRAP_TOKEN''),
           acNodeToken = TrimSpace (env ''LENKER_AGENT_NODE_TOKEN''),
           acPanelURL = trim_right [CHR ''/''] (TrimSpace (env ''LENKER_AGENT_PANEL_URL'')),
           acStateDir = stringFromEnv env ''LENKER_AGENT_STATE_DIR'' ''.lenker-node-agent'',
           acXrayBin = TrimSpace (env ''LENKER_AGENT_XRAY_BIN''),
           acProcessMode = stringFromEnv env ''LENKER_AGENT_RUNTIME_PROCESS_MODE'' ''disabled'',
           acLogLevel = stringFromEnv env ''LENKER_AGENT_LOG_LEVEL'' ''info'', acHeartbeatInterval = heartbeat,
           acConfigPollInterval = poll, acTrafficReportInterval = traffic,
           acXrayAPIAddress = stringFromEnv env ''LENKER_AGENT_XRAY_API_ADDRESS'' ''127.0.0.1:10085'', acTLSEnabled = tls \<rparr> in
     if heartbeat \<le> 0 then Inl (NotPositive ''LENKER_AGENT_HEARTBEAT_INTERVAL'')
     else if poll \<le> 0 then Inl (NotPositive ''LENKER_AGENT_CONFIG_POLL_INTERVAL'')
     else if traffic \<le> 0 then Inl (NotPositive ''LENKER_AGENT_TRAFFIC_REPORT_INTERVAL'')
     else if acProcessMode cfg \<noteq> ProcessModeDisabled \<and> acProcessMode cfg \<noteq> ProcessModeLocal then Inl BadProcessMode
     else Inr cfg))))"

section \<open>HTTP endpoints\<close>

definition agent_status_json :: "Status \<Rightarrow> any" where
  "agent_status_json st = AObj (omit_empty [(''node_id'', AStr (stNodeID st))]
     @ [(''status'', AStr (stStatus st)), (''registered'', ABool (stRegistered st))] @ omit_empty [(''panel_url'', AStr (stPanelURL st))]
     @ [(''last_heartbeat_at'', AStr (RFC3339Nano (stLastHeartbeatAt st))), (''xray_dry_run_enabled'', ABool (stDryRunEnabled st)),
        (''runtime_mode'', AStr (stRuntimeMode st)), (''runtime_process_mode'', AStr (stProcessMode st)),
        (''runtime_process_state'', AStr (stProcessState st)), (''runtime_desired_state'', AStr (stDesiredState st)),
        (''runtime_state'', AStr (stRuntimeState st))]
     @ omit_empty [(''last_dry_run_status'', AStr (stLastDryRun st)), (''last_runtime_attempt_status'', AStr (stLastAttempt st))]
     @ [(''last_runtime_prepared_revision'', AInt (stLastPrepared st)),
        (''last_runtime_transition_at'', AStr (RFC3339Nano (stLastTransitionAt st)))]
     @ omit_empty [(''last_runtime_error'', AStr (stLastRuntimeError st))]
     @ [(''active_revision'', AInt (stActiveRevision st)), (''last_applied_revision'', AInt (stLastApplied st)),
        (''last_rollback_revision'', AInt (stLastRollback st)), (''staged_revision'', AInt (stStaged st)),
        (''rollback_candidate_revision'', AInt (stRollbackCandidate st))]
     @ omit_empty [(''last_validation_status'', AStr (stLastValidation st)), (''last_validation_error'', AStr (stLastValidationError st))]
     @ [(''last_validation_at'', AStr (RFC3339Nano (stLastValidationAt st)))]
     @ omit_empty [(''config_artifact_path'', AStr (stConfigPath st)), (''metadata_artifact_path'', AStr (stMetadataPath st))]
     @ (if stEvents st = [] then [] else [(''runtime_events'', AArr (map event_json (stEvents st)))]))"

definition agent_status_times :: "Status \<Rightarrow> instant list" where
  "agent_status_times st = [stLastHeartbeatAt st, stLastTransitionAt st, stLastValidationAt st] @ map reAt (stEvents st)"

definition agent_Healthz :: response where
  "agent_Healthz = WriteJSON 200 (AObj [(''status'', AStr ''ok'')])"

definition agent_Status :: "Service option \<Rightarrow> response" where
  "agent_Status service = (case service of
     None \<Rightarrow> WriteError 500 ''internal_error'' ''agent service is not configured''
   | Some sv \<Rightarrow> WriteTimed 200 (agent_status_times (svStatus sv)) (agent_status_json (svStatus sv)))"

text \<open>The routes; other paths are \<open>http.ServeMux\<close>'s 404.\<close>

definition agent_router :: "Service option \<Rightarrow> string \<Rightarrow> string \<Rightarrow> response option" where
  "agent_router service verb path = (if verb \<noteq> ''GET'' then None else if path = ''/healthz'' then Some agent_Healthz
     else if path = ''/status'' then Some (agent_Status service) else None)"

section \<open>The rounds of the loops\<close>

definition heartbeat_round :: "agent_world \<Rightarrow> PanelClient \<Rightarrow> Service \<Rightarrow> Service" where
  "heartbeat_round w c sv = (let now = wNow w in case BuildHeartbeatPayload w now sv of
     Inl e \<Rightarrow> sv
   | Inr p \<Rightarrow> (case SendHeartbeat c (hpNodeID p) (idNodeToken (svIdentity sv)) p of
       Some e \<Rightarrow> sv
     | None \<Rightarrow> MarkHeartbeatSent now sv))"

definition polling_client :: "PanelClient \<Rightarrow> Identity \<Rightarrow> panel_client" where
  "polling_client c ident = \<lparr> pcFetch = FetchPendingConfigRevision c (idNodeID ident) (idNodeToken ident),
     pcReport = ReportRevision c (idNodeID ident) (idNodeToken ident) \<rparr>"

definition poll_round :: "agent_world \<Rightarrow> PanelClient \<Rightarrow> Service \<Rightarrow> Service" where
  "poll_round w c sv = fst (snd (PollPendingConfigRevision w (Some (polling_client c (svIdentity sv))) (wNow w) sv))"

definition runHeartbeatLoop :: "(agent_world \<times> PanelClient) list \<Rightarrow> Service \<Rightarrow> Service" where
  "runHeartbeatLoop rounds sv = foldl (\<lambda>sv (w, c). heartbeat_round w c sv) sv rounds"

definition runConfigPollingLoop :: "(agent_world \<times> PanelClient) list \<Rightarrow> Service \<Rightarrow> Service" where
  "runConfigPollingLoop rounds sv = foldl (\<lambda>sv (w, c). poll_round w c sv) sv rounds"

definition loop_interval :: "int \<Rightarrow> int \<Rightarrow> int" where
  "loop_interval interval fallback = (if interval \<le> 0 then fallback else interval)"

text \<open>
  A round of the traffic loop: what the collector read and what came of the report.  Records that are not accepted are
  dropped: nothing of them is kept for the next round.
\<close>

definition traffic_collector :: "AgentConfig \<Rightarrow> XrayCollector option" where
  "traffic_collector cfg = (if acProcessMode cfg = ProcessModeLocal \<and> acXrayBin cfg \<noteq> []
     then Some \<lparr> xcXrayBin = acXrayBin cfg, xcAPIAddress = acXrayAPIAddress cfg \<rparr> else None)"

definition NoopCollect :: "string + Record list" where
  "NoopCollect = Inr []"

definition traffic_round ::
    "(Record list \<Rightarrow> Record list) \<Rightarrow> (string \<Rightarrow> string list \<Rightarrow> string + string) \<Rightarrow> AgentConfig \<Rightarrow> PanelClient \<Rightarrow>
     (traffic_report_error + ReportResult option) option" where
  "traffic_round order run cfg c = (case (case traffic_collector cfg of None \<Rightarrow> NoopCollect | Some x \<Rightarrow> Collect order run x) of
     Inl e \<Rightarrow> None
   | Inr records \<Rightarrow> if records = [] then None else Some (Report_traffic c (acNodeToken cfg) records))"

definition runTrafficReportLoop ::
    "AgentConfig \<Rightarrow> ((Record list \<Rightarrow> Record list) \<times> (string \<Rightarrow> string list \<Rightarrow> string + string) \<times> PanelClient) list \<Rightarrow>
     (traffic_report_error + ReportResult option) list" where
  "runTrafficReportLoop cfg rounds = List.map_filter (\<lambda>(order, run, c). traffic_round order run cfg c) rounds"

section \<open>Starting and stopping\<close>

definition app_identity :: "AgentConfig \<Rightarrow> Identity" where
  "app_identity cfg = \<lparr> idNodeID = acNodeID cfg, idBootstrapToken = acBootstrapToken cfg, idNodeToken = acNodeToken cfg,
     idPanelURL = acPanelURL cfg, idStateDir = acStateDir cfg, idXrayBin = acXrayBin cfg, idProcessMode = acProcessMode cfg \<rparr>"

definition app_options :: "AgentConfig \<Rightarrow> service_option list" where
  "app_options cfg = (if acProcessMode cfg = ProcessModeLocal \<and> acXrayBin cfg \<noteq> []
     then [WithRuntimeProcessRunner XraySupervisorRunner True] else [])"

definition app_service :: "agent_world \<Rightarrow> AgentConfig \<Rightarrow> disk \<Rightarrow> Service" where
  "app_service w cfg d = NewService w (app_identity cfg) (app_options cfg) d"

definition sync_enabled :: "AgentConfig \<Rightarrow> bool" where
  "sync_enabled cfg = (acPanelURL cfg \<noteq> [] \<and> acNodeID cfg \<noteq> [] \<and> acNodeToken cfg \<noteq> [])"

text \<open>The rounds of the heartbeat and polling loops, in the order in which they take the service's lock.\<close>

datatype sync_round = HeartbeatRound agent_world PanelClient | PollRound agent_world PanelClient

fun sync_step :: "Service \<Rightarrow> sync_round \<Rightarrow> Service" where
  "sync_step sv (HeartbeatRound w c) = heartbeat_round w c sv"
| "sync_step sv (PollRound w c) = poll_round w c sv"

text \<open>How a run of the agent ends: the signal, or what the HTTP server returned, and then the result of its shutdown.\<close>

datatype server_end = Signalled | ServerClosed | ServerFailed string

definition agent_Run :: "agent_world \<Rightarrow> AgentConfig \<Rightarrow> disk \<Rightarrow> sync_round list \<Rightarrow> server_end \<Rightarrow> string option \<Rightarrow> string option \<times> Service" where
  "agent_Run w cfg d rounds stop shutdown =
     (case stop of ServerFailed e \<Rightarrow> Some e | _ \<Rightarrow> shutdown,
      foldl sync_step (app_service w cfg d) (if sync_enabled cfg then rounds else []))"

datatype log_level = Debug | Info | Warn | Error

definition newLogger :: "AgentConfig \<Rightarrow> log_level" where
  "newLogger cfg = (if acLogLevel cfg = ''error'' then Error else if acLogLevel cfg = ''warn'' then Warn
     else if acLogLevel cfg = ''debug'' then Debug else Info)"

section \<open>The text of a failed dry run\<close>

text \<open>
  \<open>strings.ToLower\<close> (\<open>lower_rune\<close>) and \<open>unicode.IsLetter\<close> or \<open>IsDigit\<close> of a rune: for ASCII as written here; beyond ASCII the tables of
  package unicode are the parameters \<open>lower\<close> and \<open>word\<close>.
\<close>

definition word_rune :: "(string \<Rightarrow> bool) \<Rightarrow> string \<Rightarrow> bool" where
  "word_rune word r = (case r of [c] \<Rightarrow> is_digit c \<or> 97 \<le> byte c \<and> byte c \<le> 122 \<or> 65 \<le> byte c \<and> byte c \<le> 90 | _ \<Rightarrow> word r)"

fun reason_text :: "(string \<Rightarrow> bool) \<Rightarrow> bool \<Rightarrow> string list \<Rightarrow> string" where
  "reason_text word mark [] = []"
| "reason_text word mark (r # rs) = (if word_rune word r then r @ reason_text word False rs
     else if mark then reason_text word True rs else CHR ''_'' # reason_text word True rs)"

definition compactXrayDryRunReason :: "(string \<Rightarrow> string) \<Rightarrow> (string \<Rightarrow> bool) \<Rightarrow> string \<Rightarrow> string" where
  "compactXrayDryRunReason lower word output =
     (let lowered = map (lower_rune lower) (runes (TrimSpace output));
          full = trim_right [CHR ''_''] (dropWhile (\<lambda>c. c = CHR ''_'') (reason_text word False lowered));
          short = (if 96 < length full then trim_right [CHR ''_''] (take 96 full) else full) in
      if lowered = [] \<or> full = [] \<or> short = [] then ''command_failed'' else short)"

text \<open>How the command ends, and the outcome \<open>CommandXrayDryRunValidator\<close> makes of it.\<close>

datatype command_end = CmdOk | CmdDeadline | CmdNotFound | CmdNotPermitted | CmdFailed string

fun dry_run_of :: "(string \<Rightarrow> string) \<Rightarrow> (string \<Rightarrow> bool) \<Rightarrow> command_end \<Rightarrow> dry_run_outcome" where
  "dry_run_of lower word CmdOk = DryRunOk"
| "dry_run_of lower word CmdDeadline = DryRunTimeout"
| "dry_run_of lower word CmdNotFound = DryRunBinaryMissing"
| "dry_run_of lower word CmdNotPermitted = DryRunNotExecutable"
| "dry_run_of lower word (CmdFailed output) = DryRunExit (compactXrayDryRunReason lower word output)"

section \<open>Lemmas\<close>

lemma agent_Load_positive:
  "agent_Load env = Inr cfg \<Longrightarrow> 0 < acHeartbeatInterval cfg \<and> 0 < acConfigPollInterval cfg \<and> 0 < acTrafficReportInterval cfg \<and>
     acProcessMode cfg \<in> {ProcessModeDisabled, ProcessModeLocal}"
  by (auto simp: agent_Load_def variable_def Let_def split: option.splits if_splits sum.splits)

lemma trim_right_length: "length (trim_right cs s) \<le> length s"
  by (metis trim_right_def length_dropWhile_le length_rev)

text \<open>The reason of a failed dry run is never empty and has at most 96 bytes.\<close>

lemma compact_reason_length:
  "compactXrayDryRunReason lower word output \<noteq> [] \<and> length (compactXrayDryRunReason lower word output) \<le> 96"
proof -
  have "length (trim_right cs (take 96 s)) \<le> 96" for cs s using trim_right_length[of cs "take 96 s"] by simp
  then show ?thesis by (auto simp: compactXrayDryRunReason_def Let_def)
qed


text \<open>Every service a run of the agent passes through is reachable, so the invariant of the agent holds in it.\<close>

lemma sync_step_reachable: "agent_reachable sv \<Longrightarrow> agent_reachable (sync_step sv r)"
proof (cases r)
  case (HeartbeatRound w c)
  then show "agent_reachable sv \<Longrightarrow> ?thesis"
    by (auto simp: heartbeat_round_def Let_def split: sum.splits option.splits intro: agent_reachable.step heartbeat)
next
  case (PollRound w c)
  then show "agent_reachable sv \<Longrightarrow> ?thesis" by (auto simp: poll_round_def intro: agent_reachable.step poll)
qed

lemma agent_Run_reachable: "agent_reachable (snd (agent_Run w cfg d rounds stop shutdown))"
proof -
  have "agent_reachable sv \<Longrightarrow> agent_reachable (foldl sync_step sv rs)" for sv rs
    by (induction rs arbitrary: sv) (auto intro: sync_step_reachable)
  moreover have "agent_reachable (app_service w cfg d)" unfolding app_service_def by (rule start)
  ultimately show ?thesis by (simp add: agent_Run_def)
qed

end
