(* ===== verification/RestoredAgent.thy ===== *)
theory RestoredAgent
  imports RoundTripWitness AgentApp
begin

text \<open>
  An agent that lost its \<open>state.json\<close> comes back from the metadata of its active revision, with the validation status
  \<open>restored\<close>.  The panel's check of heartbeats does not know that status: the node stays silent until its next deployment.
\<close>

section \<open>Heartbeats with the restored status\<close>

definition heartbeat_keys :: "string list" where
  "heartbeat_keys = [''node_id'', ''agent_version'', ''status'', ''active_revision'', ''last_runtime_transition_at'', ''last_validation_at'',
     ''sent_at'', ''runtime_mode'', ''runtime_process_mode'', ''runtime_process_state'', ''runtime_desired_state'', ''runtime_state'', ''xray_pid'',
     ''last_dry_run_status'', ''last_runtime_attempt_status'', ''last_runtime_prepared_revision'', ''last_runtime_error'',
     ''last_validation_status'', ''last_validation_error'', ''last_applied_revision'', ''active_config_path'', ''runtime_events'']"

lemma heartbeat_struct: "struct_keys heartbeat_keys"
  by (simp add: struct_keys_def heartbeat_keys_def byte_def)

lemma heartbeat_validation_wire:
  assumes "hpLastValidation p = ''restored''"
  shows "dec_str (wire_obj (heartbeat_json p)) ''last_validation_status'' = Some ''restored''"
proof -
  let ?A = "[(''node_id'', AStr (hpNodeID p)), (''agent_version'', AStr (hpAgentVersion p)), (''status'', AStr (hpStatus p)),
       (''active_revision'', AInt (hpActiveRevision p)), (''last_runtime_transition_at'', AStr (RFC3339Nano (hpLastRuntimeAt p))),
       (''last_validation_at'', AStr (RFC3339Nano (hpLastValidationAt p))), (''sent_at'', AStr (RFC3339Nano (hpSentAt p)))]"
  let ?B = "[(''runtime_mode'', AStr (hpRuntimeMode p)), (''runtime_process_mode'', AStr (hpProcessMode p)),
       (''runtime_process_state'', AStr (hpProcessState p)), (''runtime_desired_state'', AStr (hpDesiredState p)),
       (''runtime_state'', AStr (hpRuntimeState p)), (''xray_pid'', AInt (hpXrayPID p)), (''last_dry_run_status'', AStr (hpLastDryRun p)),
       (''last_runtime_attempt_status'', AStr (hpLastAttempt p)), (''last_runtime_prepared_revision'', AInt (hpLastPrepared p)),
       (''last_runtime_error'', AStr (hpLastRuntimeError p)), (''last_validation_status'', AStr (hpLastValidation p)),
       (''last_validation_error'', AStr (hpLastValidationError p)), (''last_applied_revision'', AInt (hpLastApplied p)),
       (''active_config_path'', AStr (hpActiveConfigPath p))]"
  let ?E = "[(''runtime_events'', AArr (map event_json (hpEvents p)))]"
  let ?C = "if hpEvents p = [] then [] else ?E"
  let ?m = "?A @ omit_empty ?B @ ?C"
  have m: "heartbeat_json p = ?m" by (simp only: heartbeat_json_def)
  have "map fst (?A @ ?B @ ?E) = heartbeat_keys" by (simp add: heartbeat_keys_def)
  then have st: "struct_keys (map fst ?m)" using struct_append [of ?A ?B ?E "hpEvents p = []"] heartbeat_struct by (simp only: )
  have dB: "distinct (map fst ?B)" by simp
  note h = holds_parts(2) [OF st dB]
  have "dec_str (wire_obj ?m) ''last_validation_status'' = Some (hpLastValidation p)"
    by (rule dec_str_wire [OF st struct_lower [OF heartbeat_struct] h]; simp add: heartbeat_keys_def assms utf8_valid_ascii)
  then show ?thesis by (simp only: m assms)
qed

lemma decoded_validation:
  assumes "decode_heartbeat m = Some q" and "dec_str m ''last_validation_status'' = Some x"
  shows "hpLastValidation q = x"
  using assms unfolding decode_heartbeat_def
  by (simp only: split: option.splits list.splits prod.splits) (auto simp: all_some_iff simp del: all_some.simps)

lemma restored_trim: "TrimSpace ''restored'' = ''restored''"
  by code_simp

lemma HandleHeartbeat_refused:
  "bearerToken (hqAuthorization r) = Some token \<Longrightarrow> body_obj r = Some m \<Longrightarrow> decode_heartbeat m = Some q \<Longrightarrow>
    heartbeat_error (TrimSpace (path_value ''id'' r)) q = Some a \<Longrightarrow> \<exists>events. HandleHeartbeat w r d = (a, d, events)"
  by (simp add: HandleHeartbeat_def)

lemma restored_heartbeat_refused:
  assumes "hpLastValidation p = ''restored''" and "hqBody r = Some (wire (AObj (heartbeat_json p)))"
  shows "\<exists>a events. HandleHeartbeat w r d = (a, d, events) \<and> rsStatus a \<noteq> 200"
proof (cases "bearerToken (hqAuthorization r)")
  case None
  then show ?thesis by (simp add: HandleHeartbeat_def WriteUnauthorized_def WriteError_def)
next
  case (Some token)
  have body: "body_obj r = Some (wire_obj (heartbeat_json p))" using assms(2) by (simp add: body_obj_def)
  show ?thesis
  proof (cases "decode_heartbeat (wire_obj (heartbeat_json p))")
    case None
    then show ?thesis using Some body by (simp add: HandleHeartbeat_def WriteBadRequest_def WriteError_def)
  next
    case q: (Some q)
    have "hpLastValidation q = ''restored''" by (rule decoded_validation [OF q heartbeat_validation_wire [OF assms(1)]])
    then have "\<exists>a. heartbeat_error i q = Some a \<and> rsStatus a \<noteq> 200" for i
      by (simp add: heartbeat_error_def WriteBadRequest_def WriteError_def restored_trim)
    then show ?thesis using Some body q by (metis HandleHeartbeat_refused)
  qed
qed

lemma restored_heartbeat_lost:
  assumes "stLastValidation (svStatus sv) = ''restored''" and "connected c w d"
  shows "heartbeat_round aw c sv = sv"
proof (cases "BuildHeartbeatPayload aw (wNow aw) sv")
  case (Inr p)
  then have p: "hpLastValidation p = ''restored''" using assms(1) by (auto simp: BuildHeartbeatPayload_def Let_def split: if_splits)
  let ?q = "\<lparr> wqMethod = ''POST'', wqURL = node_url c (hpNodeID p) ''/heartbeat'', wqAuthorization = ''Bearer '' @ idNodeToken (svIdentity sv),
      wqBody = Some (wire (AObj (heartbeat_json p))) \<rparr>"
  have u: "url_segments (base_url c) (wqURL ?q) = Some [''api'', ''v1'', ''nodes'', hpNodeID p, ''heartbeat'']"
    using segments_node_url(1) [of "''heartbeat''"] by (simp add: plain_segment_def)
  have body: "hqBody (node_request [(''id'', hpNodeID p)] ?q) = Some (wire (AObj (heartbeat_json p)))"
    by (simp add: node_request_def del: wire.simps)
  obtain a events where "HandleHeartbeat w (node_request [(''id'', hpNodeID p)] ?q) d = (a, d, events)" "rsStatus a \<noteq> 200"
    using restored_heartbeat_refused [OF p, of "node_request [(''id'', hpNodeID p)] ?q" w d] body by blast
  then have "wrStatus (fst (serve_node (base_url c) w ?q d)) \<noteq> 200"
    unfolding serve_node_def u by (simp add: wire_answer_def)
  then have "SendHeartbeat c (hpNodeID p) (idNodeToken (svIdentity sv)) p \<noteq> None"
    using assms(2) by (simp add: SendHeartbeat_def connected_def del: wire.simps split: option.split)
  then show ?thesis using Inr by (auto simp: heartbeat_round_def Let_def)
qed (simp add: heartbeat_round_def)

section \<open>The restart\<close>

lemma metadata_restores:
  fixes a rv dir
  defines "m \<equiv> through_json_obj (revision_metadata rv a)"
  assumes "small_int (crRevisionNumber rv)" and "clean_text (caConfigPath a)" and "caConfigPath a \<noteq> []"
  shows "restored_revision m = Some (crRevisionNumber rv)" and "restored_config_path m dir = caConfigPath a"
    and "restored_metadata_path m dir = filepath_Join dir [''active'', ''metadata.json'']" and "stringFromState m ''last_validation_status'' = []"
proof -
  have i: "idx m k = through_json (idx (revision_metadata rv a) k)" for k
    unfolding m_def by (rule idx_through_json) (use ascii_keys_valid [OF metadata_keys] in blast)
  have f: "idx (revision_metadata rv a) ''revision_number'' = AInt (crRevisionNumber rv)"
    "idx (revision_metadata rv a) ''active_config_path'' = AStr (caConfigPath a)"
    "idx (revision_metadata rv a) ''active_revision'' = ANil" "idx (revision_metadata rv a) ''config_artifact_path'' = ANil"
    "idx (revision_metadata rv a) ''metadata_artifact_path'' = ANil" "idx (revision_metadata rv a) ''last_validation_status'' = ANil"
    by (simp_all add: revision_metadata_def)
  have "agent_numberAsInt (idx m ''revision_number'') = Some (crRevisionNumber rv)"
    by (rule read_stored_number) (simp_all only: i f assms(2-))
  then show "restored_revision m = Some (crRevisionNumber rv)" by (simp add: restored_revision_def i f)
  have "stringFromState m ''active_config_path'' = caConfigPath a" by (rule read_stored_string; simp only: i f assms(2-))
  then show "restored_config_path m dir = caConfigPath a" using assms(4) by (simp add: restored_config_path_def stringFromState_def i f)
  show "restored_metadata_path m dir = filepath_Join dir [''active'', ''metadata.json'']" "stringFromState m ''last_validation_status'' = []"
    by (simp_all add: restored_metadata_path_def stringFromState_def i f)
qed

lemma restored_from_metadata:
  assumes "wReadFails w = (\<lambda>_. False)" and "svDisk sv (filepath_Join dir [''active'', ''metadata.json'']) = Some (JsonDoc (AObj meta))"
    and "restored_revision (through_json_obj meta) = Some n" and "0 < n"
    and "svDisk sv (restored_config_path (through_json_obj meta) dir) = Some (JsonDoc x)"
    and "restored_metadata_path (through_json_obj meta) dir = filepath_Join dir [''active'', ''metadata.json'']"
    and "stringFromState (through_json_obj meta) ''last_validation_status'' = []"
  shows "stLastValidation (svStatus (restoreRuntimeStateFromActiveMetadata w dir sv)) = ''restored''
    \<and> stActiveRevision (svStatus (restoreRuntimeStateFromActiveMetadata w dir sv)) = n"
proof -
  have "applyRuntimeStateMap w (through_json_obj meta) dir sv = (True, on_status (restored_status (through_json_obj meta) dir n) sv)"
    using assms by (simp add: applyRuntimeStateMap_def validJSONFile_def read_file_def)
  then show ?thesis using assms
    by (simp add: restoreRuntimeStateFromActiveMetadata_def Let_def restored_status_def AppendRuntimeEvent_def)
qed

text \<open>
  C36 An agent that applied a revision and restarts on a disk without its \<open>state.json\<close> comes back with that revision as its
  active one, but every heartbeat it then sends is refused: a round of the heartbeat loop leaves it as it is, against any
  state of the panel.
\<close>

theorem restored_agent_is_silent:
  assumes ap: "ApplyConfigRevisionWithContext w rv sv = (Inr (), sv')" and dir: "has_prefix (state_dir sv) ''/''" "ascii (state_dir sv)"
    and read: "wReadFails w = (\<lambda>_. False)" "wReadFails w2 = (\<lambda>_. False)"
    and n: "small_int (crRevisionNumber rv)" "0 < crRevisionNumber rv"
    and s: "s = NewService w2 (svIdentity sv) [] ((svDisk sv')(filepath_Join (state_dir sv) [''state.json''] := None))"
    and c: "connected c pw d"
  shows "stActiveRevision (svStatus s) = crRevisionNumber rv \<and> heartbeat_round aw c s = s"
proof -
  let ?dir = "state_dir sv"
  let ?fresh = "fresh_service (svIdentity sv) ((svDisk sv')(filepath_Join ?dir [''state.json''] := None))"
  obtain m config a where d: "?dir \<noteq> []" "a = artifact_paths ?dir (crRevisionNumber rv)"
      "svDisk sv' (caConfigPath a) = Some (JsonDoc (AObj config))" "svDisk sv' (caMetadataPath a) = Some (JsonDoc (AObj (revision_metadata rv a)))"
    by (rule applied_on_disk [OF ap])
  have p: "caConfigPath a = filepath_Join ?dir [''active'', ''config.json'']" "caMetadataPath a = filepath_Join ?dir [''active'', ''metadata.json'']"
    by (simp_all add: d(2) artifact_paths_def)
  have "clean_text (caConfigPath a)" "caConfigPath a \<noteq> []" using state_paths [OF dir] p by (simp_all add: join_nonempty)
  note M = metadata_restores [OF n(1) this]
  have fd: "state_dir ?fresh = ?dir" by (simp add: fresh_service_def state_dir_def)
  have fr: "svDisk ?fresh (filepath_Join ?dir [''state.json'']) = None"
      "svDisk ?fresh (filepath_Join ?dir [''active'', ''metadata.json'']) = Some (JsonDoc (AObj (revision_metadata rv a)))"
      "svDisk ?fresh (caConfigPath a) = Some (JsonDoc (AObj config))"
    using d p by (simp_all add: fresh_frame filepath_Join_inj)
  have "RestoreRuntimeState w2 ?fresh = restoreRuntimeStateFromActiveMetadata w2 ?dir ?fresh"
    using d(1) read(2) fd fr(1) by (simp add: RestoreRuntimeState_def Let_def)
  then have "stLastValidation (svStatus s) = ''restored'' \<and> stActiveRevision (svStatus s) = crRevisionNumber rv"
    using restored_from_metadata [OF read(2) fr(2) M(1) n(2) _ M(3,4)] fr(3) M(2) by (simp add: s NewService_fresh)
  then show ?thesis using restored_heartbeat_lost [OF _ c] by blast
qed

lemma restored_agent_is_silent_witness:
  "\<exists>sv' s. ApplyConfigRevisionWithContext world0 revision0 plain_service = (Inr (), sv')
    \<and> s = NewService world0 ident0 [] ((svDisk sv')(filepath_Join (state_dir plain_service) [''state.json''] := None))
    \<and> stActiveRevision (svStatus s) = 2 \<and> heartbeat_round world0 client_a s = s"
proof -
  obtain sv' where a: "ApplyConfigRevisionWithContext world0 revision0 plain_service = (Inr (), sv')" using applied_example by blast
  have r: "wReadFails world0 = (\<lambda>_. False)" by (simp add: world0_def)
  have p: "has_prefix (state_dir plain_service) ''/''" "ascii (state_dir plain_service)" by (simp_all add: plain_service_facts has_prefix_def ascii_def)
  have n: "crRevisionNumber revision0 = 2" by (simp add: revision0_def delivered_def Let_def)
  show ?thesis
    using restored_agent_is_silent [OF a p r r _ _ refl connected_a, of world0] a n
    by (auto simp: plain_service_facts small_int_def)
qed

end
