(* ===== verification/SubsProps.thy ===== *)
theory SubsProps
  imports SubsTokens NodesProps
begin

text \<open>
  What the operations on subscriptions do to the tables: effects of every statement, the contract of a table of one-time
  secrets (access tokens and handoff invites are two instances), the invariant of the store, and the decoding of an access URI.
\<close>

section \<open>Tables of secrets\<close>

text \<open>Rows with an owner, a hash and a state; at most one row of an owner is live.  A spent hash has no live row and is taken.\<close>

definition one_live :: "('r \<Rightarrow> uuid) \<Rightarrow> ('r \<Rightarrow> uuid) \<Rightarrow> ('r \<Rightarrow> bool) \<Rightarrow> 'r list \<Rightarrow> bool" where
  "one_live ident owner live rows \<longleftrightarrow> (\<forall>a \<in> set rows. \<forall>b \<in> set rows. live a \<longrightarrow> live b \<longrightarrow> owner a = owner b \<longrightarrow> ident a = ident b)"

definition secrets_ok :: "('r \<Rightarrow> uuid) \<Rightarrow> ('r \<Rightarrow> uuid) \<Rightarrow> ('r \<Rightarrow> string) \<Rightarrow> ('r \<Rightarrow> bool) \<Rightarrow> 'r list \<Rightarrow> bool" where
  "secrets_ok ident owner hash live rows \<longleftrightarrow> distinct (map ident rows) \<and> distinct (map hash rows) \<and> one_live ident owner live rows"

definition spent :: "('r \<Rightarrow> string) \<Rightarrow> ('r \<Rightarrow> bool) \<Rightarrow> string \<Rightarrow> 'r list \<Rightarrow> bool" where
  "spent hash live h rows \<longleftrightarrow> h \<in> hash ` set rows \<and> (\<forall>r \<in> set rows. hash r = h \<longrightarrow> \<not> live r)"

lemma set_upd_cases:
  assumes "x \<in> set (upd_where P f rows)"
  obtains (kept) "x \<in> set rows" "\<not> P x" | (changed) y where "y \<in> set rows" "P y" "x = f y"
  using assms by (auto simp: set_upd_where split: if_split_asm)

text \<open>What ends a row keeps its identity.\<close>

locale token_table =
  fixes ident :: "'r \<Rightarrow> uuid" and owner :: "'r \<Rightarrow> uuid" and hash :: "'r \<Rightarrow> string" and live :: "'r \<Rightarrow> bool" and finish :: "'r \<Rightarrow> 'r"
  assumes finish_keeps: "ident (finish r) = ident r" "owner (finish r) = owner r" "hash (finish r) = hash r"
    and finish_ends: "\<not> live (finish r)"
begin

lemma finished_maps: "map ident (upd_where P finish rows) = map ident rows" "map hash (upd_where P finish rows) = map hash rows"
  by (rule map_key_upd_where; simp add: finish_keeps)+

lemma finished_live:
  assumes "r \<in> set (upd_where P finish rows)" and "live r"
  shows "r \<in> set rows \<and> \<not> P r"
  using assms by (cases rule: set_upd_cases) (auto simp: finish_ends)

lemma secrets_finished: "secrets_ok ident owner hash live rows \<Longrightarrow> secrets_ok ident owner hash live (upd_where P finish rows)"
  unfolding secrets_ok_def one_live_def finished_maps by (meson finished_live)

lemma secrets_issue:
  assumes "secrets_ok ident owner hash live rows" and "rows' = upd_where (\<lambda>r. owner r = u \<and> live r) finish rows"
    and "distinct (map ident (rows' @ [r]))" and "distinct (map hash (rows' @ [r]))" and "owner r = u"
  shows "secrets_ok ident owner hash live (rows' @ [r])"
proof -
  have "one_live ident owner live rows'" using secrets_finished [OF assms(1)] assms(2) by (simp add: secrets_ok_def)
  moreover have "owner x \<noteq> u" if "x \<in> set rows'" "live x" for x
    using finished_live [of x "\<lambda>r. owner r = u \<and> live r" rows] that assms(2) by blast
  ultimately have "one_live ident owner live (rows' @ [r])" using assms(5) unfolding one_live_def by fastforce
  then show ?thesis using assms(3,4) by (simp add: secrets_ok_def)
qed

text \<open>After an issue, what is live for the owner is the new row.\<close>

lemma issued_only:
  assumes "x \<in> set (upd_where (\<lambda>r. owner r = u \<and> live r) finish rows @ [r])" and "owner x = u" and "live x"
  shows "x = r"
  using assms finished_live [of x "\<lambda>r. owner r = u \<and> live r" rows] by auto

text \<open>A spent secret stays spent.\<close>

lemma spent_finished:
  assumes "spent hash live h rows"
  shows "spent hash live h (upd_where P finish rows)"
proof -
  have "hash ` set (upd_where P finish rows) = hash ` set rows" by (metis finished_maps(2) list.set_map)
  then show ?thesis using assms finished_live [of _ P rows] unfolding spent_def by metis
qed

lemma spends:
  assumes "secrets_ok ident owner hash live rows" and "r \<in> set rows"
  shows "spent hash live (hash r) (upd_where (\<lambda>x. ident x = ident r) finish rows)"
proof -
  have "hash ` set (upd_where (\<lambda>x. ident x = ident r) finish rows) = hash ` set rows" by (metis finished_maps(2) list.set_map)
  moreover have "\<not> live x" if "x \<in> set (upd_where (\<lambda>x. ident x = ident r) finish rows)" "hash x = hash r" for x
  proof
    assume "live x"
    then have x: "x \<in> set rows" "ident x \<noteq> ident r" using finished_live [OF that(1)] by simp_all
    have "x = r" using distinct_key [OF _ x(1) assms(2) that(2)] assms(1) by (simp add: secrets_ok_def)
    then show False using x(2) by simp
  qed
  ultimately show ?thesis using assms(2) by (simp add: spent_def)
qed

end

lemma spent_append: "spent hash live h rows \<Longrightarrow> distinct (map hash (rows @ [r])) \<Longrightarrow> spent hash live h (rows @ [r])"
  by (auto simp: spent_def)

definition access_live :: "access_row \<Rightarrow> bool" where "access_live a \<longleftrightarrow> atStatus a = ''active''"
definition invite_live :: "invite_row \<Rightarrow> bool" where "invite_live h \<longleftrightarrow> hiStatus h = ''active''"

interpretation access_table: token_table atID atSubscriptionID atHash access_live "revoke_access_row w" for w
  by unfold_locales (simp_all add: revoke_access_row_def access_live_def)

interpretation invite_table: token_table hiID hiSubscriptionID hiHash invite_live "revoke_invite_row w" for w
  by unfold_locales (simp_all add: revoke_invite_row_def invite_live_def)

interpretation claim_table: token_table hiID hiSubscriptionID hiHash invite_live "claim_invite_row w" for w
  by unfold_locales (simp_all add: claim_invite_row_def invite_live_def)

section \<open>Effects of the statements\<close>

lemma first_row_in: "first_row rows = Some r \<Longrightarrow> r \<in> set rows"
  by (auto simp: first_row_def split: list.splits)

lemma put_subscriptions_Inr:
  "put_subscriptions changed rows d = Inr d' \<longleftrightarrow> d' = d\<lparr> dbSubscriptions := rows \<rparr> \<and> distinct (map suID rows)
     \<and> (\<forall>s \<in> set changed. subscription_ints_ok s \<and> subscription_row_ok s \<and> suUserID s \<in> urID ` set (dbUsers d)
          \<and> suPlanID s \<in> plID ` set (dbPlans d))"
  unfolding put_subscriptions_def bindE_Inr constraints_iff list_all_iff by auto

lemma put_access_Inr:
  "put_access changed rows d = Inr d' \<longleftrightarrow> d' = d\<lparr> dbAccess := rows \<rparr> \<and> distinct (map atID rows) \<and> distinct (map atHash rows)
     \<and> (\<forall>a \<in> set changed. access_row_ok a \<and> atSubscriptionID a \<in> suID ` set (dbSubscriptions d))"
  unfolding put_access_def bindE_Inr constraints_iff list_all_iff by auto

lemma put_invites_Inr:
  "put_invites changed rows d = Inr d' \<longleftrightarrow> d' = d\<lparr> dbInvites := rows \<rparr> \<and> distinct (map hiID rows) \<and> distinct (map hiHash rows)
     \<and> (\<forall>h \<in> set changed. invite_row_ok h \<and> hiSubscriptionID h \<in> suID ` set (dbSubscriptions d))"
  unfolding put_invites_def bindE_Inr constraints_iff list_all_iff by auto

lemma active_live: "active_access u = (\<lambda>a. atSubscriptionID a = u \<and> access_live a)" "active_invite u = (\<lambda>h. hiSubscriptionID h = u \<and> invite_live h)"
  by (auto simp: active_access_def access_live_def active_invite_def invite_live_def)

abbreviation "revoked_access w u d \<equiv> upd_where (\<lambda>a. atSubscriptionID a = u \<and> access_live a) (revoke_access_row w) (dbAccess d)"
abbreviation "revoked_invites w u d \<equiv> upd_where (\<lambda>h. hiSubscriptionID h = u \<and> invite_live h) (revoke_invite_row w) (dbInvites d)"

lemma revoke_access_Inr: "revoke_access w u d = Inr d' \<Longrightarrow> d' = d\<lparr> dbAccess := revoked_access w u d \<rparr>"
  by (auto simp: revoke_access_def stmt_simps put_access_Inr active_live)

lemma revoke_invites_Inr: "revoke_invites w u d = Inr d' \<Longrightarrow> d' = d\<lparr> dbInvites := revoked_invites w u d \<rparr>"
  by (auto simp: revoke_invites_def stmt_simps put_invites_Inr active_live)

text \<open>The three statements that change a table of secrets.\<close>

lemma replace_done:
  assumes "replaceAccessTokenInTx w u token d = Inr (r, d')"
  obtains s where "subscription_by_id u d = Some s" "r = fresh_access w token s" "atSubscriptionID r = u"
    "d' = d\<lparr> dbAccess := revoked_access w u d @ [r] \<rparr>" "access_row_ok r" "u \<in> suID ` set (dbSubscriptions d)"
    "distinct (map atID (revoked_access w u d @ [r]))" "distinct (map atHash (revoked_access w u d @ [r]))"
proof -
  obtain d1 s where r: "revoke_access w u d = Inr d1" "subscription_by_id u d1 = Some s" "r = fresh_access w token s"
      "put_access [r] (dbAccess d1 @ [r]) d1 = Inr d'"
    using assms unfolding replaceAccessTokenInTx_def by (auto simp: stmt_simps Let_def)
  have d1: "d1 = d\<lparr> dbAccess := revoked_access w u d \<rparr>" by (rule revoke_access_Inr [OF r(1)])
  then have s: "subscription_by_id u d = Some s" using r(2) by (simp add: subscription_by_id_def)
  moreover have "suID s = u" using row_with_SomeD [OF s [unfolded subscription_by_id_def]] by simp
  ultimately show thesis using that [of s] r(3,4) d1 by (auto simp: put_access_Inr fresh_access_def)
qed

lemma eligible_done:
  assumes "ensureSubscriptionEligibleForAccessToken w i d = Inr u"
  shows "uuid_cast i = Some u \<and> (\<exists>s \<in> set (dbSubscriptions d). suID s = u \<and> eligible w d s)"
  using assms unfolding ensureSubscriptionEligibleForAccessToken_def
  by (auto simp: stmt_simps list_ex_iff split: if_split_asm)

lemma replaceAccessToken_done:
  assumes "replaceAccessToken w i d = (Inr t, d')"
  obtains u r where "uuid_cast i = Some u" "\<exists>s \<in> set (dbSubscriptions d). suID s = u \<and> eligible w d s"
    "newSubscriptionAccessToken w = Inr (satToken t)" "replaceAccessTokenInTx w u (satToken t) d = Inr (r, d')" "t = issued_token (satToken t) r"
proof (cases "newSubscriptionAccessToken w")
  case (Inr token)
  obtain u r where "ensureSubscriptionEligibleForAccessToken w i d = Inr u" "replaceAccessTokenInTx w u token d = Inr (r, d')"
      "t = issued_token token r"
    using assms Inr unfolding replaceAccessToken_def by (auto simp: in_tx_Inr stmt_simps)
  then show thesis using that [of u r] eligible_done [of w i d u] Inr by (auto simp: issued_token_def)
qed (use assms in \<open>simp add: replaceAccessToken_def\<close>)

lemma CreateHandoffInvite_done:
  assumes "CreateHandoffInvite w i d = (Inr t, d')"
  obtains u r where "uuid_cast i = Some u" "hiSubscriptionID r = u" "invite_row_ok r" "u \<in> suID ` set (dbSubscriptions d)"
    "hiStatus r = ''active''" "hiClaimedAt r = None" "d' = d\<lparr> dbInvites := revoked_invites w u d @ [r] \<rparr>"
    "distinct (map hiID (revoked_invites w u d @ [r]))" "distinct (map hiHash (revoked_invites w u d @ [r]))"
    "hiHash r = HashSubscriptionHandoffToken (shToken t)" "shSubscriptionID t = u" "hiExpiresAt r = shExpiresAt t"
proof (cases "newSubscriptionHandoffToken w")
  case (Inr token)
  obtain u d1 s where r: "ensureSubscriptionEligibleForAccessToken w i d = Inr u" "revoke_invites w u d = Inr d1"
      "subscription_by_id u d1 = Some s" "put_invites [fresh_invite w token s] (dbInvites d1 @ [fresh_invite w token s]) d1 = Inr d'"
      "t = \<lparr> shSubscriptionID = suID s, shToken = token, shExpiresAt = hiExpiresAt (fresh_invite w token s),
             shCreatedAt = hiCreatedAt (fresh_invite w token s) \<rparr>"
    using assms Inr unfolding CreateHandoffInvite_def by (auto simp: in_tx_Inr stmt_simps Let_def)
  have d1: "d1 = d\<lparr> dbInvites := revoked_invites w u d \<rparr>" by (rule revoke_invites_Inr [OF r(2)])
  have "suID s = u" using row_with_SomeD [OF r(3) [unfolded subscription_by_id_def]] by simp
  then show thesis
    using that [of u "fresh_invite w token s"] r eligible_done [OF r(1)] unfolding d1 put_invites_Inr
    by (auto simp: fresh_invite_def)
qed (use assms in \<open>simp add: CreateHandoffInvite_def\<close>)

lemma Claim_done:
  assumes "ClaimHandoffInvite collate reality w token d = (Inr c, d')"
  obtains h r d1 where "h \<in> set (dbInvites d)" "usable_invite w (TrimSpace token) h" "uuid_cast (hiSubscriptionID h) = Some (atSubscriptionID r)"
    "d1 = d\<lparr> dbInvites := upd_where (\<lambda>x. hiID x = hiID h) (claim_invite_row w) (dbInvites d) \<rparr>"
    "invite_row_ok (claim_invite_row w h)" "newSubscriptionAccessToken w = Inr (hcAccessToken c)"
    "replaceAccessTokenInTx w (atSubscriptionID r) (hcAccessToken c) d1 = Inr (r, d')"
    "Access collate reality w (hiSubscriptionID h) d = Inr (hcAccess c)" "hcSubscriptionID c = hiSubscriptionID h"
    "\<exists>s \<in> set (dbSubscriptions d). suID s = atSubscriptionID r \<and> eligible w d s" "hcExpiresAt c = atExpiresAt r"
proof (cases "newSubscriptionAccessToken w")
  case (Inr token')
  let ?t = "TrimSpace token"
  have b: "Claim_body collate reality w ?t token' d = Inr (c, d')"
    using assms Inr by (auto simp: ClaimHandoffInvite_def Let_def in_tx_Inr split: if_split_asm)
  obtain h u access d1 r where h: "first_row (sort_key (\<lambda>h. - hiCreatedAt h) (filter (usable_invite w ?t) (dbInvites d))) = Some h"
      "ensureSubscriptionEligibleForAccessToken w (hiSubscriptionID h) d = Inr u" "Access collate reality w (hiSubscriptionID h) d = Inr access"
      "put_invites [claim_invite_row w h] (upd_where (\<lambda>r. hiID r = hiID h) (claim_invite_row w) (dbInvites d)) d = Inr d1"
      "replaceAccessTokenInTx w u token' d1 = Inr (r, d')"
      "c = \<lparr> hcSubscriptionID = hiSubscriptionID h, hcAccessToken = token', hcExpiresAt = atExpiresAt r, hcClaimedAt = pwPgNow w, hcAccess = access \<rparr>"
    using b unfolding Claim_body_def by (auto simp: bindE_Inr stmt_iff one_row_iff)
  have "h \<in> set (sort_key (\<lambda>h. - hiCreatedAt h) (filter (usable_invite w ?t) (dbInvites d)))"
    by (rule first_row_in [OF h(1)])
  then have hin: "h \<in> set (dbInvites d)" "usable_invite w ?t h" by simp_all
  have u: "atSubscriptionID r = u" by (rule replace_done [OF h(5)])
  show thesis
    using that [of h r d1] hin h(2-6) eligible_done [OF h(2)] Inr u by (auto simp: put_invites_Inr)
qed (use assms in \<open>auto simp: ClaimHandoffInvite_def Let_def split: if_split_asm\<close>)

end
