(* ===== verification/SubsAccess.thy ===== *)
theory SubsAccess
  imports SubsProps
begin

text \<open>
  What an access entry says: it is given only for a live subscription, it names an open node of the preferred region that is
  first in the order of the query, and its client and endpoint are those of the configuration deployed to that node.
\<close>

section \<open>Identifiers\<close>

lemma hex_lower_idem: "is_hex c \<Longrightarrow> is_hex (hex_lower c) \<and> hex_lower (hex_lower c) = hex_lower c"
  by (auto simp: is_hex_def hex_lower_def byte_def chr_def)

definition hex_pair :: "string \<Rightarrow> bool" where
  "hex_pair b \<longleftrightarrow> (\<exists>x y. b = [x, y] \<and> is_hex x \<and> is_hex y \<and> hex_lower x = x \<and> hex_lower y = y)"

lemma uuid_bytes_pairs: "uuid_bytes k s = Some (bs, t) \<Longrightarrow> length bs = k \<and> list_all hex_pair bs"
proof (induction k s arbitrary: bs t rule: uuid_bytes.induct)
  case (2 k a b s)
  define rest where "rest = (if odd (15 - k) \<and> 15 - k < 15 \<and> s \<noteq> [] \<and> hd s = CHR ''-'' then tl s else s)"
  have h: "is_hex a" "is_hex b" using "2.prems" by (simp_all split: if_split_asm)
  have "map_option (\<lambda>(bs, t). ([hex_lower a, hex_lower b] # bs, t)) (uuid_bytes k rest) = Some (bs, t)"
    using "2.prems" h by (simp only: uuid_bytes.simps Let_def rest_def if_True simp_thms)
  then obtain cs where c: "uuid_bytes k rest = Some (cs, t)" "bs = [hex_lower a, hex_lower b] # cs" by auto
  have "length cs = k \<and> list_all hex_pair cs"
    using "2.IH" [OF _ rest_def c(1)] h by simp
  moreover have "hex_pair [hex_lower a, hex_lower b]" using h hex_lower_idem by (simp add: hex_pair_def)
  ultimately show ?case by (simp add: c(2))
qed simp_all

lemma length_16:
  assumes "length xs = 16"
  obtains a b c d e f g h i j k l m n p q where "xs = [a, b, c, d, e, f, g, h, i, j, k, l, m, n, p, q]"
  using assms by (auto simp: length_Suc_conv numeral_eq_Suc)

lemma uuid_bytes_step:
  assumes "hex_pair b" and "0 < n"
  shows "uuid_bytes n (b @ s) = map_option (\<lambda>(bs, t). (b # bs, t))
    (uuid_bytes (n - 1) (if odd (16 - n) \<and> 16 - n < 15 \<and> s \<noteq> [] \<and> hd s = CHR ''-'' then tl s else s))"
proof (cases n)
  case (Suc k)
  then show ?thesis using assms(1) by (auto simp: hex_pair_def Let_def)
qed (use assms in simp)

lemma hex_pair_hd: "hex_pair b \<Longrightarrow> b \<noteq> [] \<and> hd b \<noteq> CHR ''-'' \<and> hd b \<noteq> CHR ''{''"
  by (auto simp: hex_pair_def is_hex_def byte_def)

lemma uuid_cast_text:
  assumes "length bs = 16" and "list_all hex_pair bs"
  shows "uuid_cast (uuid_text bs) = Some (uuid_text bs)"
proof -
  obtain a b c d e f g h i j k l m n p q where bs: "bs = [a, b, c, d, e, f, g, h, i, j, k, l, m, n, p, q]"
    by (rule length_16 [OF assms(1)])
  have hp: "hex_pair a" "hex_pair b" "hex_pair c" "hex_pair d" "hex_pair e" "hex_pair f" "hex_pair g" "hex_pair h" "hex_pair i"
      "hex_pair j" "hex_pair k" "hex_pair l" "hex_pair m" "hex_pair n" "hex_pair p" "hex_pair q"
    using assms(2) by (simp_all add: bs)
  note hd = hp [THEN hex_pair_hd]
  have t: "uuid_text bs = a @ b @ c @ d @ ''-'' @ e @ f @ ''-'' @ g @ h @ ''-'' @ i @ j @ ''-'' @ k @ l @ m @ n @ p @ q @ []"
    by (simp add: uuid_text_def bs)
  have u: "uuid_bytes 16 (uuid_text bs) = Some (bs, [])"
    unfolding t using uuid_bytes_step [of q 1 "[]"] by (simp add: uuid_bytes_step hp hd bs hd_append)
  have "\<not> has_prefix (uuid_text bs) ''{''"
    using hd by (cases a) (auto simp: t has_prefix_def)
  then show ?thesis by (simp add: uuid_cast_def u)
qed

lemma uuid_cast_Some:
  assumes "uuid_cast s = Some u"
  obtains bs where "u = uuid_text bs" "length bs = 16" "list_all hex_pair bs"
proof -
  obtain bs t where b: "uuid_bytes 16 (if has_prefix s ''{'' then tl s else s) = Some (bs, t)" "u = uuid_text bs"
    using assms by (auto simp: uuid_cast_def Let_def split: option.splits if_split_asm)
  show thesis using that [OF b(2)] uuid_bytes_pairs [OF b(1)] by simp
qed

lemma uuid_cast_idem: "uuid_cast s = Some u \<Longrightarrow> uuid_cast u = Some u"
  by (elim uuid_cast_Some) (simp add: uuid_cast_text)

section \<open>The order of a query\<close>

text \<open>The first row of a stable sort has the least key, and is the first of the rows with that key.\<close>

lemma first_sorted:
  assumes "first_row (sort_key f rows) = Some n"
  shows "n \<in> set rows" "m \<in> set rows \<Longrightarrow> f n \<le> f m" "first_row (filter (\<lambda>y. f y = f n) rows) = Some n"
proof -
  show "n \<in> set rows" using first_row_in [OF assms] by simp
  obtain rest where r: "sort_key f rows = n # rest" using assms by (auto simp: first_row_def split: list.splits)
  have s: "sorted (map f (sort_key f rows))" by simp
  have "\<forall>x \<in> set rest. f n \<le> f x" using s unfolding r by auto
  moreover have "set rows = insert n (set rest)" by (metis r list.simps(15) set_sort)
  ultimately show "f n \<le> f m" if "m \<in> set rows" using that by auto
  have "filter (\<lambda>y. f y = f n) rows = n # filter (\<lambda>y. f y = f n) rest"
    using sort_key_stable [of f "f n" rows] by (simp add: r)
  then show "first_row (filter (\<lambda>y. f y = f n) rows) = Some n" by (simp add: first_row_def)
qed

lemma first_sorted_twice:
  assumes "first_row (sort_key f (sort_key g rows)) = Some n"
  shows "n \<in> set rows" "m \<in> set rows \<Longrightarrow> f n < f m \<or> (f n = f m \<and> g n \<le> g m)"
    "first_row (filter (\<lambda>y. f y = f n \<and> g y = g n) rows) = Some n"
proof -
  note F = first_sorted [OF assms]
  show "n \<in> set rows" using F(1) by simp
  have "first_row (sort_key g (filter (\<lambda>y. f y = f n) rows)) = Some n" using F(3) by (simp add: filter_sort)
  note G = first_sorted [OF this]
  show "f n < f m \<or> (f n = f m \<and> g n \<le> g m)" if "m \<in> set rows" using F(2) [of m] G(2) [of m] that by force
  show "first_row (filter (\<lambda>y. f y = f n \<and> g y = g n) rows) = Some n" using G(3) by (simp add: conj_commute)
qed

section \<open>The node of an access entry\<close>

lemma serves_prefers: "serves s n \<Longrightarrow> serves s m \<Longrightarrow> prefers s n \<longleftrightarrow> prefers s m"
  by (auto simp: serves_def prefers_def split: option.splits)

lemma access_node_first:
  assumes "access_node collate s d = Some n"
  shows "n \<in> set (dbNodes d)" "serves s n"
    "m \<in> set (dbNodes d) \<Longrightarrow> serves s m \<Longrightarrow> collate (ndRegion n) < collate (ndRegion m)
       \<or> (collate (ndRegion n) = collate (ndRegion m) \<and> collate (ndName n) \<le> collate (ndName m))"
proof -
  let ?rows = "sort_key (\<lambda>n. collate (ndID n)) (filter (serves s) (dbNodes d))"
  let ?p = "\<lambda>n. if prefers s n then 0 else 1 :: nat"
  note F = first_sorted [OF assms [unfolded access_node_def]]
  have same: "?p m = ?p n" if "m \<in> set ?rows" for m
    using serves_prefers [of s m n] that F(1) by simp
  have "filter (\<lambda>y. ?p y = ?p n) ?rows = ?rows" using same by (simp add: filter_id_conv)
  then have "first_row (sort_key (\<lambda>n. collate (ndRegion n)) (sort_key (\<lambda>n. collate (ndName n)) ?rows)) = Some n"
    using F(3) by (simp only: filter_sort)
  note G = first_sorted_twice [OF this]
  show "n \<in> set (dbNodes d)" "serves s n" using G(1) by simp_all
  show "collate (ndRegion n) < collate (ndRegion m) \<or> (collate (ndRegion n) = collate (ndRegion m) \<and> collate (ndName n) \<le> collate (ndName m))"
    if "m \<in> set (dbNodes d)" "serves s m"
    using G(2) [of m] that by auto
qed

lemma Access_done:
  assumes "Access collate reality w i d = Inr acc"
  obtains s user plan n where "uuid_cast i = Some (suID s)" "s \<in> set (dbSubscriptions d)" "user \<in> set (dbUsers d)" "urID user = suUserID s"
    "plan \<in> set (dbPlans d)" "row_with plID (suPlanID s) (dbPlans d) = Some plan" "row_with urID (suUserID s) (dbUsers d) = Some user"
    "suStatus s = ''active''" "urStatus user = ''active''" "pwNow w < suExpiresAt s"
    "access_node collate s d = Some n" "acc = access_export reality s user plan n"
proof -
  obtain u s user plan where a: "uuid_cast i = Some u" "subscription_by_id u d = Some s" "row_with urID (suUserID s) (dbUsers d) = Some user"
      "row_with plID (suPlanID s) (dbPlans d) = Some plan"
      "(if suStatus s \<noteq> ''active'' \<or> urStatus user \<noteq> ''active'' \<or> suExpiresAt s \<le> pwNow w then Inl ErrSubscriptionAccessUnavailable
        else (case access_node collate s d of None \<Rightarrow> Inl ErrSubscriptionAccessUnavailable
          | Some n \<Rightarrow> Inr (access_export reality s user plan n))) = Inr acc"
    using assms unfolding Access_def by (auto simp: bindE_Inr uuid_param_iff one_row_iff)
  show thesis
    using that [of s user plan] a row_with_SomeD [OF a(2) [unfolded subscription_by_id_def]] row_with_SomeD [OF a(3)] row_with_SomeD [OF a(4)]
    by (auto split: if_split_asm option.splits)
qed

lemma AccessByToken_done:
  assumes "AccessByToken collate reality w token d = Inr acc"
  obtains a where "a \<in> set (dbAccess d)" "usable_access w (TrimSpace token) a" "Access collate reality w (atSubscriptionID a) d = Inr acc"
proof -
  obtain a where a: "first_row (sort_key (\<lambda>a. - atCreatedAt a) (filter (usable_access w (TrimSpace token)) (dbAccess d))) = Some a"
      "Access collate reality w (atSubscriptionID a) d = Inr acc"
    using assms unfolding AccessByToken_def by (auto simp: Let_def bindE_Inr one_row_iff split: if_split_asm)
  then show thesis using that first_row_in [OF a(1)] by auto
qed

lemma export_fields:
  "saSubscriptionID (access_export reality s u p n) = suID s" "acID (saClient (access_export reality s u p n)) = suID s"
  "acEmail (saClient (access_export reality s u p n)) = ''subscription:'' @ suID s" "acFlow (saClient (access_export reality s u p n)) = DefaultVLESSFlow"
  "acLevel (saClient (access_export reality s u p n)) = 0" "anID (saNode (access_export reality s u p n)) = ndID n"
  "anHostname (saNode (access_export reality s u p n)) = ndHostname n"
  "aeAddress (saEndpoint (access_export reality s u p n)) = ndHostname n" "aePort (saEndpoint (access_export reality s u p n)) = rcPort (WithDefaults reality)"
  "aeSNI (saEndpoint (access_export reality s u p n)) = rcSNI (WithDefaults reality)"
  "aeShortID (saEndpoint (access_export reality s u p n)) = rcShortID (WithDefaults reality)"
  "saURI (access_export reality s u p n) = buildVLESSRealityURI (saEndpoint (access_export reality s u p n)) (saClient (access_export reality s u p n))
     (saDisplayName (access_export reality s u p n))" "saDisplayName (access_export reality s u p n) = ''Lenker '' @ ndRegion n @ '' '' @ plName p"
  by (simp_all add: access_export_def Let_def BuildAccessEntry_def subscription_input_def)

section \<open>Reading an access URI\<close>

text \<open>A decoder of the URIs: the user, the host, the form values in order and the fragment.\<close>

definition cut_char :: "char \<Rightarrow> string \<Rightarrow> string \<times> string" where
  "cut_char c s = (takeWhile (\<lambda>x. x \<noteq> c) s, tl (dropWhile (\<lambda>x. x \<noteq> c) s))"

definition parse_pair :: "string \<Rightarrow> (string \<times> string) option" where
  "parse_pair p = (case cut_char (CHR ''='') p of (k, v) \<Rightarrow>
     (case (QueryUnescape k, QueryUnescape v) of (Some k', Some v') \<Rightarrow> Some (k', v') | _ \<Rightarrow> None))"

definition parse_access_uri :: "string \<Rightarrow> (string \<times> string \<times> (string \<times> string) list \<times> string) option" where
  "parse_access_uri uri = (if \<not> has_prefix uri ''vless://'' then None else
     (case cut_char (CHR ''#'') (drop 8 uri) of (front, fragment) \<Rightarrow>
      case cut_char (CHR ''?'') front of (authority, query) \<Rightarrow>
      case cut_char (CHR ''@'') authority of (user, host) \<Rightarrow>
      (case (PathUnescape user, PathUnescape host, those (map parse_pair (split_on (CHR ''&'') query)), PathUnescape fragment) of
         (Some u, Some h, Some vs, Some f) \<Rightarrow> Some (u, h, vs, f)
       | _ \<Rightarrow> None)))"

lemma cut_at: "c \<notin> set a \<Longrightarrow> cut_char c (a @ c # b) = (a, b)"
  by (induction a) (auto simp: cut_char_def)

lemma cut_none: "c \<notin> set a \<Longrightarrow> cut_char c a = (a, [])"
  by (induction a) (auto simp: cut_char_def)

lemma split_join:
  "parts \<noteq> [] \<Longrightarrow> \<forall>p \<in> set parts. c \<notin> set p \<Longrightarrow> split_on c (join_with [c] parts) = parts"
proof (induction parts rule: induct_list012)
  case (3 p q ps)
  then show ?case by (simp add: split_on_append)
qed (simp_all add: split_on_no_sep)

lemma join_chars: "x \<in> set (join_with sep parts) \<Longrightarrow> x \<in> set sep \<or> (\<exists>p \<in> set parts. x \<in> set p)"
  by (induction parts rule: induct_list012) auto

definition uri_values :: "SubscriptionAccessEndpoint \<Rightarrow> SubscriptionAccessClient \<Rightarrow> (string \<times> string) list" where
  "uri_values e c = [(''encryption'', ''none''), (''flow'', acFlow c), (''fp'', aeFingerprint e), (''pbk'', aePublicKey e),
     (''security'', aeSecurity e), (''sid'', aeShortID e), (''sni'', aeSNI e), (''spx'', aeSpiderX e), (''type'', aeNetwork e)]"

lemma uri_values_sorted: "sort_key fst (uri_values e c) = uri_values e c"
proof -
  have "sorted (map fst (uri_values e c))" unfolding uri_values_def by simp
  then show ?thesis by (rule sort_key_id_if_sorted)
qed

lemma escaped_delimiters:
  "x \<in> {CHR ''/'', CHR ''&'', CHR ''='', CHR ''#'', CHR ''?'', CHR ''@''} \<Longrightarrow> x \<notin> set (QueryEscape s)"
  using QueryEscape_chars [of x s] url_plain_special [of x] upper_digit_special [of x] by auto

lemma user_delimiters: "x \<in> {CHR ''#'', CHR ''?'', CHR ''@''} \<Longrightarrow> x \<notin> set (url_escape user_byte s)"
  using url_escape_chars [of x user_byte s] url_plain_special [of x] upper_digit_special [of x] by (auto simp: user_byte_def)

lemma host_delimiters: "x \<in> {CHR ''#'', CHR ''?'', CHR ''@''} \<Longrightarrow> x \<notin> set (url_escape host_byte s)"
  using url_escape_chars [of x host_byte s] url_plain_special [of x] upper_digit_special [of x] by (auto simp: host_byte_def)

lemma percent_escapes: "\<not> user_byte (CHR ''%'')" "\<not> host_byte (CHR ''%'')" "\<not> fragment_byte (CHR ''%'')"
  using url_plain_special [of "CHR ''%''"] by (auto simp: user_byte_def host_byte_def fragment_byte_def)

lemma parse_pair_escaped: "parse_pair (QueryEscape k @ CHR ''='' # QueryEscape v) = Some (k, v)"
  using cut_at [OF escaped_delimiters [of "CHR ''=''" k]] by (simp add: parse_pair_def)

lemma those_map_Some: "(\<And>x. x \<in> set xs \<Longrightarrow> f (g x) = Some x) \<Longrightarrow> those (map f (map g xs)) = Some xs"
  by (induction xs) auto

lemma query_values:
  assumes "vs \<noteq> []" and "sort_key fst vs = vs"
  shows "those (map parse_pair (split_on (CHR ''&'') (encode_values vs))) = Some vs"
    and "x \<in> {CHR ''#'', CHR ''?'', CHR ''@''} \<Longrightarrow> x \<notin> set (encode_values vs)"
proof -
  let ?g = "\<lambda>(k, v). QueryEscape k @ ''='' @ QueryEscape v"
  have "split_on (CHR ''&'') (join_with ''&'' (map ?g vs)) = map ?g vs"
    using assms(1) escaped_delimiters by (intro split_join) auto
  then show "those (map parse_pair (split_on (CHR ''&'') (encode_values vs))) = Some vs"
    unfolding encode_values_def assms(2) by (simp only:) (rule those_map_Some, auto simp: parse_pair_escaped)
  show "x \<notin> set (encode_values vs)" if "x \<in> {CHR ''#'', CHR ''?'', CHR ''@''}"
    using that escaped_delimiters [of x] unfolding encode_values_def assms(2) by (auto dest!: join_chars)
qed

text \<open>
  C26 The URI of an access entry carries what the entry says: decoding it gives the client's identifier, the address and port
  of the endpoint, the form values of the REALITY transport, and the display name, whatever bytes they hold.
\<close>

theorem access_uri_roundtrip:
  "parse_access_uri (buildVLESSRealityURI endpoint client name)
   = Some (acID client, aeAddress endpoint @ '':'' @ itoa (aePort endpoint), uri_values endpoint client, name)"
proof -
  let ?u = "url_escape user_byte (acID client)" and ?h = "url_escape host_byte (aeAddress endpoint @ '':'' @ itoa (aePort endpoint))"
  let ?q = "encode_values (uri_values endpoint client)" and ?f = "url_escape fragment_byte name"
  have q: "those (map parse_pair (split_on (CHR ''&'') ?q)) = Some (uri_values endpoint client)"
    "x \<in> {CHR ''#'', CHR ''?'', CHR ''@''} \<Longrightarrow> x \<notin> set ?q" for x
    using query_values [OF _ uri_values_sorted] by (simp_all add: uri_values_def)
  let ?front = "?u @ CHR ''@'' # ?h @ CHR ''?'' # ?q"
  have uri: "buildVLESSRealityURI endpoint client name = ''vless://'' @ ?front @ (if name = [] then [] else CHR ''#'' # ?f)"
    by (simp add: buildVLESSRealityURI_def uri_values_def)
  have "CHR ''#'' \<notin> set ?front" using q(2) user_delimiters host_delimiters by simp
  then have c: "cut_char (CHR ''#'') (?front @ (if name = [] then [] else CHR ''#'' # ?f)) = (?front, ?f)"
    using cut_at [of "CHR ''#''" ?front ?f] cut_none [of "CHR ''#''" ?front] by (simp split: if_split) (simp add: url_escape_def)
  have d: "cut_char (CHR ''?'') ?front = (?u @ CHR ''@'' # ?h, ?q)"
    using cut_at [of "CHR ''?''" "?u @ CHR ''@'' # ?h" ?q] user_delimiters host_delimiters by simp
  have e: "cut_char (CHR ''@'') (?u @ CHR ''@'' # ?h) = (?u, ?h)"
    using user_delimiters by (intro cut_at) simp
  have p: "has_prefix (''vless://'' @ s) ''vless://''" "drop 8 (''vless://'' @ s) = s" for s :: string
    by (simp_all add: has_prefix_def)
  show ?thesis
    unfolding uri parse_access_uri_def p c d e prod.case q(1)
    by (simp add: has_prefix_def url_unescape_escape percent_escapes)
qed

end
