(* ===== verification/SubsTheorems.thy ===== *)
theory SubsTheorems
  imports SubsAccess NodesTheorems
begin

text \<open>
  The subscription store as a system of events, its invariant, and what the tokens and invites of a subscription give to
  whom: an access entry only for a live subscription and an open node, one live token at a time, one claim per invite.
\<close>

section \<open>The invariant\<close>

definition subs_store_ok :: "db \<Rightarrow> bool" where
  "subs_store_ok d \<longleftrightarrow> distinct (map suID (dbSubscriptions d))
     \<and> (\<forall>s \<in> set (dbSubscriptions d). subscription_row_ok s \<and> subscription_ints_ok s
          \<and> suUserID s \<in> urID ` set (dbUsers d) \<and> suPlanID s \<in> plID ` set (dbPlans d))
     \<and> secrets_ok atID atSubscriptionID atHash access_live (dbAccess d)
     \<and> (\<forall>a \<in> set (dbAccess d). access_row_ok a \<and> atSubscriptionID a \<in> suID ` set (dbSubscriptions d))
     \<and> secrets_ok hiID hiSubscriptionID hiHash invite_live (dbInvites d)
     \<and> (\<forall>h \<in> set (dbInvites d). invite_row_ok h \<and> hiSubscriptionID h \<in> suID ` set (dbSubscriptions d)
          \<and> (hiStatus h = ''claimed'' \<longleftrightarrow> hiClaimedAt h \<noteq> None))"

datatype subs_event =
    AskCreate CreateSubscriptionInput
  | AskUpdate string UpdateSubscriptionInput
  | AskRenew string int
  | AskIssue string | AskRevoke string
  | AskInvite string | AskRevokeInvite string
  | AskClaim "string \<Rightarrow> string" RealityConfig string

fun subs_step :: "panel_world \<times> subs_event \<Rightarrow> db \<Rightarrow> db" where
  "subs_step (w, AskCreate i) d = snd (CreateSubscription w i d)"
| "subs_step (w, AskUpdate i u) d = snd (UpdateSubscription w i u d)"
| "subs_step (w, AskRenew i n) d = snd (RenewSubscription w i n d)"
| "subs_step (w, AskIssue i) d = snd (replaceAccessToken w i d)"
| "subs_step (w, AskRevoke i) d = snd (RevokeAccessToken w i d)"
| "subs_step (w, AskInvite i) d = snd (CreateHandoffInvite w i d)"
| "subs_step (w, AskRevokeInvite i) d = snd (RevokeHandoffInvite w i d)"
| "subs_step (w, AskClaim collate reality token) d = snd (ClaimHandoffInvite collate reality w token d)"

text \<open>A change of the subscriptions that keeps their identifiers, or adds one, and writes rows the constraints allow.\<close>

lemma subs_ok_subscriptions:
  assumes "subs_store_ok d" and "put_subscriptions changed rows d = Inr d'"
    and "set rows \<subseteq> set (dbSubscriptions d) \<union> set changed" and "suID ` set (dbSubscriptions d) \<subseteq> suID ` set rows"
  shows "subs_store_ok d'"
  using assms unfolding subs_store_ok_def put_subscriptions_Inr by auto

lemma update_subscription_done:
  assumes "update_subscription u f d = Inr (x, d')"
  obtains s s' where "subscription_by_id u d = Some s" "f s = Inr s'" "x = Subscription.truncate s'"
    "put_subscriptions [s'] (upd_where (\<lambda>r. suID r = u) (\<lambda>_. s') (dbSubscriptions d)) d = Inr d'"
  using assms unfolding update_subscription_def by (auto simp: stmt_simps)

lemma subs_ok_update:
  assumes "subs_store_ok d" and "update_subscription u f d = Inr (x, d')" and "\<And>s s'. f s = Inr s' \<Longrightarrow> suID s' = suID s"
  shows "subs_store_ok d'"
proof -
  obtain s s' where s: "subscription_by_id u d = Some s" "f s = Inr s'"
      "put_subscriptions [s'] (upd_where (\<lambda>r. suID r = u) (\<lambda>_. s') (dbSubscriptions d)) d = Inr d'"
    by (rule update_subscription_done [OF assms(2)])
  have i: "suID s = u" "s \<in> set (dbSubscriptions d)" using row_with_SomeD [OF s(1) [unfolded subscription_by_id_def]] by simp_all
  have "suID s' = u" using assms(3) [OF s(2)] i(1) by simp
  then have "map suID (upd_where (\<lambda>r. suID r = u) (\<lambda>_. s') (dbSubscriptions d)) = map suID (dbSubscriptions d)"
    by (intro map_key_upd_where) simp
  then have "suID ` set (upd_where (\<lambda>r. suID r = u) (\<lambda>_. s') (dbSubscriptions d)) = suID ` set (dbSubscriptions d)"
    by (metis list.set_map)
  then show ?thesis by (intro subs_ok_subscriptions [OF assms(1) s(3)]) (auto simp: set_upd_where)
qed

lemma CreateSubscription_done:
  assumes "CreateSubscription w i d = (Inr x, d')"
  obtains u p ends where "u \<in> set (dbUsers d)" "p \<in> set (dbPlans d)" "uuid_cast (csUserID i) = Some (urID u)" "uuid_cast (csPlanID i) = Some (plID p)"
    "plStatus p = ''active''" "add_days (pg_time (pwNow w)) (plDurationDays p) = Inr ends"
    "x = Subscription.truncate (created_subscription w i u p ends)"
    "put_subscriptions [created_subscription w i u p ends] (dbSubscriptions d @ [created_subscription w i u p ends]) d = Inr d'"
proof -
  obtain uid pid u p ends where c: "uuid_cast (csUserID i) = Some uid" "uuid_cast (csPlanID i) = Some pid" "row_with urID uid (dbUsers d) = Some u"
      "first_row (filter (\<lambda>p. plID p = pid \<and> plStatus p = ''active'') (dbPlans d)) = Some p"
      "add_days (pg_time (pwNow w)) (plDurationDays p) = Inr ends"
      "x = Subscription.truncate (created_subscription w i u p ends)"
      "put_subscriptions [created_subscription w i u p ends] (dbSubscriptions d @ [created_subscription w i u p ends]) d = Inr d'"
    using assms unfolding CreateSubscription_def alone_Inr by (auto simp: bindE_Inr stmt_iff one_row_iff uuid_param_iff Let_def)
  have "p \<in> set (filter (\<lambda>p. plID p = pid \<and> plStatus p = ''active'') (dbPlans d))"
    by (rule first_row_in [OF c(4)])
  then show thesis using that [of u p ends] c row_with_SomeD [OF c(3)] by auto
qed

lemma CreateSubscription_inv:
  assumes "subs_store_ok d" and "CreateSubscription w i d = (Inr x, d')"
  shows "subs_store_ok d'"
proof -
  obtain row where "put_subscriptions [row] (dbSubscriptions d @ [row]) d = Inr d'"
    using CreateSubscription_done [OF assms(2)] by metis
  then show ?thesis by (rule subs_ok_subscriptions [OF assms(1)]) auto
qed

lemma UpdateSubscription_done:
  assumes "UpdateSubscription w i input d = (Inr x, d')"
  obtains u current where "uuid_cast i = Some u"
    "update_subscription u (\<lambda>s. Inr (updated_subscription w input current s)) d = Inr (x, d')" "FindSubscription w i d = Inr current"
  using assms unfolding UpdateSubscription_def alone_Inr by (auto simp: stmt_simps)

lemma RenewSubscription_done:
  assumes "RenewSubscription w i n d = (Inr x, d')"
  obtains u where "uuid_cast i = Some u"
    "update_subscription u (\<lambda>s. bindE (add_days (max (suExpiresAt s) (pwPgNow w)) n) (\<lambda>ends. Inr (renewed_subscription w ends s))) d = Inr (x, d')"
  using assms unfolding RenewSubscription_def alone_Inr by (auto simp: stmt_simps)

lemma UpdateSubscription_inv:
  assumes "subs_store_ok d" and "UpdateSubscription w i input d = (Inr x, d')"
  shows "subs_store_ok d'"
  by (rule UpdateSubscription_done [OF assms(2)])
    (erule subs_ok_update [OF assms(1)], auto simp: updated_subscription_def)

lemma RenewSubscription_inv:
  assumes "subs_store_ok d" and "RenewSubscription w i n d = (Inr x, d')"
  shows "subs_store_ok d'"
  by (rule RenewSubscription_done [OF assms(2)])
    (erule subs_ok_update [OF assms(1)], auto simp: stmt_simps renewed_subscription_def)

lemma revoke_access_inv:
  assumes "subs_store_ok d"
  shows "subs_store_ok (d\<lparr> dbAccess := revoked_access w u d \<rparr>)"
  using assms access_table.secrets_finished [where rows = "dbAccess d"]
  by (auto simp: subs_store_ok_def set_upd_where revoke_access_row_def access_row_ok_def)

lemma revoke_invites_inv:
  assumes "subs_store_ok d"
  shows "subs_store_ok (d\<lparr> dbInvites := revoked_invites w u d \<rparr>)"
proof -
  have "(hiStatus h = ''claimed'') = (hiClaimedAt h \<noteq> None)" if "h \<in> set (revoked_invites w u d)" for h
    using that by (cases rule: set_upd_cases) (use assms in \<open>auto simp: subs_store_ok_def revoke_invite_row_def invite_live_def\<close>)
  then show ?thesis
    using assms invite_table.secrets_finished [where rows = "dbInvites d"]
    by (auto simp: subs_store_ok_def set_upd_where revoke_invite_row_def invite_row_ok_def)
qed

lemma replace_inv:
  assumes "subs_store_ok d" and "replaceAccessTokenInTx w u token d = Inr (r, d')"
  shows "subs_store_ok d'"
proof (rule replace_done [OF assms(2)])
  fix s
  assume a: "atSubscriptionID r = u" "d' = d\<lparr> dbAccess := revoked_access w u d @ [r] \<rparr>" "access_row_ok r" "u \<in> suID ` set (dbSubscriptions d)"
    "distinct (map atID (revoked_access w u d @ [r]))" "distinct (map atHash (revoked_access w u d @ [r]))"
  have "secrets_ok atID atSubscriptionID atHash access_live (revoked_access w u d @ [r])"
    using access_table.secrets_issue [OF _ refl a(5,6,1)] assms(1) by (simp add: subs_store_ok_def)
  then show ?thesis using revoke_access_inv [OF assms(1), where w = w and u = u] a by (auto simp: subs_store_ok_def)
qed

lemma CreateHandoffInvite_inv:
  assumes "subs_store_ok d" and "CreateHandoffInvite w i d = (Inr t, d')"
  shows "subs_store_ok d'"
proof (rule CreateHandoffInvite_done [OF assms(2)])
  fix u r
  assume a: "hiSubscriptionID r = u" "invite_row_ok r" "u \<in> suID ` set (dbSubscriptions d)" "hiStatus r = ''active''" "hiClaimedAt r = None"
    "d' = d\<lparr> dbInvites := revoked_invites w u d @ [r] \<rparr>"
    "distinct (map hiID (revoked_invites w u d @ [r]))" "distinct (map hiHash (revoked_invites w u d @ [r]))"
  have "secrets_ok hiID hiSubscriptionID hiHash invite_live (revoked_invites w u d @ [r])"
    using invite_table.secrets_issue [OF _ refl a(7,8,1)] assms(1) by (simp add: subs_store_ok_def)
  then show ?thesis using revoke_invites_inv [OF assms(1), where w = w and u = u] a by (auto simp: subs_store_ok_def)
qed

lemma Claim_inv:
  assumes "subs_store_ok d" and "ClaimHandoffInvite collate reality w token d = (Inr c, d')"
  shows "subs_store_ok d'"
proof (rule Claim_done [OF assms(2)])
  fix h r d1
  assume a: "h \<in> set (dbInvites d)" "d1 = d\<lparr> dbInvites := upd_where (\<lambda>x. hiID x = hiID h) (claim_invite_row w) (dbInvites d) \<rparr>"
    "replaceAccessTokenInTx w (atSubscriptionID r) (hcAccessToken c) d1 = Inr (r, d')"
  have "secrets_ok hiID hiSubscriptionID hiHash invite_live (upd_where (\<lambda>x. hiID x = hiID h) (claim_invite_row w) (dbInvites d))"
    using assms(1) claim_table.secrets_finished by (simp add: subs_store_ok_def)
  then have "subs_store_ok d1"
    using assms(1) by (auto simp: subs_store_ok_def a(2) set_upd_where claim_invite_row_def invite_row_ok_def)
  then show ?thesis by (rule replace_inv) (rule a(3))
qed

lemma RevokeAccessToken_cases:
  obtains "snd (RevokeAccessToken w i d) = d" | u where "snd (RevokeAccessToken w i d) = d\<lparr> dbAccess := revoked_access w u d \<rparr>"
proof (cases "bindE (FindSubscription w i d) (\<lambda>_. bindE (uuid_param i) (\<lambda>u. revoke_access w u d))")
  case (Inr d')
  then obtain u where "revoke_access w u d = Inr d'" by (auto simp: bindE_Inr)
  then show thesis using that(2) [of u] Inr revoke_access_Inr by (simp add: RevokeAccessToken_def)
qed (use that(1) in \<open>simp add: RevokeAccessToken_def\<close>)

lemma RevokeHandoffInvite_cases:
  obtains "snd (RevokeHandoffInvite w i d) = d" | u where "snd (RevokeHandoffInvite w i d) = d\<lparr> dbInvites := revoked_invites w u d \<rparr>"
proof (cases "bindE (FindSubscription w i d) (\<lambda>_. bindE (uuid_param i) (\<lambda>u. revoke_invites w u d))")
  case (Inr d')
  then obtain u where "revoke_invites w u d = Inr d'" by (auto simp: bindE_Inr)
  then show thesis using that(2) [of u] Inr revoke_invites_Inr by (simp add: RevokeHandoffInvite_def)
qed (use that(1) in \<open>simp add: RevokeHandoffInvite_def\<close>)

lemma subs_ops_fail:
  "CreateSubscription w i1 d = (Inl e, d') \<Longrightarrow> d' = d" "UpdateSubscription w i2 u2 d = (Inl e, d') \<Longrightarrow> d' = d"
  "RenewSubscription w i3 n d = (Inl e, d') \<Longrightarrow> d' = d" "replaceAccessToken w i4 d = (Inl e, d') \<Longrightarrow> d' = d"
  "CreateHandoffInvite w i5 d = (Inl e, d') \<Longrightarrow> d' = d" "ClaimHandoffInvite collate reality w token d = (Inl e, d') \<Longrightarrow> d' = d"
  by (simp_all only: CreateSubscription_def UpdateSubscription_def RenewSubscription_def alone_Inl)
    (auto simp: replaceAccessToken_def CreateHandoffInvite_def ClaimHandoffInvite_def Let_def dest: in_tx_Inl split: sum.split_asm if_split_asm)

lemmas subs_ops_ok = CreateSubscription_inv UpdateSubscription_inv RenewSubscription_inv CreateHandoffInvite_inv Claim_inv

lemma replaceAccessToken_inv: "subs_store_ok d \<Longrightarrow> replaceAccessToken w i d = (Inr t, d') \<Longrightarrow> subs_store_ok d'"
  by (rule replaceAccessToken_done) (auto intro: replace_inv)

lemma outcome_inv:
  assumes "ok d" and "\<And>e d'. r = (Inl e, d') \<Longrightarrow> d' = d" and "\<And>x d'. r = (Inr x, d') \<Longrightarrow> ok d'"
  shows "ok (snd r)"
  using assms by (cases r; cases "fst r") auto

lemma subs_step_ok: "subs_store_ok d \<Longrightarrow> subs_store_ok (subs_step e d)"
proof (induction e d rule: subs_step.induct)
  case (5 w i d)
  then show ?case using RevokeAccessToken_cases [of w i d] revoke_access_inv [OF 5, where w = w] by (metis subs_step.simps(5))
next
  case (7 w i d)
  then show ?case using RevokeHandoffInvite_cases [of w i d] revoke_invites_inv [OF 7, where w = w] by (metis subs_step.simps(7))
qed (simp only: subs_step.simps, rule outcome_inv, assumption, erule subs_ops_fail, erule (1) subs_ops_ok replaceAccessToken_inv)+

interpretation subs_store: event_system subs_step subs_store_ok
  by unfold_locales (rule subs_step_ok)

text \<open>
  C25 Whatever requests on subscriptions arrive, in whatever order and with whatever failing statements: every subscription has
  a user and a plan and satisfies the schema, identifiers and token hashes stay unique, a subscription has at most one
  active access token and at most one active invite, and an invite is claimed exactly when it has a claim time.
\<close>

theorem subscription_store_invariant:
  assumes "subs_store_ok d"
  shows "subs_store_ok (fold subs_step es d)"
  using assms by (rule subs_store.run_inv)

section \<open>Access\<close>

text \<open>
  C21 An access entry is given only to the holder of a live token of a live subscription: the token's hash is stored, active
  and unexpired, the subscription and its user are active and the subscription has not expired.  The entry names that
  subscription and the host of a node that is active, not draining, and in the preferred region when there is one; no
  other such node comes before it in the order of region and name.
\<close>

theorem access_only_when_live:
  assumes "AccessByToken collate reality w token d = Inr acc"
  shows "\<exists>a s u n. a \<in> set (dbAccess d) \<and> atHash a = HashSubscriptionAccessToken (TrimSpace token) \<and> atStatus a = ''active''
    \<and> pwPgNow w < atExpiresAt a \<and> uuid_cast (atSubscriptionID a) = Some (suID s)
    \<and> s \<in> set (dbSubscriptions d) \<and> suStatus s = ''active'' \<and> pwNow w < suExpiresAt s
    \<and> u \<in> set (dbUsers d) \<and> urID u = suUserID s \<and> urStatus u = ''active''
    \<and> n \<in> set (dbNodes d) \<and> ndStatus n = ''active'' \<and> ndDrainState n = ''active''
    \<and> (case suRegion s of None \<Rightarrow> True | Some r \<Rightarrow> r = [] \<or> ndRegion n = r)
    \<and> (\<forall>m \<in> set (dbNodes d). serves s m \<longrightarrow> collate (ndRegion n) < collate (ndRegion m)
         \<or> (collate (ndRegion n) = collate (ndRegion m) \<and> collate (ndName n) \<le> collate (ndName m)))
    \<and> saSubscriptionID acc = suID s \<and> acID (saClient acc) = suID s \<and> aeAddress (saEndpoint acc) = ndHostname n"
proof -
  obtain a where a: "a \<in> set (dbAccess d)" "usable_access w (TrimSpace token) a" "Access collate reality w (atSubscriptionID a) d = Inr acc"
    by (rule AccessByToken_done [OF assms])
  obtain s u p n where s: "uuid_cast (atSubscriptionID a) = Some (suID s)" "s \<in> set (dbSubscriptions d)" "u \<in> set (dbUsers d)" "urID u = suUserID s"
      "suStatus s = ''active''" "urStatus u = ''active''" "pwNow w < suExpiresAt s" "access_node collate s d = Some n"
      "acc = access_export reality s u p n"
    by (rule Access_done [OF a(3)])
  note n = access_node_first [OF s(8)]
  have v: "ndStatus n = ''active''" "ndDrainState n = ''active''" "case suRegion s of None \<Rightarrow> True | Some r \<Rightarrow> r = [] \<or> ndRegion n = r"
    using n(2) by (simp_all add: serves_def)
  have f: "saSubscriptionID acc = suID s" "acID (saClient acc) = suID s" "aeAddress (saEndpoint acc) = ndHostname n"
    by (simp_all add: s(9) export_fields)
  show ?thesis
    by (rule exI [of _ a], rule exI [of _ s], rule exI [of _ u], rule exI [of _ n])
      (intro conjI ballI impI; (rule n(3))?; (use a s n(1) v f in \<open>simp add: usable_access_def\<close>)?)
qed

section \<open>Access tokens\<close>

lemma filter_unique:
  assumes "distinct (map key rows)" and "r \<in> set rows" and "P r" and "\<And>x. P x \<Longrightarrow> key x = key r"
  shows "filter P rows = [r]"
  using assms
proof (induction rows)
  case (Cons x rows)
  show ?case
  proof (cases "x = r")
    case True
    have "key r \<notin> key ` set rows" using Cons.prems(1) True by simp
    then have "key y \<noteq> key r" if "y \<in> set rows" for y using that by (metis image_eqI)
    then have "\<not> P y" if "y \<in> set rows" for y using Cons.prems(4) that by blast
    then show ?thesis using True Cons.prems(3) by simp
  next
    case False
    then have "r \<in> set rows" using Cons.prems(2) by simp
    moreover have "\<not> P x" using Cons.prems(1,4) calculation by (auto simp: image_iff)
    ultimately show ?thesis using Cons.IH [OF _ _ Cons.prems(3,4)] Cons.prems(1) by simp
  qed
qed simp

lemma access_token_text:
  assumes "newSubscriptionAccessToken w = Inr token"
  shows "TrimSpace token = token" "token \<noteq> []"
proof -
  obtain raw where t: "token = ''lnksa_'' @ hex_encode raw" using assms by (auto simp: newSubscriptionAccessToken_def stmt_simps)
  have "graphic c" if "c \<in> set (hex_encode raw)" for c using hex_encode_chars [OF that] by (simp add: graphic_def)
  then have "graphic c" if "c \<in> set token" for c using that by (auto simp: t)
  moreover show "token \<noteq> []" by (simp add: t)
  ultimately show "TrimSpace token = token" by (intro TrimSpace_graphic) auto
qed

text \<open>What a replacement leaves: one row with the hash, and no other active row of the subscription.\<close>

lemma replaced_access:
  assumes "replaceAccessTokenInTx w u token d = Inr (r, d')" and "TrimSpace token = token" and "token \<noteq> []" and "pwFault w' = (\<lambda>_. False)"
    and "pwPgNow w' < atExpiresAt r"
  shows "SubscriptionIDByToken w' token d' = Inr u"
    and "AccessByToken collate reality w' token d' = Access collate reality w' u d'"
    and "SubscriptionIDByToken w'' other d' = Inr u \<Longrightarrow> HashSubscriptionAccessToken (TrimSpace other) = HashSubscriptionAccessToken token"
proof -
  obtain s where s: "r = fresh_access w token s" "atSubscriptionID r = u" "d' = d\<lparr> dbAccess := revoked_access w u d @ [r] \<rparr>"
      "distinct (map atHash (revoked_access w u d @ [r]))"
    by (rule replace_done [OF assms(1)])
  have f: "filter (usable_access w' token) (dbAccess d') = [r]"
    using s(4) assms(5) by (intro filter_unique [where key = atHash]) (auto simp: s(1,3) usable_access_def fresh_access_def)
  show "SubscriptionIDByToken w' token d' = Inr u" "AccessByToken collate reality w' token d' = Access collate reality w' u d'"
    using assms(2-4) s(2) by (simp_all add: SubscriptionIDByToken_def AccessByToken_def f first_row_def one_row_def stmt_def)
  assume "SubscriptionIDByToken w'' other d' = Inr u"
  then obtain a where a: "first_row (filter (usable_access w'' (TrimSpace other)) (dbAccess d')) = Some a" "atSubscriptionID a = u"
    unfolding SubscriptionIDByToken_def by (auto simp: Let_def bindE_Inr one_row_iff split: if_split_asm)
  have "a \<in> set (dbAccess d')" "usable_access w'' (TrimSpace other) a" using first_row_in [OF a(1)] by simp_all
  moreover from this have "a = r"
    using access_table.issued_only [where x = a and u = u and rows = "dbAccess d" and w = w and r = r] a(2) by (simp add: s(3) usable_access_def access_live_def)
  ultimately show "HashSubscriptionAccessToken (TrimSpace other) = HashSubscriptionAccessToken token"
    by (simp add: usable_access_def s(1) fresh_access_def)
qed

text \<open>
  C22 An issued or rotated access token works until it expires, and it is the only one that does: it gives the access entry
  of its subscription, and any other text accepted for that subscription has the same hash.
\<close>

theorem rotated_token_is_the_only_one:
  assumes "RotateAccessToken w i d = (Inr t, d')" and "pwFault w' = (\<lambda>_. False)" and "pwPgNow w' < satExpiresAt t"
  shows "SubscriptionIDByToken w' (satToken t) d' = Inr (satSubscriptionID t)
    \<and> AccessByToken collate reality w' (satToken t) d' = Access collate reality w' (satSubscriptionID t) d'
    \<and> (SubscriptionIDByToken w'' other d' = Inr (satSubscriptionID t)
        \<longrightarrow> HashSubscriptionAccessToken (TrimSpace other) = HashSubscriptionAccessToken (satToken t))"
proof -
  obtain u r where r: "newSubscriptionAccessToken w = Inr (satToken t)" "replaceAccessTokenInTx w u (satToken t) d = Inr (r, d')"
      "t = issued_token (satToken t) r"
    by (rule replaceAccessToken_done [OF assms(1) [unfolded RotateAccessToken_def]])
  have u: "atSubscriptionID r = u" by (rule replace_done [OF r(2)])
  have f: "satSubscriptionID t = u" "satExpiresAt t = atExpiresAt r"
    using u by (subst r(3), simp add: issued_token_def)+
  note R = replaced_access [OF r(2) access_token_text [OF r(1)] assms(2) assms(3) [unfolded f(2)]]
  show ?thesis
    unfolding f(1) by (intro conjI impI, rule R(1), rule R(2), rule R(3))
qed

section \<open>Handoff invites\<close>

text \<open>The table of invites after an event.\<close>

lemma keeps_invites:
  "dbInvites (snd (CreateSubscription w i d)) = dbInvites d" "dbInvites (snd (UpdateSubscription w j u d)) = dbInvites d"
  "dbInvites (snd (RenewSubscription w k n d)) = dbInvites d" "dbInvites (snd (replaceAccessToken w l d)) = dbInvites d"
proof -
  have "CreateSubscription w i d = (Inr x, d') \<Longrightarrow> dbInvites d' = dbInvites d" for x d'
    by (erule CreateSubscription_done) (simp add: put_subscriptions_Inr)
  then show "dbInvites (snd (CreateSubscription w i d)) = dbInvites d"
    by (intro outcome_inv [where ok = "\<lambda>d'. dbInvites d' = dbInvites d"]) (auto dest: subs_ops_fail(1))
  have f: "update_subscription u f d = Inr (x, d') \<Longrightarrow> dbInvites d' = dbInvites d" for u f x d'
    by (erule update_subscription_done) (simp add: put_subscriptions_Inr)
  then have "UpdateSubscription w j u d = (Inr x, d') \<Longrightarrow> dbInvites d' = dbInvites d" for x d'
    by (elim UpdateSubscription_done)
  then show "dbInvites (snd (UpdateSubscription w j u d)) = dbInvites d"
    by (intro outcome_inv [where ok = "\<lambda>d'. dbInvites d' = dbInvites d"]) (auto dest: subs_ops_fail(2))
  have "RenewSubscription w k n d = (Inr x, d') \<Longrightarrow> dbInvites d' = dbInvites d" for x d'
    using f by (elim RenewSubscription_done)
  then show "dbInvites (snd (RenewSubscription w k n d)) = dbInvites d"
    by (intro outcome_inv [where ok = "\<lambda>d'. dbInvites d' = dbInvites d"]) (auto dest: subs_ops_fail(3))
  have "replaceAccessToken w l d = (Inr x, d') \<Longrightarrow> dbInvites d' = dbInvites d" for x d'
    by (elim replaceAccessToken_done replace_done) simp
  then show "dbInvites (snd (replaceAccessToken w l d)) = dbInvites d"
    by (intro outcome_inv [where ok = "\<lambda>d'. dbInvites d' = dbInvites d"]) (auto dest: subs_ops_fail(4))
qed

lemma subs_step_invites:
  assumes "subs_store_ok d"
  obtains (same) "dbInvites (subs_step e d) = dbInvites d"
  | (revoked) w P where "dbInvites (subs_step e d) = upd_where P (revoke_invite_row w) (dbInvites d)"
  | (claimed) w P where "dbInvites (subs_step e d) = upd_where P (claim_invite_row w) (dbInvites d)"
  | (issued) w P r where "dbInvites (subs_step e d) = upd_where P (revoke_invite_row w) (dbInvites d) @ [r]"
      "distinct (map hiHash (upd_where P (revoke_invite_row w) (dbInvites d) @ [r]))"
proof (cases "(e, d)" rule: subs_step.cases)
  case (1 w i d2)
  then show thesis using keeps_invites(1) [of w i d] same by simp
next
  case (2 w i u d2)
  then show thesis using keeps_invites(2) [of w i u d] same by simp
next
  case (3 w i n d2)
  then show thesis using keeps_invites(3) [of w i n d] same by simp
next
  case (4 w i d2)
  then show thesis using keeps_invites(4) [of w i d] same by simp
next
  case (5 w i d2)
  show thesis by (rule same) (rule RevokeAccessToken_cases [of w i d]; use 5 in simp)
next
  case (6 w i d2)
  show thesis
  proof (cases "CreateHandoffInvite w i d" d rule: op_cases)
    case (ok t)
    show thesis
    proof (rule CreateHandoffInvite_done [OF ok])
      fix u and r :: invite_row
      assume "snd (CreateHandoffInvite w i d) = d\<lparr> dbInvites := revoked_invites w u d @ [r] \<rparr>"
        "distinct (map hiHash (revoked_invites w u d @ [r]))"
      then show thesis by (intro issued) (use 6 in simp_all)
    qed
  qed (use 6 subs_ops_fail same in auto)
next
  case (7 w i d2)
  show thesis
    by (rule RevokeHandoffInvite_cases [of w i d]) (rule same, use 7 in simp, rule revoked, use 7 in simp)
next
  case (8 w collate reality token d2)
  show thesis
  proof (cases "ClaimHandoffInvite collate reality w token d" d rule: op_cases)
    case (ok c)
    obtain h :: invite_row and r d1 where "d1 = d\<lparr> dbInvites := upd_where (\<lambda>x. hiID x = hiID h) (claim_invite_row w) (dbInvites d) \<rparr>"
        "replaceAccessTokenInTx w (atSubscriptionID r) (hcAccessToken c) d1 = Inr (r, snd (ClaimHandoffInvite collate reality w token d))"
      by (rule Claim_done [OF ok])
    then have "dbInvites (subs_step e d) = upd_where (\<lambda>x. hiID x = hiID h) (claim_invite_row w) (dbInvites d)"
      using 8 by (auto elim!: replace_done)
    then show thesis by (rule claimed)
  qed (use 8 subs_ops_fail same in auto)
qed

lemma subs_step_spent:
  assumes "subs_store_ok d" and "spent hiHash invite_live h (dbInvites d)"
  shows "spent hiHash invite_live h (dbInvites (subs_step e d))"
  by (cases e rule: subs_step_invites [OF assms(1)])
    (simp_all add: assms(2) invite_table.spent_finished claim_table.spent_finished spent_append)

interpretation spent_invites: stable_view subs_step subs_store_ok "\<lambda>_. True" "\<lambda>d. spent hiHash invite_live h (dbInvites d)" "\<lambda>_. ()" for h
  by unfold_locales (simp add: subs_step_spent)

lemma spent_refused:
  assumes "spent hiHash invite_live (HashSubscriptionHandoffToken (TrimSpace token)) (dbInvites d)"
  shows "\<not> is_ok (fst (ClaimHandoffInvite collate reality w token d))"
proof
  assume "is_ok (fst (ClaimHandoffInvite collate reality w token d))"
  then obtain c d' where "ClaimHandoffInvite collate reality w token d = (Inr c, d')"
    by (metis is_ok_iff prod.collapse)
  then show False using assms by (auto elim!: Claim_done simp: spent_def usable_invite_def invite_live_def)
qed

text \<open>
  C23 A handoff invite is claimed once.  After a successful claim, and after any further requests, a claim with the same token
  fails, whoever sends it and whenever.
\<close>

theorem handoff_claimed_once:
  assumes "subs_store_ok d" and "ClaimHandoffInvite collate reality w token d = (Inr c, d')"
  shows "\<not> is_ok (fst (ClaimHandoffInvite collate' reality' w' token (fold subs_step es d')))"
proof -
  obtain h r d1 where h: "h \<in> set (dbInvites d)" "usable_invite w (TrimSpace token) h"
      "d1 = d\<lparr> dbInvites := upd_where (\<lambda>x. hiID x = hiID h) (claim_invite_row w) (dbInvites d) \<rparr>"
      "replaceAccessTokenInTx w (atSubscriptionID r) (hcAccessToken c) d1 = Inr (r, d')"
    by (rule Claim_done [OF assms(2)])
  have "spent hiHash invite_live (HashSubscriptionHandoffToken (TrimSpace token)) (dbInvites d1)"
    using claim_table.spends [OF _ h(1), of w] assms(1) h(2) by (simp add: h(3) subs_store_ok_def usable_invite_def)
  then have "spent hiHash invite_live (HashSubscriptionHandoffToken (TrimSpace token)) (dbInvites d')"
    using h(4) by (auto elim!: replace_done)
  then have "spent hiHash invite_live (HashSubscriptionHandoffToken (TrimSpace token)) (dbInvites (fold subs_step es d'))"
    using spent_invites.run_stable [of d' es] Claim_inv [OF assms] by (simp add: list_all_iff)
  then show ?thesis by (rule spent_refused)
qed

text \<open>
  C24 A claim hands over a working access token: what the claim answers as the access entry is what the new token gives at
  that moment, and no earlier access token of the subscription works any more.
\<close>

theorem claim_hands_over_access:
  assumes "ClaimHandoffInvite collate reality w token d = (Inr c, d')" and "pwFault w = (\<lambda>_. False)"
  shows "AccessByToken collate reality w (hcAccessToken c) d' = Inr (hcAccess c)
    \<and> (uuid_cast (hcSubscriptionID c) = Some u \<and> SubscriptionIDByToken w' other d' = Inr u
        \<longrightarrow> HashSubscriptionAccessToken (TrimSpace other) = HashSubscriptionAccessToken (hcAccessToken c))"
proof -
  obtain h :: invite_row and r d1 where h: "uuid_cast (hiSubscriptionID h) = Some (atSubscriptionID r)"
      "d1 = d\<lparr> dbInvites := upd_where (\<lambda>x. hiID x = hiID h) (claim_invite_row w) (dbInvites d) \<rparr>"
      "newSubscriptionAccessToken w = Inr (hcAccessToken c)"
      "replaceAccessTokenInTx w (atSubscriptionID r) (hcAccessToken c) d1 = Inr (r, d')"
      "Access collate reality w (hiSubscriptionID h) d = Inr (hcAccess c)" "hcSubscriptionID c = hiSubscriptionID h"
      "\<exists>s \<in> set (dbSubscriptions d). suID s = atSubscriptionID r \<and> eligible w d s"
    by (rule Claim_done [OF assms(1)])
  obtain s where s: "subscription_by_id (atSubscriptionID r) d1 = Some s" "r = fresh_access w (hcAccessToken c) s"
      "d' = d1\<lparr> dbAccess := revoked_access w (atSubscriptionID r) d1 @ [r] \<rparr>" "access_row_ok r"
    by (rule replace_done [OF h(4)])
  have live: "pwPgNow w < atExpiresAt r" using s(2,4) by (simp add: access_row_ok_def fresh_access_def)
  note R = replaced_access [OF h(4) access_token_text [OF h(3)] assms(2) live]
  have rows: "dbSubscriptions d' = dbSubscriptions d" "dbUsers d' = dbUsers d" "dbPlans d' = dbPlans d" "dbNodes d' = dbNodes d"
    by (simp_all add: s(3) h(2))
  have same: "Access collate reality w i d' = Access collate reality w i d" for i
    unfolding Access_def subscription_by_id_def access_node_def rows ..
  have "Access collate reality w (atSubscriptionID r) d = Access collate reality w (hiSubscriptionID h) d"
    using uuid_cast_idem [OF h(1)] h(1) by (simp add: Access_def uuid_param_def)
  then have now: "AccessByToken collate reality w (hcAccessToken c) d' = Inr (hcAccess c)" using R(2) same h(5) by simp
  have "uuid_cast (hcSubscriptionID c) = Some u \<Longrightarrow> SubscriptionIDByToken w' other d' = Inr u
      \<Longrightarrow> HashSubscriptionAccessToken (TrimSpace other) = HashSubscriptionAccessToken (hcAccessToken c)"
    using R(3) h(1,6) by simp
  with now show ?thesis by blast
qed

section \<open>Renewal\<close>

text \<open>
  C27 A renewal adds the days to the later of the expiry and the present, makes the subscription active, and changes nothing
  else: the access tokens keep the expiry they were issued with, so that none works after it although the subscription does.
\<close>

theorem renewal_keeps_token_expiry:
  assumes "RenewSubscription w i n d = (Inr x, d')"
  shows "(\<exists>s \<in> set (dbSubscriptions d). uuid_cast i = Some (suID s) \<and> suStatus x = ''active''
      \<and> suExpiresAt x = max (suExpiresAt s) (pwPgNow w) + n * day \<and> suID x = suID s \<and> suTrafficLimit x = suTrafficLimit s)
    \<and> dbAccess d' = dbAccess d
    \<and> ((\<forall>a \<in> set (dbAccess d). atHash a = HashSubscriptionAccessToken (TrimSpace token) \<longrightarrow> atExpiresAt a \<le> pwPgNow w')
      \<longrightarrow> \<not> is_ok (AccessByToken collate reality w' token d'))"
proof -
  obtain u where u: "uuid_cast i = Some u"
      "update_subscription u (\<lambda>s. bindE (add_days (max (suExpiresAt s) (pwPgNow w)) n) (\<lambda>ends. Inr (renewed_subscription w ends s))) d = Inr (x, d')"
    by (rule RenewSubscription_done [OF assms])
  obtain s s' where s: "subscription_by_id u d = Some s" "x = Subscription.truncate s'"
      "bindE (add_days (max (suExpiresAt s) (pwPgNow w)) n) (\<lambda>ends. Inr (renewed_subscription w ends s)) = Inr s'"
      "put_subscriptions [s'] (upd_where (\<lambda>r. suID r = u) (\<lambda>_. s') (dbSubscriptions d)) d = Inr d'"
    by (rule update_subscription_done [OF u(2)])
  have i: "suID s = u" "s \<in> set (dbSubscriptions d)" using row_with_SomeD [OF s(1) [unfolded subscription_by_id_def]] by simp_all
  have "s' = renewed_subscription w (max (suExpiresAt s) (pwPgNow w) + n * day) s"
    using s(3) by (auto simp: stmt_simps add_days_def split: if_split_asm)
  then have row: "\<exists>s \<in> set (dbSubscriptions d). uuid_cast i = Some (suID s) \<and> suStatus x = ''active''
      \<and> suExpiresAt x = max (suExpiresAt s) (pwPgNow w) + n * day \<and> suID x = suID s \<and> suTrafficLimit x = suTrafficLimit s"
    using i u(1) by (intro bexI [of _ s]) (simp_all add: s(2) Subscription.defs renewed_subscription_def)
  have a: "dbAccess d' = dbAccess d" using s(4) by (simp add: put_subscriptions_Inr)
  have "\<not> is_ok (AccessByToken collate reality w' token d')"
    if e: "\<forall>a \<in> set (dbAccess d). atHash a = HashSubscriptionAccessToken (TrimSpace token) \<longrightarrow> atExpiresAt a \<le> pwPgNow w'"
    using e by (auto elim!: AccessByToken_done simp: a usable_access_def is_ok_iff)
  with row a show ?thesis by blast
qed

end
