(* ===== verification/SubsConfig.thy ===== *)
theory SubsConfig
  imports SubsAccess RevisionTheorems
begin

text \<open>
  Two components that must agree: the access entry a client is given, and the configuration deployed to the node it names.
\<close>

lemma map_filter_in: "x \<in> set xs \<Longrightarrow> f x = Some y \<Longrightarrow> y \<in> set (List.map_filter f xs)"
  by (force simp: List.map_filter_def)

lemma live_subscription_is_input:
  assumes "listConfigSubscriptionInputs w region d = Inr subs" and "s \<in> set (dbSubscriptions d)" and "wants_region region s"
    and "row_with urID (suUserID s) (dbUsers d) = Some u" and "row_with plID (suPlanID s) (dbPlans d) = Some p"
    and "suStatus s = ''active''" and "urStatus u = ''active''" and "pwPgNow w < suExpiresAt s"
  shows "subscription_input s u p \<in> set subs"
proof -
  let ?f = "\<lambda>s. case (row_with urID (suUserID s) (dbUsers d), row_with plID (suPlanID s) (dbPlans d)) of
         (Some u, Some p) \<Rightarrow> if suStatus s = ''active'' \<and> urStatus u = ''active'' \<and> pwPgNow w < suExpiresAt s \<and> wants_region region s
                             then Some (subscription_input s u p) else None
       | _ \<Rightarrow> None"
  have "?f s = Some (subscription_input s u p)" using assms by simp
  then have "subscription_input s u p \<in> set (List.map_filter ?f (dbSubscriptions d))" using assms(2) by (rule map_filter_in [rotated])
  moreover have "subs = sort_key siSubscriptionID (List.map_filter ?f (dbSubscriptions d))"
    using assms(1) by (simp add: listConfigSubscriptionInputs_def stmt_simps)
  ultimately show ?thesis by simp
qed

lemma rendered_clients:
  obtains config inb settings where
    "idx (RenderVLESSRealityPayloadWithReality (deploy_input t k n subs) reality) ''config'' = AObj config"
    "idx config ''inbounds'' = AArr [AObj inb]" "idx inb ''settings'' = AObj settings"
    "idx settings ''clients'' = AArr (map client_of (sortedSubscriptionInputs subs))"
proof -
  let ?subs = "sortedSubscriptionInputs subs" and ?r = "WithDefaults reality" and ?input = "deploy_input t k n subs"
  let ?inb = "render_inbound ?r (map client_of ?subs) (render_sniffing (riGlobalSettings ?input))"
  let ?settings = "[(''clients'', AArr (map client_of ?subs)), (''decryption'', AStr ''none''), (''fallbacks'', AArr [])]"
  have in': "riSubscriptionInputs ?input = subs" by (simp add: deploy_input_def)
  show thesis
  proof (rule that)
    show "idx (RenderVLESSRealityPayloadWithReality ?input reality) ''config'' = AObj (render_config ?input ?r (renderAccessEntries ?subs))"
      by (simp only: render_payload_paths in')
    show "idx (render_config ?input ?r (renderAccessEntries ?subs)) ''inbounds'' = AArr [AObj ?inb]"
      by (simp only: render_config_paths renderClients_entries)
    show "idx ?inb ''settings'' = AObj ?settings" by (simp add: render_inbound_def)
    show "idx ?settings ''clients'' = AArr (map client_of ?subs)" by simp
  qed
qed

lemma rendered_client:
  assumes "s \<in> set subs"
  shows "\<exists>config inb settings clients stream rs.
    idx (RenderVLESSRealityPayloadWithReality (deploy_input t k n subs) reality) ''config'' = AObj config
    \<and> idx config ''inbounds'' = AArr [AObj inb] \<and> idx inb ''port'' = AInt (rcPort (WithDefaults reality))
    \<and> idx inb ''settings'' = AObj settings \<and> idx settings ''clients'' = AArr clients \<and> client_of s \<in> set clients
    \<and> idx inb ''streamSettings'' = AObj stream \<and> idx stream ''realitySettings'' = AObj rs
    \<and> idx rs ''serverNames'' = AArr [AStr (rcSNI (WithDefaults reality))] \<and> idx rs ''shortIds'' = AArr [AStr (rcShortID (WithDefaults reality))]"
proof -
  let ?subs = "sortedSubscriptionInputs subs" and ?r = "WithDefaults reality" and ?input = "deploy_input t k n subs"
  let ?inb = "render_inbound ?r (map client_of ?subs) (render_sniffing (riGlobalSettings ?input))"
  have in': "riSubscriptionInputs ?input = subs" by (simp add: deploy_input_def)
  have i: "idx (render_config ?input ?r (renderAccessEntries ?subs)) ''inbounds'' = AArr [AObj ?inb]"
    by (simp only: render_config_paths renderClients_entries)
  have c: "client_of s \<in> set (map client_of ?subs)" using assms by (simp add: sortedSubscriptionInputs_def)
  have b: "idx ?inb ''port'' = AInt (rcPort ?r)"
    "idx ?inb ''settings'' = AObj [(''clients'', AArr (map client_of ?subs)), (''decryption'', AStr ''none''), (''fallbacks'', AArr [])]"
    "idx ?inb ''streamSettings'' = AObj [(''network'', AStr ''tcp''), (''security'', AStr ''reality''), (''realitySettings'', AObj (render_reality ?r))]"
    by (simp_all add: render_inbound_def)
  have "idx [(''clients'', AArr (map client_of ?subs)), (''decryption'', AStr ''none''), (''fallbacks'', AArr [])] ''clients'' = AArr (map client_of ?subs)"
    "idx [(''network'', AStr ''tcp''), (''security'', AStr ''reality''), (''realitySettings'', AObj (render_reality ?r))] ''realitySettings'' = AObj (render_reality ?r)"
    "idx (render_reality ?r) ''serverNames'' = AArr [AStr (rcSNI ?r)]" "idx (render_reality ?r) ''shortIds'' = AArr [AStr (rcShortID ?r)]"
    by (simp_all add: render_reality_def)
  then show ?thesis using i b c render_payload_paths(1) [of ?input reality, unfolded in'] by blast
qed

text \<open>
  C20 What a client is told is what the node was told.  When a subscription gives an access entry that names a node, a
  configuration deployed to that node from the same tables listens on the entry's port, with the entry's server name and
  short identifier, and lists exactly the entry's client.
\<close>

theorem access_matches_deployment:
  assumes "Access collate reality w i d = Inr acc" and "CreateDummyConfigRevision w' reality j d = (Inr sv, d')"
    and "uuid_cast (cdNodeID j) = Some (anID (saNode acc))" and "pwPgNow w' \<le> pwNow w" and "distinct (map ndID (dbNodes d))"
  shows "\<exists>row config inb settings clients stream rs. row \<in> set (dbRevisions d') \<and> cvID row = svrID sv
    \<and> cvNodeID row = anID (saNode acc) \<and> idx (cvPayload row) ''config'' = AObj config
    \<and> idx config ''inbounds'' = AArr [AObj inb] \<and> idx inb ''port'' = AInt (aePort (saEndpoint acc))
    \<and> idx inb ''settings'' = AObj settings \<and> idx settings ''clients'' = AArr clients
    \<and> AObj [(''id'', AStr (acID (saClient acc))), (''email'', AStr (acEmail (saClient acc))), (''flow'', AStr (acFlow (saClient acc))),
         (''level'', AInt (acLevel (saClient acc)))] \<in> set clients
    \<and> idx inb ''streamSettings'' = AObj stream \<and> idx stream ''realitySettings'' = AObj rs
    \<and> idx rs ''serverNames'' = AArr [AStr (aeSNI (saEndpoint acc))] \<and> idx rs ''shortIds'' = AArr [AStr (aeShortID (saEndpoint acc))]"
proof -
  obtain s u p n where s: "s \<in> set (dbSubscriptions d)" "row_with plID (suPlanID s) (dbPlans d) = Some p"
      "row_with urID (suUserID s) (dbUsers d) = Some u" "suStatus s = ''active''" "urStatus u = ''active''" "pwNow w < suExpiresAt s"
      "access_node collate s d = Some n" "acc = access_export reality s u p n"
    by (rule Access_done [OF assms(1)])
  note n = access_node_first [OF s(7)]
  obtain v m number subs where c: "uuid_cast (cdNodeID j) = Some v" "node_by_id v d = Some m" "listConfigSubscriptionInputs w' (ndRegion m) d = Inr subs"
      "store_revision w' (cdNodeID j) v number (ndActiveRevision m)
         (RenderVLESSRealityPayloadWithReality (deploy_input (cdNodeID j) number m subs) reality) (cdCreatedBy j) d = Inr (sv, d')"
    using CreateDummy_done [OF assms(2)] by blast
  have v: "v = ndID n" using c(1) assms(3) by (simp add: s(8) export_fields)
  have m: "m = n" using c(2) row_with_distinct [OF assms(5) n(1)] by (simp add: v node_by_id_def)
  have "wants_region (ndRegion n) s" using n(2) by (auto simp: serves_def wants_region_def split: option.splits)
  then have in_subs: "subscription_input s u p \<in> set subs"
    using live_subscription_is_input [OF c(3) s(1)] s assms(4) m by simp
  obtain row where r: "sv = scanConfigRevision row" "put_revisions (dbRevisions d @ [row]) d = Inr d'" "cvNodeID row = v"
      "cvPayload row = RenderVLESSRealityPayloadWithReality (deploy_input (cdNodeID j) number m subs) reality"
    using store_revision_done [OF c(4)] by blast
  have row: "row \<in> set (dbRevisions d')" "cvID row = svrID sv" "cvNodeID row = anID (saNode acc)"
    using r(1-3) v by (simp_all add: put_revisions_Inr scanConfigRevision_def s(8) export_fields)
  have client: "client_of (subscription_input s u p) = AObj [(''id'', AStr (acID (saClient acc))), (''email'', AStr (acEmail (saClient acc))),
      (''flow'', AStr (acFlow (saClient acc))), (''level'', AInt (acLevel (saClient acc)))]"
    by (simp add: client_of_def subscription_input_def s(8) export_fields)
  have e: "aePort (saEndpoint acc) = rcPort (WithDefaults reality)" "aeSNI (saEndpoint acc) = rcSNI (WithDefaults reality)"
    "aeShortID (saEndpoint acc) = rcShortID (WithDefaults reality)"
    by (simp_all add: s(8) export_fields)
  from rendered_client [OF in_subs, of "cdNodeID j" number m reality] row show ?thesis
    unfolding r(4) [symmetric] client e by blast
qed

end
