(* ===== verification/SubsWitness.thy ===== *)
theory SubsWitness
  imports SubsTheorems SubsConfig NodesWitness
begin

text \<open>
  The small installation with a customer: a user, a plan and a subscription beside the registered node.  The theorems about
  subscriptions are applied to it.
\<close>

section \<open>The installation\<close>

definition sub_id :: uuid where "sub_id = ''33333333-3333-4333-8333-333333333333''"

lemma sub_cast [simp]: "uuid_cast sub_id = Some sub_id"
  by code_simp

definition user_a :: user_row where
  "user_a = \<lparr> urID = rev_a, urEmail = ''a@example.org'', urStatus = ''active'', urDisplayName = [], urCreatedAt = 0, urUpdatedAt = 0 \<rparr>"

definition plan_a :: plan_row where
  "plan_a = \<lparr> plID = node_a, plName = ''basic'', plDurationDays = 30, plTrafficLimit = None, plDeviceLimit = 3, plStatus = ''active'',
     plCreatedAt = 0, plUpdatedAt = 0 \<rparr>"

definition sub_a :: subscription_row where
  "sub_a = \<lparr> suID = sub_id, suUserID = rev_a, suPlanID = node_a, suStatus = ''active'', suStartsAt = 1704067100000000000,
     suExpiresAt = 1706659200000000000, suTrafficLimit = None, suTrafficUsed = 0, suDeviceLimit = 3, suRegion = None,
     srCreatedAt = 1704067100000000000, srUpdatedAt = 1704067100000000000 \<rparr>"

definition shop_db :: db where
  "shop_db = registered_db\<lparr> dbUsers := [user_a], dbPlans := [plan_a], dbSubscriptions := [sub_a] \<rparr>"

lemma registered_tables: "dbAccess registered_db = []" "dbInvites registered_db = []"
  by (simp_all add: registered_db_def invited_db_def empty_db_def)

lemma shop_tables [simp]: "dbUsers shop_db = [user_a]" "dbPlans shop_db = [plan_a]" "dbSubscriptions shop_db = [sub_a]" "dbAccess shop_db = []"
  "dbInvites shop_db = []" "dbNodes shop_db = [registered_node]" "dbRevisions shop_db = []"
  by (simp_all add: shop_db_def registered_tables)

lemma sub_a_fields [simp]: "suID sub_a = sub_id" "suUserID sub_a = rev_a" "suPlanID sub_a = node_a" "suStatus sub_a = ''active''"
  "suExpiresAt sub_a = 1706659200000000000" "suRegion sub_a = None" "urID user_a = rev_a" "urStatus user_a = ''active''" "plID plan_a = node_a"
  by (simp_all add: sub_a_def user_a_def plan_a_def)

lemma shop_ok: "subs_store_ok shop_db"
  by (simp add: subs_store_ok_def secrets_ok_def one_live_def subscription_row_ok_def subscription_ints_ok_def int4_def int8_def)
    (simp add: sub_a_def)

lemma subscription_store_invariant_witness:
  "subs_store_ok (fold subs_step [(calm, AskIssue sub_id), (calm, AskRenew sub_id 30), (calm, AskInvite sub_id)] shop_db)"
  by (rule subscription_store_invariant [OF shop_ok])

section \<open>A token\<close>

definition rotated_db :: db where "rotated_db = snd (RotateAccessToken calm sub_id shop_db)"
definition sub_token :: string where "sub_token = ''lnksa_'' @ hex_encode (replicate 32 (chr 7))"

lemma sub_token_new: "newSubscriptionAccessToken calm = Inr sub_token"
  by (simp add: newSubscriptionAccessToken_def one_row_def sub_token_def)

lemma shop_row: "subscription_by_id sub_id shop_db = Some sub_a"
  by (simp add: subscription_by_id_def)

lemma rotate_run:
  "\<exists>t. RotateAccessToken calm sub_id shop_db = (Inr t, rotated_db) \<and> satToken t = sub_token \<and> satSubscriptionID t = sub_id
     \<and> satExpiresAt t = 1706659200000000000 \<and> dbNodes rotated_db = [registered_node] \<and> dbUsers rotated_db = [user_a] \<and> dbPlans rotated_db = [plan_a]
     \<and> dbSubscriptions rotated_db = [sub_a]"
proof -
  have e: "ensureSubscriptionEligibleForAccessToken calm sub_id shop_db = Inr sub_id"
    by (simp add: ensureSubscriptionEligibleForAccessToken_def uuid_param_def eligible_def)
  have r: "revoke_access calm sub_id shop_db = Inr shop_db"
    by (simp add: revoke_access_def put_access_def constraints_def)
  have p: "put_access [fresh_access calm sub_token sub_a] [fresh_access calm sub_token sub_a] shop_db
      = Inr (shop_db\<lparr> dbAccess := [fresh_access calm sub_token sub_a] \<rparr>)"
    by (simp add: put_access_Inr access_row_ok_def fresh_access_def)
  have x: "replaceAccessTokenInTx calm sub_id sub_token shop_db
      = Inr (fresh_access calm sub_token sub_a, shop_db\<lparr> dbAccess := [fresh_access calm sub_token sub_a] \<rparr>)"
    by (simp add: replaceAccessTokenInTx_def r shop_row one_row_def Let_def p)
  show ?thesis
    by (simp add: rotated_db_def RotateAccessToken_def replaceAccessToken_def sub_token_new in_tx_def e x issued_token_def)
      (simp add: fresh_access_def)
qed

lemma access_run: "\<exists>acc. Access id DefaultRealityConfig calm sub_id d = Inr acc \<and> anID (saNode acc) = node_a"
  if "dbNodes d = [registered_node]" "dbUsers d = [user_a]" "dbPlans d = [plan_a]" "dbSubscriptions d = [sub_a]"
proof -
  have "serves sub_a registered_node"
    using registered_fields by (simp add: serves_def registered_node_def register_node_row_def register_in_def Let_def)
  then have "access_node id sub_a d = Some registered_node" by (simp add: access_node_def that first_row_def)
  then show ?thesis
    by (simp add: Access_def uuid_param_def subscription_by_id_def that one_row_def export_fields registered_fields)
qed

lemma rotated_token_is_the_only_one_witness:
  "\<exists>t. RotateAccessToken calm sub_id shop_db = (Inr t, rotated_db)
    \<and> SubscriptionIDByToken calm (satToken t) rotated_db = Inr (satSubscriptionID t)"
proof -
  obtain t where t: "RotateAccessToken calm sub_id shop_db = (Inr t, rotated_db)" "satExpiresAt t = 1706659200000000000"
    using rotate_run by blast
  have "SubscriptionIDByToken calm (satToken t) rotated_db = Inr (satSubscriptionID t)"
    using rotated_token_is_the_only_one [OF t(1), of calm] by (simp add: t(2))
  then show ?thesis using t(1) by blast
qed

lemma access_only_when_live_witness:
  "\<exists>acc a. AccessByToken id DefaultRealityConfig calm sub_token rotated_db = Inr acc \<and> a \<in> set (dbAccess rotated_db)
    \<and> atHash a = HashSubscriptionAccessToken (TrimSpace sub_token) \<and> saSubscriptionID acc = sub_id"
proof -
  obtain t where t: "RotateAccessToken calm sub_id shop_db = (Inr t, rotated_db)" "satToken t = sub_token" "satSubscriptionID t = sub_id"
      "satExpiresAt t = 1706659200000000000" "dbNodes rotated_db = [registered_node]" "dbUsers rotated_db = [user_a]"
      "dbPlans rotated_db = [plan_a]" "dbSubscriptions rotated_db = [sub_a]"
    using rotate_run by blast
  obtain u r where r: "uuid_cast sub_id = Some u" "replaceAccessTokenInTx calm u (satToken t) shop_db = Inr (r, rotated_db)"
      "t = issued_token (satToken t) r"
    by (rule replaceAccessToken_done [OF t(1) [unfolded RotateAccessToken_def]])
  have "atExpiresAt r = satExpiresAt t" by (subst r(3)) (simp add: issued_token_def)
  then have "replaceAccessTokenInTx calm sub_id sub_token shop_db = Inr (r, rotated_db)" "atExpiresAt r = 1706659200000000000"
    using r(1,2) t(2,4) by simp_all
  then have "AccessByToken id DefaultRealityConfig calm sub_token rotated_db = Access id DefaultRealityConfig calm sub_id rotated_db"
    using access_token_text [OF sub_token_new] by (intro replaced_access(2)) auto
  then obtain acc where acc: "AccessByToken id DefaultRealityConfig calm sub_token rotated_db = Inr acc"
    using access_run [OF t(5-8)] by auto
  from access_only_when_live [OF acc] show ?thesis using acc t(8) by auto
qed

section \<open>An invite\<close>

definition invite_token :: string where "invite_token = ''lnkhi_'' @ hex_encode (replicate 32 (chr 7))"
definition invite_shop :: db where
  "invite_shop = shop_db\<lparr> dbInvites := [fresh_invite calm invite_token sub_a] \<rparr>"
definition claimed_shop :: db where
  "claimed_shop = snd (ClaimHandoffInvite id DefaultRealityConfig calm invite_token invite_shop)"

lemma invite_shop_tables [simp]: "dbUsers invite_shop = [user_a]" "dbPlans invite_shop = [plan_a]" "dbSubscriptions invite_shop = [sub_a]"
  "dbAccess invite_shop = []" "dbInvites invite_shop = [fresh_invite calm invite_token sub_a]" "dbNodes invite_shop = [registered_node]"
  by (simp_all add: invite_shop_def)

lemma invite_fields: "hiHash (fresh_invite calm invite_token sub_a) = HashSubscriptionHandoffToken invite_token"
  "hiStatus (fresh_invite calm invite_token sub_a) = ''active''" "pwPgNow calm < hiExpiresAt (fresh_invite calm invite_token sub_a)"
  "hiSubscriptionID (fresh_invite calm invite_token sub_a) = sub_id" "hiCreatedAt (fresh_invite calm invite_token sub_a) = pwPgNow calm"
  "hiClaimedAt (fresh_invite calm invite_token sub_a) = None"
  by (simp_all add: fresh_invite_def durations)

lemma invite_shop_ok: "subs_store_ok invite_shop"
  using shop_ok invite_fields
  by (simp add: subs_store_ok_def secrets_ok_def one_live_def invite_row_ok_def)

lemma invite_token_text: "TrimSpace invite_token = invite_token" "invite_token \<noteq> []"
proof -
  have "graphic c" if "c \<in> set (hex_encode (replicate 32 (chr 7)))" for c using hex_encode_chars [OF that] by (simp add: graphic_def)
  then have "graphic c" if "c \<in> set invite_token" for c using that by (auto simp: invite_token_def)
  moreover show "invite_token \<noteq> []" by (simp add: invite_token_def)
  ultimately show "TrimSpace invite_token = invite_token" by (intro TrimSpace_graphic) auto
qed

lemma claim_run: "\<exists>c. ClaimHandoffInvite id DefaultRealityConfig calm invite_token invite_shop = (Inr c, claimed_shop)"
proof -
  let ?h = "fresh_invite calm invite_token sub_a"
  let ?d1 = "invite_shop\<lparr> dbInvites := [claim_invite_row calm ?h] \<rparr>"
  let ?r = "fresh_access calm sub_token sub_a"
  have f: "first_row (sort_key (\<lambda>h. - hiCreatedAt h) (filter (usable_invite calm invite_token) (dbInvites invite_shop))) = Some ?h"
    using invite_fields by (simp add: usable_invite_def first_row_def)
  have e: "ensureSubscriptionEligibleForAccessToken calm sub_id invite_shop = Inr sub_id"
    by (simp add: ensureSubscriptionEligibleForAccessToken_def uuid_param_def eligible_def)
  obtain acc where a: "Access id DefaultRealityConfig calm sub_id invite_shop = Inr acc" using access_run [of invite_shop] by auto
  have p: "put_invites [claim_invite_row calm ?h] (upd_where (\<lambda>r. hiID r = hiID ?h) (claim_invite_row calm) (dbInvites invite_shop)) invite_shop = Inr ?d1"
    using invite_fields by (simp add: put_invites_Inr invite_row_ok_def claim_invite_row_def)
  have r: "revoke_access calm sub_id ?d1 = Inr ?d1"
    by (simp add: revoke_access_def put_access_def constraints_def invite_shop_def)
  have q: "put_access [?r] [?r] ?d1 = Inr (?d1\<lparr> dbAccess := [?r] \<rparr>)"
    by (simp add: put_access_Inr access_row_ok_def fresh_access_def)
  have x: "replaceAccessTokenInTx calm sub_id sub_token ?d1 = Inr (?r, ?d1\<lparr> dbAccess := [?r] \<rparr>)"
    by (simp add: replaceAccessTokenInTx_def r subscription_by_id_def one_row_def Let_def q)
  have b: "\<exists>c. Claim_body id DefaultRealityConfig calm invite_token sub_token invite_shop = Inr (c, ?d1\<lparr> dbAccess := [?r] \<rparr>)"
    unfolding Claim_body_def f one_row_def option.case bindE_simps invite_fields(4) e a p x by simp
  then show ?thesis
    by (auto simp: claimed_shop_def ClaimHandoffInvite_def invite_token_text sub_token_new in_tx_def)
qed

lemma handoff_claimed_once_witness:
  "\<not> is_ok (fst (ClaimHandoffInvite id DefaultRealityConfig calm invite_token (fold subs_step [(calm, AskInvite sub_id)] claimed_shop)))"
proof -
  obtain c where "ClaimHandoffInvite id DefaultRealityConfig calm invite_token invite_shop = (Inr c, claimed_shop)"
    using claim_run by blast
  then show ?thesis by (rule handoff_claimed_once [OF invite_shop_ok])
qed

lemma claim_hands_over_access_witness:
  "\<exists>c :: SubscriptionHandoffClaim. AccessByToken id DefaultRealityConfig calm (hcAccessToken c) claimed_shop = Inr (hcAccess c)"
proof -
  obtain c where c: "ClaimHandoffInvite id DefaultRealityConfig calm invite_token invite_shop = (Inr c, claimed_shop)"
    using claim_run by blast
  show ?thesis using claim_hands_over_access [OF c calm_fields(1)] by blast
qed

section \<open>A renewal, and a deployment\<close>

lemma renewal_keeps_token_expiry_witness:
  "\<exists>x d'. RenewSubscription calm sub_id 30 rotated_db = (Inr x, d') \<and> dbAccess d' = dbAccess rotated_db"
proof -
  have t: "dbUsers rotated_db = [user_a]" "dbPlans rotated_db = [plan_a]" "dbSubscriptions rotated_db = [sub_a]" using rotate_run by blast+
  have e: "add_days 1706659200000000000 30 = Inr (1706659200000000000 + 30 * day)"
    by (simp add: add_days_def int4_def pg_end_def days_before_year_def durations Let_def)
  have "\<exists>x d'. RenewSubscription calm sub_id 30 rotated_db = (Inr x, d')"
    unfolding RenewSubscription_def alone_Inr
    by (simp add: uuid_param_def update_subscription_def subscription_by_id_def one_row_def t e bindE_Inr put_subscriptions_Inr
        subscription_row_ok_def subscription_ints_ok_def renewed_subscription_def int4_def int8_def durations)
      (simp add: sub_a_def)
  then obtain x d' where r: "RenewSubscription calm sub_id 30 rotated_db = (Inr x, d')" by blast
  show ?thesis using r renewal_keeps_token_expiry [OF r] by blast
qed

lemma access_matches_deployment_witness:
  "\<exists>acc sv d' row. Access id DefaultRealityConfig calm sub_id shop_db = Inr acc
     \<and> CreateDummyConfigRevision calm DefaultRealityConfig deploy_in shop_db = (Inr sv, d')
     \<and> row \<in> set (dbRevisions d') \<and> cvID row = svrID sv \<and> cvNodeID row = anID (saNode acc)"
proof -
  obtain acc where acc: "Access id DefaultRealityConfig calm sub_id shop_db = Inr acc" "anID (saNode acc) = node_a"
    using access_run [of shop_db] by auto
  have tables: "dbAdmins shop_db = dbAdmins registered_db" "dbNodes shop_db = dbNodes registered_db" "dbTokens shop_db = dbTokens registered_db"
    "dbRegistrations shop_db = dbRegistrations registered_db" "dbRevisions shop_db = dbRevisions registered_db"
    by (simp_all add: shop_db_def)
  have ok: "node_store_ok shop_db"
    using registered_ok unfolding node_store_ok_def nodes_inv_def tokens_inv_def registrations_inv_def revisions_inv_def revision_inv_def
      known_admin_def tables .
  have render: "can_render DefaultRealityConfig shop_db"
    using default_renders by (simp add: can_render_def sub_id_def)
  have n: "node_by_id node_a shop_db = Some registered_node" by (simp add: node_by_id_def registered_fields)
  have l: "last_number node_a shop_db < 2 ^ 31 - 1" by (simp add: last_number_def)
  obtain row d' where r: "CreateDummyConfigRevision calm DefaultRealityConfig deploy_in shop_db = (Inr (scanConfigRevision row), d')"
    using creation_result [OF ok deploy_facts(2,3) n deploy_facts(5-7) l _ render] by auto
  have j: "uuid_cast (cdNodeID deploy_in) = Some (anID (saNode acc))" using acc(2) by (simp add: deploy_in_def)
  from access_matches_deployment [OF acc(1) r j] show ?thesis using acc(1) r by auto
qed

end
