(* ===== verification/TrafficService.thy ===== *)
theory TrafficService
  imports TrafficStore
begin

text \<open>
  \<open>services/panel-api/internal/traffic/service.go\<close>: the checks above the repository, the report of a node (one log and one
  increment for each entry, in the order of the report), and the reset of a quota that is due.
\<close>

definition cleanStringPtr :: "string option \<Rightarrow> string option" where
  "cleanStringPtr v = (case v of None \<Rightarrow> None | Some s \<Rightarrow> if TrimSpace s = [] then None else Some (TrimSpace s))"

definition RecordTraffic :: "panel_world \<Rightarrow> string \<Rightarrow> string option \<Rightarrow> string \<Rightarrow> int \<Rightarrow> int \<Rightarrow> db \<Rightarrow> (storage_error + unit) \<times> db" where
  "RecordTraffic w sub device node up down =
     seqE (guardE (TrimSpace sub \<noteq> [] \<and> TrimSpace node \<noteq> []) TrafficInvalidInput) (\<lambda>_.
     seqE (guardE (0 \<le> up \<and> 0 \<le> down) TrafficInvalidInput) (\<lambda>_.
     seqE (CreateLog w \<lparr> lgID = [], lgSubscriptionID = TrimSpace sub, lgDeviceID = cleanStringPtr device, lgNodeID = TrimSpace node,
        lgBytesUp = up, lgBytesDown = down, lgBytesTotal = 0, lgRecordedAt = pwNow w, lgCreatedAt = 0 \<rparr>) (\<lambda>_.
     seqE (IncrementQuota w (TrimSpace sub) (wrap64 (up + down))) (\<lambda>_. giveE ()))))"

text \<open>The entries of a report, cleaned, with the wrapping totals; the first bad one refuses the report.\<close>

fun clean_entries :: "int \<Rightarrow> int \<Rightarrow> TrafficReportItem list \<Rightarrow> (TrafficReportItem list \<times> int \<times> int) option" where
  "clean_entries up down [] = Some ([], up, down)"
| "clean_entries up down (e # es) =
     (let e' = e\<lparr> tiSubscriptionID := TrimSpace (tiSubscriptionID e), tiDeviceID := cleanStringPtr (tiDeviceID e) \<rparr> in
      if tiSubscriptionID e' = [] \<or> tiBytesUp e' < 0 \<or> tiBytesDown e' < 0 then None
      else map_option (\<lambda>(cs, u, v). (e' # cs, u, v)) (clean_entries (wrap64 (up + tiBytesUp e')) (wrap64 (down + tiBytesDown e')) es))"

text \<open>The loop over the entries; each finds a world of its own, numbered from 0.\<close>

fun record_entries :: "(nat \<Rightarrow> panel_world) \<Rightarrow> string \<Rightarrow> TrafficReportItem list \<Rightarrow> db \<Rightarrow> (storage_error + unit) \<times> db" where
  "record_entries ws node [] = giveE ()"
| "record_entries ws node (e # es) =
     seqE (RecordTraffic (ws 0) (tiSubscriptionID e) (tiDeviceID e) node (tiBytesUp e) (tiBytesDown e))
       (\<lambda>_. record_entries (\<lambda>k. ws (Suc k)) node es)"

definition RecordReport :: "(panel_world \<Rightarrow> string \<Rightarrow> db \<Rightarrow> storage_error + string) option \<Rightarrow> panel_world \<Rightarrow> (nat \<Rightarrow> panel_world)
    \<Rightarrow> string \<Rightarrow> TrafficReportItem list \<Rightarrow> db \<Rightarrow> (storage_error + TrafficReportResult) \<times> db" where
  "RecordReport resolver w ws nodeToken entries = (case resolver of
     None \<Rightarrow> (\<lambda>d. (Inl (ErrPackage TrafficUnauthorized), d))
   | Some resolve \<Rightarrow>
     seqE (guardE (TrimSpace nodeToken \<noteq> []) TrafficUnauthorized) (\<lambda>_.
     seqE (guardE (entries \<noteq> []) TrafficInvalidInput) (\<lambda>_. case clean_entries 0 0 entries of
       None \<Rightarrow> (\<lambda>d. (Inl (ErrPackage TrafficInvalidInput), d))
     | Some (cleaned, up, down) \<Rightarrow>
       seqE (readE (\<lambda>d. case resolve w (TrimSpace nodeToken) d of
           Inl e \<Rightarrow> Inl (if e = ErrPackage TrafficNotFound then ErrPackage TrafficUnauthorized else e)
         | Inr node \<Rightarrow> Inr node)) (\<lambda>node.
       seqE (record_entries ws node cleaned) (\<lambda>_.
       giveE \<lparr> trNodeID = node, trAccepted = length cleaned, trBytesUp = up, trBytesDown = down,
         trBytesTotal = wrap64 (up + down), trReportedAt = pwNow w \<rparr>)))))"

definition ResetQuotaIfNeeded :: "panel_world \<Rightarrow> string \<Rightarrow> db \<Rightarrow> (storage_error + unit) \<times> db" where
  "ResetQuotaIfNeeded w i d = (case repo_GetQuota w (TrimSpace i) d of
     Inl e \<Rightarrow> (if e = ErrPackage TrafficNotFound then Inr () else Inl e, d)
   | Inr quota \<Rightarrow> (case quResetAt quota of
       None \<Rightarrow> (Inr (), d)
     | Some t \<Rightarrow> if t \<le> pwNow w then seqE (repo_ResetQuota w (TrimSpace i)) (\<lambda>_. giveE ()) d else (Inr (), d)))"

definition GetQuota :: "panel_world \<Rightarrow> string \<Rightarrow> db \<Rightarrow> (storage_error + TrafficQuota) \<times> db" where
  "GetQuota w i = seqE (guardE (TrimSpace i \<noteq> []) TrafficInvalidInput) (\<lambda>_.
     seqE (ResetQuotaIfNeeded w i) (\<lambda>_. readE (repo_GetQuota w (TrimSpace i))))"

definition SetQuota :: "panel_world \<Rightarrow> SetQuotaInput \<Rightarrow> db \<Rightarrow> (storage_error + TrafficQuota) \<times> db" where
  "SetQuota w input = (let i = input\<lparr> sqSubscriptionID := TrimSpace (sqSubscriptionID input) \<rparr> in
     seqE (guardE (sqSubscriptionID i \<noteq> []) TrafficInvalidInput) (\<lambda>_.
     seqE (guardE (case sqBytesLimit i of None \<Rightarrow> True | Some n \<Rightarrow> 0 < n) TrafficInvalidInput) (\<lambda>_.
     seqE (guardE (case sqBytesUsed i of None \<Rightarrow> True | Some n \<Rightarrow> 0 \<le> n) TrafficInvalidInput) (\<lambda>_.
     seqE (readE (\<lambda>d. case sqBytesUsed i of
         Some n \<Rightarrow> Inr n
       | None \<Rightarrow> (case repo_GetQuota w (sqSubscriptionID i) d of
           Inr current \<Rightarrow> Inr (quBytesUsed current)
         | Inl e \<Rightarrow> if e = ErrPackage TrafficNotFound then Inr 0 else Inl e))) (\<lambda>used. repo_SetQuota w i used)))))"

definition ResetQuota :: "panel_world \<Rightarrow> string \<Rightarrow> db \<Rightarrow> (storage_error + TrafficQuota) \<times> db" where
  "ResetQuota w i = seqE (guardE (TrimSpace i \<noteq> []) TrafficInvalidInput) (\<lambda>_. repo_ResetQuota w (TrimSpace i))"

text \<open>The three results of \<open>CheckQuota\<close>: used, limit, exceeded.\<close>

definition CheckQuota :: "panel_world \<Rightarrow> string \<Rightarrow> db \<Rightarrow> (storage_error + int \<times> int \<times> bool) \<times> db" where
  "CheckQuota w i d = (case GetQuota w i d of
     (Inl e, d') \<Rightarrow> (if e = ErrPackage TrafficNotFound then Inr (0, 0, False) else Inl e, d')
   | (Inr quota, d') \<Rightarrow> (Inr (case quBytesLimit quota of
         None \<Rightarrow> (quBytesUsed quota, 0, False)
       | Some limit \<Rightarrow> (quBytesUsed quota, limit, quExceeded quota)), d'))"

definition GetUsageBySubscription :: "panel_world \<Rightarrow> string \<Rightarrow> instant \<Rightarrow> instant \<Rightarrow> db \<Rightarrow> storage_error + TrafficUsage" where
  "GetUsageBySubscription w i start stop d = bindE (ensure (TrimSpace i \<noteq> []) (ErrPackage TrafficInvalidInput))
     (\<lambda>_. repo_GetUsageBySubscription w (TrimSpace i) start stop d)"

definition GetUsageByDevice :: "panel_world \<Rightarrow> string \<Rightarrow> instant \<Rightarrow> instant \<Rightarrow> db \<Rightarrow> storage_error + TrafficUsage" where
  "GetUsageByDevice w i start stop d = bindE (ensure (TrimSpace i \<noteq> []) (ErrPackage TrafficInvalidInput))
     (\<lambda>_. repo_GetUsageByDevice w (TrimSpace i) start stop d)"

definition GetUsageByNode :: "panel_world \<Rightarrow> string \<Rightarrow> instant \<Rightarrow> instant \<Rightarrow> db \<Rightarrow> storage_error + TrafficUsage" where
  "GetUsageByNode w i start stop d = bindE (ensure (TrimSpace i \<noteq> []) (ErrPackage TrafficInvalidInput))
     (\<lambda>_. repo_GetUsageByNode w (TrimSpace i) start stop d)"

end
