(* ===== verification/TrafficHandler.thy ===== *)
theory TrafficHandler
  imports TrafficService SubsHandler
begin

text \<open>
  \<open>services/panel-api/internal/handlers/traffic.go\<close>: usage and quotas for administrators, the report for nodes.  The events of
  a quota that is set carry the requested values.
\<close>

definition usage_json :: "TrafficUsage \<Rightarrow> any" where
  "usage_json u = AObj [(''resource_type'', AStr (ugResourceType u)), (''resource_id'', AStr (ugResourceID u)), (''bytes_up'', AInt (ugBytesUp u)),
     (''bytes_down'', AInt (ugBytesDown u)), (''bytes_total'', AInt (ugBytesTotal u)), (''from'', opt_time (ugFrom u)), (''to'', opt_time (ugTo u))]"

definition quota_json :: "TrafficQuota \<Rightarrow> any" where
  "quota_json q = AObj [(''id'', AStr (quID q)), (''subscription_id'', AStr (quSubscriptionID q)), (''bytes_limit'', opt_int (quBytesLimit q)),
     (''bytes_used'', AInt (quBytesUsed q)), (''bytes_remaining'', opt_int (quBytesRemaining q)), (''exceeded'', ABool (quExceeded q)),
     (''reset_at'', opt_time (quResetAt q)), (''created_at'', AStr (RFC3339Nano (quCreatedAt q))), (''updated_at'', AStr (RFC3339Nano (quUpdatedAt q)))]"

definition quota_times :: "TrafficQuota \<Rightarrow> instant list" where
  "quota_times q = (case quResetAt q of None \<Rightarrow> [] | Some t \<Rightarrow> [t]) @ [quCreatedAt q, quUpdatedAt q]"

definition report_result_json :: "TrafficReportResult \<Rightarrow> any" where
  "report_result_json t = AObj [(''node_id'', AStr (trNodeID t)), (''accepted'', AInt (int (trAccepted t))), (''bytes_up'', AInt (trBytesUp t)),
     (''bytes_down'', AInt (trBytesDown t)), (''bytes_total'', AInt (trBytesTotal t)), (''reported_at'', AStr (RFC3339Nano (trReportedAt t)))]"

definition writeTrafficError :: "storage_error \<Rightarrow> response" where
  "writeTrafficError e = (if e = ErrPackage TrafficInvalidInput then WriteBadRequest ''invalid traffic request''
     else if e = ErrPackage TrafficUnauthorized then WriteError 401 ''unauthorized'' ''node token is missing or invalid''
     else if e = ErrPackage TrafficNotFound then WriteNotFound ''traffic resource'' else WriteStorageError)"

definition trafficErrorReason :: "storage_error \<Rightarrow> string" where
  "trafficErrorReason e = (if e = ErrPackage TrafficInvalidInput then ''validation_error''
     else if e = ErrPackage TrafficNotFound then ''not_found'' else ''storage_error'')"

definition record_traffic :: "http_request \<Rightarrow> string \<Rightarrow> string \<Rightarrow> string \<Rightarrow> string \<Rightarrow> obj option \<Rightarrow> audit_event" where
  "record_traffic r action resource outcome reason changes = (record_event ''traffic_quota'' r action resource outcome reason)\<lparr> avChanges := changes \<rparr>"

definition quotaChanges :: "int option \<Rightarrow> int option \<Rightarrow> instant option \<Rightarrow> obj" where
  "quotaChanges limit used resetAt = [(''bytes_limit'', opt_int limit)] @ (case used of None \<Rightarrow> [] | Some n \<Rightarrow> [(''bytes_used'', AInt n)])
     @ (case resetAt of None \<Rightarrow> [] | Some t \<Rightarrow> [(''reset_at'', AStr (RFC3339 t))])"

definition parseOptionalTime :: "string \<Rightarrow> string \<Rightarrow> response + instant" where
  "parseOptionalTime v name = (if v = [] then Inr 0 else case ParseRFC3339 v of
     None \<Rightarrow> Inl (WriteBadRequest (name @ '' must be an RFC3339 timestamp'')) | Some t \<Rightarrow> Inr t)"

definition parseTrafficPeriod :: "http_request \<Rightarrow> response + instant \<times> instant" where
  "parseTrafficPeriod r = bindE (parseOptionalTime (TrimSpace (query_value ''from'' r)) ''from'') (\<lambda>start.
     bindE (parseOptionalTime (TrimSpace (query_value ''to'' r)) ''to'') (\<lambda>stop.
     if start \<noteq> 0 \<and> stop \<noteq> 0 \<and> stop < start then Inl (WriteBadRequest ''from must be before or equal to to'') else Inr (start, stop)))"

definition usage_reply :: "(instant \<Rightarrow> instant \<Rightarrow> db \<Rightarrow> storage_error + TrafficUsage) \<Rightarrow> http_request \<Rightarrow> db \<Rightarrow> reply" where
  "usage_reply get r d = (case parseTrafficPeriod r of
     Inl answer \<Rightarrow> (answer, d, [])
   | Inr (start, stop) \<Rightarrow> (case get start stop d of
       Inl e \<Rightarrow> (writeTrafficError e, d, [])
     | Inr u \<Rightarrow> (WriteJSON 200 (usage_json u), d, [])))"

definition traffic_Subscription :: "panel_world \<Rightarrow> http_request \<Rightarrow> db \<Rightarrow> reply" where
  "traffic_Subscription w r = usage_reply (GetUsageBySubscription w (path_value ''id'' r)) r"

definition traffic_Device :: "panel_world \<Rightarrow> http_request \<Rightarrow> db \<Rightarrow> reply" where
  "traffic_Device w r = usage_reply (GetUsageByDevice w (path_value ''id'' r)) r"

definition traffic_Node :: "panel_world \<Rightarrow> http_request \<Rightarrow> db \<Rightarrow> reply" where
  "traffic_Node w r = usage_reply (GetUsageByNode w (path_value ''id'' r)) r"

definition traffic_GetQuota :: "panel_world \<Rightarrow> http_request \<Rightarrow> db \<Rightarrow> reply" where
  "traffic_GetQuota w r d = (case GetQuota w (path_value ''id'' r) d of
     (Inl e, d') \<Rightarrow> (writeTrafficError e, d', [])
   | (Inr q, d') \<Rightarrow> (WriteTimed 200 (quota_times q) (quota_json q), d', []))"

definition decode_set_quota :: "obj \<Rightarrow> SetQuotaInput option" where
  "decode_set_quota m = (case (dec_ptr int_of_any m ''bytes_limit'', dec_ptr int_of_any m ''bytes_used'', dec_ptr time_of_any m ''reset_at'') of
     (Some l, Some u, Some t) \<Rightarrow> Some \<lparr> sqSubscriptionID = [], sqBytesLimit = l, sqBytesUsed = u, sqResetAt = t \<rparr>
   | _ \<Rightarrow> None)"

definition traffic_SetQuota :: "panel_world \<Rightarrow> http_request \<Rightarrow> db \<Rightarrow> reply" where
  "traffic_SetQuota w r d = (case Option.bind (body_obj r) decode_set_quota of
     None \<Rightarrow> (WriteBadRequest ''invalid JSON request body'', d, [])
   | Some q \<Rightarrow>
     if (case sqBytesLimit q of None \<Rightarrow> False | Some n \<Rightarrow> n \<le> 0)
       then (WriteBadRequest ''bytes_limit must be greater than zero when provided'', d, [])
     else if (case sqBytesUsed q of None \<Rightarrow> False | Some n \<Rightarrow> n < 0)
       then (WriteBadRequest ''bytes_used must be greater than or equal to zero'', d, [])
     else let i = path_value ''id'' r; changes = Some (quotaChanges (sqBytesLimit q) (sqBytesUsed q) (sqResetAt q)) in
       (case SetQuota w (q\<lparr> sqSubscriptionID := i \<rparr>) d of
         (Inl e, d') \<Rightarrow> (writeTrafficError e, d', [record_traffic r ''traffic.quota.set'' i OutcomeFailure (trafficErrorReason e) changes])
       | (Inr s, d') \<Rightarrow> (WriteTimed 200 (quota_times s) (quota_json s), d', [record_traffic r ''traffic.quota.set'' i OutcomeSuccess [] changes])))"

definition traffic_ResetQuota :: "panel_world \<Rightarrow> http_request \<Rightarrow> db \<Rightarrow> reply" where
  "traffic_ResetQuota w r d = (let i = path_value ''id'' r in case ResetQuota w i d of
     (Inl e, d') \<Rightarrow> (writeTrafficError e, d', [record_traffic r ''traffic.quota.reset'' i OutcomeFailure (trafficErrorReason e) None])
   | (Inr q, d') \<Rightarrow> (WriteTimed 200 (quota_times q) (quota_json q), d', [record_traffic r ''traffic.quota.reset'' i OutcomeSuccess [] None]))"

text \<open>The entries: null is no list, and a null entry is the zero value.\<close>

definition decode_entry :: "any \<Rightarrow> TrafficReportItem option" where
  "decode_entry v = (case (if v = ANil then Some [] else as_obj v) of
     None \<Rightarrow> None
   | Some m \<Rightarrow> (case (dec_str m ''subscription_id'', dec_ptr as_str m ''device_id'', dec_int m ''bytes_up'', dec_int m ''bytes_down'') of
       (Some s, Some t, Some u, Some n) \<Rightarrow> Some \<lparr> tiSubscriptionID = s, tiDeviceID = t, tiBytesUp = u, tiBytesDown = n \<rparr>
     | _ \<Rightarrow> None))"

definition decode_entries :: "any \<Rightarrow> TrafficReportItem list option" where
  "decode_entries v = (if v = ANil then Some [] else Option.bind (as_arr v) (\<lambda>vs. all_some (map decode_entry vs)))"

definition traffic_Report :: "(panel_world \<Rightarrow> string \<Rightarrow> db \<Rightarrow> storage_error + string) option \<Rightarrow> panel_world \<Rightarrow> (nat \<Rightarrow> panel_world)
    \<Rightarrow> http_request \<Rightarrow> db \<Rightarrow> reply" where
  "traffic_Report resolver w ws r d = (case bearerToken (hqAuthorization r) of
     None \<Rightarrow> (WriteError 401 ''unauthorized'' ''node token is missing or invalid'', d, [])
   | Some token \<Rightarrow> (case Option.bind (hqBody r) decode_entries of
       None \<Rightarrow> (WriteBadRequest ''invalid JSON request body'', d, [])
     | Some entries \<Rightarrow> (case RecordReport resolver w ws token entries d of
         (Inl e, d') \<Rightarrow> (writeTrafficError e, d', [])
       | (Inr t, d') \<Rightarrow> (WriteTimed 200 [trReportedAt t] (report_result_json t), d', []))))"

end
