(* ===== verification/TrafficProps.thy ===== *)
theory TrafficProps
  imports AgentTraffic TrafficService SubsTheorems
begin

text \<open>The collector against a reference: one record for each subscription and device, with the sums of its lines.\<close>

lemma wrap64_0 [simp]: "wrap64 0 = 0"
  by (simp add: wrap64_def)

lemma wrap64_add [simp]: "wrap64 (wrap64 a + b) = wrap64 (a + b)" "wrap64 (a + wrap64 b) = wrap64 (a + b)"
  by (simp_all add: wrap64_def)

lemma wrap64_small: "int8 n \<Longrightarrow> wrap64 n = n"
  by (simp add: wrap64_def int8_def int_word_sint)

lemma wrap64_range: "int8 (wrap64 n)"
  using sint_range_size [of "word_of_int n :: 64 word"] by (simp add: wrap64_def int8_def word_size)

type_synonym stat = "(string \<times> string) \<times> string \<times> int"

definition record_key :: "Record \<Rightarrow> string \<times> string" where
  "record_key r = (rcSubscriptionID r, rcDeviceID r)"

text \<open>The sum of what the lines of a key count in a direction.\<close>

definition counted :: "stat list \<Rightarrow> string \<times> string \<Rightarrow> string \<Rightarrow> int" where
  "counted ss k direction = sum_list (map (\<lambda>s. snd (snd s)) (filter (\<lambda>s. fst s = k \<and> fst (snd s) = direction) ss))"

definition tallies :: "stat list \<Rightarrow> Record list \<Rightarrow> bool" where
  "tallies ss rs \<longleftrightarrow> distinct (map record_key rs) \<and> set (map record_key rs) = fst ` set ss
     \<and> (\<forall>r \<in> set rs. rcBytesUp r = wrap64 (counted ss (record_key r) ''uplink'') \<and> rcBytesDown r = wrap64 (counted ss (record_key r) ''downlink''))"

lemma counted_snoc:
  "counted (ss @ [s]) k direction = counted ss k direction + (if fst s = k \<and> fst (snd s) = direction then snd (snd s) else 0)"
  by (simp add: counted_def)

lemma counted_none: "k \<notin> fst ` set ss \<Longrightarrow> counted ss k direction = 0"
proof -
  assume "k \<notin> fst ` set ss"
  then have "filter (\<lambda>s. fst s = k \<and> fst (snd s) = direction) ss = []" by (auto simp: filter_empty_conv)
  then show ?thesis by (simp add: counted_def)
qed

definition add_value :: "string \<Rightarrow> int \<Rightarrow> Record \<Rightarrow> Record" where
  "add_value direction value r = (if direction = ''uplink'' then r\<lparr> rcBytesUp := wrap64 (rcBytesUp r + value) \<rparr>
     else if direction = ''downlink'' then r\<lparr> rcBytesDown := wrap64 (rcBytesDown r + value) \<rparr> else r)"

lemma record_key_add_value [simp]: "record_key (add_value direction v r) = record_key r"
  by (simp add: add_value_def record_key_def)

lemma add_stat_key:
  "add_stat rs ((k, direction, v)) = upd_where (\<lambda>r. record_key r = k) (add_value direction v)
     (if k \<in> set (map record_key rs) then rs
      else rs @ [\<lparr> rcSubscriptionID = fst k, rcDeviceID = snd k, rcBytesUp = 0, rcBytesDown = 0 \<rparr>])"
proof -
  have "list_ex (\<lambda>r. rcSubscriptionID r = fst k \<and> rcDeviceID r = snd k) rs \<longleftrightarrow> k \<in> set (map record_key rs)"
    by (cases k) (auto simp: list_ex_iff record_key_def)
  then show ?thesis
    by (cases k) (simp add: add_stat_def record_key_def add_value_def [abs_def] Let_def)
qed

lemma tallies_add_stat:
  assumes "tallies ss rs"
  shows "tallies (ss @ [s]) (add_stat rs s)"
proof -
  obtain k direction v where s: "s = (k, direction, v)" by (metis prod.collapse)
  define all where "all = (if k \<in> set (map record_key rs) then rs
      else rs @ [\<lparr> rcSubscriptionID = fst k, rcDeviceID = snd k, rcBytesUp = 0, rcBytesDown = 0 \<rparr>])"
  have new: "record_key \<lparr> rcSubscriptionID = fst k, rcDeviceID = snd k, rcBytesUp = 0, rcBytesDown = 0 \<rparr> = k" by (simp add: record_key_def)
  have a: "distinct (map record_key all)" "set (map record_key all) = insert k (fst ` set ss)"
    "\<forall>r \<in> set all. rcBytesUp r = wrap64 (counted ss (record_key r) ''uplink'') \<and> rcBytesDown r = wrap64 (counted ss (record_key r) ''downlink'')"
    using assms counted_none [of k ss] unfolding tallies_def all_def by (auto simp: new)
  have keys: "map record_key (add_stat rs s) = map record_key all"
    unfolding s add_stat_key all_def [symmetric] by (rule map_key_upd_where) simp
  have "rcBytesUp r = wrap64 (counted (ss @ [s]) (record_key r) ''uplink'')
      \<and> rcBytesDown r = wrap64 (counted (ss @ [s]) (record_key r) ''downlink'')" if r: "r \<in> set (add_stat rs s)" for r
  proof -
    obtain q where q: "q \<in> set all" "r = (if record_key q = k then add_value direction v q else q)"
      using r unfolding s add_stat_key all_def [symmetric] set_upd_where by blast
    then show ?thesis using a(3) by (auto simp: s counted_snoc add_value_def record_key_def)
  qed
  then show ?thesis unfolding tallies_def keys using a(1,2) by (simp add: s)
qed

lemma tallies_fold: "tallies ss (foldl add_stat [] ss)"
  by (induction ss rule: rev_induct) (simp add: tallies_def, simp add: tallies_add_stat)

text \<open>
  C31 The collector counts every line once: whatever order Go walks its map in, there is one record for each subscription and
  device, its bytes are the wrapped sums of the values of its uplink and downlink lines, and no record with a positive
  count is missing.
\<close>

theorem parsed_stats_are_sums:
  assumes "\<And>xs. mset (order xs) = mset xs"
  shows "distinct (map record_key (parseXrayStats order out))
    \<and> (\<forall>r. r \<in> set (parseXrayStats order out) \<longleftrightarrow>
         record_key r \<in> fst ` set (List.map_filter stat_of_line (scan_lines out))
         \<and> rcBytesUp r = wrap64 (counted (List.map_filter stat_of_line (scan_lines out)) (record_key r) ''uplink'')
         \<and> rcBytesDown r = wrap64 (counted (List.map_filter stat_of_line (scan_lines out)) (record_key r) ''downlink'')
         \<and> (0 < rcBytesUp r \<or> 0 < rcBytesDown r))"
proof -
  define ss where "ss = List.map_filter stat_of_line (scan_lines out)"
  define rs where "rs = foldl add_stat [] ss"
  have t: "tallies ss rs" unfolding rs_def by (rule tallies_fold)
  have set: "set (order rs) = set rs" using assms by (metis mset_eq_setD)
  have "mset (map record_key (order rs)) = mset (map record_key rs)" using assms by simp
  then have d: "distinct (map record_key (order rs))" using t unfolding tallies_def by (metis mset_eq_imp_distinct_iff)
  have p: "parseXrayStats order out = filter (\<lambda>r. 0 < rcBytesUp r \<or> 0 < rcBytesDown r) (order rs)"
    by (simp add: parseXrayStats_def rs_def ss_def)
  have "r \<in> set rs" if k: "record_key r \<in> fst ` set ss" and up: "rcBytesUp r = wrap64 (counted ss (record_key r) ''uplink'')"
    and down: "rcBytesDown r = wrap64 (counted ss (record_key r) ''downlink'')" for r
  proof -
    have "record_key r \<in> set (map record_key rs)" using k t by (simp add: tallies_def)
    then obtain q where q: "q \<in> set rs" "record_key q = record_key r" by (auto elim!: imageE)
    then have "rcBytesUp q = rcBytesUp r" "rcBytesDown q = rcBytesDown r" using t up down unfolding tallies_def by simp_all
    then have "q = r" using q(2) by (simp add: record_key_def)
    then show ?thesis using q(1) by simp
  qed
  then have mem: "r \<in> set rs \<longleftrightarrow> record_key r \<in> fst ` set ss \<and> rcBytesUp r = wrap64 (counted ss (record_key r) ''uplink'')
      \<and> rcBytesDown r = wrap64 (counted ss (record_key r) ''downlink'')" for r
    using t imageI [of r "set rs" record_key] unfolding tallies_def set_map by auto
  show ?thesis
    unfolding ss_def [symmetric] p
  proof (intro conjI allI)
    show "distinct (map record_key (filter (\<lambda>r. 0 < rcBytesUp r \<or> 0 < rcBytesDown r) (order rs)))" by (rule distinct_map_filter [OF d])
  qed (simp only: set_filter mem_Collect_eq set mem conj_assoc)
qed

lemma parsed_stats_are_sums_witness:
  "distinct (map record_key (parseXrayStats rev ''user>>>a@b>>>traffic>>>uplink  value: 12''))"
  using parsed_stats_are_sums [of rev] by simp

section \<open>The statements of the repository\<close>

text \<open>
  What the statements of the traffic repository write, as effects on two ledgers: the bytes a subscription has used by its
  own row and by its quota.
\<close>

section \<open>Trimming twice\<close>

lemma space_len_pos: "[] \<notin> set ps \<Longrightarrow> space_len ps s = 0 \<longleftrightarrow> (\<forall>p \<in> set ps. \<not> has_prefix s p)"
proof (cases "List.find (has_prefix s) ps")
  case None
  then have "\<forall>p \<in> set ps. \<not> has_prefix s p" by (auto simp: find_None_iff)
  then show ?thesis using None by (simp add: space_len_def)
next
  case (Some p)
  then have "p \<in> set ps" "has_prefix s p" by (auto dest: find_Some_D)
  then show "[] \<notin> set ps \<Longrightarrow> ?thesis" using Some by (auto simp: space_len_def)
qed

lemma strip_left_stops: "space_len ps (strip_left ps s) = 0 \<or> strip_left ps s = []"
proof (induction ps s rule: strip_left.induct)
  case (1 ps s)
  show ?case
  proof (cases "space_len ps s = 0 \<or> s = []")
    case True
    then have "strip_left ps s = s" by (subst strip_left.simps) (simp add: Let_def)
    then show ?thesis using True by auto
  next
    case False
    then have "strip_left ps s = strip_left ps (drop (space_len ps s) s)" by (subst strip_left.simps) (simp add: Let_def)
    then show ?thesis using 1 False by simp
  qed
qed

lemma strip_left_again [simp]: "strip_left ps (strip_left ps s) = strip_left ps s"
  using strip_left_stops [of ps s] by (subst strip_left.simps) (auto simp: Let_def)

lemma has_prefix_take: "has_prefix (take n s) p \<Longrightarrow> has_prefix s p"
  by (auto simp: has_prefix_def min_def split: if_splits)

lemma TrimSpace_again [simp]: "TrimSpace (TrimSpace s) = TrimSpace s"
proof -
  define t where "t = strip_left spaces s"
  define r where "r = rev (strip_left (map rev spaces) (rev t))"
  have ne: "[] \<notin> set spaces" using spaces_first by blast
  obtain u where u: "rev t = u @ strip_left (map rev spaces) (rev t)" using strip_left_suffix by blast
  then have "t = r @ rev u" unfolding r_def by (metis rev_append rev_rev_ident)
  then have pre: "has_prefix t p" if "has_prefix r p" for p
    using that has_prefix_take [of "length r" t p] by simp
  have "strip_left spaces r = r"
  proof (cases "t = []")
    case True
    then show ?thesis by (simp add: r_def)
  next
    case False
    then have "space_len spaces t = 0" using strip_left_stops [of spaces s] by (simp add: t_def)
    then have "\<not> has_prefix r p" if "p \<in> set spaces" for p using pre that by (auto simp: space_len_pos [OF ne])
    then show ?thesis by (rule strip_left_id)
  qed
  then have "TrimSpace r = rev (strip_left (map rev spaces) (rev r))" by (simp add: TrimSpace_def)
  also have "\<dots> = r" by (simp add: r_def)
  finally show ?thesis by (simp add: TrimSpace_def r_def t_def)
qed

section \<open>Effects\<close>

definition sub_used :: "db \<Rightarrow> uuid \<Rightarrow> int option" where
  "sub_used d u = map_option suTrafficUsed (subscription_by_id u d)"

definition quota_used :: "db \<Rightarrow> uuid \<Rightarrow> int option" where
  "quota_used d u = map_option tqBytesUsed (quota_by_sub u d)"

lemma row_with_put:
  "key s' = u \<Longrightarrow> row_with key v (upd_where (\<lambda>r. key r = u) (\<lambda>_. s') rows)
     = (if v = u then map_option (\<lambda>_. s') (row_with key u rows) else row_with key v rows)"
  by (induction rows) auto

lemma exec_subscription_done:
  assumes "exec_subscription u f d = Inr (n, d')"
  obtains (none) "subscription_by_id u d = None" "n = 0" "d' = d"
  | (one) s where "subscription_by_id u d = Some s" "n = 1"
      "put_subscriptions [f s] (upd_where (\<lambda>r. suID r = u) (\<lambda>_. f s) (dbSubscriptions d)) d = Inr d'"
  using assms unfolding exec_subscription_def by (auto simp: stmt_simps split: option.splits)

lemma subscription_by_id_id: "subscription_by_id u d = Some s \<Longrightarrow> suID s = u"
  using row_with_SomeD [of suID u "dbSubscriptions d" s] by (simp add: subscription_by_id_def)

lemma quota_by_sub_id: "quota_by_sub u d = Some q \<Longrightarrow> tqSubscriptionID q = u"
  using row_with_SomeD [of tqSubscriptionID u "dbQuotas d" q] by (simp add: quota_by_sub_def)

lemma put_one_subscription:
  assumes "put_subscriptions [s'] (upd_where (\<lambda>r. suID r = u) (\<lambda>_. s') (dbSubscriptions d)) d = Inr d'" and "suID s' = u"
    and "subscription_by_id u d = Some s"
  shows "subscription_by_id v d' = (if v = u then Some s' else subscription_by_id v d)" "quota_by_sub v d' = quota_by_sub v d"
    "dbTraffic d' = dbTraffic d" "dbQuotas d' = dbQuotas d" "subscription_ints_ok s'" "subscription_row_ok s'"
  using assms row_with_put [where key = suID and s' = s' and u = u and v = v and rows = "dbSubscriptions d"]
  by (simp_all add: put_subscriptions_Inr subscription_by_id_def quota_by_sub_def)

lemma upsert_quota_done:
  assumes "upsert_quota u propose merge d = Inr (x, d')"
  obtains (inserted) s where "subscription_by_id u d = Some s" "quota_by_sub u d = None" "x = scanTrafficQuota (propose s)"
      "quota_ints_ok (propose s)" "quota_row_ok (propose s)" "tqID (propose s) \<notin> tqID ` set (dbQuotas d)"
      "d' = d\<lparr> dbQuotas := dbQuotas d @ [propose s] \<rparr>"
  | (merged) s old where "subscription_by_id u d = Some s" "quota_by_sub u d = Some old" "x = scanTrafficQuota (merge (propose s) old)"
      "quota_ints_ok (propose s)" "quota_row_ok (propose s)" "quota_ints_ok (merge (propose s) old)" "quota_row_ok (merge (propose s) old)"
      "d' = d\<lparr> dbQuotas := upd_where (\<lambda>r. tqSubscriptionID r = u) (\<lambda>_. merge (propose s) old) (dbQuotas d) \<rparr>"
proof (cases "quota_by_sub u d")
  case None
  then show thesis using assms inserted unfolding upsert_quota_def by (auto simp: stmt_simps Let_def)
next
  case (Some old)
  then show thesis using assms merged unfolding upsert_quota_def by (auto simp: stmt_simps Let_def)
qed

lemma quota_inserted:
  "quota_by_sub u d = None \<Longrightarrow> tqSubscriptionID q = u \<Longrightarrow>
   quota_by_sub v (d\<lparr> dbQuotas := dbQuotas d @ [q] \<rparr>) = (if v = u then Some q else quota_by_sub v d)"
  by (auto simp: quota_by_sub_def row_with_append split: option.splits)

lemma quota_merged:
  "quota_by_sub u d = Some old \<Longrightarrow> tqSubscriptionID q = u \<Longrightarrow>
   quota_by_sub v (d\<lparr> dbQuotas := upd_where (\<lambda>r. tqSubscriptionID r = u) (\<lambda>_. q) (dbQuotas d) \<rparr>)
     = (if v = u then Some q else quota_by_sub v d)"
  by (simp add: quota_by_sub_def row_with_put)

lemma subscription_frame [simp]: "subscription_by_id v (d\<lparr> dbQuotas := qs \<rparr>) = subscription_by_id v d"
  "subscription_by_id v (d\<lparr> dbTraffic := ts \<rparr>) = subscription_by_id v d" "quota_by_sub v (d\<lparr> dbTraffic := ts \<rparr>) = quota_by_sub v d"
  by (simp_all add: subscription_by_id_def quota_by_sub_def)

lemma IncrementQuota_done:
  assumes "IncrementQuota w i delta d = (Inr x, d')"
  obtains u s where "uuid_cast i = Some u" "subscription_by_id u d = Some s" "0 \<le> delta" "dbTraffic d' = dbTraffic d"
    "subscription_by_id u d' = Some (s\<lparr> suTrafficUsed := suTrafficUsed s + delta, srUpdatedAt := pwPgNow w \<rparr>)"
    "int8 (suTrafficUsed s + delta)"
    "sub_used d' = (sub_used d)(u \<mapsto> suTrafficUsed s + delta)"
    "quota_used d' = (quota_used d)(u \<mapsto> (case quota_used d u of None \<Rightarrow> 0 | Some n \<Rightarrow> n) + delta)"
proof -
  obtain u d1 n where u: "uuid_cast i = Some u"
      "upsert_quota u (\<lambda>s. new_quota w (suTrafficLimit s) delta None s)
         (\<lambda>new old. old\<lparr> tqBytesUsed := tqBytesUsed old + tqBytesUsed new, tqUpdatedAt := pwPgNow w \<rparr>) d = Inr (x, d1)"
      "exec_subscription u (\<lambda>s. s\<lparr> suTrafficUsed := suTrafficUsed s + delta, srUpdatedAt := pwPgNow w \<rparr>) d1 = Inr (n, d')"
    using assms unfolding IncrementQuota_def by (auto simp: seq_simps stmt_simps)
  obtain s where s: "subscription_by_id u d = Some s" "0 \<le> delta" "dbTraffic d1 = dbTraffic d"
      "\<And>v. subscription_by_id v d1 = subscription_by_id v d"
      "quota_used d1 = (quota_used d)(u \<mapsto> (case quota_used d u of None \<Rightarrow> 0 | Some n \<Rightarrow> n) + delta)"
    using u(2)
  proof (cases rule: upsert_quota_done)
    case (inserted s)
    show thesis
      by (rule that [of s])
        (use inserted in \<open>simp_all add: fun_eq_iff quota_used_def quota_inserted new_quota_def quota_row_ok_def subscription_by_id_id\<close>)
  next
    case (merged s old)
    show thesis
      by (rule that [of s])
        (use merged in \<open>simp_all add: fun_eq_iff quota_used_def quota_merged new_quota_def quota_row_ok_def quota_by_sub_id\<close>)
  qed
  show thesis
    using u(3)
  proof (cases rule: exec_subscription_done)
    case none
    then show thesis using s by simp
  next
    case (one s')
    have "s' = s" using one(1) s(1,4) by simp
    note P = put_one_subscription [OF one(3) _ one(1)]
    have k: "suID (s'\<lparr> suTrafficUsed := suTrafficUsed s' + delta, srUpdatedAt := pwPgNow w \<rparr>) = u"
      using one(1) by (simp add: subscription_by_id_id)
    show thesis
      by (rule that [OF u(1) s(1,2)])
        (use P [OF k] s \<open>s' = s\<close> in \<open>simp_all add: fun_eq_iff sub_used_def quota_used_def subscription_ints_ok_def\<close>)
  qed
qed

lemma CreateLog_done:
  assumes "CreateLog w l d = (Inr x, d')"
  obtains t where "d' = d\<lparr> dbTraffic := dbTraffic d @ [t] \<rparr>" "uuid_cast (lgSubscriptionID l) = Some (tlSubscriptionID t)"
    "uuid_cast (lgNodeID l) = Some (tlNodeID t)" "tlBytesUp t = lgBytesUp l" "tlBytesDown t = lgBytesDown l" "traffic_row_ok t"
    "int8 (tlBytesUp t)" "int8 (tlBytesDown t)" "tlID t \<notin> tlID ` set (dbTraffic d)"
    "tlSubscriptionID t \<in> suID ` set (dbSubscriptions d)" "tlNodeID t \<in> ndID ` set (dbNodes d)"
proof -
  obtain sub dev node where c: "uuid_cast (lgSubscriptionID l) = Some sub" "uuid_cast (lgNodeID l) = Some node"
      "put_traffic (log_row w l sub dev node) d = Inr d'"
    using assms unfolding CreateLog_def alone_Inr bindE_Inr uuid_param_iff by blast
  show thesis
    by (rule that [of "log_row w l sub dev node"])
      (use c in \<open>simp_all add: put_traffic_def bindE_Inr constraints_iff, simp_all add: log_row_def\<close>)
qed

lemma wrapped_sum_exact:
  assumes "int8 a" "int8 b" "0 \<le> a" "0 \<le> b" "0 \<le> wrap64 (a + b)"
  shows "wrap64 (a + b) = a + b"
proof -
  have bounds: "a + b < 2 ^ 64 - 1" "0 \<le> a + b" using assms by (simp_all add: int8_def)
  have "wrap64 (a + b) = (a + b + 2 ^ 63) mod 2 ^ 64 - 2 ^ 63" unfolding wrap64_def int_word_sint by simp
  with bounds have "a + b < 2 ^ 63 \<or> wrap64 (a + b) = a + b - 2 ^ 64"
    by (cases "a + b < 2 ^ 63") (simp_all add: mod_pos_geq)
  then show ?thesis
  proof
    assume "a + b < 2 ^ 63"
    then have "int8 (a + b)" using assms(3,4) by (simp add: int8_def)
    then show ?thesis by (rule wrap64_small)
  qed (use assms(5) bounds in simp)
qed

text \<open>A log and an increment: a sum that would wrap is refused, so what is added is the true sum.\<close>

lemma RecordTraffic_done:
  assumes "RecordTraffic w i device node up down d = (Inr x, d')"
  obtains t u where "uuid_cast (TrimSpace i) = Some u" "tlSubscriptionID t = u" "tlBytesUp t = up" "tlBytesDown t = down"
    "uuid_cast (TrimSpace node) = Some (tlNodeID t)" "dbTraffic d' = dbTraffic d @ [t]" "0 \<le> up" "0 \<le> down" "sub_used d u \<noteq> None"
    "sub_used d' = (sub_used d)(u := map_option (\<lambda>n. n + (up + down)) (sub_used d u))"
    "quota_used d' = (quota_used d)(u \<mapsto> (case quota_used d u of None \<Rightarrow> 0 | Some n \<Rightarrow> n) + (up + down))"
proof -
  obtain l d1 q where r: "0 \<le> up" "0 \<le> down" "CreateLog w \<lparr> lgID = [], lgSubscriptionID = TrimSpace i, lgDeviceID = cleanStringPtr device,
        lgNodeID = TrimSpace node, lgBytesUp = up, lgBytesDown = down, lgBytesTotal = 0, lgRecordedAt = pwNow w, lgCreatedAt = 0 \<rparr> d = (Inr l, d1)"
      "IncrementQuota w (TrimSpace i) (wrap64 (up + down)) d1 = (Inr q, d')"
    using assms unfolding RecordTraffic_def by (auto simp: seq_simps)
  obtain t where t: "d1 = d\<lparr> dbTraffic := dbTraffic d @ [t] \<rparr>" "uuid_cast (TrimSpace i) = Some (tlSubscriptionID t)"
      "uuid_cast (TrimSpace node) = Some (tlNodeID t)" "tlBytesUp t = up" "tlBytesDown t = down" "int8 up" "int8 down"
    using CreateLog_done [OF r(3)] by (metis TrafficLog.select_convs)
  obtain u s where u: "uuid_cast (TrimSpace i) = Some u" "subscription_by_id u d1 = Some s" "0 \<le> wrap64 (up + down)" "dbTraffic d' = dbTraffic d1"
      "subscription_by_id u d' = Some (s\<lparr> suTrafficUsed := suTrafficUsed s + wrap64 (up + down), srUpdatedAt := pwPgNow w \<rparr>)"
      "int8 (suTrafficUsed s + wrap64 (up + down))"
      "sub_used d' = (sub_used d1)(u \<mapsto> suTrafficUsed s + wrap64 (up + down))"
      "quota_used d' = (quota_used d1)(u \<mapsto> (case quota_used d1 u of None \<Rightarrow> 0 | Some n \<Rightarrow> n) + wrap64 (up + down))"
    by (rule IncrementQuota_done [OF r(4)])
  have e: "wrap64 (up + down) = up + down" by (rule wrapped_sum_exact [OF t(6,7) r(1,2) u(3)])
  have d1: "sub_used d1 = sub_used d" "quota_used d1 = quota_used d" by (simp_all add: t(1) sub_used_def quota_used_def fun_eq_iff)
  have s: "sub_used d u = Some (suTrafficUsed s)" using u(2) by (simp add: t(1) sub_used_def)
  have tu: "tlSubscriptionID t = u" using t(2) u(1) by simp
  have tr: "dbTraffic d' = dbTraffic d @ [t]" using u(4) t(1) by simp
  show thesis
    by (rule that [OF u(1) tu t(4,5,3) tr r(1,2)]) (use u(7,8) in \<open>simp_all add: d1 e s\<close>)
qed

end
