(* ===== verification/TrafficTheorems.thy ===== *)
theory TrafficTheorems
  imports TrafficProps
begin

text \<open>
  The accounting of traffic against a ledger: what a report adds to each subscription, what a report that fails leaves behind,
  what a quota shows, and which limit counts after the first report.
\<close>

section \<open>Posting a report\<close>

definition entry_subscription :: "TrafficReportItem \<Rightarrow> uuid option" where
  "entry_subscription e = uuid_cast (TrimSpace (tiSubscriptionID e))"

text \<open>The bytes a report names for a subscription, as mathematical integers.\<close>

definition posted :: "TrafficReportItem list \<Rightarrow> uuid \<Rightarrow> int" where
  "posted es u = sum_list (map (\<lambda>e. tiBytesUp e + tiBytesDown e) (filter (\<lambda>e. entry_subscription e = Some u) es))"

definition logs_entry :: "TrafficReportItem \<Rightarrow> traffic_row \<Rightarrow> bool" where
  "logs_entry e t \<longleftrightarrow> entry_subscription e = Some (tlSubscriptionID t) \<and> tlBytesUp t = tiBytesUp e \<and> tlBytesDown t = tiBytesDown e"

definition quota_posted :: "TrafficReportItem list \<Rightarrow> db \<Rightarrow> uuid \<Rightarrow> int option" where
  "quota_posted es d u = (if \<exists>e \<in> set es. entry_subscription e = Some u
     then Some ((case quota_used d u of None \<Rightarrow> 0 | Some n \<Rightarrow> n) + posted es u) else quota_used d u)"

definition clean_entry :: "TrafficReportItem \<Rightarrow> TrafficReportItem" where
  "clean_entry e = e\<lparr> tiSubscriptionID := TrimSpace (tiSubscriptionID e), tiDeviceID := cleanStringPtr (tiDeviceID e) \<rparr>"

lemma clean_entry_fields [simp]:
  "tiBytesUp (clean_entry e) = tiBytesUp e" "tiBytesDown (clean_entry e) = tiBytesDown e"
  "tiSubscriptionID (clean_entry e) = TrimSpace (tiSubscriptionID e)" "entry_subscription (clean_entry e) = entry_subscription e"
  by (simp_all add: clean_entry_def entry_subscription_def)

lemma posted_simps [simp]: "posted [] u = 0"
  "posted (e # es) u = (if entry_subscription e = Some u then tiBytesUp e + tiBytesDown e else 0) + posted es u"
  by (simp_all add: posted_def)

lemma posted_clean [simp]: "posted (map clean_entry es) u = posted es u"
  by (induction es) simp_all

lemma quota_posted_clean [simp]: "quota_posted (map clean_entry es) d u = quota_posted es d u"
  by (simp add: quota_posted_def)

lemma logs_clean [simp]: "logs_entry (clean_entry e) t = logs_entry e t"
  by (simp add: logs_entry_def)

lemma clean_entries_done:
  assumes "clean_entries a b es = Some (cs, up, down)" and "wrap64 a = a" and "wrap64 b = b"
  shows "cs = map clean_entry es \<and> up = wrap64 (a + sum_list (map tiBytesUp es)) \<and> down = wrap64 (b + sum_list (map tiBytesDown es))"
  using assms
proof (induction es arbitrary: a b cs)
  case (Cons e es)
  obtain ds where d: "clean_entries (wrap64 (a + tiBytesUp e)) (wrap64 (b + tiBytesDown e)) es = Some (ds, up, down)" "cs = clean_entry e # ds"
    using Cons.prems(1) by (auto simp: Let_def clean_entry_def split: if_splits)
  have "wrap64 (wrap64 x) = wrap64 x" for x using wrap64_add(1) [of x 0] by simp
  then show ?case using Cons.IH [OF d(1)] d(2) by (simp add: add.assoc)
qed simp

lemma record_entries_posts:
  assumes "record_entries ws node es d = (Inr x, d')"
  shows "\<exists>ts. dbTraffic d' = dbTraffic d @ ts \<and> list_all2 logs_entry es ts
    \<and> (\<forall>u. sub_used d' u = map_option (\<lambda>n. n + posted es u) (sub_used d u) \<and> quota_used d' u = quota_posted es d u)"
  using assms
proof (induction es arbitrary: ws d)
  case Nil
  then show ?case by (auto simp: giveE_iff quota_posted_def option.map_ident)
next
  case (Cons e es)
  obtain y d1 where s: "RecordTraffic (ws 0) (tiSubscriptionID e) (tiDeviceID e) node (tiBytesUp e) (tiBytesDown e) d = (Inr y, d1)"
      "record_entries (\<lambda>k. ws (Suc k)) node es d1 = (Inr x, d')"
    using Cons.prems by (auto simp: seq_simps)
  obtain t u where t: "uuid_cast (TrimSpace (tiSubscriptionID e)) = Some u" "tlSubscriptionID t = u" "tlBytesUp t = tiBytesUp e"
      "tlBytesDown t = tiBytesDown e" "uuid_cast (TrimSpace node) = Some (tlNodeID t)" "dbTraffic d1 = dbTraffic d @ [t]"
      "0 \<le> tiBytesUp e" "0 \<le> tiBytesDown e" "sub_used d u \<noteq> None"
      "sub_used d1 = (sub_used d)(u := map_option (\<lambda>n. n + (tiBytesUp e + tiBytesDown e)) (sub_used d u))"
      "quota_used d1 = (quota_used d)(u \<mapsto> (case quota_used d u of None \<Rightarrow> 0 | Some n \<Rightarrow> n) + (tiBytesUp e + tiBytesDown e))"
    by (rule RecordTraffic_done [OF s(1)])
  have e: "entry_subscription e = Some u" by (simp add: entry_subscription_def t(1))
  obtain ts where ts: "dbTraffic d' = dbTraffic d1 @ ts" "list_all2 logs_entry es ts"
      "\<forall>u. sub_used d' u = map_option (\<lambda>n. n + posted es u) (sub_used d1 u) \<and> quota_used d' u = quota_posted es d1 u"
    using Cons.IH [OF s(2)] by blast
  have used: "sub_used d' v = map_option (\<lambda>n. n + posted (e # es) v) (sub_used d v)" for v
    using ts(3) by (cases "v = u"; cases "sub_used d u") (simp_all add: t(10) e)
  have none: "posted es v = 0" if "\<not> (\<exists>f \<in> set es. entry_subscription f = Some v)" for v
    using that by (induction es) simp_all
  have quota: "quota_used d' v = quota_posted (e # es) d v" for v
    using ts(3) none [of v] by (simp add: quota_posted_def t(11) e)
  have "logs_entry e t" by (simp add: logs_entry_def e t(2-4))
  then show ?case
    by (intro exI [of _ "t # ts"]) (use ts(1,2) used quota t(6) in simp)
qed

lemma RecordReport_done:
  assumes "RecordReport (Some resolve) w ws token entries d = (Inr t, d')"
  obtains node x where "record_entries ws node (map clean_entry entries) d = (Inr x, d')" "resolve w (TrimSpace token) d = Inr node"
    "t = \<lparr> trNodeID = node, trAccepted = length entries, trBytesUp = wrap64 (sum_list (map tiBytesUp entries)),
       trBytesDown = wrap64 (sum_list (map tiBytesDown entries)),
       trBytesTotal = wrap64 (sum_list (map tiBytesUp entries) + sum_list (map tiBytesDown entries)), trReportedAt = pwNow w \<rparr>"
proof -
  obtain cs up down where c: "clean_entries 0 0 entries = Some (cs, up, down)"
      "seqE (readE (\<lambda>d. case resolve w (TrimSpace token) d of
           Inl e \<Rightarrow> Inl (if e = ErrPackage TrafficNotFound then ErrPackage TrafficUnauthorized else e) | Inr node \<Rightarrow> Inr node)) (\<lambda>node.
         seqE (record_entries ws node cs) (\<lambda>_. giveE \<lparr> trNodeID = node, trAccepted = length cs, trBytesUp = up, trBytesDown = down,
           trBytesTotal = wrap64 (up + down), trReportedAt = pwNow w \<rparr>)) d = (Inr t, d')"
    using assms unfolding RecordReport_def by (auto simp: seqE_Inr guardE_Inr split: option.splits)
  have cs: "cs = map clean_entry entries" "up = wrap64 (sum_list (map tiBytesUp entries))" "down = wrap64 (sum_list (map tiBytesDown entries))"
    using clean_entries_done [OF c(1)] by simp_all
  show thesis using c(2) that unfolding cs by (auto simp: seq_simps split: sum.splits)
qed

text \<open>
  C29 A report that succeeds posts exactly what it names: one log for each entry, in order; each subscription and its quota grow
  by the true sum of the entries that name it (no sum wraps: one that would is refused), and nothing else is counted.
\<close>

theorem report_posts_exactly:
  assumes "RecordReport (Some resolve) w ws token entries d = (Inr t, d')"
  shows "(\<exists>ts. dbTraffic d' = dbTraffic d @ ts \<and> list_all2 logs_entry entries ts)
    \<and> (\<forall>u. sub_used d' u = map_option (\<lambda>n. n + posted entries u) (sub_used d u) \<and> quota_used d' u = quota_posted entries d u)
    \<and> trAccepted t = length entries \<and> trBytesUp t = wrap64 (sum_list (map tiBytesUp entries))
    \<and> trBytesDown t = wrap64 (sum_list (map tiBytesDown entries))"
proof -
  obtain node x where r: "record_entries ws node (map clean_entry entries) d = (Inr x, d')"
      "t = \<lparr> trNodeID = node, trAccepted = length entries, trBytesUp = wrap64 (sum_list (map tiBytesUp entries)),
       trBytesDown = wrap64 (sum_list (map tiBytesDown entries)),
       trBytesTotal = wrap64 (sum_list (map tiBytesUp entries) + sum_list (map tiBytesDown entries)), trReportedAt = pwNow w \<rparr>"
    using RecordReport_done [OF assms] by metis
  have l: "list_all2 logs_entry (map clean_entry entries) ts = list_all2 logs_entry entries ts" for ts
    by (simp add: list_all2_map1)
  show ?thesis using record_entries_posts [OF r(1)] by (auto simp: l r(2))
qed

section \<open>A report that fails\<close>

lemma exec_alone_fails:
  "alone (\<lambda>d. bindE (stmt w l) (\<lambda>_. bindE (uuid_param i) (\<lambda>u. exec_subscription u f d))) d = (Inl e, d') \<Longrightarrow> d' = d"
  by (simp add: alone_Inl)

lemma IncrementQuota_fails:
  assumes "IncrementQuota w i delta d = (Inl e, d')"
  shows "sub_used d' = sub_used d \<and> dbTraffic d' = dbTraffic d"
proof -
  define first where "first = alone (\<lambda>d. bindE (stmt w ''increment quota'') (\<lambda>_. bindE (uuid_param i) (\<lambda>u.
       upsert_quota u (\<lambda>s. new_quota w (suTrafficLimit s) delta None s)
         (\<lambda>new old. old\<lparr> tqBytesUsed := tqBytesUsed old + tqBytesUsed new, tqUpdatedAt := pwPgNow w \<rparr>) d)))"
  have "sub_used d1 = sub_used d \<and> dbTraffic d1 = dbTraffic d" if f: "first d = (r, d1)" for r d1
  proof (cases r)
    case (Inl f')
    then show ?thesis using f by (simp add: first_def alone_Inl)
  next
    case (Inr x)
    obtain u where "upsert_quota u (\<lambda>s. new_quota w (suTrafficLimit s) delta None s)
         (\<lambda>new old. old\<lparr> tqBytesUsed := tqBytesUsed old + tqBytesUsed new, tqUpdatedAt := pwPgNow w \<rparr>) d = Inr (x, d1)"
      using f unfolding first_def Inr by (auto simp: alone_Inr stmt_simps)
    then show ?thesis by (cases rule: upsert_quota_done) (simp_all add: fun_eq_iff sub_used_def)
  qed
  moreover have "first d = (Inl e, d') \<or> (\<exists>x. first d = (Inr x, d'))"
    using assms unfolding IncrementQuota_def first_def [symmetric] by (auto simp: seq_simps)
  ultimately show ?thesis by blast
qed

lemma RecordTraffic_fails:
  assumes "RecordTraffic w i device node up down d = (Inl e, d')"
  shows "sub_used d' = sub_used d \<and> (\<exists>ts. dbTraffic d' = dbTraffic d @ ts \<and> length ts \<le> 1)"
proof -
  define logged where "logged = \<lparr> lgID = [], lgSubscriptionID = TrimSpace i, lgDeviceID = cleanStringPtr device,
        lgNodeID = TrimSpace node, lgBytesUp = up, lgBytesDown = down, lgBytesTotal = 0, lgRecordedAt = pwNow w, lgCreatedAt = 0 \<rparr>"
  have "d' = d \<or> CreateLog w logged d = (Inl e, d') \<or> (\<exists>l d1. CreateLog w logged d = (Inr l, d1)
      \<and> IncrementQuota w (TrimSpace i) (wrap64 (up + down)) d1 = (Inl e, d'))"
    using assms unfolding RecordTraffic_def logged_def by (auto simp: seqE_Inl giveE_iff guardE_Inl guardE_Inr)
  moreover have "CreateLog w logged d = (Inl e, d') \<Longrightarrow> d' = d" by (simp add: CreateLog_def alone_Inl)
  moreover have ?thesis if c: "CreateLog w logged d = (Inr l, d1)" "IncrementQuota w (TrimSpace i) (wrap64 (up + down)) d1 = (Inl e, d')" for l d1
  proof -
    obtain t where "d1 = d\<lparr> dbTraffic := dbTraffic d @ [t] \<rparr>" using CreateLog_done [OF c(1)] by metis
    then show ?thesis using IncrementQuota_fails [OF c(2)] by (simp add: fun_eq_iff sub_used_def)
  qed
  ultimately show ?thesis by auto
qed

lemma record_entries_fails:
  assumes "record_entries ws node es d = (Inl e, d')"
  shows "\<exists>k < length es. (\<forall>u. sub_used d' u = map_option (\<lambda>n. n + posted (take k es) u) (sub_used d u))
    \<and> (\<exists>ts. dbTraffic d' = dbTraffic d @ ts \<and> (length ts = k \<or> length ts = Suc k))"
  using assms
proof (induction es arbitrary: ws d)
  case Nil
  then show ?case by (simp add: giveE_iff)
next
  case (Cons x es)
  consider (now) "RecordTraffic (ws 0) (tiSubscriptionID x) (tiDeviceID x) node (tiBytesUp x) (tiBytesDown x) d = (Inl e, d')"
    | (later) y d1 where "RecordTraffic (ws 0) (tiSubscriptionID x) (tiDeviceID x) node (tiBytesUp x) (tiBytesDown x) d = (Inr y, d1)"
        "record_entries (\<lambda>k. ws (Suc k)) node es d1 = (Inl e, d')"
    using Cons.prems by (auto simp: seqE_Inl)
  then show ?case
  proof cases
    case now
    obtain ts where "sub_used d' = sub_used d" "dbTraffic d' = dbTraffic d @ ts" "length ts \<le> 1" using RecordTraffic_fails [OF now] by blast
    then show ?thesis by (intro exI [of _ 0]) (auto simp: option.map_ident le_Suc_eq)
  next
    case later
    have one: "record_entries ws node [x] d = (Inr (), d1)" using later(1) by (simp add: seqE_def giveE_def)
    obtain ts where ts: "dbTraffic d1 = dbTraffic d @ ts" "list_all2 logs_entry [x] ts"
        "\<forall>u. sub_used d1 u = map_option (\<lambda>n. n + posted [x] u) (sub_used d u)"
      using record_entries_posts [OF one] by blast
    obtain k us where k: "k < length es" "\<forall>u. sub_used d' u = map_option (\<lambda>n. n + posted (take k es) u) (sub_used d1 u)"
        "dbTraffic d' = dbTraffic d1 @ us" "length us = k \<or> length us = Suc k"
      using Cons.IH [OF later(2)] by blast
    have "length ts = 1" using list_all2_lengthD [OF ts(2)] by simp
    then have "dbTraffic d' = dbTraffic d @ (ts @ us)" "length (ts @ us) = Suc k \<or> length (ts @ us) = Suc (Suc k)" using ts(1) k(3,4) by auto
    moreover have "sub_used d' u = map_option (\<lambda>n. n + posted (take (Suc k) (x # es)) u) (sub_used d u)" for u
      using ts(3) k(2) by (simp add: option.map_comp comp_def add.assoc)
    ultimately show ?thesis using k(1) by (intro exI [of _ "Suc k"]) auto
  qed
qed

text \<open>
  C30 A report that fails is not undone: the entries before the one that failed stay posted, and the failing one may have left
  a log that no subscription and no quota counts.  Sent again, the report counts the first entries twice.
\<close>

theorem failed_report_keeps_prefix:
  assumes "RecordReport resolver w ws token entries d = (Inl e, d')"
  shows "\<exists>k \<le> length entries. (\<forall>u. sub_used d' u = map_option (\<lambda>n. n + posted (take k entries) u) (sub_used d u))
    \<and> (\<exists>ts. dbTraffic d' = dbTraffic d @ ts \<and> (length ts = k \<or> length ts = Suc k))"
proof -
  have same: ?thesis if "d' = d" using that by (intro exI [of _ 0]) (simp add: option.map_ident)
  show ?thesis
  proof (cases resolver)
    case None
    then show ?thesis using assms same by (simp add: RecordReport_def)
  next
    case (Some resolve)
    have "d' = d \<or> (\<exists>node cs up down. clean_entries 0 0 entries = Some (cs, up, down) \<and> record_entries ws node cs d = (Inl e, d'))"
      using assms unfolding Some RecordReport_def
      by (auto simp: seqE_Inl seqE_Inr guardE_Inl guardE_Inr readE_iff giveE_iff split: option.splits sum.splits)
    moreover have ?thesis if c: "clean_entries 0 0 entries = Some (cs, up, down)" "record_entries ws node cs d = (Inl e, d')" for node cs up down
    proof -
      have "cs = map clean_entry entries" using clean_entries_done [OF c(1)] by simp
      then show ?thesis using record_entries_fails [OF c(2)] by (auto simp: take_map dest: less_imp_le)
    qed
    ultimately show ?thesis using same by blast
  qed
qed

end
