(* ===== verification/TrafficQuotas.thy ===== *)
theory TrafficQuotas
  imports TrafficTheorems PgSteps
begin

text \<open>
  The tables of quotas and logs stay well typed under every sequence of traffic calls, failures in the middle included; the
  remaining bytes of a quota; and the limit that counts once a quota exists.
\<close>

section \<open>Well-typed tables\<close>

definition traffic_ok :: "db \<Rightarrow> bool" where
  "traffic_ok d \<longleftrightarrow> distinct (map tqSubscriptionID (dbQuotas d))
     \<and> (\<forall>q \<in> set (dbQuotas d). quota_row_ok q \<and> quota_ints_ok q \<and> tqSubscriptionID q \<in> suID ` set (dbSubscriptions d))
     \<and> (\<forall>t \<in> set (dbTraffic d). traffic_row_ok t \<and> int8 (tlBytesUp t) \<and> int8 (tlBytesDown t)
          \<and> tlSubscriptionID t \<in> suID ` set (dbSubscriptions d))"

definition accounts_ok :: "db \<Rightarrow> bool" where
  "accounts_ok d \<longleftrightarrow> subs_store_ok d \<and> traffic_ok d"

datatype traffic_event =
    AskReport "nat \<Rightarrow> panel_world" string "TrafficReportItem list"
  | AskSetQuota SetQuotaInput
  | AskResetQuota string
  | AskQuota string

fun traffic_step :: "panel_world \<times> traffic_event \<Rightarrow> db \<Rightarrow> db" where
  "traffic_step (w, AskReport ws token entries) d = snd (RecordReport (Some NodeIDByToken) w ws token entries d)"
| "traffic_step (w, AskSetQuota input) d = snd (SetQuota w input d)"
| "traffic_step (w, AskResetQuota i) d = snd (ResetQuota w i d)"
| "traffic_step (w, AskQuota i) d = snd (GetQuota w i d)"

lemma upsert_keeps:
  assumes ok: "accounts_ok d" and up: "upsert_quota u propose merge d = Inr (x, d')"
    and new: "\<And>s. tqSubscriptionID (propose s) = suID s" and old: "\<And>n q. tqSubscriptionID (merge n q) = tqSubscriptionID q"
  shows "accounts_ok d'"
  using up
proof (cases rule: upsert_quota_done)
  case (inserted s)
  have s: "suID s = u" "s \<in> set (dbSubscriptions d)"
    using row_with_SomeD [OF inserted(1) [unfolded subscription_by_id_def]] by simp_all
  have "u \<notin> tqSubscriptionID ` set (dbQuotas d)" using inserted(2) by (simp add: quota_by_sub_def row_with_None)
  then show ?thesis using ok inserted s by (auto simp: accounts_ok_def subs_store_ok_def traffic_ok_def new)
next
  case (merged s q)
  have q: "tqSubscriptionID q = u" "q \<in> set (dbQuotas d)" using row_with_SomeD [OF merged(2) [unfolded quota_by_sub_def]] by simp_all
  have "map tqSubscriptionID (upd_where (\<lambda>r. tqSubscriptionID r = u) (\<lambda>_. merge (propose s) q) (dbQuotas d)) = map tqSubscriptionID (dbQuotas d)"
    by (rule map_key_upd_where) (simp add: old q)
  moreover have "tqSubscriptionID (merge (propose s) q) \<in> suID ` set (dbSubscriptions d)"
    using ok q by (auto simp: old accounts_ok_def traffic_ok_def)
  ultimately show ?thesis using ok merged by (auto simp: accounts_ok_def subs_store_ok_def traffic_ok_def set_upd_where)
qed

lemma exec_keeps:
  assumes ok: "accounts_ok d" and ex: "exec_subscription u f d = Inr (n, d')" and f: "\<And>s. suID (f s) = suID s"
  shows "accounts_ok d'"
  using ex
proof (cases rule: exec_subscription_done)
  case none
  then show ?thesis using ok by simp
next
  case (one s)
  have i: "suID s = u" "s \<in> set (dbSubscriptions d)" using row_with_SomeD [OF one(1) [unfolded subscription_by_id_def]] by simp_all
  have "map suID (upd_where (\<lambda>r. suID r = u) (\<lambda>_. f s) (dbSubscriptions d)) = map suID (dbSubscriptions d)"
    by (rule map_key_upd_where) (simp add: f i)
  then have ids: "suID ` set (upd_where (\<lambda>r. suID r = u) (\<lambda>_. f s) (dbSubscriptions d)) = suID ` set (dbSubscriptions d)"
    by (metis list.set_map)
  have "subs_store_ok d'"
    by (rule subs_ok_subscriptions [OF _ one(3)]) (use ok ids in \<open>auto simp: accounts_ok_def set_upd_where\<close>)
  then show ?thesis using ok one(3) ids by (simp add: accounts_ok_def traffic_ok_def put_subscriptions_Inr)
qed

lemma keeps_upsert [keeps_rules]:
  assumes "\<And>s. tqSubscriptionID (propose s) = suID s" and "\<And>n q. tqSubscriptionID (merge n q) = tqSubscriptionID q"
  shows "keeps accounts_ok (alone (\<lambda>d. bindE (stmt w l) (\<lambda>_. bindE (uuid_param i) (\<lambda>u. upsert_quota u propose merge d))))"
  by (rule keeps_alone) (auto simp: stmt_simps elim!: upsert_keeps intro: assms)

lemma keeps_exec [keeps_rules]:
  assumes "\<And>s. suID (f s) = suID s"
  shows "keeps accounts_ok (alone (\<lambda>d. bindE (stmt w l) (\<lambda>_. bindE (uuid_param i) (\<lambda>u. exec_subscription u f d))))"
  by (rule keeps_alone) (auto simp: stmt_simps elim!: exec_keeps intro: assms)

lemma keeps_sync [keeps_rules]: "keeps accounts_ok (syncSubscriptionQuota w i limit used)"
  unfolding syncSubscriptionQuota_def
  by (rule keeps_alone) (auto simp: stmt_simps elim!: exec_keeps split: if_splits)

lemma keeps_log [keeps_rules]: "keeps accounts_ok (CreateLog w l)"
proof -
  have "accounts_ok d'" if ok: "accounts_ok d" and c: "CreateLog w l d = (Inr x, d')" for d x d'
  proof -
    obtain t where t: "d' = d\<lparr> dbTraffic := dbTraffic d @ [t] \<rparr>" "uuid_cast (lgSubscriptionID l) = Some (tlSubscriptionID t)"
      "uuid_cast (lgNodeID l) = Some (tlNodeID t)" "tlBytesUp t = lgBytesUp l" "tlBytesDown t = lgBytesDown l" "traffic_row_ok t"
      "int8 (tlBytesUp t)" "int8 (tlBytesDown t)" "tlID t \<notin> tlID ` set (dbTraffic d)"
      "tlSubscriptionID t \<in> suID ` set (dbSubscriptions d)" "tlNodeID t \<in> ndID ` set (dbNodes d)"
      by (rule CreateLog_done [OF c])
    show ?thesis using ok t(6-8,10) by (auto simp: accounts_ok_def subs_store_ok_def traffic_ok_def t(1))
  qed
  then show ?thesis by (rule keepsI) (simp_all add: CreateLog_def alone_Inl)
qed

lemma keeps_increment [keeps_rules]: "keeps accounts_ok (IncrementQuota w i delta)"
  unfolding IncrementQuota_def by (intro keeps_rules) (simp_all add: new_quota_def)

lemma keeps_reset [keeps_rules]: "keeps accounts_ok (repo_ResetQuota w i)"
  unfolding repo_ResetQuota_def by (intro keeps_rules) (simp_all add: new_quota_def)

lemma keeps_set [keeps_rules]: "keeps accounts_ok (repo_SetQuota w input used)"
  unfolding repo_SetQuota_def by (intro keeps_rules) (simp_all add: new_quota_def)

lemma keeps_record [keeps_rules]: "keeps accounts_ok (RecordTraffic w i device node up down)"
  unfolding RecordTraffic_def by (intro keeps_rules)

lemma keeps_entries [keeps_rules]: "keeps accounts_ok (record_entries ws node es)"
  by (induction es arbitrary: ws) (simp_all add: keeps_rules)

lemma keeps_traffic_report [keeps_rules]: "keeps accounts_ok (RecordReport resolver w ws token entries)"
  unfolding RecordReport_def by (auto split: option.splits intro!: keeps_rules)

lemma keeps_due [keeps_rules]: "keeps accounts_ok (ResetQuotaIfNeeded w i)"
proof -
  have "keeps accounts_ok (seqE (repo_ResetQuota w (TrimSpace i)) (\<lambda>_. giveE ()))" by (intro keeps_rules)
  then show ?thesis unfolding keeps_def ResetQuotaIfNeeded_def by (auto split: sum.splits option.splits)
qed

lemma keeps_get [keeps_rules]: "keeps accounts_ok (GetQuota w i)"
  unfolding GetQuota_def by (intro keeps_rules)

lemma traffic_step_ok:
  assumes "accounts_ok d"
  shows "accounts_ok (traffic_step (w, ev) d)"
proof -
  have "keeps accounts_ok (SetQuota w input)" for input unfolding SetQuota_def Let_def by (intro keeps_rules)
  moreover have "keeps accounts_ok (ResetQuota w i)" for i unfolding ResetQuota_def by (intro keeps_rules)
  ultimately show ?thesis using assms keeps_traffic_report keeps_get by (cases ev) (auto simp: keeps_def)
qed

text \<open>
  Whatever reports, quota changes and quota reads follow each other, and wherever they fail, every row of the logs and
  quotas satisfies its columns and constraints, each subscription has at most one quota, and no row is without its
  subscription; the subscription store keeps its invariant.
\<close>

lemma traffic_run_ok: "accounts_ok d \<Longrightarrow> accounts_ok (foldl (\<lambda>d x. traffic_step x d) d evs)"
  by (induction evs arbitrary: d) (auto simp: traffic_step_ok)

section \<open>The service leaves the database nothing to refuse\<close>

text \<open>
  A result, and a call on good tables, that no CHECK constraint refused; and what is known of the value.
\<close>

definition passes :: "('a \<Rightarrow> bool) \<Rightarrow> storage_error + 'a \<Rightarrow> bool" where
  "passes Q r \<longleftrightarrow> r \<noteq> Inl (ErrPg PgCheck) \<and> (\<forall>x. r = Inr x \<longrightarrow> Q x)"

definition passing :: "('a \<Rightarrow> bool) \<Rightarrow> (db \<Rightarrow> (storage_error + 'a) \<times> db) \<Rightarrow> bool" where
  "passing Q m \<longleftrightarrow> (\<forall>d. accounts_ok d \<longrightarrow> passes Q (fst (m d)))"

lemma passes_bindE: "passes R r \<Longrightarrow> (\<And>x. R x \<Longrightarrow> passes Q (k x)) \<Longrightarrow> passes Q (bindE r k)"
  by (cases r) (auto simp: passes_def bindE_def)

lemma passes_params:
  "passes (\<lambda>_. True) (stmt w l)" "passes (\<lambda>_. True) (uuid_param i)" "passes (\<lambda>_. True) (uuid_param_opt v)"
  by (auto simp: passes_def stmt_def ensure_def uuid_param_def uuid_param_opt_def bindE_def split: option.splits)

lemma passes_row: "e \<noteq> ErrPg PgCheck \<Longrightarrow> passes (\<lambda>x. r = Some x) (one_row e r)"
  by (auto simp: passes_def one_row_def split: option.splits)

lemma passes_constraints: "checks \<Longrightarrow> passes (\<lambda>_. True) (constraints ints checks keys refs)"
  by (simp add: passes_def constraints_def)

lemma passes_Inr: "Q x \<Longrightarrow> passes Q (Inr x)"
  by (simp add: passes_def)

lemma passes_weaken: "passes R r \<Longrightarrow> (\<And>x. R x \<Longrightarrow> Q x) \<Longrightarrow> passes Q r"
  by (auto simp: passes_def)

lemma passing_seqE: "keeps accounts_ok m \<Longrightarrow> passing R m \<Longrightarrow> (\<And>x. R x \<Longrightarrow> passing Q (k x)) \<Longrightarrow> passing Q (seqE m k)"
  unfolding passing_def keeps_def seqE_def passes_def by (auto split: prod.splits sum.splits) (metis fst_conv snd_conv)+

lemma passing_guardE: "(b \<Longrightarrow> passing Q m) \<Longrightarrow> passing Q (seqE (guardE b e) (\<lambda>_. m))"
  unfolding passing_def seqE_def guardE_def by (auto simp: passes_def)

lemma passing_giveE: "Q x \<Longrightarrow> passing Q (giveE x)"
  by (simp add: passing_def giveE_def passes_def)

lemma passing_readE: "(\<And>d. accounts_ok d \<Longrightarrow> passes Q (q d)) \<Longrightarrow> passing Q (readE q)"
  by (simp add: passing_def readE_def)

lemma passing_alone: "(\<And>d. accounts_ok d \<Longrightarrow> passes (\<lambda>(x, d'). Q x) (body d)) \<Longrightarrow> passing Q (alone body)"
  unfolding passing_def alone_def passes_def by (fastforce split: sum.splits prod.splits)

lemma good_rows:
  assumes "accounts_ok d"
  shows "subscription_by_id u d = Some s \<Longrightarrow> subscription_row_ok s" and "quota_by_sub u d = Some q \<Longrightarrow> quota_row_ok q"
  using assms row_with_SomeD [of suID u "dbSubscriptions d" s] row_with_SomeD [of tqSubscriptionID u "dbQuotas d" q]
  by (auto simp: accounts_ok_def subs_store_ok_def traffic_ok_def subscription_by_id_def quota_by_sub_def)

definition limit_ok :: "int option \<Rightarrow> bool" where
  "limit_ok limit \<longleftrightarrow> (\<forall>n. limit = Some n \<longrightarrow> 0 < n)"

lemma row_limits:
  "quota_row_ok q \<longleftrightarrow> limit_ok (tqBytesLimit q) \<and> 0 \<le> tqBytesUsed q"
  "subscription_row_ok s \<Longrightarrow> limit_ok (suTrafficLimit s) \<and> 0 \<le> suTrafficUsed s"
  by (auto simp: limit_ok_def quota_row_ok_def subscription_row_ok_def split: option.splits)

lemma scan_fields: "quBytesLimit (scanTrafficQuota q) = tqBytesLimit q" "quBytesUsed (scanTrafficQuota q) = tqBytesUsed q"
  by (simp_all add: scanTrafficQuota_def quota_derived_def Let_def split: option.split)

lemma passes_upsert:
  assumes "accounts_ok d" and "\<And>s. subscription_row_ok s \<Longrightarrow> quota_row_ok (propose s)"
    and "\<And>new q. quota_row_ok new \<Longrightarrow> quota_row_ok q \<Longrightarrow> quota_row_ok (merge new q)"
  shows "passes (\<lambda>(x, d'). limit_ok (quBytesLimit x)) (upsert_quota u propose merge d)"
proof (cases "subscription_by_id u d")
  case None
  then show ?thesis by (simp add: upsert_quota_def one_row_def bindE_def passes_def)
next
  case (Some s)
  have p: "quota_row_ok (propose s)" by (rule assms(2) [OF good_rows(1) [OF assms(1) Some]])
  show ?thesis
  proof (cases "quota_by_sub u d")
    case None
    then show ?thesis using p
      by (auto simp: upsert_quota_def one_row_def Some bindE_def passes_def constraints_def Let_def row_limits(1) scan_fields)
  next
    case q: (Some old)
    have "quota_row_ok (merge (propose s) old)" by (rule assms(3) [OF p good_rows(2) [OF assms(1) q]])
    then show ?thesis using p q
      by (auto simp: upsert_quota_def one_row_def Some bindE_def passes_def constraints_def Let_def row_limits(1) scan_fields)
  qed
qed

lemma passes_exec:
  assumes "accounts_ok d" and "\<And>s. subscription_row_ok s \<Longrightarrow> subscription_row_ok (f s)"
  shows "passes (\<lambda>_. True) (exec_subscription u f d)"
  using assms(2) [OF good_rows(1) [OF assms(1)]]
  by (auto simp: exec_subscription_def put_subscriptions_def bindE_def passes_def constraints_def split: option.splits)

lemma passing_upsert:
  assumes "\<And>s. subscription_row_ok s \<Longrightarrow> quota_row_ok (propose s)"
    and "\<And>new q. quota_row_ok new \<Longrightarrow> quota_row_ok q \<Longrightarrow> quota_row_ok (merge new q)"
  shows "passing (\<lambda>x. limit_ok (quBytesLimit x))
    (alone (\<lambda>d. bindE (stmt w l) (\<lambda>_. bindE (uuid_param i) (\<lambda>u. upsert_quota u propose merge d))))"
  by (rule passing_alone) (intro passes_bindE [OF passes_params(1)] passes_bindE [OF passes_params(2)] passes_upsert assms)

lemma passing_exec:
  assumes "\<And>s. subscription_row_ok s \<Longrightarrow> subscription_row_ok (f s)"
  shows "passing (\<lambda>_. True) (alone (\<lambda>d. bindE (stmt w l) (\<lambda>_. bindE (uuid_param i) (\<lambda>u. exec_subscription u f d))))"
proof (rule passing_alone, intro passes_bindE [OF passes_params(1)] passes_bindE [OF passes_params(2)])
  show "passes (\<lambda>(x, d'). True) (exec_subscription u f d)" if "accounts_ok d" for d u
    by (rule passes_weaken [OF passes_exec [OF that assms]]) auto
qed

lemma passing_sync:
  assumes "limit_ok limit" and "0 \<le> used"
  shows "passing (\<lambda>_. True) (syncSubscriptionQuota w i limit used)"
  unfolding syncSubscriptionQuota_def
proof (rule passing_alone, intro passes_bindE [OF passes_params(1)] passes_bindE [OF passes_params(2)])
  fix d u assume ok: "accounts_ok d"
  let ?f = "\<lambda>s. s\<lparr> suTrafficLimit := limit, suTrafficUsed := used, srUpdatedAt := pwPgNow w \<rparr>"
  have "subscription_row_ok (?f s)" if "subscription_row_ok s" for s
    using that assms by (auto simp: subscription_row_ok_def limit_ok_def split: option.splits)
  from passes_exec [OF ok this]
  show "passes (\<lambda>(x, d'). True) (bindE (exec_subscription u ?f d) (\<lambda>(n, d'). if n = 0 then Inl (ErrPackage TrafficNotFound) else Inr ((), d')))"
    by (rule passes_bindE) (auto simp: passes_def split: if_splits)
qed

lemma passing_log: "0 \<le> lgBytesUp l \<Longrightarrow> 0 \<le> lgBytesDown l \<Longrightarrow> passing (\<lambda>_. True) (CreateLog w l)"
  unfolding CreateLog_def
  by (rule passing_alone, intro passes_bindE [OF passes_params(1)] passes_bindE [OF passes_params(2)] passes_bindE [OF passes_params(3)])
    (auto simp: put_traffic_def log_row_def traffic_row_ok_def constraints_def bindE_def passes_def)

lemma passing_increment:
  assumes "0 \<le> delta"
  shows "passing (\<lambda>_. True) (IncrementQuota w i delta)"
proof -
  have f: "subscription_row_ok (s\<lparr> suTrafficUsed := suTrafficUsed s + delta, srUpdatedAt := pwPgNow w \<rparr>)" if "subscription_row_ok s" for s
    using that assms by (auto simp: subscription_row_ok_def)
  have p: "quota_row_ok (new_quota w (suTrafficLimit s) delta None s)" if "subscription_row_ok s" for s
    using row_limits(2) [OF that] assms by (simp add: row_limits(1) new_quota_def)
  show ?thesis
    unfolding IncrementQuota_def
    by (intro passing_seqE [OF _ passing_upsert] passing_seqE [OF _ passing_exec] passing_giveE keeps_rules)
      (use f p in \<open>auto simp: row_limits(1) new_quota_def\<close>)
qed

lemma passing_repo_reset: "passing (\<lambda>_. True) (repo_ResetQuota w i)"
  unfolding repo_ResetQuota_def
  by (intro passing_seqE [OF _ passing_upsert] passing_seqE [OF _ passing_sync] passing_giveE keeps_rules)
    (use row_limits(2) in \<open>auto simp: row_limits(1) new_quota_def\<close>)

lemma passing_repo_set:
  assumes "limit_ok (sqBytesLimit input)" and "0 \<le> used"
  shows "passing (\<lambda>_. True) (repo_SetQuota w input used)"
  unfolding repo_SetQuota_def
  by (intro passing_seqE [OF _ passing_upsert] passing_seqE [OF _ passing_sync] passing_giveE keeps_rules)
    (use assms in \<open>auto simp: row_limits(1) new_quota_def\<close>)

lemma passing_record:
  assumes "up + down < 2 ^ 63"
  shows "passing (\<lambda>_. True) (RecordTraffic w i device node up down)"
  unfolding RecordTraffic_def
proof (intro passing_guardE)
  assume b: "0 \<le> up \<and> 0 \<le> down"
  have "wrap64 (up + down) = up + down" by (rule wrap64_small) (use assms b in \<open>simp add: int8_def\<close>)
  then have "0 \<le> wrap64 (up + down)" using b by simp
  then show "passing (\<lambda>_. True) (seqE (CreateLog w \<lparr> lgID = [], lgSubscriptionID = TrimSpace i, lgDeviceID = cleanStringPtr device,
      lgNodeID = TrimSpace node, lgBytesUp = up, lgBytesDown = down, lgBytesTotal = 0, lgRecordedAt = pwNow w, lgCreatedAt = 0 \<rparr>) (\<lambda>_.
      seqE (IncrementQuota w (TrimSpace i) (wrap64 (up + down))) (\<lambda>_. giveE ())))"
    using b by (intro passing_seqE [OF _ passing_log] passing_seqE [OF _ passing_increment] passing_giveE keeps_rules) auto
qed

lemma passing_entries: "\<forall>e \<in> set es. tiBytesUp e + tiBytesDown e < 2 ^ 63 \<Longrightarrow> passing (\<lambda>_. True) (record_entries ws node es)"
  by (induction es arbitrary: ws) (auto intro!: passing_giveE passing_seqE [OF _ passing_record] keeps_rules)

lemma clean_entries_bytes:
  "clean_entries u v es = Some (cs, x, y) \<Longrightarrow> map (\<lambda>e. (tiBytesUp e, tiBytesDown e)) cs = map (\<lambda>e. (tiBytesUp e, tiBytesDown e)) es"
  by (induction es arbitrary: u v cs) (auto simp: Let_def split: if_splits)

lemma passing_report:
  assumes "\<forall>e \<in> set entries. tiBytesUp e + tiBytesDown e < 2 ^ 63"
  shows "passing (\<lambda>_. True) (RecordReport (Some NodeIDByToken) w ws token entries)"
proof (cases "clean_entries 0 0 entries")
  case None
  show ?thesis unfolding RecordReport_def None option.case
    by (intro passing_guardE) (simp add: passing_def passes_def)
next
  case (Some r)
  obtain cs up down where r: "r = (cs, up, down)" by (cases r)
  have "(\<lambda>e. (tiBytesUp e, tiBytesDown e)) ` set cs = (\<lambda>e. (tiBytesUp e, tiBytesDown e)) ` set entries"
    using clean_entries_bytes [OF Some [unfolded r]] by (metis list.set_map)
  then have "\<forall>e \<in> set cs. tiBytesUp e + tiBytesDown e < 2 ^ 63" using assms by (force simp: set_eq_iff image_iff)
  then have e: "passing (\<lambda>_. True) (record_entries ws node cs)" for node by (rule passing_entries)
  have n: "passes (\<lambda>_. True) (NodeIDByToken w t d)" for t d
    by (auto simp: NodeIDByToken_def stmt_def ensure_def one_row_def bindE_def passes_def split: option.splits)
  show ?thesis unfolding RecordReport_def Some r option.case prod.case
  proof (intro passing_guardE passing_seqE [OF keeps_readE passing_readE] passing_seqE [OF keeps_entries e] passing_giveE)
    show "passes (\<lambda>_. True) (case NodeIDByToken w (TrimSpace token) d of
        Inl e \<Rightarrow> Inl (if e = ErrPackage TrafficNotFound then ErrPackage TrafficUnauthorized else e) | Inr node \<Rightarrow> Inr node)" for d
      using n [of "TrimSpace token" d] by (auto simp: passes_def split: sum.splits)
  qed simp
qed

lemma passes_repo_get: "accounts_ok d \<Longrightarrow> passes (\<lambda>q. 0 \<le> quBytesUsed q) (repo_GetQuota w i d)"
  unfolding repo_GetQuota_def
  by (intro passes_bindE [OF passes_params(1)] passes_bindE [OF passes_params(2)] passes_bindE [OF passes_row] passes_Inr)
    (auto simp: quota_derived_def Let_def row_limits(1) dest: good_rows row_limits(2) split: option.splits)

lemma passing_set: "passing (\<lambda>_. True) (SetQuota w input)"
  unfolding SetQuota_def Let_def
proof (intro passing_guardE)
  let ?i = "input\<lparr> sqSubscriptionID := TrimSpace (sqSubscriptionID input) \<rparr>"
  assume l: "case sqBytesLimit ?i of None \<Rightarrow> True | Some n \<Rightarrow> 0 < n" and n: "case sqBytesUsed ?i of None \<Rightarrow> True | Some n \<Rightarrow> 0 \<le> n"
  have limit: "limit_ok (sqBytesLimit ?i)" using l by (auto simp: limit_ok_def)
  have "passing (\<lambda>n. 0 \<le> n) (readE (\<lambda>d. case sqBytesUsed ?i of
         Some n \<Rightarrow> Inr n
       | None \<Rightarrow> (case repo_GetQuota w (sqSubscriptionID ?i) d of
           Inr current \<Rightarrow> Inr (quBytesUsed current)
         | Inl e \<Rightarrow> if e = ErrPackage TrafficNotFound then Inr 0 else Inl e)))"
    using n passes_repo_get [of _ w "sqSubscriptionID ?i"]
    by (intro passing_readE) (fastforce simp: passes_def split: option.splits sum.splits)
  then show "passing (\<lambda>_. True) (seqE (readE (\<lambda>d. case sqBytesUsed ?i of
         None \<Rightarrow> (case repo_GetQuota w (sqSubscriptionID ?i) d of
             Inl e \<Rightarrow> if e = ErrPackage TrafficNotFound then Inr 0 else Inl e
           | Inr current \<Rightarrow> Inr (quBytesUsed current))
       | Some n \<Rightarrow> Inr n)) (repo_SetQuota w ?i))"
    by (rule passing_seqE [OF keeps_readE]) (rule passing_repo_set [OF limit])
qed

lemma passing_due: "passing (\<lambda>_. True) (ResetQuotaIfNeeded w i)"
proof -
  have r: "passing (\<lambda>_. True) (seqE (repo_ResetQuota w (TrimSpace i)) (\<lambda>_. giveE ()))"
    by (intro passing_seqE [OF keeps_reset passing_repo_reset] passing_giveE) simp
  show ?thesis
    unfolding passing_def
  proof (intro allI impI)
    fix d assume ok: "accounts_ok d"
    show "passes (\<lambda>_. True) (fst (ResetQuotaIfNeeded w i d))"
      using r [unfolded passing_def] passes_repo_get [OF ok, of w "TrimSpace i"] ok
      by (auto simp: ResetQuotaIfNeeded_def passes_def split: sum.splits option.splits)
  qed
qed

lemma passing_get: "passing (\<lambda>_. True) (GetQuota w i)"
  unfolding GetQuota_def
  by (intro passing_guardE passing_seqE [OF keeps_due passing_due] passing_readE) (rule passes_weaken [OF passes_repo_get], simp_all)

lemma passing_reset: "passing (\<lambda>_. True) (ResetQuota w i)"
  unfolding ResetQuota_def by (intro passing_guardE passing_repo_reset)

lemma passing_error: "passing Q m \<Longrightarrow> accounts_ok d \<Longrightarrow> fst (m d) \<noteq> Inl (ErrPg PgCheck)"
  by (auto simp: passing_def passes_def)

text \<open>
  C32 The checks of the service are as strict as the constraints of the traffic, quota and subscription tables: after any
  sequence of reports, quota changes and quota reads, no quota request is refused by a CHECK constraint, whatever its
  limit and byte count, and a report is refused by one only when the bytes up and down of one of its entries add up to
  more than an \<open>int64\<close> holds.
\<close>

theorem service_checks_cover_constraints:
  assumes "accounts_ok d" and "d' = foldl (\<lambda>d x. traffic_step x d) d evs"
  shows "fst (SetQuota w input d') \<noteq> Inl (ErrPg PgCheck) \<and> fst (ResetQuota w i d') \<noteq> Inl (ErrPg PgCheck)
    \<and> fst (GetQuota w i d') \<noteq> Inl (ErrPg PgCheck)
    \<and> (fst (RecordReport (Some NodeIDByToken) w ws token entries d') = Inl (ErrPg PgCheck)
        \<longrightarrow> (\<exists>e \<in> set entries. 2 ^ 63 \<le> tiBytesUp e + tiBytesDown e))"
proof -
  have ok: "accounts_ok d'" unfolding assms(2) by (rule traffic_run_ok [OF assms(1)])
  show ?thesis
    using passing_error [OF passing_set ok] passing_error [OF passing_reset ok] passing_error [OF passing_get ok]
      passing_error [OF passing_report ok] by (meson linorder_not_less)
qed

section \<open>What a quota shows\<close>

lemma repo_GetQuota_done:
  assumes "repo_GetQuota w i d = Inr q"
  obtains u s where "uuid_cast i = Some u" "subscription_by_id u d = Some s"
    "quBytesLimit q = (case quota_by_sub u d of None \<Rightarrow> suTrafficLimit s
       | Some r \<Rightarrow> (case tqBytesLimit r of None \<Rightarrow> suTrafficLimit s | Some n \<Rightarrow> Some n))"
    "quBytesUsed q = (case quota_by_sub u d of None \<Rightarrow> suTrafficUsed s | Some r \<Rightarrow> tqBytesUsed r)"
    "quBytesRemaining q = map_option (\<lambda>limit. if wrap64 (limit - quBytesUsed q) < 0 then 0 else wrap64 (limit - quBytesUsed q)) (quBytesLimit q)"
    "quExceeded q \<longleftrightarrow> (case quBytesLimit q of None \<Rightarrow> False | Some limit \<Rightarrow> limit \<le> quBytesUsed q)"
proof -
  obtain u s where u: "uuid_cast i = Some u" "subscription_by_id u d = Some s"
    using assms unfolding repo_GetQuota_def by (auto simp: bindE_Inr uuid_param_iff one_row_iff)
  show thesis
    by (rule that [OF u]) (use assms u in \<open>auto simp: repo_GetQuota_def bindE_Inr uuid_param_iff one_row_iff quota_derived_def Let_def
        split: option.splits\<close>)
qed

text \<open>
  C33 The remaining bytes of a quota are the limit less the used bytes, never below zero and never wrapped, and the quota is
  exceeded exactly when nothing remains; without a limit there is neither.
\<close>

theorem quota_remaining_bounds:
  assumes "accounts_ok d" and "GetQuota w i d = (Inr q, d')"
  shows "0 \<le> quBytesUsed q \<and> (case quBytesLimit q of
      None \<Rightarrow> quBytesRemaining q = None \<and> \<not> quExceeded q
    | Some limit \<Rightarrow> 0 < limit \<and> quBytesRemaining q = Some (max 0 (limit - quBytesUsed q))
        \<and> (quExceeded q \<longleftrightarrow> quBytesRemaining q = Some 0))"
proof -
  have ok: "accounts_ok d'" by (rule keepsD [OF keeps_get assms])
  have g: "repo_GetQuota w (TrimSpace i) d' = Inr q" using assms(2) unfolding GetQuota_def by (auto simp: seq_simps)
  obtain u s where u: "uuid_cast (TrimSpace i) = Some u" "subscription_by_id u d' = Some s" "quBytesLimit q = (case quota_by_sub u d' of None \<Rightarrow> suTrafficLimit s
       | Some r \<Rightarrow> (case tqBytesLimit r of None \<Rightarrow> suTrafficLimit s | Some n \<Rightarrow> Some n))"
      "quBytesUsed q = (case quota_by_sub u d' of None \<Rightarrow> suTrafficUsed s | Some r \<Rightarrow> tqBytesUsed r)"
      "quBytesRemaining q = map_option (\<lambda>limit. if wrap64 (limit - quBytesUsed q) < 0 then 0 else wrap64 (limit - quBytesUsed q)) (quBytesLimit q)"
      "quExceeded q \<longleftrightarrow> (case quBytesLimit q of None \<Rightarrow> False | Some limit \<Rightarrow> limit \<le> quBytesUsed q)"
    by (rule repo_GetQuota_done [OF g])
  have s: "s \<in> set (dbSubscriptions d')" using row_with_SomeD [OF u(2) [unfolded subscription_by_id_def]] by simp
  have sub: "subscription_row_ok s" "subscription_ints_ok s" using ok s by (auto simp: accounts_ok_def subs_store_ok_def)
  have quo: "quota_row_ok r" "quota_ints_ok r" if "quota_by_sub u d' = Some r" for r
    using ok row_with_SomeD [OF that [unfolded quota_by_sub_def]] by (auto simp: accounts_ok_def traffic_ok_def)
  have used: "0 \<le> quBytesUsed q" "int8 (quBytesUsed q)"
    using u(4) sub quo by (auto simp: subscription_row_ok_def subscription_ints_ok_def quota_row_ok_def quota_ints_ok_def split: option.splits)
  have limit: "0 < n \<and> int8 n" if "quBytesLimit q = Some n" for n
    using u(3) that sub quo by (auto simp: subscription_row_ok_def subscription_ints_ok_def quota_row_ok_def quota_ints_ok_def split: option.splits)
  have exact: "wrap64 (n - quBytesUsed q) = n - quBytesUsed q" if "quBytesLimit q = Some n" for n
    using limit [OF that] used by (intro wrap64_small) (simp add: int8_def)
  show ?thesis
    using used(1) u(5,6) limit exact by (cases "quBytesLimit q") auto
qed

section \<open>The limit\<close>

lemma sync_done:
  assumes "syncSubscriptionQuota w i limit used d = (Inr x, d')" and "uuid_cast i = Some u"
  shows "quota_by_sub v d' = quota_by_sub v d \<and> (\<exists>s. subscription_by_id u d' = Some s \<and> suTrafficLimit s = limit \<and> suTrafficUsed s = used)"
proof -
  have "exec_subscription u (\<lambda>s. s\<lparr> suTrafficLimit := limit, suTrafficUsed := used, srUpdatedAt := pwPgNow w \<rparr>) d = Inr (1, d')
      \<or> (\<exists>n. n \<noteq> 0 \<and> exec_subscription u (\<lambda>s. s\<lparr> suTrafficLimit := limit, suTrafficUsed := used, srUpdatedAt := pwPgNow w \<rparr>) d = Inr (n, d'))"
    using assms unfolding syncSubscriptionQuota_def alone_Inr by (auto simp: bindE_Inr uuid_param_iff split: if_splits prod.splits)
  then obtain n where n: "exec_subscription u (\<lambda>s. s\<lparr> suTrafficLimit := limit, suTrafficUsed := used, srUpdatedAt := pwPgNow w \<rparr>) d = Inr (n, d')" "n \<noteq> 0"
    by auto
  show ?thesis
    using n(1)
  proof (cases rule: exec_subscription_done)
    case none
    then show ?thesis using n(2) by simp
  next
    case (one s)
    have k: "suID (s\<lparr> suTrafficLimit := limit, suTrafficUsed := used, srUpdatedAt := pwPgNow w \<rparr>) = u" using one(1) by (simp add: subscription_by_id_id)
    show ?thesis using put_one_subscription(1,2) [OF one(3) k one(1)] by simp
  qed
qed

lemma sync_fails: "syncSubscriptionQuota w i limit used d = (Inl e, d') \<Longrightarrow> d' = d"
  by (simp add: syncSubscriptionQuota_def alone_Inl)

text \<open>A reset keeps the limit of the quota, and writes it to the subscription.\<close>

lemma reset_keeps_limit:
  assumes "repo_ResetQuota w i d = (r, d')" and "uuid_cast i = Some u" and "quota_by_sub u d = Some q"
  shows "(\<exists>q'. quota_by_sub u d' = Some q' \<and> tqBytesLimit q' = tqBytesLimit q)
    \<and> (\<forall>x. r = Inr x \<longrightarrow> (\<exists>s. subscription_by_id u d' = Some s \<and> suTrafficLimit s = tqBytesLimit q \<and> suTrafficUsed s = 0))"
proof -
  define first where "first = alone (\<lambda>d. bindE (stmt w ''reset quota'') (\<lambda>_. bindE (uuid_param i) (\<lambda>u.
       upsert_quota u (\<lambda>s. new_quota w (suTrafficLimit s) 0 None s)
         (\<lambda>new old. old\<lparr> tqBytesUsed := 0, tqResetAt := None, tqUpdatedAt := pwPgNow w \<rparr>) d)))"
  have split: "(\<exists>e. r = Inl e \<and> first d = (Inl e, d')) \<or> (\<exists>x d1 s. first d = (Inr x, d1) \<and> syncSubscriptionQuota w i (quBytesLimit x) 0 d1 = (s, d')
      \<and> (r = Inr x \<and> s = Inr () \<or> (\<exists>e. r = Inl e \<and> s = Inl e)))"
    using assms(1) unfolding repo_ResetQuota_def first_def [symmetric] by (cases r) (auto simp: seq_simps)
  have kept: "\<exists>q'. quota_by_sub u d1 = Some q' \<and> tqBytesLimit q' = tqBytesLimit q \<and> quBytesLimit x = tqBytesLimit q"
    if f: "first d = (Inr x, d1)" for x d1
  proof -
    have "upsert_quota u (\<lambda>s. new_quota w (suTrafficLimit s) 0 None s)
         (\<lambda>new old. old\<lparr> tqBytesUsed := 0, tqResetAt := None, tqUpdatedAt := pwPgNow w \<rparr>) d = Inr (x, d1)"
      using f assms(2) unfolding first_def by (auto simp: alone_Inr stmt_simps)
    then show ?thesis
    proof (cases rule: upsert_quota_done)
      case (merged s old)
      then show ?thesis
        using assms(3) by (simp add: quota_merged quota_by_sub_id scanTrafficQuota_def quota_derived_def Let_def split: option.splits)
    qed (use assms(3) in simp)
  qed
  show ?thesis
    using split
  proof (elim disjE exE conjE)
    fix e assume "r = Inl e" "first d = (Inl e, d')"
    then show ?thesis using assms(3) by (simp add: first_def alone_Inl)
  next
    fix x d1 s assume f: "first d = (Inr x, d1)" and y: "syncSubscriptionQuota w i (quBytesLimit x) 0 d1 = (s, d')" and r: "r = Inr x" "s = Inr ()"
    show ?thesis using sync_done [OF y [unfolded r(2)] assms(2)] kept [OF f] by (auto simp: r)
  next
    fix x d1 s e assume f: "first d = (Inr x, d1)" and y: "syncSubscriptionQuota w i (quBytesLimit x) 0 d1 = (s, d')" and r: "r = Inl e" "s = Inl e"
    have "d' = d1" using y r(2) by (auto dest: sync_fails)
    then show ?thesis using kept [OF f] by (auto simp: r)
  qed
qed

text \<open>
  Once a subscription has a quota with a limit, which its first report gives it, an update of the subscription's limit answers with the
  new limit but changes no quota: the quota still shows the limit of that first report, and a reset writes it back
  to the subscription.
\<close>

theorem limit_update_is_undone:
  assumes "quota_by_sub u d = Some q" and "tqBytesLimit q = Some limit" and "uuid_cast i = Some u"
    and "UpdateSubscription w i input d = (Inr s, d1)" and "usTrafficLimit input = Some n" and "\<not> usClearTrafficLimit input"
  shows "suTrafficLimit s = Some n
    \<and> (\<forall>w' j g d2. uuid_cast (TrimSpace j) = Some u \<and> GetQuota w' j d1 = (Inr g, d2) \<longrightarrow> quBytesLimit g = Some limit)
    \<and> (\<forall>w' j g d2. uuid_cast (TrimSpace j) = Some u \<and> ResetQuota w' j d1 = (Inr g, d2)
         \<longrightarrow> (\<exists>t. subscription_by_id u d2 = Some t \<and> suTrafficLimit t = Some limit))"
proof -
  obtain current where c: "update_subscription u (\<lambda>s. Inr (updated_subscription w input current s)) d = Inr (s, d1)"
    using UpdateSubscription_done [OF assms(4)] assms(3) by (metis option.inject)
  obtain s0 s' :: subscription_row where s: "s = Subscription.truncate s'" "s' = updated_subscription w input current s0" "quota_by_sub u d1 = quota_by_sub u d"
    by (rule update_subscription_done [OF c]) (auto simp: put_subscriptions_Inr quota_by_sub_def)
  have q1: "quota_by_sub u d1 = Some q" using s(3) assms(1) by simp
  have n: "suTrafficLimit s = Some n" using assms(5,6) by (simp add: s(1,2) updated_subscription_def Subscription.defs)
  have get: "quBytesLimit g = Some limit" if j: "uuid_cast (TrimSpace j) = Some u" "GetQuota w' j d1 = (Inr g, d2)" for w' j g d2
  proof -
    have r: "ResetQuotaIfNeeded w' j d1 = (Inr (), d2)" "repo_GetQuota w' (TrimSpace j) d2 = Inr g"
      using j(2) unfolding GetQuota_def by (auto simp: seq_simps)
    have "\<exists>q'. quota_by_sub u d2 = Some q' \<and> tqBytesLimit q' = Some limit"
      using r(1) reset_keeps_limit [OF _ j(1) q1] q1 assms(2)
      unfolding ResetQuotaIfNeeded_def by (auto simp: seqE_Inr giveE_iff split: sum.splits option.splits if_splits)
    then show ?thesis by (auto intro: repo_GetQuota_done [OF r(2)] simp: j(1))
  qed
  have reset: "\<exists>t. subscription_by_id u d2 = Some t \<and> suTrafficLimit t = Some limit"
    if j: "uuid_cast (TrimSpace j) = Some u" "ResetQuota w' j d1 = (Inr g, d2)" for w' j g d2
  proof -
    have "repo_ResetQuota w' (TrimSpace j) d1 = (Inr g, d2)" using j(2) unfolding ResetQuota_def by (auto simp: seq_simps)
    from reset_keeps_limit [OF this j(1) q1] show ?thesis using assms(2) by auto
  qed
  show ?thesis using n get reset by blast
qed

end
