(* ===== verification/TrafficFlow.thy ===== *)
theory TrafficFlow
  imports TrafficHandler TrafficProps RenderProps WireProps
begin

text \<open>
  The way of a counter through the whole system: the panel renders a client, Xray counts under the client's email, the agent
  collects and reports, the panel posts.  The route is that of \<open>TrafficHandler.RegisterRoutes\<close>.
\<close>

definition serve_traffic :: "string \<Rightarrow> panel_world \<Rightarrow> (nat \<Rightarrow> panel_world) \<Rightarrow> wire_request \<Rightarrow> db \<Rightarrow> wire_response \<times> db" where
  "serve_traffic base w ws q d =
     (if wqMethod q = ''POST'' \<and> wqURL q = base @ ''/api/v1/traffic/report''
      then wire_answer (traffic_Report (Some NodeIDByToken) w ws (node_request [] q) d)
      else (\<lparr> wrStatus = 404, wrBody = None \<rparr>, d))"

text \<open>Xray counts users under the emails of the clients it was configured with.\<close>

definition counts_clients :: "any list \<Rightarrow> string \<Rightarrow> bool" where
  "counts_clients clients out \<longleftrightarrow> (\<forall>s \<in> set (List.map_filter stat_of_line (scan_lines out)).
     \<exists>client email. AObj client \<in> set clients \<and> idx client ''email'' = AStr email \<and> fst s = parseIdentity email)"

lemma subscription_hd: "hd (''subscription:'' @ s) = CHR ''s''"
  by simp

lemma takeWhile_prefix: "(\<And>c. c \<in> set p \<Longrightarrow> P c) \<Longrightarrow> takeWhile P (p @ s) = p @ takeWhile P s"
  by simp

lemma parseIdentity_prefix: "\<exists>t. fst (parseIdentity (''subscription:'' @ i)) = ''subscription:'' @ t"
  unfolding parseIdentity_def Let_def
  by (subst takeWhile_prefix, force, subst takeWhile_prefix, force) auto

lemma counted_subscription:
  assumes "counts_clients (renderClients (renderAccessEntries subs)) out" and "s \<in> set (List.map_filter stat_of_line (scan_lines out))"
  shows "\<exists>t. fst (fst s) = ''subscription:'' @ t"
proof -
  obtain client email where c: "AObj client \<in> set (renderClients (renderAccessEntries subs))" "idx client ''email'' = AStr email" "fst s = parseIdentity email"
    using assms unfolding counts_clients_def by blast
  then have "\<exists>i. email = ''subscription:'' @ i" by (auto simp: renderClients_entries client_of_def)
  then show ?thesis using c(3) parseIdentity_prefix by auto
qed

lemma entry_of_record:
  assumes "decode_entry (wire (record_json r)) = Some e"
  shows "tiSubscriptionID e = utf8_coerce (rcSubscriptionID r)"
proof -
  have w: "wire (record_json r) = AObj ([(''subscription_id'', AStr (utf8_coerce (rcSubscriptionID r)))]
      @ (if rcDeviceID r = [] then [] else [(''device_id'', AStr (utf8_coerce (rcDeviceID r)))])
      @ [(''bytes_up'', AInt (rcBytesUp r)), (''bytes_down'', AInt (rcBytesDown r))])"
    by (simp add: record_json_def omit_empty_def utf8_coerce_ascii del: utf8_coerce.simps)
  have "dec_str ([(''subscription_id'', AStr (utf8_coerce (rcSubscriptionID r)))]
      @ (if rcDeviceID r = [] then [] else [(''device_id'', AStr (utf8_coerce (rcDeviceID r)))])
      @ [(''bytes_up'', AInt (rcBytesUp r)), (''bytes_down'', AInt (rcBytesDown r))]) ''subscription_id'' = Some (utf8_coerce (rcSubscriptionID r))"
    by (simp add: dec_str_def dec_def members_def)
  then show ?thesis using assms unfolding w by (auto simp: decode_entry_def split: option.splits)
qed

lemma all_some_map:
  assumes "all_some (map f xs) = Some ys"
  shows "list_all2 (\<lambda>x y. f x = Some y) xs ys"
  using assms by (induction xs arbitrary: ys) (auto split: option.splits)

lemma entries_of_records:
  assumes "decode_entries (wire (AArr (map record_json rs))) = Some es"
  shows "list_all2 (\<lambda>r e. tiSubscriptionID e = utf8_coerce (rcSubscriptionID r)) rs es"
proof -
  have "all_some (map (\<lambda>r. decode_entry (wire (record_json r))) rs) = Some es"
    using assms by (simp add: decode_entries_def comp_def)
  from all_some_map [OF this] show ?thesis by (rule list_all2_mono) (rule entry_of_record)
qed

text \<open>A text that begins with a letter beyond \<open>f\<close> is no UUID, trimmed or not.\<close>

lemma TrimSpace_hd: "s \<noteq> [] \<Longrightarrow> graphic (hd s) \<Longrightarrow> TrimSpace s \<noteq> [] \<and> hd (TrimSpace s) = hd s"
proof -
  assume s: "s \<noteq> []" "graphic (hd s)"
  have left: "strip_left spaces s = s" using s by (rule strip_left_graphic)
  obtain u where "rev s = u @ strip_left (map rev spaces) (rev s)" using strip_left_suffix by blast
  then have "s = TrimSpace s @ rev u" by (metis left TrimSpace_def rev_append rev_rev_ident)
  then show ?thesis using TrimSpace_nonblank [OF s] by (metis hd_append2)
qed

lemma no_uuid:
  assumes "s \<noteq> []" and "hd s = CHR ''s''"
  shows "uuid_cast s = None"
proof -
  obtain t where s: "s = CHR ''s'' # t" using assms by (cases s) auto
  have "uuid_bytes 16 s = None" unfolding s by (cases t) (simp_all add: numeral_eq_Suc is_hex_def)
  then show ?thesis by (simp add: s uuid_cast_def has_prefix_def)
qed

lemma subscription_email_refused: "uuid_cast (TrimSpace (''subscription:'' @ t)) = None"
  using TrimSpace_hd [of "''subscription:'' @ t"] by (intro no_uuid) simp_all

lemma RecordTraffic_refused:
  assumes "uuid_cast (TrimSpace i) = None"
  shows "\<exists>e. RecordTraffic w i device node up down d = (Inl e, d)"
proof -
  have "\<exists>e. CreateLog w \<lparr> lgID = [], lgSubscriptionID = TrimSpace i, lgDeviceID = cleanStringPtr device, lgNodeID = TrimSpace node,
        lgBytesUp = up, lgBytesDown = down, lgBytesTotal = 0, lgRecordedAt = pwNow w, lgCreatedAt = 0 \<rparr> d = (Inl e, d)"
    using assms by (auto simp: CreateLog_def alone_def uuid_param_def stmt_def ensure_def)
  then show ?thesis unfolding RecordTraffic_def by (auto simp: seqE_def guardE_def)
qed

lemma RecordReport_refused:
  assumes "es \<noteq> []" and "uuid_cast (TrimSpace (tiSubscriptionID (hd es))) = None"
  shows "\<exists>e. RecordReport resolver w ws token es d = (Inl e, d)"
proof (cases resolver)
  case None
  then show ?thesis by (simp add: RecordReport_def)
next
  case (Some resolve)
  have "\<exists>e. record_entries ws node cs d = (Inl e, d)" if all: "clean_entries 0 0 es = Some (cs, up, down)" for node cs up down
  proof -
    obtain x xs where es: "es = x # xs" using assms(1) by (cases es) auto
    obtain c ds where cs: "cs = c # ds" "tiSubscriptionID c = TrimSpace (tiSubscriptionID x)"
      using all unfolding es by (auto simp: Let_def split: if_splits)
    obtain e where "RecordTraffic (ws 0) (tiSubscriptionID c) (tiDeviceID c) node (tiBytesUp c) (tiBytesDown c) d = (Inl e, d)"
      using RecordTraffic_refused [of "tiSubscriptionID c"] assms(2) by (metis es cs(2) TrimSpace_again list.sel(1))
    then show ?thesis by (simp add: cs(1) seqE_def)
  qed
  note loop = this
  show ?thesis
  proof (cases "TrimSpace token = [] \<or> clean_entries 0 0 es = None")
    case True
    then show ?thesis using assms(1) by (auto simp: Some RecordReport_def seqE_def guardE_def)
  next
    case False
    then obtain cs up down where c: "clean_entries 0 0 es = Some (cs, up, down)" "TrimSpace token \<noteq> []" by auto
    show ?thesis
    proof (cases "resolve w (TrimSpace token) d")
      case (Inl e)
      then show ?thesis using assms(1) c by (simp add: Some RecordReport_def seqE_def guardE_def readE_def)
    next
      case (Inr node)
      obtain e where "record_entries ws node cs d = (Inl e, d)" using loop [OF c(1)] by blast
      then show ?thesis using assms(1) c Inr by (simp add: Some RecordReport_def seqE_def guardE_def readE_def)
    qed
  qed
qed

lemma rendered_record_subscription:
  assumes "\<And>xs. mset (order xs) = mset xs" and "counts_clients (renderClients (renderAccessEntries subs)) out"
    and "r \<in> set (parseXrayStats order out)"
  shows "\<exists>t. rcSubscriptionID r = ''subscription:'' @ t"
proof -
  let ?ss = "List.map_filter stat_of_line (scan_lines out)"
  have "set (order (foldl add_stat [] ?ss)) = set (foldl add_stat [] ?ss)" using assms(1) by (metis mset_eq_setD)
  then have "r \<in> set (foldl add_stat [] ?ss)" using assms(3) by (simp add: parseXrayStats_def)
  then have "record_key r \<in> fst ` set ?ss" using tallies_fold [of ?ss] unfolding tallies_def set_map by blast
  then obtain s where s: "s \<in> set ?ss" "record_key r = fst s" by blast
  then have "rcSubscriptionID r = fst (fst s)" by (simp add: record_key_def flip: s(2))
  then show ?thesis using counted_subscription [OF assms(2) s(1)] by metis
qed

lemma emails_refused:
  assumes "list_all2 (\<lambda>r e. tiSubscriptionID e = utf8_coerce (rcSubscriptionID r)) rs es"
    and "\<And>r. r \<in> set rs \<Longrightarrow> \<exists>t. rcSubscriptionID r = ''subscription:'' @ t"
  shows "\<exists>e. RecordReport (Some NodeIDByToken) w ws tok es d = (Inl e, d)"
proof (cases "es = []")
  case True
  then show ?thesis by (simp add: RecordReport_def seqE_def guardE_def)
next
  case False
  then obtain r rr e ee where re: "rs = r # rr" "es = e # ee" using assms(1) by (cases rs; cases es) auto
  obtain t where t: "rcSubscriptionID r = ''subscription:'' @ t" using assms(2) re(1) by auto
  have "utf8_coerce (''subscription:'' @ t) = ''subscription:'' @ utf8_coerce t" by (rule utf8_coerce_ascii_append) simp
  then have "tiSubscriptionID (hd es) = ''subscription:'' @ utf8_coerce t" using assms(1) by (simp add: re t)
  then show ?thesis using RecordReport_refused [OF False] subscription_email_refused by simp
qed

lemma emails_answered:
  assumes "hqBody r = Some (wire (AArr (map record_json rs)))"
    and "\<And>r. r \<in> set rs \<Longrightarrow> \<exists>t. rcSubscriptionID r = ''subscription:'' @ t"
  shows "\<exists>resp. traffic_Report (Some NodeIDByToken) w ws r d = (resp, d, []) \<and> (rs \<noteq> [] \<longrightarrow> rsStatus resp \<noteq> 200)"
proof (cases "bearerToken (hqAuthorization r)")
  case None
  then show ?thesis by (simp add: traffic_Report_def WriteError_def)
next
  case (Some tok)
  have err: "rsStatus (writeTrafficError e) \<noteq> 200" for e
    by (simp add: writeTrafficError_def WriteBadRequest_def WriteError_def WriteNotFound_def WriteStorageError_def)
  show ?thesis
  proof (cases "decode_entries (wire (AArr (map record_json rs)))")
    case None
    then show ?thesis using Some assms(1) by (simp add: traffic_Report_def WriteBadRequest_def WriteError_def)
  next
    case es: (Some es)
    have "\<exists>e. RecordReport (Some NodeIDByToken) w ws tok es d = (Inl e, d)"
      by (rule emails_refused [OF entries_of_records [OF es] assms(2)])
    then show ?thesis using Some assms(1) es err by (auto simp: traffic_Report_def)
  qed
qed

text \<open>
  C28 No traffic of a client that the panel renders is ever counted: its counters run under \<open>subscription:\<close> and its id, the
  agent takes that text for the subscription, and the panel refuses the report, because the text is no UUID.  The report
  fails whatever the counters say and changes nothing, and the counters were reset when they were read.
\<close>

theorem rendered_clients_never_counted:
  assumes "\<And>xs. mset (order xs) = mset xs" and "counts_clients (renderClients (renderAccessEntries subs)) out"
    and "clHTTP c = (\<lambda>q. Inr (fst (serve_traffic (base_url c) w ws q d)))"
  shows "snd (serve_traffic (base_url c) w ws (report_traffic_request c token (parseXrayStats order out)) d) = d
    \<and> (parseXrayStats order out \<noteq> [] \<longrightarrow> \<not> is_ok (Report_traffic c token (parseXrayStats order out)))"
proof -
  define rs where "rs = parseXrayStats order out"
  define q where "q = report_traffic_request c token rs"
  have "hqBody (node_request [] q) = Some (wire (AArr (map record_json rs)))"
    by (simp add: node_request_def q_def report_traffic_request_def)
  from emails_answered [OF this rendered_record_subscription [OF assms(1,2)], folded rs_def]
  obtain resp where resp: "traffic_Report (Some NodeIDByToken) w ws (node_request [] q) d = (resp, d, [])" "rs \<noteq> [] \<longrightarrow> rsStatus resp \<noteq> 200"
    by blast
  obtain a where a: "serve_traffic (base_url c) w ws q d = (a, d)" "rs \<noteq> [] \<longrightarrow> wrStatus a \<noteq> 200"
    by (rule that [of "fst (wire_answer (resp, d, []))"])
      (use resp in \<open>simp_all add: serve_traffic_def q_def report_traffic_request_def wire_answer_def\<close>)
  have "\<not> is_ok (Report_traffic c token rs)" if "rs \<noteq> []"
    using a that by (simp add: Report_traffic_def assms(3) q_def [symmetric])
  then show ?thesis using a(1) by (simp add: rs_def [symmetric] q_def [symmetric])
qed

end
