(* ===== verification/TrafficWitness.thy ===== *)
theory TrafficWitness
  imports TrafficQuotas TrafficFlow SubsWitness RoundTripWitness
begin

text \<open>The theorems about traffic applied to the small shop: its node reports bytes of its subscription.\<close>

definition bytes :: TrafficReportItem where
  "bytes = \<lparr> tiSubscriptionID = sub_id, tiDeviceID = None, tiBytesUp = 5, tiBytesDown = 7 \<rparr>"

definition stray :: TrafficReportItem where
  "stray = \<lparr> tiSubscriptionID = ''subscription:1'', tiDeviceID = None, tiBytesUp = 1, tiBytesDown = 1 \<rparr>"

lemma graphic_ids: "TrimSpace sub_id = sub_id" "TrimSpace node_a = node_a" "sub_id \<noteq> []" "node_a \<noteq> []"
  by (auto simp: sub_id_def node_a_def intro!: TrimSpace_graphic)

lemma shop_traffic: "dbTraffic shop_db = []" "dbQuotas shop_db = []" "dbDevices shop_db = []"
  by (simp_all add: shop_db_def registered_db_def invited_db_def empty_db_def)

lemma shop_accounts: "accounts_ok shop_db"
  by (simp add: accounts_ok_def shop_ok traffic_ok_def shop_traffic)

lemma shop_resolves: "NodeIDByToken calm node_token shop_db = Inr node_a"
  by (simp add: NodeIDByToken_def registered_fields one_row_def first_row_def)

lemma sub_a_bytes: "suTrafficUsed sub_a = 0" "suTrafficLimit sub_a = None" "suDeviceLimit sub_a = 3" "suStartsAt sub_a = 1704067100000000000"
  by (simp_all add: sub_a_def)

lemma one_entry: "\<exists>d1. RecordTraffic calm sub_id None node_a 5 7 shop_db = (Inr (), d1)"
proof -
  have "wrap64 12 = 12" by (rule wrap64_small) (simp add: int8_def)
  then show ?thesis
    by (simp add: RecordTraffic_def seqE_def guardE_def giveE_def graphic_ids CreateLog_def alone_def uuid_param_def uuid_param_opt_def
        cleanStringPtr_def optionalString_def put_traffic_def constraints_def traffic_row_ok_def log_row_def int8_def shop_traffic registered_fields
        IncrementQuota_def upsert_quota_def subscription_by_id_def one_row_def quota_by_sub_def new_quota_def quota_ints_ok_def quota_row_ok_def
        exec_subscription_def put_subscriptions_def subscription_ints_ok_def subscription_row_ok_def sub_a_bytes int4_def Let_def)
qed

lemma cleaned: "clean_entry bytes = bytes" "clean_entry stray = stray"
  by (simp_all add: clean_entry_def bytes_def stray_def graphic_ids cleanStringPtr_def TrimSpace_graphic)

lemma report_entries:
  assumes "entries \<in> {[bytes], [bytes, stray]}"
  shows "\<exists>up down. clean_entries 0 0 entries = Some (entries, up, down)"
  using assms cleaned by (auto simp: Let_def clean_entry_def bytes_def stray_def graphic_ids)

lemma traffic_report_run: "\<exists>t d1. RecordReport (Some NodeIDByToken) calm (\<lambda>_. calm) node_token [bytes] shop_db = (Inr t, d1)"
proof -
  obtain d1 where d1: "RecordTraffic calm sub_id None node_a 5 7 shop_db = (Inr (), d1)" using one_entry by blast
  then have "record_entries (\<lambda>_. calm) node_a [bytes] shop_db = (Inr (), d1)" by (simp add: bytes_def seqE_def giveE_def)
  moreover obtain up down where "clean_entries 0 0 [bytes] = Some ([bytes], up, down)" using report_entries [of "[bytes]"] by auto
  ultimately show ?thesis
    using node_token_clean by (simp add: RecordReport_def seqE_def guardE_def readE_def shop_resolves giveE_def del: clean_entries.simps record_entries.simps)
qed

lemma half_report_run: "\<exists>e d1. RecordReport (Some NodeIDByToken) calm (\<lambda>_. calm) node_token [bytes, stray] shop_db = (Inl e, d1)"
proof -
  obtain d1 where d1: "RecordTraffic calm sub_id None node_a 5 7 shop_db = (Inr (), d1)" using one_entry by blast
  have "\<exists>e. RecordTraffic calm ''subscription:1'' None node_a 1 1 d1 = (Inl e, d1)"
    by (rule RecordTraffic_refused) (use subscription_email_refused [of "''1''"] in simp)
  then obtain e where "RecordTraffic calm ''subscription:1'' None node_a 1 1 d1 = (Inl e, d1)" by blast
  then have "record_entries (\<lambda>_. calm) node_a [bytes, stray] shop_db = (Inl e, d1)" using d1 by (simp add: bytes_def stray_def seqE_def giveE_def)
  moreover obtain up down where "clean_entries 0 0 [bytes, stray] = Some ([bytes, stray], up, down)" using report_entries [of "[bytes, stray]"] by auto
  ultimately show ?thesis
    using node_token_clean by (simp add: RecordReport_def seqE_def guardE_def readE_def shop_resolves giveE_def del: clean_entries.simps record_entries.simps)
qed

lemma report_posts_exactly_witness:
  "\<exists>t d1. RecordReport (Some NodeIDByToken) calm (\<lambda>_. calm) node_token [bytes] shop_db = (Inr t, d1) \<and> sub_used d1 sub_id = Some 12"
proof -
  obtain t d1 where r: "RecordReport (Some NodeIDByToken) calm (\<lambda>_. calm) node_token [bytes] shop_db = (Inr t, d1)" using traffic_report_run by blast
  have "sub_used shop_db sub_id = Some 0" by (simp add: sub_used_def subscription_by_id_def sub_a_bytes)
  moreover have "entry_subscription bytes = Some sub_id" by (simp add: entry_subscription_def bytes_def graphic_ids)
  ultimately show ?thesis using r report_posts_exactly [OF r] by (auto simp: bytes_def)
qed

lemma failed_report_keeps_prefix_witness:
  "\<exists>e d1 k. RecordReport (Some NodeIDByToken) calm (\<lambda>_. calm) node_token [bytes, stray] shop_db = (Inl e, d1)
    \<and> sub_used d1 sub_id = map_option (\<lambda>n. n + posted (take k [bytes, stray]) sub_id) (sub_used shop_db sub_id)"
  using half_report_run failed_report_keeps_prefix by metis

lemma service_checks_cover_constraints_witness:
  "let d' = foldl (\<lambda>d x. traffic_step x d) shop_db [(calm, AskReport (\<lambda>_. calm) node_token [bytes, stray]), (calm, AskResetQuota sub_id)]
   in fst (SetQuota calm \<lparr> sqSubscriptionID = sub_id, sqBytesLimit = Some 0, sqBytesUsed = None, sqResetAt = None \<rparr> d') \<noteq> Inl (ErrPg PgCheck)
     \<and> fst (GetQuota calm sub_id d') \<noteq> Inl (ErrPg PgCheck)
     \<and> fst (RecordReport (Some NodeIDByToken) calm (\<lambda>_. calm) node_token [bytes] d') \<noteq> Inl (ErrPg PgCheck)"
proof -
  have "\<not> (\<exists>e \<in> set [bytes]. 2 ^ 63 \<le> tiBytesUp e + tiBytesDown e)" by (simp add: bytes_def)
  then show ?thesis
    using service_checks_cover_constraints [OF shop_accounts refl] unfolding Let_def by blast
qed

text \<open>The one entry a constraint refuses: its sum wraps, the log row is written and the quota is not.\<close>

lemma wrapped_entry_refused:
  "\<exists>d1. RecordTraffic calm sub_id None node_a (2 ^ 62) (2 ^ 62) shop_db = (Inl (ErrPg PgCheck), d1) \<and> length (dbTraffic d1) = 1"
proof -
  have "wrap64 9223372036854775808 = - 9223372036854775808" by (simp add: wrap64_def)
  then show ?thesis
    by (simp add: RecordTraffic_def seqE_def guardE_def giveE_def graphic_ids CreateLog_def alone_def uuid_param_def uuid_param_opt_def
        cleanStringPtr_def optionalString_def put_traffic_def constraints_def traffic_row_ok_def log_row_def int8_def shop_traffic registered_fields
        IncrementQuota_def upsert_quota_def subscription_by_id_def one_row_def quota_by_sub_def new_quota_def quota_ints_ok_def quota_row_ok_def
        sub_a_bytes Let_def)
qed

lemma quota_remaining_bounds_witness: "\<exists>q d1. GetQuota calm sub_id shop_db = (Inr q, d1) \<and> 0 \<le> quBytesUsed q"
proof -
  have "repo_GetQuota calm sub_id shop_db = Inr (quota_derived \<lparr> quID = [], quSubscriptionID = sub_id, quBytesLimit = None, quBytesUsed = 0,
      quBytesRemaining = None, quExceeded = False, quResetAt = None, quCreatedAt = 1704067100000000000, quUpdatedAt = 1704067100000000000 \<rparr>)"
    by (simp add: repo_GetQuota_def uuid_param_def subscription_by_id_def one_row_def quota_by_sub_def shop_traffic sub_a_bytes)
      (simp add: sub_a_def)
  then have "\<exists>q. GetQuota calm sub_id shop_db = (Inr q, shop_db)"
    by (simp add: GetQuota_def seqE_def guardE_def graphic_ids ResetQuotaIfNeeded_def readE_def quota_derived_def)
  then show ?thesis using quota_remaining_bounds [OF shop_accounts] by blast
qed

section \<open>A limit\<close>

definition limited_db :: db where
  "limited_db = shop_db\<lparr> dbQuotas := [new_quota calm (Some 100) 5 None sub_a] \<rparr>"

definition raise_limit :: UpdateSubscriptionInput where
  "raise_limit = \<lparr> usStatus = None, usTrafficLimit = Some 200, usClearTrafficLimit = False, usDeviceLimit = None, usRegion = None, usClearRegion = False \<rparr>"

lemma limit_update_is_undone_witness:
  "\<exists>s d1. UpdateSubscription calm sub_id raise_limit limited_db = (Inr s, d1) \<and> suTrafficLimit s = Some 200
    \<and> (\<forall>w' j g d2. uuid_cast (TrimSpace j) = Some sub_id \<and> GetQuota w' j d1 = (Inr g, d2) \<longrightarrow> quBytesLimit g = Some 100)"
proof -
  have t: "dbSubscriptions limited_db = [sub_a]" "dbUsers limited_db = [user_a]" "dbPlans limited_db = [plan_a]" by (simp_all add: limited_db_def)
  have "\<exists>s d1. UpdateSubscription calm sub_id raise_limit limited_db = (Inr s, d1)"
    by (simp add: UpdateSubscription_def nullable_def alone_def FindSubscription_def uuid_param_def subscription_by_id_def one_row_def t update_subscription_def
        put_subscriptions_def constraints_def updated_subscription_def raise_limit_def subscription_ints_ok_def subscription_row_ok_def
        int4_def int8_def sub_a_bytes)
      (simp add: sub_a_def Subscription.defs)
  then obtain s d1 where r: "UpdateSubscription calm sub_id raise_limit limited_db = (Inr s, d1)" by blast
  have q: "quota_by_sub sub_id limited_db = Some (new_quota calm (Some 100) 5 None sub_a)"
    by (simp add: quota_by_sub_def limited_db_def new_quota_def)
  have l: "tqBytesLimit (new_quota calm (Some 100) 5 None sub_a) = Some 100" by (simp add: new_quota_def)
  have i: "usTrafficLimit raise_limit = Some 200" "\<not> usClearTrafficLimit raise_limit" by (simp_all add: raise_limit_def)
  show ?thesis using r limit_update_is_undone [OF q l sub_cast r i] by blast
qed

section \<open>A counter\<close>

definition reporter_a :: "db \<Rightarrow> PanelClient" where
  "reporter_a d = \<lparr> clBaseURL = ''http://p'', clHTTP = (\<lambda>q. Inr (fst (serve_traffic ''http://p'' calm (\<lambda>_. calm) q d))) \<rparr>"

definition uplink_line :: string where
  "uplink_line = ''user>>>subscription:7>>>traffic>>>uplinkvalue:5''"

definition customer :: SubscriptionInput where
  "customer = \<lparr> siSubscriptionID = ''7'', siUserID = [], siPlanID = [], siUserStatus = [], siSubscriptionStatus = [], siPreferredRegion = [],
     siPlanName = [], siDeviceLimit = 1, siTrafficLimitBytes = None, siStartsAt = [], siExpiresAt = [] \<rparr>"

lemma uplink_counts: "stat_of_line uplink_line = Some ((''subscription:7'', []), ''uplink'', 5)"
proof -
  have l: "parseStatLine uplink_line = (TrimSpace ''user>>>subscription:7>>>traffic>>>uplink'', scan_int (TrimSpace ''5''))"
    by (simp add: parseStatLine_def uplink_line_def name_mark_def has_prefix_def)
  have a: "split_arrows ''user>>>subscription:7>>>traffic>>>uplink'' = [''user'', ''subscription:7'', ''traffic'', ''uplink'']"
    by (simp add: split_arrows.simps has_prefix_def)
  have t: "TrimSpace uplink_line = uplink_line" "contains_sub uplink_line ''user>>>''"
    by (simp_all add: uplink_line_def TrimSpace_graphic has_prefix_def)
  show ?thesis
    unfolding stat_of_line_def Let_def t(1) l
    by (simp add: t(2) a TrimSpace_graphic parseIdentity_def scan_int_def digits_value_def int8_def) (simp add: uplink_line_def)
qed

lemma scan_uplink: "List.map_filter stat_of_line (scan_lines uplink_line) = [((''subscription:7'', []), ''uplink'', 5)]"
proof -
  have "split_on (chr 10) uplink_line = [uplink_line]" by (rule split_on_no_sep) code_simp
  moreover have "drop_cr uplink_line = uplink_line" "length uplink_line \<le> 65535" "uplink_line \<noteq> []"
    by (simp_all add: drop_cr_def uplink_line_def)
  ultimately have "scan_lines uplink_line = [uplink_line]" by (simp add: scan_lines_def)
  then show ?thesis by (simp add: List.map_filter_simps uplink_counts)
qed

lemma rendered_clients_never_counted_witness:
  "snd (serve_traffic ''http://p'' calm (\<lambda>_. calm) (report_traffic_request (reporter_a shop_db) node_token (parseXrayStats rev uplink_line)) shop_db) = shop_db"
proof -
  have b: "base_url (reporter_a shop_db) = ''http://p''"
    by (simp add: reporter_a_def base_url_def TrimSpace_graphic)
  have "AObj [(''id'', AStr ''7''), (''email'', AStr ''subscription:7''), (''flow'', AStr DefaultVLESSFlow), (''level'', AInt 0)]
      \<in> set (renderClients (renderAccessEntries [customer]))"
    by (simp add: renderClients_entries client_of_def customer_def)
  moreover have "parseIdentity ''subscription:7'' = (''subscription:7'', [])" by (simp add: parseIdentity_def)
  ultimately have "counts_clients (renderClients (renderAccessEntries [customer])) uplink_line"
    unfolding counts_clients_def scan_uplink by (auto intro!: exI)
  then show ?thesis
    using rendered_clients_never_counted [of rev "[customer]" uplink_line "reporter_a shop_db" calm "\<lambda>_. calm" shop_db node_token]
    by (simp add: b) (simp add: reporter_a_def)
qed

end
