(* ===== verification/SupervisorProps.thy ===== *)
theory SupervisorProps
  imports AgentSupervisor AgentProps
begin

text \<open>
  The Xray supervisor (\<open>AgentSupervisor\<close>) under calls that come one at a time: the invariant of its reachable states,
  the termination of a blocked call, and the call that never returns after a failed start.
\<close>

section \<open>Invariant\<close>

text \<open>The supervising goroutine and the fields it shares agree.\<close>

definition loop_ok :: "XraySupervisor \<Rightarrow> sup_loop \<Rightarrow> bool" where
  "loop_ok s l = (spGen s \<noteq> 0 \<and> spGen s \<notin> set (spDoneClosed s) \<and> spPrep s \<noteq> PStarts \<and>
     (lpPc l \<noteq> LEnter \<longrightarrow> lpGen l = spGen s \<and> 1 \<le> lpBackoff l \<and> lpBackoff l \<le> xraySupervisorBackoffMax) \<and>
     (lpPc l \<in> {LWait, LGrace} \<longrightarrow> lpCmd l = spCmd s) \<and>
     (if lpPc l = LBackoff then spAlive s = [] \<and> spState s = ProcessStateRestarting \<and> spPid s = 0
      else (spAlive s = [] \<or> spAlive s = [spCmd s]) \<and> spState s = ProcessStateRunning \<and> spPid s = spCmd s) \<and>
     (lpPc l = LGrace \<longrightarrow> spStopped s) \<and> (spStopped s \<longrightarrow> calling s))"

definition quiet :: "XraySupervisor \<Rightarrow> bool" where
  "quiet s = (spAlive s = [] \<and> spPid s = 0 \<and> spState s \<in> {ProcessStateStopped, ProcessStateFailed} \<and>
     (spPrep s = PStarts \<longrightarrow> spGen s \<notin> set (spDoneClosed s)))"

fun prepare_ok :: "prepare_pc \<Rightarrow> nat \<Rightarrow> bool \<Rightarrow> bool" where
  "prepare_ok PIdle gen stopped = True"
| "prepare_ok (PWaits g p) gen stopped = (g = gen \<and> g \<noteq> 0 \<and> stopped)"
| "prepare_ok PStarts gen stopped = (gen \<noteq> 0 \<and> \<not> stopped)"

fun stop_ok :: "stop_pc \<Rightarrow> nat \<Rightarrow> bool \<Rightarrow> bool" where
  "stop_ok SIdle gen stopped = True"
| "stop_ok (SWaits g) gen stopped = (g = gen \<and> g \<noteq> 0 \<and> stopped)"

definition calls_ok :: "XraySupervisor \<Rightarrow> bool" where
  "calls_ok s = ((spPrep s = PIdle \<or> spStop s = SIdle) \<and> prepare_ok (spPrep s) (spGen s) (spStopped s) \<and>
     stop_ok (spStop s) (spGen s) (spStopped s))"

definition channels_ok :: "XraySupervisor \<Rightarrow> bool" where
  "channels_ok s = ((spGen s \<in> set (spStopClosed s) \<longleftrightarrow> spStopped s) \<and>
     (\<forall>g \<in> set (spStopClosed s) \<union> set (spDoneClosed s). 0 < g \<and> g \<le> spGen s))"

definition supervisor_ok :: "XraySupervisor \<Rightarrow> bool" where
  "supervisor_ok s = (\<not> spPanicked s \<and> length (spEvents s) \<le> runtimeEventTrailLimit \<and> calls_ok s \<and> channels_ok s \<and>
     (case spLoops s of [] \<Rightarrow> quiet s | [l] \<Rightarrow> loop_ok s l | _ \<Rightarrow> False))"

lemmas sup_defs = supervisor_ok_def calls_ok_def channels_ok_def quiet_def loop_ok_def

lemmas sup_steps = set_loop_def end_loop_def append_sup_event_def note_stopped_def startProcess_def close_stop_def
  open_generation_def

lemma supervisor_new: "supervisor_ok NewXraySupervisor"
  by (simp add: NewXraySupervisor_def sup_defs)


text \<open>The shapes of the list of goroutines.\<close>

lemma supervisor_cases:
  assumes "supervisor_ok s"
  obtains (none) "spLoops s = []" "quiet s" | (one) l where "spLoops s = [l]" "loop_ok s l"
  using assms by (auto simp: supervisor_ok_def split: list.splits)

lemma supervisor_parts:
  assumes "supervisor_ok s"
  shows "\<not> spPanicked s" and "length (spEvents s) \<le> runtimeEventTrailLimit" and "calls_ok s" and "channels_ok s"
  using assms by (simp_all add: supervisor_ok_def)

lemma supervisor_one: "supervisor_ok s \<longleftrightarrow> \<not> spPanicked s \<and> length (spEvents s) \<le> runtimeEventTrailLimit \<and> calls_ok s \<and>
    channels_ok s \<and> loop_ok s l" if "spLoops s = [l]"
  using that by (simp add: supervisor_ok_def)

lemma supervisor_none: "supervisor_ok s \<longleftrightarrow> \<not> spPanicked s \<and> length (spEvents s) \<le> runtimeEventTrailLimit \<and> calls_ok s \<and>
    channels_ok s \<and> quiet s" if "spLoops s = []"
  using that by (simp add: supervisor_ok_def)

lemma channels_close: "channels_ok s \<Longrightarrow> spGen s \<noteq> 0 \<Longrightarrow> channels_ok (close_stop s)"
  by (auto simp: channels_ok_def close_stop_def)

lemma channels_fresh: "channels_ok s \<Longrightarrow> spGen s < g \<Longrightarrow> g \<notin> set (spStopClosed s) \<and> g \<notin> set (spDoneClosed s)"
  unfolding channels_ok_def by (metis Un_iff not_less)

lemma channels_open: "channels_ok s \<Longrightarrow> channels_ok (open_generation p s)"
  using channels_fresh[of s "Suc (spGen s)"] by (auto simp: channels_ok_def open_generation_def le_SucI)

lemma channels_done: "channels_ok s \<Longrightarrow> spGen s \<noteq> 0 \<Longrightarrow> channels_ok (s\<lparr> spDoneClosed := spGen s # spDoneClosed s \<rparr>)"
  by (auto simp: channels_ok_def)

lemma PrepareStart_ok:
  assumes "supervisor_ok s" and "\<not> calling s"
  shows "supervisor_ok (PrepareStart p s)"
  using assms(1)
proof (cases rule: supervisor_cases)
  case none
  have g: "Suc (spGen s) \<notin> set (spDoneClosed s)" using supervisor_parts(4)[OF assms(1)] by (simp add: channels_fresh)
  show ?thesis
  proof (cases "spGen s \<noteq> 0 \<and> \<not> spStopped s")
    case True
    then show ?thesis using none assms supervisor_parts[OF assms(1)] channels_close[of s]
      by (simp add: PrepareStart_def supervisor_ok_def calls_ok_def quiet_def calling_def close_stop_def channels_ok_def)
  next
    case False
    then have "PrepareStart p s = open_generation p s" by (auto simp: PrepareStart_def)
    then show ?thesis using none g assms supervisor_parts[OF assms(1)] channels_open[of s p]
      by (simp add: supervisor_ok_def calls_ok_def quiet_def calling_def open_generation_def)
  qed
next
  case (one l)
  have "spGen s \<noteq> 0 \<and> \<not> spStopped s" using one assms(2) by (auto simp: loop_ok_def)
  then show ?thesis using one assms supervisor_parts[OF assms(1)] channels_close[of s]
    by (simp add: PrepareStart_def supervisor_ok_def calls_ok_def loop_ok_def calling_def close_stop_def channels_ok_def)
qed

lemma Stop_ok:
  assumes "supervisor_ok s" and "\<not> calling s"
  shows "supervisor_ok (Stop s)"
  using assms(1)
proof (cases rule: supervisor_cases)
  case none
  show ?thesis
  proof (cases "spGen s = 0")
    case True
    then show ?thesis using assms by (simp add: Stop_def)
  next
    case False
    then show ?thesis using none assms supervisor_parts[OF assms(1)] channels_close[of s]
      by (simp add: Stop_def supervisor_ok_def calls_ok_def quiet_def calling_def close_stop_def channels_ok_def)
  qed
next
  case (one l)
  have "spGen s \<noteq> 0 \<and> \<not> spStopped s" using one assms(2) by (auto simp: loop_ok_def)
  then show ?thesis using one assms supervisor_parts[OF assms(1)] channels_close[of s]
    by (simp add: Stop_def supervisor_ok_def calls_ok_def loop_ok_def calling_def close_stop_def channels_ok_def)
qed

lemma sees_done_ok:
  assumes "supervisor_ok s" and "spPrep s = PWaits g p" and "g \<in> set (spDoneClosed s)"
  shows "supervisor_ok (open_generation p s)"
  using assms(1)
proof (cases rule: supervisor_cases)
  case none
  then show ?thesis using assms supervisor_parts[OF assms(1)] channels_open[of s p] channels_fresh[of s "Suc (spGen s)"]
    by (simp add: supervisor_ok_def calls_ok_def quiet_def open_generation_def)
next
  case (one l)
  then show ?thesis using assms supervisor_parts[OF assms(1)] by (simp add: calls_ok_def loop_ok_def)
qed

lemma prepare_starts_ok:
  assumes "supervisor_ok s" and "spPrep s = PStarts"
  shows "supervisor_ok (prepare_starts now outcome s)"
  using assms(1)
proof (cases rule: supervisor_cases)
  case none
  then show ?thesis using assms(2) supervisor_parts[OF assms(1)]
    by (cases outcome) (simp_all add: supervisor_ok_def calls_ok_def channels_ok_def quiet_def loop_ok_def prepare_starts_def
      startProcess_def append_sup_event_def new_loop_def cut_trail_length)
next
  case (one l)
  then show ?thesis using assms(2) by (simp add: loop_ok_def)
qed

lemma returns_ok:
  assumes "supervisor_ok s" and "spStop s = SWaits g" and "g \<in> set (spDoneClosed s)"
  shows "supervisor_ok (s\<lparr> spStop := SIdle \<rparr>)"
  using assms(1)
proof (cases rule: supervisor_cases)
  case none
  have "spPrep s = PIdle" using assms supervisor_parts[OF assms(1)] by (auto simp: calls_ok_def)
  then show ?thesis using none assms supervisor_parts[OF assms(1)]
    by (simp add: supervisor_ok_def calls_ok_def channels_ok_def quiet_def)
next
  case (one l)
  then show ?thesis using assms supervisor_parts[OF assms(1)] by (simp add: calls_ok_def loop_ok_def)
qed

lemma child_dies_ok:
  assumes "supervisor_ok s"
  shows "supervisor_ok (s\<lparr> spAlive := removeAll pid (spAlive s) \<rparr>)"
  using assms
proof (cases rule: supervisor_cases)
  case none
  then have "s\<lparr> spAlive := removeAll pid (spAlive s) \<rparr> = s" by (simp add: quiet_def)
  then show ?thesis using assms by simp
next
  case (one l)
  have "spAlive s = [] \<or> spAlive s = [spCmd s]" using one(2) by (auto simp: loop_ok_def split: if_splits)
  then have "spAlive s = [] \<or> removeAll pid (spAlive s) = spAlive s \<or> removeAll pid (spAlive s) = []" by auto
  then show ?thesis using one supervisor_parts[OF assms]
    by (elim disjE) (simp_all add: supervisor_ok_def calls_ok_def channels_ok_def loop_ok_def calling_def split: if_splits)
qed


lemma ended_ok:
  assumes "supervisor_ok s" and l: "spLoops s = [l]" and "spAlive s = []" and "lpGen l = spGen s" and "loop_ok s l"
    and s': "s' = end_loop 0 (lpGen l) (s\<lparr> spState := st, spPid := 0, spEvents := es \<rparr>)"
    and "st \<in> {ProcessStateStopped, ProcessStateFailed}" and "length es \<le> runtimeEventTrailLimit"
  shows "supervisor_ok s' \<and> spLoops s' = [] \<and> spGen s' \<in> set (spDoneClosed s')"
proof -
  have d: "spGen s \<notin> set (spDoneClosed s)" "spGen s \<noteq> 0" "spPrep s \<noteq> PStarts" using assms(5) by (auto simp: loop_ok_def)
  show ?thesis using assms(2-4,7,8) d supervisor_parts[OF assms(1)] channels_done[of s]
    unfolding s' by (simp add: end_loop_def supervisor_ok_def calls_ok_def channels_ok_def quiet_def)
qed

lemma loop_parts:
  assumes "supervisor_ok s" and "spLoops s = [l]"
  shows "loop_ok s l" and "lpPc l \<noteq> LEnter \<Longrightarrow> lpGen l = spGen s"
  using assms by (simp_all add: supervisor_ok_def loop_ok_def)

lemma moved_ok:
  assumes "supervisor_ok s" and "spLoops s' = [l']" and "loop_ok s' l'" and "length (spEvents s') \<le> runtimeEventTrailLimit"
    and "spPanicked s' = spPanicked s" and "spPrep s' = spPrep s" and "spStop s' = spStop s" and "spGen s' = spGen s"
    and "spStopped s' = spStopped s" and "spStopClosed s' = spStopClosed s" and "spDoneClosed s' = spDoneClosed s"
  shows "supervisor_ok s'"
  using assms(2-) supervisor_parts[OF assms(1)] by (simp add: supervisor_ok_def calls_ok_def channels_ok_def)

lemma noted_ok:
  assumes "supervisor_ok s" and l: "spLoops s = [l]" and c: "spAlive s = []" "lpPc l \<noteq> LEnter"
  shows "supervisor_ok (end_loop 0 (lpGen l) (note_stopped now m s))"
  unfolding note_stopped_def append_sup_event_def
  using ended_ok[OF assms(1) l c(1) loop_parts(2)[OF assms(1) l c(2)] loop_parts(1)[OF assms(1) l] refl, of ProcessStateStopped
      "cut_trail (spEvents s @ [(new_event ''process_stopped'' ''stopped'' 0 m)\<lparr> reAt := now \<rparr>])"]
  by (simp add: cut_trail_length)

lemma sees_stop_ok:
  assumes "supervisor_ok s" and l: "spLoops s = [l]" and c: "sees_stop now 0 l s = Some s'"
  shows "supervisor_ok s'"
proof -
  note p = supervisor_parts[OF assms(1)] and lo = loop_parts(1)[OF assms(1) l] and g = loop_parts(2)[OF assms(1) l]
  note e = ended_ok[OF assms(1) l _ _ lo]
  have st: "lpGen l \<in> set (spStopClosed s)" using c by (auto simp: sees_stop_def split: if_splits)
  consider "lpPc l = LWait" | "lpPc l = LBackoff" using c by (auto simp: sees_stop_def split: if_splits)
  then show ?thesis
  proof cases
    case 1
    have "spStopped s" using st g 1 p(4) by (auto simp: channels_ok_def)
    moreover have "s' = set_loop 0 (l\<lparr> lpPc := LGrace \<rparr>) s" using c st 1 by (simp add: sees_stop_def)
    ultimately show ?thesis
      by (intro moved_ok[OF assms(1), where l' = "l\<lparr> lpPc := LGrace \<rparr>"]) (use 1 l lo p(2) in \<open>simp_all add: set_loop_def loop_ok_def calling_def\<close>)
  next
    case 2
    have a: "spAlive s = []" "spPid s = 0" using lo 2 by (auto simp: loop_ok_def)
    let ?ev = "(new_event ''process_stopped'' ''stopped'' 0 ''xray process stopped during backoff'')\<lparr> reAt := now \<rparr>"
    have "append_sup_event now ''process_stopped'' ''stopped'' ''xray process stopped during backoff''
        (s\<lparr> spState := ProcessStateStopped \<rparr>) =
      s\<lparr> spState := ProcessStateStopped, spPid := 0, spEvents := cut_trail (spEvents s @ [?ev]) \<rparr>"
      by (rule XraySupervisor.equality) (simp_all add: a append_sup_event_def)
    then have eq: "s' = end_loop 0 (lpGen l)
        (s\<lparr> spState := ProcessStateStopped, spPid := 0, spEvents := cut_trail (spEvents s @ [?ev]) \<rparr>)"
      using c st 2 by (simp add: sees_stop_def)
    show ?thesis using e[OF a(1) g eq] 2 by (simp add: cut_trail_length)
  qed
qed

lemma sees_exit_ok:
  assumes "supervisor_ok s" and l: "spLoops s = [l]" and c: "sees_exit now 0 err l s = Some s'"
  shows "supervisor_ok s'"
proof -
  note p = supervisor_parts[OF assms(1)] and lo = loop_parts(1)[OF assms(1) l] and g = loop_parts(2)[OF assms(1) l]
  have w: "lpPc l = LWait" "lpCmd l \<notin> set (spAlive s)" using c by (auto simp: sees_exit_def split: if_splits)
  have a: "spAlive s = []" using lo w by (auto simp: loop_ok_def)
  show ?thesis
  proof (cases "lpGen l \<in> set (spStopClosed s)")
    case True
    then show ?thesis using c w noted_ok[OF assms(1) l a] by (auto simp: sees_exit_def)
  next
    case False
    then have "s' = set_loop 0 (l\<lparr> lpPc := LBackoff \<rparr>) (append_sup_event now ''process_crashed'' ''crashed'' (crash_message err)
        (s\<lparr> spState := ProcessStateRestarting, spPid := 0 \<rparr>))" using c w by (simp add: sees_exit_def)
    then show ?thesis
      by (intro moved_ok[OF assms(1), where l' = "l\<lparr> lpPc := LBackoff \<rparr>"])
        (use w a l lo in \<open>simp_all add: append_sup_event_def set_loop_def loop_ok_def calling_def cut_trail_length\<close>)
  qed
qed

lemma timer_fires_ok:
  assumes "supervisor_ok s" and l: "spLoops s = [l]" and c: "timer_fires now 0 outcome l s = Some s'"
  shows "supervisor_ok s'"
proof -
  note p = supervisor_parts[OF assms(1)] and lo = loop_parts(1)[OF assms(1) l] and g = loop_parts(2)[OF assms(1) l]
  note e = ended_ok[OF assms(1) l _ _ lo]
  have w: "lpPc l = LBackoff" "start_possible outcome s" using c by (auto simp: timer_fires_def split: if_splits)
  have a: "spAlive s = []" "spPid s = 0" using lo w by (auto simp: loop_ok_def)
  show ?thesis
  proof (cases outcome)
    case (Inl x)
    have sw: "s\<lparr> spPid := 0, spState := ProcessStateFailed \<rparr> = s\<lparr> spState := ProcessStateFailed, spPid := 0 \<rparr>"
      by (rule XraySupervisor.equality) simp_all
    have eq: "s' = end_loop 0 (lpGen l) (s\<lparr> spState := ProcessStateFailed, spPid := 0, spEvents := spEvents s \<rparr>)"
      using c w Inl by (simp add: timer_fires_def startProcess_def sw)
    show ?thesis using e[OF a(1) g eq] w(1) p by simp
  next
    case (Inr pid)
    then have "s' = set_loop 0 (l\<lparr> lpPc := LHead, lpBackoff := next_backoff (lpBackoff l) \<rparr>)
        (append_sup_event now ''process_restarted'' ''restarted'' ''xray process restarted'' (startProcess now outcome s))"
      using c w by (simp add: timer_fires_def)
    then show ?thesis
      by (intro moved_ok[OF assms(1), where l' = "l\<lparr> lpPc := LHead, lpBackoff := next_backoff (lpBackoff l) \<rparr>"])
        (use w a l lo Inr in \<open>simp_all add: startProcess_def append_sup_event_def set_loop_def loop_ok_def calling_def cut_trail_length next_backoff_def\<close>)
  qed
qed

lemma loop_step_ok:
  assumes "supervisor_ok s" and l: "spLoops s = [l]" and n: "loop_step now ev 0 l s = Some s'"
  shows "supervisor_ok s'"
proof -
  note p = supervisor_parts[OF assms(1)] and lo = loop_parts(1)[OF assms(1) l]
  show ?thesis
  proof (cases ev)
    case (LoopEnters i)
    then have "lpPc l = LEnter" "s' = set_loop 0 (l\<lparr> lpPc := LHead, lpGen := spGen s, lpBackoff := xraySupervisorBackoffInit \<rparr>) s"
      using n by (simp_all split: if_splits)
    then show ?thesis
      by (intro moved_ok[OF assms(1), where l' = "l\<lparr> lpPc := LHead, lpGen := spGen s, lpBackoff := xraySupervisorBackoffInit \<rparr>"]) (use l lo p(2) in \<open>simp_all add: set_loop_def loop_ok_def calling_def\<close>)
  next
    case (LoopHead i)
    then have "lpPc l = LHead" "s' = set_loop 0 (l\<lparr> lpPc := LWait, lpCmd := spCmd s \<rparr>) s" using n by (simp_all split: if_splits)
    then show ?thesis
      by (intro moved_ok[OF assms(1), where l' = "l\<lparr> lpPc := LWait, lpCmd := spCmd s \<rparr>"]) (use l lo p(2) in \<open>simp_all add: set_loop_def loop_ok_def calling_def\<close>)
  next
    case (SeesStop i)
    then show ?thesis using n sees_stop_ok[OF assms(1) l] by simp
  next
    case (SeesExit i err)
    then show ?thesis using n sees_exit_ok[OF assms(1) l] by simp
  next
    case (TimerFires i outcome)
    then show ?thesis using n timer_fires_ok[OF assms(1) l] by simp
  next
    case (KillsChild i)
    then show ?thesis using n child_dies_ok[OF assms(1)] by (auto simp: kills_child_def split: if_splits)
  next
    case (GraceEnds i)
    then have c: "grace_ends now 0 l s = Some s'" using n by simp
    have w: "lpPc l = LGrace" "lpCmd l \<notin> set (spAlive s)" using c by (auto simp: grace_ends_def split: if_splits)
    have a: "spAlive s = []" using lo w by (auto simp: loop_ok_def)
    show ?thesis using c w noted_ok[OF assms(1) l a] by (auto simp: grace_ends_def)
  qed (use n in simp_all)
qed

lemma sup_next_ok:
  assumes "supervisor_ok s" and n: "sup_next now ev s = Some s'" and c: "is_call ev \<longrightarrow> \<not> calling s"
  shows "supervisor_ok s'"
proof (cases "loop_index ev")
  case (Some i)
  have i: "i < length (spLoops s)" using n Some by (auto simp: sup_next_def split: if_splits)
  obtain l where l: "spLoops s = [l]" by (rule supervisor_cases[OF assms(1)]) (use i in auto)
  then show ?thesis using i n Some loop_step_ok[OF assms(1) l] by (auto simp: sup_next_def split: if_splits)
next
  case None
  then have k: "call_step now ev s = Some s'" using n by (auto simp: sup_next_def split: if_splits)
  show ?thesis
  proof (cases ev)
    case (CallPrepare p)
    then show ?thesis using k c PrepareStart_ok[OF assms(1)] by (auto split: if_splits)
  next
    case PrepareSeesDone
    then show ?thesis using k sees_done_ok[OF assms(1)] by (auto split: if_splits prepare_pc.splits)
  next
    case (StartRuns outcome)
    then show ?thesis using k prepare_starts_ok[OF assms(1)] by (auto split: if_splits)
  next
    case CallStop
    then show ?thesis using k c Stop_ok[OF assms(1)] by (auto split: if_splits)
  next
    case StopSeesDone
    then show ?thesis using k returns_ok[OF assms(1)] by (auto split: if_splits stop_pc.splits)
  next
    case (ChildExits pid)
    then show ?thesis using k child_dies_ok[OF assms(1)] by (auto split: if_splits)
  qed (use None in simp_all)
qed

lemma serial_run_ok: "serial_run evs s = Some s' \<Longrightarrow> supervisor_ok s \<Longrightarrow> supervisor_ok s'"
proof (induction evs s rule: serial_run.induct)
  case (2 now ev evs s)
  then show ?case using sup_next_ok by (auto split: if_splits option.splits)
qed simp

section \<open>A blocked call\<close>

text \<open>The steps a goroutine is away from its end once its stop channel is closed, and the children that may yet exit.\<close>

fun stop_rank :: "loop_pc \<Rightarrow> nat" where
  "stop_rank LEnter = 6"
| "stop_rank LBackoff = 5"
| "stop_rank LHead = 4"
| "stop_rank LWait = 2"
| "stop_rank LGrace = 1"

definition stop_work :: "XraySupervisor \<Rightarrow> nat" where
  "stop_work s = 2 * (case spLoops s of [] \<Rightarrow> 0 | l # ls \<Rightarrow> stop_rank (lpPc l)) + length (spAlive s)"

text \<open>The last start succeeded: a goroutine is there to close \<open>done\<close>, or \<open>done\<close> is closed already.\<close>

definition supervised :: "XraySupervisor \<Rightarrow> bool" where
  "supervised s = (spLoops s \<noteq> [] \<or> spGen s \<in> set (spDoneClosed s))"

lemma blocked_stopped: "supervisor_ok s \<Longrightarrow> blocked s \<Longrightarrow> spStopped s \<and> spGen s \<in> set (spStopClosed s)"
  by (auto simp: supervisor_ok_def calls_ok_def channels_ok_def blocked_def)

lemma blocked_progress:
  assumes ok: "supervisor_ok s" and "blocked s" and "supervised s"
  shows "\<exists>ev s'. \<not> is_call ev \<and> sup_next now ev s = Some s'"
  using ok
proof (cases rule: supervisor_cases)
  case none
  then have d: "spGen s \<in> set (spDoneClosed s)" using assms(3) by (simp add: supervised_def)
  have "\<not> spPanicked s" "calls_ok s" using supervisor_parts[OF ok] by auto
  then have "sup_next now PrepareSeesDone s \<noteq> None \<or> sup_next now StopSeesDone s \<noteq> None"
    using d assms(2) by (auto simp: blocked_def sup_next_def calls_ok_def)
  then show ?thesis by (metis is_call.simps(3,5) option.exhaust)
next
  case (one l)
  have p: "\<not> spPanicked s" using supervisor_parts[OF ok] by auto
  have c: "lpPc l \<noteq> LEnter \<Longrightarrow> lpGen l \<in> set (spStopClosed s)" using one(2) blocked_stopped[OF ok assms(2)] by (simp add: loop_ok_def)
  have "\<exists>ev. \<not> is_call ev \<and> loop_index ev = Some 0 \<and> loop_step now ev 0 l s \<noteq> None"
  proof (cases "lpPc l")
    case LEnter
    then show ?thesis by (intro exI[of _ "LoopEnters 0"]) simp
  next
    case LHead
    then show ?thesis by (intro exI[of _ "LoopHead 0"]) simp
  next
    case LWait
    then show ?thesis using c by (intro exI[of _ "SeesStop 0"]) (simp add: sees_stop_def)
  next
    case LBackoff
    then show ?thesis using c by (intro exI[of _ "SeesStop 0"]) (simp add: sees_stop_def)
  next
    case LGrace
    then show ?thesis
      by (cases "lpCmd l \<in> set (spAlive s)")
        (intro exI[of _ "KillsChild 0"], simp add: kills_child_def, intro exI[of _ "GraceEnds 0"], simp add: grace_ends_def)
  qed
  then obtain ev where "\<not> is_call ev" "loop_index ev = Some 0" "loop_step now ev 0 l s \<noteq> None" by blast
  then show ?thesis using p one(1) by (intro exI[of _ ev]) (auto simp: sup_next_def)
qed


lemma blocked_calling: "blocked s \<Longrightarrow> calling s"
  by (auto simp: blocked_def calling_def)

lemma stop_work_one: "spLoops s = [l] \<Longrightarrow> stop_work s = 2 * stop_rank (lpPc l) + length (spAlive s)"
  by (simp add: stop_work_def)

lemma end_loop_work: "supervisor_ok s \<Longrightarrow> spLoops s = [l] \<Longrightarrow> spLoops t = [l] \<Longrightarrow> spAlive t = spAlive s \<Longrightarrow>
    spDoneClosed t = spDoneClosed s \<Longrightarrow> lpGen l = spGen s \<Longrightarrow> stop_work (end_loop 0 (lpGen l) t) < stop_work s"
  by (cases "lpPc l") (simp_all add: supervisor_ok_def loop_ok_def stop_work_def end_loop_def)

text \<open>While the call is blocked, every step of another goroutine or of the operating system is progress.\<close>

lemma blocked_step:
  assumes ok: "supervisor_ok s" and b: "blocked s" and b': "blocked s'" and n: "sup_next now ev s = Some s'" and c: "\<not> is_call ev"
  shows "stop_work s' < stop_work s"
  using ok
proof (cases rule: supervisor_cases)
  case none
  have "calls_ok s" "spAlive s = []" using supervisor_parts[OF ok] none by (auto simp: quiet_def)
  then show ?thesis using n c b b' none
    by (cases ev) (auto simp: sup_next_def blocked_def calls_ok_def open_generation_def split: if_splits prepare_pc.splits stop_pc.splits)
next
  case (one l)
  have d: "spGen s \<notin> set (spDoneClosed s)" "spPrep s \<noteq> PStarts" using one(2) by (auto simp: loop_ok_def)
  have st: "lpPc l \<noteq> LEnter \<Longrightarrow> lpGen l = spGen s \<and> lpGen l \<in> set (spStopClosed s)"
    using one(2) blocked_stopped[OF ok b] by (simp add: loop_ok_def)
  have co: "calls_ok s" using supervisor_parts[OF ok] by simp
  note e = end_loop_work[OF ok one(1)]
  show ?thesis
  proof (cases "loop_index ev")
    case None
    then show ?thesis using n c d co b one(1)
      by (cases ev) (auto simp: sup_next_def calls_ok_def stop_work_def length_removeAll_less split: if_splits prepare_pc.splits stop_pc.splits)
  next
    case (Some i)
    then have k: "loop_step now ev 0 l s = Some s'" using n one(1) by (auto simp: sup_next_def split: if_splits)
    show ?thesis
    proof (cases ev)
      case (SeesStop j)
      then show ?thesis using k st one(1) e
        by (auto simp: sees_stop_def append_sup_event_def set_loop_def stop_work_one split: if_splits)
    next
      case (SeesExit j err)
      then show ?thesis using k st one(1) e by (auto simp: sees_exit_def note_stopped_def append_sup_event_def split: if_splits)
    next
      case (TimerFires j outcome)
      then show ?thesis using k st one(1) e
        by (auto simp: timer_fires_def startProcess_def append_sup_event_def set_loop_def stop_work_one split: if_splits sum.splits)
    next
      case (GraceEnds j)
      then show ?thesis using k st one(1) e by (auto simp: grace_ends_def note_stopped_def append_sup_event_def split: if_splits)
    next
      case (KillsChild j)
      then show ?thesis using k one(1)
        by (auto simp: kills_child_def stop_work_def length_removeAll_less split: if_splits)
    qed (use k one(1) in \<open>auto simp: set_loop_def stop_work_def split: if_splits\<close>)
  qed
qed


lemma blocked_supervised:
  assumes ok: "supervisor_ok s" and b: "blocked s" and b': "blocked s'" and v: "supervised s"
    and n: "sup_next now ev s = Some s'" and c: "\<not> is_call ev"
  shows "supervised s'"
  using ok
proof (cases rule: supervisor_cases)
  case none
  have "calls_ok s" "spAlive s = []" using supervisor_parts[OF ok] none by (auto simp: quiet_def)
  then show ?thesis using n c b b' none
    by (cases ev) (auto simp: sup_next_def blocked_def calls_ok_def open_generation_def split: if_splits prepare_pc.splits stop_pc.splits)
next
  case (one l)
  have d: "spPrep s \<noteq> PStarts" "lpPc l \<noteq> LEnter \<Longrightarrow> lpGen l = spGen s" using one(2) by (auto simp: loop_ok_def)
  have co: "calls_ok s" using supervisor_parts[OF ok] by simp
  show ?thesis
  proof (cases "loop_index ev")
    case None
    then show ?thesis using n c d(1) co b b' one(1)
      by (cases ev) (auto simp: sup_next_def calls_ok_def supervised_def blocked_def open_generation_def
        split: if_splits prepare_pc.splits stop_pc.splits)
  next
    case (Some i)
    then have k: "loop_step now ev 0 l s = Some s'" using n one(1) by (auto simp: sup_next_def split: if_splits)
    then show ?thesis using d one(1)
      by (cases ev) (auto simp: supervised_def set_loop_def end_loop_def sees_stop_def sees_exit_def note_stopped_def append_sup_event_def
        timer_fires_def startProcess_def kills_child_def grace_ends_def split: if_splits sum.splits)
  qed
qed


text \<open>Runs in which the call stays blocked.\<close>

lemma returned_stays:
  "sup_run evs s = Some s' \<Longrightarrow> list_all (\<lambda>(now, ev). \<not> is_call ev) evs \<Longrightarrow> \<not> blocked s \<Longrightarrow> \<not> blocked s'"
proof (induction evs s rule: sup_run.induct)
  case (2 now ev evs s)
  then obtain t where t: "sup_next now ev s = Some t" "sup_run evs t = Some s'" by (auto split: option.splits)
  have c: "\<not> is_call ev" using 2(3) by simp
  have "spPrep t = spPrep s \<and> spStop t = spStop s" if "loop_index ev = Some i" for i
    using t(1) that by (cases ev) (auto simp: sup_next_def set_loop_def end_loop_def sees_stop_def sees_exit_def note_stopped_def
      append_sup_event_def timer_fires_def startProcess_def kills_child_def grace_ends_def split: if_splits sum.splits)
  then have "\<not> blocked t" using t(1) c 2(4)
    by (cases ev) (auto simp: sup_next_def blocked_def prepare_starts_def startProcess_def append_sup_event_def
      split: if_splits prepare_pc.splits stop_pc.splits sum.splits)
  then show ?case using 2(1)[OF t(1)] t(2) 2(3) by simp
qed simp

lemma blocked_run:
  "sup_run evs s = Some s' \<Longrightarrow> list_all (\<lambda>(now, ev). \<not> is_call ev) evs \<Longrightarrow> supervisor_ok s \<Longrightarrow> blocked s \<Longrightarrow> supervised s \<Longrightarrow>
     blocked s' \<Longrightarrow> supervisor_ok s' \<and> supervised s' \<and> length evs + stop_work s' \<le> stop_work s"
proof (induction evs s rule: sup_run.induct)
  case (2 now ev evs s)
  then obtain t where t: "sup_next now ev s = Some t" "sup_run evs t = Some s'" by (auto split: option.splits)
  have c: "\<not> is_call ev" and r: "list_all (\<lambda>(now, ev). \<not> is_call ev) evs" using 2(3) by simp_all
  have b: "blocked t" using returned_stays[OF t(2) r] 2(7) by blast
  have "supervisor_ok t" using sup_next_ok[OF 2(4) t(1)] c by simp
  moreover have "supervised t" using blocked_supervised[OF 2(4,5) b 2(6) t(1) c] .
  ultimately have "supervisor_ok s' \<and> supervised s' \<and> length evs + stop_work s' \<le> stop_work t"
    using 2(1)[OF t(1) t(2) r] b 2(7) by blast
  then show ?case using blocked_step[OF 2(4,5) b t(1) c] by simp
qed simp

lemma stop_work_bound: "supervisor_ok s \<Longrightarrow> stop_work s \<le> 13"
proof (erule supervisor_cases)
  fix l assume "spLoops s = [l]" "loop_ok s l"
  moreover from this have "length (spAlive s) \<le> 1" by (auto simp: loop_ok_def split: if_splits)
  ultimately show ?thesis by (cases "lpPc l") (simp_all add: stop_work_one)
qed (simp add: stop_work_def quiet_def)

section \<open>Properties\<close>

text \<open>
  C35 As long as the calls come one at a time (the next only when the one before has returned), in every order of the steps
  of the supervisor, of its goroutines and of the operating system: nothing panics (\<open>done\<close> is closed once), at most one Xray child is alive and it is the one whose id
  \<open>PID\<close> gives, the state is one of the four, the event trail has at most 20 events and the restart delay of a
  supervising goroutine is between 1 and 30 seconds.
\<close>

theorem supervisor_runs_one_child:
  assumes "serial_run evs NewXraySupervisor = Some s"
  shows "\<not> spPanicked s \<and> length (spEvents s) \<le> runtimeEventTrailLimit \<and>
    (spAlive s = [] \<or> spAlive s = [spPid s] \<and> spState s = ProcessStateRunning) \<and>
    spState s \<in> {ProcessStateStopped, ProcessStateFailed, ProcessStateRunning, ProcessStateRestarting} \<and>
    list_all (\<lambda>l. lpPc l \<noteq> LEnter \<longrightarrow> 1 \<le> lpBackoff l \<and> lpBackoff l \<le> xraySupervisorBackoffMax) (spLoops s)"
proof -
  have ok: "supervisor_ok s" using serial_run_ok[OF assms supervisor_new] .
  then show ?thesis by (cases rule: supervisor_cases) (use supervisor_parts[OF ok] in \<open>auto simp: quiet_def loop_ok_def split: if_splits\<close>)
qed

text \<open>
  C34 When the calls come one at a time, a blocked \<open>PrepareStart\<close> or \<open>Stop\<close> returns: when a supervising goroutine exists (or has ended) for the last start,
  no more than 13 steps can be taken while the call stays blocked, and as long as it is blocked some step is possible.
\<close>

theorem blocked_calls_return:
  assumes "serial_run before NewXraySupervisor = Some s" and "blocked s" and "supervised s"
    and "sup_run evs s = Some s'" and "list_all (\<lambda>(now, ev). \<not> is_call ev) evs" and "blocked s'"
  shows "length evs \<le> 13 \<and> (\<exists>ev t. \<not> is_call ev \<and> sup_next now ev s' = Some t)"
proof -
  have ok: "supervisor_ok s" using serial_run_ok[OF assms(1) supervisor_new] .
  have r: "supervisor_ok s' \<and> supervised s' \<and> length evs + stop_work s' \<le> stop_work s"
    using blocked_run[OF assms(4,5) ok assms(2,3,6)] .
  then show ?thesis using stop_work_bound[OF ok] blocked_progress assms(6) by fastforce
qed

text \<open>
  After a start that fails no goroutine ever closes \<open>done\<close>: the next \<open>PrepareStart\<close> or \<open>Stop\<close> blocks, and no step of
  any goroutine or of the operating system is possible any more, so it blocks for ever.
\<close>

theorem failed_start_blocks_the_next_call:
  assumes "serial_run evs NewXraySupervisor = Some s" and "spPrep s = PStarts" and "ev = CallStop \<or> ev = CallPrepare path"
  shows "\<exists>t u. sup_next now (StartRuns (Inl message)) s = Some t \<and> sup_next later ev t = Some u \<and> blocked u \<and>
    (\<forall>moment ev'. \<not> is_call ev' \<longrightarrow> sup_next moment ev' u = None)"
proof -
  have ok: "supervisor_ok s" using serial_run_ok[OF assms(1) supervisor_new] .
  have "spLoops s = [] \<and> quiet s"
    by (rule supervisor_cases[OF ok]) (use assms(2) in \<open>simp_all add: loop_ok_def\<close>)
  then have l: "spLoops s = []" "quiet s" by simp_all
  have q: "spAlive s = []" "spGen s \<notin> set (spDoneClosed s)" "spGen s \<noteq> 0" "\<not> spStopped s" "spStop s = SIdle" "\<not> spPanicked s"
    using l supervisor_parts[OF ok] assms(2) by (auto simp: quiet_def calls_ok_def)
  define t where "t = prepare_starts now (Inl message) s"
  have t: "sup_next now (StartRuns (Inl message)) s = Some t" using assms(2) q by (simp add: sup_next_def t_def)
  define u where "u = (if ev = CallStop then Stop t else PrepareStart path t)"
  have u: "sup_next later ev t = Some u" "blocked u" using q assms(3)
    by (auto simp: u_def sup_next_def t_def prepare_starts_def startProcess_def Stop_def PrepareStart_def close_stop_def blocked_def)
  have "sup_next moment ev' u = None" if "\<not> is_call ev'" for moment ev'
    using that q l(1) assms(3)
    by (cases ev') (auto simp: u_def sup_next_def t_def prepare_starts_def startProcess_def Stop_def PrepareStart_def close_stop_def)
  then show ?thesis using t u by blast
qed


section \<open>Witnesses\<close>

definition first_start :: "(instant \<times> sup_event) list" where
  "first_start = [(1, CallPrepare ''/a.json''), (2, StartRuns (Inr 7)), (3, LoopEnters 0), (4, LoopHead 0)]"

definition crash_and_stop :: "(instant \<times> sup_event) list" where
  "crash_and_stop = first_start @ [(5, ChildExits 7), (6, SeesExit 0 None), (7, TimerFires 0 (Inr 8)), (8, CallStop)]"

lemmas run_simps = first_start_def crash_and_stop_def NewXraySupervisor_def sup_next_def PrepareStart_def Stop_def close_stop_def
  open_generation_def prepare_starts_def startProcess_def append_sup_event_def new_loop_def set_loop_def calling_def
  sees_exit_def timer_fires_def sees_stop_def next_backoff_def cut_trail_def

lemma supervisor_runs_one_child_witness:
  "\<exists>s. serial_run crash_and_stop NewXraySupervisor = Some s \<and> spAlive s = [8] \<and> spPid s = 8"
proof -
  obtain s where s: "serial_run crash_and_stop NewXraySupervisor = Some s" "spAlive s = [8]" by (simp add: run_simps)
  show ?thesis using supervisor_runs_one_child[OF s(1)] s by auto
qed

lemma blocked_calls_return_witness:
  "\<exists>s t ev. serial_run crash_and_stop NewXraySupervisor = Some s \<and> blocked s \<and> \<not> is_call ev \<and> sup_next 9 ev s = Some t"
proof -
  obtain s where s: "serial_run crash_and_stop NewXraySupervisor = Some s" "blocked s" "supervised s"
    by (simp add: run_simps blocked_def supervised_def)
  show ?thesis using blocked_calls_return[OF s _ _ s(2), of "[]" 9] s by auto
qed

lemma failed_start_blocks_the_next_call_witness:
  "\<exists>s t u. serial_run [(1, CallPrepare ''/a.json'')] NewXraySupervisor = Some s \<and>
     sup_next 2 (StartRuns (Inl ''no such file'')) s = Some t \<and> sup_next 3 (CallPrepare ''/a.json'') t = Some u \<and>
     (\<forall>moment ev'. \<not> is_call ev' \<longrightarrow> sup_next moment ev' u = None)"
proof -
  obtain s where s: "serial_run [(1, CallPrepare ''/a.json'')] NewXraySupervisor = Some s" "spPrep s = PStarts"
    by (simp add: run_simps)
  show ?thesis
    using failed_start_blocks_the_next_call[OF s, of "CallPrepare ''/a.json''" "''/a.json''" 2 "''no such file''" 3] s by auto
qed

section \<open>Calls that overlap\<close>

text \<open>
  Neither theorem holds when a call comes before another has returned, as the deferred \<open>Stop\<close> of \<open>app.Run\<close> can, which
  does not wait for the polling goroutine and its \<open>PrepareStart\<close>.  \<open>Stop\<close> closes the channel of the first generation and
  waits; a \<open>PrepareStart\<close> that comes now finds the flag set, does not wait, and starts a second child beside the first.
\<close>

definition overlap :: "(instant \<times> sup_event) list" where
  "overlap = [(5, CallStop), (6, CallPrepare ''/b.json''), (7, StartRuns (Inr 9))]"

lemma overlapping_calls_two_children:
  "\<exists>s. sup_run (first_start @ overlap) NewXraySupervisor = Some s \<and> spAlive s = [9, 7]"
  by (simp add: run_simps overlap_def)

text \<open>
  When the first goroutine takes its channels only after the second call made new ones, both goroutines hold the second
  pair: no goroutine closes the channel \<open>Stop\<close> waits for, whatever happens from then on, calls included.
\<close>

definition late_entry :: "(instant \<times> sup_event) list" where
  "late_entry = take 2 first_start @ overlap @ [(8, LoopEnters 0), (9, LoopEnters 1)]"

definition stop_lost :: "XraySupervisor \<Rightarrow> bool" where
  "stop_lost s \<longleftrightarrow> spStop s = SWaits 1 \<and> 1 \<notin> set (spDoneClosed s) \<and> 1 < spGen s \<and> list_all (\<lambda>l. lpGen l \<noteq> 1) (spLoops s)"

lemma stop_lost_loop:
  assumes "stop_lost s" and "i < length (spLoops s)" and "loop_step now ev i (spLoops s ! i) s = Some s'"
  shows "stop_lost s'"
proof -
  have g: "lpGen (spLoops s ! i) \<noteq> 1" using assms(1,2) by (simp add: stop_lost_def list_all_length)
  have set: "stop_lost (set_loop i l t)" if "stop_lost t" "lpGen l \<noteq> 1" for l t
    using that by (auto simp: stop_lost_def set_loop_def list_all_iff dest: set_update_subset_insert [THEN subsetD])
  have fin: "stop_lost (end_loop i (lpGen (spLoops s ! i)) t)" if "stop_lost t" for t
    using that g by (auto simp: stop_lost_def end_loop_def list_all_iff dest: in_set_takeD in_set_dropD)
  have start: "stop_lost (startProcess now outcome s)" for outcome
    using assms(1) by (simp add: stop_lost_def startProcess_def append_sup_event_def split: sum.split)
  have frame: "stop_lost (append_sup_event now ty status m t) = stop_lost t" "stop_lost (t\<lparr> spState := x \<rparr>) = stop_lost t"
    "stop_lost (t\<lparr> spPid := p \<rparr>) = stop_lost t" "stop_lost (t\<lparr> spAlive := alive \<rparr>) = stop_lost t" for ty status m t x p alive
    by (simp_all add: stop_lost_def append_sup_event_def)
  have gen: "spGen s \<noteq> 1" using assms(1) by (simp add: stop_lost_def)
  show ?thesis
    using assms(1,3) g gen set fin start frame
    by (cases ev) (auto simp: sees_stop_def sees_exit_def timer_fires_def kills_child_def grace_ends_def note_stopped_def
        split: if_splits sum.splits)
qed

lemma stop_lost_step:
  assumes "stop_lost s" and "sup_next now ev s = Some s'"
  shows "stop_lost s'"
proof (cases "loop_index ev")
  case (Some i)
  then show ?thesis using assms stop_lost_loop [of s i now ev s'] by (auto simp: sup_next_def split: if_splits)
next
  case None
  then have "call_step now ev s = Some s'" using assms(2) by (auto simp: sup_next_def split: if_splits)
  then show ?thesis using assms(1)
    by (cases ev) (auto simp: stop_lost_def PrepareStart_def close_stop_def open_generation_def prepare_starts_def startProcess_def
        append_sup_event_def new_loop_def split: if_splits sum.splits prepare_pc.splits)
qed

lemma stop_lost_run: "stop_lost s \<Longrightarrow> sup_run evs s = Some s' \<Longrightarrow> stop_lost s'"
  by (induction evs s rule: sup_run.induct) (auto split: option.splits intro: stop_lost_step)

lemma overlapping_stop_never_returns:
  "\<exists>s. sup_run late_entry NewXraySupervisor = Some s \<and> (\<forall>evs s'. sup_run evs s = Some s' \<longrightarrow> spStop s' = SWaits 1)"
proof -
  obtain s where s: "sup_run late_entry NewXraySupervisor = Some s" "stop_lost s"
    by (simp add: late_entry_def overlap_def run_simps stop_lost_def)
  then show ?thesis using stop_lost_run unfolding stop_lost_def by blast
qed

end
