(* ===== verification/Routing.thy ===== *)
theory Routing
  imports TrafficStore PgSteps SubsHandler
begin

text \<open>
  \<open>services/panel-api/internal/routing\<close>: the routing rules of the installation (\<open>node_id\<close> null) and of single nodes:
  repository, service and the handlers for administrators.
\<close>

definition ValidRuleTypes :: "string list" where
  "ValidRuleTypes = [''geosite'', ''geoip'', ''domain'', ''ip'', ''port'', ''protocol'']"

definition ValidActions :: "string list" where
  "ValidActions = [''block'', ''proxy'', ''direct'', ''warp'']"

definition rule_Scope :: "rule_row \<Rightarrow> string" where
  "rule_Scope r = (if ruNodeID r = None then ''global'' else ''node'')"

record CreateRuleInput =
  criNodeID :: "string option"
  criRuleType :: string
  criTarget :: string
  criAction :: string
  criOutboundTag :: "string option"
  criPriority :: int
  criEnabled :: "bool option"
  criDescription :: "string option"

record UpdateRuleInput =
  uriRuleType :: "string option"
  uriTarget :: "string option"
  uriAction :: "string option"
  uriOutboundTag :: "string option"
  uriPriority :: "int option"
  uriEnabled :: "bool option"
  uriDescription :: "string option"

section \<open>Repository\<close>

definition by_priority :: "rule_row list \<Rightarrow> rule_row list" where
  "by_priority rs = sort_key ruPriority (sort_key ruCreatedAt rs)"

definition repo_ListRules :: "panel_world \<Rightarrow> string option \<Rightarrow> db \<Rightarrow> storage_error + rule_row list" where
  "repo_ListRules w node d = bindE (stmt w ''select rules'') (\<lambda>_. bindE (uuid_param_opt node) (\<lambda>u.
     Inr (by_priority (filter (\<lambda>r. ruNodeID r = None \<or> u \<noteq> None \<and> ruNodeID r = u) (dbRules d)))))"

definition repo_FindRule :: "panel_world \<Rightarrow> string \<Rightarrow> db \<Rightarrow> storage_error + rule_row" where
  "repo_FindRule w i d = bindE (stmt w ''select rule'') (\<lambda>_. bindE (uuid_param i) (\<lambda>u.
     one_row (ErrPackage RuleNotFound) (row_with ruID u (dbRules d))))"

definition repo_CreateRule :: "panel_world \<Rightarrow> CreateRuleInput \<Rightarrow> db \<Rightarrow> (storage_error + rule_row) \<times> db" where
  "repo_CreateRule w i = alone (\<lambda>d. bindE (stmt w ''insert rule'') (\<lambda>_. bindE (uuid_param_opt (optionalString (criNodeID i))) (\<lambda>node.
     bindE (varchar 50 (criRuleType i)) (\<lambda>ty. bindE (pg_text (criTarget i)) (\<lambda>target. bindE (varchar 50 (criAction i)) (\<lambda>action.
     bindE (nullable (varchar 100) (optionalString (criOutboundTag i))) (\<lambda>tag.
     bindE (nullable pg_text (optionalString (criDescription i))) (\<lambda>description.
     let r = \<lparr> ruID = pwID w ''routing_rules'', ruNodeID = node, ruRuleType = ty, ruTarget = target, ruAction = action, ruOutboundTag = tag,
       ruPriority = criPriority i, ruEnabled = (case criEnabled i of None \<Rightarrow> True | Some b \<Rightarrow> b), ruDescription = description,
       ruCreatedAt = pwPgNow w, ruUpdatedAt = pwPgNow w \<rparr> in
     bindE (constraints (int4 (ruPriority r)) True (ruID r \<notin> ruID ` set (dbRules d))
              (case node of None \<Rightarrow> True | Some u \<Rightarrow> u \<in> ndID ` set (dbNodes d)))
       (\<lambda>_. Inr (r, d\<lparr> dbRules := dbRules d @ [r] \<rparr>))))))))))"

text \<open>\<open>COALESCE\<close>: a null parameter leaves the column; an empty text is sent as null.\<close>

definition coalesce :: "'a option \<Rightarrow> 'a \<Rightarrow> 'a" where
  "coalesce v old = (case v of None \<Rightarrow> old | Some x \<Rightarrow> x)"

definition updated_rule :: "panel_world \<Rightarrow> string option \<Rightarrow> string option \<Rightarrow> string option \<Rightarrow> string option \<Rightarrow> int option \<Rightarrow> bool option \<Rightarrow>
    string option \<Rightarrow> rule_row \<Rightarrow> rule_row" where
  "updated_rule w ty target action tag priority enabled description r = r\<lparr> ruRuleType := coalesce ty (ruRuleType r),
     ruTarget := coalesce target (ruTarget r), ruAction := coalesce action (ruAction r),
     ruOutboundTag := (if tag \<noteq> None then tag else ruOutboundTag r), ruPriority := coalesce priority (ruPriority r),
     ruEnabled := coalesce enabled (ruEnabled r), ruDescription := (if description \<noteq> None then description else ruDescription r),
     ruUpdatedAt := pwPgNow w \<rparr>"

definition repo_UpdateRule :: "panel_world \<Rightarrow> string \<Rightarrow> UpdateRuleInput \<Rightarrow> db \<Rightarrow> (storage_error + rule_row) \<times> db" where
  "repo_UpdateRule w i q = alone (\<lambda>d. bindE (stmt w ''update rule'') (\<lambda>_. bindE (uuid_param i) (\<lambda>u.
     bindE (nullable (varchar 50) (optionalString (uriRuleType q))) (\<lambda>ty. bindE (nullable pg_text (optionalString (uriTarget q))) (\<lambda>target.
     bindE (nullable (varchar 50) (optionalString (uriAction q))) (\<lambda>action.
     bindE (nullable (varchar 100) (optionalString (uriOutboundTag q))) (\<lambda>tag.
     bindE (nullable pg_text (optionalString (uriDescription q))) (\<lambda>description.
     bindE (one_row (ErrPackage RuleNotFound) (row_with ruID u (dbRules d))) (\<lambda>old.
     let r = updated_rule w ty target action tag (uriPriority q) (uriEnabled q) description old in
     bindE (constraints (int4 (ruPriority r)) True True True)
       (\<lambda>_. Inr (r, d\<lparr> dbRules := upd_where (\<lambda>x. ruID x = u) (\<lambda>_. r) (dbRules d) \<rparr>)))))))))))"

definition repo_DeleteRule :: "panel_world \<Rightarrow> string \<Rightarrow> db \<Rightarrow> (storage_error + unit) \<times> db" where
  "repo_DeleteRule w i = alone (\<lambda>d. bindE (stmt w ''delete rule'') (\<lambda>_. bindE (uuid_param i) (\<lambda>u.
     bindE (one_row (ErrPackage RuleNotFound) (row_with ruID u (dbRules d))) (\<lambda>_.
       Inr ((), d\<lparr> dbRules := del_where (\<lambda>r. ruID r = u) (dbRules d) \<rparr>)))))"

text \<open>One UPDATE for each entry, in one transaction; an entry whose rule does not exist changes nothing.\<close>

fun reorder_rules :: "panel_world \<Rightarrow> (string \<times> int) list \<Rightarrow> db \<Rightarrow> storage_error + db" where
  "reorder_rules w [] d = Inr d"
| "reorder_rules w ((i, priority) # es) d = bindE (stmt w ''reorder rule'') (\<lambda>_. bindE (uuid_param i) (\<lambda>u.
     bindE (constraints (int4 priority) True True True) (\<lambda>_.
     reorder_rules w es (d\<lparr> dbRules := upd_where (\<lambda>r. ruID r = u) (\<lambda>r. r\<lparr> ruPriority := priority, ruUpdatedAt := pwPgNow w \<rparr>) (dbRules d) \<rparr>))))"

definition repo_Reorder :: "panel_world \<Rightarrow> (string \<times> int) list \<Rightarrow> db \<Rightarrow> (storage_error + unit) \<times> db" where
  "repo_Reorder w es = in_tx w (\<lambda>d. bindE (reorder_rules w es d) (\<lambda>d'. Inr ((), d')))"

section \<open>Service\<close>

definition validateInput :: "string \<Rightarrow> string \<Rightarrow> string \<Rightarrow> bool" where
  "validateInput ty target action = (ty \<in> set ValidRuleTypes \<and> TrimSpace target \<noteq> [] \<and> action \<in> set ValidActions)"

definition CreateRule :: "panel_world \<Rightarrow> CreateRuleInput \<Rightarrow> db \<Rightarrow> (storage_error + rule_row) \<times> db" where
  "CreateRule w i = seqE (guardE (validateInput (criRuleType i) (criTarget i) (criAction i)) InvalidRule)
     (\<lambda>_. repo_CreateRule w (if criPriority i \<le> 0 then i\<lparr> criPriority := 100 \<rparr> else i))"

definition UpdateRule :: "panel_world \<Rightarrow> string \<Rightarrow> UpdateRuleInput \<Rightarrow> db \<Rightarrow> (storage_error + rule_row) \<times> db" where
  "UpdateRule w i q = seqE (guardE (case uriRuleType q of None \<Rightarrow> True | Some ty \<Rightarrow> ty \<in> set ValidRuleTypes) InvalidRule) (\<lambda>_.
     seqE (guardE (case uriAction q of None \<Rightarrow> True | Some a \<Rightarrow> a \<in> set ValidActions) InvalidRule) (\<lambda>_.
     seqE (guardE (case uriTarget q of None \<Rightarrow> True | Some t \<Rightarrow> TrimSpace t \<noteq> []) InvalidRule) (\<lambda>_.
       repo_UpdateRule w i q)))"

definition Reorder :: "panel_world \<Rightarrow> (string \<times> int) list \<Rightarrow> db \<Rightarrow> (storage_error + unit) \<times> db" where
  "Reorder w es = seqE (guardE (es \<noteq> [] \<and> list_all (\<lambda>(i, p). TrimSpace i \<noteq> [] \<and> 0 < p) es) InvalidRule) (\<lambda>_. repo_Reorder w es)"

definition EffectiveRules :: "panel_world \<Rightarrow> string \<Rightarrow> db \<Rightarrow> storage_error + rule_row list" where
  "EffectiveRules w node d = bindE (repo_ListRules w (Some node) d) (\<lambda>rs. Inr (filter ruEnabled rs))"

section \<open>Handlers\<close>

definition rule_json :: "rule_row \<Rightarrow> any" where
  "rule_json r = AObj [(''id'', AStr (ruID r)), (''node_id'', opt_str (ruNodeID r)), (''rule_type'', AStr (ruRuleType r)),
     (''target'', AStr (ruTarget r)), (''action'', AStr (ruAction r)), (''outbound_tag'', opt_str (ruOutboundTag r)),
     (''priority'', AInt (ruPriority r)), (''enabled'', ABool (ruEnabled r)), (''description'', opt_str (ruDescription r)),
     (''created_at'', AStr (RFC3339Nano (ruCreatedAt r))), (''updated_at'', AStr (RFC3339Nano (ruUpdatedAt r)))]"

definition WriteRule :: "nat \<Rightarrow> rule_row \<Rightarrow> response" where
  "WriteRule status r = WriteTimed status [ruCreatedAt r, ruUpdatedAt r] (rule_json r)"

definition record_rule :: "http_request \<Rightarrow> string \<Rightarrow> string \<Rightarrow> audit_event" where
  "record_rule r action i = record_event ''routing_rule'' r action i OutcomeSuccess []"

definition writeRoutingError :: "storage_error \<Rightarrow> response" where
  "writeRoutingError e = (if e = ErrPackage RuleNotFound then WriteNotFound ''routing rule''
     else if e = ErrPackage InvalidRule then WriteBadRequest ''invalid routing rule: check rule_type, target, action, and priority''
     else WriteStorageError)"

definition decode_create_rule :: "string option \<Rightarrow> obj \<Rightarrow> CreateRuleInput option" where
  "decode_create_rule node m = (case (dec_str m ''rule_type'', dec_str m ''target'', dec_str m ''action'', dec_ptr as_str m ''outbound_tag'',
       dec_int m ''priority'', dec_ptr as_bool m ''enabled'', dec_ptr as_str m ''description'') of
     (Some ty, Some t, Some a, Some tag, Some p, Some en, Some ds) \<Rightarrow>
       Some \<lparr> criNodeID = node, criRuleType = ty, criTarget = t, criAction = a, criOutboundTag = tag, criPriority = p, criEnabled = en, criDescription = ds \<rparr>
   | _ \<Rightarrow> None)"

definition decode_update_rule :: "obj \<Rightarrow> UpdateRuleInput option" where
  "decode_update_rule m = (case (dec_ptr as_str m ''rule_type'', dec_ptr as_str m ''target'', dec_ptr as_str m ''action'',
       dec_ptr as_str m ''outbound_tag'', dec_ptr int_of_any m ''priority'', dec_ptr as_bool m ''enabled'', dec_ptr as_str m ''description'') of
     (Some ty, Some t, Some a, Some tag, Some p, Some en, Some ds) \<Rightarrow>
       Some \<lparr> uriRuleType = ty, uriTarget = t, uriAction = a, uriOutboundTag = tag, uriPriority = p, uriEnabled = en, uriDescription = ds \<rparr>
   | _ \<Rightarrow> None)"

definition list_rules :: "panel_world \<Rightarrow> string option \<Rightarrow> db \<Rightarrow> reply" where
  "list_rules w node d = (case repo_ListRules w node d of
     Inl e \<Rightarrow> (WriteStorageError, d, [])
   | Inr rs \<Rightarrow> (WriteTimed 200 (concat (map (\<lambda>r. [ruCreatedAt r, ruUpdatedAt r]) rs)) (AArr (map rule_json rs)), d, []))"

definition rules_ListGlobal :: "panel_world \<Rightarrow> http_request \<Rightarrow> db \<Rightarrow> reply" where
  "rules_ListGlobal w r = list_rules w None"

definition rules_ListForNode :: "panel_world \<Rightarrow> http_request \<Rightarrow> db \<Rightarrow> reply" where
  "rules_ListForNode w r = list_rules w (Some (path_value ''id'' r))"

definition create_rule :: "panel_world \<Rightarrow> string option \<Rightarrow> http_request \<Rightarrow> db \<Rightarrow> reply" where
  "create_rule w node r d = (case Option.bind (body_obj r) (decode_create_rule node) of
     None \<Rightarrow> (WriteBadRequest ''invalid JSON request body'', d, [])
   | Some i \<Rightarrow> (case CreateRule w i d of
       (Inl e, d') \<Rightarrow> (writeRoutingError e, d', [])
     | (Inr x, d') \<Rightarrow> (WriteRule 201 x, d', [record_rule r ''routing_rule.create'' (ruID x)])))"

definition rules_CreateGlobal :: "panel_world \<Rightarrow> http_request \<Rightarrow> db \<Rightarrow> reply" where
  "rules_CreateGlobal w = create_rule w None"

definition rules_CreateForNode :: "panel_world \<Rightarrow> http_request \<Rightarrow> db \<Rightarrow> reply" where
  "rules_CreateForNode w r = create_rule w (Some (path_value ''id'' r)) r"

text \<open>\<open>updateRule\<close> and \<open>deleteRule\<close> serve the routes of the installation and those of a node: both look at the rule's id only.\<close>

definition updateRule :: "panel_world \<Rightarrow> http_request \<Rightarrow> db \<Rightarrow> reply" where
  "updateRule w r d = (case Option.bind (body_obj r) decode_update_rule of
     None \<Rightarrow> (WriteBadRequest ''invalid JSON request body'', d, [])
   | Some q \<Rightarrow> (case UpdateRule w (path_value ''rule_id'' r) q d of
       (Inl e, d') \<Rightarrow> (writeRoutingError e, d', [])
     | (Inr x, d') \<Rightarrow> (WriteRule 200 x, d', [record_rule r ''routing_rule.update'' (ruID x)])))"

definition deleteRule :: "panel_world \<Rightarrow> http_request \<Rightarrow> db \<Rightarrow> reply" where
  "deleteRule w r d = (let i = path_value ''rule_id'' r in case repo_DeleteRule w i d of
     (Inl e, d') \<Rightarrow> (writeRoutingError e, d', [])
   | (Inr u, d') \<Rightarrow> (WriteJSON 200 (AObj [(''deleted'', ABool True)]), d', [record_rule r ''routing_rule.delete'' i]))"

definition decode_reorder :: "any \<Rightarrow> (string \<times> int) option" where
  "decode_reorder v = (if v = ANil then Some ([], 0) else Option.bind (as_obj v) (\<lambda>m. case (dec_str m ''id'', dec_int m ''priority'') of
     (Some i, Some p) \<Rightarrow> Some (i, p) | _ \<Rightarrow> None))"

definition rules_Reorder :: "panel_world \<Rightarrow> http_request \<Rightarrow> db \<Rightarrow> reply" where
  "rules_Reorder w r d = (case Option.bind (hqBody r) (\<lambda>v. if v = ANil then Some [] else Option.bind (as_arr v) (\<lambda>xs. all_some (map decode_reorder xs))) of
     None \<Rightarrow> (WriteBadRequest ''invalid JSON request body'', d, [])
   | Some es \<Rightarrow> (case Reorder w es d of
       (Inl e, d') \<Rightarrow> (writeRoutingError e, d', [])
     | (Inr u, d') \<Rightarrow> (WriteJSON 200 (AObj [(''reordered'', AInt (int (length es)))]), d',
         [record_rule r ''routing_rule.reorder'' (path_value ''id'' r)])))"

end
