(* ===== verification/Settings.thy ===== *)
theory Settings
  imports PgSteps SubsHandler
begin

text \<open>
  \<open>services/panel-api/internal/settings\<close>: the global settings, a JSON value for each of six keys, and their typed form for
  the renderer.  First what a \<open>jsonb\<close> column does with a value: it refuses text PostgreSQL cannot store and keeps the last
  member of each key.
\<close>

section \<open>JSON columns\<close>

fun jsonb_ok :: "any \<Rightarrow> bool" where
  "jsonb_ok (AStr s) = (pg_text s = Inr s)"
| "jsonb_ok (AArr xs) = list_all jsonb_ok xs"
| "jsonb_ok (AObj m) = list_all (\<lambda>(k, v). pg_text k = Inr k \<and> jsonb_ok v) m"
| "jsonb_ok v = True"

fun last_members :: "obj \<Rightarrow> obj" where
  "last_members [] = []"
| "last_members ((k, v) # m) = (if k \<in> fst ` set m then last_members m else (k, v) # last_members m)"

fun jsonb_norm :: "any \<Rightarrow> any" where
  "jsonb_norm (AArr xs) = AArr (map jsonb_norm xs)"
| "jsonb_norm (AObj m) = AObj (last_members (map (\<lambda>(k, v). (k, jsonb_norm v)) m))"
| "jsonb_norm v = v"

definition jsonb :: "any \<Rightarrow> storage_error + any" where
  "jsonb v = (if jsonb_ok v then Inr (jsonb_norm v) else Inl (ErrPg PgInvalidText))"

text \<open>A \<open>json.RawMessage\<close> field: the text of the last member, also when it is null; nothing when there is no member.\<close>

definition raw_member :: "obj \<Rightarrow> string \<Rightarrow> any option" where
  "raw_member m k = (case members m k of [] \<Rightarrow> None | vs \<Rightarrow> Some (last vs))"

text \<open>\<open>json.Unmarshal\<close> into a fresh variable: null leaves the zero value.\<close>

definition unmarshal_str :: "any \<Rightarrow> string option" where
  "unmarshal_str v = (if v = ANil then Some [] else as_str v)"

definition unmarshal_bool :: "any \<Rightarrow> bool option" where
  "unmarshal_bool v = (if v = ANil then Some False else as_bool v)"

definition unmarshal_strs :: "any \<Rightarrow> string list option" where
  "unmarshal_strs v = (if v = ANil then Some [] else Option.bind (as_arr v) (\<lambda>xs. all_some (map unmarshal_str xs)))"

section \<open>Keys, defaults and typed values\<close>

definition KeyDefaultRoutingPreset :: string where "KeyDefaultRoutingPreset = ''default_routing_preset''"
definition KeyEnableWarpOutbound :: string where "KeyEnableWarpOutbound = ''enable_warp_outbound''"
definition KeyDefaultSniffing :: string where "KeyDefaultSniffing = ''default_sniffing''"
definition KeyDefaultFragment :: string where "KeyDefaultFragment = ''default_fragment''"
definition KeyDefaultLogLevel :: string where "KeyDefaultLogLevel = ''default_log_level''"
definition KeyDefaultDNSServers :: string where "KeyDefaultDNSServers = ''default_dns_servers''"

lemma keys_differ [simp]: "KeyDefaultRoutingPreset \<noteq> KeyEnableWarpOutbound" "KeyDefaultRoutingPreset \<noteq> KeyDefaultSniffing" "KeyDefaultRoutingPreset \<noteq> KeyDefaultFragment" "KeyDefaultRoutingPreset \<noteq> KeyDefaultLogLevel"
  "KeyDefaultRoutingPreset \<noteq> KeyDefaultDNSServers" "KeyEnableWarpOutbound \<noteq> KeyDefaultRoutingPreset" "KeyEnableWarpOutbound \<noteq> KeyDefaultSniffing" "KeyEnableWarpOutbound \<noteq> KeyDefaultFragment"
  "KeyEnableWarpOutbound \<noteq> KeyDefaultLogLevel" "KeyEnableWarpOutbound \<noteq> KeyDefaultDNSServers" "KeyDefaultSniffing \<noteq> KeyDefaultRoutingPreset" "KeyDefaultSniffing \<noteq> KeyEnableWarpOutbound"
  "KeyDefaultSniffing \<noteq> KeyDefaultFragment" "KeyDefaultSniffing \<noteq> KeyDefaultLogLevel" "KeyDefaultSniffing \<noteq> KeyDefaultDNSServers" "KeyDefaultFragment \<noteq> KeyDefaultRoutingPreset"
  "KeyDefaultFragment \<noteq> KeyEnableWarpOutbound" "KeyDefaultFragment \<noteq> KeyDefaultSniffing" "KeyDefaultFragment \<noteq> KeyDefaultLogLevel" "KeyDefaultFragment \<noteq> KeyDefaultDNSServers"
  "KeyDefaultLogLevel \<noteq> KeyDefaultRoutingPreset" "KeyDefaultLogLevel \<noteq> KeyEnableWarpOutbound" "KeyDefaultLogLevel \<noteq> KeyDefaultSniffing" "KeyDefaultLogLevel \<noteq> KeyDefaultFragment"
  "KeyDefaultLogLevel \<noteq> KeyDefaultDNSServers" "KeyDefaultDNSServers \<noteq> KeyDefaultRoutingPreset" "KeyDefaultDNSServers \<noteq> KeyEnableWarpOutbound" "KeyDefaultDNSServers \<noteq> KeyDefaultSniffing"
  "KeyDefaultDNSServers \<noteq> KeyDefaultFragment" "KeyDefaultDNSServers \<noteq> KeyDefaultLogLevel"
  by code_simp+

definition SupportedKeys :: "string list" where
  "SupportedKeys = [KeyDefaultRoutingPreset, KeyEnableWarpOutbound, KeyDefaultSniffing, KeyDefaultFragment, KeyDefaultLogLevel, KeyDefaultDNSServers]"

definition IsSupported :: "string \<Rightarrow> bool" where
  "IsSupported k = (k \<in> set SupportedKeys)"

definition setting_Defaults :: "(string \<times> any) list" where
  "setting_Defaults = [(KeyDefaultRoutingPreset, AStr ''standard''), (KeyEnableWarpOutbound, ABool False), (KeyDefaultSniffing, ABool True),
     (KeyDefaultFragment, ANil), (KeyDefaultLogLevel, AStr ''warning''), (KeyDefaultDNSServers, AArr [AStr ''1.1.1.1'', AStr ''8.8.8.8''])]"

record Resolved =
  rdRoutingPreset :: string
  rdWarpOutbound :: bool
  rdSniffing :: bool
  rdFragment :: "any option"
  rdLogLevel :: string
  rdDNSServers :: "string list"

definition DefaultResolved :: Resolved where
  "DefaultResolved = \<lparr> rdRoutingPreset = ''standard'', rdWarpOutbound = False, rdSniffing = True, rdFragment = None,
     rdLogLevel = ''warning'', rdDNSServers = [''1.1.1.1'', ''8.8.8.8''] \<rparr>"

definition resolve_one :: "Resolved \<Rightarrow> string \<times> any \<Rightarrow> Resolved" where
  "resolve_one r kv = (case kv of (k, v) \<Rightarrow>
     if k = KeyDefaultRoutingPreset then (case unmarshal_str v of Some s \<Rightarrow> if s \<noteq> [] then r\<lparr> rdRoutingPreset := s \<rparr> else r | None \<Rightarrow> r)
     else if k = KeyEnableWarpOutbound then (case unmarshal_bool v of Some b \<Rightarrow> r\<lparr> rdWarpOutbound := b \<rparr> | None \<Rightarrow> r)
     else if k = KeyDefaultSniffing then (case unmarshal_bool v of Some b \<Rightarrow> r\<lparr> rdSniffing := b \<rparr> | None \<Rightarrow> r)
     else if k = KeyDefaultFragment then r\<lparr> rdFragment := Some v \<rparr>
     else if k = KeyDefaultLogLevel then (case unmarshal_str v of Some s \<Rightarrow> if s \<noteq> [] then r\<lparr> rdLogLevel := s \<rparr> else r | None \<Rightarrow> r)
     else if k = KeyDefaultDNSServers then (case unmarshal_strs v of Some ss \<Rightarrow> r\<lparr> rdDNSServers := ss \<rparr> | None \<Rightarrow> r)
     else r)"

definition Resolve :: "setting_row list \<Rightarrow> Resolved" where
  "Resolve settings = foldl (\<lambda>r s. resolve_one r (gsKey s, gsValue s)) DefaultResolved settings"

definition validateValue :: "string \<Rightarrow> any option \<Rightarrow> bool" where
  "validateValue k value = (case value of None \<Rightarrow> False | Some v \<Rightarrow>
     if k = KeyDefaultRoutingPreset then (case unmarshal_str v of None \<Rightarrow> False | Some s \<Rightarrow> s \<noteq> [])
     else if k = KeyEnableWarpOutbound then unmarshal_bool v \<noteq> None
     else if k = KeyDefaultSniffing then unmarshal_bool v \<noteq> None
     else if k = KeyDefaultFragment then v = ANil \<or> as_obj v \<noteq> None
     else if k = KeyDefaultLogLevel then (case unmarshal_str v of None \<Rightarrow> False
            | Some s \<Rightarrow> s \<in> {''debug'', ''info'', ''warning'', ''error'', ''none''})
     else if k = KeyDefaultDNSServers then unmarshal_strs v \<noteq> None
     else True)"

section \<open>Repository and service\<close>

text \<open>\<open>collate\<close> is the sort key the server's collation gives a text.\<close>

definition repo_ListSettings :: "(string \<Rightarrow> string) \<Rightarrow> panel_world \<Rightarrow> db \<Rightarrow> storage_error + setting_row list" where
  "repo_ListSettings collate w d = bindE (stmt w ''select settings'') (\<lambda>_. Inr (sort_key (\<lambda>s. collate (gsKey s)) (dbSettings d)))"

definition repo_GetSetting :: "panel_world \<Rightarrow> string \<Rightarrow> db \<Rightarrow> storage_error + setting_row" where
  "repo_GetSetting w k d = bindE (stmt w ''select setting'') (\<lambda>_. one_row (ErrPackage UnknownKey) (row_with gsKey k (dbSettings d)))"

definition put_setting :: "panel_world \<Rightarrow> string \<Rightarrow> any \<Rightarrow> uuid \<Rightarrow> setting_row list \<Rightarrow> setting_row \<times> setting_row list" where
  "put_setting w k v admin rows = (case row_with gsKey k rows of
     None \<Rightarrow> let s = \<lparr> gsKey = k, gsValue = v, gsDescription = None, gsUpdatedBy = Some admin, gsUpdatedAt = pwPgNow w \<rparr> in (s, rows @ [s])
   | Some old \<Rightarrow> let s = old\<lparr> gsValue := v, gsUpdatedBy := Some admin, gsUpdatedAt := pwPgNow w \<rparr> in
       (s, upd_where (\<lambda>r. gsKey r = k) (\<lambda>_. s) rows))"

definition repo_SetSetting :: "panel_world \<Rightarrow> string \<Rightarrow> any \<Rightarrow> string \<Rightarrow> db \<Rightarrow> (storage_error + setting_row) \<times> db" where
  "repo_SetSetting w k v admin = alone (\<lambda>d. bindE (stmt w ''upsert setting'') (\<lambda>_. bindE (varchar 100 k) (\<lambda>key. bindE (jsonb v) (\<lambda>value.
     bindE (uuid_param admin) (\<lambda>a. bindE (constraints True True True (a \<in> adID ` set (dbAdmins d))) (\<lambda>_.
     case put_setting w key value a (dbSettings d) of (s, rows) \<Rightarrow> Inr (s, d\<lparr> dbSettings := rows \<rparr>)))))))"

text \<open>A supported key that is not stored is listed with its default.\<close>

definition setting_or_default :: "setting_row list \<Rightarrow> string \<Rightarrow> setting_row" where
  "setting_or_default rows k = (case row_with gsKey k (rev rows) of Some s \<Rightarrow> s
   | None \<Rightarrow> \<lparr> gsKey = k, gsValue = (case map_of setting_Defaults k of None \<Rightarrow> ANil | Some v \<Rightarrow> v), gsDescription = None,
        gsUpdatedBy = None, gsUpdatedAt = 0 \<rparr>)"

definition ListAll :: "(string \<Rightarrow> string) \<Rightarrow> panel_world \<Rightarrow> db \<Rightarrow> storage_error + setting_row list" where
  "ListAll collate w d = bindE (repo_ListSettings collate w d) (\<lambda>rows. Inr (map (setting_or_default rows) SupportedKeys))"

definition UpdateSetting :: "panel_world \<Rightarrow> string \<Rightarrow> any option \<Rightarrow> string \<Rightarrow> db \<Rightarrow> (storage_error + setting_row) \<times> db" where
  "UpdateSetting w k value admin = seqE (guardE (IsSupported k) UnknownKey) (\<lambda>_. seqE (guardE (validateValue k value) InvalidValue) (\<lambda>_.
     repo_SetSetting w k (case value of None \<Rightarrow> ANil | Some v \<Rightarrow> v) admin))"

definition GetResolved :: "(string \<Rightarrow> string) \<Rightarrow> panel_world \<Rightarrow> db \<Rightarrow> Resolved \<times> storage_error option" where
  "GetResolved collate w d = (case repo_ListSettings collate w d of
     Inl e \<Rightarrow> (DefaultResolved, Some e) | Inr rows \<Rightarrow> (Resolve rows, None))"

section \<open>Handlers\<close>

definition setting_json :: "setting_row \<Rightarrow> any" where
  "setting_json s = AObj [(''key'', AStr (gsKey s)), (''value'', gsValue s), (''description'', opt_str (gsDescription s)),
     (''updated_by'', opt_str (gsUpdatedBy s)), (''updated_at'', AStr (RFC3339Nano (gsUpdatedAt s)))]"

definition settings_List :: "(string \<Rightarrow> string) \<Rightarrow> panel_world \<Rightarrow> db \<Rightarrow> reply" where
  "settings_List collate w d = (case ListAll collate w d of
     Inl e \<Rightarrow> (WriteStorageError, d, [])
   | Inr all \<Rightarrow> (WriteTimed 200 (map gsUpdatedAt all) (AArr (map setting_json all)), d, []))"

definition settings_Update :: "panel_world \<Rightarrow> http_request \<Rightarrow> db \<Rightarrow> reply" where
  "settings_Update w r d = (let k = path_value ''key'' r in case body_obj r of
     None \<Rightarrow> (WriteBadRequest ''invalid JSON request body'', d, [])
   | Some m \<Rightarrow> (case UpdateSetting w k (raw_member m ''value'') (hqAdmin r) d of
       (Inl e, d') \<Rightarrow> (if e = ErrPackage UnknownKey then WriteNotFound ''setting''
          else if e = ErrPackage InvalidValue then WriteBadRequest ''invalid value for setting key'' else WriteStorageError, d', [])
     | (Inr s, d') \<Rightarrow> (WriteTimed 200 [gsUpdatedAt s] (setting_json s), d',
          [(record_event ''setting'' r ''setting.update'' k OutcomeSuccess [])\<lparr> avChanges := Some [(''value'',
              case raw_member m ''value'' of None \<Rightarrow> ANil | Some v \<Rightarrow> v)] \<rparr>])))"

end
