(* ===== verification/Customers.thy ===== *)
theory Customers
  imports PgSteps SubsHandler
begin

text \<open>
  The customers of the panel and what they buy: \<open>storage/users.go\<close> and \<open>storage/plans.go\<close> with the handlers of
  \<open>users/handler.go\<close> and \<open>plans/handler.go\<close>.  An update reads the row, changes it in the process and writes all of it
  back: two statements.
\<close>

section \<open>Users\<close>

definition user_row_ok :: "user_row \<Rightarrow> bool" where
  "user_row_ok u \<longleftrightarrow> urStatus u \<in> {''active'', ''suspended'', ''expired''}"

definition ListUsers :: "panel_world \<Rightarrow> db \<Rightarrow> storage_error + user_row list" where
  "ListUsers w d = bindE (stmt w ''select users'') (\<lambda>_. Inr (take 100 (sort_key (\<lambda>u. - urCreatedAt u) (dbUsers d))))"

definition new_user :: "panel_world \<Rightarrow> string \<Rightarrow> string \<Rightarrow> user_row" where
  "new_user w email name = \<lparr> urID = pwID w ''users'', urEmail = email, urStatus = ''active'', urDisplayName = name,
     urCreatedAt = pwPgNow w, urUpdatedAt = pwPgNow w \<rparr>"

definition CreateUser :: "panel_world \<Rightarrow> string \<Rightarrow> string \<Rightarrow> db \<Rightarrow> (storage_error + user_row) \<times> db" where
  "CreateUser w email name = alone (\<lambda>d. bindE (stmt w ''insert user'') (\<lambda>_. bindE (pg_text email) (\<lambda>_. bindE (pg_text name) (\<lambda>_.
     let u = new_user w email name in
     bindE (constraints True (user_row_ok u) (urID u \<notin> urID ` set (dbUsers d) \<and> urEmail u \<notin> urEmail ` set (dbUsers d)) True)
       (\<lambda>_. Inr (u, d\<lparr> dbUsers := dbUsers d @ [u] \<rparr>))))))"

definition FindUser :: "panel_world \<Rightarrow> string \<Rightarrow> db \<Rightarrow> storage_error + user_row" where
  "FindUser w i d = bindE (stmt w ''select user'') (\<lambda>_. bindE (uuid_param i) (\<lambda>u. one_row ErrNotFound (row_with urID u (dbUsers d))))"

text \<open>\<open>UPDATE users SET f WHERE id = u RETURNING\<close>.\<close>

definition update_user :: "uuid \<Rightarrow> (user_row \<Rightarrow> user_row) \<Rightarrow> db \<Rightarrow> storage_error + (user_row \<times> db)" where
  "update_user u f d = bindE (one_row ErrNotFound (row_with urID u (dbUsers d))) (\<lambda>old. let new = f old in
     bindE (constraints True (user_row_ok new) (\<not> list_ex (\<lambda>r. urID r \<noteq> u \<and> urEmail r = urEmail new) (dbUsers d)) True)
       (\<lambda>_. Inr (new, d\<lparr> dbUsers := upd_where (\<lambda>r. urID r = u) (\<lambda>_. new) (dbUsers d) \<rparr>)))"

definition UpdateUser :: "panel_world \<Rightarrow> string \<Rightarrow> string option \<Rightarrow> string option \<Rightarrow> db \<Rightarrow> (storage_error + user_row) \<times> db" where
  "UpdateUser w i email name = seqE (readE (FindUser w i)) (\<lambda>current.
     let email' = (case email of None \<Rightarrow> urEmail current | Some e \<Rightarrow> e); name' = (case name of None \<Rightarrow> urDisplayName current | Some n \<Rightarrow> n) in
     alone (\<lambda>d. bindE (stmt w ''update user'') (\<lambda>_. bindE (uuid_param i) (\<lambda>u. bindE (pg_text email') (\<lambda>_. bindE (pg_text name') (\<lambda>_.
       update_user u (\<lambda>r. r\<lparr> urEmail := email', urDisplayName := name', urUpdatedAt := pwPgNow w \<rparr>) d))))))"

definition SetUserStatus :: "panel_world \<Rightarrow> string \<Rightarrow> string \<Rightarrow> db \<Rightarrow> (storage_error + user_row) \<times> db" where
  "SetUserStatus w i status = alone (\<lambda>d. bindE (stmt w ''set user status'') (\<lambda>_. bindE (uuid_param i) (\<lambda>u.
     update_user u (\<lambda>r. r\<lparr> urStatus := status, urUpdatedAt := pwPgNow w \<rparr>) d)))"

section \<open>Plans\<close>

definition plan_ints_ok :: "plan_row \<Rightarrow> bool" where
  "plan_ints_ok p \<longleftrightarrow> int4 (plDurationDays p) \<and> int4 (plDeviceLimit p) \<and> (case plTrafficLimit p of None \<Rightarrow> True | Some n \<Rightarrow> int8 n)"

definition ListPlans :: "panel_world \<Rightarrow> db \<Rightarrow> storage_error + plan_row list" where
  "ListPlans w d = bindE (stmt w ''select plans'') (\<lambda>_. Inr (take 100 (sort_key (\<lambda>p. - plCreatedAt p) (dbPlans d))))"

record CreatePlanInput =
  cpName :: string
  cpDurationDays :: int
  cpTrafficLimit :: "int option"
  cpDeviceLimit :: int

definition CreatePlan :: "panel_world \<Rightarrow> CreatePlanInput \<Rightarrow> db \<Rightarrow> (storage_error + plan_row) \<times> db" where
  "CreatePlan w i = alone (\<lambda>d. bindE (stmt w ''insert plan'') (\<lambda>_. bindE (pg_text (cpName i)) (\<lambda>_.
     let p = \<lparr> plID = pwID w ''plans'', plName = cpName i, plDurationDays = cpDurationDays i, plTrafficLimit = cpTrafficLimit i,
       plDeviceLimit = cpDeviceLimit i, plStatus = ''active'', plCreatedAt = pwPgNow w, plUpdatedAt = pwPgNow w \<rparr> in
     bindE (constraints (plan_ints_ok p) (plan_row_ok p) (plID p \<notin> plID ` set (dbPlans d) \<and> plName p \<notin> plName ` set (dbPlans d)) True)
       (\<lambda>_. Inr (p, d\<lparr> dbPlans := dbPlans d @ [p] \<rparr>)))))"

definition FindPlan :: "panel_world \<Rightarrow> string \<Rightarrow> db \<Rightarrow> storage_error + plan_row" where
  "FindPlan w i d = bindE (stmt w ''select plan'') (\<lambda>_. bindE (uuid_param i) (\<lambda>u. one_row ErrNotFound (row_with plID u (dbPlans d))))"

definition update_plan :: "uuid \<Rightarrow> (plan_row \<Rightarrow> plan_row) \<Rightarrow> db \<Rightarrow> storage_error + (plan_row \<times> db)" where
  "update_plan u f d = bindE (one_row ErrNotFound (row_with plID u (dbPlans d))) (\<lambda>old. let new = f old in
     bindE (constraints (plan_ints_ok new) (plan_row_ok new) (\<not> list_ex (\<lambda>r. plID r \<noteq> u \<and> plName r = plName new) (dbPlans d)) True)
       (\<lambda>_. Inr (new, d\<lparr> dbPlans := upd_where (\<lambda>r. plID r = u) (\<lambda>_. new) (dbPlans d) \<rparr>)))"

record UpdatePlanInput =
  upName :: "string option"
  upDurationDays :: "int option"
  upTrafficLimit :: "int option"
  upClearTrafficLimit :: bool
  upDeviceLimit :: "int option"

text \<open>The fields that are written back, from the row that was read.\<close>

definition merged_plan :: "UpdatePlanInput \<Rightarrow> plan_row \<Rightarrow> plan_row" where
  "merged_plan i current = current\<lparr> plName := (case upName i of None \<Rightarrow> plName current | Some n \<Rightarrow> n),
     plDurationDays := (case upDurationDays i of None \<Rightarrow> plDurationDays current | Some n \<Rightarrow> n),
     plTrafficLimit := (if upClearTrafficLimit i then None else if upTrafficLimit i \<noteq> None then upTrafficLimit i else plTrafficLimit current),
     plDeviceLimit := (case upDeviceLimit i of None \<Rightarrow> plDeviceLimit current | Some n \<Rightarrow> n) \<rparr>"

definition UpdatePlan :: "panel_world \<Rightarrow> string \<Rightarrow> UpdatePlanInput \<Rightarrow> db \<Rightarrow> (storage_error + plan_row) \<times> db" where
  "UpdatePlan w i q = seqE (readE (FindPlan w i)) (\<lambda>current. let m = merged_plan q current in
     alone (\<lambda>d. bindE (stmt w ''update plan'') (\<lambda>_. bindE (uuid_param i) (\<lambda>u. bindE (pg_text (plName m)) (\<lambda>_.
       update_plan u (\<lambda>p. p\<lparr> plName := plName m, plDurationDays := plDurationDays m, plTrafficLimit := plTrafficLimit m,
         plDeviceLimit := plDeviceLimit m, plUpdatedAt := pwPgNow w \<rparr>) d)))))"

definition ArchivePlan :: "panel_world \<Rightarrow> string \<Rightarrow> db \<Rightarrow> (storage_error + plan_row) \<times> db" where
  "ArchivePlan w i = alone (\<lambda>d. bindE (stmt w ''archive plan'') (\<lambda>_. bindE (uuid_param i) (\<lambda>u.
     update_plan u (\<lambda>p. p\<lparr> plStatus := ''archived'', plUpdatedAt := pwPgNow w \<rparr>) d)))"

section \<open>Handlers\<close>

definition user_json :: "user_row \<Rightarrow> any" where
  "user_json u = AObj [(''id'', AStr (urID u)), (''email'', AStr (urEmail u)), (''status'', AStr (urStatus u)),
     (''display_name'', AStr (urDisplayName u))]"

definition plan_json :: "plan_row \<Rightarrow> any" where
  "plan_json p = AObj [(''id'', AStr (plID p)), (''name'', AStr (plName p)), (''duration_days'', AInt (plDurationDays p)),
     (''traffic_limit_bytes'', opt_int (plTrafficLimit p)), (''device_limit'', AInt (plDeviceLimit p)), (''status'', AStr (plStatus p))]"

text \<open>A nil slice is written as null.\<close>

definition WriteRows :: "('r \<Rightarrow> any) \<Rightarrow> 'r list \<Rightarrow> response" where
  "WriteRows f rows = WriteJSON 200 (if rows = [] then ANil else AArr (map f rows))"

definition row_reply :: "string \<Rightarrow> ('r \<Rightarrow> any) \<Rightarrow> storage_error + 'r \<Rightarrow> db \<Rightarrow> reply" where
  "row_reply resource f result d = (case result of Inl e \<Rightarrow> (writeResourceError e resource, d, []) | Inr x \<Rightarrow> (WriteJSON 200 (f x), d, []))"

text \<open>What the handlers do after a call that changes a row: an event either way, named by the path on failure and by the row on success.\<close>

definition change_reply ::
    "string \<Rightarrow> string \<Rightarrow> ('r \<Rightarrow> any) \<Rightarrow> ('r \<Rightarrow> string) \<Rightarrow> http_request \<Rightarrow> (storage_error + 'r) \<times> db \<Rightarrow> reply" where
  "change_reply resource action f ident r result = (case result of
     (Inl e, d') \<Rightarrow> (writeResourceError e resource, d', [record_event resource r action (path_value ''id'' r) OutcomeFailure (resource_reason e)])
   | (Inr x, d') \<Rightarrow> (WriteJSON 200 (f x), d', [record_event resource r action (ident x) OutcomeSuccess []]))"

definition create_reply ::
    "string \<Rightarrow> string \<Rightarrow> ('r \<Rightarrow> any) \<Rightarrow> ('r \<Rightarrow> string) \<Rightarrow> http_request \<Rightarrow> (storage_error + 'r) \<times> db \<Rightarrow> reply" where
  "create_reply resource action f ident r result = (case result of
     (Inl e, d') \<Rightarrow> (WriteStorageError, d', [record_event resource r action [] OutcomeFailure ''storage_error''])
   | (Inr x, d') \<Rightarrow> (WriteJSON 201 (f x), d', [record_event resource r action (ident x) OutcomeSuccess []]))"

definition bad_json :: "db \<Rightarrow> reply" where
  "bad_json d = (WriteBadRequest ''invalid JSON request body'', d, [])"

definition users_List :: "panel_world \<Rightarrow> http_request \<Rightarrow> db \<Rightarrow> reply" where
  "users_List w r d = (case ListUsers w d of Inl e \<Rightarrow> (WriteStorageError, d, []) | Inr us \<Rightarrow> (WriteRows user_json us, d, []))"

definition clean_email :: "(string \<Rightarrow> string) \<Rightarrow> string \<Rightarrow> string" where
  "clean_email lower s = TrimSpace (ToLower lower s)"

definition email_ok :: "string \<Rightarrow> bool" where
  "email_ok e = (e \<noteq> [] \<and> CHR ''@'' \<in> set e)"

definition users_Create :: "(string \<Rightarrow> string) \<Rightarrow> panel_world \<Rightarrow> http_request \<Rightarrow> db \<Rightarrow> reply" where
  "users_Create lower w r d = (case Option.bind (body_obj r) (\<lambda>m. case (dec_str m ''email'', dec_str m ''display_name'') of
        (Some e, Some n) \<Rightarrow> Some (clean_email lower e, TrimSpace n) | _ \<Rightarrow> None) of
     None \<Rightarrow> bad_json d
   | Some (email, name) \<Rightarrow>
     if \<not> email_ok email then (WriteBadRequest ''email is required'', d, [])
     else create_reply ''user'' ''user.create'' user_json urID r (CreateUser w email name d))"

definition users_Get :: "panel_world \<Rightarrow> http_request \<Rightarrow> db \<Rightarrow> reply" where
  "users_Get w r d = row_reply ''user'' user_json (FindUser w (path_value ''id'' r) d) d"

definition users_Update :: "(string \<Rightarrow> string) \<Rightarrow> panel_world \<Rightarrow> http_request \<Rightarrow> db \<Rightarrow> reply" where
  "users_Update lower w r d = (case Option.bind (body_obj r) (\<lambda>m. case (dec_ptr as_str m ''email'', dec_ptr as_str m ''display_name'') of
        (Some e, Some n) \<Rightarrow> Some (map_option (clean_email lower) e, map_option TrimSpace n) | _ \<Rightarrow> None) of
     None \<Rightarrow> bad_json d
   | Some (email, name) \<Rightarrow>
     if (case email of None \<Rightarrow> False | Some e \<Rightarrow> \<not> email_ok e) then (WriteBadRequest ''email must be valid when provided'', d, [])
     else change_reply ''user'' ''user.update'' user_json urID r (UpdateUser w (path_value ''id'' r) email name d))"

definition setStatus :: "panel_world \<Rightarrow> string \<Rightarrow> string \<Rightarrow> http_request \<Rightarrow> db \<Rightarrow> reply" where
  "setStatus w status action r d = change_reply ''user'' action user_json urID r (SetUserStatus w (path_value ''id'' r) status d)"

definition users_Suspend :: "panel_world \<Rightarrow> http_request \<Rightarrow> db \<Rightarrow> reply" where
  "users_Suspend w = setStatus w ''suspended'' ''user.suspend''"

definition users_Activate :: "panel_world \<Rightarrow> http_request \<Rightarrow> db \<Rightarrow> reply" where
  "users_Activate w = setStatus w ''active'' ''user.activate''"

definition plans_List :: "panel_world \<Rightarrow> http_request \<Rightarrow> db \<Rightarrow> reply" where
  "plans_List w r d = (case ListPlans w d of Inl e \<Rightarrow> (WriteStorageError, d, []) | Inr ps \<Rightarrow> (WriteRows plan_json ps, d, []))"

definition decode_create_plan :: "obj \<Rightarrow> CreatePlanInput option" where
  "decode_create_plan m = (case (dec_str m ''name'', dec_int m ''duration_days'', dec_ptr int_of_any m ''traffic_limit_bytes'', dec_int m ''device_limit'') of
     (Some n, Some dd, Some t, Some dl) \<Rightarrow> Some \<lparr> cpName = n, cpDurationDays = dd, cpTrafficLimit = t, cpDeviceLimit = dl \<rparr>
   | _ \<Rightarrow> None)"

definition plans_Create :: "panel_world \<Rightarrow> http_request \<Rightarrow> db \<Rightarrow> reply" where
  "plans_Create w r d = (case Option.bind (body_obj r) decode_create_plan of
     None \<Rightarrow> bad_json d
   | Some i \<Rightarrow>
     if TrimSpace (cpName i) = [] then (WriteBadRequest ''name is required'', d, [])
     else if cpDurationDays i \<le> 0 then (WriteBadRequest ''duration_days must be greater than zero'', d, [])
     else if cpDeviceLimit i \<le> 0 then (WriteBadRequest ''device_limit must be greater than zero'', d, [])
     else if (case cpTrafficLimit i of None \<Rightarrow> False | Some n \<Rightarrow> n \<le> 0)
       then (WriteBadRequest ''traffic_limit_bytes must be greater than zero when provided'', d, [])
     else create_reply ''plan'' ''plan.create'' plan_json plID r (CreatePlan w (i\<lparr> cpName := TrimSpace (cpName i) \<rparr>) d))"

definition plans_Get :: "panel_world \<Rightarrow> http_request \<Rightarrow> db \<Rightarrow> reply" where
  "plans_Get w r d = row_reply ''plan'' plan_json (FindPlan w (path_value ''id'' r) d) d"

definition decode_update_plan :: "obj \<Rightarrow> UpdatePlanInput option" where
  "decode_update_plan m = (case (dec_ptr as_str m ''name'', dec_ptr int_of_any m ''duration_days'', dec_ptr int_of_any m ''traffic_limit_bytes'',
       dec_bool m ''clear_traffic_limit'', dec_ptr int_of_any m ''device_limit'') of
     (Some n, Some dd, Some t, Some c, Some dl) \<Rightarrow>
       Some \<lparr> upName = n, upDurationDays = dd, upTrafficLimit = t, upClearTrafficLimit = c, upDeviceLimit = dl \<rparr>
   | _ \<Rightarrow> None)"

definition not_positive :: "int option \<Rightarrow> bool" where
  "not_positive v = (case v of None \<Rightarrow> False | Some n \<Rightarrow> n \<le> 0)"

definition plans_Update :: "panel_world \<Rightarrow> http_request \<Rightarrow> db \<Rightarrow> reply" where
  "plans_Update w r d = (case Option.bind (body_obj r) decode_update_plan of
     None \<Rightarrow> bad_json d
   | Some q \<Rightarrow>
     if (case upName q of None \<Rightarrow> False | Some n \<Rightarrow> TrimSpace n = []) then (WriteBadRequest ''name cannot be empty'', d, [])
     else if not_positive (upDurationDays q) then (WriteBadRequest ''duration_days must be greater than zero'', d, [])
     else if not_positive (upDeviceLimit q) then (WriteBadRequest ''device_limit must be greater than zero'', d, [])
     else if not_positive (upTrafficLimit q) then (WriteBadRequest ''traffic_limit_bytes must be greater than zero when provided'', d, [])
     else change_reply ''plan'' ''plan.update'' plan_json plID r
            (UpdatePlan w (path_value ''id'' r) (q\<lparr> upName := map_option TrimSpace (upName q) \<rparr>) d))"

definition plans_Archive :: "panel_world \<Rightarrow> http_request \<Rightarrow> db \<Rightarrow> reply" where
  "plans_Archive w r d = change_reply ''plan'' ''plan.archive'' plan_json plID r (ArchivePlan w (path_value ''id'' r) d)"

end
