(* ===== verification/Profiles.thy ===== *)
theory Profiles
  imports Routing Settings Customers
begin

text \<open>
  \<open>services/panel-api/internal/profiles\<close>: named sets of routing rules that an administrator applies to a node, one rule
  at a time through the routing service.  The time columns have no zone: the server's sessions are in UTC.  \<open>collate\<close> is
  the order of names.
\<close>

section \<open>Repository\<close>

definition profile_order :: "(string \<Rightarrow> string) \<Rightarrow> profile_row list \<Rightarrow> profile_row list" where
  "profile_order collate ps = sort_key (\<lambda>p. \<not> npSystem p) (sort_key (\<lambda>p. collate (npName p)) ps)"

definition repo_ListProfiles :: "(string \<Rightarrow> string) \<Rightarrow> panel_world \<Rightarrow> db \<Rightarrow> storage_error + profile_row list" where
  "repo_ListProfiles collate w d = bindE (stmt w ''select profiles'') (\<lambda>_. Inr (profile_order collate (dbProfiles d)))"

definition repo_FindProfile :: "panel_world \<Rightarrow> string \<Rightarrow> db \<Rightarrow> storage_error + profile_row" where
  "repo_FindProfile w i d = bindE (stmt w ''select profile'') (\<lambda>_. bindE (uuid_param i) (\<lambda>u.
     one_row (ErrPackage ProfileNotFound) (row_with npID u (dbProfiles d))))"

record CreateProfileInput =
  cnName :: string
  cnDescription :: "string option"
  cnConfig :: "any option"

definition repo_CreateProfile :: "panel_world \<Rightarrow> CreateProfileInput \<Rightarrow> db \<Rightarrow> (storage_error + profile_row) \<times> db" where
  "repo_CreateProfile w i = alone (\<lambda>d. bindE (stmt w ''insert profile'') (\<lambda>_. bindE (varchar 255 (cnName i)) (\<lambda>name.
     bindE (nullable pg_text (optionalString (cnDescription i))) (\<lambda>description.
     bindE (jsonb (case cnConfig i of None \<Rightarrow> AObj [] | Some c \<Rightarrow> c)) (\<lambda>config.
     let p = \<lparr> npID = pwID w ''node_profiles'', npName = name, npDescription = description, npSystem = False, npConfig = config,
       npCreatedAt = pwPgNow w, npUpdatedAt = pwPgNow w \<rparr> in
     bindE (constraints True True (npID p \<notin> npID ` set (dbProfiles d) \<and> npName p \<notin> npName ` set (dbProfiles d)) True)
       (\<lambda>_. Inr (p, d\<lparr> dbProfiles := dbProfiles d @ [p] \<rparr>)))))))"

record UpdateProfileInput =
  unName :: "string option"
  unDescription :: "string option"
  unConfig :: "any option"

definition repo_UpdateProfile :: "panel_world \<Rightarrow> string \<Rightarrow> UpdateProfileInput \<Rightarrow> db \<Rightarrow> (storage_error + profile_row) \<times> db" where
  "repo_UpdateProfile w i q = alone (\<lambda>d. bindE (stmt w ''update profile'') (\<lambda>_. bindE (uuid_param i) (\<lambda>u.
     bindE (nullable (varchar 255) (optionalString (unName q))) (\<lambda>name.
     bindE (nullable pg_text (optionalString (unDescription q))) (\<lambda>description. bindE (nullable jsonb (unConfig q)) (\<lambda>config.
     bindE (one_row (ErrPackage ProfileNotFound) (row_with npID u (dbProfiles d))) (\<lambda>old.
     let p = old\<lparr> npName := coalesce name (npName old), npDescription := (if description = None then npDescription old else description),
       npConfig := coalesce config (npConfig old), npUpdatedAt := pwPgNow w \<rparr> in
     bindE (constraints True True (\<not> list_ex (\<lambda>r. npID r \<noteq> u \<and> npName r = npName p) (dbProfiles d)) True)
       (\<lambda>_. Inr (p, d\<lparr> dbProfiles := upd_where (\<lambda>r. npID r = u) (\<lambda>_. p) (dbProfiles d) \<rparr>)))))))))"

definition repo_DeleteProfile :: "panel_world \<Rightarrow> string \<Rightarrow> db \<Rightarrow> (storage_error + unit) \<times> db" where
  "repo_DeleteProfile w i = alone (\<lambda>d. bindE (stmt w ''delete profile'') (\<lambda>_. bindE (uuid_param i) (\<lambda>u.
     if list_ex (\<lambda>p. npID p = u \<and> \<not> npSystem p) (dbProfiles d)
     then Inr ((), d\<lparr> dbProfiles := del_where (\<lambda>p. npID p = u \<and> \<not> npSystem p) (dbProfiles d) \<rparr>)
     else Inl (ErrPackage ProfileNotFound))))"

section \<open>Service\<close>

definition ValidateName :: "string \<Rightarrow> bool" where
  "ValidateName name = (TrimSpace name \<noteq> [])"

record ProfileRule =
  prRuleType :: string
  prTarget :: string
  prAction :: string
  prOutboundTag :: "string option"
  prPriority :: int

definition parse_rule :: "any \<Rightarrow> ProfileRule option" where
  "parse_rule v = Option.bind (if v = ANil then Some [] else as_obj v) (\<lambda>m.
     case (dec_str m ''rule_type'', dec_str m ''target'', dec_str m ''action'', dec_ptr as_str m ''outbound_tag'', dec_int m ''priority'') of
       (Some ty, Some t, Some a, Some tag, Some p) \<Rightarrow>
         Some \<lparr> prRuleType = ty, prTarget = t, prAction = a, prOutboundTag = tag, prPriority = p \<rparr>
     | _ \<Rightarrow> None)"

definition parse_rules :: "any \<Rightarrow> ProfileRule list option" where
  "parse_rules v = Option.bind (as_arr v) (\<lambda>xs. all_some (map parse_rule xs))"

definition ParseConfig :: "any \<Rightarrow> storage_error + ProfileRule list" where
  "ParseConfig v = (case Option.bind (if v = ANil then Some [] else as_obj v) (\<lambda>m. dec_ptr parse_rules m ''routing_rules'') of
     None \<Rightarrow> Inl (ErrPackage InvalidProfile) | Some None \<Rightarrow> Inr [] | Some (Some rules) \<Rightarrow> Inr rules)"

definition CreateProfile :: "panel_world \<Rightarrow> CreateProfileInput \<Rightarrow> db \<Rightarrow> (storage_error + profile_row) \<times> db" where
  "CreateProfile w i = seqE (guardE (ValidateName (cnName i)) InvalidProfile) (\<lambda>_. repo_CreateProfile w i)"

definition UpdateProfile :: "panel_world \<Rightarrow> string \<Rightarrow> UpdateProfileInput \<Rightarrow> db \<Rightarrow> (storage_error + profile_row) \<times> db" where
  "UpdateProfile w i q = seqE (guardE (case unName q of None \<Rightarrow> True | Some n \<Rightarrow> ValidateName n) InvalidProfile) (\<lambda>_. repo_UpdateProfile w i q)"

definition DeleteProfile :: "panel_world \<Rightarrow> string \<Rightarrow> db \<Rightarrow> (storage_error + unit) \<times> db" where
  "DeleteProfile w i = seqE (readE (repo_FindProfile w i)) (\<lambda>p. seqE (guardE (\<not> npSystem p) SystemProfile) (\<lambda>_. repo_DeleteProfile w i))"

text \<open>The rule a profile's rule makes for a node, none when a part of it is blank.\<close>

definition rule_input :: "string \<Rightarrow> ProfileRule \<Rightarrow> CreateRuleInput option" where
  "rule_input node r = (let ty = TrimSpace (prRuleType r); target = TrimSpace (prTarget r); action = TrimSpace (prAction r)
     in if ty = [] \<or> target = [] \<or> action = [] then None
        else Some \<lparr> criNodeID = Some node, criRuleType = ty, criTarget = target, criAction = action, criOutboundTag = prOutboundTag r,
          criPriority = (if prPriority r \<le> 0 then 100 else prPriority r), criEnabled = None, criDescription = None \<rparr>)"

text \<open>Each rule is a statement of its own, in the world of its turn; the first that fails ends the loop and the others stay.\<close>

fun apply_rules :: "(nat \<Rightarrow> panel_world) \<Rightarrow> string \<Rightarrow> ProfileRule list \<Rightarrow> db \<Rightarrow> (storage_error + unit) \<times> db" where
  "apply_rules ws node [] d = (Inr (), d)"
| "apply_rules ws node (r # rs) d = (case rule_input node r of
     None \<Rightarrow> apply_rules (\<lambda>k. ws (Suc k)) node rs d
   | Some i \<Rightarrow> (case CreateRule (ws 0) i d of
       (Inl e, d') \<Rightarrow> (Inl e, d') | (Inr x, d') \<Rightarrow> apply_rules (\<lambda>k. ws (Suc k)) node rs d'))"

definition ApplyToNode :: "(nat \<Rightarrow> panel_world) \<Rightarrow> string \<Rightarrow> string \<Rightarrow> db \<Rightarrow> (storage_error + unit) \<times> db" where
  "ApplyToNode ws profile node d = (case bindE (repo_FindProfile (ws 0) profile d) (\<lambda>p. ParseConfig (npConfig p)) of
     Inl e \<Rightarrow> (Inl e, d) | Inr rules \<Rightarrow> apply_rules (\<lambda>k. ws (Suc k)) node rules d)"

section \<open>Handlers\<close>

definition profile_json :: "profile_row \<Rightarrow> any" where
  "profile_json p = AObj [(''id'', AStr (npID p)), (''name'', AStr (npName p)), (''description'', opt_str (npDescription p)),
     (''is_system'', ABool (npSystem p)), (''config'', npConfig p), (''created_at'', AStr (RFC3339Nano (npCreatedAt p))),
     (''updated_at'', AStr (RFC3339Nano (npUpdatedAt p)))]"

definition profile_times :: "profile_row \<Rightarrow> instant list" where
  "profile_times p = [npCreatedAt p, npUpdatedAt p]"

definition writeProfileError :: "storage_error \<Rightarrow> response" where
  "writeProfileError e = (if e = ErrPackage ProfileNotFound then WriteNotFound ''node profile''
     else if e = ErrPackage InvalidProfile then WriteBadRequest ''invalid node profile''
     else if e = ErrPackage SystemProfile then WriteBadRequest ''cannot delete system profile''
     else WriteStorageError)"

definition record_profile :: "http_request \<Rightarrow> string \<Rightarrow> string \<Rightarrow> audit_event" where
  "record_profile r action i = record_event ''node_profile'' r action i OutcomeSuccess []"

text \<open>The handlers of a change: an event only when it succeeds.\<close>

definition profile_change :: "nat \<Rightarrow> string \<Rightarrow> http_request \<Rightarrow> (storage_error + profile_row) \<times> db \<Rightarrow> reply" where
  "profile_change status action r result = (case result of
     (Inl e, d') \<Rightarrow> (writeProfileError e, d', [])
   | (Inr p, d') \<Rightarrow> (WriteTimed status (profile_times p) (profile_json p), d', [record_profile r action (npID p)]))"

definition profiles_List :: "(string \<Rightarrow> string) \<Rightarrow> panel_world \<Rightarrow> http_request \<Rightarrow> db \<Rightarrow> reply" where
  "profiles_List collate w r d = (case repo_ListProfiles collate w d of
     Inl e \<Rightarrow> (WriteStorageError, d, [])
   | Inr ps \<Rightarrow> (WriteTimed 200 (concat (map profile_times ps)) (AArr (map profile_json ps)), d, []))"

definition decode_create_profile :: "obj \<Rightarrow> CreateProfileInput option" where
  "decode_create_profile m = (case (dec_str m ''name'', dec_ptr as_str m ''description'') of
     (Some n, Some ds) \<Rightarrow> Some \<lparr> cnName = n, cnDescription = ds, cnConfig = raw_member m ''config'' \<rparr>
   | _ \<Rightarrow> None)"

definition profiles_Create :: "panel_world \<Rightarrow> http_request \<Rightarrow> db \<Rightarrow> reply" where
  "profiles_Create w r d = (case Option.bind (body_obj r) decode_create_profile of
     None \<Rightarrow> bad_json d | Some i \<Rightarrow> profile_change 201 ''node_profile.create'' r (CreateProfile w i d))"

definition profiles_Get :: "panel_world \<Rightarrow> http_request \<Rightarrow> db \<Rightarrow> reply" where
  "profiles_Get w r d = (case repo_FindProfile w (path_value ''id'' r) d of
     Inl e \<Rightarrow> (writeProfileError e, d, []) | Inr p \<Rightarrow> (WriteTimed 200 (profile_times p) (profile_json p), d, []))"

definition decode_update_profile :: "obj \<Rightarrow> UpdateProfileInput option" where
  "decode_update_profile m = (case (dec_ptr as_str m ''name'', dec_ptr as_str m ''description'') of
     (Some n, Some ds) \<Rightarrow> Some \<lparr> unName = n, unDescription = ds, unConfig = raw_member m ''config'' \<rparr>
   | _ \<Rightarrow> None)"

definition profiles_Update :: "panel_world \<Rightarrow> http_request \<Rightarrow> db \<Rightarrow> reply" where
  "profiles_Update w r d = (case Option.bind (body_obj r) decode_update_profile of
     None \<Rightarrow> bad_json d | Some q \<Rightarrow> profile_change 200 ''node_profile.update'' r (UpdateProfile w (path_value ''id'' r) q d))"

definition profiles_Delete :: "panel_world \<Rightarrow> http_request \<Rightarrow> db \<Rightarrow> reply" where
  "profiles_Delete w r d = (let i = path_value ''id'' r in case DeleteProfile w i d of
     (Inl e, d') \<Rightarrow> (writeProfileError e, d', [])
   | (Inr u, d') \<Rightarrow> (WriteJSON 200 (AObj [(''id'', AStr i)]), d', [record_profile r ''node_profile.delete'' i]))"

definition profiles_Apply :: "(nat \<Rightarrow> panel_world) \<Rightarrow> http_request \<Rightarrow> db \<Rightarrow> reply" where
  "profiles_Apply ws r d = (let profile = path_value ''id'' r; node = path_value ''nodeId'' r in case ApplyToNode ws profile node d of
     (Inl e, d') \<Rightarrow> (writeProfileError e, d', [])
   | (Inr u, d') \<Rightarrow> (WriteJSON 200 (AObj [(''profile_id'', AStr profile), (''node_id'', AStr node)]), d',
       [record_profile r ''node_profile.apply'' profile]))"

end
