(* ===== verification/Templates.thy ===== *)
theory Templates
  imports Profiles
begin

text \<open>
  \<open>services/panel-api/internal/subscription_templates\<close>: templates of subscriptions.  A template names a plan, and a
  subscription made from it is one of that plan; its \<open>config\<close> is checked when it is written and read by nothing else.
  System templates cannot be changed or deleted.  The time column has no zone: the server's sessions are in UTC.
\<close>

section \<open>Repository\<close>

definition repo_ListTemplates :: "(string \<Rightarrow> string) \<Rightarrow> panel_world \<Rightarrow> db \<Rightarrow> storage_error + template_row list" where
  "repo_ListTemplates collate w d = bindE (stmt w ''select templates'')
     (\<lambda>_. Inr (sort_key (\<lambda>t. \<not> ptSystem t) (sort_key (\<lambda>t. collate (ptName t)) (dbTemplates d))))"

definition repo_FindTemplate :: "panel_world \<Rightarrow> string \<Rightarrow> db \<Rightarrow> storage_error + template_row" where
  "repo_FindTemplate w i d = bindE (stmt w ''select template'') (\<lambda>_. bindE (uuid_param i) (\<lambda>u.
     one_row (ErrPackage TemplateNotFound) (row_with ptID u (dbTemplates d))))"

record CreateTemplateInput =
  ctName :: string
  ctDescription :: "string option"
  ctPlanID :: "string option"
  ctConfig :: "any option"

definition plan_known :: "uuid option \<Rightarrow> db \<Rightarrow> bool" where
  "plan_known p d = (case p of None \<Rightarrow> True | Some u \<Rightarrow> u \<in> plID ` set (dbPlans d))"

definition repo_CreateTemplate :: "panel_world \<Rightarrow> CreateTemplateInput \<Rightarrow> db \<Rightarrow> (storage_error + template_row) \<times> db" where
  "repo_CreateTemplate w i = alone (\<lambda>d. bindE (stmt w ''insert template'') (\<lambda>_. bindE (varchar 255 (ctName i)) (\<lambda>name.
     bindE (nullable pg_text (optionalString (ctDescription i))) (\<lambda>description.
     bindE (uuid_param_opt (optionalString (ctPlanID i))) (\<lambda>plan.
     bindE (jsonb (case ctConfig i of None \<Rightarrow> AObj [] | Some c \<Rightarrow> c)) (\<lambda>config.
     let t = \<lparr> ptID = pwID w ''subscription_templates'', ptName = name, ptDescription = description, ptPlanID = plan, ptConfig = config,
       ptSystem = False, ptCreatedAt = pwPgNow w \<rparr> in
     bindE (constraints True True (ptID t \<notin> ptID ` set (dbTemplates d) \<and> ptName t \<notin> ptName ` set (dbTemplates d)) (plan_known plan d))
       (\<lambda>_. Inr (t, d\<lparr> dbTemplates := dbTemplates d @ [t] \<rparr>))))))))"

record UpdateTemplateInput =
  utName :: "string option"
  utDescription :: "string option"
  utPlanID :: "string option"
  utConfig :: "any option"

definition repo_UpdateTemplate :: "panel_world \<Rightarrow> string \<Rightarrow> UpdateTemplateInput \<Rightarrow> db \<Rightarrow> (storage_error + template_row) \<times> db" where
  "repo_UpdateTemplate w i q = alone (\<lambda>d. bindE (stmt w ''update template'') (\<lambda>_. bindE (uuid_param i) (\<lambda>u.
     bindE (nullable (varchar 255) (optionalString (utName q))) (\<lambda>name.
     bindE (nullable pg_text (optionalString (utDescription q))) (\<lambda>description.
     bindE (uuid_param_opt (optionalString (utPlanID q))) (\<lambda>plan. bindE (nullable jsonb (utConfig q)) (\<lambda>config.
     bindE (one_row (ErrPackage TemplateNotFound) (row_with ptID u (filter (\<lambda>t. \<not> ptSystem t) (dbTemplates d)))) (\<lambda>old.
     let t = old\<lparr> ptName := coalesce name (ptName old), ptDescription := (if description = None then ptDescription old else description),
       ptPlanID := (if plan = None then ptPlanID old else plan), ptConfig := coalesce config (ptConfig old) \<rparr> in
     bindE (constraints True True (\<not> list_ex (\<lambda>r. ptID r \<noteq> u \<and> ptName r = ptName t) (dbTemplates d)) (plan_known (ptPlanID t) d))
       (\<lambda>_. Inr (t, d\<lparr> dbTemplates := upd_where (\<lambda>r. ptID r = u \<and> \<not> ptSystem r) (\<lambda>_. t) (dbTemplates d) \<rparr>))))))))))"

definition repo_DeleteTemplate :: "panel_world \<Rightarrow> string \<Rightarrow> db \<Rightarrow> (storage_error + unit) \<times> db" where
  "repo_DeleteTemplate w i = alone (\<lambda>d. bindE (stmt w ''delete template'') (\<lambda>_. bindE (uuid_param i) (\<lambda>u.
     if list_ex (\<lambda>t. ptID t = u \<and> \<not> ptSystem t) (dbTemplates d)
     then Inr ((), d\<lparr> dbTemplates := del_where (\<lambda>t. ptID t = u \<and> \<not> ptSystem t) (dbTemplates d) \<rparr>)
     else Inl (ErrPackage TemplateNotFound))))"

section \<open>Service\<close>

text \<open>The terms a template must give: positive days and devices, and numbers or null where numbers belong.\<close>

definition template_terms_ok :: "any \<Rightarrow> bool" where
  "template_terms_ok v = (case if v = ANil then Some [] else as_obj v of None \<Rightarrow> False
   | Some m \<Rightarrow> (case (dec_int m ''duration_days'', dec_ptr int_of_any m ''traffic_limit_bytes'', dec_int m ''device_limit'') of
       (Some days, Some traffic, Some devices) \<Rightarrow> \<not> (days \<le> 0 \<or> devices \<le> 0) | _ \<Rightarrow> False))"

definition CreateTemplate :: "panel_world \<Rightarrow> CreateTemplateInput \<Rightarrow> db \<Rightarrow> (storage_error + template_row) \<times> db" where
  "CreateTemplate w i = seqE (guardE (TrimSpace (ctName i) \<noteq> []) TemplateInvalidInput) (\<lambda>_.
     seqE (guardE (case ctConfig i of None \<Rightarrow> False | Some c \<Rightarrow> template_terms_ok c) TemplateInvalidInput) (\<lambda>_. repo_CreateTemplate w i))"

definition UpdateTemplate :: "panel_world \<Rightarrow> string \<Rightarrow> UpdateTemplateInput \<Rightarrow> db \<Rightarrow> (storage_error + template_row) \<times> db" where
  "UpdateTemplate w i q = seqE (guardE (case utName q of None \<Rightarrow> True | Some n \<Rightarrow> TrimSpace n \<noteq> []) TemplateInvalidInput) (\<lambda>_.
     let config = (if utConfig q = Some ANil then None else utConfig q) in
     seqE (guardE (case config of None \<Rightarrow> True | Some c \<Rightarrow> template_terms_ok c) TemplateInvalidInput) (\<lambda>_.
     seqE (readE (repo_FindTemplate w i)) (\<lambda>t. seqE (guardE (\<not> ptSystem t) SystemTemplate) (\<lambda>_.
       repo_UpdateTemplate w i (q\<lparr> utConfig := config \<rparr>)))))"

definition DeleteTemplate :: "panel_world \<Rightarrow> string \<Rightarrow> db \<Rightarrow> (storage_error + unit) \<times> db" where
  "DeleteTemplate w i = seqE (readE (repo_FindTemplate w i)) (\<lambda>t. seqE (guardE (\<not> ptSystem t) SystemTemplate) (\<lambda>_. repo_DeleteTemplate w i))"

definition ResolvePlanID :: "panel_world \<Rightarrow> db \<Rightarrow> string \<Rightarrow> storage_error + string" where
  "ResolvePlanID w d i = bindE (repo_FindTemplate w i d) (\<lambda>t. case ptPlanID t of
     None \<Rightarrow> Inl (ErrPackage TemplateInvalidInput) | Some p \<Rightarrow> if p = [] then Inl (ErrPackage TemplateInvalidInput) else Inr p)"

definition CreateFromTemplate :: "panel_world \<Rightarrow> string \<Rightarrow> string \<Rightarrow> string option \<Rightarrow> db \<Rightarrow> (storage_error + Subscription) \<times> db" where
  "CreateFromTemplate w i user region = seqE (readE (repo_FindTemplate w i)) (\<lambda>t. case ptPlanID t of
     None \<Rightarrow> (\<lambda>d. (Inl (ErrPackage TemplateInvalidInput), d))
   | Some p \<Rightarrow> if p = [] then (\<lambda>d. (Inl (ErrPackage TemplateInvalidInput), d))
       else CreateSubscription w \<lparr> csUserID = user, csPlanID = p, csRegion = region \<rparr>)"

section \<open>Handlers\<close>

definition template_json :: "template_row \<Rightarrow> any" where
  "template_json t = AObj [(''id'', AStr (ptID t)), (''name'', AStr (ptName t)), (''description'', opt_str (ptDescription t)),
     (''plan_id'', opt_str (ptPlanID t)), (''config'', ptConfig t), (''is_system'', ABool (ptSystem t)),
     (''created_at'', AStr (RFC3339Nano (ptCreatedAt t)))]"

definition writeTemplateError :: "storage_error \<Rightarrow> response" where
  "writeTemplateError e = (if e = ErrPackage TemplateNotFound then WriteNotFound ''subscription template''
     else if e = ErrPackage TemplateInvalidInput then WriteBadRequest ''invalid subscription template input''
     else if e = ErrPackage SystemTemplate then WriteBadRequest ''cannot modify system template''
     else WriteStorageError)"

definition record_template :: "http_request \<Rightarrow> string \<Rightarrow> string \<Rightarrow> string \<Rightarrow> audit_event" where
  "record_template r action i outcome = record_event ''subscription_template'' r action i outcome []"

definition template_change :: "nat \<Rightarrow> string \<Rightarrow> string \<Rightarrow> http_request \<Rightarrow> (storage_error + template_row) \<times> db \<Rightarrow> reply" where
  "template_change status action named r result = (case result of
     (Inl e, d') \<Rightarrow> (writeTemplateError e, d', [record_template r action named OutcomeFailure])
   | (Inr t, d') \<Rightarrow> (WriteTimed status [ptCreatedAt t] (template_json t), d', [record_template r action (ptID t) OutcomeSuccess]))"

definition templates_List :: "(string \<Rightarrow> string) \<Rightarrow> panel_world \<Rightarrow> http_request \<Rightarrow> db \<Rightarrow> reply" where
  "templates_List collate w r d = (case repo_ListTemplates collate w d of
     Inl e \<Rightarrow> (WriteStorageError, d, []) | Inr ts \<Rightarrow> (WriteTimed 200 (map ptCreatedAt ts) (AArr (map template_json ts)), d, []))"

definition decode_create_template :: "obj \<Rightarrow> CreateTemplateInput option" where
  "decode_create_template m = (case (dec_str m ''name'', dec_ptr as_str m ''description'', dec_ptr as_str m ''plan_id'') of
     (Some n, Some ds, Some p) \<Rightarrow> Some \<lparr> ctName = n, ctDescription = ds, ctPlanID = p, ctConfig = raw_member m ''config'' \<rparr>
   | _ \<Rightarrow> None)"

definition templates_Create :: "panel_world \<Rightarrow> http_request \<Rightarrow> db \<Rightarrow> reply" where
  "templates_Create w r d = (case Option.bind (body_obj r) decode_create_template of
     None \<Rightarrow> bad_json d | Some i \<Rightarrow> template_change 201 ''subscription_template.create'' [] r (CreateTemplate w i d))"

definition templates_Get :: "panel_world \<Rightarrow> http_request \<Rightarrow> db \<Rightarrow> reply" where
  "templates_Get w r d = (case repo_FindTemplate w (path_value ''id'' r) d of
     Inl e \<Rightarrow> (writeTemplateError e, d, []) | Inr t \<Rightarrow> (WriteTimed 200 [ptCreatedAt t] (template_json t), d, []))"

definition decode_update_template :: "obj \<Rightarrow> UpdateTemplateInput option" where
  "decode_update_template m = (case (dec_ptr as_str m ''name'', dec_ptr as_str m ''description'', dec_ptr as_str m ''plan_id'') of
     (Some n, Some ds, Some p) \<Rightarrow> Some \<lparr> utName = n, utDescription = ds, utPlanID = p, utConfig = raw_member m ''config'' \<rparr>
   | _ \<Rightarrow> None)"

definition templates_Update :: "panel_world \<Rightarrow> http_request \<Rightarrow> db \<Rightarrow> reply" where
  "templates_Update w r d = (let i = path_value ''id'' r in case Option.bind (body_obj r) decode_update_template of
     None \<Rightarrow> bad_json d | Some q \<Rightarrow> template_change 200 ''subscription_template.update'' i r (UpdateTemplate w i q d))"

definition templates_Delete :: "panel_world \<Rightarrow> http_request \<Rightarrow> db \<Rightarrow> reply" where
  "templates_Delete w r d = (let i = path_value ''id'' r in case DeleteTemplate w i d of
     (Inl e, d') \<Rightarrow> (writeTemplateError e, d', [record_template r ''subscription_template.delete'' i OutcomeFailure])
   | (Inr u, d') \<Rightarrow> (WriteJSON 200 (AObj [(''id'', AStr i)]), d', [record_template r ''subscription_template.delete'' i OutcomeSuccess]))"

definition templates_CreateSubscription :: "panel_world \<Rightarrow> http_request \<Rightarrow> db \<Rightarrow> reply" where
  "templates_CreateSubscription w r d = (case Option.bind (body_obj r) (\<lambda>m. case (dec_str m ''user_id'', dec_ptr as_str m ''preferred_region'') of
        (Some u, Some g) \<Rightarrow> Some (u, g) | _ \<Rightarrow> None) of
     None \<Rightarrow> bad_json d
   | Some (user, region) \<Rightarrow>
     if user = [] then (WriteBadRequest ''user_id is required'', d, [])
     else (case CreateFromTemplate w (path_value ''id'' r) user region d of
       (Inl e, d') \<Rightarrow> (writeTemplateError e, d', [])
     | (Inr s, d') \<Rightarrow> (WriteTimed 201 (subscription_times s) (subscription_json s), d',
         [record_template r ''subscription.create'' (suID s) OutcomeSuccess])))"

text \<open>The requests that write, as the routes name them.\<close>

datatype template_request = CreateTemplateRequest | UpdateTemplateRequest | DeleteTemplateRequest | FromTemplateRequest

definition serve_templates :: "panel_world \<Rightarrow> template_request \<Rightarrow> http_request \<Rightarrow> db \<Rightarrow> reply" where
  "serve_templates w q r = (case q of CreateTemplateRequest \<Rightarrow> templates_Create w r | UpdateTemplateRequest \<Rightarrow> templates_Update w r
   | DeleteTemplateRequest \<Rightarrow> templates_Delete w r | FromTemplateRequest \<Rightarrow> templates_CreateSubscription w r)"

fun template_run :: "(panel_world \<times> template_request \<times> http_request) list \<Rightarrow> db \<Rightarrow> db" where
  "template_run [] d = d"
| "template_run ((w, q, r) # steps) d = template_run steps (fst (snd (serve_templates w q r d)))"

end
