(* ===== verification/Devices.thy ===== *)
theory Devices
  imports SubsStore TrafficStore PgSteps SubsHandler
begin

text \<open>
  \<open>services/panel-api/internal/devices\<close>: the devices of subscriptions (\<open>model.go\<close>, \<open>repository.go\<close>) and their
  registration within the limit of the subscription (\<open>service.go\<close>).  The statements of a registration commit one by
  one.  \<open>inet\<close> stands for the server's input of an \<open>inet\<close> and its cast back to text.
\<close>

definition ValidPlatform :: "string \<Rightarrow> bool" where
  "ValidPlatform p = (p \<in> {''ios'', ''android'', ''windows'', ''macos'', ''linux''})"

definition strPtr :: "string \<Rightarrow> string option" where
  "strPtr s = (if s = [] then None else Some s)"

definition device_by_id :: "uuid \<Rightarrow> db \<Rightarrow> device_row option" where
  "device_by_id u d = row_with dvID u (dbDevices d)"

definition inet_param :: "(string \<Rightarrow> string option) \<Rightarrow> string \<Rightarrow> storage_error + string" where
  "inet_param inet s = (case inet s of None \<Rightarrow> Inl (ErrPg PgInvalidText) | Some t \<Rightarrow> Inr t)"

section \<open>Repository\<close>

record DeviceInput =
  diSubscriptionID :: string
  diFingerprint :: string
  diName :: "string option"
  diPlatform :: "string option"
  diAppVersion :: "string option"
  diLastIP :: "string option"

definition new_device :: "panel_world \<Rightarrow> uuid \<Rightarrow> string \<Rightarrow> string option \<Rightarrow> string option \<Rightarrow> string option \<Rightarrow> string option \<Rightarrow> device_row" where
  "new_device w u fingerprint name platform version ip = \<lparr> dvID = pwID w ''devices'', dvSubscriptionID = u, dvFingerprint = fingerprint,
     dvName = name, dvPlatform = platform, dvAppVersion = version, dvFirstSeenAt = pwPgNow w, dvLastSeenAt = pwPgNow w, dvLastIP = ip,
     dvActive = True, dvCreatedAt = pwPgNow w, dvUpdatedAt = pwPgNow w \<rparr>"

definition put_device :: "device_row \<Rightarrow> db \<Rightarrow> storage_error + db" where
  "put_device v d = bindE (constraints True (device_row_ok v)
       (dvID v \<notin> dvID ` set (dbDevices d) \<and> \<not> list_ex (\<lambda>r. dvSubscriptionID r = dvSubscriptionID v \<and> dvFingerprint r = dvFingerprint v) (dbDevices d))
       (dvSubscriptionID v \<in> suID ` set (dbSubscriptions d)))
     (\<lambda>_. Inr (d\<lparr> dbDevices := dbDevices d @ [v] \<rparr>))"

definition repo_CreateDevice :: "(string \<Rightarrow> string option) \<Rightarrow> panel_world \<Rightarrow> DeviceInput \<Rightarrow> db \<Rightarrow> (storage_error + device_row) \<times> db" where
  "repo_CreateDevice inet w i = alone (\<lambda>d. bindE (stmt w ''insert device'') (\<lambda>_. bindE (uuid_param (diSubscriptionID i)) (\<lambda>u.
     bindE (varchar 255 (diFingerprint i)) (\<lambda>fingerprint. bindE (nullable (varchar 255) (diName i)) (\<lambda>name.
     bindE (nullable (varchar 50) (diPlatform i)) (\<lambda>platform. bindE (nullable (varchar 50) (diAppVersion i)) (\<lambda>version.
     bindE (nullable (inet_param inet) (optionalString (diLastIP i))) (\<lambda>ip.
     let v = new_device w u fingerprint name platform version ip in bindE (put_device v d) (\<lambda>d'. Inr (v, d'))))))))))"

text \<open>\<open>UPDATE devices SET f WHERE id = u\<close>: the row after the update, or \<open>ErrNotFound\<close>.\<close>

definition update_device :: "uuid \<Rightarrow> (device_row \<Rightarrow> device_row) \<Rightarrow> db \<Rightarrow> storage_error + (device_row \<times> db)" where
  "update_device u f d = bindE (one_row (ErrPackage DeviceNotFound) (device_by_id u d)) (\<lambda>v.
     bindE (constraints True (device_row_ok (f v)) True True)
       (\<lambda>_. Inr (f v, d\<lparr> dbDevices := upd_where (\<lambda>r. dvID r = u) f (dbDevices d) \<rparr>)))"

definition repo_UpdateDevice :: "panel_world \<Rightarrow> string \<Rightarrow> string option \<Rightarrow> string option \<Rightarrow> string option \<Rightarrow> db \<Rightarrow> (storage_error + device_row) \<times> db" where
  "repo_UpdateDevice w i name platform version = alone (\<lambda>d. bindE (stmt w ''update device'') (\<lambda>_. bindE (uuid_param i) (\<lambda>u.
     bindE (nullable (varchar 255) name) (\<lambda>name'. bindE (nullable (varchar 50) platform) (\<lambda>platform'.
     bindE (nullable (varchar 50) version) (\<lambda>version'.
       update_device u (\<lambda>v. v\<lparr> dvName := name', dvPlatform := platform', dvAppVersion := version', dvUpdatedAt := pwPgNow w \<rparr>) d))))))"

text \<open>A deleted device leaves its traffic logs without a device (\<open>ON DELETE SET NULL\<close>).\<close>

definition repo_DeleteDevice :: "panel_world \<Rightarrow> string \<Rightarrow> db \<Rightarrow> (storage_error + unit) \<times> db" where
  "repo_DeleteDevice w i = alone (\<lambda>d. bindE (stmt w ''delete device'') (\<lambda>_. bindE (uuid_param i) (\<lambda>u.
     bindE (one_row (ErrPackage DeviceNotFound) (device_by_id u d)) (\<lambda>_.
       Inr ((), d\<lparr> dbDevices := del_where (\<lambda>r. dvID r = u) (dbDevices d),
                    dbTraffic := upd_where (\<lambda>t. tlDeviceID t = Some u) (\<lambda>t. t\<lparr> tlDeviceID := None \<rparr>) (dbTraffic d) \<rparr>)))))"

definition repo_FindDevice :: "panel_world \<Rightarrow> string \<Rightarrow> db \<Rightarrow> storage_error + device_row" where
  "repo_FindDevice w i d = bindE (stmt w ''select device'') (\<lambda>_. bindE (uuid_param i) (\<lambda>u.
     one_row (ErrPackage DeviceNotFound) (device_by_id u d)))"

definition FindByFingerprint :: "panel_world \<Rightarrow> string \<Rightarrow> string \<Rightarrow> db \<Rightarrow> storage_error + device_row" where
  "FindByFingerprint w i fingerprint d = bindE (stmt w ''select device by fingerprint'') (\<lambda>_. bindE (uuid_param i) (\<lambda>u.
     bindE (pg_text fingerprint) (\<lambda>_. one_row (ErrPackage DeviceNotFound)
       (first_row (filter (\<lambda>v. dvSubscriptionID v = u \<and> dvFingerprint v = fingerprint) (dbDevices d))))))"

definition repo_ListDevices :: "panel_world \<Rightarrow> string \<Rightarrow> db \<Rightarrow> storage_error + device_row list" where
  "repo_ListDevices w i d = bindE (stmt w ''select devices'') (\<lambda>_. bindE (uuid_param i) (\<lambda>u.
     Inr (sort_key (\<lambda>v. - dvLastSeenAt v) (filter (\<lambda>v. dvSubscriptionID v = u) (dbDevices d)))))"

definition active_devices :: "uuid \<Rightarrow> db \<Rightarrow> nat" where
  "active_devices u d = length (filter (\<lambda>v. dvSubscriptionID v = u \<and> dvActive v) (dbDevices d))"

definition CountActiveBySubscription :: "panel_world \<Rightarrow> string \<Rightarrow> db \<Rightarrow> storage_error + int" where
  "CountActiveBySubscription w i d = bindE (stmt w ''count devices'') (\<lambda>_. bindE (uuid_param i) (\<lambda>u. Inr (int (active_devices u d))))"

definition MarkInactive :: "panel_world \<Rightarrow> string \<Rightarrow> db \<Rightarrow> (storage_error + device_row) \<times> db" where
  "MarkInactive w i = alone (\<lambda>d. bindE (stmt w ''deactivate device'') (\<lambda>_. bindE (uuid_param i) (\<lambda>u.
     update_device u (\<lambda>v. v\<lparr> dvActive := False, dvUpdatedAt := pwPgNow w \<rparr>) d)))"

definition UpdateLastSeen :: "(string \<Rightarrow> string option) \<Rightarrow> panel_world \<Rightarrow> string \<Rightarrow> string \<Rightarrow> db \<Rightarrow> (storage_error + device_row) \<times> db" where
  "UpdateLastSeen inet w i ip = alone (\<lambda>d. bindE (stmt w ''update last seen'') (\<lambda>_. bindE (uuid_param i) (\<lambda>u.
     bindE (nullable (inet_param inet) (strPtr ip)) (\<lambda>ip'.
       update_device u (\<lambda>v. v\<lparr> dvLastSeenAt := pg_time (pwNow w), dvLastIP := ip', dvUpdatedAt := pg_time (pwNow w) \<rparr>) d))))"

section \<open>Service\<close>

definition enforceLimit :: "panel_world \<Rightarrow> string \<Rightarrow> db \<Rightarrow> (storage_error + unit) \<times> db" where
  "enforceLimit w i = seqE (readE (FindSubscription w i)) (\<lambda>sub. seqE (readE (CountActiveBySubscription w i)) (\<lambda>count.
     guardE (\<not> suDeviceLimit sub \<le> count) DeviceLimitExceeded))"

text \<open>A statement whose error is ignored.\<close>

definition ignoreE :: "(db \<Rightarrow> (storage_error + 'a) \<times> db) \<Rightarrow> db \<Rightarrow> (storage_error + unit) \<times> db" where
  "ignoreE m d = (Inr (), snd (m d))"

definition register_known ::
    "(string \<Rightarrow> string option) \<Rightarrow> panel_world \<Rightarrow> string \<Rightarrow> string \<Rightarrow> string \<Rightarrow> string \<Rightarrow> string \<Rightarrow> device_row \<Rightarrow> db \<Rightarrow> (storage_error + device_row) \<times> db" where
  "register_known inet w i name platform version ip known =
     seqE (if ip = [] then giveE () else ignoreE (UpdateLastSeen inet w (dvID known) ip)) (\<lambda>_.
     seqE (if dvActive known then giveE () else enforceLimit w i) (\<lambda>_.
       repo_UpdateDevice w (dvID known) (strPtr name) (strPtr platform) (strPtr version)))"

definition register_new ::
    "(string \<Rightarrow> string option) \<Rightarrow> panel_world \<Rightarrow> string \<Rightarrow> string \<Rightarrow> string \<Rightarrow> string \<Rightarrow> string \<Rightarrow> string \<Rightarrow> db \<Rightarrow> (storage_error + device_row) \<times> db" where
  "register_new inet w i fingerprint name platform version ip = seqE (enforceLimit w i) (\<lambda>_.
     repo_CreateDevice inet w \<lparr> diSubscriptionID = i, diFingerprint = fingerprint, diName = strPtr name, diPlatform = strPtr platform,
       diAppVersion = strPtr version, diLastIP = strPtr ip \<rparr>)"

definition RegisterDevice ::
    "(string \<Rightarrow> string option) \<Rightarrow> panel_world \<Rightarrow> string \<Rightarrow> string \<Rightarrow> string \<Rightarrow> string \<Rightarrow> string \<Rightarrow> string \<Rightarrow> db \<Rightarrow> (storage_error + device_row) \<times> db" where
  "RegisterDevice inet w i fingerprint name platform version ip d = (case FindByFingerprint w i fingerprint d of
     Inr known \<Rightarrow> register_known inet w i name platform version ip known d
   | Inl e \<Rightarrow> if e = ErrPackage DeviceNotFound then register_new inet w i fingerprint name platform version ip d else (Inl e, d))"

section \<open>Handlers\<close>

text \<open>
  \<open>services/panel-api/internal/devices/handler.go\<close>: the devices of a subscription for administrators, and the three
  calls of a client that shows the access token of its subscription.
\<close>

definition device_json :: "device_row \<Rightarrow> any" where
  "device_json v = AObj [(''id'', AStr (dvID v)), (''subscription_id'', AStr (dvSubscriptionID v)), (''device_fingerprint'', AStr (dvFingerprint v)),
     (''device_name'', opt_str (dvName v)), (''platform'', opt_str (dvPlatform v)), (''app_version'', opt_str (dvAppVersion v)),
     (''first_seen_at'', AStr (RFC3339Nano (dvFirstSeenAt v))), (''last_seen_at'', AStr (RFC3339Nano (dvLastSeenAt v))),
     (''last_ip'', opt_str (dvLastIP v)), (''is_active'', ABool (dvActive v)), (''created_at'', AStr (RFC3339Nano (dvCreatedAt v))),
     (''updated_at'', AStr (RFC3339Nano (dvUpdatedAt v)))]"

definition device_times :: "device_row \<Rightarrow> instant list" where
  "device_times v = [dvFirstSeenAt v, dvLastSeenAt v, dvCreatedAt v, dvUpdatedAt v]"

definition writeDeviceError :: "storage_error \<Rightarrow> response" where
  "writeDeviceError e = (if e = ErrPackage DeviceNotFound then WriteNotFound ''device'' else WriteStorageError)"

definition device_errReason :: "storage_error \<Rightarrow> string" where
  "device_errReason e = (if e = ErrPackage DeviceNotFound then ''not_found'' else ''storage_error'')"

definition record_device :: "http_request \<Rightarrow> string \<Rightarrow> string \<Rightarrow> string \<Rightarrow> string \<Rightarrow> audit_event" where
  "record_device = record_event ''device''"

text \<open>The address the client is known by: the first of \<open>X-Forwarded-For\<close>, else the peer without its port.\<close>

definition clientIP :: "http_request \<Rightarrow> string" where
  "clientIP r = (if hqForwarded r \<noteq> [] then hd (split_on (CHR '','') (hqForwarded r))
     else let address = hqRemote r; host = rev (drop 1 (dropWhile (\<lambda>c. c \<noteq> CHR '':'') (rev address)))
       in if CHR '':'' \<in> set address \<and> host \<noteq> [] then host else address)"

section \<open>Administrators\<close>

definition devices_List :: "panel_world \<Rightarrow> http_request \<Rightarrow> db \<Rightarrow> reply" where
  "devices_List w r d = (case repo_ListDevices w (path_value ''id'' r) d of
     Inl e \<Rightarrow> (WriteStorageError, d, [])
   | Inr vs \<Rightarrow> (WriteTimed 200 (concat (map device_times vs)) (AArr (map device_json vs)), d, []))"

definition devices_Get :: "panel_world \<Rightarrow> http_request \<Rightarrow> db \<Rightarrow> reply" where
  "devices_Get w r d = (case repo_FindDevice w (path_value ''id'' r) d of
     Inl e \<Rightarrow> (writeDeviceError e, d, [])
   | Inr v \<Rightarrow> (WriteTimed 200 (device_times v) (device_json v), d, []))"

definition device_change ::
    "string \<Rightarrow> string \<Rightarrow> (string \<Rightarrow> db \<Rightarrow> (storage_error + 'a) \<times> db) \<Rightarrow> http_request \<Rightarrow> db \<Rightarrow> reply" where
  "device_change action status change r d = (let i = path_value ''id'' r in case change i d of
     (Inl e, d') \<Rightarrow> (writeDeviceError e, d', [record_device r action i OutcomeFailure (device_errReason e)])
   | (Inr x, d') \<Rightarrow> (WriteJSON 200 (AObj [(''status'', AStr status)]), d', [record_device r action i OutcomeSuccess []]))"

definition devices_Delete :: "panel_world \<Rightarrow> http_request \<Rightarrow> db \<Rightarrow> reply" where
  "devices_Delete w = device_change ''device.delete'' ''deleted'' (repo_DeleteDevice w)"

definition devices_Deactivate :: "panel_world \<Rightarrow> http_request \<Rightarrow> db \<Rightarrow> reply" where
  "devices_Deactivate w = device_change ''device.deactivate'' ''deactivated'' (MarkInactive w)"

section \<open>Clients\<close>

definition client_unauthorized :: response where
  "client_unauthorized = WriteError 401 ''unauthorized'' ''subscription access token is missing or invalid''"

definition authenticateClient :: "panel_world \<Rightarrow> http_request \<Rightarrow> db \<Rightarrow> response + string" where
  "authenticateClient w r d = (case bearerToken (hqAuthorization r) of
     None \<Rightarrow> Inl client_unauthorized
   | Some token \<Rightarrow> (case SubscriptionIDByToken w token d of Inl e \<Rightarrow> Inl client_unauthorized | Inr u \<Rightarrow> Inr u))"

record DeviceRegistration =
  dqFingerprint :: string
  dqName :: string
  dqPlatform :: string
  dqAppVersion :: string

definition decode_register_device :: "obj \<Rightarrow> DeviceRegistration option" where
  "decode_register_device m = (case (dec_str m ''device_fingerprint'', dec_str m ''device_name'', dec_str m ''platform'', dec_str m ''app_version'') of
     (Some f, Some n, Some p, Some v) \<Rightarrow> Some \<lparr> dqFingerprint = f, dqName = n, dqPlatform = p, dqAppVersion = v \<rparr>
   | _ \<Rightarrow> None)"

definition invalid_json :: response where
  "invalid_json = WriteBadRequest ''invalid JSON request body''"

definition ClientRegister :: "(string \<Rightarrow> string option) \<Rightarrow> panel_world \<Rightarrow> http_request \<Rightarrow> db \<Rightarrow> reply" where
  "ClientRegister inet w r d = (case authenticateClient w r d of
     Inl answer \<Rightarrow> (answer, d, [])
   | Inr sub \<Rightarrow> (case Option.bind (body_obj r) decode_register_device of
       None \<Rightarrow> (invalid_json, d, [])
     | Some q \<Rightarrow>
       if TrimSpace (dqFingerprint q) = [] then (WriteBadRequest ''device_fingerprint is required'', d, [])
       else if dqPlatform q \<noteq> [] \<and> \<not> ValidPlatform (dqPlatform q)
         then (WriteBadRequest ''platform must be one of: ios, android, windows, macos, linux'', d, [])
       else (case RegisterDevice inet w sub (dqFingerprint q) (dqName q) (dqPlatform q) (dqAppVersion q) (clientIP r) d of
           (Inl e, d') \<Rightarrow> (if e = ErrPackage DeviceLimitExceeded
               then WriteError 403 ''device_limit_exceeded'' ''device limit reached for this subscription'' else WriteStorageError, d', [])
         | (Inr v, d') \<Rightarrow> (WriteTimed 200 (device_times v) (device_json v), d', []))))"

text \<open>The device a client names, for its heartbeat and its removal.\<close>

definition client_device :: "panel_world \<Rightarrow> http_request \<Rightarrow> db \<Rightarrow> response + device_row" where
  "client_device w r d = bindE (authenticateClient w r d) (\<lambda>sub. case Option.bind (body_obj r) (\<lambda>m. dec_str m ''device_fingerprint'') of
     None \<Rightarrow> Inl invalid_json
   | Some f \<Rightarrow> if TrimSpace f = [] then Inl (WriteBadRequest ''device_fingerprint is required'')
       else case FindByFingerprint w sub f d of Inl e \<Rightarrow> Inl (writeDeviceError e) | Inr v \<Rightarrow> Inr v)"

definition ClientHeartbeat :: "(string \<Rightarrow> string option) \<Rightarrow> panel_world \<Rightarrow> http_request \<Rightarrow> db \<Rightarrow> reply" where
  "ClientHeartbeat inet w r d = (case client_device w r d of
     Inl answer \<Rightarrow> (answer, d, [])
   | Inr v \<Rightarrow> (WriteJSON 200 (AObj [(''status'', AStr ''ok'')]), snd (ignoreE (UpdateLastSeen inet w (dvID v) (clientIP r)) d), []))"

definition ClientDelete :: "panel_world \<Rightarrow> http_request \<Rightarrow> db \<Rightarrow> reply" where
  "ClientDelete w r d = (case client_device w r d of
     Inl answer \<Rightarrow> (answer, d, [])
   | Inr v \<Rightarrow> (case repo_DeleteDevice w (dvID v) d of
       (Inl e, d') \<Rightarrow> (writeDeviceError e, d', [])
     | (Inr u, d') \<Rightarrow> (WriteJSON 200 (AObj [(''status'', AStr ''deleted'')]), d', [])))"

section \<open>Requests\<close>

datatype device_request =
    DeleteDeviceRequest | DeactivateDeviceRequest | RegisterDeviceRequest | HeartbeatDeviceRequest | DeleteOwnDeviceRequest

definition serve_devices :: "(string \<Rightarrow> string option) \<Rightarrow> panel_world \<Rightarrow> device_request \<Rightarrow> http_request \<Rightarrow> db \<Rightarrow> reply" where
  "serve_devices inet w q r = (case q of
     DeleteDeviceRequest \<Rightarrow> devices_Delete w r | DeactivateDeviceRequest \<Rightarrow> devices_Deactivate w r
   | RegisterDeviceRequest \<Rightarrow> ClientRegister inet w r | HeartbeatDeviceRequest \<Rightarrow> ClientHeartbeat inet w r
   | DeleteOwnDeviceRequest \<Rightarrow> ClientDelete w r)"

end
