(* ===== verification/DevicesProps.thy ===== *)
theory DevicesProps
  imports Devices SubsWitness
begin

text \<open>
  Devices: the limit of a subscription holds over every sequence of requests, it does not hold when two registrations
  interleave, and a device that was deactivated cannot be used again.
\<close>

section \<open>The number of active devices\<close>

lemma active_upd_le:
  assumes "\<And>v. v \<in> set (dbDevices d) \<Longrightarrow> dvSubscriptionID (f v) = dvSubscriptionID v \<and> (dvActive (f v) \<longrightarrow> dvActive v)"
  shows "active_devices u (d\<lparr> dbDevices := upd_where P f (dbDevices d) \<rparr>) \<le> active_devices u d"
proof -
  have "length (filter (\<lambda>v. dvSubscriptionID v = u \<and> dvActive v) (upd_where P f vs))
      \<le> length (filter (\<lambda>v. dvSubscriptionID v = u \<and> dvActive v) vs)"
    if "\<forall>v \<in> set vs. dvSubscriptionID (f v) = dvSubscriptionID v \<and> (dvActive (f v) \<longrightarrow> dvActive v)" for vs
    using that by (induction vs) auto
  then show ?thesis using assms by (simp add: active_devices_def)
qed

lemma active_del_le: "active_devices u (d\<lparr> dbDevices := del_where P (dbDevices d), dbTraffic := t \<rparr>) \<le> active_devices u d"
proof -
  have "length (filter Q (filter R vs)) \<le> length (filter Q vs)" for Q R :: "device_row \<Rightarrow> bool" and vs
    by (induction vs) auto
  then show ?thesis by (simp add: active_devices_def del_where_def)
qed

text \<open>What an operation that adds no active device leaves.\<close>

definition no_more :: "db \<Rightarrow> db \<Rightarrow> bool" where
  "no_more d d' \<longleftrightarrow> dbSubscriptions d' = dbSubscriptions d \<and> (\<forall>u. active_devices u d' \<le> active_devices u d)"

lemma no_more_refl [simp]: "no_more d d"
  by (simp add: no_more_def)

lemma no_more_trans: "no_more a b \<Longrightarrow> no_more b c \<Longrightarrow> no_more a c"
  unfolding no_more_def by (metis le_trans)

lemma update_device_no_more:
  assumes "update_device u f d = Inr (v, d')"
    and "\<And>v. dvSubscriptionID (f v) = dvSubscriptionID v \<and> (dvActive (f v) \<longrightarrow> dvActive v)"
  shows "no_more d d'"
proof -
  have "d' = d\<lparr> dbDevices := upd_where (\<lambda>r. dvID r = u) f (dbDevices d) \<rparr>" using assms(1) by (auto simp: update_device_def stmt_simps)
  then show ?thesis using active_upd_le[of d f] assms(2) by (simp add: no_more_def)
qed

lemma repo_Update_no_more: "repo_UpdateDevice w i name platform version d = (r, d') \<Longrightarrow> no_more d d'"
  by (cases r) (auto simp: repo_UpdateDevice_def alone_Inr alone_Inl stmt_simps dest!: update_device_no_more)

lemma MarkInactive_no_more: "MarkInactive w i d = (r, d') \<Longrightarrow> no_more d d'"
  by (cases r) (auto simp: MarkInactive_def alone_Inr alone_Inl stmt_simps dest!: update_device_no_more)

lemma LastSeen_no_more: "UpdateLastSeen inet w i ip d = (r, d') \<Longrightarrow> no_more d d'"
  by (cases r) (auto simp: UpdateLastSeen_def alone_Inr alone_Inl stmt_simps dest!: update_device_no_more)

lemma ignoreE_LastSeen: "ignoreE (UpdateLastSeen inet w i ip) d = (r, d') \<Longrightarrow> no_more d d'"
  unfolding ignoreE_def by (metis LastSeen_no_more prod.collapse prod.inject)

lemma Delete_no_more: "repo_DeleteDevice w i d = (r, d') \<Longrightarrow> no_more d d'"
  by (cases r) (auto simp: repo_DeleteDevice_def alone_Inr alone_Inl stmt_simps no_more_def active_del_le)

section \<open>Registration\<close>

lemma enforceLimit_frame: "enforceLimit w i d = (r, d') \<Longrightarrow> d' = d"
  by (cases r) (auto simp: enforceLimit_def seq_simps)

lemma enforceLimit_room:
  assumes "enforceLimit w i d = (Inr x, d')"
  obtains u s where "uuid_cast i = Some u" and "subscription_by_id u d = Some s" and "int (active_devices u d) < suDeviceLimit s" and "d' = d"
  using assms by (auto simp: enforceLimit_def seq_simps FindSubscription_def CountActiveBySubscription_def stmt_simps Subscription.defs)

lemma register_known_no_more:
  assumes "register_known inet w i name platform version ip known d = (r, d')"
  shows "no_more d d'"
proof -
  let ?seen = "if ip = [] then giveE () else ignoreE (UpdateLastSeen inet w (dvID known) ip)"
  let ?limit = "if dvActive known then giveE () else enforceLimit w i"
  obtain d1 where s: "?seen d = (Inr (), d1)" and n1: "no_more d d1"
    using ignoreE_LastSeen[of inet w "dvID known" ip d] by (cases "ip = []") (auto simp: giveE_def ignoreE_def)
  obtain l d2 where l: "?limit d1 = (l, d2)" by fastforce
  have e: "d2 = d1" using l enforceLimit_frame[of w i d1] by (auto simp: giveE_def split: if_splits)
  show ?thesis
  proof (cases l)
    case (Inl e)
    then show ?thesis using assms s l n1 e by (simp add: register_known_def seqE_def)
  next
    case (Inr x)
    then have "repo_UpdateDevice w (dvID known) (strPtr name) (strPtr platform) (strPtr version) d1 = (r, d')"
      using assms s l e by (simp add: register_known_def seqE_def)
    then show ?thesis using n1 no_more_trans repo_Update_no_more by blast
  qed
qed

lemma repo_Create_done:
  assumes "repo_CreateDevice inet w i d = (Inr v, d')"
  shows "uuid_cast (diSubscriptionID i) = Some (dvSubscriptionID v) \<and> dvActive v \<and> d' = d\<lparr> dbDevices := dbDevices d @ [v] \<rparr>"
  using assms by (auto simp: repo_CreateDevice_def alone_Inr stmt_simps Let_def put_device_def new_device_def)

lemma repo_Create_active:
  assumes "repo_CreateDevice inet w i d = (Inr v, d')"
  shows "active_devices u d' = active_devices u d + (if uuid_cast (diSubscriptionID i) = Some u then 1 else 0)"
  using repo_Create_done[OF assms] by (auto simp: active_devices_def)

lemma repo_Create_fails: "repo_CreateDevice inet w i d = (Inl e, d') \<Longrightarrow> d' = d"
  by (simp add: repo_CreateDevice_def alone_Inl)

text \<open>The limit of every subscription.\<close>

definition within_limits :: "db \<Rightarrow> bool" where
  "within_limits d \<longleftrightarrow> distinct (map suID (dbSubscriptions d)) \<and>
     (\<forall>s \<in> set (dbSubscriptions d). int (active_devices (suID s) d) \<le> suDeviceLimit s)"

lemma within_no_more: "within_limits d \<Longrightarrow> no_more d d' \<Longrightarrow> within_limits d'"
  unfolding within_limits_def no_more_def by (metis of_nat_le_iff order_trans)

lemma register_new_within:
  assumes ok: "within_limits d" and r: "register_new inet w i fingerprint name platform version ip d = (r, d')"
  shows "within_limits d'"
proof (cases "enforceLimit w i d")
  case (Pair x d1)
  then have e: "d1 = d" using enforceLimit_frame by blast
  let ?i = "\<lparr> diSubscriptionID = i, diFingerprint = fingerprint, diName = strPtr name, diPlatform = strPtr platform,
       diAppVersion = strPtr version, diLastIP = strPtr ip \<rparr>"
  show ?thesis
  proof (cases x)
    case (Inl err)
    then show ?thesis using r Pair e ok by (simp add: register_new_def seqE_def)
  next
    case (Inr y)
    then have c: "repo_CreateDevice inet w ?i d = (r, d')" using r Pair e by (simp add: register_new_def seqE_def)
    obtain u s where s: "uuid_cast i = Some u" "subscription_by_id u d = Some s" "int (active_devices u d) < suDeviceLimit s"
      using enforceLimit_room Pair Inr by metis
    have row: "s \<in> set (dbSubscriptions d)" "suID s = u"
      using s(2) unfolding subscription_by_id_def by (auto dest: row_with_SomeD)
    show ?thesis
    proof (cases r)
      case (Inl err)
      then show ?thesis using c repo_Create_fails ok by blast
    next
      case (Inr v)
      have subs: "dbSubscriptions d' = dbSubscriptions d" using repo_Create_done c Inr by fastforce
      have "int (active_devices (suID t) d') \<le> suDeviceLimit t" if t: "t \<in> set (dbSubscriptions d)" for t
      proof (cases "suID t = u")
        case True
        then have "t = s" using ok t row unfolding within_limits_def by (metis distinct_key)
        then show ?thesis using repo_Create_active[of inet w ?i d v d' u] c Inr s row by simp
      next
        case False
        then show ?thesis using repo_Create_active[of inet w ?i d v d' "suID t"] c Inr s(1) ok t by (simp add: within_limits_def)
      qed
      then show ?thesis using ok subs by (simp add: within_limits_def)
    qed
  qed
qed

lemma Register_within:
  assumes ok: "within_limits d" and r: "RegisterDevice inet w i fingerprint name platform version ip d = (r, d')"
  shows "within_limits d'"
proof (cases "FindByFingerprint w i fingerprint d")
  case (Inr known)
  then have "register_known inet w i name platform version ip known d = (r, d')" using r by (simp add: RegisterDevice_def)
  then show ?thesis using ok register_known_no_more within_no_more by blast
next
  case (Inl e)
  then show ?thesis using r ok register_new_within[OF ok, of inet w i fingerprint name platform version ip r d']
    by (cases "e = ErrPackage DeviceNotFound") (simp_all add: RegisterDevice_def)
qed

lemma device_change_state: "fst (snd (device_change action status change r d)) = snd (change (path_value ''id'' r) d)"
  by (auto simp: device_change_def Let_def split: prod.splits sum.splits)

lemma ClientDelete_state:
  "fst (snd (ClientDelete w r d)) = d \<or> (\<exists>i. fst (snd (ClientDelete w r d)) = snd (repo_DeleteDevice w i d))"
  by (auto simp: ClientDelete_def split: prod.splits sum.splits) (metis sndI)+

lemma ClientRegister_state:
  "fst (snd (ClientRegister inet w r d)) = d \<or>
   (\<exists>sub f n p v ip. fst (snd (ClientRegister inet w r d)) = snd (RegisterDevice inet w sub f n p v ip d))"
  by (auto simp: ClientRegister_def split: prod.splits sum.splits option.splits if_splits) (metis sndI)+

lemma ClientHeartbeat_state:
  "fst (snd (ClientHeartbeat inet w r d)) = d \<or>
   (\<exists>i ip. fst (snd (ClientHeartbeat inet w r d)) = snd (ignoreE (UpdateLastSeen inet w i ip) d))"
  by (auto simp: ClientHeartbeat_def split: sum.splits)

lemma serve_devices_within:
  assumes ok: "within_limits d"
  shows "within_limits (fst (snd (serve_devices inet w q r d)))"
proof -
  have del: "within_limits (snd (repo_DeleteDevice w i d))" for i
    using ok Delete_no_more within_no_more by (metis prod.collapse)
  have off: "within_limits (snd (MarkInactive w i d))" for i
    using ok MarkInactive_no_more within_no_more by (metis prod.collapse)
  have reg: "within_limits (snd (RegisterDevice inet w sub f n p v ip d))" for sub f n p v ip
    using Register_within[OF ok] by (metis prod.collapse)
  have seen: "within_limits (snd (ignoreE (UpdateLastSeen inet w i ip) d))" for i ip
    using ok ignoreE_LastSeen within_no_more by (metis prod.collapse)
  show ?thesis
  proof (cases q)
    case DeleteDeviceRequest
    then show ?thesis using del by (simp add: serve_devices_def devices_Delete_def device_change_state)
  next
    case DeactivateDeviceRequest
    then show ?thesis using off by (simp add: serve_devices_def devices_Deactivate_def device_change_state)
  next
    case RegisterDeviceRequest
    then show ?thesis using ok reg ClientRegister_state[of inet w r d] by (auto simp: serve_devices_def)
  next
    case HeartbeatDeviceRequest
    then show ?thesis using ok seen ClientHeartbeat_state[of inet w r d] by (auto simp: serve_devices_def)
  next
    case DeleteOwnDeviceRequest
    then show ?thesis using ok del ClientDelete_state[of w r d] by (auto simp: serve_devices_def)
  qed
qed

fun device_run :: "(string \<Rightarrow> string option) \<Rightarrow> (panel_world \<times> device_request \<times> http_request) list \<Rightarrow> db \<Rightarrow> db" where
  "device_run inet [] d = d"
| "device_run inet ((w, q, r) # rs) d = device_run inet rs (fst (snd (serve_devices inet w q r d)))"

section \<open>Inactive devices\<close>

definition inactive :: "uuid \<Rightarrow> db \<Rightarrow> bool" where
  "inactive u d \<longleftrightarrow> (\<forall>v \<in> set (dbDevices d). dvID v = u \<longrightarrow> \<not> dvActive v)"

lemma update_device_inactive:
  assumes "inactive u d" and "update_device t f d = Inr (v, d')" and "\<And>v. dvID (f v) = dvID v \<and> dvActive (f v) = dvActive v"
  shows "inactive u d' \<and> dvID v = t \<and> (t = u \<longrightarrow> \<not> dvActive v)"
proof -
  obtain old where o: "device_by_id t d = Some old" "v = f old" "d' = d\<lparr> dbDevices := upd_where (\<lambda>r. dvID r = t) f (dbDevices d) \<rparr>"
    using assms(2) by (auto simp: update_device_def stmt_simps)
  then show ?thesis using assms(1,3) row_with_SomeD[of dvID t "dbDevices d" old]
    by (auto simp: inactive_def device_by_id_def set_upd_where split: if_splits)
qed

lemma LastSeen_update:
  assumes "UpdateLastSeen inet w i ip d = (Inr v, d')"
  shows "\<exists>t f. update_device t f d = Inr (v, d') \<and> (\<forall>x. dvID (f x) = dvID x \<and> dvActive (f x) = dvActive x)"
proof -
  obtain t a where "update_device t (\<lambda>v. v\<lparr> dvLastSeenAt := pg_time (pwNow w), dvLastIP := a, dvUpdatedAt := pg_time (pwNow w) \<rparr>) d = Inr (v, d')"
    using assms by (auto simp: UpdateLastSeen_def alone_Inr stmt_simps)
  then show ?thesis
    by (intro exI[of _ t] exI[of _ "\<lambda>v. v\<lparr> dvLastSeenAt := pg_time (pwNow w), dvLastIP := a, dvUpdatedAt := pg_time (pwNow w) \<rparr>"]) simp
qed

lemma LastSeen_inactive:
  assumes "inactive u d"
  shows "inactive u (snd (UpdateLastSeen inet w i ip d))"
proof (cases "UpdateLastSeen inet w i ip d")
  case (Pair r d')
  show ?thesis
  proof (cases r)
    case (Inl e)
    then have "d' = d" using Pair unfolding UpdateLastSeen_def by (simp add: alone_Inl)
    then show ?thesis using Pair assms by simp
  next
    case (Inr v)
    then obtain t f where "update_device t f d = Inr (v, d')" "\<And>x. dvID (f x) = dvID x \<and> dvActive (f x) = dvActive x"
      using LastSeen_update Pair by blast
    then show ?thesis using update_device_inactive[OF assms] Pair by simp
  qed
qed

lemma repo_Update_inactive:
  assumes i: "inactive u d" and u: "uuid_cast u = Some u" and r: "repo_UpdateDevice w u name platform version d = (Inr v, d')"
  shows "dvID v = u \<and> \<not> dvActive v \<and> inactive u d'"
proof -
  obtain a b c where "update_device u (\<lambda>v. v\<lparr> dvName := a, dvPlatform := b, dvAppVersion := c, dvUpdatedAt := pwPgNow w \<rparr>) d = Inr (v, d')"
    using r u by (auto simp: repo_UpdateDevice_def alone_Inr stmt_simps)
  from update_device_inactive[OF i this] show ?thesis by simp
qed

section \<open>Properties\<close>

text \<open>
  C6 Requests that are served one after the other never bring a subscription above its device limit, whatever they are,
  whichever statements of them fail, and wherever they stop.
\<close>

theorem devices_within_limit:
  assumes "within_limits d"
  shows "within_limits (device_run inet requests d)"
  using assms
proof (induction requests arbitrary: d)
  case (Cons a rs)
  obtain w q r where a: "a = (w, q, r)" by (metis prod_cases3)
  then show ?case using Cons.IH serve_devices_within[OF Cons.prems] by simp
qed simp

text \<open>
  A device that an administrator deactivated and that registers again is answered with success when the subscription
  has room, but it stays inactive.
\<close>

theorem reactivation_is_ignored:
  assumes "FindByFingerprint w i fingerprint d = Inr known" and "\<not> dvActive known"
    and "RegisterDevice inet w i fingerprint name platform version ip d = (Inr v, d')"
    and "distinct (map dvID (dbDevices d))" and "uuid_cast (dvID known) = Some (dvID known)"
  shows "dvID v = dvID known \<and> \<not> dvActive v \<and> inactive (dvID known) d'"
proof -
  have "known \<in> set (dbDevices d)" using assms(1) by (auto simp: FindByFingerprint_def stmt_simps dest!: hd_in_set)
  then have i0: "inactive (dvID known) d" using assms(2,4) unfolding inactive_def by (metis distinct_key)
  have k: "register_known inet w i name platform version ip known d = (Inr v, d')"
    using assms(1,3) by (simp add: RegisterDevice_def)
  define d1 where "d1 = snd ((if ip = [] then giveE () else ignoreE (UpdateLastSeen inet w (dvID known) ip)) d)"
  have i1: "inactive (dvID known) d1" using i0 LastSeen_inactive[OF i0] by (simp add: d1_def giveE_def ignoreE_def)
  have "repo_UpdateDevice w (dvID known) (strPtr name) (strPtr platform) (strPtr version) d1 = (Inr v, d')"
    using k assms(2) enforceLimit_frame[of w i d1]
    by (auto simp: register_known_def seq_simps d1_def giveE_def ignoreE_def split: if_splits)
  then show ?thesis using repo_Update_inactive[OF i1 assms(5)] by blast
qed


text \<open>
  The checks and the insertion of a registration are statements of their own: two registrations of new devices whose
  checks both run before either insertion bring a subscription with one place left above its limit.
\<close>

lemma concurrent_registrations_exceed_limit:
  assumes "enforceLimit w i d = (Inr (), d)" and "enforceLimit w' i d = (Inr (), d)"
    and "uuid_cast i = Some u" and "subscription_by_id u d = Some s" and "int (active_devices u d) + 1 = suDeviceLimit s"
    and "repo_CreateDevice inet w a d = (Inr x, d1)" and "diSubscriptionID a = i"
    and "repo_CreateDevice inet w' b d1 = (Inr y, d2)" and "diSubscriptionID b = i"
  shows "suDeviceLimit s < int (active_devices u d2)"
  using repo_Create_active[OF assms(6), of u] repo_Create_active[OF assms(8), of u] assms(3,5,7,9) by simp

section \<open>Witnesses\<close>

text \<open>An active and an inactive device of the subscription of the small installation.\<close>

definition phone :: "bool \<Rightarrow> device_row" where
  "phone active = (new_device calm sub_id ''phone'' (Some ''Phone'') (Some ''ios'') None None)\<lparr> dvActive := active \<rparr>"

definition phone_shop :: "bool \<Rightarrow> db" where
  "phone_shop active = shop_db\<lparr> dbDevices := [phone active] \<rparr>"

lemma phone_fields [simp]: "dvID (phone a) = node_a" "dvSubscriptionID (phone a) = sub_id" "dvFingerprint (phone a) = ''phone''"
  "dvActive (phone a) = a"
  by (simp_all add: phone_def new_device_def calm_def)

lemma phone_tables [simp]: "dbDevices (phone_shop a) = [phone a]" "dbSubscriptions (phone_shop a) = [sub_a]"
  by (simp_all add: phone_shop_def)

lemma phone_active: "active_devices sub_id (phone_shop a) = (if a then 1 else 0)"
  by (simp add: active_devices_def)

definition device_call :: http_request where
  "device_call = \<lparr> hqPath = [(''id'', node_a)], hqQuery = [], hqAuthorization = [], hqAdmin = [], hqForwarded = [],
     hqRemote = ''10.0.0.1:5000'', hqUserAgent = [], hqBody = None \<rparr>"

lemma devices_within_limit_witness:
  "within_limits (device_run Some [(calm, DeactivateDeviceRequest, device_call), (calm, RegisterDeviceRequest, device_call)] (phone_shop True))"
proof -
  have "within_limits (phone_shop True)" by (simp add: within_limits_def phone_active) (simp add: sub_a_def)
  then show ?thesis by (rule devices_within_limit)
qed


lemma sub_param: "uuid_param sub_id = Inr sub_id" "uuid_param node_a = Inr node_a"
  by (simp_all add: stmt_simps)

lemma phone_text: "pg_text ''phone'' = Inr ''phone''" "varchar 255 ''Phone'' = Inr ''Phone''" "varchar 50 ''ios'' = Inr ''ios''"
  by code_simp+

lemma phone_found: "FindByFingerprint calm sub_id ''phone'' (phone_shop a) = Inr (phone a)"
  by (simp add: FindByFingerprint_def sub_param phone_text one_row_def first_row_def)

lemma phone_room: "enforceLimit calm sub_id (phone_shop False) = (Inr (), phone_shop False)"
proof -
  have "FindSubscription calm sub_id (phone_shop False) = Inr (Subscription.truncate sub_a)"
    by (simp add: FindSubscription_def sub_param subscription_by_id_def one_row_def)
  moreover have "suDeviceLimit (Subscription.truncate sub_a) = 3" by (simp add: Subscription.defs sub_a_def)
  moreover have "CountActiveBySubscription calm sub_id (phone_shop False) = Inr 0"
    by (simp add: CountActiveBySubscription_def sub_param phone_active)
  ultimately show ?thesis by (simp add: enforceLimit_def seqE_def readE_def guardE_def)
qed

lemma phone_known: "\<exists>v d'. RegisterDevice Some calm sub_id ''phone'' ''Phone'' ''ios'' [] [] (phone_shop False) = (Inr v, d')"
proof -
  have "device_row_ok (v\<lparr> dvName := n, dvPlatform := Some ''ios'', dvAppVersion := None, dvUpdatedAt := t \<rparr>)" for v n t
    by (simp add: device_row_ok_def)
  then show ?thesis
    by (simp add: RegisterDevice_def phone_found register_known_def seqE_def giveE_def phone_room repo_UpdateDevice_def alone_def
      sub_param strPtr_def nullable_def phone_text update_device_def device_by_id_def one_row_def constraints_def)
qed

lemma reactivation_is_ignored_witness: "\<exists>v d'. RegisterDevice Some calm sub_id ''phone'' ''Phone'' ''ios'' [] [] (phone_shop False) = (Inr v, d') \<and> \<not> dvActive v"
proof -
  obtain v d' where r: "RegisterDevice Some calm sub_id ''phone'' ''Phone'' ''ios'' [] [] (phone_shop False) = (Inr v, d')"
    using phone_known by blast
  show ?thesis using reactivation_is_ignored[OF phone_found _ r] r by auto
qed

end
