(* ===== verification/TemplatesProps.thy ===== *)
theory TemplatesProps
  imports Templates DevicesProps
begin

text \<open>
  System templates: no request changes one, so that a system template the migrations stored without a plan stays without
  one, and nothing can be bought from it.
\<close>

definition system_templates :: "db \<Rightarrow> template_row list" where
  "system_templates d = filter ptSystem (dbTemplates d)"

lemma system_upd: "\<not> ptSystem t \<Longrightarrow> filter ptSystem (upd_where (\<lambda>r. ptID r = u \<and> \<not> ptSystem r) (\<lambda>_. t) rows) = filter ptSystem rows"
  by (induction rows) (auto simp: upd_where_def)

lemma system_del: "filter ptSystem (del_where (\<lambda>r. ptID r = u \<and> \<not> ptSystem r) rows) = filter ptSystem rows"
  by (induction rows) (auto simp: del_where_def)

lemma keeps_system_Create: "keeps (\<lambda>d. system_templates d = S) (CreateTemplate w i)"
  unfolding CreateTemplate_def repo_CreateTemplate_def
  by (intro keeps_rules) (auto simp: stmt_simps Let_def system_templates_def)

lemma keeps_system_Update: "keeps (\<lambda>d. system_templates d = S) (UpdateTemplate w i q)"
  unfolding UpdateTemplate_def repo_UpdateTemplate_def Let_def
  by (intro keeps_rules) (auto simp: stmt_simps Let_def system_templates_def system_upd dest: row_with_SomeD)

lemma keeps_system_Delete: "keeps (\<lambda>d. system_templates d = S) (DeleteTemplate w i)"
  unfolding DeleteTemplate_def repo_DeleteTemplate_def
  by (intro keeps_rules) (auto simp: stmt_simps Let_def system_templates_def system_del split: if_splits)

lemma keeps_system_Subscription: "keeps (\<lambda>d. system_templates d = S) (CreateSubscription w i)"
  unfolding CreateSubscription_def
  by (intro keeps_rules) (auto simp: stmt_simps Let_def system_templates_def put_subscriptions_def)

lemma keeps_system_From: "keeps (\<lambda>d. system_templates d = S) (CreateFromTemplate w i user region)"
  unfolding CreateFromTemplate_def
  by (intro keeps_rules) (auto split: option.splits intro: keeps_system_Subscription keeps_fail)

lemma template_change_state: "fst (snd (template_change status action named r result)) = snd result"
  by (auto simp: template_change_def split: prod.splits sum.splits)

lemma templates_Delete_state: "fst (snd (templates_Delete w r d)) = snd (DeleteTemplate w (path_value ''id'' r) d)"
  by (auto simp: templates_Delete_def Let_def split: prod.splits sum.splits)

lemma templates_CreateSubscription_state:
  "fst (snd (templates_CreateSubscription w r d)) = d \<or>
   (\<exists>i u g. fst (snd (templates_CreateSubscription w r d)) = snd (CreateFromTemplate w i u g d))"
  by (auto simp: templates_CreateSubscription_def bad_json_def split: prod.splits sum.splits option.splits if_splits) (metis sndI)+

lemma serve_templates_system: "system_templates (fst (snd (serve_templates w q r d))) = system_templates d"
proof (cases q)
  case CreateTemplateRequest
  then show ?thesis using keeps_system_Create[of "system_templates d" w]
    by (auto simp: serve_templates_def templates_Create_def template_change_state bad_json_def keeps_def split: option.split)
next
  case UpdateTemplateRequest
  then show ?thesis using keeps_system_Update[of "system_templates d" w]
    by (auto simp: serve_templates_def templates_Update_def Let_def template_change_state bad_json_def keeps_def split: option.split)
next
  case DeleteTemplateRequest
  then show ?thesis using keeps_system_Delete[of "system_templates d" w]
    by (auto simp: serve_templates_def templates_Delete_state keeps_def)
next
  case FromTemplateRequest
  then show ?thesis using keeps_system_From[of "system_templates d" w] templates_CreateSubscription_state[of w r d]
    by (auto simp: serve_templates_def keeps_def)
qed

lemma template_run_system: "system_templates (template_run steps d) = system_templates d"
proof (induction steps arbitrary: d)
  case (Cons a steps)
  obtain w q r where "a = (w, q, r)" by (metis prod_cases3)
  then show ?case using Cons.IH serve_templates_system by simp
qed simp

text \<open>
  C39 The system templates are stored without a plan, and no sequence of requests gives one a plan: buying from a system
  template, by its own route or through the route of subscriptions, is refused for ever, and nothing is written.
\<close>

theorem system_templates_sell_nothing:
  assumes "\<forall>t \<in> set (system_templates d). ptPlanID t = None" and "d' = template_run steps d"
    and "repo_FindTemplate w i d' = Inr t" and "ptSystem t"
  shows "CreateFromTemplate w i user region d' = (Inl (ErrPackage TemplateInvalidInput), d')
    \<and> ResolvePlanID w d' i = Inl (ErrPackage TemplateInvalidInput)"
proof -
  obtain u where "row_with ptID u (dbTemplates d') = Some t"
    using assms(3) by (auto simp: repo_FindTemplate_def stmt_simps)
  then have "t \<in> set (system_templates d')"
    using assms(4) row_with_SomeD[of ptID u "dbTemplates d'" t] by (simp add: system_templates_def)
  then have "ptPlanID t = None" using assms(1,2) by (simp add: template_run_system)
  then show ?thesis using assms(3) by (simp add: CreateFromTemplate_def ResolvePlanID_def seqE_def readE_def)
qed

section \<open>Witness\<close>

text \<open>The first template of the migration, and an administrator who tries to give it a plan.\<close>

definition trial :: template_row where
  "trial = \<lparr> ptID = node_a, ptName = ''trial-7-days'', ptDescription = Some ''7 days, 10GB, 1 device'', ptPlanID = None,
     ptConfig = AObj [(''duration_days'', AInt 7), (''traffic_limit_bytes'', AInt 10737418240), (''device_limit'', AInt 1)],
     ptSystem = True, ptCreatedAt = 0 \<rparr>"

definition trial_shop :: db where
  "trial_shop = shop_db\<lparr> dbTemplates := [trial] \<rparr>"

definition give_plan :: http_request where
  "give_plan = device_call\<lparr> hqBody := Some (AObj [(''plan_id'', AStr sub_id)]) \<rparr>"

lemma trial_system: "ptSystem trial"
  by (simp add: trial_def)

lemma trial_found: "repo_FindTemplate calm node_a trial_shop = Inr trial"
  by (simp add: repo_FindTemplate_def sub_param trial_shop_def trial_def one_row_def)

lemma trial_kept: "template_run [(calm, UpdateTemplateRequest, give_plan)] trial_shop = trial_shop"
proof -
  have "snd (UpdateTemplate calm node_a q trial_shop) = trial_shop" for q
    by (auto simp: UpdateTemplate_def seqE_def guardE_def readE_def trial_found trial_system Let_def)
  moreover have "path_value ''id'' give_plan = node_a" by (simp add: give_plan_def device_call_def path_value_def)
  ultimately show ?thesis
    by (simp add: serve_templates_def templates_Update_def Let_def template_change_state bad_json_def split: option.split)
qed

lemma system_templates_sell_nothing_witness:
  "CreateFromTemplate calm node_a (urID user_a) None (template_run [(calm, UpdateTemplateRequest, give_plan)] trial_shop)
     = (Inl (ErrPackage TemplateInvalidInput), trial_shop)"
proof -
  have "\<forall>t \<in> set (system_templates trial_shop). ptPlanID t = None" by (simp add: system_templates_def trial_shop_def trial_def)
  moreover have "repo_FindTemplate calm node_a (template_run [(calm, UpdateTemplateRequest, give_plan)] trial_shop) = Inr trial"
    by (simp only: trial_kept trial_found)
  moreover have "ptSystem trial" by (rule trial_system)
  ultimately show ?thesis
    using system_templates_sell_nothing [OF _ refl, of trial_shop calm node_a "[(calm, UpdateTemplateRequest, give_plan)]" trial "urID user_a" None]
    by (simp only: trial_kept)
qed

end
