(* ===== verification/Warp.thy ===== *)
theory Warp
  imports Customers Crypto
begin

text \<open>
  \<open>services/panel-api/internal/warp\<close>: the WARP credentials of a node and the key pairs the panel makes.  \<open>x25519\<close> is
  \<open>curve25519.X25519\<close> with the base point, or nothing when it fails; the rest of the key generation is written out.
\<close>

unbundle bit_operations_syntax

section \<open>Keys\<close>

definition b64_digit :: "nat \<Rightarrow> char" where
  "b64_digit n = ''ABCDEFGHIJKLMNOPQRSTUVWXYZabcdefghijklmnopqrstuvwxyz0123456789+/'' ! n"

text \<open>\<open>base64.StdEncoding\<close>: four digits for three bytes, the last group padded.\<close>

fun base64 :: "string \<Rightarrow> string" where
  "base64 [] = []"
| "base64 [a] = [b64_digit (byte a div 4), b64_digit (byte a mod 4 * 16), CHR ''='', CHR ''='']"
| "base64 [a, b] = [b64_digit (byte a div 4), b64_digit (byte a mod 4 * 16 + byte b div 16), b64_digit (byte b mod 16 * 4), CHR ''='']"
| "base64 (a # b # c # s) = [b64_digit (byte a div 4), b64_digit (byte a mod 4 * 16 + byte b div 16),
     b64_digit (byte b mod 16 * 4 + byte c div 64), b64_digit (byte c mod 64)] @ base64 s"

definition on_byte :: "(8 word \<Rightarrow> 8 word) \<Rightarrow> char \<Rightarrow> char" where
  "on_byte f c = chr (unat (f (word_of_nat (byte c))))"

definition clamp_key :: "string \<Rightarrow> string" where
  "clamp_key k = (let a = k[0 := on_byte (\<lambda>b. b AND 248) (k ! 0)]
     in a[31 := on_byte (\<lambda>b. (b AND 127) OR 64) (a ! 31)])"

definition generateWireGuardKeypair :: "(string \<Rightarrow> string option) \<Rightarrow> panel_world \<Rightarrow> storage_error + (string \<times> string)" where
  "generateWireGuardKeypair x25519 w = (case pwRand w of
     None \<Rightarrow> Inl ErrRandom
   | Some bytes \<Rightarrow> let private = clamp_key bytes in (case x25519 private of
       None \<Rightarrow> Inl ErrRandom | Some public \<Rightarrow> Inr (base64 private, base64 public)))"

section \<open>Repository and service\<close>

definition warp_repo_Get :: "panel_world \<Rightarrow> string \<Rightarrow> db \<Rightarrow> storage_error + warp_row" where
  "warp_repo_Get w i d = bindE (stmt w ''select warp credentials'') (\<lambda>_. bindE (uuid_param i) (\<lambda>u.
     one_row (ErrPackage WarpNotFound) (row_with wcNodeID u (dbWarp d))))"

record WarpSetInput =
  wiNodeID :: string
  wiPrivateKey :: string
  wiPublicKey :: string
  wiAddress :: string
  wiEndpoint :: string

definition WarpSetInput_Validate :: "WarpSetInput \<Rightarrow> bool" where
  "WarpSetInput_Validate i = (TrimSpace (wiPrivateKey i) \<noteq> [] \<and> TrimSpace (wiPublicKey i) \<noteq> [] \<and> TrimSpace (wiAddress i) \<noteq> [])"

definition put_warp :: "panel_world \<Rightarrow> uuid \<Rightarrow> WarpSetInput \<Rightarrow> warp_row list \<Rightarrow> warp_row \<times> warp_row list" where
  "put_warp w u i rows = (case row_with wcNodeID u rows of
     None \<Rightarrow> let c = \<lparr> wcNodeID = u, wcPrivateKey = wiPrivateKey i, wcPublicKey = wiPublicKey i, wcAddress = wiAddress i,
       wcEndpoint = wiEndpoint i, wcEnabled = True, wcCreatedAt = pwPgNow w \<rparr> in (c, rows @ [c])
   | Some old \<Rightarrow> let c = old\<lparr> wcPrivateKey := wiPrivateKey i, wcPublicKey := wiPublicKey i, wcAddress := wiAddress i,
       wcEndpoint := wiEndpoint i, wcEnabled := True \<rparr> in (c, upd_where (\<lambda>r. wcNodeID r = u) (\<lambda>_. c) rows))"

definition warp_repo_Upsert :: "panel_world \<Rightarrow> WarpSetInput \<Rightarrow> db \<Rightarrow> (storage_error + warp_row) \<times> db" where
  "warp_repo_Upsert w i = (let j = (if wiEndpoint i = [] then i\<lparr> wiEndpoint := ''engage.cloudflareclient.com:2408'' \<rparr> else i) in
     alone (\<lambda>d. bindE (stmt w ''upsert warp credentials'') (\<lambda>_. bindE (uuid_param (wiNodeID j)) (\<lambda>u.
       bindE (pg_text (wiPrivateKey j)) (\<lambda>_. bindE (pg_text (wiPublicKey j)) (\<lambda>_. bindE (pg_text (wiAddress j)) (\<lambda>_.
       bindE (pg_text (wiEndpoint j)) (\<lambda>_. bindE (constraints True True True (u \<in> ndID ` set (dbNodes d))) (\<lambda>_.
       case put_warp w u j (dbWarp d) of (c, rows) \<Rightarrow> Inr (c, d\<lparr> dbWarp := rows \<rparr>))))))))))"

definition warp_repo_Delete :: "panel_world \<Rightarrow> string \<Rightarrow> db \<Rightarrow> (storage_error + unit) \<times> db" where
  "warp_repo_Delete w i = alone (\<lambda>d. bindE (stmt w ''delete warp credentials'') (\<lambda>_. bindE (uuid_param i) (\<lambda>u.
     bindE (one_row (ErrPackage WarpNotFound) (row_with wcNodeID u (dbWarp d))) (\<lambda>_.
       Inr ((), d\<lparr> dbWarp := del_where (\<lambda>r. wcNodeID r = u) (dbWarp d) \<rparr>)))))"

definition SetForNode :: "panel_world \<Rightarrow> WarpSetInput \<Rightarrow> db \<Rightarrow> (storage_error + warp_row) \<times> db" where
  "SetForNode w i = seqE (guardE (WarpSetInput_Validate i) WarpInvalidInput) (\<lambda>_. warp_repo_Upsert w i)"

section \<open>Handlers\<close>

text \<open>The private key has no member in the answer.\<close>

definition warp_json :: "warp_row \<Rightarrow> any" where
  "warp_json c = AObj [(''node_id'', AStr (wcNodeID c)), (''public_key'', AStr (wcPublicKey c)), (''address'', AStr (wcAddress c)),
     (''endpoint'', AStr (wcEndpoint c)), (''enabled'', ABool (wcEnabled c)), (''created_at'', AStr (RFC3339Nano (wcCreatedAt c)))]"

definition writeWarpError :: "storage_error \<Rightarrow> response" where
  "writeWarpError e = (if e = ErrPackage WarpNotFound then WriteNotFound ''warp credentials''
     else if e = ErrPackage WarpInvalidInput then WriteBadRequest ''private_key, public_key, and address are required''
     else WriteStorageError)"

definition warp_Get :: "panel_world \<Rightarrow> http_request \<Rightarrow> db \<Rightarrow> reply" where
  "warp_Get w r d = (case warp_repo_Get w (path_value ''id'' r) d of
     Inl e \<Rightarrow> (writeWarpError e, d, []) | Inr c \<Rightarrow> (WriteTimed 200 [wcCreatedAt c] (warp_json c), d, []))"

definition decode_warp :: "string \<Rightarrow> obj \<Rightarrow> WarpSetInput option" where
  "decode_warp node m = (case (dec_str m ''private_key'', dec_str m ''public_key'', dec_str m ''address'', dec_str m ''endpoint'') of
     (Some k, Some p, Some a, Some e) \<Rightarrow> Some \<lparr> wiNodeID = node, wiPrivateKey = k, wiPublicKey = p, wiAddress = a, wiEndpoint = e \<rparr>
   | _ \<Rightarrow> None)"

definition warp_Set :: "panel_world \<Rightarrow> http_request \<Rightarrow> db \<Rightarrow> reply" where
  "warp_Set w r d = (let node = path_value ''id'' r in case Option.bind (body_obj r) (decode_warp node) of
     None \<Rightarrow> bad_json d
   | Some i \<Rightarrow> (case SetForNode w i d of
       (Inl e, d') \<Rightarrow> (writeWarpError e, d', [])
     | (Inr c, d') \<Rightarrow> (WriteTimed 200 [wcCreatedAt c] (warp_json c), d', [record_event ''warp'' r ''warp.set'' node OutcomeSuccess []])))"

definition warp_Delete :: "panel_world \<Rightarrow> http_request \<Rightarrow> db \<Rightarrow> reply" where
  "warp_Delete w r d = (let node = path_value ''id'' r in case warp_repo_Delete w node d of
     (Inl e, d') \<Rightarrow> (writeWarpError e, d', [])
   | (Inr u, d') \<Rightarrow> (WriteJSON 200 (AObj [(''deleted'', ABool True)]), d', [record_event ''warp'' r ''warp.delete'' node OutcomeSuccess []]))"

definition warp_Generate :: "(string \<Rightarrow> string option) \<Rightarrow> panel_world \<Rightarrow> http_request \<Rightarrow> db \<Rightarrow> reply" where
  "warp_Generate x25519 w r d = (case generateWireGuardKeypair x25519 w of
     Inl e \<Rightarrow> (WriteStorageError, d, [])
   | Inr (private, public) \<Rightarrow> (WriteJSON 200 (AObj [(''private_key'', AStr private), (''public_key'', AStr public)]), d, []))"

section \<open>Lemmas\<close>

lemma clamp_key_length [simp]: "length (clamp_key k) = length k"
  by (simp add: clamp_key_def Let_def)

lemma on_byte_byte: "byte (on_byte f c) = unat (f (word_of_nat (byte c)))"
proof -
  have "unat (f (word_of_nat (byte c))) < 256" by (rule order.strict_trans2 [OF unsigned_less]) simp
  then show ?thesis by (simp add: on_byte_def byte_def chr_def of_char_of)
qed

lemma and_248: "unat (b AND 248 :: 8 word) mod 8 = 0"
proof -
  have "(b AND 248 :: 8 word) AND mask 3 = 0" by (simp add: and.assoc mask_eq_exp_minus_1)
  then have "take_bit 3 (b AND 248 :: 8 word) = 0" by (simp add: take_bit_eq_mask)
  then have "unat ((b AND 248 :: 8 word) mod 8) = 0" by (simp add: take_bit_eq_mod)
  then show ?thesis by (simp add: unat_mod)
qed

lemma top_bits: "unat ((b AND 127) OR 64 :: 8 word) div 64 = 1"
proof -
  have "drop_bit 6 ((b AND 127) OR 64 :: 8 word) = 1"
    by (simp add: bit_eq_iff bit_simps)
  then have "unat (drop_bit 6 ((b AND 127) OR 64 :: 8 word)) = 1" by simp
  then show ?thesis by (simp add: unsigned_drop_bit_eq drop_bit_eq_div unat_div)
qed

text \<open>A key is clamped as RFC 7748 asks: a multiple of eight between \<open>2 ^ 254\<close> and \<open>2 ^ 255\<close>, read from its low byte.\<close>

lemma clamp_key_ends:
  assumes "length k = 32"
  shows "byte (clamp_key k ! 0) mod 8 = 0 \<and> byte (clamp_key k ! 31) div 64 = 1"
  using assms by (simp add: clamp_key_def Let_def on_byte_byte and_248 top_bits)

end
