(* ===== verification/Auth.thy ===== *)
theory Auth
  imports Customers
begin

text \<open>
  Administrators and their sessions: \<open>storage/admins.go\<close>, \<open>auth/service.go\<close> with the login handler, and the session
  middleware of \<open>auth/middleware.go\<close> that stands before every route of an administrator.  \<open>verify\<close> is bcrypt's
  comparison of a password with a hash; \<open>lower\<close> maps letters beyond ASCII to lower case.
\<close>

section \<open>Repository\<close>

record Session =
  seID :: string
  seActorID :: string
  seToken :: string
  seExpiresAt :: instant
  seCreatedAt :: instant

definition FindAdminByEmail :: "panel_world \<Rightarrow> string \<Rightarrow> db \<Rightarrow> storage_error + admin_row" where
  "FindAdminByEmail w email d = bindE (stmt w ''select admin'') (\<lambda>_. bindE (pg_text email) (\<lambda>_.
     one_row (ErrPackage AdminNotFound) (row_with adEmail email (dbAdmins d))))"

text \<open>The administrator of a live session: the join of the sessions and the administrators.\<close>

definition session_admin :: "string \<Rightarrow> instant \<Rightarrow> db \<Rightarrow> admin_row option" where
  "session_admin hash now d = (case row_with asHash hash (filter (\<lambda>s. now < asExpiresAt s) (dbSessions d)) of None \<Rightarrow> None
   | Some s \<Rightarrow> row_with adID (asAdminID s) (filter (\<lambda>a. adStatus a = ''active'') (dbAdmins d)))"

definition FindByActiveSessionTokenHash :: "panel_world \<Rightarrow> string \<Rightarrow> instant \<Rightarrow> db \<Rightarrow> (storage_error + admin_row) \<times> db" where
  "FindByActiveSessionTokenHash w hash now =
     seqE (readE (\<lambda>d. bindE (stmt w ''select admin session'') (\<lambda>_. bindE (pg_text hash) (\<lambda>_.
       one_row (ErrPackage AdminNotFound) (session_admin hash (pg_time now) d))))) (\<lambda>a.
     seqE (alone (\<lambda>d. bindE (stmt w ''touch admin session'') (\<lambda>_.
       Inr ((), d\<lparr> dbSessions := upd_where (\<lambda>s. asHash s = hash) (\<lambda>s. s\<lparr> asLastSeenAt := pg_time now \<rparr>) (dbSessions d) \<rparr>)))) (\<lambda>_.
     giveE a))"

definition CreateSession :: "panel_world \<Rightarrow> string \<Rightarrow> string \<Rightarrow> instant \<Rightarrow> db \<Rightarrow> (storage_error + Session) \<times> db" where
  "CreateSession w admin hash expires = in_tx w (\<lambda>d. bindE (stmt w ''insert admin session'') (\<lambda>_. bindE (uuid_param admin) (\<lambda>u.
     bindE (pg_text hash) (\<lambda>_.
     let s = \<lparr> asID = pwID w ''admin_sessions'', asAdminID = u, asHash = hash, asExpiresAt = pg_time expires, asCreatedAt = pwPgNow w,
       asLastSeenAt = pwPgNow w \<rparr> in
     bindE (constraints True True (asID s \<notin> asID ` set (dbSessions d) \<and> hash \<notin> asHash ` set (dbSessions d)) (u \<in> adID ` set (dbAdmins d))) (\<lambda>_.
     bindE (stmt w ''update admin login'') (\<lambda>_.
     Inr (\<lparr> seID = asID s, seActorID = u, seToken = [], seExpiresAt = asExpiresAt s, seCreatedAt = asCreatedAt s \<rparr>,
       d\<lparr> dbSessions := dbSessions d @ [s],
          dbAdmins := upd_where (\<lambda>a. adID a = u) (\<lambda>a. a\<lparr> adLastLoginAt := Some (pwPgNow w), adUpdatedAt := pwPgNow w \<rparr>) (dbAdmins d) \<rparr>)))))))"

section \<open>Login\<close>

definition newSessionToken :: "panel_world \<Rightarrow> storage_error + string" where
  "newSessionToken w = bindE (one_row ErrRandom (pwRand w)) (\<lambda>raw. Inr (hex_encode raw))"

definition HashSessionToken :: "string \<Rightarrow> string" where
  "HashSessionToken token = hex_encode (sha256 token)"

definition session_event :: "string \<Rightarrow> string \<Rightarrow> string \<Rightarrow> string \<Rightarrow> audit_event" where
  "session_event action admin outcome reason = \<lparr> avActorType = ''admin'', avActorID = admin, avAction = action,
     avResourceType = ''admin_session'', avResourceID = [], avOutcome = outcome, avReason = reason, avChanges = None \<rparr>"

definition login_failed :: "string \<Rightarrow> string \<Rightarrow> audit_event" where
  "login_failed admin reason = session_event ''admin.login'' admin OutcomeFailure reason"

definition session_hours :: int where "session_hours = 12 * 3600 * second"

definition Login ::
    "(string \<Rightarrow> string) \<Rightarrow> (string \<Rightarrow> string \<Rightarrow> bool) \<Rightarrow> panel_world \<Rightarrow> string \<Rightarrow> string \<Rightarrow> db \<Rightarrow> (storage_error + (admin_row \<times> Session)) \<times> db \<times> audit_event" where
  "Login lower verify w address password d = (let email = clean_email lower address in
     if email = [] \<or> password = [] then (Inl (ErrPackage InvalidCredentials), d, login_failed [] ''invalid_credentials'')
     else case FindAdminByEmail w email d of
       Inl e \<Rightarrow> if e = ErrPackage AdminNotFound then (Inl (ErrPackage InvalidCredentials), d, login_failed [] ''invalid_credentials'')
         else (Inl e, d, login_failed [] ''internal_error'')
     | Inr admin \<Rightarrow>
       if adStatus admin \<noteq> ''active'' then (Inl (ErrPackage InactiveAdmin), d, login_failed (adID admin) ''inactive_admin'')
       else if \<not> verify password (adPasswordHash admin) then (Inl (ErrPackage InvalidCredentials), d, login_failed (adID admin) ''invalid_credentials'')
       else (case newSessionToken w of
           Inl e \<Rightarrow> (Inl e, d, login_failed (adID admin) ''internal_error'')
         | Inr token \<Rightarrow> (case CreateSession w (adID admin) (HashSessionToken token) (pwNow w + session_hours) d of
             (Inl e, d') \<Rightarrow> (Inl e, d', login_failed (adID admin) ''internal_error'')
           | (Inr s, d') \<Rightarrow> (Inr (admin, s\<lparr> seToken := token \<rparr>), d', session_event ''admin.login'' (adID admin) OutcomeSuccess []))))"

text \<open>The hash of the password has no member; a login that never was is the zero time.\<close>

definition last_login :: "admin_row \<Rightarrow> instant" where
  "last_login a = (case adLastLoginAt a of None \<Rightarrow> 0 | Some t \<Rightarrow> t)"

definition admin_json :: "admin_row \<Rightarrow> any" where
  "admin_json a = AObj [(''id'', AStr (adID a)), (''email'', AStr (adEmail a)), (''status'', AStr (adStatus a)),
     (''two_factor_enabled'', ABool (adTwoFactor a)), (''created_at'', AStr (RFC3339Nano (adCreatedAt a))),
     (''updated_at'', AStr (RFC3339Nano (adUpdatedAt a))), (''last_login_at'', AStr (RFC3339Nano (last_login a)))]"

definition session_json :: "string \<Rightarrow> Session \<Rightarrow> any" where
  "session_json actor s = AObj ([(''id'', AStr (seID s)), (actor, AStr (seActorID s))] @
     (if seToken s = [] then [] else [(''token'', AStr (seToken s))]) @
     [(''expires_at'', AStr (RFC3339Nano (seExpiresAt s))), (''created_at'', AStr (RFC3339Nano (seCreatedAt s)))])"

definition decode_credentials :: "obj \<Rightarrow> (string \<times> string) option" where
  "decode_credentials m = (case (dec_str m ''email'', dec_str m ''password'') of (Some e, Some p) \<Rightarrow> Some (e, p) | _ \<Rightarrow> None)"

definition internal_error :: response where
  "internal_error = WriteError 500 ''internal_error'' ''internal error''"

definition login_error :: "storage_error \<Rightarrow> response" where
  "login_error e = (if e = ErrPackage InvalidCredentials then WriteError 401 ''invalid_credentials'' ''invalid admin credentials''
     else if e = ErrPackage InactiveAdmin then WriteError 403 ''inactive_admin'' ''admin account is inactive'' else internal_error)"

definition AdminLogin :: "(string \<Rightarrow> string) \<Rightarrow> (string \<Rightarrow> string \<Rightarrow> bool) \<Rightarrow> panel_world \<Rightarrow> http_request \<Rightarrow> db \<Rightarrow> reply" where
  "AdminLogin lower verify w r d = (case Option.bind (body_obj r) decode_credentials of
     None \<Rightarrow> bad_json d
   | Some (email, password) \<Rightarrow> (case Login lower verify w email password d of
       (Inl e, d', event) \<Rightarrow> (login_error e, d', [event])
     | (Inr (admin, s), d', event) \<Rightarrow> (WriteTimed 200 [adCreatedAt admin, adUpdatedAt admin, last_login admin, seExpiresAt s, seCreatedAt s]
         (AObj [(''admin'', admin_json admin), (''session'', session_json ''admin_id'' s)]), d', [event])))"

section \<open>The session middleware\<close>

definition validation_event :: "string \<Rightarrow> string \<Rightarrow> string \<Rightarrow> audit_event" where
  "validation_event = session_event ''admin.session_validation''"

definition RequireAdmin :: "(http_request \<Rightarrow> db \<Rightarrow> reply) \<Rightarrow> panel_world \<Rightarrow> http_request \<Rightarrow> db \<Rightarrow> reply" where
  "RequireAdmin handler w r d = (case bearerToken (hqAuthorization r) of
     None \<Rightarrow> (WriteUnauthorized, d, [validation_event [] OutcomeFailure ''missing_token''])
   | Some token \<Rightarrow> (case FindByActiveSessionTokenHash w (HashSessionToken token) (pwNow w) d of
       (Inl e, d') \<Rightarrow> if e = ErrPackage AdminNotFound then (WriteUnauthorized, d', [validation_event [] OutcomeFailure ''invalid_session''])
         else (internal_error, d', [validation_event [] OutcomeFailure ''internal_error''])
     | (Inr admin, d') \<Rightarrow> (case handler (r\<lparr> hqAdmin := adID admin \<rparr>) d' of
         (answer, d'', events) \<Rightarrow> (answer, d'', validation_event (adID admin) OutcomeSuccess [] # events))))"

end
