(* ===== verification/Accounts.thy ===== *)
theory Accounts
  imports Auth
begin

text \<open>
  Consumer accounts: \<open>storage/accounts.go\<close>, \<open>accounts/service.go\<close> and its handlers.  Beside \<open>verify\<close>, \<open>digest\<close> is the
  hash bcrypt makes of a password, nothing when it refuses it.
\<close>

section \<open>Repository\<close>

definition CreateAccount :: "panel_world \<Rightarrow> string \<Rightarrow> string \<Rightarrow> db \<Rightarrow> (storage_error + account_row) \<times> db" where
  "CreateAccount w email hash = alone (\<lambda>d. bindE (stmt w ''insert account'') (\<lambda>_. bindE (pg_text email) (\<lambda>_. bindE (pg_text hash) (\<lambda>_.
     let a = \<lparr> coID = pwID w ''consumer_accounts'', coEmail = email, coPasswordHash = hash, coStatus = ''active'',
       coCreatedAt = pwPgNow w, coUpdatedAt = pwPgNow w \<rparr> in
     if coID a \<in> coID ` set (dbAccounts d) \<or> email \<in> coEmail ` set (dbAccounts d) then Inl (ErrPackage EmailTaken)
     else Inr (a, d\<lparr> dbAccounts := dbAccounts d @ [a] \<rparr>)))))"

definition FindAccountByEmail :: "panel_world \<Rightarrow> string \<Rightarrow> db \<Rightarrow> storage_error + account_row" where
  "FindAccountByEmail w email d = bindE (stmt w ''select account'') (\<lambda>_. bindE (pg_text email) (\<lambda>_.
     one_row (ErrPackage AccountNotFound) (row_with coEmail email (dbAccounts d))))"

definition session_account :: "string \<Rightarrow> instant \<Rightarrow> db \<Rightarrow> account_row option" where
  "session_account hash now d = (case row_with ssHash hash (filter (\<lambda>s. now < ssExpiresAt s) (dbAccountSessions d)) of None \<Rightarrow> None
   | Some s \<Rightarrow> row_with coID (ssAccountID s) (filter (\<lambda>a. coStatus a = ''active'') (dbAccounts d)))"

text \<open>The error of the second statement is ignored.\<close>

definition FindAccountBySession :: "panel_world \<Rightarrow> string \<Rightarrow> instant \<Rightarrow> db \<Rightarrow> (storage_error + account_row) \<times> db" where
  "FindAccountBySession w hash now d = (case bindE (stmt w ''select account session'') (\<lambda>_. bindE (pg_text hash) (\<lambda>_.
       one_row (ErrPackage AccountNotFound) (session_account hash (pg_time now) d))) of
     Inl e \<Rightarrow> (Inl e, d)
   | Inr a \<Rightarrow> (Inr a, if pwFault w ''touch account session'' then d
       else d\<lparr> dbAccountSessions := upd_where (\<lambda>s. ssHash s = hash) (\<lambda>s. s\<lparr> ssLastSeenAt := pg_time now \<rparr>) (dbAccountSessions d) \<rparr>))"

definition CreateAccountSession :: "panel_world \<Rightarrow> string \<Rightarrow> string \<Rightarrow> instant \<Rightarrow> db \<Rightarrow> (storage_error + Session) \<times> db" where
  "CreateAccountSession w account hash expires = alone (\<lambda>d. bindE (stmt w ''insert account session'') (\<lambda>_. bindE (uuid_param account) (\<lambda>u.
     bindE (pg_text hash) (\<lambda>_.
     let s = \<lparr> ssID = pwID w ''consumer_sessions'', ssAccountID = u, ssHash = hash, ssExpiresAt = pg_time expires, ssCreatedAt = pwPgNow w,
       ssLastSeenAt = pwPgNow w \<rparr> in
     bindE (constraints True True (ssID s \<notin> ssID ` set (dbAccountSessions d) \<and> hash \<notin> ssHash ` set (dbAccountSessions d))
              (u \<in> coID ` set (dbAccounts d))) (\<lambda>_.
     Inr (\<lparr> seID = ssID s, seActorID = u, seToken = [], seExpiresAt = ssExpiresAt s, seCreatedAt = ssCreatedAt s \<rparr>,
       d\<lparr> dbAccountSessions := dbAccountSessions d @ [s] \<rparr>))))))"

definition DeleteSession :: "panel_world \<Rightarrow> string \<Rightarrow> db \<Rightarrow> (storage_error + unit) \<times> db" where
  "DeleteSession w hash = alone (\<lambda>d. bindE (stmt w ''delete account session'') (\<lambda>_. bindE (pg_text hash) (\<lambda>_.
     Inr ((), d\<lparr> dbAccountSessions := del_where (\<lambda>s. ssHash s = hash) (dbAccountSessions d) \<rparr>))))"

section \<open>Service\<close>

definition account_session_time :: int where "account_session_time = 7 * 24 * 3600 * second"

text \<open>The token of a new session; only its hash is stored.\<close>

definition open_session :: "panel_world \<Rightarrow> account_row \<Rightarrow> db \<Rightarrow> (storage_error + (account_row \<times> Session)) \<times> db" where
  "open_session w a = seqE (readE (\<lambda>_. newSessionToken w)) (\<lambda>token.
     seqE (CreateAccountSession w (coID a) (HashSessionToken token) (pwNow w + account_session_time)) (\<lambda>s.
       giveE (a, s\<lparr> seToken := token \<rparr>)))"

definition account_Register ::
    "(string \<Rightarrow> string) \<Rightarrow> (string \<Rightarrow> string option) \<Rightarrow> panel_world \<Rightarrow> string \<Rightarrow> string \<Rightarrow> db \<Rightarrow> (storage_error + (account_row \<times> Session)) \<times> db" where
  "account_Register lower digest w address password = (let email = clean_email lower address in
     seqE (guardE (email \<noteq> [] \<and> password \<noteq> []) AccountCredentials) (\<lambda>_. seqE (guardE (\<not> length password < 8) AccountCredentials) (\<lambda>_.
     seqE (readE (\<lambda>_. one_row ErrPassword (digest password))) (\<lambda>hash. seqE (CreateAccount w email hash) (\<lambda>a. open_session w a)))))"

definition account_Login ::
    "(string \<Rightarrow> string) \<Rightarrow> (string \<Rightarrow> string \<Rightarrow> bool) \<Rightarrow> panel_world \<Rightarrow> string \<Rightarrow> string \<Rightarrow> db \<Rightarrow> (storage_error + (account_row \<times> Session)) \<times> db" where
  "account_Login lower verify w address password d = (let email = clean_email lower address in
     if email = [] \<or> password = [] then (Inl (ErrPackage AccountCredentials), d)
     else case FindAccountByEmail w email d of
       Inl e \<Rightarrow> (Inl (if e = ErrPackage AccountNotFound then ErrPackage AccountCredentials else e), d)
     | Inr a \<Rightarrow>
       if coStatus a \<noteq> ''active'' then (Inl (ErrPackage InactiveAccount), d)
       else if \<not> verify password (coPasswordHash a) then (Inl (ErrPackage AccountCredentials), d)
       else open_session w a d)"

definition account_Me :: "panel_world \<Rightarrow> string \<Rightarrow> db \<Rightarrow> (storage_error + account_row) \<times> db" where
  "account_Me w hash = FindAccountBySession w hash (pwNow w)"

section \<open>Handlers\<close>

definition account_json :: "account_row \<Rightarrow> any" where
  "account_json a = AObj [(''id'', AStr (coID a)), (''email'', AStr (coEmail a)), (''status'', AStr (coStatus a)),
     (''created_at'', AStr (RFC3339Nano (coCreatedAt a))), (''updated_at'', AStr (RFC3339Nano (coUpdatedAt a)))]"

definition account_answer :: "nat \<Rightarrow> account_row \<times> Session \<Rightarrow> response" where
  "account_answer status result = (case result of (a, s) \<Rightarrow>
     WriteTimed status [coCreatedAt a, coUpdatedAt a, seExpiresAt s, seCreatedAt s]
       (AObj [(''account'', account_json a), (''session'', session_json ''account_id'' s)]))"

definition accounts_Register :: "(string \<Rightarrow> string) \<Rightarrow> (string \<Rightarrow> string option) \<Rightarrow> panel_world \<Rightarrow> http_request \<Rightarrow> db \<Rightarrow> reply" where
  "accounts_Register lower digest w r d = (case Option.bind (body_obj r) decode_credentials of
     None \<Rightarrow> bad_json d
   | Some (email, password) \<Rightarrow> (case account_Register lower digest w email password d of
       (Inl e, d') \<Rightarrow> (if e = ErrPackage AccountCredentials then WriteError 400 ''invalid_input'' ''valid email and password (min 8 chars) required''
          else if e = ErrPackage EmailTaken then WriteError 409 ''email_taken'' ''email already registered'' else internal_error, d', [])
     | (Inr result, d') \<Rightarrow> (account_answer 201 result, d', [])))"

definition accounts_Login :: "(string \<Rightarrow> string) \<Rightarrow> (string \<Rightarrow> string \<Rightarrow> bool) \<Rightarrow> panel_world \<Rightarrow> http_request \<Rightarrow> db \<Rightarrow> reply" where
  "accounts_Login lower verify w r d = (case Option.bind (body_obj r) decode_credentials of
     None \<Rightarrow> bad_json d
   | Some (email, password) \<Rightarrow> (case account_Login lower verify w email password d of
       (Inl e, d') \<Rightarrow> (if e = ErrPackage AccountCredentials then WriteError 401 ''invalid_credentials'' ''invalid email or password''
          else if e = ErrPackage InactiveAccount then WriteError 403 ''inactive_account'' ''account is suspended'' else internal_error, d', [])
     | (Inr result, d') \<Rightarrow> (account_answer 200 result, d', [])))"

definition extractTokenHash :: "http_request \<Rightarrow> string option" where
  "extractTokenHash r = map_option HashSessionToken (bearerToken (hqAuthorization r))"

definition no_session_token :: response where
  "no_session_token = WriteError 401 ''unauthorized'' ''missing or invalid session token''"

definition accounts_Me :: "panel_world \<Rightarrow> http_request \<Rightarrow> db \<Rightarrow> reply" where
  "accounts_Me w r d = (case extractTokenHash r of
     None \<Rightarrow> (no_session_token, d, [])
   | Some hash \<Rightarrow> (case account_Me w hash d of
       (Inl e, d') \<Rightarrow> (if e = ErrPackage AccountNotFound then WriteError 401 ''unauthorized'' ''session expired or invalid'' else internal_error, d', [])
     | (Inr a, d') \<Rightarrow> (WriteTimed 200 [coCreatedAt a, coUpdatedAt a] (account_json a), d', [])))"

definition accounts_Logout :: "panel_world \<Rightarrow> http_request \<Rightarrow> db \<Rightarrow> reply" where
  "accounts_Logout w r d = (case extractTokenHash r of
     None \<Rightarrow> (no_session_token, d, [])
   | Some hash \<Rightarrow> (case DeleteSession w hash d of
       (Inl e, d') \<Rightarrow> (internal_error, d', [])
     | (Inr u, d') \<Rightarrow> (WriteJSON 200 (AObj [(''status'', AStr ''logged_out'')]), d', [])))"

end
