(* ===== verification/AuditLogs.thy ===== *)
theory AuditLogs
  imports GoText Settings
begin

text \<open>
  \<open>services/panel-api/internal/audit\<close>: the recorder that stores an event with the address and the agent of its request,
  the queries over what it stored and their handlers.  An event of the handlers is a value of their reply (\<open>HttpApi\<close>);
  \<open>RecordAll\<close> stores them in order, and as the handlers ignore the recorder's error, an event that cannot be stored is lost.
\<close>

section \<open>The recorder\<close>

text \<open>\<open>withRequestMeta\<close>: the forwarded address or the peer's, without a port.\<close>

definition last_colon :: "string \<Rightarrow> string \<times> string" where
  "last_colon s = (rev (drop 1 (dropWhile (\<lambda>c. c \<noteq> CHR '':'') (rev s))), rev (takeWhile (\<lambda>c. c \<noteq> CHR '':'') (rev s)))"

definition request_ip :: "http_request \<Rightarrow> string" where
  "request_ip r = (let ip = (if hqForwarded r = [] then hqRemote r else hqForwarded r)
     in case last_colon ip of (host, port) \<Rightarrow>
       if CHR '':'' \<in> set ip \<and> host \<noteq> [] \<and> CHR '']'' \<notin> set port then host else ip)"

definition null_if_empty :: "string \<Rightarrow> string option" where
  "null_if_empty s = (if s = [] then None else Some s)"

definition audit_entry :: "panel_world \<Rightarrow> http_request \<Rightarrow> audit_event \<Rightarrow> obj option \<Rightarrow> audit_row" where
  "audit_entry w r e changes = \<lparr> auID = pwID w ''audit_logs'', auActorType = avActorType e, auActorID = avActorID e, auAction = avAction e,
     auResourceType = avResourceType e, auResourceID = null_if_empty (avResourceID e), auOutcome = avOutcome e,
     auReason = null_if_empty (avReason e), auChanges = changes, auIP = null_if_empty (request_ip r),
     auUserAgent = null_if_empty (hqUserAgent r), auCreatedAt = pwPgNow w \<rparr>"

definition event_texts :: "http_request \<Rightarrow> audit_event \<Rightarrow> string list" where
  "event_texts r e = [avActorType e, avActorID e, avAction e, avResourceType e, avResourceID e, avOutcome e, avReason e, request_ip r,
     hqUserAgent r]"

fun jsonb_obj :: "obj option \<Rightarrow> storage_error + obj option" where
  "jsonb_obj None = Inr None"
| "jsonb_obj (Some m) = (if list_all (\<lambda>(k, v). jsonb_ok v) m then Inr (Some (map (\<lambda>(k, v). (k, jsonb_norm v)) m)) else Inl (ErrPg PgInvalidText))"

definition RecordEvent :: "panel_world \<Rightarrow> http_request \<Rightarrow> audit_event \<Rightarrow> db \<Rightarrow> (storage_error + unit) \<times> db" where
  "RecordEvent w r e = alone (\<lambda>d. bindE (stmt w ''insert audit log'') (\<lambda>_.
     bindE (ensure (list_all (\<lambda>s. pg_text s = Inr s) (event_texts r e)) (ErrPg PgInvalidText)) (\<lambda>_.
     bindE (jsonb_obj (avChanges e)) (\<lambda>changes.
     bindE (constraints True True (pwID w ''audit_logs'' \<notin> auID ` set (dbAudit d)) True)
       (\<lambda>_. Inr ((), d\<lparr> dbAudit := dbAudit d @ [audit_entry w r e changes] \<rparr>))))))"

fun RecordAll :: "(nat \<Rightarrow> panel_world) \<Rightarrow> http_request \<Rightarrow> audit_event list \<Rightarrow> db \<Rightarrow> db" where
  "RecordAll ws r [] d = d"
| "RecordAll ws r (e # es) d = RecordAll (\<lambda>k. ws (Suc k)) r es (snd (RecordEvent (ws 0) r e d))"

section \<open>Queries\<close>

record ListFilter =
  lfActorID :: string
  lfAction :: string
  lfResourceType :: string
  lfResourceID :: string
  lfFrom :: instant
  lfTo :: instant
  lfLimit :: int
  lfOffset :: int

text \<open>A condition is added for each member that is not empty, and for each time that is not the zero time.\<close>

definition audit_match :: "ListFilter \<Rightarrow> audit_row \<Rightarrow> bool" where
  "audit_match f a = ((lfActorID f = [] \<or> auActorID a = lfActorID f) \<and> (lfAction f = [] \<or> auAction a = lfAction f)
     \<and> (lfResourceType f = [] \<or> auResourceType a = lfResourceType f) \<and> (lfResourceID f = [] \<or> auResourceID a = Some (lfResourceID f))
     \<and> (lfFrom f = 0 \<or> pg_time (lfFrom f) \<le> auCreatedAt a) \<and> (lfTo f = 0 \<or> auCreatedAt a \<le> pg_time (lfTo f)))"

definition page_limit :: "int \<Rightarrow> int" where
  "page_limit n = (if n \<le> 0 \<or> 100 < n then 50 else n)"

definition page :: "int \<Rightarrow> int \<Rightarrow> 'a list \<Rightarrow> 'a list" where
  "page limit offset rows = take (nat (page_limit limit)) (drop (nat offset) rows)"

definition newest_first :: "audit_row list \<Rightarrow> audit_row list" where
  "newest_first = sort_key (\<lambda>a. - auCreatedAt a)"

definition texts_ok :: "string list \<Rightarrow> storage_error + unit" where
  "texts_ok ss = ensure (list_all (\<lambda>s. pg_text s = Inr s) ss) (ErrPg PgInvalidText)"

definition audit_repo_List :: "panel_world \<Rightarrow> ListFilter \<Rightarrow> db \<Rightarrow> storage_error + audit_row list" where
  "audit_repo_List w f d = bindE (stmt w ''select audit logs'') (\<lambda>_.
     bindE (texts_ok [lfActorID f, lfAction f, lfResourceType f, lfResourceID f]) (\<lambda>_.
     Inr (page (lfLimit f) (lfOffset f) (newest_first (filter (audit_match f) (dbAudit d))))))"

definition audit_repo_Find :: "panel_world \<Rightarrow> string \<Rightarrow> db \<Rightarrow> storage_error + audit_row" where
  "audit_repo_Find w i d = bindE (stmt w ''select audit log'') (\<lambda>_. bindE (uuid_param i) (\<lambda>u. one_row ErrNoRows (row_with auID u (dbAudit d))))"

definition ResourceHistory :: "panel_world \<Rightarrow> string \<Rightarrow> string \<Rightarrow> int \<Rightarrow> int \<Rightarrow> db \<Rightarrow> storage_error + audit_row list" where
  "ResourceHistory w kind i limit offset d = bindE (stmt w ''select resource history'') (\<lambda>_. bindE (texts_ok [kind, i]) (\<lambda>_.
     Inr (page limit offset (newest_first (filter (\<lambda>a. auResourceType a = kind \<and> auResourceID a = Some i) (dbAudit d))))))"

section \<open>Handlers\<close>

definition omit_text :: "string \<Rightarrow> string option \<Rightarrow> obj" where
  "omit_text k v = (case v of None \<Rightarrow> [] | Some s \<Rightarrow> if s = [] then [] else [(k, AStr s)])"

definition audit_json :: "audit_row \<Rightarrow> any" where
  "audit_json a = AObj ([(''id'', AStr (auID a)), (''actor_type'', AStr (auActorType a)), (''actor_id'', AStr (auActorID a)),
     (''action'', AStr (auAction a)), (''resource_type'', AStr (auResourceType a))] @ omit_text ''resource_id'' (auResourceID a) @
     [(''outcome'', AStr (auOutcome a))] @ omit_text ''reason'' (auReason a) @
     (case auChanges a of None \<Rightarrow> [] | Some m \<Rightarrow> if m = [] then [] else [(''changes'', AObj m)]) @
     omit_text ''ip_address'' (auIP a) @ omit_text ''user_agent'' (auUserAgent a) @ [(''created_at'', AStr (RFC3339Nano (auCreatedAt a)))])"

definition intParam :: "string \<Rightarrow> int \<Rightarrow> int" where
  "intParam s fallback = (if s = [] then fallback else case Atoi s of None \<Rightarrow> fallback | Some v \<Rightarrow> if v < 0 then fallback else v)"

definition time_query :: "string \<Rightarrow> http_request \<Rightarrow> instant" where
  "time_query k r = (let v = query_value k r in if v = [] then 0 else case ParseRFC3339 v of None \<Rightarrow> 0 | Some t \<Rightarrow> t)"

definition list_filter :: "http_request \<Rightarrow> ListFilter" where
  "list_filter r = \<lparr> lfActorID = TrimSpace (query_value ''actor_id'' r), lfAction = TrimSpace (query_value ''action'' r),
     lfResourceType = TrimSpace (query_value ''resource_type'' r), lfResourceID = TrimSpace (query_value ''resource_id'' r),
     lfFrom = time_query ''from'' r, lfTo = time_query ''to'' r, lfLimit = intParam (query_value ''limit'' r) 50,
     lfOffset = intParam (query_value ''offset'' r) 0 \<rparr>"

definition WriteLogs :: "storage_error + audit_row list \<Rightarrow> db \<Rightarrow> reply" where
  "WriteLogs result d = (case result of Inl e \<Rightarrow> (WriteStorageError, d, [])
   | Inr logs \<Rightarrow> (WriteTimed 200 (map auCreatedAt logs) (AArr (map audit_json logs)), d, []))"

definition audit_List :: "panel_world \<Rightarrow> http_request \<Rightarrow> db \<Rightarrow> reply" where
  "audit_List w r d = WriteLogs (audit_repo_List w (list_filter r) d) d"

definition audit_Get :: "panel_world \<Rightarrow> http_request \<Rightarrow> db \<Rightarrow> reply" where
  "audit_Get w r d = (let i = TrimSpace (path_value ''id'' r) in
     if i = [] then (WriteBadRequest ''id is required'', d, [])
     else case audit_repo_Find w i d of
       Inl e \<Rightarrow> (if e = ErrNoRows then WriteNotFound ''audit log'' else WriteStorageError, d, [])
     | Inr a \<Rightarrow> (WriteTimed 200 [auCreatedAt a] (audit_json a), d, []))"

definition audit_History :: "panel_world \<Rightarrow> http_request \<Rightarrow> db \<Rightarrow> reply" where
  "audit_History w r d = (let kind = TrimSpace (path_value ''type'' r); i = TrimSpace (path_value ''id'' r) in
     if kind = [] \<or> i = [] then (WriteBadRequest ''resource type and id are required'', d, [])
     else WriteLogs (ResourceHistory w kind i (intParam (query_value ''limit'' r) 50) (intParam (query_value ''offset'' r) 0) d) d)"

end
