(* ===== verification/PanelConfig.thy ===== *)
theory PanelConfig
  imports GoText Warp Auth TrafficStore
begin

text \<open>
  The panel as a process: its configuration (\<open>services/panel-api/internal/config/config.go\<close>), the command that creates
  the first administrator (\<open>devbootstrap/admin.go\<close>, \<open>cmd/bootstrap-admin\<close>), and how \<open>internal/app/app.go\<close> starts and
  stops.  The environment is a function from names to values, \<open>[]\<close> when a variable is unset.
\<close>

section \<open>Configuration\<close>

record PanelConfig =
  pcAppEnv :: string
  pcHTTPAddr :: string
  pcDatabaseURL :: string
  pcDatabasePing :: bool
  pcLogLevel :: string
  pcShutdownTimeout :: int
  pcReality :: RealityConfig

definition getenv :: "(string \<Rightarrow> string) \<Rightarrow> string \<Rightarrow> string \<Rightarrow> string" where
  "getenv env key fallback = (if env key = [] then fallback else env key)"

definition env_reality :: "(string \<Rightarrow> string) \<Rightarrow> int \<Rightarrow> RealityConfig" where
  "env_reality env port = (let d = DefaultRealityConfig in \<lparr> rcPort = port, rcSNI = getenv env ''LENKER_REALITY_SNI'' (rcSNI d),
     rcDest = getenv env ''LENKER_REALITY_DEST'' (rcDest d), rcShortID = getenv env ''LENKER_REALITY_SHORT_ID'' (rcShortID d),
     rcPrivateKey = getenv env ''LENKER_REALITY_PRIVATE_KEY'' (rcPrivateKey d), rcPublicKey = getenv env ''LENKER_REALITY_PUBLIC_KEY'' (rcPublicKey d),
     rcFingerprint = getenv env ''LENKER_REALITY_FINGERPRINT'' (rcFingerprint d), rcSpiderX = getenv env ''LENKER_REALITY_SPIDER_X'' (rcSpiderX d) \<rparr>)"

text \<open>A variable that is set must be an integer of the range; one that is not leaves the default.\<close>

definition int_variable :: "(string \<Rightarrow> string) \<Rightarrow> string \<Rightarrow> (int \<Rightarrow> bool) \<Rightarrow> string \<Rightarrow> string + int option" where
  "int_variable env key good message = (if env key = [] then Inr None
     else case Atoi (env key) of None \<Rightarrow> Inl message | Some n \<Rightarrow> if good n then Inr (Some n) else Inl message)"

definition panel_Load :: "(string \<Rightarrow> string) \<Rightarrow> string + PanelConfig" where
  "panel_Load env =
     bindE (int_variable env ''LENKER_SHUTDOWN_TIMEOUT_SECONDS'' (\<lambda>n. 0 < n) ''LENKER_SHUTDOWN_TIMEOUT_SECONDS must be a positive integer'') (\<lambda>seconds.
     bindE (int_variable env ''LENKER_VLESS_PORT'' (\<lambda>n. 0 < n \<and> n \<le> 65535) ''LENKER_VLESS_PORT must be an integer between 1 and 65535'') (\<lambda>port.
     Inr \<lparr> pcAppEnv = getenv env ''LENKER_APP_ENV'' ''development'', pcHTTPAddr = getenv env ''LENKER_HTTP_ADDR'' '':8080'',
       pcDatabaseURL = env ''LENKER_DATABASE_URL'', pcDatabasePing = (getenv env ''LENKER_DATABASE_PING'' ''false'' = ''true''),
       pcLogLevel = getenv env ''LENKER_LOG_LEVEL'' ''info'',
       pcShutdownTimeout = (case seconds of None \<Rightarrow> 10 * second | Some n \<Rightarrow> wrap64 (n * second)),
       pcReality = WithDefaults (env_reality env (case port of None \<Rightarrow> 0 | Some n \<Rightarrow> n)) \<rparr>))"

section \<open>The first administrator\<close>

datatype bootstrap_error = EmailRequired | EmailInvalid | PasswordRequired | PasswordTooShort | BootstrapFailed storage_error

definition NormalizeAdminInput :: "(string \<Rightarrow> string) \<Rightarrow> string \<Rightarrow> string \<Rightarrow> bootstrap_error + (string \<times> string)" where
  "NormalizeAdminInput lower address password = (let email = clean_email lower address in
     if email = [] then Inl EmailRequired else if CHR ''@'' \<notin> set email then Inl EmailInvalid
     else if password = [] then Inl PasswordRequired else if length password < 8 then Inl PasswordTooShort
     else Inr (email, password))"

record AdminResult =
  arID :: string
  arEmail :: string
  arPassword :: string
  arCreated :: bool

text \<open>The insert that leaves an administrator of this address alone, and the query when it did.\<close>

definition insert_admin :: "panel_world \<Rightarrow> string \<Rightarrow> string \<Rightarrow> db \<Rightarrow> (storage_error + admin_row) \<times> db" where
  "insert_admin w email hash = alone (\<lambda>d. bindE (stmt w ''insert admin'') (\<lambda>_. bindE (pg_text email) (\<lambda>_. bindE (pg_text hash) (\<lambda>_.
     let a = \<lparr> adID = pwID w ''admins'', adEmail = email, adPasswordHash = hash, adStatus = ''active'', adTwoFactor = False,
       adCreatedAt = pwPgNow w, adUpdatedAt = pwPgNow w, adLastLoginAt = None \<rparr> in
     if email \<in> adEmail ` set (dbAdmins d) then Inl ErrNoRows
     else bindE (constraints True True (adID a \<notin> adID ` set (dbAdmins d)) True) (\<lambda>_. Inr (a, d\<lparr> dbAdmins := dbAdmins d @ [a] \<rparr>))))))"

definition BootstrapAdmin ::
    "(string \<Rightarrow> string) \<Rightarrow> (string \<Rightarrow> string option) \<Rightarrow> panel_world \<Rightarrow> string \<Rightarrow> string \<Rightarrow> db \<Rightarrow> (bootstrap_error + AdminResult) \<times> db" where
  "BootstrapAdmin lower digest w address password d = (case NormalizeAdminInput lower address password of
     Inl e \<Rightarrow> (Inl e, d)
   | Inr (email, pw) \<Rightarrow> (case digest pw of
       None \<Rightarrow> (Inl (BootstrapFailed ErrPassword), d)
     | Some hash \<Rightarrow> (case insert_admin w email hash d of
         (Inr a, d') \<Rightarrow> (Inr \<lparr> arID = adID a, arEmail = adEmail a, arPassword = pw, arCreated = True \<rparr>, d')
       | (Inl e, d') \<Rightarrow> if e \<noteq> ErrNoRows then (Inl (BootstrapFailed e), d')
           else (case bindE (stmt w ''select admin'') (\<lambda>_. one_row ErrNoRows (row_with adEmail email (dbAdmins d'))) of
               Inl f \<Rightarrow> (Inl (BootstrapFailed f), d')
             | Inr a \<Rightarrow> (Inr \<lparr> arID = adID a, arEmail = adEmail a, arPassword = [], arCreated = False \<rparr>, d')))))"

definition end_line :: string where "end_line = [chr 10]"

definition WriteResult :: "AdminResult \<Rightarrow> string" where
  "WriteResult r = (if arCreated r
     then ''created admin '' @ arEmail r @ '' ('' @ arID r @ '')'' @ end_line @ ''password: '' @ arPassword r @ end_line
     else ''admin '' @ arEmail r @ '' already exists ('' @ arID r @ ''); password was not changed'' @ end_line)"

text \<open>The command makes a password of sixteen characters when none, or the one of the example, is given.\<close>

definition url_digit :: "char \<Rightarrow> char" where
  "url_digit c = (if c = CHR ''+'' then CHR ''-'' else if c = CHR ''/'' then CHR ''_'' else c)"

definition generatePassword :: "nat \<Rightarrow> string option \<Rightarrow> string option" where
  "generatePassword n random = map_option (\<lambda>bytes. take n (map url_digit (base64 (take n bytes)))) random"

definition bootstrap_password :: "string \<Rightarrow> string option \<Rightarrow> string option" where
  "bootstrap_password given random = (if given = [] \<or> given = ''change-me-now'' then generatePassword 16 random else Some given)"

section \<open>Start and stop\<close>

datatype panel_end = PanelSignal | PanelListenFailed string | PanelClosed

text \<open>
  \<open>Run\<close>: the store is opened (with a ping when it is asked for), the server runs until a signal or the end of
  \<open>ListenAndServe\<close>, and \<open>Shutdown\<close> waits for the requests in flight; the error it returns, if any.
\<close>

definition open_store :: "PanelConfig \<Rightarrow> string option \<Rightarrow> string option \<Rightarrow> string option" where
  "open_store cfg driver ping = (case driver of Some e \<Rightarrow> Some e | None \<Rightarrow> if pcDatabasePing cfg then ping else None)"

definition panel_Run :: "PanelConfig \<Rightarrow> string option \<Rightarrow> string option \<Rightarrow> panel_end \<Rightarrow> string option \<Rightarrow> string option" where
  "panel_Run cfg driver ping ended shutdown = (case open_store cfg driver ping of
     Some e \<Rightarrow> Some e
   | None \<Rightarrow> (case ended of PanelListenFailed e \<Rightarrow> Some e | _ \<Rightarrow> shutdown))"

section \<open>Lemmas\<close>

lemma panel_Load_port:
  assumes "panel_Load env = Inr cfg"
  shows "0 < rcPort (pcReality cfg) \<and> rcPort (pcReality cfg) \<le> 65535"
  using assms by (auto simp: panel_Load_def bindE_Inr int_variable_def WithDefaults_def env_reality_def Let_def DefaultRealityConfig_def
    split: if_splits option.splits)

end
