(* ===== verification/PanelRouter.thy ===== *)
theory PanelRouter
  imports NodesAgentHandler TrafficHandler Devices Warp Templates Accounts AuditLogs PanelConfig
begin

text \<open>
  The panel as one function of requests: the routes every package registers, \<open>internal/http\<close> around them (the cross-origin
  headers and the metadata of the request), the session middleware before the routes of administrators, and the recorder
  behind the handlers, as \<open>internal/app/app.go\<close> connects them.  \<open>http.ServeMux\<close> is written out for the patterns used
  here: a path is the list of its segments, none of them empty (the mux redirects other paths), and of two patterns that
  match, the one with a literal where the other has a wildcard is taken.
\<close>

section \<open>Patterns\<close>

datatype segment = Lit string | Wild string

definition parse_segment :: "string \<Rightarrow> segment" where
  "parse_segment s = (if has_prefix s ''{'' then Wild (butlast (tl s)) else Lit s)"

definition parse_pattern :: "string \<Rightarrow> segment list" where
  "parse_pattern p = map parse_segment (tl (split_on (CHR ''/'') p))"

fun match_path :: "segment list \<Rightarrow> string list \<Rightarrow> (string \<times> string) list option" where
  "match_path [] [] = Some []"
| "match_path (Lit l # ps) (s # ss) = (if l = s then match_path ps ss else None)"
| "match_path (Wild x # ps) (s # ss) = map_option ((#) (x, s)) (match_path ps ss)"
| "match_path _ _ = None"

fun pattern_prefers :: "segment list \<Rightarrow> segment list \<Rightarrow> bool" where
  "pattern_prefers (Lit a # ps) (Wild b # qs) = True"
| "pattern_prefers (Wild a # ps) (Lit b # qs) = False"
| "pattern_prefers (_ # ps) (_ # qs) = pattern_prefers ps qs"
| "pattern_prefers _ _ = False"

section \<open>Routes\<close>

text \<open>
  What the process is made of: the rendering defaults of its configuration, and the functions of the outside that the
  handlers take.  A request has a world for its statements, worlds for the items of a list and worlds for its events.
\<close>

record panel_env =
  peReality :: RealityConfig
  peCollate :: "string \<Rightarrow> string"
  peLower :: "string \<Rightarrow> string"
  peInet :: "string \<Rightarrow> string option"
  peVerify :: "string \<Rightarrow> string \<Rightarrow> bool"
  peDigest :: "string \<Rightarrow> string option"
  peX25519 :: "string \<Rightarrow> string option"

record request_worlds =
  rwWorld :: panel_world
  rwItems :: "nat \<Rightarrow> panel_world"
  rwAudit :: "nat \<Rightarrow> panel_world"

type_synonym handler = "panel_env \<Rightarrow> request_worlds \<Rightarrow> http_request \<Rightarrow> db \<Rightarrow> reply"

record route =
  rtMethod :: string
  rtPattern :: string
  rtHandler :: handler

definition plain :: "(panel_world \<Rightarrow> http_request \<Rightarrow> db \<Rightarrow> reply) \<Rightarrow> handler" where
  "plain h e ws = h (rwWorld ws)"

definition adminOnly :: "handler \<Rightarrow> handler" where
  "adminOnly h e ws = RequireAdmin (h e ws) (rwWorld ws)"

definition admin_route :: "string \<Rightarrow> string \<Rightarrow> handler \<Rightarrow> route" where
  "admin_route method pattern h = \<lparr> rtMethod = method, rtPattern = pattern, rtHandler = adminOnly h \<rparr>"

definition public_route :: "string \<Rightarrow> string \<Rightarrow> handler \<Rightarrow> route" where
  "public_route method pattern h = \<lparr> rtMethod = method, rtPattern = pattern, rtHandler = h \<rparr>"

definition Healthz :: "http_request \<Rightarrow> db \<Rightarrow> reply" where
  "Healthz r d = (WriteJSON 200 (AObj [(''status'', AStr ''ok'')]), d, [])"

definition user_routes :: "route list" where
  "user_routes = [
     admin_route ''GET'' ''/api/v1/users'' (plain users_List),
     admin_route ''POST'' ''/api/v1/users'' (\<lambda>e. plain (users_Create (peLower e)) e),
     admin_route ''GET'' ''/api/v1/users/{id}'' (plain users_Get),
     admin_route ''PATCH'' ''/api/v1/users/{id}'' (\<lambda>e. plain (users_Update (peLower e)) e),
     admin_route ''POST'' ''/api/v1/users/{id}/suspend'' (plain users_Suspend),
     admin_route ''POST'' ''/api/v1/users/{id}/activate'' (plain users_Activate)]"

definition plan_routes :: "route list" where
  "plan_routes = [
     admin_route ''GET'' ''/api/v1/plans'' (plain plans_List),
     admin_route ''POST'' ''/api/v1/plans'' (plain plans_Create),
     admin_route ''GET'' ''/api/v1/plans/{id}'' (plain plans_Get),
     admin_route ''PATCH'' ''/api/v1/plans/{id}'' (plain plans_Update),
     admin_route ''POST'' ''/api/v1/plans/{id}/archive'' (plain plans_Archive)]"

definition subscription_routes :: "route list" where
  "subscription_routes = [
     admin_route ''GET'' ''/api/v1/subscriptions'' (plain subs_List),
     admin_route ''POST'' ''/api/v1/subscriptions'' (plain (\<lambda>w r d. subs_Create (Some (ResolvePlanID w d)) w r d)),
     admin_route ''GET'' ''/api/v1/subscriptions/{id}'' (plain subs_Get),
     admin_route ''PATCH'' ''/api/v1/subscriptions/{id}'' (plain subs_Update),
     admin_route ''POST'' ''/api/v1/subscriptions/{id}/renew'' (plain subs_Renew),
     admin_route ''GET'' ''/api/v1/subscriptions/{id}/access'' (\<lambda>e. plain (subs_Access (peCollate e) (peReality e)) e),
     admin_route ''GET'' ''/api/v1/subscriptions/{id}/access-token'' (plain subs_AccessTokenStatus),
     admin_route ''POST'' ''/api/v1/subscriptions/{id}/access-token'' (plain subs_CreateAccessToken),
     admin_route ''DELETE'' ''/api/v1/subscriptions/{id}/access-token'' (plain subs_RevokeAccessToken),
     admin_route ''POST'' ''/api/v1/subscriptions/{id}/access-token/rotate'' (plain subs_RotateAccessToken),
     admin_route ''GET'' ''/api/v1/subscriptions/{id}/handoff-invite'' (plain subs_HandoffInviteStatus),
     admin_route ''POST'' ''/api/v1/subscriptions/{id}/handoff-invite'' (plain subs_CreateHandoffInvite),
     admin_route ''DELETE'' ''/api/v1/subscriptions/{id}/handoff-invite'' (plain subs_RevokeHandoffInvite),
     public_route ''GET'' ''/api/v1/client/subscription-access'' (\<lambda>e. plain (subs_ClientAccess (peCollate e) (peReality e)) e),
     public_route ''POST'' ''/api/v1/client/handoff/claim'' (\<lambda>e. plain (subs_ClaimHandoff (peCollate e) (peReality e)) e)]"

definition node_routes :: "route list" where
  "node_routes = [
     admin_route ''GET'' ''/api/v1/nodes'' (plain HandleList),
     admin_route ''POST'' ''/api/v1/nodes/bootstrap-token'' (plain HandleCreateBootstrapToken),
     admin_route ''GET'' ''/api/v1/nodes/{id}'' (plain HandleGet),
     admin_route ''POST'' ''/api/v1/nodes/{id}/drain'' (plain HandleDrain),
     admin_route ''POST'' ''/api/v1/nodes/{id}/undrain'' (plain HandleUndrain),
     admin_route ''POST'' ''/api/v1/nodes/{id}/disable'' (plain HandleDisable),
     admin_route ''POST'' ''/api/v1/nodes/{id}/enable'' (plain HandleEnable),
     admin_route ''POST'' ''/api/v1/nodes/{id}/config-revisions'' (\<lambda>e. plain (HandleCreateConfigRevision (peReality e)) e),
     admin_route ''GET'' ''/api/v1/nodes/{id}/config-revisions'' (plain HandleListConfigRevisions),
     admin_route ''POST'' ''/api/v1/nodes/{id}/config-revisions/{revisionId}/rollback'' (plain HandleRollbackConfigRevision),
     admin_route ''GET'' ''/api/v1/nodes/{id}/config-revisions/{revisionId}'' (plain HandleGetConfigRevision),
     public_route ''POST'' ''/api/v1/nodes/register'' (plain HandleRegister),
     public_route ''POST'' ''/api/v1/nodes/{id}/heartbeat'' (plain HandleHeartbeat),
     public_route ''GET'' ''/api/v1/nodes/{id}/config-revisions/pending'' (plain HandleGetPending),
     public_route ''POST'' ''/api/v1/nodes/{id}/config-revisions/{revisionId}/report'' (plain HandleReport)]"

definition audit_routes :: "route list" where
  "audit_routes = [
     admin_route ''GET'' ''/api/v1/audit-logs'' (plain audit_List),
     admin_route ''GET'' ''/api/v1/audit-logs/{id}'' (plain audit_Get),
     admin_route ''GET'' ''/api/v1/resources/{type}/{id}/history'' (plain audit_History)]"

definition device_routes :: "route list" where
  "device_routes = [
     admin_route ''GET'' ''/api/v1/subscriptions/{id}/devices'' (plain devices_List),
     admin_route ''GET'' ''/api/v1/devices/{id}'' (plain devices_Get),
     admin_route ''DELETE'' ''/api/v1/devices/{id}'' (plain devices_Delete),
     admin_route ''POST'' ''/api/v1/devices/{id}/deactivate'' (plain devices_Deactivate),
     public_route ''POST'' ''/api/v1/client/devices/register'' (\<lambda>e. plain (ClientRegister (peInet e)) e),
     public_route ''POST'' ''/api/v1/client/devices/heartbeat'' (\<lambda>e. plain (ClientHeartbeat (peInet e)) e),
     public_route ''DELETE'' ''/api/v1/client/devices/me'' (plain ClientDelete)]"

definition traffic_routes :: "route list" where
  "traffic_routes = [
     admin_route ''GET'' ''/api/v1/subscriptions/{id}/traffic'' (plain traffic_Subscription),
     admin_route ''GET'' ''/api/v1/subscriptions/{id}/quota'' (plain traffic_GetQuota),
     admin_route ''POST'' ''/api/v1/subscriptions/{id}/quota'' (plain traffic_SetQuota),
     admin_route ''POST'' ''/api/v1/subscriptions/{id}/quota/reset'' (plain traffic_ResetQuota),
     admin_route ''GET'' ''/api/v1/devices/{id}/traffic'' (plain traffic_Device),
     admin_route ''GET'' ''/api/v1/nodes/{id}/traffic'' (plain traffic_Node),
     public_route ''POST'' ''/api/v1/traffic/report'' (\<lambda>e ws. traffic_Report (Some NodeIDByToken) (rwWorld ws) (rwItems ws))]"

definition rule_routes :: "route list" where
  "rule_routes = [
     admin_route ''GET'' ''/api/v1/routing-rules/global'' (plain rules_ListGlobal),
     admin_route ''POST'' ''/api/v1/routing-rules/global'' (plain rules_CreateGlobal),
     admin_route ''PUT'' ''/api/v1/routing-rules/global/{rule_id}'' (plain updateRule),
     admin_route ''DELETE'' ''/api/v1/routing-rules/global/{rule_id}'' (plain deleteRule),
     admin_route ''GET'' ''/api/v1/nodes/{id}/routing-rules'' (plain rules_ListForNode),
     admin_route ''POST'' ''/api/v1/nodes/{id}/routing-rules'' (plain rules_CreateForNode),
     admin_route ''PUT'' ''/api/v1/nodes/{id}/routing-rules/{rule_id}'' (plain updateRule),
     admin_route ''DELETE'' ''/api/v1/nodes/{id}/routing-rules/{rule_id}'' (plain deleteRule),
     admin_route ''POST'' ''/api/v1/nodes/{id}/routing-rules/reorder'' (plain rules_Reorder)]"

definition setting_routes :: "route list" where
  "setting_routes = [
     admin_route ''GET'' ''/api/v1/settings'' (\<lambda>e. plain (\<lambda>w r. settings_List (peCollate e) w) e),
     admin_route ''PUT'' ''/api/v1/settings/{key}'' (plain settings_Update)]"

definition warp_routes :: "route list" where
  "warp_routes = [
     admin_route ''GET'' ''/api/v1/nodes/{id}/warp'' (plain warp_Get),
     admin_route ''POST'' ''/api/v1/nodes/{id}/warp'' (plain warp_Set),
     admin_route ''DELETE'' ''/api/v1/nodes/{id}/warp'' (plain warp_Delete),
     admin_route ''POST'' ''/api/v1/warp/generate'' (\<lambda>e. plain (warp_Generate (peX25519 e)) e)]"

definition profile_routes :: "route list" where
  "profile_routes = [
     admin_route ''GET'' ''/api/v1/node-profiles'' (\<lambda>e. plain (profiles_List (peCollate e)) e),
     admin_route ''POST'' ''/api/v1/node-profiles'' (plain profiles_Create),
     admin_route ''GET'' ''/api/v1/node-profiles/{id}'' (plain profiles_Get),
     admin_route ''PUT'' ''/api/v1/node-profiles/{id}'' (plain profiles_Update),
     admin_route ''DELETE'' ''/api/v1/node-profiles/{id}'' (plain profiles_Delete),
     admin_route ''POST'' ''/api/v1/node-profiles/{id}/apply/{nodeId}'' (\<lambda>e ws. profiles_Apply (rwItems ws))]"

definition template_routes :: "route list" where
  "template_routes = [
     admin_route ''GET'' ''/api/v1/subscription-templates'' (\<lambda>e. plain (templates_List (peCollate e)) e),
     admin_route ''POST'' ''/api/v1/subscription-templates'' (plain templates_Create),
     admin_route ''GET'' ''/api/v1/subscription-templates/{id}'' (plain templates_Get),
     admin_route ''PUT'' ''/api/v1/subscription-templates/{id}'' (plain templates_Update),
     admin_route ''DELETE'' ''/api/v1/subscription-templates/{id}'' (plain templates_Delete),
     admin_route ''POST'' ''/api/v1/subscription-templates/{id}/create-subscription'' (plain templates_CreateSubscription)]"

definition account_routes :: "route list" where
  "account_routes = [
     public_route ''POST'' ''/api/v1/accounts/register'' (\<lambda>e. plain (accounts_Register (peLower e) (peDigest e)) e),
     public_route ''POST'' ''/api/v1/accounts/login'' (\<lambda>e. plain (accounts_Login (peLower e) (peVerify e)) e),
     public_route ''GET'' ''/api/v1/accounts/me'' (plain accounts_Me),
     public_route ''POST'' ''/api/v1/accounts/logout'' (plain accounts_Logout)]"

definition auth_routes :: "route list" where
  "auth_routes = [public_route ''POST'' ''/api/v1/auth/admin/login'' (\<lambda>e. plain (AdminLogin (peLower e) (peVerify e)) e)]"

definition panel_routes :: "route list" where
  "panel_routes = public_route ''GET'' ''/healthz'' (\<lambda>e ws. Healthz) #
     concat [auth_routes, user_routes, plan_routes, subscription_routes, node_routes, audit_routes, device_routes, traffic_routes,
       rule_routes, setting_routes, warp_routes, profile_routes, template_routes, account_routes]"

section \<open>Serving a request\<close>

record http_call =
  hcMethod :: string
  hcPath :: "string list"
  hcOrigin :: string
  hcRequest :: http_request

definition route_match :: "string list \<Rightarrow> route \<Rightarrow> (string \<times> string) list option" where
  "route_match path rt = match_path (parse_pattern (rtPattern rt)) path"

text \<open>A GET pattern also serves HEAD.\<close>

definition serves_method :: "string \<Rightarrow> route \<Rightarrow> bool" where
  "serves_method method rt = (rtMethod rt = method \<or> rtMethod rt = ''GET'' \<and> method = ''HEAD'')"

definition choose_route :: "route list \<Rightarrow> route option" where
  "choose_route rts = (case rts of [] \<Rightarrow> None
   | rt # rest \<Rightarrow> Some (foldl (\<lambda>best r. if pattern_prefers (parse_pattern (rtPattern r)) (parse_pattern (rtPattern best)) then r else best) rt rest))"

definition find_route :: "http_call \<Rightarrow> route option" where
  "find_route c = choose_route (filter (\<lambda>rt. serves_method (hcMethod c) rt \<and> route_match (hcPath c) rt \<noteq> None) panel_routes)"

definition mux_error :: "http_call \<Rightarrow> response" where
  "mux_error c = (if list_ex (\<lambda>rt. route_match (hcPath c) rt \<noteq> None) panel_routes
     then \<lparr> rsStatus = 405, rsBody = BError [] ''Method Not Allowed'' \<rparr> else \<lparr> rsStatus = 404, rsBody = BError [] ''404 page not found'' \<rparr>)"

text \<open>The events are stored while the handler runs; nothing but the queries of the audit log reads them, so their place is after it.\<close>

definition serve_mux :: "panel_env \<Rightarrow> request_worlds \<Rightarrow> http_call \<Rightarrow> db \<Rightarrow> response \<times> db" where
  "serve_mux env ws c d = (case find_route c of
     None \<Rightarrow> (mux_error c, d)
   | Some rt \<Rightarrow> (let r = (hcRequest c)\<lparr> hqPath := the (route_match (hcPath c) rt) \<rparr> in
       case rtHandler rt env ws r d of (answer, d', events) \<Rightarrow> (answer, RecordAll (rwAudit ws) r events d')))"

definition cors_headers :: "string \<Rightarrow> (string \<times> string) list" where
  "cors_headers origin = (if origin \<noteq> ''http://localhost:5173'' then []
     else [(''Access-Control-Allow-Origin'', origin), (''Access-Control-Allow-Methods'', ''GET, POST, PATCH, OPTIONS''),
       (''Access-Control-Allow-Headers'', ''Authorization, Content-Type''), (''Access-Control-Max-Age'', ''600''), (''Vary'', ''Origin'')])"

definition no_content :: response where
  "no_content = \<lparr> rsStatus = 204, rsBody = BError [] [] \<rparr>"

definition serve_panel :: "panel_env \<Rightarrow> request_worlds \<Rightarrow> http_call \<Rightarrow> db \<Rightarrow> (response \<times> (string \<times> string) list) \<times> db" where
  "serve_panel env ws c d = (if hcMethod c = ''OPTIONS'' then ((no_content, cors_headers (hcOrigin c)), d)
     else case serve_mux env ws c d of (answer, d') \<Rightarrow> ((answer, cors_headers (hcOrigin c)), d'))"

end
