(* ===== verification/Sessions.thy ===== *)
theory Sessions
  imports Accounts DevicesProps
begin

text \<open>
  What the services rely on when they keep sessions, stated once: a session that was issued is found by its token until it
  expires, whatever other sessions are opened and looked up in between.  The tables of administrators and of accounts
  both keep this contract; sessions of accounts can also be closed.
\<close>

section \<open>The contract\<close>

datatype session_step = LookUp panel_world string instant | Open panel_world string string instant

fun session_run ::
    "(panel_world \<Rightarrow> string \<Rightarrow> string \<Rightarrow> instant \<Rightarrow> db \<Rightarrow> (storage_error + Session) \<times> db) \<Rightarrow>
     (panel_world \<Rightarrow> string \<Rightarrow> instant \<Rightarrow> db \<Rightarrow> (storage_error + 'a) \<times> db) \<Rightarrow> session_step list \<Rightarrow> db \<Rightarrow> db" where
  "session_run issue check [] d = d"
| "session_run issue check (LookUp w h t # steps) d = session_run issue check steps (snd (check w h t d))"
| "session_run issue check (Open w i h e # steps) d = session_run issue check steps (snd (issue w i h e d))"

fun opens :: "string \<Rightarrow> session_step \<Rightarrow> bool" where
  "opens h (Open w i h' e) = (h = h')"
| "opens h (LookUp w h' t) = False"

definition no_faults :: "panel_world \<Rightarrow> bool" where
  "no_faults w \<longleftrightarrow> (\<forall>label. \<not> pwFault w label)"

locale session_store =
  fixes live :: "string \<Rightarrow> instant \<Rightarrow> db \<Rightarrow> 'a option"
    and ident :: "'a \<Rightarrow> uuid"
    and actor :: "uuid \<Rightarrow> db \<Rightarrow> bool"
    and issue :: "panel_world \<Rightarrow> string \<Rightarrow> string \<Rightarrow> instant \<Rightarrow> db \<Rightarrow> (storage_error + Session) \<times> db"
    and check :: "panel_world \<Rightarrow> string \<Rightarrow> instant \<Rightarrow> db \<Rightarrow> (storage_error + 'a) \<times> db"
    and missing :: storage_error
  assumes issue_live: "issue w i h e d = (Inr s, d') \<Longrightarrow> actor (seActorID s) d \<Longrightarrow>
      map_option ident (live h t d') = (if t < pg_time e then Some (seActorID s) else None)"
    and issue_other: "h' \<noteq> h \<Longrightarrow> map_option ident (live h' t (snd (issue w i h e d))) = map_option ident (live h' t d)"
    and check_live: "map_option ident (live h' t' (snd (check w h t d))) = map_option ident (live h' t' d)"
    and check_answer: "no_faults w \<Longrightarrow> pg_text h = Inr h \<Longrightarrow>
      fst (check w h t d) = (case live h (pg_time t) d of None \<Rightarrow> Inl missing | Some a \<Rightarrow> Inr a)"
begin

lemma run_live:
  assumes "\<forall>step \<in> set steps. \<not> opens h step"
  shows "map_option ident (live h t (session_run issue check steps d)) = map_option ident (live h t d)"
  using assms
proof (induction steps arbitrary: d)
  case (Cons step steps)
  then show ?case by (cases step) (simp_all add: check_live issue_other)
qed simp

lemma lasts:
  assumes "issue w i h e d = (Inr s, d')" and "actor (seActorID s) d" and "\<forall>step \<in> set steps. \<not> opens h step"
    and "no_faults w'" and "pg_text h = Inr h"
  shows "map_option ident (case fst (check w' h t (session_run issue check steps d')) of Inl f \<Rightarrow> None | Inr a \<Rightarrow> Some a)
      = (if pg_time t < pg_time e then Some (seActorID s) else None)
    \<and> (pg_time t < pg_time e \<or> fst (check w' h t (session_run issue check steps d')) = Inl missing)"
  using run_live[OF assms(3), of "pg_time t" d'] issue_live[OF assms(1,2), of "pg_time t"] check_answer[OF assms(4,5), of t]
  by (auto split: option.splits if_splits)

end

locale closable_sessions = session_store +
  fixes close :: "panel_world \<Rightarrow> string \<Rightarrow> db \<Rightarrow> (storage_error + unit) \<times> db"
  assumes close_live: "close w h d = (Inr u, d') \<Longrightarrow> live h t d' = None"
begin

lemma stays_closed:
  assumes "close w h d = (Inr u, d')" and "\<forall>step \<in> set steps. \<not> opens h step" and "no_faults w'" and "pg_text h = Inr h"
  shows "fst (check w' h t (session_run issue check steps d')) = Inl missing"
  using run_live[OF assms(2), of "pg_time t" d'] close_live[OF assms(1), of "pg_time t"] check_answer[OF assms(3,4), of t]
  by simp

end

section \<open>Rows\<close>

lemma row_with_filter_upd:
  assumes "\<And>r. key (f r) = key r" and "\<And>r. P (f r) = P r"
  shows "row_with key k (filter P (upd_where Q f rows)) = map_option (\<lambda>r. if Q r then f r else r) (row_with key k (filter P rows))"
  using assms by (induction rows) auto

lemma row_with_filter_None: "k \<notin> key ` set rows \<Longrightarrow> row_with key k (filter P rows) = None"
  by (induction rows) auto

lemma row_with_filter_del: "row_with key k (filter P (del_where (\<lambda>r. key r = k) rows)) = None"
  by (rule row_with_filter_None) auto

section \<open>Administrators\<close>

definition active_admin :: "uuid \<Rightarrow> db \<Rightarrow> bool" where
  "active_admin u d \<longleftrightarrow> (\<exists>a \<in> set (dbAdmins d). adID a = u \<and> adStatus a = ''active'')"

lemma active_admin_row: "active_admin u d \<longleftrightarrow> row_with adID u (filter (\<lambda>a. adStatus a = ''active'') (dbAdmins d)) \<noteq> None"
  by (auto simp: active_admin_def row_with_None)

lemma CreateSession_done:
  assumes "CreateSession w i h e d = (Inr s, d')"
  obtains row g where "asHash row = h" "asExpiresAt row = pg_time e" "asAdminID row = seActorID s" "h \<notin> asHash ` set (dbSessions d)"
    "dbSessions d' = dbSessions d @ [row]" "dbAdmins d' = upd_where (\<lambda>a. adID a = seActorID s) g (dbAdmins d)"
    "\<And>a. adID (g a) = adID a" "\<And>a. adStatus (g a) = adStatus a" "uuid_param i = Inr (seActorID s)"
proof -
  let ?g = "\<lambda>a. a\<lparr> adLastLoginAt := Some (pwPgNow w), adUpdatedAt := pwPgNow w \<rparr>"
  let ?row = "\<lambda>u. \<lparr> asID = pwID w ''admin_sessions'', asAdminID = u, asHash = h, asExpiresAt = pg_time e, asCreatedAt = pwPgNow w,
    asLastSeenAt = pwPgNow w \<rparr>"
  obtain u where "uuid_param i = Inr u" "h \<notin> asHash ` set (dbSessions d)" "seActorID s = u"
    "d' = d\<lparr> dbSessions := dbSessions d @ [?row u], dbAdmins := upd_where (\<lambda>a. adID a = u) ?g (dbAdmins d) \<rparr>"
    using assms unfolding CreateSession_def in_tx_Inr by (auto simp: stmt_simps Let_def)
  then show thesis by (intro that[of "?row u" ?g]) simp_all
qed

lemma CreateSession_fails: "CreateSession w i h e d = (Inl f, d') \<Longrightarrow> d' = d"
  unfolding CreateSession_def by (simp add: in_tx_Inl)

lemma admin_issue_live:
  assumes "CreateSession w i h e d = (Inr s, d')" and "active_admin (seActorID s) d"
  shows "map_option adID (session_admin h t d') = (if t < pg_time e then Some (seActorID s) else None)"
  using assms(1)
proof (rule CreateSession_done)
  fix row g
  assume r: "asHash row = h" "asExpiresAt row = pg_time e" "asAdminID row = seActorID s" "h \<notin> asHash ` set (dbSessions d)"
    "dbSessions d' = dbSessions d @ [row]" "dbAdmins d' = upd_where (\<lambda>a. adID a = seActorID s) g (dbAdmins d)"
    and g: "\<And>a. adID (g a) = adID a" "\<And>a. adStatus (g a) = adStatus a"
  obtain a where a: "row_with adID (seActorID s) (filter (\<lambda>a. adStatus a = ''active'') (dbAdmins d)) = Some a" "adID a = seActorID s"
    using assms(2) by (auto simp: active_admin_row dest: row_with_SomeD)
  show ?thesis using r a g
    by (simp add: session_admin_def row_with_append row_with_filter_None row_with_filter_upd option.map_comp comp_def)
qed

lemma admin_issue_other:
  assumes "h' \<noteq> h"
  shows "map_option adID (session_admin h' t (snd (CreateSession w i h e d))) = map_option adID (session_admin h' t d)"
proof (cases "CreateSession w i h e d")
  case (Pair r d')
  show ?thesis
  proof (cases r)
    case (Inl f)
    then show ?thesis using CreateSession_fails[OF Pair[unfolded Inl]] Pair by simp
  next
    case (Inr s)
    with Pair have "CreateSession w i h e d = (Inr s, d')" by simp
    then show ?thesis
    proof (rule CreateSession_done)
      fix row g
      assume r: "asHash row = h" "asExpiresAt row = pg_time e" "asAdminID row = seActorID s"
        "dbSessions d' = dbSessions d @ [row]" "dbAdmins d' = upd_where (\<lambda>a. adID a = seActorID s) g (dbAdmins d)"
        and g: "\<And>a. adID (g a) = adID a" "\<And>a. adStatus (g a) = adStatus a"
      show ?thesis using r g assms Pair
        by (simp add: session_admin_def row_with_append row_with_filter_upd option.map_comp comp_def if_distrib cong: if_cong split: option.split)
    qed
  qed
qed

lemma admin_check_live: "map_option adID (session_admin h' t' (snd (FindByActiveSessionTokenHash w h t d))) = map_option adID (session_admin h' t' d)"
  by (auto simp: FindByActiveSessionTokenHash_def seqE_def readE_def giveE_def alone_def session_admin_def bindE_def row_with_filter_upd
    split: sum.splits option.splits)

lemma admin_check_answer:
  "no_faults w \<Longrightarrow> pg_text h = Inr h \<Longrightarrow>
   fst (FindByActiveSessionTokenHash w h t d) = (case session_admin h (pg_time t) d of None \<Rightarrow> Inl (ErrPackage AdminNotFound) | Some a \<Rightarrow> Inr a)"
  by (auto simp: no_faults_def FindByActiveSessionTokenHash_def seqE_def readE_def giveE_def alone_def stmt_def ensure_def one_row_def split: option.splits)

interpretation admins: session_store session_admin adID active_admin CreateSession FindByActiveSessionTokenHash "ErrPackage AdminNotFound"
  by unfold_locales (fact admin_issue_live admin_issue_other admin_check_live admin_check_answer)+

section \<open>Accounts\<close>

definition active_account :: "uuid \<Rightarrow> db \<Rightarrow> bool" where
  "active_account u d \<longleftrightarrow> (\<exists>a \<in> set (dbAccounts d). coID a = u \<and> coStatus a = ''active'')"

lemma active_account_row: "active_account u d \<longleftrightarrow> row_with coID u (filter (\<lambda>a. coStatus a = ''active'') (dbAccounts d)) \<noteq> None"
  by (auto simp: active_account_def row_with_None)

lemma CreateAccountSession_done:
  assumes "CreateAccountSession w i h e d = (Inr s, d')"
  obtains row where "ssHash row = h" "ssExpiresAt row = pg_time e" "ssAccountID row = seActorID s" "h \<notin> ssHash ` set (dbAccountSessions d)"
    "d' = d\<lparr> dbAccountSessions := dbAccountSessions d @ [row] \<rparr>" "uuid_param i = Inr (seActorID s)"
proof -
  let ?row = "\<lambda>u. \<lparr> ssID = pwID w ''consumer_sessions'', ssAccountID = u, ssHash = h, ssExpiresAt = pg_time e, ssCreatedAt = pwPgNow w,
    ssLastSeenAt = pwPgNow w \<rparr>"
  obtain u where "uuid_param i = Inr u" "h \<notin> ssHash ` set (dbAccountSessions d)" "seActorID s = u"
    "d' = d\<lparr> dbAccountSessions := dbAccountSessions d @ [?row u] \<rparr>"
    using assms unfolding CreateAccountSession_def alone_Inr by (auto simp: stmt_simps Let_def)
  then show thesis by (intro that[of "?row u"]) simp_all
qed

lemma CreateAccountSession_fails: "CreateAccountSession w i h e d = (Inl f, d') \<Longrightarrow> d' = d"
  unfolding CreateAccountSession_def by (simp add: alone_Inl)

lemma account_issue_live:
  assumes "CreateAccountSession w i h e d = (Inr s, d')" and "active_account (seActorID s) d"
  shows "map_option coID (session_account h t d') = (if t < pg_time e then Some (seActorID s) else None)"
proof -
  obtain a where a: "row_with coID (seActorID s) (filter (\<lambda>a. coStatus a = ''active'') (dbAccounts d)) = Some a" "coID a = seActorID s"
    using assms(2) by (auto simp: active_account_row dest: row_with_SomeD)
  show ?thesis using assms(1) a
    by (elim CreateAccountSession_done) (simp add: session_account_def row_with_append row_with_filter_None)
qed

lemma account_issue_other:
  assumes "h' \<noteq> h"
  shows "map_option coID (session_account h' t (snd (CreateAccountSession w i h e d))) = map_option coID (session_account h' t d)"
proof (cases "CreateAccountSession w i h e d")
  case (Pair r d')
  show ?thesis
  proof (cases r)
    case (Inl f)
    then show ?thesis using CreateAccountSession_fails[OF Pair[unfolded Inl]] Pair by simp
  next
    case (Inr s)
    with Pair have "CreateAccountSession w i h e d = (Inr s, d')" by simp
    then show ?thesis using assms Pair
      by (elim CreateAccountSession_done) (simp add: session_account_def row_with_append split: option.split)
  qed
qed

lemma account_check_live: "map_option coID (session_account h' t' (snd (FindAccountBySession w h t d))) = map_option coID (session_account h' t' d)"
  by (auto simp: FindAccountBySession_def session_account_def bindE_def row_with_filter_upd split: sum.splits option.splits)

lemma account_check_answer:
  "no_faults w \<Longrightarrow> pg_text h = Inr h \<Longrightarrow>
   fst (FindAccountBySession w h t d) = (case session_account h (pg_time t) d of None \<Rightarrow> Inl (ErrPackage AccountNotFound) | Some a \<Rightarrow> Inr a)"
  by (auto simp: no_faults_def FindAccountBySession_def stmt_def ensure_def one_row_def split: option.splits)

lemma account_close_live:
  assumes "DeleteSession w h d = (Inr u, d')"
  shows "session_account h t d' = None"
proof -
  have "d' = d\<lparr> dbAccountSessions := del_where (\<lambda>s. ssHash s = h) (dbAccountSessions d) \<rparr>"
    using assms unfolding DeleteSession_def alone_Inr by (auto simp: stmt_simps)
  then show ?thesis by (simp add: session_account_def row_with_filter_del)
qed

interpretation accounts: closable_sessions session_account coID active_account CreateAccountSession FindAccountBySession
    "ErrPackage AccountNotFound" DeleteSession
  by unfold_locales (fact account_issue_live account_issue_other account_check_live account_check_answer account_close_live)+

section \<open>Properties\<close>

lemma HashSessionToken_text [simp]: "pg_text (HashSessionToken token) = Inr (HashSessionToken token)"
proof -
  have "chr 0 \<notin> set (HashSessionToken token)"
  proof
    assume "chr 0 \<in> set (HashSessionToken token)"
    then have "48 \<le> byte (chr 0)" unfolding HashSessionToken_def by (blast dest: hex_encode_chars)
    then show False by (simp add: byte_def chr_def)
  qed
  then show ?thesis by (intro pg_text_ascii) (simp_all add: HashSessionToken_def)
qed

lemma Login_done:
  assumes "Login lower verify w email password d = (Inr (admin, s), d', event)"
  shows "\<exists>s0. CreateSession w (adID admin) (HashSessionToken (seToken s)) (pwNow w + session_hours) d = (Inr s0, d')
     \<and> seActorID s = seActorID s0 \<and> admin \<in> set (dbAdmins d) \<and> adStatus admin = ''active'' \<and> verify password (adPasswordHash admin)"
  using assms
  by (auto simp: Login_def Let_def FindAdminByEmail_def stmt_simps split: if_splits sum.splits prod.splits dest: row_with_SomeD)

text \<open>
  C8 A login of an administrator opens a session for twelve hours: whatever sessions are looked up or opened in between, the
  token names that administrator until the session ends and is refused from then on, and it was given for an active
  administrator whose password was verified.
\<close>

theorem admin_session_lasts:
  assumes "Login lower verify w email password d = (Inr (admin, s), d', event)" and "uuid_cast (adID admin) = Some (adID admin)"
    and "\<forall>step \<in> set steps. \<not> opens (HashSessionToken (seToken s)) step" and "no_faults w'"
  shows "adStatus admin = ''active'' \<and> verify password (adPasswordHash admin) \<and>
    (case fst (FindByActiveSessionTokenHash w' (HashSessionToken (seToken s)) t (session_run CreateSession FindByActiveSessionTokenHash steps d')) of
       Inr a \<Rightarrow> pg_time t < pg_time (pwNow w + session_hours) \<and> adID a = adID admin
     | Inl e \<Rightarrow> pg_time (pwNow w + session_hours) \<le> pg_time t \<and> e = ErrPackage AdminNotFound)"
proof -
  obtain s0 where c: "CreateSession w (adID admin) (HashSessionToken (seToken s)) (pwNow w + session_hours) d = (Inr s0, d')"
    and a: "admin \<in> set (dbAdmins d)" "adStatus admin = ''active''" "verify password (adPasswordHash admin)"
    using Login_done[OF assms(1)] by blast
  have u: "seActorID s0 = adID admin" using c assms(2) by (elim CreateSession_done) (simp add: stmt_simps)
  have "active_admin (seActorID s0) d" using a u by (auto simp: active_admin_def)
  from admins.lasts[OF c this assms(3,4) HashSessionToken_text, of t] u a(2,3) show ?thesis
    by (auto split: sum.split if_splits)
qed

lemma account_Login_done:
  assumes "account_Login lower verify w email password d = (Inr (a, s), d')"
  shows "\<exists>s0. CreateAccountSession w (coID a) (HashSessionToken (seToken s)) (pwNow w + account_session_time) d = (Inr s0, d')
     \<and> a \<in> set (dbAccounts d) \<and> coStatus a = ''active'' \<and> verify password (coPasswordHash a)"
  using assms
  by (auto simp: account_Login_def open_session_def seqE_def readE_def giveE_def Let_def FindAccountByEmail_def stmt_simps
    split: if_splits sum.splits prod.splits dest: row_with_SomeD)

text \<open>
  C37 A consumer who logs in is known by the token for seven days, and after a logout never again: the two halves of the
  contract of sessions for accounts.
\<close>

theorem account_session_lifecycle:
  assumes "account_Login lower verify w email password d = (Inr (a, s), d')" and "uuid_cast (coID a) = Some (coID a)"
    and "\<forall>step \<in> set (before @ after). \<not> opens (HashSessionToken (seToken s)) step" and "no_faults w'"
    and "mid = session_run CreateAccountSession FindAccountBySession before d'"
    and "DeleteSession v (HashSessionToken (seToken s)) mid = (Inr (), d'')"
  shows "(pg_time t < pg_time (pwNow w + account_session_time) \<longrightarrow> (\<exists>b. fst (FindAccountBySession w' (HashSessionToken (seToken s)) t mid) = Inr b \<and> coID b = coID a))
    \<and> fst (FindAccountBySession w' (HashSessionToken (seToken s)) t' (session_run CreateAccountSession FindAccountBySession after d''))
        = Inl (ErrPackage AccountNotFound)"
proof -
  obtain s0 where c: "CreateAccountSession w (coID a) (HashSessionToken (seToken s)) (pwNow w + account_session_time) d = (Inr s0, d')"
    and a: "a \<in> set (dbAccounts d)" "coStatus a = ''active''"
    using account_Login_done[OF assms(1)] by blast
  have u: "seActorID s0 = coID a" using c assms(2) by (elim CreateAccountSession_done) (simp add: stmt_simps)
  have b: "\<forall>step \<in> set before. \<not> opens (HashSessionToken (seToken s)) step" "\<forall>step \<in> set after. \<not> opens (HashSessionToken (seToken s)) step"
    using assms(3) by auto
  have "active_account (seActorID s0) d" using a u by (auto simp: active_account_def)
  note first = accounts.lasts[OF c this b(1) assms(4) HashSessionToken_text, of t, folded assms(5)]
  note last' = accounts.stays_closed[OF assms(6) b(2) assms(4) HashSessionToken_text, of t']
  show ?thesis using first last' u by (auto split: sum.splits)
qed

section \<open>Witnesses\<close>

text \<open>An installation with one administrator and one consumer, and their logins.\<close>

definition owner :: admin_row where
  "owner = \<lparr> adID = node_a, adEmail = ''a@b'', adPasswordHash = ''pw'', adStatus = ''active'', adTwoFactor = False, adCreatedAt = 0,
     adUpdatedAt = 0, adLastLoginAt = None \<rparr>"

definition consumer :: account_row where
  "consumer = \<lparr> coID = node_a, coEmail = ''a@b'', coPasswordHash = ''pw'', coStatus = ''active'', coCreatedAt = 0, coUpdatedAt = 0 \<rparr>"

definition staff_db :: db where
  "staff_db = empty_db\<lparr> dbAdmins := [owner], dbAccounts := [consumer] \<rparr>"

lemma staff_tables [simp]: "dbAdmins staff_db = [owner]" "dbAccounts staff_db = [consumer]" "dbSessions staff_db = []" "dbAccountSessions staff_db = []"
  by (simp_all add: staff_db_def empty_db_def)

lemma staff_email: "clean_email (\<lambda>s. s) ''a@b'' = ''a@b''" "pg_text ''a@b'' = Inr ''a@b''"
  by (simp_all add: pg_text_printable clean_email_def ToLower_def runes_ascii ascii_def lower_rune_def TrimSpace_graphic del: runes.simps)

lemma calm_no_faults: "no_faults calm"
  by (simp add: no_faults_def)

lemma owner_logs_in: "\<exists>s d' event. Login (\<lambda>s. s) (=) calm ''a@b'' ''pw'' staff_db = (Inr (owner, s), d', event)"
  by (simp add: Login_def Let_def staff_email FindAdminByEmail_def one_row_def owner_def newSessionToken_def CreateSession_def in_tx_def sub_param
    constraints_def)

lemma admin_session_lasts_witness:
  "\<exists>s d' event a. Login (\<lambda>s. s) (=) calm ''a@b'' ''pw'' staff_db = (Inr (owner, s), d', event)
     \<and> fst (FindByActiveSessionTokenHash calm (HashSessionToken (seToken s)) 0 d') = Inr a \<and> adID a = adID owner"
proof -
  obtain s d' event where l: "Login (\<lambda>s. s) (=) calm ''a@b'' ''pw'' staff_db = (Inr (owner, s), d', event)"
    using owner_logs_in by blast
  have "uuid_cast (adID owner) = Some (adID owner)" by (simp add: owner_def)
  from admin_session_lasts[OF l this _ calm_no_faults, of "[]" 0] l show ?thesis
    by (auto simp: session_hours_def pg_time_def second_def split: sum.splits)
qed

lemma consumer_logs_in: "\<exists>s d'. account_Login (\<lambda>s. s) (=) calm ''a@b'' ''pw'' staff_db = (Inr (consumer, s), d')"
  by (simp add: account_Login_def Let_def staff_email FindAccountByEmail_def one_row_def consumer_def open_session_def seqE_def readE_def giveE_def
    newSessionToken_def CreateAccountSession_def alone_def sub_param constraints_def)

lemma close_calm: "\<exists>d'. DeleteSession calm (HashSessionToken t) d = (Inr (), d')"
  by (simp add: DeleteSession_def alone_def)

lemma account_session_lifecycle_witness:
  "\<exists>s d' d''. account_Login (\<lambda>s. s) (=) calm ''a@b'' ''pw'' staff_db = (Inr (consumer, s), d')
     \<and> DeleteSession calm (HashSessionToken (seToken s)) d' = (Inr (), d'')
     \<and> fst (FindAccountBySession calm (HashSessionToken (seToken s)) 0 d'') = Inl (ErrPackage AccountNotFound)"
proof -
  obtain s d' where l: "account_Login (\<lambda>s. s) (=) calm ''a@b'' ''pw'' staff_db = (Inr (consumer, s), d')"
    using consumer_logs_in by blast
  obtain d'' where c: "DeleteSession calm (HashSessionToken (seToken s)) d' = (Inr (), d'')" using close_calm by blast
  have u: "uuid_cast (coID consumer) = Some (coID consumer)" by (simp add: consumer_def)
  from account_session_lifecycle[OF l u, of "[]" "[]" calm d' calm d'' 0 0] c calm_no_faults l show ?thesis by auto
qed

end
