(* ===== verification/PanelProps.thy ===== *)
theory PanelProps
  imports PanelRouter Sessions
begin

text \<open>
  What holds of every request of the panel: which routes answer without the session of an administrator, and what a
  request without one can do.
\<close>

section \<open>The route table\<close>

definition public_endpoints :: "(string \<times> string) list" where
  "public_endpoints = [(''GET'', ''/healthz''), (''POST'', ''/api/v1/auth/admin/login''),
     (''GET'', ''/api/v1/client/subscription-access''), (''POST'', ''/api/v1/client/handoff/claim''),
     (''POST'', ''/api/v1/nodes/register''), (''POST'', ''/api/v1/nodes/{id}/heartbeat''),
     (''GET'', ''/api/v1/nodes/{id}/config-revisions/pending''), (''POST'', ''/api/v1/nodes/{id}/config-revisions/{revisionId}/report''),
     (''POST'', ''/api/v1/client/devices/register''), (''POST'', ''/api/v1/client/devices/heartbeat''),
     (''DELETE'', ''/api/v1/client/devices/me''), (''POST'', ''/api/v1/traffic/report''),
     (''POST'', ''/api/v1/accounts/register''), (''POST'', ''/api/v1/accounts/login''), (''GET'', ''/api/v1/accounts/me''),
     (''POST'', ''/api/v1/accounts/logout'')]"

definition guarded :: "route \<Rightarrow> bool" where
  "guarded rt \<longleftrightarrow> (rtMethod rt, rtPattern rt) \<in> set public_endpoints \<or> (\<exists>h. rtHandler rt = adminOnly h)"

lemma guarded_admin [simp]: "guarded (admin_route m p h)"
  by (auto simp: guarded_def admin_route_def)

lemma guarded_public: "(m, p) \<in> set public_endpoints \<Longrightarrow> guarded (public_route m p h)"
  by (simp add: guarded_def public_route_def)

lemmas route_tables = auth_routes_def user_routes_def plan_routes_def subscription_routes_def node_routes_def audit_routes_def
  device_routes_def traffic_routes_def rule_routes_def setting_routes_def warp_routes_def profile_routes_def template_routes_def
  account_routes_def

lemma tables_guarded: "list_all guarded panel_routes"
  by (simp add: panel_routes_def route_tables) (simp add: guarded_public public_endpoints_def)

lemma choose_route_in: "choose_route rts = Some rt \<Longrightarrow> rt \<in> set rts"
proof -
  have "foldl (\<lambda>best r. if pattern_prefers (parse_pattern (rtPattern r)) (parse_pattern (rtPattern best)) then r else best) b xs \<in> insert b (set xs)" for b xs
    by (induction xs arbitrary: b) auto
  then show "choose_route rts = Some rt \<Longrightarrow> rt \<in> set rts" by (cases rts) (auto simp: choose_route_def)
qed

lemma find_route_guarded: "find_route c = Some rt \<Longrightarrow> guarded rt"
  using tables_guarded by (auto simp: find_route_def list_all_iff dest!: choose_route_in)

section \<open>Requests without a session\<close>

definition no_session :: "panel_world \<Rightarrow> http_request \<Rightarrow> db \<Rightarrow> bool" where
  "no_session w r d \<longleftrightarrow> (case bearerToken (hqAuthorization r) of None \<Rightarrow> True
     | Some token \<Rightarrow> session_admin (HashSessionToken token) (pg_time (pwNow w)) d = None)"

lemma no_session_path [simp]: "no_session w (r\<lparr> hqPath := p \<rparr>) d = no_session w r d"
  by (simp add: no_session_def)

lemma no_session_found:
  assumes "session_admin h (pg_time t) d = None"
  shows "\<exists>e. FindByActiveSessionTokenHash w h t d = (Inl e, d)"
  using assms by (auto simp: FindByActiveSessionTokenHash_def seqE_def readE_def one_row_def bindE_def split: sum.split)

lemma RequireAdmin_no_session:
  assumes "no_session w r d"
  shows "\<exists>answer event. RequireAdmin h w r d = (answer, d, [event]) \<and> rsStatus answer \<in> {401, 500}"
proof (cases "bearerToken (hqAuthorization r)")
  case None
  then show ?thesis by (simp add: RequireAdmin_def WriteUnauthorized_def WriteError_def)
next
  case (Some token)
  then obtain e where "FindByActiveSessionTokenHash w (HashSessionToken token) (pwNow w) d = (Inl e, d)"
    using assms no_session_found by (fastforce simp: no_session_def)
  then show ?thesis using Some by (simp add: RequireAdmin_def WriteUnauthorized_def internal_error_def WriteError_def)
qed

lemma RecordAll_frame: "(RecordAll ws r es d)\<lparr> dbAudit := x \<rparr> = d\<lparr> dbAudit := x \<rparr>"
proof (induction es arbitrary: ws d)
  case (Cons e es)
  have "(snd (RecordEvent (ws 0) r e d))\<lparr> dbAudit := x \<rparr> = d\<lparr> dbAudit := x \<rparr>"
    by (auto simp: RecordEvent_def alone_def bindE_def Let_def split: sum.split)
  then show ?case using Cons.IH by simp
qed simp

text \<open>
  C5 Sixteen routes are open to nodes, clients, consumers and the login; every other one refuses a request that shows no live
  session of an active administrator, whatever its handler is, and such a request writes nothing but the audit log.
\<close>

theorem no_session_no_access:
  assumes "find_route c = Some rt" and "(rtMethod rt, rtPattern rt) \<notin> set public_endpoints"
    and "no_session (rwWorld ws) (hcRequest c) d"
  shows "rsStatus (fst (serve_mux env ws c d)) \<in> {401, 500} \<and> (snd (serve_mux env ws c d))\<lparr> dbAudit := dbAudit d \<rparr> = d"
proof -
  obtain h where h: "rtHandler rt = adminOnly h" using find_route_guarded[OF assms(1)] assms(2) by (auto simp: guarded_def)
  let ?r = "(hcRequest c)\<lparr> hqPath := the (route_match (hcPath c) rt) \<rparr>"
  obtain answer event where "RequireAdmin (h env ws) (rwWorld ws) ?r d = (answer, d, [event])" "rsStatus answer \<in> {401, 500}"
    using RequireAdmin_no_session[of "rwWorld ws" ?r d "h env ws"] assms(3) by (metis no_session_path)
  then show ?thesis using assms(1) h by (simp only: serve_mux_def adminOnly_def Let_def option.case prod.case fst_conv snd_conv RecordAll_frame) simp
qed

section \<open>The trail of an administrator\<close>

lemma RequireAdmin_session:
  assumes "bearerToken (hqAuthorization r) = Some token" and "session_admin (HashSessionToken token) (pg_time (pwNow w)) d = Some a"
    and "no_faults w"
  shows "\<exists>d1 d2 answer events. h (r\<lparr> hqAdmin := adID a \<rparr>) d1 = (answer, d2, events)
     \<and> RequireAdmin h w r d = (answer, d2, validation_event (adID a) OutcomeSuccess [] # events)"
proof -
  obtain d1 where f: "FindByActiveSessionTokenHash w (HashSessionToken token) (pwNow w) d = (Inr a, d1)"
    using admin_check_answer[OF assms(3) HashSessionToken_text, of token "pwNow w" d] assms(2) by (metis option.simps(5) prod.collapse)
  obtain answer d2 events where "h (r\<lparr> hqAdmin := adID a \<rparr>) d1 = (answer, d2, events)" by (metis prod_cases3)
  then show ?thesis using f assms(1) by (auto simp: RequireAdmin_def)
qed

lemma RecordEvent_keeps_rows: "set (dbAudit d) \<subseteq> set (dbAudit (snd (RecordEvent w r e d)))"
  by (auto simp: RecordEvent_def alone_def bindE_def Let_def split: sum.split)

lemma RecordAll_keeps_rows: "set (dbAudit d) \<subseteq> set (dbAudit (RecordAll ws r es d))"
proof (induction es arbitrary: ws d)
  case (Cons e es)
  then show ?case using RecordEvent_keeps_rows[of d "ws 0" r e] by fastforce
qed simp

lemma event_words: "pg_text [] = Inr []" "pg_text ''admin'' = Inr ''admin''" "pg_text ''admin_session'' = Inr ''admin_session''"
  "pg_text ''admin.session_validation'' = Inr ''admin.session_validation''" "pg_text ''success'' = Inr ''success''"
  by (simp_all add: pg_text_printable)

lemma RecordEvent_done:
  assumes "no_faults w" and "list_all (\<lambda>s. pg_text s = Inr s) (event_texts r e)" and "avChanges e = None"
    and "pwID w ''audit_logs'' \<notin> auID ` set (dbAudit d)"
  shows "audit_entry w r e None \<in> set (dbAudit (snd (RecordEvent w r e d)))"
  using assms by (simp add: RecordEvent_def alone_def no_faults_def stmt_def ensure_def constraints_def)

text \<open>
  C38 A request on a route of administrators that shows a live session leaves a row in the audit log that names the
  administrator and the address the request came from, whatever the handler does with it, and stays there; only a failure
  of the recorder's own statement, or a text the database cannot store, loses it.
\<close>

theorem admin_requests_are_audited:
  assumes "find_route c = Some rt" and "(rtMethod rt, rtPattern rt) \<notin> set public_endpoints"
    and "bearerToken (hqAuthorization (hcRequest c)) = Some token"
    and "session_admin (HashSessionToken token) (pg_time (pwNow (rwWorld ws))) d = Some a"
    and "no_faults (rwWorld ws)" and "no_faults (rwAudit ws 0)"
    and "list_all (\<lambda>s. pg_text s = Inr s) [adID a, request_ip (hcRequest c), hqUserAgent (hcRequest c)]"
    and "r = (hcRequest c)\<lparr> hqPath := the (route_match (hcPath c) rt) \<rparr>"
    and "pwID (rwAudit ws 0) ''audit_logs'' \<notin> auID ` set (dbAudit (fst (snd (rtHandler rt env ws r d))))"
  shows "\<exists>row \<in> set (dbAudit (snd (serve_mux env ws c d))). auActorID row = adID a \<and> auAction row = ''admin.session_validation''
    \<and> auOutcome row = OutcomeSuccess \<and> auIP row = null_if_empty (request_ip (hcRequest c))"
proof -
  obtain h where h: "rtHandler rt = adminOnly h" using find_route_guarded[OF assms(1)] assms(2) by (auto simp: guarded_def)
  let ?r = r
  let ?e = "validation_event (adID a) OutcomeSuccess []"
  obtain d2 answer events where q: "RequireAdmin (h env ws) (rwWorld ws) ?r d = (answer, d2, ?e # events)"
    using RequireAdmin_session[of ?r token "rwWorld ws" d a "h env ws"] assms(3-5,8) by auto
  have ip: "request_ip ?r = request_ip (hcRequest c)" "hqUserAgent ?r = hqUserAgent (hcRequest c)" by (simp_all add: request_ip_def assms(8))
  have texts: "list_all (\<lambda>s. pg_text s = Inr s) (event_texts ?r ?e)"
    using assms(7) ip by (simp add: event_texts_def session_event_def validation_event_def OutcomeSuccess_def event_words)
  have fresh: "pwID (rwAudit ws 0) ''audit_logs'' \<notin> auID ` set (dbAudit d2)"
    using assms(9) h q by (simp add: adminOnly_def)
  have "audit_entry (rwAudit ws 0) ?r ?e None \<in> set (dbAudit (snd (RecordEvent (rwAudit ws 0) ?r ?e d2)))"
    using RecordEvent_done[OF assms(6) texts _ fresh] by (simp add: session_event_def validation_event_def)
  then have "audit_entry (rwAudit ws 0) ?r ?e None \<in> set (dbAudit (snd (serve_mux env ws c d)))"
    using assms(1,8) h q RecordAll_keeps_rows by (fastforce simp: serve_mux_def adminOnly_def Let_def)
  then show ?thesis
    by (rule bexI[rotated]) (simp add: audit_entry_def session_event_def validation_event_def ip)
qed

section \<open>Witness\<close>

definition open_env :: panel_env where
  "open_env = \<lparr> peReality = DefaultRealityConfig, peCollate = (\<lambda>s. s), peLower = (\<lambda>s. s), peInet = Some, peVerify = (=), peDigest = Some,
     peX25519 = Some \<rparr>"

definition calm_worlds :: request_worlds where
  "calm_worlds = \<lparr> rwWorld = calm, rwItems = (\<lambda>_. calm), rwAudit = (\<lambda>_. calm) \<rparr>"

definition list_users :: http_call where
  "list_users = \<lparr> hcMethod = ''GET'', hcPath = [''api'', ''v1'', ''users''], hcOrigin = [], hcRequest = device_call \<rparr>"

lemma list_users_route: "map_option (\<lambda>rt. (rtMethod rt, rtPattern rt)) (find_route list_users) = Some (''GET'', ''/api/v1/users'')"
  by (simp add: find_route_def list_users_def panel_routes_def route_tables serves_method_def admin_route_def public_route_def route_match_def
    parse_pattern_def parse_segment_def has_prefix_def choose_route_def)

lemma no_session_no_access_witness:
  "rsStatus (fst (serve_mux open_env calm_worlds list_users staff_db)) \<in> {401, 500}"
proof -
  obtain rt where rt: "find_route list_users = Some rt" "(rtMethod rt, rtPattern rt) = (''GET'', ''/api/v1/users'')"
    using list_users_route by (cases "find_route list_users") auto
  have "(rtMethod rt, rtPattern rt) \<notin> set public_endpoints" unfolding rt(2) by (simp add: public_endpoints_def)
  moreover have "bearerToken [] = None" by (simp add: bearerToken_def has_prefix_def)
  then have "no_session (rwWorld calm_worlds) (hcRequest list_users) staff_db"
    by (simp add: no_session_def list_users_def device_call_def)
  ultimately show ?thesis using no_session_no_access[OF rt(1)] by blast
qed

text \<open>The owner with a live session asks for the users.\<close>

definition session_db :: db where
  "session_db = staff_db\<lparr> dbSessions := [\<lparr> asID = node_a, asAdminID = node_a, asHash = HashSessionToken ''tok'', asExpiresAt = pwNow calm + second,
     asCreatedAt = 0, asLastSeenAt = 0 \<rparr>] \<rparr>"

definition owner_lists :: http_call where
  "owner_lists = list_users\<lparr> hcRequest := device_call\<lparr> hqAuthorization := ''Bearer tok'' \<rparr> \<rparr>"

lemma users_route:
  assumes "find_route c = Some rt" and "rtMethod rt = ''GET''" and "rtPattern rt = ''/api/v1/users''"
  shows "rtHandler rt = adminOnly (plain users_List)"
proof -
  have "rt \<in> set panel_routes" using assms(1) choose_route_in by (fastforce simp: find_route_def)
  then show ?thesis using assms(2,3)
    by (auto simp: panel_routes_def route_tables admin_route_def public_route_def)
qed

lemma users_List_state: "fst (snd (users_List w r d)) = d"
  by (simp add: users_List_def split: sum.split)

lemma session_lookup_audit: "dbAudit (snd (FindByActiveSessionTokenHash w h t d)) = dbAudit d"
  by (auto simp: FindByActiveSessionTokenHash_def seqE_def readE_def giveE_def alone_def bindE_def split: sum.split)

lemma RequireAdmin_reads:
  assumes "\<And>r d. fst (snd (h r d)) = d"
  shows "dbAudit (fst (snd (RequireAdmin h w r d))) = dbAudit d"
proof (cases "bearerToken (hqAuthorization r)")
  case (Some token)
  obtain x d1 where f: "FindByActiveSessionTokenHash w (HashSessionToken token) (pwNow w) d = (x, d1)" by (cases "FindByActiveSessionTokenHash w (HashSessionToken token) (pwNow w) d")
  then have "dbAudit d1 = dbAudit d" using session_lookup_audit[of w "HashSessionToken token" "pwNow w" d] by simp
  then show ?thesis using Some f assms by (cases x) (simp_all add: RequireAdmin_def case_prod_unfold)
qed (simp add: RequireAdmin_def)

lemma owner_request: "bearerToken ''Bearer tok'' = Some ''tok''" "request_ip (device_call\<lparr> hqAuthorization := a \<rparr>) = ''10.0.0.1''"
  "pg_text ''10.0.0.1'' = Inr ''10.0.0.1''" "pg_text node_a = Inr node_a"
  by (simp_all add: bearerToken_def has_prefix_def trim_prefix_def TrimSpace_graphic request_ip_def device_call_def last_colon_def pg_text_printable
    node_a_def)

lemma admin_requests_are_audited_witness:
  "\<exists>row \<in> set (dbAudit (snd (serve_mux open_env calm_worlds owner_lists session_db))). auActorID row = node_a
     \<and> auIP row = Some ''10.0.0.1''"
proof -
  have same: "find_route owner_lists = find_route list_users" by (simp add: find_route_def owner_lists_def)
  obtain rt where rt: "find_route owner_lists = Some rt" "rtMethod rt = ''GET''" "rtPattern rt = ''/api/v1/users''"
    using list_users_route same by (cases "find_route list_users") auto
  have public: "(rtMethod rt, rtPattern rt) \<notin> set public_endpoints" unfolding rt(2,3) by (simp add: public_endpoints_def)
  have live: "session_admin (HashSessionToken ''tok'') (pg_time (pwNow (rwWorld calm_worlds))) session_db = Some owner"
    by (simp add: session_admin_def session_db_def calm_worlds_def pg_time_def second_def owner_def)
  let ?r = "(hcRequest owner_lists)\<lparr> hqPath := the (route_match (hcPath owner_lists) rt) \<rparr>"
  have "dbAudit (fst (snd (rtHandler rt open_env calm_worlds ?r session_db))) = []"
    using RequireAdmin_reads[of "users_List calm" calm ?r session_db] users_List_state
    by (simp add: users_route[OF rt] adminOnly_def plain_def calm_worlds_def session_db_def staff_db_def empty_db_def)
  then have fresh: "pwID (rwAudit calm_worlds 0) ''audit_logs'' \<notin> auID ` set (dbAudit (fst (snd (rtHandler rt open_env calm_worlds ?r session_db))))"
    by simp
  have token: "bearerToken (hqAuthorization (hcRequest owner_lists)) = Some ''tok''" by (simp add: owner_lists_def owner_request)
  have ip: "request_ip (hcRequest owner_lists) = ''10.0.0.1''" by (simp add: owner_lists_def owner_request)
  have agent: "hqUserAgent (hcRequest owner_lists) = []" by (simp add: owner_lists_def device_call_def)
  have owner: "adID owner = node_a" by (simp add: owner_def)
  have texts: "list_all (\<lambda>s. pg_text s = Inr s) [adID owner, request_ip (hcRequest owner_lists), hqUserAgent (hcRequest owner_lists)]"
    by (simp add: ip agent owner owner_request event_words)
  have calm: "no_faults (rwWorld calm_worlds)" "no_faults (rwAudit calm_worlds 0)" using calm_no_faults by (simp_all add: calm_worlds_def)
  show ?thesis
    using admin_requests_are_audited[OF rt(1) public token live calm texts refl fresh]
    by (simp add: ip owner null_if_empty_def) blast
qed

end
