(* ===== verification/CustomersProps.thy ===== *)
theory CustomersProps
  imports Customers DevicesProps
begin

text \<open>What the suspension of a user means for the rest of the panel.\<close>

lemma update_user_done:
  assumes "update_user u f d = Inr (new, d')" and "\<And>r. urID (f r) = urID r"
  shows "urID new = u \<and> row_with urID u (dbUsers d') = Some new \<and> d' = d\<lparr> dbUsers := dbUsers d' \<rparr>
    \<and> (\<forall>i. i \<noteq> u \<longrightarrow> row_with urID i (dbUsers d') = row_with urID i (dbUsers d))"
proof -
  obtain old where old: "row_with urID u (dbUsers d) = Some old" "new = f old"
    and d': "d' = d\<lparr> dbUsers := upd_where (\<lambda>r. urID r = u) (\<lambda>_. new) (dbUsers d) \<rparr>"
    using assms(1) by (auto simp: update_user_def stmt_simps Let_def)
  have new: "urID new = u" using old assms(2) row_with_SomeD by metis
  have "row_with urID i (upd_where (\<lambda>r. urID r = u) (\<lambda>_. new) rows) = (if i = u then map_option (\<lambda>_. new) (row_with urID i rows) else row_with urID i rows)" for i rows
    using new by (induction rows) auto
  then show ?thesis using old(1) new d' by simp
qed

lemma SetUserStatus_done:
  assumes "SetUserStatus w i status d = (Inr u, d')"
  shows "urStatus u = status \<and> row_with urID (urID u) (dbUsers d') = Some u \<and> d' = d\<lparr> dbUsers := dbUsers d' \<rparr>"
proof -
  obtain t where "update_user t (\<lambda>r. r\<lparr> urStatus := status, urUpdatedAt := pwPgNow w \<rparr>) d = Inr (u, d')"
    using assms unfolding SetUserStatus_def alone_Inr by (auto simp: stmt_simps)
  moreover from this have "urStatus u = status" by (auto simp: update_user_def stmt_simps Let_def)
  ultimately show ?thesis using update_user_done by fastforce
qed

lemma suspended_is_no_input:
  assumes "listConfigSubscriptionInputs w region d = Inr subs" and "row_with urID u (dbUsers d) = Some v" and "urStatus v \<noteq> ''active''"
    and "i \<in> set subs"
  shows "siUserID i \<noteq> u \<and> (\<exists>s \<in> set (dbSubscriptions d). suUserID s \<noteq> u \<and> siSubscriptionID i = suID s)"
  using assms by (force simp: listConfigSubscriptionInputs_def stmt_simps subscription_input_def List.map_filter_def
      split: option.splits if_splits)

lemma created_without_suspended:
  assumes "CreateDummyConfigRevision w reality j d = (Inr sv, d')" and "row_with urID u (dbUsers d) = Some v" and "urStatus v \<noteq> ''active''"
  shows "\<exists>row config inb settings clients. dbRevisions d' = dbRevisions d @ [row] \<and> sv = scanConfigRevision row
    \<and> idx (cvPayload row) ''config'' = AObj config \<and> idx config ''inbounds'' = AArr [AObj inb]
    \<and> idx inb ''settings'' = AObj settings \<and> idx settings ''clients'' = AArr clients
    \<and> (\<forall>c \<in> set clients. \<exists>s \<in> set (dbSubscriptions d). suUserID s \<noteq> u \<and> c = AObj [(''id'', AStr (suID s)),
         (''email'', AStr (''subscription:'' @ suID s)), (''flow'', AStr DefaultVLESSFlow), (''level'', AInt 0)])"
proof -
  obtain k m number subs where c: "listConfigSubscriptionInputs w (ndRegion m) d = Inr subs"
      "store_revision w (cdNodeID j) k number (ndActiveRevision m)
         (RenderVLESSRealityPayloadWithReality (deploy_input (cdNodeID j) number m subs) reality) (cdCreatedBy j) d = Inr (sv, d')"
    using CreateDummy_done [OF assms(1)] by blast
  obtain row where r: "sv = scanConfigRevision row" "put_revisions (dbRevisions d @ [row]) d = Inr d'"
      "cvPayload row = RenderVLESSRealityPayloadWithReality (deploy_input (cdNodeID j) number m subs) reality"
    using store_revision_done [OF c(2)] by blast
  have rows: "dbRevisions d' = dbRevisions d @ [row]" using r(2) by (simp add: put_revisions_Inr)
  have others: "\<exists>s \<in> set (dbSubscriptions d). suUserID s \<noteq> u \<and> c = AObj [(''id'', AStr (suID s)),
      (''email'', AStr (''subscription:'' @ suID s)), (''flow'', AStr DefaultVLESSFlow), (''level'', AInt 0)]"
    if "c \<in> set (map client_of (sortedSubscriptionInputs subs))" for c
  proof -
    have "c \<in> client_of ` set subs" using that by (simp add: sortedSubscriptionInputs_def)
    then obtain i where i: "i \<in> set subs" "c = client_of i" by blast
    show ?thesis using suspended_is_no_input [OF c(1) assms(2,3) i(1)] i(2) by (auto simp: client_of_def)
  qed
  obtain config inb settings where p: "idx (cvPayload row) ''config'' = AObj config" "idx config ''inbounds'' = AArr [AObj inb]"
      "idx inb ''settings'' = AObj settings" "idx settings ''clients'' = AArr (map client_of (sortedSubscriptionInputs subs))"
    unfolding r(3) by (rule rendered_clients)
  from rows r(1) p others show ?thesis by blast
qed

text \<open>
  C7 A suspended user is cut off: whatever token is shown, no access entry is given for a subscription of the user, and the
  next configuration that is created, for whatever node, is rendered from inputs none of which is the user's, so that each
  client it lists is the subscription of another user.  (Configurations created before the suspension are not touched: they
  list the client until a newer one is deployed.)
\<close>

theorem suspended_user_is_cut_off:
  assumes "SetUserStatus w i ''suspended'' d = (Inr u, d')"
  shows "(AccessByToken collate reality w' token d' = Inr acc \<longrightarrow>
      (\<exists>s \<in> set (dbSubscriptions d). suID s = saSubscriptionID acc \<and> suUserID s \<noteq> urID u))
    \<and> (listConfigSubscriptionInputs w'' region d' = Inr subs \<longrightarrow> urID u \<notin> siUserID ` set subs)
    \<and> (CreateDummyConfigRevision w'' reality j d' = (Inr sv, d'') \<longrightarrow>
      (\<exists>row config inb settings clients. dbRevisions d'' = dbRevisions d' @ [row] \<and> sv = scanConfigRevision row
        \<and> idx (cvPayload row) ''config'' = AObj config \<and> idx config ''inbounds'' = AArr [AObj inb]
        \<and> idx inb ''settings'' = AObj settings \<and> idx settings ''clients'' = AArr clients
        \<and> (\<forall>c \<in> set clients. \<exists>s \<in> set (dbSubscriptions d). suUserID s \<noteq> urID u \<and> c = AObj [(''id'', AStr (suID s)),
             (''email'', AStr (''subscription:'' @ suID s)), (''flow'', AStr DefaultVLESSFlow), (''level'', AInt 0)])))"
proof (intro conjI impI)
  have u: "urStatus u = ''suspended''" "row_with urID (urID u) (dbUsers d') = Some u" "dbSubscriptions d' = dbSubscriptions d"
    using SetUserStatus_done[OF assms] by (simp, simp, metis db.select_convs(8) db.surjective db.update_convs(2))
  have out: "urStatus u \<noteq> ''active''" using u(1) by simp
  show "\<exists>s \<in> set (dbSubscriptions d). suID s = saSubscriptionID acc \<and> suUserID s \<noteq> urID u"
    if acc: "AccessByToken collate reality w' token d' = Inr acc"
  proof -
    obtain a :: access_row where "Access collate reality w' (atSubscriptionID a) d' = Inr acc" using acc by (elim AccessByToken_done) blast
    then obtain s v p n where "s \<in> set (dbSubscriptions d')" "row_with urID (suUserID s) (dbUsers d') = Some v" "urStatus v = ''active''"
        "acc = access_export reality s v p n"
      by (rule Access_done)
    then show ?thesis using u by (intro bexI[of _ s]) (auto simp: export_fields)
  qed
  show "urID u \<notin> siUserID ` set subs" if "listConfigSubscriptionInputs w'' region d' = Inr subs"
  proof
    assume "urID u \<in> siUserID ` set subs"
    then obtain i where i: "urID u = siUserID i" "i \<in> set subs" by (rule imageE)
    show False using suspended_is_no_input [OF that u(2) out i(2)] i(1) by simp
  qed
  show "\<exists>row config inb settings clients. dbRevisions d'' = dbRevisions d' @ [row] \<and> sv = scanConfigRevision row
      \<and> idx (cvPayload row) ''config'' = AObj config \<and> idx config ''inbounds'' = AArr [AObj inb]
      \<and> idx inb ''settings'' = AObj settings \<and> idx settings ''clients'' = AArr clients
      \<and> (\<forall>c \<in> set clients. \<exists>s \<in> set (dbSubscriptions d). suUserID s \<noteq> urID u \<and> c = AObj [(''id'', AStr (suID s)),
           (''email'', AStr (''subscription:'' @ suID s)), (''flow'', AStr DefaultVLESSFlow), (''level'', AInt 0)])"
    if "CreateDummyConfigRevision w'' reality j d' = (Inr sv, d'')"
    using created_without_suspended [OF that u(2) out] unfolding u(3) .
qed

section \<open>Witness\<close>

lemma user_a_suspended: "\<exists>u d'. SetUserStatus calm rev_a ''suspended'' shop_db = (Inr u, d') \<and> urID u = rev_a"
  by (simp add: SetUserStatus_def alone_def uuid_param_def update_user_def one_row_def constraints_def user_row_ok_def Let_def)

lemma suspended_user_is_cut_off_witness:
  "\<exists>u d'. SetUserStatus calm rev_a ''suspended'' shop_db = (Inr u, d') \<and> urID u = rev_a
     \<and> (\<forall>acc. AccessByToken (\<lambda>s. s) DefaultRealityConfig calm ''x'' d' \<noteq> Inr acc)
     \<and> (\<forall>subs. listConfigSubscriptionInputs calm ''eu'' d' = Inr subs \<longrightarrow> rev_a \<notin> siUserID ` set subs)"
proof -
  obtain u d' where r: "SetUserStatus calm rev_a ''suspended'' shop_db = (Inr u, d')" and u: "urID u = rev_a"
    using user_a_suspended by blast
  then show ?thesis using suspended_user_is_cut_off[OF r, where w' = calm and collate = "\<lambda>s. s" and w'' = calm and region = "''eu''"] by fastforce
qed

end
