(* ===== verification/SettingsProps.thy ===== *)
theory SettingsProps
  imports Settings NodesWitness
begin

text \<open>
  What is written is what the renderer would read: the typed settings after an update, and no other setting is touched.  The
  typed form does not depend on the order in which the server lists the rows.
\<close>

section \<open>The typed settings by key\<close>

definition setting_field :: "string \<Rightarrow> Resolved \<Rightarrow> any" where
  "setting_field k r = (if k = KeyDefaultRoutingPreset then AStr (rdRoutingPreset r) else if k = KeyEnableWarpOutbound then ABool (rdWarpOutbound r)
     else if k = KeyDefaultSniffing then ABool (rdSniffing r)
     else if k = KeyDefaultFragment then (case rdFragment r of None \<Rightarrow> ANil | Some v \<Rightarrow> v)
     else if k = KeyDefaultLogLevel then AStr (rdLogLevel r) else AArr (map AStr (rdDNSServers r)))"

text \<open>The value a valid JSON value stands for: null is false, no text in a list, or no list.\<close>

definition typed_value :: "string \<Rightarrow> any \<Rightarrow> any" where
  "typed_value k v = (if k = KeyDefaultFragment then v
     else if k = KeyEnableWarpOutbound \<or> k = KeyDefaultSniffing then (if v = ANil then ABool False else v)
     else if k = KeyDefaultDNSServers then (case as_arr v of None \<Rightarrow> AArr [] | Some xs \<Rightarrow> AArr (map (\<lambda>x. if x = ANil then AStr [] else x) xs))
     else v)"

lemma supported_cases:
  assumes "IsSupported k"
  obtains "k = KeyDefaultRoutingPreset" | "k = KeyEnableWarpOutbound" | "k = KeyDefaultSniffing" | "k = KeyDefaultFragment"
    | "k = KeyDefaultLogLevel" | "k = KeyDefaultDNSServers"
proof -
  have "k = KeyDefaultRoutingPreset \<or> k = KeyEnableWarpOutbound \<or> k = KeyDefaultSniffing \<or> k = KeyDefaultFragment
    \<or> k = KeyDefaultLogLevel \<or> k = KeyDefaultDNSServers"
    using assms by (simp add: IsSupported_def SupportedKeys_def)
  then show thesis using that by blast
qed

text \<open>The definitions at each of the six keys.\<close>

lemma fields [simp]: "setting_field KeyDefaultRoutingPreset r = AStr (rdRoutingPreset r)" "setting_field KeyEnableWarpOutbound r = ABool (rdWarpOutbound r)"
  "setting_field KeyDefaultSniffing r = ABool (rdSniffing r)" "setting_field KeyDefaultFragment r = (case rdFragment r of None \<Rightarrow> ANil | Some v \<Rightarrow> v)"
  "setting_field KeyDefaultLogLevel r = AStr (rdLogLevel r)" "setting_field KeyDefaultDNSServers r = AArr (map AStr (rdDNSServers r))"
  by (simp_all add: setting_field_def)

lemma resolved [simp]:
  "resolve_one r (KeyDefaultRoutingPreset, v) = (case unmarshal_str v of Some s \<Rightarrow> if s \<noteq> [] then r\<lparr> rdRoutingPreset := s \<rparr> else r | None \<Rightarrow> r)"
  "resolve_one r (KeyEnableWarpOutbound, v) = (case unmarshal_bool v of Some b \<Rightarrow> r\<lparr> rdWarpOutbound := b \<rparr> | None \<Rightarrow> r)"
  "resolve_one r (KeyDefaultSniffing, v) = (case unmarshal_bool v of Some b \<Rightarrow> r\<lparr> rdSniffing := b \<rparr> | None \<Rightarrow> r)"
  "resolve_one r (KeyDefaultFragment, v) = r\<lparr> rdFragment := Some v \<rparr>"
  "resolve_one r (KeyDefaultLogLevel, v) = (case unmarshal_str v of Some s \<Rightarrow> if s \<noteq> [] then r\<lparr> rdLogLevel := s \<rparr> else r | None \<Rightarrow> r)"
  "resolve_one r (KeyDefaultDNSServers, v) = (case unmarshal_strs v of Some ss \<Rightarrow> r\<lparr> rdDNSServers := ss \<rparr> | None \<Rightarrow> r)"
  by (simp_all add: resolve_one_def)

lemma typed [simp]: "typed_value KeyDefaultRoutingPreset v = v" "typed_value KeyEnableWarpOutbound v = (if v = ANil then ABool False else v)"
  "typed_value KeyDefaultSniffing v = (if v = ANil then ABool False else v)" "typed_value KeyDefaultFragment v = v"
  "typed_value KeyDefaultLogLevel v = v"
  "typed_value KeyDefaultDNSServers v = (case as_arr v of None \<Rightarrow> AArr [] | Some xs \<Rightarrow> AArr (map (\<lambda>x. if x = ANil then AStr [] else x) xs))"
  by (simp_all add: typed_value_def)

lemma valid [simp]:
  "validateValue KeyDefaultRoutingPreset (Some v) = (case unmarshal_str v of None \<Rightarrow> False | Some s \<Rightarrow> s \<noteq> [])"
  "validateValue KeyEnableWarpOutbound (Some v) = (unmarshal_bool v \<noteq> None)"
  "validateValue KeyDefaultSniffing (Some v) = (unmarshal_bool v \<noteq> None)"
  "validateValue KeyDefaultFragment (Some v) = (v = ANil \<or> as_obj v \<noteq> None)"
  "validateValue KeyDefaultLogLevel (Some v) = (case unmarshal_str v of None \<Rightarrow> False | Some s \<Rightarrow> s \<in> {''debug'', ''info'', ''warning'', ''error'', ''none''})"
  "validateValue KeyDefaultDNSServers (Some v) = (unmarshal_strs v \<noteq> None)"
  by (simp_all add: validateValue_def)

lemma text_value: "unmarshal_str v = Some s \<Longrightarrow> s \<noteq> [] \<Longrightarrow> v = AStr s"
  by (cases v) (auto simp: unmarshal_str_def)

lemma bool_value: "unmarshal_bool v = Some b \<Longrightarrow> (if v = ANil then ABool False else v) = ABool b \<and> jsonb_norm v = v"
  by (cases v) (auto simp: unmarshal_bool_def)

lemma field_other: "IsSupported k \<Longrightarrow> k' \<noteq> k \<Longrightarrow> setting_field k (resolve_one r (k', v)) = setting_field k r"
  by (erule supported_cases) (auto simp: setting_field_def resolve_one_def split: option.splits)

lemma field_same: "IsSupported k \<Longrightarrow> setting_field k r = setting_field k r' \<Longrightarrow> setting_field k (resolve_one r (k, v)) = setting_field k (resolve_one r' (k, v))"
  by (erule supported_cases) (auto simp: setting_field_def resolve_one_def split: option.splits)

lemma field_resolve:
  assumes "IsSupported k" and "distinct (map gsKey rows)"
  shows "setting_field k (foldl (\<lambda>r s. resolve_one r (gsKey s, gsValue s)) r0 rows)
    = (case row_with gsKey k rows of None \<Rightarrow> setting_field k r0 | Some s \<Rightarrow> setting_field k (resolve_one r0 (k, gsValue s)))"
  using assms(2)
proof (induction rows arbitrary: r0)
  case (Cons s rows)
  show ?case
  proof (cases "gsKey s = k")
    case True
    then have "row_with gsKey k rows = None" using Cons.prems by (auto simp: row_with_None)
    then show ?thesis using Cons True by simp
  next
    case False
    then have "setting_field k (resolve_one r0 (gsKey s, gsValue s)) = setting_field k r0" by (simp add: field_other assms(1))
    from this field_same[OF assms(1) this]
    show ?thesis using Cons.IH[of "resolve_one r0 (gsKey s, gsValue s)"] Cons.prems False by (simp cong: option.case_cong)
  qed
qed simp

lemma row_with_sort: "distinct (map key rows) \<Longrightarrow> row_with key k (sort_key c rows) = row_with key k rows"
proof -
  assume d: "distinct (map key rows)"
  then have s: "distinct (map key (sort_key c rows))" by (metis distinct_map distinct_sort set_sort)
  show ?thesis
  proof (cases "row_with key k rows")
    case None
    then have "row_with key k (sort_key c rows) = None" unfolding row_with_None by simp
    then show ?thesis using None by simp
  next
    case (Some r)
    then show ?thesis using row_with_distinct[OF s, of r] row_with_SomeD[OF Some] by simp
  qed
qed

section \<open>An update\<close>

lemma all_some_strs: "all_some (map unmarshal_str xs) = Some ss \<Longrightarrow> map (\<lambda>x. if x = ANil then AStr [] else x) xs = map AStr ss"
proof (induction xs arbitrary: ss)
  case (Cons x xs)
  then show ?case by (cases x) (auto simp: unmarshal_str_def split: option.splits)
qed simp

lemma list_value: "unmarshal_strs v = Some ss \<Longrightarrow>
  (case as_arr v of None \<Rightarrow> AArr [] | Some xs \<Rightarrow> AArr (map (\<lambda>x. if x = ANil then AStr [] else x) xs)) = AArr (map AStr ss)"
  by (cases v) (auto simp: unmarshal_strs_def all_some_strs)

lemma jsonb_norm_texts: "all_some (map unmarshal_str xs) = Some ss \<Longrightarrow> map jsonb_norm xs = xs"
proof (induction xs arbitrary: ss)
  case (Cons x xs)
  then show ?case by (cases x) (auto simp: unmarshal_str_def split: option.splits)
qed simp

lemma list_kept: "unmarshal_strs v = Some ss \<Longrightarrow> jsonb_norm v = v"
  by (cases v) (auto simp: unmarshal_strs_def jsonb_norm_texts)

lemma valid_value_typed:
  assumes "IsSupported k" and "validateValue k (Some v)"
  shows "setting_field k (resolve_one r (k, v)) = typed_value k v"
  using assms(1)
proof (cases rule: supported_cases)
  case 1
  then obtain s where "unmarshal_str v = Some s" "s \<noteq> []" using assms(2) by (auto split: option.splits)
  then show ?thesis using text_value[of v s] unfolding 1 by simp
next
  case 2
  then obtain b where "unmarshal_bool v = Some b" using assms(2) by auto
  then show ?thesis using bool_value[of v b] unfolding 2 by simp
next
  case 3
  then obtain b where "unmarshal_bool v = Some b" using assms(2) by auto
  then show ?thesis using bool_value[of v b] unfolding 3 by simp
next
  case 4
  then show ?thesis by simp
next
  case 5
  then obtain s where "unmarshal_str v = Some s" "s \<noteq> []" using assms(2) by (auto split: option.splits)
  then show ?thesis using text_value[of v s] unfolding 5 by simp
next
  case 6
  then obtain ss where "unmarshal_strs v = Some ss" using assms(2) by auto
  then show ?thesis using list_value[of v ss] unfolding 6 by simp
qed

text \<open>What the column keeps of a valid value: all of it, but for a fragment object the last member of each key.\<close>

lemma valid_value_kept:
  assumes "IsSupported k" and "validateValue k (Some v)" and "k \<noteq> KeyDefaultFragment"
  shows "jsonb_norm v = v"
  using assms(1)
proof (cases rule: supported_cases)
  case 1
  then obtain s where "unmarshal_str v = Some s" "s \<noteq> []" using assms(2) by (auto split: option.splits)
  then show ?thesis using text_value by fastforce
next
  case 2
  then show ?thesis using assms(2) bool_value by auto
next
  case 3
  then show ?thesis using assms(2) bool_value by auto
next
  case 4
  then show ?thesis using assms(3) by simp
next
  case 5
  then obtain s where "unmarshal_str v = Some s" "s \<noteq> []" using assms(2) by (auto split: option.splits)
  then show ?thesis using text_value by fastforce
next
  case 6
  then show ?thesis using assms(2) list_kept by auto
qed

lemma supported_varchar: "IsSupported k \<Longrightarrow> varchar 100 k = Inr k"
  by (erule supported_cases; hypsubst; code_simp)

lemma put_setting_done:
  assumes "put_setting w k v a rows = (s, rows')" and "distinct (map gsKey rows)"
  shows "distinct (map gsKey rows') \<and> row_with gsKey k rows' = Some s \<and> gsValue s = v
    \<and> (\<forall>j. j \<noteq> k \<longrightarrow> row_with gsKey j rows' = row_with gsKey j rows)"
proof (cases "row_with gsKey k rows")
  case None
  then have "k \<notin> gsKey ` set rows" by (simp add: row_with_None)
  then show ?thesis using assms None by (auto simp: put_setting_def Let_def row_with_append split: option.splits)
next
  case (Some old)
  then have s: "s = old\<lparr> gsValue := v, gsUpdatedBy := Some a, gsUpdatedAt := pwPgNow w \<rparr>" and rows': "rows' = upd_where (\<lambda>r. gsKey r = k) (\<lambda>_. s) rows"
    using assms(1) by (auto simp: put_setting_def Let_def)
  have k: "gsKey s = k" using row_with_SomeD[OF Some] by (simp add: s)
  have "row_with gsKey j (upd_where (\<lambda>r. gsKey r = k) (\<lambda>_. s) rs) = (if j = k then map_option (\<lambda>_. s) (row_with gsKey k rs) else row_with gsKey j rs)" for j rs
    using k by (induction rs) auto
  moreover have "map gsKey rows' = map gsKey rows" unfolding rows' using k by (intro map_key_upd_where) auto
  ultimately show ?thesis using Some assms(2) by (simp add: rows' s)
qed

lemma SetSetting_done:
  assumes "UpdateSetting w k (Some v) admin d = (Inr s, d')" and "distinct (map gsKey (dbSettings d))"
  shows "IsSupported k \<and> validateValue k (Some v) \<and> distinct (map gsKey (dbSettings d')) \<and> row_with gsKey k (dbSettings d') = Some s
    \<and> gsValue s = jsonb_norm v \<and> (\<forall>j. j \<noteq> k \<longrightarrow> row_with gsKey j (dbSettings d') = row_with gsKey j (dbSettings d))"
proof -
  have g: "IsSupported k" "validateValue k (Some v)" "repo_SetSetting w k v admin d = (Inr s, d')"
    using assms(1) by (auto simp: UpdateSetting_def seqE_def guardE_def split: if_splits)
  obtain val a rows where v: "jsonb v = Inr val" and p: "put_setting w k val a (dbSettings d) = (s, rows)" and d': "d' = d\<lparr> dbSettings := rows \<rparr>"
    using g(3) supported_varchar[OF g(1)] unfolding repo_SetSetting_def alone_Inr by (auto simp: stmt_simps split: prod.splits) (metis surj_pair)
  have "val = jsonb_norm v" using v by (simp add: jsonb_def split: if_splits)
  then show ?thesis using put_setting_done[OF p assms(2)] g(1,2) by (simp add: d')
qed

lemma GetResolved_field:
  assumes "IsSupported j" and "distinct (map gsKey (dbSettings d))" and "\<not> pwFault w ''select settings''"
  shows "setting_field j (fst (GetResolved collate w d)) = (case row_with gsKey j (dbSettings d) of None \<Rightarrow> setting_field j DefaultResolved
    | Some s \<Rightarrow> setting_field j (resolve_one DefaultResolved (j, gsValue s)))"
proof -
  let ?rows = "sort_key (\<lambda>s. collate (gsKey s)) (dbSettings d)"
  have "distinct (map gsKey ?rows)" using assms(2) by (metis distinct_map distinct_sort set_sort)
  moreover have "fst (GetResolved collate w d) = Resolve ?rows"
    using assms(3) by (simp add: GetResolved_def repo_ListSettings_def stmt_def ensure_def)
  ultimately show ?thesis using field_resolve[OF assms(1), of ?rows DefaultResolved] row_with_sort[OF assms(2), of j "\<lambda>s. collate (gsKey s)"] by (simp add: Resolve_def)
qed

lemma norm_valid: "IsSupported k \<Longrightarrow> validateValue k (Some v) \<Longrightarrow> validateValue k (Some (jsonb_norm v))"
proof (cases "k = KeyDefaultFragment")
  case True
  then show "validateValue k (Some v) \<Longrightarrow> validateValue k (Some (jsonb_norm v))"
    by (cases v) (auto simp: validateValue_def)
next
  case False
  then show "IsSupported k \<Longrightarrow> validateValue k (Some v) \<Longrightarrow> validateValue k (Some (jsonb_norm v))"
    using valid_value_kept by metis
qed

text \<open>
  C40 After an update of a setting the typed settings hold the value that was given, whatever the order of the rows, and every
  other setting is as it was.
\<close>

theorem setting_update_resolves:
  assumes "UpdateSetting w k (Some v) admin d = (Inr s, d')" and "distinct (map gsKey (dbSettings d))"
    and "\<not> pwFault w' ''select settings''" and "IsSupported j"
  shows "setting_field j (fst (GetResolved collate w' d'))
      = (if j = k then typed_value k (jsonb_norm v) else setting_field j (fst (GetResolved collate w' d)))
    \<and> (k \<noteq> KeyDefaultFragment \<longrightarrow> jsonb_norm v = v)"
proof -
  note u = SetSetting_done[OF assms(1,2)]
  have "setting_field k (resolve_one DefaultResolved (k, jsonb_norm v)) = typed_value k (jsonb_norm v)"
    using u norm_valid valid_value_typed by metis
  then show ?thesis
    using u valid_value_kept GetResolved_field[OF assms(4) _ assms(3), of d' collate] GetResolved_field[OF assms(4) assms(2,3), of collate]
    by auto
qed

section \<open>Witness\<close>

definition setting_db :: db where
  "setting_db = empty_db\<lparr> dbAdmins := [\<lparr> adID = node_a, adEmail = ''a@b'', adPasswordHash = ''pw'', adStatus = ''active'', adTwoFactor = False,
     adCreatedAt = 0, adUpdatedAt = 0, adLastLoginAt = None \<rparr>] \<rparr>"

lemma setting_written: "\<exists>s d'. UpdateSetting calm KeyDefaultLogLevel (Some (AStr ''debug'')) node_a setting_db = (Inr s, d')"
proof -
  have "varchar 100 KeyDefaultLogLevel = Inr KeyDefaultLogLevel" "jsonb (AStr ''debug'') = Inr (AStr ''debug'')"
    "IsSupported KeyDefaultLogLevel" "validateValue KeyDefaultLogLevel (Some (AStr ''debug''))"
    by code_simp+
  then show ?thesis
    by (simp add: UpdateSetting_def seqE_def guardE_def repo_SetSetting_def alone_def uuid_param_def constraints_def put_setting_def Let_def
      setting_db_def empty_db_def)
qed

lemma setting_update_resolves_witness:
  "\<exists>s d'. UpdateSetting calm KeyDefaultLogLevel (Some (AStr ''debug'')) node_a setting_db = (Inr s, d')
     \<and> setting_field KeyDefaultLogLevel (fst (GetResolved (\<lambda>s. s) calm d')) = AStr ''debug''"
proof -
  obtain s d' where u: "UpdateSetting calm KeyDefaultLogLevel (Some (AStr ''debug'')) node_a setting_db = (Inr s, d')"
    using setting_written by blast
  have "IsSupported KeyDefaultLogLevel" "distinct (map gsKey (dbSettings setting_db))" by (simp add: IsSupported_def SupportedKeys_def)
    (simp add: setting_db_def empty_db_def)
  from setting_update_resolves[OF u this(2) _ this(1), of calm "\<lambda>s. s"] u show ?thesis by (simp add: typed_value_def)
qed

end
