(* ===== verification/Spec2Isabelle.thy ===== *)
theory Spec2Isabelle
  imports ConfigProps RestoredAgent NodesAgentHandler SubsWitness SubsHandler TrafficHandler TrafficWitness
    SupervisorProps AgentApp TemplatesProps PanelProps CustomersProps SettingsProps
begin

text \<open>
  Lenker: a panel and the agents of its nodes.

  The panel (\<open>services/panel-api\<close>) is an HTTP server over a PostgreSQL database.  Administrators keep users, plans,
  subscriptions, nodes and their settings there; a node is invited with a bootstrap token, registers, sends heartbeats,
  asks for its pending configuration revision and reports what became of it; a client shows a subscription's token and
  is given an access entry; a consumer has an account of his own.  A deployment renders an Xray configuration from a node
  and the live subscriptions of its region, checks it, hashes and signs it, and stores it as the next revision.  The
  agent (\<open>services/node-agent\<close>) polls for that revision, checks hash, signature, order and content, stages it, has
  Xray test it, activates it on its disk, starts the Xray process, and counts traffic that it reports to the panel.

  The development translates the Go code of both services into functions and proves what they promise.  Theories are in
  the order of their imports; the paths below are under \<open>services/panel-api/internal\<close> for the panel and under
  \<open>services/node-agent/internal\<close> for the agent.

  Ground.  \<open>Prelude\<close>: strings as byte lists, UTF-8, fallible results as sums, lists of rows (\<open>row_with\<close>,
  \<open>upd_where\<close>).  \<open>Json\<close>: Go's \<open>any\<close> as a datatype, the type assertions on it, marshalling and decoding.
  \<open>Crypto\<close>: SHA-256, HMAC and hexadecimal on words.  \<open>GoTime\<close>, \<open>GoText\<close>, \<open>Urls\<close>: what the services use of
  packages time, strconv and net/url, with the round trips of their printers and readers.  \<open>PanelDb\<close>: the tables, the
  errors, statements, transactions and the constraints of \<open>migrations\<close>.  \<open>PgSteps\<close>: text parameters of columns, and
  invariants of operations that commit statement by statement.

  Configurations.  \<open>Render\<close> (\<open>configrender/xray.go\<close>), \<open>Validate\<close> (\<open>configrender/validate.go\<close>), \<open>Bundle\<close>
  (\<open>configbundle/bundle.go\<close>) and \<open>AgentValidate\<close> (the agent's \<open>agent/xray_validator.go\<close>).  \<open>ConfigSchema\<close> states
  when a payload is a configuration, independent of the order of checks; both validators are proved to decide their
  instance of it.  \<open>RenderProps\<close> and \<open>ConfigProps\<close>: which inputs render to a valid payload, where the validators
  differ, what a signature binds.

  The agent.  \<open>AgentTypes\<close>, \<open>AgentRuntime\<close>, \<open>AgentService\<close> and \<open>AgentApply\<close> (\<open>agent/model.go\<close>,
  \<open>runtime.go\<close>, \<open>service.go\<close>, with the dry run's outcome): a service is its identity, status, revisions and the disk,
  and an operation maps a world and a service to a result and a service, files included.  \<open>AgentProps\<close>,
  \<open>AgentFiles\<close>, \<open>AgentRestore\<close>, \<open>AgentTheorems\<close> and \<open>AgentRestart\<close>: the step relation of the calls and its
  invariant, what an apply keeps and activates, and that a restart restores it.  \<open>AgentClient\<close>
  (\<open>agent/client.go\<close>) is the agent's side of the HTTP interface.  \<open>AgentTraffic\<close> (\<open>traffic\<close>) collects Xray's
  counters.  \<open>AgentSupervisor\<close> (\<open>agent/xray_supervisor.go\<close>) is a machine of atomic steps, of the calls, of the
  supervising goroutines and of the operating system; \<open>SupervisorProps\<close> proves, for
  calls that come one at a time, one child at most and that blocked calls return after a bounded number of its steps, and
  shows by runs what calls that overlap lead to.  \<open>AgentApp\<close> is the process: \<open>config/config.go\<close>, the
  endpoints, the dry run's command (\<open>agent/xray_dryrun.go\<close>) and the rounds of the loops of \<open>app/app.go\<close>.

  Nodes and revisions.  \<open>NodesStore\<close>, \<open>NodesLifecycle\<close>, \<open>NodesRevisions\<close> (\<open>storage/nodes.go\<close>), \<open>HttpApi\<close>
  (\<open>http/response.go\<close>, request decoding), \<open>NodesHandler\<close> and \<open>NodesAgentHandler\<close> (\<open>nodes/handler.go\<close>).
  \<open>NodesProps\<close>, \<open>NodesTheorems\<close> and \<open>RevisionTheorems\<close>: the invariant of the store over all sequences of
  requests, the lifecycle and the log of revisions as refinements, the rules of tokens and reports.  \<open>Delivery\<close>,
  \<open>WireProps\<close>, \<open>EndToEnd\<close> and \<open>RoundTrip\<close>: what the panel signs is what the agent accepts, through the database,
  the HTTP server and the client, and the report comes back into the panel's tables.  \<open>RestoredAgent\<close>: an agent without its
  state file, whose heartbeats the panel refuses.

  Subscriptions.  \<open>SubsStore\<close>, \<open>SubsTokens\<close> (\<open>storage/subscriptions.go\<close>) and \<open>SubsHandler\<close>
  (\<open>subscriptions/handler.go\<close>).  \<open>SubsProps\<close>, \<open>SubsAccess\<close>, \<open>SubsConfig\<close> and \<open>SubsTheorems\<close>: tables of
  one-time secrets as one contract, who is given access to what, and that the access entry names the client and the
  endpoint of the deployed configuration.

  Traffic.  \<open>TrafficStore\<close>, \<open>TrafficService\<close> (\<open>traffic\<close>) and \<open>TrafficHandler\<close> (\<open>handlers/traffic.go\<close>), with
  64-bit sums and the range checks of the server.  \<open>TrafficProps\<close>, \<open>TrafficTheorems\<close>, \<open>TrafficQuotas\<close> and
  \<open>TrafficFlow\<close>: the collector against a reference, reports as ledger entries, typed tables, the guards of
  the service against the constraints of the tables, quotas, and the way of a counter through the whole system.

  The rest of the panel.  \<open>Devices\<close> (\<open>devices\<close>), \<open>Routing\<close> (\<open>routing\<close>), \<open>Settings\<close> (\<open>settings\<close>),
  \<open>Customers\<close> (\<open>storage/users.go\<close>, \<open>storage/plans.go\<close>, \<open>users\<close>, \<open>plans\<close>), \<open>Warp\<close> (\<open>warp\<close>),
  \<open>Profiles\<close> (\<open>profiles\<close>), \<open>Templates\<close> (\<open>subscription_templates\<close>), \<open>Auth\<close> (\<open>auth\<close>,
  \<open>storage/admins.go\<close>), \<open>Accounts\<close> (\<open>accounts\<close>, \<open>storage/accounts.go\<close>), \<open>AuditLogs\<close> (\<open>audit\<close>) and
  \<open>PanelConfig\<close> (\<open>config\<close>, \<open>devbootstrap\<close>, \<open>app\<close>).  \<open>PanelRouter\<close> (\<open>http\<close> and every
  \<open>RegisterRoutes\<close>) composes all handlers into one function of requests.  \<open>DevicesProps\<close>, \<open>SettingsProps\<close>,
  \<open>CustomersProps\<close>, \<open>TemplatesProps\<close>, \<open>Sessions\<close> and \<open>PanelProps\<close>: device limits, typed settings, suspended
  users, system templates, the contract of sessions that administrators and accounts both keep, and what a request
  without a session, or with one, does to the panel.  The theories named \<open>...Witness\<close>, and the last section of the
  others, apply the theorems to small installations.

  How the code is represented.  A handler maps a world, a request and the database to an answer, the database afterwards
  and the audit events.  A world (\<open>panel_world\<close>) holds what one request finds outside the program: the clocks of the
  process and of the server, fresh identifiers, random bytes, and the statements that fail.  A statement changes its
  tables or fails; a transaction (\<open>in_tx\<close>) keeps nothing of a failed run; code that commits statement by statement
  (\<open>seqE\<close>, \<open>alone\<close>) keeps what came before the failure.  Errors are values of \<open>storage_error\<close>; a panic of the Go
  runtime is the error \<open>ErrPanic\<close>.  Integers are unbounded where the code or its columns check their range and wrap at 64 bits
  where the code sums without a check.  No definition needs fuel: loops over finite data are structural, the others
  come with a measure (such as \<open>strip_left\<close>, \<open>duration_sum\<close>, \<open>search_year\<close>, \<open>runes\<close>); the endless loops of the agent and
  of the supervisor are sequences of rounds and steps, and that a call returns is proved as a bound on steps.

  Interfaces.  \<open>process_runner\<close> and \<open>runtime_supervisor\<close> (AgentRuntime), \<open>event_system\<close> and \<open>stable_view\<close>
  (NodesProps), \<open>token_table\<close> (SubsProps), \<open>session_store\<close> and \<open>closable_sessions\<close> (Sessions) are locales, each
  interpreted on the code's own definitions.

  Assumptions.  The database serves one statement at a time, in a session in UTC, and \<open>now()\<close> is fixed in a transaction.
  Rows with equal sort keys are listed in stored order.  Requests are served one after the other, except where a theorem
  states an interleaving.  JSON bodies have no two keys that differ only in case.  Paths that the HTTP server matches
  have no empty segment.  Audit events are stored after the handler has run.
  PostgreSQL's refusal of a text with a NUL byte or invalid UTF-8 (\<open>pg_text\<close>) is modelled for the text columns outside
  \<open>storage/nodes.go\<close>; the statements on nodes, their tokens and revisions accept such a text in the model.  Parameters stand for code that is not in
  the repository: bcrypt (\<open>verify\<close>, \<open>digest\<close>), curve25519 (\<open>x25519\<close>), the server's reading of addresses
  (\<open>inet\<close>), its collation (\<open>collate\<close>), Unicode's lower case and letters beyond ASCII, the connection between
  agent and panel, and the commands the agent runs.  A theorem that needs a law of one of them names it as a hypothesis.

  Not modelled.  The two \<open>main\<close> functions, signals and exit codes, listeners, tickers and timeouts are I/O around the
  modelled functions.  The request logger and all log lines change no state.  \<open>rbac\<close> always allows and is not called;
  \<open>admins/handler.go\<close> registers no route.  Constructors and interfaces of Go that only store their arguments have no
  counterpart, as dependencies are arguments here.  The migrations are represented by the constraints and defaults the
  statements meet, not as SQL.  The web application (\<open>apps\<close>), deployment files, scripts and documents are not Go.
\<close>

end
